(* ===== verification/Prelude.thy ===== *)
theory Prelude
  imports Complex_Main "HOL-Library.AList"
begin

text \<open>
  Shared base of the development: the Python values, exceptions, dictionaries, strings,
  decimals and effects the components use, with the generic lemmas about them.

  \<^item> A Python \<^verbatim>\<open>str\<close> is a \<^typ>\<open>string\<close> whose characters are code points up to U+00FF;
    \<open>utf8_len\<close> counts the bytes of its UTF-8 encoding.
  \<^item> A Python \<^verbatim>\<open>dict\<close> keeps its insertion order, so it is an association list with distinct
    keys; \<^const>\<open>AList.update\<close> is the item assignment (in place for a present key, at the
    end for a new one), \<^const>\<open>map_of\<close> the lookup.
  \<^item> \<open>pyval\<close> is the universe of the dynamically typed payloads (\<^verbatim>\<open>Mapping[str, object]\<close>);
    \<open>py_eq\<close> is Python's \<^verbatim>\<open>==\<close> on it (numbers compare across \<^verbatim>\<open>bool\<close>, \<^verbatim>\<open>int\<close> and
    \<^verbatim>\<open>float\<close>, dictionaries regardless of order).
  \<^item> A fallible pure function returns \<open>exn + 'a\<close>; an effectful one is a function
    \<open>'s \<Rightarrow> (exn + 'a) \<times> 's\<close>, which keeps the state at the point of a raise, as Python does.
\<close>

named_theorems keeps_rules \<open>preservation of an invariant through the effect combinators\<close>
named_theorems effect_simps \<open>unfolding of the effect combinators\<close>
named_theorems dict_simps \<open>lookups in updated dictionaries\<close>

section \<open>Dictionaries\<close>

type_synonym ('k, 'v) odict = "('k \<times> 'v) list"

abbreviation od_put :: "'k \<Rightarrow> 'v \<Rightarrow> ('k, 'v) odict \<Rightarrow> ('k, 'v) odict" where
  "od_put \<equiv> AList.update"

abbreviation od_keys :: "('k, 'v) odict \<Rightarrow> 'k list" where
  "od_keys d \<equiv> map fst d"

abbreviation od_ok :: "('k, 'v) odict \<Rightarrow> bool" where
  "od_ok d \<equiv> distinct (map fst d)"

declare map_of_eq_Some_iff [simp del] Some_eq_map_of_iff [simp del]

definition od_setdefault :: "'k \<Rightarrow> 'v \<Rightarrow> ('k, 'v) odict \<Rightarrow> ('k, 'v) odict" where
  "od_setdefault k v d = (case map_of d k of None \<Rightarrow> d @ [(k, v)] | Some _ \<Rightarrow> d)"

lemma map_of_put [simp, dict_simps]: "map_of (od_put k v d) x = (if x = k then Some v else map_of d x)"
  by (simp add: update_conv')

lemma od_ok_put [simp, intro]: "od_ok d \<Longrightarrow> od_ok (od_put k v d)"
  by (rule distinct_update)

lemma od_keys_put: "set (od_keys (od_put k v d)) = insert k (set (od_keys d))"
  by (induction d) auto

lemma od_put_new: "map_of d k = None \<Longrightarrow> od_put k v d = d @ [(k, v)]"
  by (induction d) (auto split: if_splits)

lemma set_od_put_subset: "set (od_put k v d) \<subseteq> insert (k, v) (set d)"
  by (induction d) auto

lemma set_od_put:
  "od_ok d \<Longrightarrow> set (od_put k v d) = insert (k, v) {p \<in> set d. fst p \<noteq> k}"
proof (induction d)
  case Nil
  then show ?case by simp
next
  case (Cons p d)
  then show ?case
    by (cases p) (auto simp: rev_image_eqI)
qed

lemma map_of_setdefault [simp, dict_simps]:
  "map_of (od_setdefault k v d) x =
     (case map_of d x of None \<Rightarrow> (if x = k then Some v else None) | Some w \<Rightarrow> Some w)"
  by (auto simp: od_setdefault_def map_add_def split: option.splits)

lemma od_ok_setdefault [simp, intro]: "od_ok d \<Longrightarrow> od_ok (od_setdefault k v d)"
  by (auto simp: od_setdefault_def map_of_eq_None_iff split: option.splits)

lemma map_of_mem: "od_ok d \<Longrightarrow> (k, v) \<in> set d \<Longrightarrow> map_of d k = Some v"
  by (simp add: map_of_eq_Some_iff)

lemma map_of_filter_Some:
  "od_ok d \<Longrightarrow> map_of (filter P d) k = Some v \<longleftrightarrow> map_of d k = Some v \<and> P (k, v)"
  by (simp add: map_of_eq_Some_iff distinct_map_filter)

section \<open>Dynamic values\<close>

datatype pyval =
    PNone
  | PBool bool
  | PInt int
  | PFloat rat
  | PStr string
  | PList "pyval list"
  | PTuple "pyval list"
  | PDict "(string \<times> pyval) list"

type_synonym ident = string

type_synonym pydict = "(string \<times> pyval) list"

definition py_num :: "pyval \<Rightarrow> rat option" where
  "py_num v = (case v of
       PBool b \<Rightarrow> Some (of_bool b)
     | PInt i \<Rightarrow> Some (of_int i)
     | PFloat r \<Rightarrow> Some r
     | _ \<Rightarrow> None)"

fun py_eq :: "pyval \<Rightarrow> pyval \<Rightarrow> bool"
  and py_eqs :: "pyval list \<Rightarrow> pyval list \<Rightarrow> bool"
  and py_items :: "pydict \<Rightarrow> pydict \<Rightarrow> bool"
where
  "py_eq (PList xs) b = (case b of PList ys \<Rightarrow> py_eqs xs ys | _ \<Rightarrow> False)"
| "py_eq (PTuple xs) b = (case b of PTuple ys \<Rightarrow> py_eqs xs ys | _ \<Rightarrow> False)"
| "py_eq (PDict xs) b =
     (case b of PDict ys \<Rightarrow> length xs = length ys \<and> py_items xs ys | _ \<Rightarrow> False)"
| "py_eq (PStr s) b = (b = PStr s)"
| "py_eq PNone b = (b = PNone)"
| "py_eq (PBool x) b = (py_num (PBool x) = py_num b)"
| "py_eq (PInt x) b = (py_num (PInt x) = py_num b)"
| "py_eq (PFloat x) b = (py_num (PFloat x) = py_num b)"
| "py_eqs [] ys = (ys = [])"
| "py_eqs (x # xs) ys = (case ys of [] \<Rightarrow> False | y # ys' \<Rightarrow> py_eq x y \<and> py_eqs xs ys')"
| "py_items [] ys = True"
| "py_items ((k, v) # xs) ys =
     ((case map_of ys k of None \<Rightarrow> False | Some w \<Rightarrow> py_eq v w) \<and> py_items xs ys)"

text \<open>A well-formed value has distinct keys in every dictionary inside it.\<close>

fun py_wf :: "pyval \<Rightarrow> bool" where
  "py_wf (PList xs) = list_all py_wf xs"
| "py_wf (PTuple xs) = list_all py_wf xs"
| "py_wf (PDict d) = (distinct (map fst d) \<and> list_all (\<lambda>p. py_wf (snd p)) d)"
| "py_wf _ = True"

lemma py_eqs_reflI: "(\<And>x. x \<in> set xs \<Longrightarrow> py_eq x x) \<Longrightarrow> py_eqs xs xs"
  by (induction xs) auto

lemma py_itemsI:
  "(\<And>k v. (k, v) \<in> set xs \<Longrightarrow> \<exists>w. map_of ys k = Some w \<and> py_eq v w) \<Longrightarrow> py_items xs ys"
  by (induction xs) (fastforce split: option.splits)+

lemma py_eq_refl [simp]: "py_wf v \<Longrightarrow> py_eq v v"
proof (induction v)
  case (PDict d)
  then have "py_items d d"
    by (intro py_itemsI) (force simp: list_all_iff)
  then show ?case by simp
qed (auto simp: list_all_iff intro: py_eqs_reflI)

lemma py_items_lookup: "py_items xs ys \<Longrightarrow> (k, v) \<in> set xs \<Longrightarrow> \<exists>w. map_of ys k = Some w \<and> py_eq v w"
  by (induction xs) (auto split: option.splits)

text \<open>
  The reads the source makes of a \<^verbatim>\<open>Mapping\<close>: \<^verbatim>\<open>d.get(k)\<close>, \<^verbatim>\<open>set(d)\<close> and the
  \<^verbatim>\<open>isinstance\<close> tests. \<^verbatim>\<open>bool\<close> is a subclass of \<^verbatim>\<open>int\<close>.
\<close>

definition pget :: "pydict \<Rightarrow> string \<Rightarrow> pyval" where
  "pget d k = (case map_of d k of None \<Rightarrow> PNone | Some v \<Rightarrow> v)"

definition keys_are :: "pydict \<Rightarrow> string list \<Rightarrow> bool" where
  "keys_are d ks \<longleftrightarrow> set (map fst d) = set ks"

fun as_str :: "pyval \<Rightarrow> string option" where
  "as_str (PStr s) = Some s"
| "as_str _ = None"

fun as_map :: "pyval \<Rightarrow> pydict option" where
  "as_map (PDict d) = Some d"
| "as_map _ = None"

fun as_int :: "pyval \<Rightarrow> int option" where
  "as_int (PInt i) = Some i"
| "as_int (PBool b) = Some (of_bool b)"
| "as_int _ = None"

definition opt_str :: "string option \<Rightarrow> pyval" where
  "opt_str s = (case s of None \<Rightarrow> PNone | Some x \<Rightarrow> PStr x)"

lemma pget_Nil [simp]: "pget [] k = PNone"
  by (simp add: pget_def)

lemma pget_Cons [simp]: "pget ((j, v) # d) k = (if k = j then v else pget d k)"
  by (simp add: pget_def)

lemma pget_put [simp]: "pget (od_put j v d) k = (if k = j then v else pget d k)"
  by (simp add: pget_def)

lemma as_str_Some [simp]: "as_str v = Some s \<longleftrightarrow> v = PStr s"
  by (cases v) auto

lemma as_map_Some [simp]: "as_map v = Some d \<longleftrightarrow> v = PDict d"
  by (cases v) auto

lemma py_eq_str [simp]: "py_eq v (PStr s) \<longleftrightarrow> v = PStr s"
  by (cases v) (auto simp: py_num_def)

lemma py_eq_none [simp]: "py_eq v PNone \<longleftrightarrow> v = PNone"
  by (cases v) (auto simp: py_num_def)

lemma opt_str_simps [simp]:
  "opt_str None = PNone" "opt_str (Some s) = PStr s"
  "opt_str x = PStr s \<longleftrightarrow> x = Some s" "opt_str x = PNone \<longleftrightarrow> x = None"
  by (auto simp: opt_str_def split: option.splits)

lemma py_eq_opt_str [simp]: "py_eq v (opt_str x) \<longleftrightarrow> v = opt_str x"
  by (cases x) auto

section \<open>Strings\<close>

text \<open>Whitespace as \<^verbatim>\<open>str.strip\<close> removes it, for code points up to U+00FF.\<close>

definition py_space :: "char \<Rightarrow> bool" where
  "py_space c \<longleftrightarrow> (of_char c :: nat) \<in> {9, 10, 11, 12, 13, 28, 29, 30, 31, 32, 133, 160}"

definition rstrip_by :: "(char \<Rightarrow> bool) \<Rightarrow> string \<Rightarrow> string" where
  "rstrip_by P s = rev (dropWhile P (rev s))"

definition strip :: "string \<Rightarrow> string" where
  "strip s = rstrip_by py_space (dropWhile py_space s)"

definition utf8_len :: "string \<Rightarrow> nat" where
  "utf8_len s = sum_list (map (\<lambda>c. if (of_char c :: nat) < 128 then 1 else 2) s)"

fun join :: "string \<Rightarrow> string list \<Rightarrow> string" where
  "join sep [] = []"
| "join sep [x] = x"
| "join sep (x # y # xs) = x @ sep @ join sep (y # xs)"

fun starts_with :: "string \<Rightarrow> string \<Rightarrow> bool" where
  "starts_with [] s = True"
| "starts_with (p # ps) [] = False"
| "starts_with (p # ps) (c # cs) = (p = c \<and> starts_with ps cs)"

fun contains :: "string \<Rightarrow> string \<Rightarrow> bool" where
  "contains p [] = (p = [])"
| "contains p (c # cs) = (starts_with p (c # cs) \<or> contains p cs)"

lemma utf8_len_simps [simp]:
  "utf8_len [] = 0"
  "utf8_len (c # s) = (if (of_char c :: nat) < 128 then 1 else 2) + utf8_len s"
  "utf8_len (s @ t) = utf8_len s + utf8_len t"
  by (simp_all add: utf8_len_def)

lemma utf8_len_mono: "m \<le> n \<Longrightarrow> utf8_len (take m s) \<le> utf8_len (take n s)"
proof -
  assume "m \<le> n"
  then obtain k where "n = m + k" by (auto simp: le_iff_add)
  then show ?thesis by (simp add: take_add)
qed

lemma utf8_len_ge_length: "length s \<le> utf8_len s"
  by (induction s) auto

lemma rstrip_by_append_all:
  "(\<And>c. c \<in> set t \<Longrightarrow> P c) \<Longrightarrow> rstrip_by P (s @ t) = rstrip_by P s"
  by (simp add: rstrip_by_def) (subst dropWhile_append2, auto)

lemma rstrip_by_last: "s \<noteq> [] \<Longrightarrow> \<not> P (last s) \<Longrightarrow> rstrip_by P s = s"
  by (cases s rule: rev_cases) (simp_all add: rstrip_by_def)

lemma rstrip_by_append_keep: "rstrip_by P t \<noteq> [] \<Longrightarrow> rstrip_by P (s @ t) = s @ rstrip_by P t"
  by (auto simp: rstrip_by_def dropWhile_append dropWhile_eq_Nil_conv)

lemma rstrip_by_result: "rstrip_by P s = [] \<or> \<not> P (last (rstrip_by P s))"
  by (cases "dropWhile P (rev s)") (auto simp: rstrip_by_def dest: dropWhile_eq_Cons_conv [THEN iffD1])

lemma rstrip_by_take: "\<exists>n. rstrip_by P s = take n s \<and> (\<forall>c \<in> set (drop n s). P c)"
proof -
  have "s = rev (dropWhile P (rev s)) @ rev (takeWhile P (rev s))"
    by (metis rev_append rev_rev_ident takeWhile_dropWhile_id)
  then have "take (length (rstrip_by P s)) s = rstrip_by P s"
    and "drop (length (rstrip_by P s)) s = rev (takeWhile P (rev s))"
    by (metis append_eq_conv_conj rstrip_by_def)+
  then show ?thesis by (metis set_rev set_takeWhileD)
qed

text \<open>Decimal digits: \<^verbatim>\<open>str\<close> and \<^verbatim>\<open>int\<close> on non-negative integers, and the \<^verbatim>\<open>06d\<close> format.\<close>

definition is_digit :: "char \<Rightarrow> bool" where
  "is_digit c \<longleftrightarrow> 48 \<le> (of_char c :: nat) \<and> (of_char c :: nat) \<le> 57"

definition digit_val :: "char \<Rightarrow> nat" where
  "digit_val c = of_char c - 48"

definition digit_char :: "nat \<Rightarrow> char" where
  "digit_char d = ''0123456789'' ! d"

fun show_nat :: "nat \<Rightarrow> string" where
  "show_nat n = (if n < 10 then [digit_char n] else show_nat (n div 10) @ [digit_char (n mod 10)])"

declare show_nat.simps [simp del]

definition int_of_digits :: "string \<Rightarrow> nat" where
  "int_of_digits s = foldl (\<lambda>a c. 10 * a + digit_val c) 0 s"

definition show_int :: "int \<Rightarrow> string" where
  "show_int i = (if i < 0 then CHR ''-'' # show_nat (nat (- i)) else show_nat (nat i))"

definition zero_pad :: "nat \<Rightarrow> string \<Rightarrow> string" where
  "zero_pad w s = replicate (w - length s) (CHR ''0'') @ s"

lemma less_10_cases:
  "(d :: nat) < 10 \<longleftrightarrow> d = 0 \<or> d = 1 \<or> d = 2 \<or> d = 3 \<or> d = 4 \<or> d = 5 \<or> d = 6 \<or> d = 7 \<or> d = 8 \<or> d = 9"
  by auto

lemma digit_char_props [simp]:
  assumes "d < 10"
  shows "is_digit (digit_char d)" "digit_val (digit_char d) = d"
  using assms unfolding less_10_cases by (auto simp: is_digit_def digit_val_def digit_char_def)

lemma digit_val_less: "is_digit c \<Longrightarrow> digit_val c < 10"
  by (auto simp: is_digit_def digit_val_def)

lemma digit_val_inj:
  assumes "is_digit c" "is_digit d" "digit_val c = digit_val d"
  shows "c = d"
proof -
  have "of_char c = (of_char d :: nat)"
    using assms unfolding is_digit_def digit_val_def by linarith
  then show ?thesis by simp
qed

lemma digit_char_val [simp]: "is_digit c \<Longrightarrow> digit_char (digit_val c) = c"
  by (rule digit_val_inj) (simp_all add: digit_val_less)

lemma digit_val_zero: "digit_val (CHR ''0'') = 0" "is_digit (CHR ''0'')" "digit_char 0 = CHR ''0''"
  by (simp_all add: digit_val_def is_digit_def digit_char_def)

lemma int_of_digits_simps [simp]:
  "int_of_digits [] = 0"
  "int_of_digits (s @ [c]) = 10 * int_of_digits s + digit_val c"
  by (simp_all add: int_of_digits_def)

lemma int_of_digits_append: "int_of_digits (s @ t) = int_of_digits s * 10 ^ length t + int_of_digits t"
proof (induction t rule: rev_induct)
  case Nil
  then show ?case by simp
next
  case (snoc c t)
  have "int_of_digits (s @ t @ [c]) = int_of_digits ((s @ t) @ [c])" by simp
  also have "\<dots> = 10 * int_of_digits (s @ t) + digit_val c" by (simp only: int_of_digits_simps)
  finally show ?case using snoc by simp
qed

lemma int_of_digits_Cons: "int_of_digits (c # s) = digit_val c * 10 ^ length s + int_of_digits s"
  using int_of_digits_append [of "[c]" s] int_of_digits_simps(2) [of "[]" c] by simp

lemma int_of_digits_less: "list_all is_digit s \<Longrightarrow> int_of_digits s < 10 ^ length s"
proof (induction s rule: rev_induct)
  case (snoc c s)
  then have "int_of_digits s < 10 ^ length s" "digit_val c < 10" by (auto intro: digit_val_less)
  then have "10 * int_of_digits s + digit_val c < 10 * 10 ^ length s" by linarith
  then show ?case by simp
qed simp

lemma int_of_digits_replicate: "int_of_digits (replicate n (CHR ''0'')) = 0"
  by (induction n) (simp_all add: replicate_append_same [symmetric] digit_val_zero)

lemma show_nat_digits: "list_all is_digit (show_nat n)"
proof (induction n rule: show_nat.induct)
  case (1 n)
  then show ?case by (subst show_nat.simps) auto
qed

lemma show_nat_rec:
  "n < 10 \<Longrightarrow> show_nat n = [digit_char n]"
  "10 \<le> n \<Longrightarrow> show_nat n = show_nat (n div 10) @ [digit_char (n mod 10)]"
  by (subst show_nat.simps, simp)+

lemma show_nat_0: "show_nat 0 = ''0''"
  by (simp add: show_nat_rec digit_val_zero)

lemma show_nat_nonempty [simp]: "show_nat n \<noteq> []"
  by (subst show_nat.simps) simp

lemma int_of_show_nat [simp]: "int_of_digits (show_nat n) = n"
proof (induction n rule: show_nat.induct)
  case (1 n)
  have base: "n < 10 \<Longrightarrow> int_of_digits [digit_char n] = n"
    using int_of_digits_simps(2) [of "[]" "digit_char n"] by simp
  show ?case
    using 1 base by (subst show_nat.simps) auto
qed

lemma show_nat_hd: "n \<noteq> 0 \<Longrightarrow> hd (show_nat n) \<noteq> CHR ''0''"
proof (induction n rule: show_nat.induct)
  case (1 n)
  show ?case
  proof (cases "n < 10")
    case True
    with 1 have "digit_val (digit_char n) \<noteq> digit_val (CHR ''0'')" by (simp add: digit_val_zero)
    then have "digit_char n \<noteq> CHR ''0''" by metis
    with True show ?thesis by (subst show_nat.simps) simp
  next
    case False
    with 1 have "hd (show_nat (n div 10)) \<noteq> CHR ''0''" by auto
    with False show ?thesis by (subst show_nat.simps) simp
  qed
qed

lemma show_nat_int_of:
  "list_all is_digit s \<Longrightarrow> s \<noteq> [] \<Longrightarrow> hd s \<noteq> CHR ''0'' \<Longrightarrow> show_nat (int_of_digits s) = s"
proof (induction s rule: rev_induct)
  case (snoc c s)
  then have c: "digit_val c < 10" "digit_char (digit_val c) = c"
    by (auto intro: digit_val_less)
  show ?case
  proof (cases "s = []")
    case True
    then show ?thesis using c
      using int_of_digits_simps(2) [of "[]" c] by (subst show_nat.simps) simp
  next
    case False
    with snoc have IH: "show_nat (int_of_digits s) = s" by auto
    moreover from this False snoc.prems have "int_of_digits s \<noteq> 0"
      by (metis digit_val_zero(3) append_self_conv2 hd_append2 int_of_digits_simps(1) list.sel(1)
          show_nat.simps zero_less_numeral)
    ultimately show ?thesis using c by (subst show_nat.simps) simp
  qed
qed simp

lemma zero_pad_props:
  "length s \<le> w \<Longrightarrow> length (zero_pad w s) = w"
  "int_of_digits (zero_pad w s) = int_of_digits s"
  "list_all is_digit s \<Longrightarrow> list_all is_digit (zero_pad w s)"
  by (auto simp: zero_pad_def int_of_digits_append int_of_digits_replicate list_all_iff digit_val_zero)

lemma show_nat_length: "n < 10 ^ w \<Longrightarrow> 0 < w \<Longrightarrow> length (show_nat n) \<le> w"
proof (induction n arbitrary: w rule: show_nat.induct)
  case (1 n)
  show ?case
  proof (cases "n < 10")
    case True
    with 1 show ?thesis by (subst show_nat.simps) simp
  next
    case False
    from "1.prems" obtain v where v: "w = Suc v" by (cases w) auto
    with "1.prems" False have "0 < v" by (cases v) auto
    note v = v this
    with "1.prems" have "n div 10 < 10 ^ v" by auto
    with "1.IH" False v have "length (show_nat (n div 10)) \<le> v" by simp
    with False v show ?thesis by (subst show_nat.simps) simp
  qed
qed

end
