(* ===== verification/Outcome_Kinds.thy ===== *)
theory Outcome_Kinds
  imports Prelude
begin

text \<open>
  The closed vocabularies of the result contract
  (\<^verbatim>\<open>packages/contracts/src/aieos/contracts/results.py\<close>): statuses, outcome categories, error
  categories, severities and retry classifications, each a \<^verbatim>\<open>StrEnum\<close> whose members are the
  constructors here and whose \<^verbatim>\<open>.value\<close> is the wire string. They come before the exceptions
  because a normalized Skill failure carries them.
\<close>

datatype ResultStatus =
  ACCEPTED | IN_PROGRESS | SUCCEEDED | PARTIALLY_SUCCEEDED | REJECTED | FAILED | CANCELLED | TIMED_OUT

datatype OutcomeCategory =
    ACKNOWLEDGEMENT_CATEGORY | PROGRESS_CATEGORY | SUCCESS_CATEGORY | PARTIAL_SUCCESS_CATEGORY
  | REJECTION_CATEGORY | FAILURE_CATEGORY | CANCELLATION_CATEGORY | TIMEOUT_CATEGORY

fun STATUS_CATEGORY :: "ResultStatus \<Rightarrow> OutcomeCategory" where
  "STATUS_CATEGORY ACCEPTED = ACKNOWLEDGEMENT_CATEGORY"
| "STATUS_CATEGORY IN_PROGRESS = PROGRESS_CATEGORY"
| "STATUS_CATEGORY SUCCEEDED = SUCCESS_CATEGORY"
| "STATUS_CATEGORY PARTIALLY_SUCCEEDED = PARTIAL_SUCCESS_CATEGORY"
| "STATUS_CATEGORY REJECTED = REJECTION_CATEGORY"
| "STATUS_CATEGORY FAILED = FAILURE_CATEGORY"
| "STATUS_CATEGORY CANCELLED = CANCELLATION_CATEGORY"
| "STATUS_CATEGORY TIMED_OUT = TIMEOUT_CATEGORY"

fun result_status_value :: "ResultStatus \<Rightarrow> string" where
  "result_status_value ACCEPTED = ''Accepted''"
| "result_status_value IN_PROGRESS = ''InProgress''"
| "result_status_value SUCCEEDED = ''Succeeded''"
| "result_status_value PARTIALLY_SUCCEEDED = ''PartiallySucceeded''"
| "result_status_value REJECTED = ''Rejected''"
| "result_status_value FAILED = ''Failed''"
| "result_status_value CANCELLED = ''Cancelled''"
| "result_status_value TIMED_OUT = ''TimedOut''"

datatype ErrorCategory =
    VALIDATION | AUTHENTICATION | AUTHORIZATION | NOT_FOUND | CONFLICT | CONCURRENCY | RATE_LIMIT
  | QUOTA | DEPENDENCY_UNAVAILABLE | DEPENDENCY_FAILURE | TIMEOUT | CANCELLATION | POLICY_VIOLATION
  | UNSUPPORTED_CAPABILITY | CAPABILITY_COMPATIBILITY | MEMORY_READ | MEMORY_WRITE
  | AI_PROVIDER_UNAVAILABLE | AI_PROVIDER_REJECTED | AI_CONTENT_POLICY | AI_INVALID_RESPONSE
  | WORKFLOW_STATE | EXECUTION_FAILURE | INTERNAL_INVARIANT | UNKNOWN_CATEGORY

datatype ErrorSeverity = INFORMATIONAL | WARNING | ERROR | CRITICAL

datatype RetryClassification =
    NEVER_RETRY | RETRYABLE | RETRYABLE_AFTER_DELAY | RETRYABLE_AFTER_CONDITION
  | REQUIRES_POLICY_EVALUATION

fun retry_value :: "RetryClassification \<Rightarrow> string" where
  "retry_value NEVER_RETRY = ''NeverRetry''"
| "retry_value RETRYABLE = ''Retryable''"
| "retry_value RETRYABLE_AFTER_DELAY = ''RetryableAfterDelay''"
| "retry_value RETRYABLE_AFTER_CONDITION = ''RetryableAfterCondition''"
| "retry_value REQUIRES_POLICY_EVALUATION = ''RequiresPolicyEvaluation''"

text \<open>The statuses a terminal Result may have, and the unsuccessful ones among them.\<close>

definition terminal_status :: "ResultStatus \<Rightarrow> bool" where
  "terminal_status st \<longleftrightarrow>
     st \<in> {SUCCEEDED, PARTIALLY_SUCCEEDED, REJECTED, FAILED, CANCELLED, TIMED_OUT}"

definition unsuccessful_status :: "ResultStatus \<Rightarrow> bool" where
  "unsuccessful_status st \<longleftrightarrow> st \<in> {REJECTED, FAILED, CANCELLED, TIMED_OUT}"

lemma STATUS_CATEGORY_inj: "inj STATUS_CATEGORY"
proof (rule injI)
  fix x y assume "STATUS_CATEGORY x = STATUS_CATEGORY y"
  then show "x = y" by (cases x; cases y) simp_all
qed

lemma retry_value_inj [simp]: "retry_value x = retry_value y \<longleftrightarrow> x = y"
  by (cases x; cases y) simp_all

lemma result_status_value_inj [simp]: "result_status_value x = result_status_value y \<longleftrightarrow> x = y"
  by (cases x; cases y) simp_all

lemma unsuccessful_is_terminal [simp]: "unsuccessful_status st \<Longrightarrow> terminal_status st"
  by (auto simp: unsuccessful_status_def terminal_status_def)

end
