(* ===== verification/Effects.thy ===== *)
theory Effects
  imports Outcome_Kinds
begin

text \<open>
  Exceptions, exact decimals, the effect combinators and the two ambient services (clock and
  identifier factory, \<^verbatim>\<open>packages/domain/src/aieos/domain/runtime.py\<close>) every component draws on.

  A clock is a feed of instants (microseconds since the epoch, timezone-aware UTC as the
  \<^verbatim>\<open>Clock\<close> protocol documents) read one after the other; \<^verbatim>\<open>uuid4().hex\<close> is a feed of
  strings. Both feeds are data of the state, so a run is a function of them.
\<close>

section \<open>Token usage and exceptions\<close>

record AIUsage =
  input_tokens :: int
  output_tokens :: int
  cached_tokens :: int
  reasoning_tokens :: int
  estimated :: bool

definition usage_of :: "int \<Rightarrow> int \<Rightarrow> AIUsage" where
  "usage_of i out = \<lparr>input_tokens = i, output_tokens = out, cached_tokens = 0,
     reasoning_tokens = 0, estimated = False\<rparr>"

record SkillFailure =
  sf_message :: string
  sf_status :: ResultStatus
  sf_category :: ErrorCategory
  sf_retry :: RetryClassification
  sf_error_code :: string
  sf_ai_invocation_id :: "string option"
  sf_pre_acceptance_rejection :: bool

text \<open>The transport exceptions of the HTTP client that the adapters tell apart.\<close>

datatype TransportError = ConnectTimeout | PoolTimeout | ReadTimeout | WriteTimeout | RequestError

datatype exn =
    ValueError string
  | JSONDecodeError
  | AuthorizationFailure string
  | DuplicateCommandTarget string
  | KeyError string
  | LookupError string
  | UnknownCommandTarget string
  | PermissionError string
  | RuntimeError string
  | TypeError string
  | InvalidOperation
  | AssertionError
  | StopIteration
  | TimeoutError
  | CancelledError
  | GeneratorExit
  | AttributeError string
  | ResponseNotRead
  | Transport TransportError
  | ExecutionOwnershipLost string
  | ProviderFailure string bool "AIUsage option"
  | SkillDependencyFailure SkillFailure

text \<open>The subclass tests behind \<^verbatim>\<open>except ValueError\<close> and \<^verbatim>\<open>except LookupError\<close>, and \<^verbatim>\<open>str(error)\<close>.\<close>

fun is_value_error :: "exn \<Rightarrow> bool" where
  "is_value_error (ValueError _) = True"
| "is_value_error JSONDecodeError = True"
| "is_value_error (AuthorizationFailure _) = True"
| "is_value_error (DuplicateCommandTarget _) = True"
| "is_value_error _ = False"

fun is_lookup_error :: "exn \<Rightarrow> bool" where
  "is_lookup_error (KeyError _) = True"
| "is_lookup_error (LookupError _) = True"
| "is_lookup_error (UnknownCommandTarget _) = True"
| "is_lookup_error _ = False"

fun is_exception :: "exn \<Rightarrow> bool" where
  "is_exception CancelledError = False"
| "is_exception GeneratorExit = False"
| "is_exception _ = True"

fun exn_str :: "exn \<Rightarrow> string" where
  "exn_str (ValueError m) = m"
| "exn_str JSONDecodeError = ''invalid JSON''"
| "exn_str (AuthorizationFailure m) = m"
| "exn_str (DuplicateCommandTarget m) = m"
| "exn_str (KeyError m) = m"
| "exn_str (LookupError m) = m"
| "exn_str (UnknownCommandTarget m) = m"
| "exn_str (PermissionError m) = m"
| "exn_str (RuntimeError m) = m"
| "exn_str (TypeError m) = m"
| "exn_str (ExecutionOwnershipLost m) = m"
| "exn_str (ProviderFailure c _ _) = c"
| "exn_str (SkillDependencyFailure f) = sf_message f"
| "exn_str _ = []"

section \<open>Exact decimals\<close>

text \<open>
  \<^verbatim>\<open>decimal.Decimal\<close> as coefficient and exponent, so that both its value and its printed form
  are those of the source. Sums take the smaller exponent, a product with an integer keeps the
  exponent; rounding to the 28 digits of Python's default context is not modelled.
\<close>

datatype decimal = Dec (dcoeff: int) (dexpo: int)

definition dval :: "decimal \<Rightarrow> rat" where
  "dval d = (if 0 \<le> dexpo d then of_int (dcoeff d) * 10 ^ nat (dexpo d)
             else of_int (dcoeff d) / 10 ^ nat (- dexpo d))"

definition dscale :: "int \<Rightarrow> decimal \<Rightarrow> int" where
  "dscale g d = dcoeff d * 10 ^ nat (dexpo d - g)"

definition imul :: "int \<Rightarrow> decimal \<Rightarrow> decimal" where
  "imul n d = Dec (n * dcoeff d) (dexpo d)"

instantiation decimal :: "{zero, plus, minus, preorder}"
begin

definition zero_decimal_def: "0 = Dec 0 0"

definition plus_decimal_def:
  "a + b = (let g = min (dexpo a) (dexpo b) in Dec (dscale g a + dscale g b) g)"

definition minus_decimal_def:
  "a - b = (let g = min (dexpo a) (dexpo b) in Dec (dscale g a - dscale g b) g)"

definition less_eq_decimal_def: "a \<le> b \<longleftrightarrow> dval a \<le> dval b"

definition less_decimal_def: "a < b \<longleftrightarrow> dval a < dval b"

instance
  by standard (auto simp: less_eq_decimal_def less_decimal_def)

end

lemma dval_powi: "dval d = of_int (dcoeff d) * 10 powi dexpo d"
  by (auto simp: dval_def power_int_def field_simps)

lemma dval_dscale: "g \<le> dexpo d \<Longrightarrow> of_int (dscale g d) * (10 :: rat) powi g = dval d"
proof -
  assume g: "g \<le> dexpo d"
  have "(10 :: rat) ^ nat (dexpo d - g) * 10 powi g = 10 powi (dexpo d - g) * 10 powi g"
    using g by (simp add: power_int_def)
  also have "\<dots> = 10 powi dexpo d"
    by (simp flip: power_int_add)
  finally show ?thesis
    by (simp add: dscale_def dval_powi mult.assoc)
qed

lemma dval_add [simp]: "dval (a + b) = dval a + dval b"
  by (simp add: plus_decimal_def Let_def dval_powi [of "Dec _ _"] distrib_right dval_dscale)

lemma dval_minus [simp]: "dval (a - b) = dval a - dval b"
  by (simp add: minus_decimal_def Let_def dval_powi [of "Dec _ _"] left_diff_distrib dval_dscale)

lemma dval_zero [simp]: "dval 0 = 0"
  by (simp add: zero_decimal_def dval_def)

lemma dval_Dec:
  "dval (Dec c e) = (if 0 \<le> e then of_int c * 10 ^ nat e else of_int c / 10 ^ nat (- e))"
  by (simp add: dval_def)

lemma dval_int [simp]: "dval (Dec c 0) = of_int c"
  by (simp add: dval_def)

lemma dval_imul [simp]: "dval (imul n d) = of_int n * dval d"
  by (simp add: imul_def dval_powi)

lemmas dec_order = less_eq_decimal_def less_decimal_def

definition dec_sum :: "decimal list \<Rightarrow> decimal" where
  "dec_sum ds = foldl (+) 0 ds"

lemma dval_foldl_add: "dval (foldl (+) a ds) = dval a + sum_list (map dval ds)"
  by (induction ds arbitrary: a) auto

lemma dval_dec_sum [simp]: "dval (dec_sum ds) = sum_list (map dval ds)"
  by (simp add: dec_sum_def dval_foldl_add)

text \<open>\<^verbatim>\<open>d or e\<close> on an optional decimal: a missing or zero value is falsy.\<close>

definition dec_or :: "decimal option \<Rightarrow> decimal \<Rightarrow> decimal" where
  "dec_or x e = (case x of None \<Rightarrow> e | Some d \<Rightarrow> if dcoeff d = 0 then e else d)"

section \<open>Effects\<close>

type_synonym ('s, 'a) eff = "'s \<Rightarrow> (exn + 'a) \<times> 's"

definition ret :: "'a \<Rightarrow> ('s, 'a) eff" where
  "ret x = (\<lambda>s. (Inr x, s))"

definition raise :: "exn \<Rightarrow> ('s, 'a) eff" where
  "raise e = (\<lambda>s. (Inl e, s))"

definition bnd :: "('s, 'a) eff \<Rightarrow> ('a \<Rightarrow> ('s, 'b) eff) \<Rightarrow> ('s, 'b) eff" where
  "bnd m f = (\<lambda>s. case m s of (Inl e, t) \<Rightarrow> (Inl e, t) | (Inr x, t) \<Rightarrow> f x t)"

definition catch :: "('s, 'a) eff \<Rightarrow> (exn \<Rightarrow> ('s, 'a) eff) \<Rightarrow> ('s, 'a) eff" where
  "catch m h = (\<lambda>s. case m s of (Inl e, t) \<Rightarrow> h e t | (Inr x, t) \<Rightarrow> (Inr x, t))"

definition asks :: "('s \<Rightarrow> 'a) \<Rightarrow> ('s, 'a) eff" where
  "asks f = (\<lambda>s. (Inr (f s), s))"

definition upd :: "('s \<Rightarrow> 's) \<Rightarrow> ('s, unit) eff" where
  "upd f = (\<lambda>s. (Inr (), f s))"

definition lift :: "exn + 'a \<Rightarrow> ('s, 'a) eff" where
  "lift r = (\<lambda>s. (r, s))"

definition guard :: "bool \<Rightarrow> exn \<Rightarrow> ('s, unit) eff" where
  "guard b e = (if b then ret () else raise e)"

lemma eff_apply [effect_simps]:
  "ret x s = (Inr x, s)"
  "raise e s = (Inl e, s)"
  "bnd m f s = (case m s of (Inl e, t) \<Rightarrow> (Inl e, t) | (Inr x, t) \<Rightarrow> f x t)"
  "catch m h s = (case m s of (Inl e, t) \<Rightarrow> h e t | (Inr x, t) \<Rightarrow> (Inr x, t))"
  "asks g s = (Inr (g s), s)"
  "upd u s = (Inr (), u s)"
  "lift r s = (r, s)"
  "guard b e s = (if b then Inr () else Inl e, s)"
  by (simp_all add: ret_def raise_def bnd_def catch_def asks_def upd_def lift_def guard_def)

lemma bnd_simps [simp]:
  "bnd (ret x) f = f x"
  "bnd (raise e) f = raise e"
  "bnd (bnd m f) g = bnd m (\<lambda>x. bnd (f x) g)"
  by (auto simp: fun_eq_iff effect_simps split: prod.splits sum.splits)

text \<open>Inversion: what a normal return of a composed effect says about its parts.\<close>

lemma bnd_InrE:
  assumes "bnd m f s = (Inr y, t)"
  obtains x u where "m s = (Inr x, u)" "f x u = (Inr y, t)"
  using assms by (auto simp: bnd_def split: prod.splits sum.splits)

lemma catch_InrE:
  assumes "catch m h s = (Inr y, t)"
  obtains (normal) "m s = (Inr y, t)" | (handled) e u where "m s = (Inl e, u)" "h e u = (Inr y, t)"
  using assms by (auto simp: catch_def split: prod.splits sum.splits)

lemma return_simps [simp]:
  "ret x s = (Inr y, t) \<longleftrightarrow> y = x \<and> t = s"
  "raise e s = (Inr y, t) \<longleftrightarrow> False"
  "lift r s = (Inr y, t) \<longleftrightarrow> r = Inr y \<and> t = s"
  "guard b e s = (Inr u, t) \<longleftrightarrow> b \<and> t = s"
  "asks g s = (Inr y, t) \<longleftrightarrow> y = g s \<and> t = s"
  "upd h s = (Inr u, t) \<longleftrightarrow> t = h s"
  by (auto simp: effect_simps)

text \<open>\<^verbatim>\<open>contextlib.suppress(Exception)\<close>: an \<^verbatim>\<open>Exception\<close> ends the block, a cancellation passes.\<close>

definition suppress :: "('s, unit) eff \<Rightarrow> ('s, unit) eff" where
  "suppress m = catch m (\<lambda>e. if is_exception e then ret () else raise e)"

text \<open>\<^verbatim>\<open>try: ... finally: ...\<close>\<close>

definition finally_do :: "('s, 'a) eff \<Rightarrow> ('s, unit) eff \<Rightarrow> ('s, 'a) eff" where
  "finally_do m f = bnd (catch m (\<lambda>e. bnd f (\<lambda>_. raise e))) (\<lambda>x. bnd f (\<lambda>_. ret x))"

text \<open>An effect keeps a predicate on the state when every outcome, also a raise, does.\<close>

definition keeps :: "('s \<Rightarrow> bool) \<Rightarrow> ('s, 'a) eff \<Rightarrow> bool" where
  "keeps I m \<longleftrightarrow> (\<forall>s. I s \<longrightarrow> I (snd (m s)))"

lemma keepsD: "keeps I m \<Longrightarrow> I s \<Longrightarrow> m s = (r, t) \<Longrightarrow> I t"
  by (force simp: keeps_def)

lemma keeps_basic [keeps_rules, intro]:
  "keeps I (ret x)" "keeps I (raise e)" "keeps I (asks g)" "keeps I (lift r)" "keeps I (guard b e)"
  by (auto simp: keeps_def effect_simps)

lemma keeps_bnd [keeps_rules, intro]:
  "keeps I m \<Longrightarrow> (\<And>x. keeps I (f x)) \<Longrightarrow> keeps I (bnd m f)"
  by (auto simp: keeps_def effect_simps split: prod.splits sum.splits)

lemma keeps_catch [keeps_rules, intro]:
  "keeps I m \<Longrightarrow> (\<And>e. keeps I (h e)) \<Longrightarrow> keeps I (catch m h)"
  by (auto simp: keeps_def effect_simps split: prod.splits sum.splits)

lemma keeps_suppress [keeps_rules, intro]: "keeps I m \<Longrightarrow> keeps I (suppress m)"
  unfolding suppress_def by (intro keeps_catch) auto

lemma keeps_finally [keeps_rules, intro]: "keeps I m \<Longrightarrow> keeps I f \<Longrightarrow> keeps I (finally_do m f)"
  unfolding finally_do_def by (intro keeps_bnd keeps_catch) auto

lemma keeps_upd [keeps_rules, intro]: "(\<And>s. I s \<Longrightarrow> I (u s)) \<Longrightarrow> keeps I (upd u)"
  by (auto simp: keeps_def effect_simps)

lemma keeps_if [keeps_rules, intro]:
  "(b \<Longrightarrow> keeps I m) \<Longrightarrow> (\<not> b \<Longrightarrow> keeps I n) \<Longrightarrow> keeps I (if b then m else n)"
  by auto

lemma keeps_option [keeps_rules, intro]:
  "(x = None \<Longrightarrow> keeps I m) \<Longrightarrow> (\<And>y. x = Some y \<Longrightarrow> keeps I (f y)) \<Longrightarrow>
   keeps I (case x of None \<Rightarrow> m | Some y \<Rightarrow> f y)"
  by (cases x) auto

lemma keeps_sum [keeps_rules, intro]:
  "(\<And>a. x = Inl a \<Longrightarrow> keeps I (f a)) \<Longrightarrow> (\<And>b. x = Inr b \<Longrightarrow> keeps I (g b)) \<Longrightarrow>
   keeps I (case x of Inl a \<Rightarrow> f a | Inr b \<Rightarrow> g b)"
  by (cases x) auto

text \<open>Partial correctness of normal returns.\<close>

definition triple :: "('s \<Rightarrow> bool) \<Rightarrow> ('s, 'a) eff \<Rightarrow> ('a \<Rightarrow> 's \<Rightarrow> bool) \<Rightarrow> bool" where
  "triple P m Q \<longleftrightarrow> (\<forall>s x t. P s \<longrightarrow> m s = (Inr x, t) \<longrightarrow> Q x t)"

lemma tripleD: "triple P m Q \<Longrightarrow> P s \<Longrightarrow> m s = (Inr x, t) \<Longrightarrow> Q x t"
  unfolding triple_def by blast

lemma tripleI: "(\<And>s x t. P s \<Longrightarrow> m s = (Inr x, t) \<Longrightarrow> Q x t) \<Longrightarrow> triple P m Q"
  unfolding triple_def by blast

lemma triple_bnd: "triple P m R \<Longrightarrow> (\<And>x. triple (R x) (f x) Q) \<Longrightarrow> triple P (bnd m f) Q"
  by (auto simp: triple_def elim!: bnd_InrE)

lemma triple_ret: "triple (Q x) (ret x) Q"
  by (simp add: triple_def)

lemma triple_keeps: "keeps I m \<Longrightarrow> triple I m (\<lambda>_. I)"
  by (auto simp: triple_def dest: keepsD)

lemma triple_any: "triple P m (\<lambda>_ _. True)"
  by (simp add: triple_def)

lemma triple_conj: "triple P m Q \<Longrightarrow> triple P' m Q' \<Longrightarrow> triple (\<lambda>s. P s \<and> P' s) m (\<lambda>x s. Q x s \<and> Q' x s)"
  by (auto simp: triple_def)

lemma triple_mono: "triple P m Q \<Longrightarrow> (\<And>s. P' s \<Longrightarrow> P s) \<Longrightarrow> (\<And>x s. Q x s \<Longrightarrow> Q' x s) \<Longrightarrow> triple P' m Q'"
  by (fastforce simp: triple_def)

text \<open>Pure error handling: the same combinators on plain sums.\<close>

definition ebind :: "exn + 'a \<Rightarrow> ('a \<Rightarrow> exn + 'b) \<Rightarrow> exn + 'b" where
  "ebind m f = (case m of Inl e \<Rightarrow> Inl e | Inr x \<Rightarrow> f x)"

definition require :: "bool \<Rightarrow> exn \<Rightarrow> exn + unit" where
  "require b e = (if b then Inr () else Inl e)"

lemma ebind_simps [simp]: "ebind (Inr x) f = f x" "ebind (Inl e) f = Inl e"
  by (simp_all add: ebind_def)

lemma ebind_Inr [simp]: "ebind m f = Inr y \<longleftrightarrow> (\<exists>x. m = Inr x \<and> f x = Inr y)"
  by (cases m) auto

lemma ebind_Inl: "ebind m f = Inl e \<longleftrightarrow> m = Inl e \<or> (\<exists>x. m = Inr x \<and> f x = Inl e)"
  by (cases m) auto

lemma require_Inr [simp]: "require b e = Inr x \<longleftrightarrow> b"
  by (simp add: require_def)

lemma require_Inl [simp]: "require b e = Inl x \<longleftrightarrow> \<not> b \<and> x = e"
  by (auto simp: require_def)

section \<open>Runs\<close>

text \<open>Interleaved runs: what every single step only develops further, a run only develops further.\<close>

locale ordered_steps =
  fixes step :: "'s \<Rightarrow> 's \<Rightarrow> bool" and le :: "'s \<Rightarrow> 's \<Rightarrow> bool"
  assumes le_refl: "le s s"
    and le_trans: "le s t \<Longrightarrow> le t u \<Longrightarrow> le s u"
    and step_le: "step s t \<Longrightarrow> le s t"
begin

lemma run_le: "step\<^sup>*\<^sup>* s t \<Longrightarrow> le s t"
  by (induction rule: rtranclp_induct) (auto intro: le_refl le_trans step_le)

end

section \<open>Clock and identifiers\<close>

record services =
  clock_feed :: "nat \<Rightarrow> int"
  clock_reads :: nat
  id_feed :: "nat \<Rightarrow> string"
  id_draws :: nat

definition clock_now :: "('z services_scheme, int) eff" where
  "clock_now = bnd (asks (\<lambda>s. clock_feed s (clock_reads s))) (\<lambda>t.
               bnd (upd (\<lambda>s. s\<lparr>clock_reads := Suc (clock_reads s)\<rparr>)) (\<lambda>_. ret t))"

definition new_id :: "string \<Rightarrow> ('z services_scheme, string) eff" where
  "new_id prefix = bnd (asks (\<lambda>s. prefix @ ''_'' @ id_feed s (id_draws s))) (\<lambda>i.
                   bnd (upd (\<lambda>s. s\<lparr>id_draws := Suc (id_draws s)\<rparr>)) (\<lambda>_. ret i))"

definition uuid_hex :: "('z services_scheme, string) eff" where
  "uuid_hex = bnd (asks (\<lambda>s. id_feed s (id_draws s))) (\<lambda>i.
              bnd (upd (\<lambda>s. s\<lparr>id_draws := Suc (id_draws s)\<rparr>)) (\<lambda>_. ret i))"

lemma uuid_hex_apply [effect_simps]:
  "uuid_hex s = (Inr (id_feed s (id_draws s)), s\<lparr>id_draws := Suc (id_draws s)\<rparr>)"
  by (simp add: uuid_hex_def effect_simps)

lemma clock_now_apply [effect_simps]:
  "clock_now s = (Inr (clock_feed s (clock_reads s)), s\<lparr>clock_reads := Suc (clock_reads s)\<rparr>)"
  by (simp add: clock_now_def effect_simps)

lemma new_id_apply [effect_simps]:
  "new_id p s = (Inr (p @ ''_'' @ id_feed s (id_draws s)), s\<lparr>id_draws := Suc (id_draws s)\<rparr>)"
  by (simp add: new_id_def effect_simps)

end
