(* ===== verification/Contracts.thy ===== *)
theory Contracts
  imports Effects
begin

text \<open>
  The immutable envelopes of \<^verbatim>\<open>packages/contracts/src/aieos/contracts\<close>: authorization context,
  Error, Result, Command and Event, with the \<^verbatim>\<open>__post_init__\<close> checks each runs when it is
  constructed. A frozen dataclass is a record; constructing it is the envelope function of the
  same name, which returns the record or the \<^verbatim>\<open>ValueError\<close> of the first failed check.

  \<^verbatim>\<open>datetime\<close> values keep whether they carry a timezone, since the envelopes refuse naive ones;
  the instant is in microseconds.
\<close>

section \<open>Instants\<close>

datatype datetime = Aware (instant: int) | Naive (instant: int)

fun tz_aware :: "datetime \<Rightarrow> bool" where
  "tz_aware (Aware _) = True"
| "tz_aware (Naive _) = False"

text \<open>\<^verbatim>\<open><=\<close> on datetimes raises \<^verbatim>\<open>TypeError\<close> when exactly one of the two is naive.\<close>

definition dt_leq :: "datetime \<Rightarrow> datetime \<Rightarrow> exn + bool" where
  "dt_leq a b =
     (if tz_aware a = tz_aware b then Inr (instant a \<le> instant b)
      else Inl (TypeError ''cannot compare offset-naive and offset-aware datetimes''))"

lemma tz_aware_instant [simp]: "tz_aware t \<Longrightarrow> Aware (instant t) = t"
  by (cases t) auto

section \<open>Authorization context\<close>

record AuthorizationContext =
  auth_actor_id :: string
  auth_permissions :: "string set"
  auth_tenant_id :: string
  auth_workspace_id :: string
  auth_policy_id :: string
  auth_policy_version_id :: string

definition authorization_context :: "AuthorizationContext \<Rightarrow> exn + AuthorizationContext" where
  "authorization_context c =
     (if list_all (\<lambda>s. s \<noteq> [])
          [auth_actor_id c, auth_tenant_id c, auth_workspace_id c, auth_policy_id c,
           auth_policy_version_id c]
      then Inr c
      else Inl (ValueError ''authorization context fields must be non-empty''))"

section \<open>Errors\<close>

record ErrorEnvelope =
  err_error_id :: string
  err_error_code :: string
  err_error_category :: ErrorCategory
  err_error_severity :: ErrorSeverity
  err_retry_classification :: RetryClassification
  err_message :: string
  err_originating_component :: string
  err_affected_subject :: string
  err_tenant_id :: string
  err_workspace_id :: string
  err_correlation_id :: string
  err_causation_id :: string
  err_occurred_at :: datetime
  err_contract_version :: string
  err_diagnostic_reference :: "string option"
  err_external_error_reference :: "string option"
  err_parent_error_id :: "string option"
  err_root_error_id :: "string option"
  err_metadata :: pydict

definition error_envelope :: "ErrorEnvelope \<Rightarrow> exn + ErrorEnvelope" where
  "error_envelope e =
     (if \<not> list_all (\<lambda>s. s \<noteq> [])
            [err_error_id e, err_error_code e, err_message e, err_originating_component e,
             err_affected_subject e, err_tenant_id e, err_workspace_id e, err_correlation_id e,
             err_causation_id e]
      then Inl (ValueError ''required Error fields must be non-empty'')
      else if \<not> tz_aware (err_occurred_at e)
      then Inl (ValueError ''Error occurred_at must be timezone-aware'')
      else Inr e)"

section \<open>Results\<close>

record ResultEnvelope =
  res_result_id :: string
  res_result_status :: ResultStatus
  res_outcome_category :: OutcomeCategory
  res_subject_reference :: string
  res_tenant_id :: string
  res_workspace_id :: string
  res_correlation_id :: string
  res_causation_id :: string
  res_producer_component :: string
  res_contract_version :: string
  res_command_id :: "string option"
  res_event_id :: "string option"
  res_started_at :: "datetime option"
  res_completed_at :: "datetime option"
  res_value_reference :: "string option"
  res_error_id :: "string option"
  res_warnings :: "string list"
  res_metadata :: pydict
  res_predecessor_result_id :: "string option"
  res_parent_result_id :: "string option"
  res_child_result_references :: "string list"
  res_disposition_counts :: "(string \<times> int) list"

definition truthy_str :: "string option \<Rightarrow> bool" where
  "truthy_str s \<longleftrightarrow> s \<noteq> None \<and> s \<noteq> Some []"

definition result_envelope :: "ResultEnvelope \<Rightarrow> exn + ResultEnvelope" where
  "result_envelope r =
     (if STATUS_CATEGORY (res_result_status r) \<noteq> res_outcome_category r
      then Inl (ValueError ''ResultStatus and OutcomeCategory are inconsistent'')
      else if unsuccessful_status (res_result_status r) \<and> \<not> truthy_str (res_error_id r)
      then Inl (ValueError ''unsuccessful terminal Results require ErrorId'')
      else if terminal_status (res_result_status r) \<and> res_completed_at r = None
      then Inl (ValueError ''terminal Results require CompletedAt'')
      else if \<not> (case res_completed_at r of None \<Rightarrow> True | Some t \<Rightarrow> tz_aware t)
      then Inl (ValueError ''Result completed_at must be timezone-aware'')
      else Inr r)"

section \<open>Commands\<close>

record CommandMetadata =
  cmeta_request_id :: string
  cmeta_idempotency_key :: string
  cmeta_authorization :: AuthorizationContext
  cmeta_attempt_number :: "int option"
  cmeta_expires_at :: "datetime option"
  cmeta_trace_id :: "string option"
  cmeta_span_id :: "string option"
  cmeta_skill_version_id :: "string option"
  cmeta_authoritative_result_id :: "string option"
  cmeta_workflow_ai_budget_admission :: "pydict option"

text \<open>The pattern \<^verbatim>\<open>[A-Za-z0-9][A-Za-z0-9_-]{0,127}\<close> of an opaque ResultId.\<close>

definition alnum :: "char \<Rightarrow> bool" where
  "alnum c \<longleftrightarrow> (let n = of_char c :: nat in
     (65 \<le> n \<and> n \<le> 90) \<or> (97 \<le> n \<and> n \<le> 122) \<or> (48 \<le> n \<and> n \<le> 57))"

definition opaque_result_id :: "string \<Rightarrow> bool" where
  "opaque_result_id s \<longleftrightarrow>
     s \<noteq> [] \<and> alnum (hd s) \<and> length s \<le> 128
     \<and> list_all (\<lambda>c. alnum c \<or> c = CHR ''_'' \<or> c = CHR ''-'') (tl s)"

definition command_metadata :: "CommandMetadata \<Rightarrow> exn + CommandMetadata" where
  "command_metadata m =
     (if cmeta_request_id m = [] \<or> cmeta_idempotency_key m = []
      then Inl (ValueError ''request and idempotency identities are required'')
      else if (case cmeta_attempt_number m of None \<Rightarrow> False | Some n \<Rightarrow> n < 1)
      then Inl (ValueError ''attempt number must be positive'')
      else if (case cmeta_authoritative_result_id m of None \<Rightarrow> False | Some r \<Rightarrow> strip r = [])
      then Inl (ValueError ''AuthoritativeResultId must be a non-empty opaque ResultId'')
      else if (case cmeta_authoritative_result_id m of None \<Rightarrow> False | Some r \<Rightarrow> \<not> opaque_result_id r)
      then Inl (ValueError ''AuthoritativeResultId must be a well-formed opaque ResultId'')
      else Inr m)"

record CommandEnvelope =
  cmd_command_id :: string
  cmd_command_type :: string
  cmd_command_version :: string
  cmd_correlation_id :: string
  cmd_causation_id :: string
  cmd_target_component :: string
  cmd_initiator :: string
  cmd_timestamp :: datetime
  cmd_tenant_id :: string
  cmd_workspace_id :: string
  cmd_payload :: pydict
  cmd_metadata :: CommandMetadata
  cmd_workflow_id :: "string option"
  cmd_workflow_step_id :: "string option"
  cmd_execution_id :: "string option"

definition governed_dispatch_error :: "CommandEnvelope \<Rightarrow> string option" where
  "governed_dispatch_error c =
     (if cmd_command_type c \<noteq> ''DispatchExecutionAttempt'' then None
      else if cmd_command_version c = ''2'' \<or> cmd_command_version c = ''2.0''
      then if cmeta_skill_version_id (cmd_metadata c) = None
              \<or> \<not> keys_are (cmd_payload c) [''statement'']
           then Some ''DispatchExecutionAttempt v2 requires exact governed metadata''
           else None
      else if cmeta_authoritative_result_id (cmd_metadata c) \<noteq> None
      then Some ''AuthoritativeResultId is supported only by command v2''
      else None)"

definition command_envelope :: "CommandEnvelope \<Rightarrow> exn + CommandEnvelope" where
  "command_envelope c =
     (if \<not> list_all (\<lambda>s. s \<noteq> [])
            [cmd_command_id c, cmd_command_type c, cmd_command_version c, cmd_correlation_id c,
             cmd_causation_id c, cmd_target_component c, cmd_initiator c, cmd_tenant_id c,
             cmd_workspace_id c]
      then Inl (ValueError ''required Command fields must be non-empty'')
      else if \<not> tz_aware (cmd_timestamp c)
      then Inl (ValueError ''Command timestamp must be timezone-aware'')
      else if auth_tenant_id (cmeta_authorization (cmd_metadata c)) \<noteq> cmd_tenant_id c
              \<or> auth_workspace_id (cmeta_authorization (cmd_metadata c)) \<noteq> cmd_workspace_id c
      then Inl (ValueError ''Command scope must match verified authorization scope'')
      else case governed_dispatch_error c of
             Some m \<Rightarrow> Inl (ValueError m)
           | None \<Rightarrow> Inr c)"

section \<open>Events\<close>

record EventMetadata =
  emeta_contract_version :: string
  emeta_trace_id :: "string option"
  emeta_span_id :: "string option"
  emeta_attributes :: pydict

definition event_metadata_defaults :: EventMetadata where
  "event_metadata_defaults =
     \<lparr>emeta_contract_version = ''1.0'', emeta_trace_id = None, emeta_span_id = None,
      emeta_attributes = []\<rparr>"

record EventEnvelope =
  evt_event_id :: string
  evt_event_type :: string
  evt_event_version :: string
  evt_occurred_at :: datetime
  evt_recorded_at :: datetime
  evt_producer :: string
  evt_correlation_id :: string
  evt_subject :: string
  evt_payload :: pydict
  evt_metadata :: EventMetadata
  evt_causation_id :: "string option"
  evt_tenant_id :: "string option"
  evt_workspace_id :: "string option"
  evt_request_id :: "string option"
  evt_workflow_id :: "string option"
  evt_workflow_step_id :: "string option"
  evt_execution_id :: "string option"
  evt_ai_invocation_id :: "string option"

definition event_envelope :: "EventEnvelope \<Rightarrow> exn + EventEnvelope" where
  "event_envelope e =
     (if \<not> list_all (\<lambda>s. s \<noteq> [])
            [evt_event_id e, evt_event_type e, evt_event_version e, evt_producer e,
             evt_correlation_id e, evt_subject e]
      then Inl (ValueError ''required Event fields must be non-empty'')
      else if \<not> tz_aware (evt_occurred_at e) \<or> \<not> tz_aware (evt_recorded_at e)
      then Inl (ValueError ''Event timestamps must be timezone-aware'')
      else if (evt_tenant_id e = None) \<noteq> (evt_workspace_id e = None)
      then Inl (ValueError ''Tenant and Workspace scope must be present together'')
      else Inr e)"

section \<open>Equality of envelopes\<close>

text \<open>The generated \<^verbatim>\<open>__eq__\<close> of the dataclasses: field by field, mappings as dictionaries.\<close>

definition same_mapping :: "pydict option \<Rightarrow> pydict option \<Rightarrow> bool" where
  "same_mapping a b = (case (a, b) of
       (Some x, Some y) \<Rightarrow> py_eq (PDict x) (PDict y)
     | (None, None) \<Rightarrow> True
     | _ \<Rightarrow> False)"

definition command_eq :: "CommandEnvelope \<Rightarrow> CommandEnvelope \<Rightarrow> bool" where
  "command_eq c d \<longleftrightarrow>
     c\<lparr>cmd_payload := [], cmd_metadata := (cmd_metadata c)\<lparr>cmeta_workflow_ai_budget_admission := None\<rparr>\<rparr> =
     d\<lparr>cmd_payload := [], cmd_metadata := (cmd_metadata d)\<lparr>cmeta_workflow_ai_budget_admission := None\<rparr>\<rparr>
     \<and> py_eq (PDict (cmd_payload c)) (PDict (cmd_payload d))
     \<and> same_mapping (cmeta_workflow_ai_budget_admission (cmd_metadata c))
         (cmeta_workflow_ai_budget_admission (cmd_metadata d))"

definition event_eq :: "EventEnvelope \<Rightarrow> EventEnvelope \<Rightarrow> bool" where
  "event_eq e f \<longleftrightarrow>
     e\<lparr>evt_payload := [], evt_metadata := (evt_metadata e)\<lparr>emeta_attributes := []\<rparr>\<rparr> =
     f\<lparr>evt_payload := [], evt_metadata := (evt_metadata f)\<lparr>emeta_attributes := []\<rparr>\<rparr>
     \<and> py_eq (PDict (evt_payload e)) (PDict (evt_payload f))
     \<and> py_eq (PDict (emeta_attributes (evt_metadata e))) (PDict (emeta_attributes (evt_metadata f)))"

lemma command_eq_fields:
  assumes "command_eq c d"
  shows "cmd_command_id c = cmd_command_id d" "cmd_command_type c = cmd_command_type d"
    "cmd_target_component c = cmd_target_component d"
proof -
  let ?n = "\<lambda>c. c\<lparr>cmd_payload := [], cmd_metadata := (cmd_metadata c)\<lparr>cmeta_workflow_ai_budget_admission := None\<rparr>\<rparr>"
  have "?n c = ?n d" using assms by (simp add: command_eq_def)
  then have "cmd_command_id (?n c) = cmd_command_id (?n d)" "cmd_command_type (?n c) = cmd_command_type (?n d)"
    "cmd_target_component (?n c) = cmd_target_component (?n d)" by simp_all
  then show "cmd_command_id c = cmd_command_id d" "cmd_command_type c = cmd_command_type d"
    "cmd_target_component c = cmd_target_component d" by simp_all
qed

lemma command_eq_refl:
  assumes "py_wf (PDict (cmd_payload c))"
    "\<And>b. cmeta_workflow_ai_budget_admission (cmd_metadata c) = Some b \<Longrightarrow> py_wf (PDict b)"
  shows "command_eq c c"
  using assms py_eq_refl
  by (auto simp: command_eq_def same_mapping_def simp del: py_wf.simps py_eq.simps split: option.splits)

section \<open>What a constructed envelope guarantees\<close>

lemma error_envelope_Inr [simp]:
  "error_envelope e = Inr f \<longleftrightarrow> f = e \<and> error_envelope e = Inr e"
  by (auto simp: error_envelope_def)

lemma result_envelope_Inr:
  "result_envelope r = Inr f \<longleftrightarrow>
     f = r \<and> res_outcome_category r = STATUS_CATEGORY (res_result_status r)
     \<and> (unsuccessful_status (res_result_status r) \<longrightarrow> truthy_str (res_error_id r))
     \<and> (terminal_status (res_result_status r) \<longrightarrow> res_completed_at r \<noteq> None)
     \<and> (\<forall>t. res_completed_at r = Some t \<longrightarrow> tz_aware t)"
  by (auto simp: result_envelope_def split: option.splits)

lemma command_envelope_scope:
  assumes "command_envelope c = Inr f"
  shows "f = c" "auth_tenant_id (cmeta_authorization (cmd_metadata c)) = cmd_tenant_id c"
    "auth_workspace_id (cmeta_authorization (cmd_metadata c)) = cmd_workspace_id c"
    "tz_aware (cmd_timestamp c)"
  using assms by (auto simp: command_envelope_def split: if_splits option.splits)

lemma command_envelope_required:
  assumes "command_envelope c = Inr f"
  shows "cmd_command_id c \<noteq> []" "cmd_command_version c \<noteq> []" "cmd_target_component c \<noteq> []"
    "cmd_correlation_id c \<noteq> []"
  using assms by (auto simp: command_envelope_def split: if_splits option.splits)

lemma command_envelope_governed:
  assumes "command_envelope c = Inr f" "cmd_command_type c = ''DispatchExecutionAttempt''"
    "cmeta_authoritative_result_id (cmd_metadata c) \<noteq> None"
  shows "cmd_command_version c \<in> {''2'', ''2.0''}" "keys_are (cmd_payload c) [''statement'']"
    "cmeta_skill_version_id (cmd_metadata c) \<noteq> None"
  using assms
  by (auto simp: command_envelope_def governed_dispatch_error_def split: if_splits option.splits)

lemma opaque_not_blank: "opaque_result_id r \<Longrightarrow> strip r \<noteq> []"
proof -
  assume o: "opaque_result_id r"
  then obtain c cs where r: "r = c # cs" "alnum c" by (cases r) (auto simp: opaque_result_id_def)
  then have c: "\<not> py_space c" by (auto simp: alnum_def py_space_def Let_def)
  then have "strip r = rstrip_by py_space (c # cs)" using r by (simp add: strip_def)
  moreover have "rstrip_by py_space (c # cs) \<noteq> []"
    using c by (auto simp: rstrip_by_def)
  ultimately show ?thesis by simp
qed

lemma command_metadata_Inr:
  "command_metadata m = Inr f \<longleftrightarrow>
     f = m \<and> cmeta_request_id m \<noteq> [] \<and> cmeta_idempotency_key m \<noteq> []
     \<and> (\<forall>n. cmeta_attempt_number m = Some n \<longrightarrow> 1 \<le> n)
     \<and> (\<forall>r. cmeta_authoritative_result_id m = Some r \<longrightarrow> opaque_result_id r)"
  using opaque_not_blank
  by (auto simp: command_metadata_def split: option.splits if_splits)

lemma event_envelope_Inr:
  assumes "event_envelope e = Inr f"
  shows "f = e" "evt_event_id e \<noteq> []" "evt_producer e \<noteq> []" "evt_correlation_id e \<noteq> []"
    "evt_subject e \<noteq> []" "(evt_tenant_id e = None) = (evt_workspace_id e = None)"
  using assms by (auto simp: event_envelope_def split: if_splits)

end
