(* ===== verification/Platform.thy ===== *)
theory Platform
  imports Contracts
begin

text \<open>
  The services every stateful component is constructed with, and their state as one extensible
  record over the clock and identifier feeds:
  \<^item> \<^verbatim>\<open>ScopeAuthorizer\<close> (\<^verbatim>\<open>packages/security_support/.../authorization.py\<close>): exact
    Tenant/Workspace scope, revocation of policy versions, explicit permission;
  \<^item> \<^verbatim>\<open>OutcomeFactory\<close> (\<^verbatim>\<open>packages/result_error_support/.../factory.py\<close>): Results and Errors;
  \<^item> \<^verbatim>\<open>InMemoryDecisionEvidenceRepository\<close> (\<^verbatim>\<open>packages/domain/.../runtime.py\<close>): immutable
    decision evidence;
  \<^item> \<^verbatim>\<open>InMemoryObservationRecorder\<close> (\<^verbatim>\<open>adapters/observability_default/.../recorder.py\<close>): logs.
\<close>

type_synonym policy_key = "string \<times> string \<times> string \<times> string"

record DecisionEvidence =
  dec_decision_id :: string
  dec_decision_type :: string
  dec_component :: string
  dec_tenant_id :: string
  dec_workspace_id :: string
  dec_correlation_id :: string
  dec_recorded_at :: datetime
  dec_triggering_id :: "string option"

datatype DataClassification = NON_SENSITIVE | INTERNAL | RESTRICTED

datatype RedactionStatus = NOT_REQUIRED | APPLIED

datatype LogSeverity = LOG_TRACE | LOG_DEBUG | LOG_INFO | LOG_WARN | LOG_ERROR | LOG_CRITICAL

record ObservabilityContext =
  obs_component_identity :: string
  obs_operation_name :: string
  obs_contract_version :: string
  obs_observed_at :: datetime
  obs_environment_identity :: string
  obs_deployment_identity :: string
  obs_data_classification :: DataClassification
  obs_redaction_status :: RedactionStatus
  obs_tenant_id :: string
  obs_workspace_id :: string
  obs_correlation_id :: string
  obs_causation_id :: string
  obs_request_id :: "string option"
  obs_command_id :: "string option"
  obs_event_id :: "string option"
  obs_workflow_id :: "string option"
  obs_workflow_step_id :: "string option"
  obs_execution_id :: "string option"
  obs_ai_invocation_id :: "string option"
  obs_result_id :: "string option"
  obs_error_id :: "string option"

definition observability_context :: "ObservabilityContext \<Rightarrow> exn + ObservabilityContext" where
  "observability_context c =
     (if tz_aware (obs_observed_at c) then Inr c
      else Inl (ValueError ''observed_at must be timezone-aware''))"

record LogRecord =
  log_record_id :: string
  log_context :: ObservabilityContext
  log_severity :: LogSeverity
  log_message :: string
  log_attributes :: pydict

record platform = services +
  active_policy_versions :: "policy_key set option"
  revoked_policy_versions :: "policy_key set"
  decisions :: "(string, DecisionEvidence) odict"
  log_records :: "LogRecord list"

section \<open>ScopeAuthorizer\<close>

definition policy_key :: "AuthorizationContext \<Rightarrow> policy_key" where
  "policy_key c =
     (auth_tenant_id c, auth_workspace_id c, auth_policy_id c, auth_policy_version_id c)"

definition revoke :: "AuthorizationContext \<Rightarrow> ('z platform_scheme, unit) eff" where
  "revoke c = upd (\<lambda>s. s\<lparr>revoked_policy_versions := insert (policy_key c) (revoked_policy_versions s)\<rparr>)"

definition scope_check ::
  "policy_key set option \<Rightarrow> policy_key set \<Rightarrow> AuthorizationContext \<Rightarrow> string \<Rightarrow> string \<Rightarrow> string
   \<Rightarrow> exn + unit"
where
  "scope_check active revoked c permission tenant workspace =
     (if auth_tenant_id c \<noteq> tenant \<or> auth_workspace_id c \<noteq> workspace
      then Inl (AuthorizationFailure ''authorization scope does not match target scope'')
      else if permission = ''ai.invoke'' \<and> policy_key c \<in> revoked
      then Inl (AuthorizationFailure ''authorization policy version is revoked'')
      else if permission = ''ai.invoke''
              \<and> (case active of None \<Rightarrow> False | Some a \<Rightarrow> policy_key c \<notin> a)
      then Inl (AuthorizationFailure ''authorization policy version is unknown or incompatible'')
      else if permission \<notin> auth_permissions c
      then Inl (AuthorizationFailure (''missing required permission: '' @ permission))
      else Inr ())"

definition authorize ::
  "AuthorizationContext \<Rightarrow> string \<Rightarrow> string \<Rightarrow> string \<Rightarrow> ('z platform_scheme, unit) eff" where
  "authorize c permission tenant workspace =
     (\<lambda>s. (scope_check (active_policy_versions s) (revoked_policy_versions s) c permission
             tenant workspace, s))"

lemma scope_check_ok:
  "scope_check active revoked c permission tenant workspace = Inr u \<longleftrightarrow>
     auth_tenant_id c = tenant \<and> auth_workspace_id c = workspace
     \<and> permission \<in> auth_permissions c
     \<and> (permission = ''ai.invoke'' \<longrightarrow>
          policy_key c \<notin> revoked \<and> (\<forall>a. active = Some a \<longrightarrow> policy_key c \<in> a))"
  by (auto simp: scope_check_def split: option.splits)

lemma scope_check_error: "scope_check a r c p t w = Inl e \<Longrightarrow> \<exists>m. e = AuthorizationFailure m"
  by (auto simp: scope_check_def split: if_splits option.splits)

lemma authorize_apply [effect_simps]:
  "authorize c p t w s = (scope_check (active_policy_versions s) (revoked_policy_versions s) c p t w, s)"
  by (simp add: authorize_def)

section \<open>OutcomeFactory\<close>

text \<open>The keyword arguments the three constructors share.\<close>

record outcome_scope =
  os_subject :: string
  os_producer :: string
  os_tenant_id :: string
  os_workspace_id :: string
  os_correlation_id :: string
  os_causation_id :: string

definition accepted ::
  "outcome_scope \<Rightarrow> string \<Rightarrow> string option \<Rightarrow> ('z services_scheme, ResultEnvelope) eff" where
  "accepted sc command_id value_reference =
     bnd (new_id ''result'') (\<lambda>rid.
     lift (result_envelope
       \<lparr>res_result_id = rid,
        res_result_status = ACCEPTED,
        res_outcome_category = ACKNOWLEDGEMENT_CATEGORY,
        res_subject_reference = os_subject sc,
        res_tenant_id = os_tenant_id sc,
        res_workspace_id = os_workspace_id sc,
        res_correlation_id = os_correlation_id sc,
        res_causation_id = os_causation_id sc,
        res_producer_component = os_producer sc,
        res_contract_version = ''1.0'',
        res_command_id = Some command_id,
        res_event_id = None,
        res_started_at = None,
        res_completed_at = None,
        res_value_reference = value_reference,
        res_error_id = None,
        res_warnings = [],
        res_metadata = [],
        res_predecessor_result_id = None,
        res_parent_result_id = None,
        res_child_result_references = [],
        res_disposition_counts = []\<rparr>))"

definition succeeded ::
  "outcome_scope \<Rightarrow> string option \<Rightarrow> string option \<Rightarrow> string option \<Rightarrow> pydict \<Rightarrow> string option
   \<Rightarrow> ('z services_scheme, ResultEnvelope) eff"
where
  "succeeded sc command_id event_id value_reference metadata predecessor =
     bnd clock_now (\<lambda>now.
     bnd (new_id ''result'') (\<lambda>rid.
     lift (result_envelope
       \<lparr>res_result_id = rid,
        res_result_status = SUCCEEDED,
        res_outcome_category = SUCCESS_CATEGORY,
        res_subject_reference = os_subject sc,
        res_tenant_id = os_tenant_id sc,
        res_workspace_id = os_workspace_id sc,
        res_correlation_id = os_correlation_id sc,
        res_causation_id = os_causation_id sc,
        res_producer_component = os_producer sc,
        res_contract_version = ''1.0'',
        res_command_id = command_id,
        res_event_id = event_id,
        res_started_at = Some (Aware now),
        res_completed_at = Some (Aware now),
        res_value_reference = value_reference,
        res_error_id = None,
        res_warnings = [],
        res_metadata = metadata,
        res_predecessor_result_id = predecessor,
        res_parent_result_id = None,
        res_child_result_references = [],
        res_disposition_counts = []\<rparr>)))"

record failure_details =
  fd_status :: ResultStatus
  fd_error_code :: string
  fd_category :: ErrorCategory
  fd_severity :: ErrorSeverity
  fd_retry :: RetryClassification
  fd_message :: string

definition category_by_status :: "ResultStatus \<Rightarrow> OutcomeCategory" where
  "category_by_status st = (case st of
       REJECTED \<Rightarrow> REJECTION_CATEGORY
     | FAILED \<Rightarrow> FAILURE_CATEGORY
     | CANCELLED \<Rightarrow> CANCELLATION_CATEGORY
     | _ \<Rightarrow> TIMEOUT_CATEGORY)"

definition unsuccessful ::
  "outcome_scope \<Rightarrow> failure_details \<Rightarrow> string option \<Rightarrow> string option \<Rightarrow> string option \<Rightarrow> pydict
   \<Rightarrow> ('z services_scheme, ResultEnvelope \<times> ErrorEnvelope) eff"
where
  "unsuccessful sc fd command_id event_id predecessor metadata =
     bnd (guard (unsuccessful_status (fd_status fd))
            (ValueError ''unsuccessful factory requires unsuccessful terminal status'')) (\<lambda>_.
     bnd clock_now (\<lambda>now.
     bnd (new_id ''error'') (\<lambda>eid.
     bnd (lift (error_envelope
       \<lparr>err_error_id = eid,
        err_error_code = fd_error_code fd,
        err_error_category = fd_category fd,
        err_error_severity = fd_severity fd,
        err_retry_classification = fd_retry fd,
        err_message = fd_message fd,
        err_originating_component = os_producer sc,
        err_affected_subject = os_subject sc,
        err_tenant_id = os_tenant_id sc,
        err_workspace_id = os_workspace_id sc,
        err_correlation_id = os_correlation_id sc,
        err_causation_id = os_causation_id sc,
        err_occurred_at = Aware now,
        err_contract_version = ''1.0'',
        err_diagnostic_reference = None,
        err_external_error_reference = None,
        err_parent_error_id = None,
        err_root_error_id = None,
        err_metadata = []\<rparr>)) (\<lambda>error.
     bnd (new_id ''result'') (\<lambda>rid.
     bnd (lift (result_envelope
       \<lparr>res_result_id = rid,
        res_result_status = fd_status fd,
        res_outcome_category = category_by_status (fd_status fd),
        res_subject_reference = os_subject sc,
        res_tenant_id = os_tenant_id sc,
        res_workspace_id = os_workspace_id sc,
        res_correlation_id = os_correlation_id sc,
        res_causation_id = os_causation_id sc,
        res_producer_component = os_producer sc,
        res_contract_version = ''1.0'',
        res_command_id = command_id,
        res_event_id = event_id,
        res_started_at = (if fd_status fd \<noteq> REJECTED then Some (Aware now) else None),
        res_completed_at = Some (Aware now),
        res_value_reference = None,
        res_error_id = Some (err_error_id error),
        res_warnings = [],
        res_metadata = metadata,
        res_predecessor_result_id = predecessor,
        res_parent_result_id = None,
        res_child_result_references = [],
        res_disposition_counts = []\<rparr>)) (\<lambda>result.
     ret (result, error)))))))"

text \<open>What the constructors return, whatever the state.\<close>

lemma new_id_nonempty: "p @ ''_'' @ i \<noteq> []"
  by simp

lemma accepted_returns:
  "\<exists>r. accepted sc cid v s = (Inr r, s\<lparr>id_draws := Suc (id_draws s)\<rparr>)
     \<and> res_result_status r = ACCEPTED \<and> res_value_reference r = v \<and> res_error_id r = None
     \<and> res_tenant_id r = os_tenant_id sc \<and> res_workspace_id r = os_workspace_id sc
     \<and> res_command_id r = Some cid \<and> res_completed_at r = None
     \<and> res_correlation_id r = os_correlation_id sc"
  by (simp add: accepted_def effect_simps result_envelope_def unsuccessful_status_def
      terminal_status_def)

lemma succeeded_returns:
  "\<exists>r. succeeded sc cid ev v md p s =
        (Inr r, s\<lparr>clock_reads := Suc (clock_reads s), id_draws := Suc (id_draws s)\<rparr>)
     \<and> res_result_status r = SUCCEEDED \<and> res_value_reference r = v \<and> res_metadata r = md
     \<and> res_tenant_id r = os_tenant_id sc \<and> res_workspace_id r = os_workspace_id sc
     \<and> res_command_id r = cid \<and> res_completed_at r = Some (Aware (clock_feed s (clock_reads s)))"
  by (simp add: succeeded_def effect_simps result_envelope_def unsuccessful_status_def
      terminal_status_def)

definition failure_fields_ok :: "outcome_scope \<Rightarrow> failure_details \<Rightarrow> bool" where
  "failure_fields_ok sc fd \<longleftrightarrow>
     list_all (\<lambda>x. x \<noteq> [])
       [fd_error_code fd, fd_message fd, os_producer sc, os_subject sc, os_tenant_id sc,
        os_workspace_id sc, os_correlation_id sc, os_causation_id sc]"

lemma unsuccessful_returns:
  assumes "unsuccessful_status (fd_status fd)" "failure_fields_ok sc fd"
  shows "\<exists>r e. unsuccessful sc fd cid ev p md s =
      (Inr (r, e), s\<lparr>clock_reads := Suc (clock_reads s), id_draws := Suc (Suc (id_draws s))\<rparr>)
     \<and> res_result_status r = fd_status fd \<and> res_error_id r = Some (err_error_id e)
     \<and> err_error_code e = fd_error_code fd \<and> err_retry_classification e = fd_retry fd
     \<and> res_metadata r = md \<and> res_command_id r = cid \<and> res_event_id r = ev
     \<and> err_error_category e = fd_category fd \<and> res_value_reference r = None
     \<and> res_tenant_id r = os_tenant_id sc \<and> res_workspace_id r = os_workspace_id sc
     \<and> res_completed_at r = Some (Aware (clock_feed s (clock_reads s)))
     \<and> (\<exists>rid. res_result_id r = rid \<and> rid = ''result_'' @ id_feed s (Suc (id_draws s)))"
proof -
  have cat: "STATUS_CATEGORY (fd_status fd) = category_by_status (fd_status fd)"
    using assms(1) by (cases "fd_status fd") (auto simp: unsuccessful_status_def category_by_status_def)
  show ?thesis
    using assms(1,2) cat
    by (simp add: unsuccessful_def effect_simps error_envelope_def result_envelope_def
        failure_fields_ok_def truthy_str_def)
qed

lemma unsuccessful_refuses:
  "\<not> unsuccessful_status (fd_status fd) \<Longrightarrow>
   unsuccessful sc fd cid ev p md s =
     (Inl (ValueError ''unsuccessful factory requires unsuccessful terminal status''), s)"
  by (simp add: unsuccessful_def effect_simps)

lemma unsuccessful_incomplete:
  "unsuccessful_status (fd_status fd) \<Longrightarrow> \<not> failure_fields_ok sc fd \<Longrightarrow>
   fst (unsuccessful sc fd cid ev p md s) = Inl (ValueError ''required Error fields must be non-empty'')"
  by (auto simp: unsuccessful_def effect_simps error_envelope_def failure_fields_ok_def)

section \<open>Decision evidence and logs\<close>

definition record_decision :: "DecisionEvidence \<Rightarrow> ('z platform_scheme, unit) eff" where
  "record_decision evidence =
     bnd (asks (\<lambda>s. map_of (decisions s) (dec_decision_id evidence))) (\<lambda>existing.
     bnd (guard (existing = None \<or> existing = Some evidence)
            (ValueError ''DecisionId cannot be reused with changed evidence'')) (\<lambda>_.
     upd (\<lambda>s. s\<lparr>decisions := od_put (dec_decision_id evidence) evidence (decisions s)\<rparr>)))"

definition contains_decision :: "string \<Rightarrow> ('z platform_scheme, bool) eff" where
  "contains_decision decision_id = asks (\<lambda>s. map_of (decisions s) decision_id \<noteq> None)"

definition record_log ::
  "ObservabilityContext \<Rightarrow> LogSeverity \<Rightarrow> string \<Rightarrow> pydict \<Rightarrow> ('z platform_scheme, LogRecord) eff"
where
  "record_log context severity message attributes =
     bnd (new_id ''log'') (\<lambda>lid.
     bnd (ret \<lparr>log_record_id = lid, log_context = context, log_severity = severity,
               log_message = message, log_attributes = attributes\<rparr>) (\<lambda>r.
     bnd (upd (\<lambda>s. s\<lparr>log_records := log_records s @ [r]\<rparr>)) (\<lambda>_.
     ret r)))"

text \<open>Evidence, once recorded, is never changed by any later recording.\<close>

lemma record_decision_stable:
  assumes "record_decision ev s = (r, t)" "map_of (decisions s) d = Some old"
  shows "map_of (decisions t) d = Some old"
  using assms by (auto simp: record_decision_def effect_simps split: if_splits)

lemma record_decision_ok:
  assumes "record_decision ev s = (Inr u, t)"
  shows "map_of (decisions t) (dec_decision_id ev) = Some ev"
  using assms by (auto simp: record_decision_def effect_simps split: if_splits)

lemma record_log_apply [effect_simps]:
  "record_log c sv m a s =
     (let r = \<lparr>log_record_id = ''log_'' @ id_feed s (id_draws s), log_context = c, log_severity = sv,
               log_message = m, log_attributes = a\<rparr>
      in (Inr r, s\<lparr>id_draws := Suc (id_draws s), log_records := log_records s @ [r]\<rparr>))"
  by (simp add: record_log_def effect_simps Let_def)

end
