(* ===== verification/Memory_Service.thy ===== *)
theory Memory_Service
  imports Platform
begin

text \<open>
  \<^verbatim>\<open>packages/memory_service/.../service.py\<close> and its repository
  \<^verbatim>\<open>adapters/memory_persistence/.../repository.py\<close>. The service is written against the
  \<^verbatim>\<open>MemoryRepository\<close> protocol, so its operations take \<^verbatim>\<open>save\<close> and \<^verbatim>\<open>get\<close> as
  arguments; the locale \<open>memory_repository\<close> is that protocol with the laws the service relies
  on, and the in-memory repository interprets it.
\<close>

record MemoryWrite =
  mw_content :: string
  mw_tenant_id :: string
  mw_workspace_id :: string
  mw_correlation_id :: string
  mw_provenance :: string
  mw_authorization :: AuthorizationContext

record MemoryRecord =
  mr_memory_id :: string
  mr_content :: string
  mr_tenant_id :: string
  mr_workspace_id :: string
  mr_correlation_id :: string
  mr_provenance :: string

section \<open>MemoryService\<close>

definition store_memory ::
  "(MemoryRecord \<Rightarrow> ('z platform_scheme, unit) eff) \<Rightarrow> MemoryWrite
   \<Rightarrow> ('z platform_scheme, MemoryRecord) eff"
where
  "store_memory save write =
     bnd (authorize (mw_authorization write) ''memory.write'' (mw_tenant_id write)
            (mw_workspace_id write)) (\<lambda>_.
     bnd clock_now (\<lambda>_.
     bnd (new_id ''memory'') (\<lambda>i.
     bnd (ret \<lparr>mr_memory_id = i, mr_content = mw_content write, mr_tenant_id = mw_tenant_id write,
               mr_workspace_id = mw_workspace_id write,
               mr_correlation_id = mw_correlation_id write,
               mr_provenance = mw_provenance write\<rparr>) (\<lambda>r.
     bnd (save r) (\<lambda>_.
     ret r)))))"

definition fetch_memory ::
  "(string \<Rightarrow> string \<Rightarrow> string \<Rightarrow> ('z platform_scheme, MemoryRecord option) eff) \<Rightarrow> string \<Rightarrow> string
   \<Rightarrow> string \<Rightarrow> AuthorizationContext \<Rightarrow> ('z platform_scheme, MemoryRecord) eff"
where
  "fetch_memory get memory_id tenant workspace authorization =
     bnd (authorize authorization ''memory.read'' tenant workspace) (\<lambda>_.
     bnd (get memory_id tenant workspace) (\<lambda>found.
     case found of
       None \<Rightarrow> raise (LookupError memory_id)
     | Some r \<Rightarrow>
         if mr_tenant_id r \<noteq> tenant \<or> mr_workspace_id r \<noteq> workspace
         then raise (PermissionError ''cross-scope Memory access denied'')
         else ret r))"

section \<open>The repository protocol\<close>

locale memory_repository =
  fixes stored :: "'z platform_scheme \<Rightarrow> string \<Rightarrow> MemoryRecord option"
    and save :: "MemoryRecord \<Rightarrow> ('z platform_scheme, unit) eff"
    and get :: "string \<Rightarrow> string \<Rightarrow> string \<Rightarrow> ('z platform_scheme, MemoryRecord option) eff"
  assumes save_fresh: "stored s (mr_memory_id r) = None \<Longrightarrow> fst (save r s) = Inr ()"
    and save_stores: "save r s = (Inr (), t) \<Longrightarrow> stored t (mr_memory_id r) = Some r"
    and save_keeps: "save r s = (x, t) \<Longrightarrow> stored s i = Some q \<Longrightarrow> stored t i = Some q"
    and get_scoped: "get i tenant workspace s =
          (Inr (case stored s i of
                  None \<Rightarrow> None
                | Some r \<Rightarrow> if mr_tenant_id r = tenant \<and> mr_workspace_id r = workspace
                            then Some r else None), s)"
    and stored_services: "stored (s\<lparr>clock_reads := c, id_draws := d\<rparr>) = stored s"
begin

lemma stored_reads [simp]:
  "stored (s\<lparr>clock_reads := c\<rparr>) = stored s" "stored (s\<lparr>id_draws := d\<rparr>) = stored s"
  using stored_services [where s = s and c = c and d = "id_draws s"]
    stored_services [where s = s and c = "clock_reads s" and d = d] by simp_all

lemma store_outcome:
  "store_memory save w s =
     (case scope_check (active_policy_versions s) (revoked_policy_versions s) (mw_authorization w)
             ''memory.write'' (mw_tenant_id w) (mw_workspace_id w) of
        Inl e \<Rightarrow> (Inl e, s)
      | Inr _ \<Rightarrow>
          let r = \<lparr>mr_memory_id = ''memory_'' @ id_feed s (id_draws s), mr_content = mw_content w,
                   mr_tenant_id = mw_tenant_id w, mr_workspace_id = mw_workspace_id w,
                   mr_correlation_id = mw_correlation_id w, mr_provenance = mw_provenance w\<rparr>
          in (case save r (s\<lparr>clock_reads := Suc (clock_reads s), id_draws := Suc (id_draws s)\<rparr>) of
                (Inl e, t) \<Rightarrow> (Inl e, t)
              | (Inr _, t) \<Rightarrow> (Inr r, t)))"
  by (simp add: store_memory_def effect_simps Let_def split: sum.splits prod.splits)

lemma store_keeps:
  "store_memory save w s = (x, t) \<Longrightarrow> stored s i = Some q \<Longrightarrow> stored t i = Some q"
  by (auto simp: store_outcome Let_def split: sum.splits prod.splits dest: save_keeps)

lemma store_stored: "store_memory save w s = (Inr r, t) \<Longrightarrow> stored t (mr_memory_id r) = Some r"
  by (auto simp: store_outcome Let_def split: sum.splits prod.splits dest: save_stores)

lemma store_scope:
  "store_memory save w s = (Inr r, t) \<Longrightarrow>
   mr_tenant_id r = mw_tenant_id w \<and> mr_workspace_id r = mw_workspace_id w
   \<and> mr_content r = mw_content w"
  by (auto simp: store_outcome Let_def split: sum.splits prod.splits)

lemma store_succeeds:
  assumes "scope_check (active_policy_versions s) (revoked_policy_versions s) (mw_authorization w)
             ''memory.write'' (mw_tenant_id w) (mw_workspace_id w) = Inr ()"
    "stored s (''memory_'' @ id_feed s (id_draws s)) = None"
  shows "\<exists>r t. store_memory save w s = (Inr r, t)"
proof -
  let ?r = "\<lparr>mr_memory_id = ''memory_'' @ id_feed s (id_draws s), mr_content = mw_content w,
     mr_tenant_id = mw_tenant_id w, mr_workspace_id = mw_workspace_id w,
     mr_correlation_id = mw_correlation_id w, mr_provenance = mw_provenance w\<rparr>"
  let ?u = "s\<lparr>clock_reads := Suc (clock_reads s), id_draws := Suc (id_draws s)\<rparr>"
  have "fst (save ?r ?u) = Inr ()" using assms(2) by (intro save_fresh) simp
  then obtain t where "save ?r ?u = (Inr (), t)" by (cases "save ?r ?u") auto
  then show ?thesis using assms(1) by (simp add: store_outcome)
qed

lemma fetch_outcome:
  "fetch_memory get i tenant workspace a s =
     (case scope_check (active_policy_versions s) (revoked_policy_versions s) a ''memory.read''
             tenant workspace of
        Inl e \<Rightarrow> Inl e
      | Inr _ \<Rightarrow> (case stored s i of
            None \<Rightarrow> Inl (LookupError i)
          | Some r \<Rightarrow> if mr_tenant_id r = tenant \<and> mr_workspace_id r = workspace then Inr r
                      else Inl (LookupError i)), s)"
  by (auto simp: fetch_memory_def effect_simps get_scoped split: sum.splits option.splits)

end

section \<open>InMemoryMemoryRepository\<close>

record memory_state = platform +
  memory_records :: "(string, MemoryRecord) odict"

definition save_record :: "MemoryRecord \<Rightarrow> ('z memory_state_scheme, unit) eff" where
  "save_record r =
     bnd (asks (\<lambda>s. map_of (memory_records s) (mr_memory_id r))) (\<lambda>existing.
     bnd (guard (existing = None \<or> existing = Some r) (ValueError ''MemoryId cannot be reused'')) (\<lambda>_.
     upd (\<lambda>s. s\<lparr>memory_records := od_put (mr_memory_id r) r (memory_records s)\<rparr>)))"

definition get_record ::
  "string \<Rightarrow> string \<Rightarrow> string \<Rightarrow> ('z memory_state_scheme, MemoryRecord option) eff" where
  "get_record memory_id tenant workspace =
     bnd (asks (\<lambda>s. map_of (memory_records s) memory_id)) (\<lambda>found.
     case found of
       None \<Rightarrow> ret None
     | Some r \<Rightarrow>
         if mr_tenant_id r \<noteq> tenant \<or> mr_workspace_id r \<noteq> workspace then ret None
         else ret (Some r))"

interpretation memory: memory_repository "\<lambda>s. map_of (memory_records s)" save_record get_record
proof unfold_locales
  show "fst (save_record r s) = Inr ()" if "map_of (memory_records s) (mr_memory_id r) = None"
    for r and s :: "'z memory_state_scheme"
    using that by (simp add: save_record_def effect_simps)
  show "map_of (memory_records t) (mr_memory_id r) = Some r" if "save_record r s = (Inr (), t)"
    for r and s t :: "'z memory_state_scheme"
    using that by (auto simp: save_record_def effect_simps split: if_splits)
  show "map_of (memory_records t) i = Some q"
    if "save_record r s = (x, t)" "map_of (memory_records s) i = Some q"
    for r x i q and s t :: "'z memory_state_scheme"
    using that by (auto simp: save_record_def effect_simps split: if_splits)
qed (auto simp: get_record_def effect_simps split: option.splits)

text \<open>The service's operations, and a run of them by any callers in any order.\<close>

datatype memory_call =
    StoreCall MemoryWrite
  | FetchCall string string string AuthorizationContext

fun memory_exec :: "memory_call \<Rightarrow> memory_state \<Rightarrow> (exn + MemoryRecord) \<times> memory_state" where
  "memory_exec (StoreCall w) s = store_memory save_record w s"
| "memory_exec (FetchCall i tenant workspace a) s = fetch_memory get_record i tenant workspace a s"

fun memory_run :: "memory_call list \<Rightarrow> memory_state \<Rightarrow> memory_state" where
  "memory_run [] s = s"
| "memory_run (c # cs) s = memory_run cs (snd (memory_exec c s))"

lemma memory_exec_keeps:
  "map_of (memory_records s) i = Some q \<Longrightarrow> map_of (memory_records (snd (memory_exec c s))) i = Some q"
  by (cases c) (auto simp: memory.fetch_outcome intro: memory.store_keeps [OF prod.collapse [symmetric]])

lemma memory_run_keeps:
  "map_of (memory_records s) i = Some q \<Longrightarrow> map_of (memory_records (memory_run cs s)) i = Some q"
  by (induction cs arbitrary: s) (simp_all add: memory_exec_keeps)

lemma memory_exec_policies:
  "active_policy_versions (snd (memory_exec c s)) = active_policy_versions s"
  "revoked_policy_versions (snd (memory_exec c s)) = revoked_policy_versions s"
  by (cases c; auto simp: memory.fetch_outcome memory.store_outcome Let_def save_record_def effect_simps
      split: sum.splits prod.splits if_splits)+

text \<open>What was stored is fetched, by everybody in scope and by nobody else: after
  a successful store and any further calls of the service, a fetch in the record's own scope
  with the read permission returns exactly that record, and a fetch in any other scope raises.\<close>

theorem memory_store_then_fetch:
  assumes "store_memory save_record w s = (Inr r, t)"
  shows "if auth_tenant_id a = tenant \<and> auth_workspace_id a = workspace
            \<and> ''memory.read'' \<in> auth_permissions a
         then fetch_memory get_record (mr_memory_id r) tenant workspace a (memory_run calls t) =
           (if tenant = mw_tenant_id w \<and> workspace = mw_workspace_id w
            then Inr r else Inl (LookupError (mr_memory_id r)), memory_run calls t)
         else \<exists>m. fetch_memory get_record (mr_memory_id r) tenant workspace a (memory_run calls t) =
           (Inl (AuthorizationFailure m), memory_run calls t)"
proof -
  let ?u = "memory_run calls t"
  have st: "map_of (memory_records ?u) (mr_memory_id r) = Some r"
    using memory.store_stored [OF assms] by (rule memory_run_keeps)
  have sc: "mr_tenant_id r = mw_tenant_id w" "mr_workspace_id r = mw_workspace_id w"
    using memory.store_scope [OF assms] by simp_all
  let ?c = "scope_check (active_policy_versions ?u) (revoked_policy_versions ?u) a ''memory.read''
    tenant workspace"
  show ?thesis
  proof (cases ?c)
    case (Inl e)
    moreover from this obtain m where "e = AuthorizationFailure m" using scope_check_error by blast
    moreover have "\<not> (auth_tenant_id a = tenant \<and> auth_workspace_id a = workspace
        \<and> ''memory.read'' \<in> auth_permissions a)"
      using Inl scope_check_ok [of "active_policy_versions ?u" "revoked_policy_versions ?u" a
          "''memory.read''" tenant workspace "()"] by auto
    ultimately show ?thesis by (simp add: memory.fetch_outcome)
  next
    case (Inr x)
    moreover from this have "auth_tenant_id a = tenant \<and> auth_workspace_id a = workspace
        \<and> ''memory.read'' \<in> auth_permissions a" by (simp add: scope_check_ok)
    ultimately show ?thesis using st sc by (auto simp: memory.fetch_outcome)
  qed
qed

definition sample_memory_state :: memory_state where
  "sample_memory_state =
     \<lparr>clock_feed = int, clock_reads = 0, id_feed = show_nat, id_draws = 0,
      active_policy_versions = None, revoked_policy_versions = {}, decisions = [],
      log_records = [], memory_records = []\<rparr>"

definition sample_auth :: AuthorizationContext where
  "sample_auth =
     \<lparr>auth_actor_id = ''actor'', auth_permissions = {''memory.write'', ''memory.read''},
      auth_tenant_id = ''t'', auth_workspace_id = ''w'', auth_policy_id = ''p'',
      auth_policy_version_id = ''v''\<rparr>"

definition sample_write :: MemoryWrite where
  "sample_write =
     \<lparr>mw_content = ''note'', mw_tenant_id = ''t'', mw_workspace_id = ''w'',
      mw_correlation_id = ''c'', mw_provenance = ''skill'', mw_authorization = sample_auth\<rparr>"

theorem memory_store_then_fetch_witness:
  "\<exists>r t. store_memory save_record sample_write sample_memory_state = (Inr r, t)
     \<and> fetch_memory get_record (mr_memory_id r) ''t'' ''w'' sample_auth t = (Inr r, t)
     \<and> mr_content r = ''note''"
proof -
  have "scope_check (active_policy_versions sample_memory_state)
      (revoked_policy_versions sample_memory_state) (mw_authorization sample_write) ''memory.write''
      (mw_tenant_id sample_write) (mw_workspace_id sample_write) = Inr ()"
    by (simp add: scope_check_ok sample_memory_state_def sample_write_def sample_auth_def)
  from memory.store_succeeds [OF this] obtain r t where
    rt: "store_memory save_record sample_write sample_memory_state = (Inr r, t)"
    by (auto simp: sample_memory_state_def)
  then show ?thesis
    using memory_store_then_fetch [OF rt, where tenant = "''t''" and workspace = "''w''" and a = sample_auth and calls = "[]"] memory.store_scope [OF rt]
    by (simp add: sample_auth_def sample_write_def)
qed

end
