(* ===== verification/Messaging.thy ===== *)
theory Messaging
  imports Memory_Service
begin

text \<open>
  \<^verbatim>\<open>adapters/event_bus_in_process/.../bus.py\<close>: the Event bus (\<^verbatim>\<open>InProcessEventBus\<close>), the shared
  outbox (\<^verbatim>\<open>InMemoryOutboxStore\<close>) and the relay that drains one into the other
  (\<^verbatim>\<open>OutboxRelay\<close>).

  The subscriptions are fixed at composition time, so they are a value the bus operations take;
  receipts, the published log and the outbox entries are state. A consumer is any effect on the
  composed state: it may record further Events and may itself drain, as the Workflow Engine does.
\<close>

record OutboxEntry =
  ob_event :: EventEnvelope
  ob_published :: bool
  ob_claimed :: bool

record messaging = memory_state +
  delivered :: "(string \<times> string) set"
  published_log :: "EventEnvelope list"
  outbox_entries :: "(string, OutboxEntry) odict"

type_synonym 's consumer = "EventEnvelope \<Rightarrow> ('s, unit) eff"

type_synonym 's subscriptions = "(string, (string \<times> 's consumer) list) odict"

text \<open>The state right after construction: no receipts, publications or recorded Events.\<close>

definition messaging_init :: "(nat \<Rightarrow> int) \<Rightarrow> (nat \<Rightarrow> string) \<Rightarrow> messaging" where
  "messaging_init clock ids =
     \<lparr>clock_feed = clock, clock_reads = 0, id_feed = ids, id_draws = 0,
      active_policy_versions = None, revoked_policy_versions = {}, decisions = [],
      log_records = [], memory_records = [], delivered = {}, published_log = [], outbox_entries = []\<rparr>"

section \<open>InProcessEventBus\<close>

definition registrations :: "'s subscriptions \<Rightarrow> string \<Rightarrow> (string \<times> 's consumer) list" where
  "registrations subs ty = (case map_of subs ty of None \<Rightarrow> [] | Some rs \<Rightarrow> rs)"

definition subscribe ::
  "string \<Rightarrow> string \<Rightarrow> 's consumer \<Rightarrow> 's subscriptions \<Rightarrow> exn + 's subscriptions" where
  "subscribe ty name consumer subs =
     (if name \<in> set (map fst (registrations subs ty))
      then Inl (ValueError (''duplicate Event consumer: '' @ name))
      else Inr (od_put ty (registrations subs ty @ [(name, consumer)]) subs))"

definition consumer_names :: "'s subscriptions \<Rightarrow> string \<Rightarrow> string list" where
  "consumer_names subs ty = map fst (registrations subs ty)"

text \<open>One delivery: skipped when the receipt exists, receipted only after the consumer returned.\<close>

definition deliver_once ::
  "EventEnvelope \<Rightarrow> string \<Rightarrow> ('z messaging_scheme) consumer \<Rightarrow> ('z messaging_scheme, unit) eff" where
  "deliver_once event name consumer =
     bnd (asks (\<lambda>s. (evt_event_id event, name) \<in> delivered s)) (\<lambda>done_already.
     if done_already then ret ()
     else bnd (consumer event) (\<lambda>_.
          upd (\<lambda>s. s\<lparr>delivered := insert (evt_event_id event, name) (delivered s)\<rparr>)))"

definition deliver_to ::
  "('z messaging_scheme) subscriptions \<Rightarrow> EventEnvelope \<Rightarrow> string \<Rightarrow> ('z messaging_scheme, unit) eff" where
  "deliver_to subs event name =
     (case map_of (registrations subs (evt_event_type event)) name of
        None \<Rightarrow> raise (LookupError (''Event consumer is not registered: '' @ name))
      | Some consumer \<Rightarrow> deliver_once event name consumer)"

fun deliver_all ::
  "EventEnvelope \<Rightarrow> (string \<times> ('z messaging_scheme) consumer) list \<Rightarrow> ('z messaging_scheme, unit) eff" where
  "deliver_all event [] = ret ()"
| "deliver_all event ((name, consumer) # rest) =
     bnd (deliver_once event name consumer) (\<lambda>_. deliver_all event rest)"

definition publish_event ::
  "('z messaging_scheme) subscriptions \<Rightarrow> EventEnvelope \<Rightarrow> ('z messaging_scheme, unit) eff" where
  "publish_event subs event =
     (if evt_event_id event = [] \<or> evt_producer event = []
      then raise (ValueError ''Event transport envelope is incomplete'')
      else bnd (upd (\<lambda>s. if list_all (\<lambda>i. evt_event_id i \<noteq> evt_event_id event) (published_log s)
                         then s\<lparr>published_log := published_log s @ [event]\<rparr> else s)) (\<lambda>_.
           deliver_all event (registrations subs (evt_event_type event))))"

section \<open>InMemoryOutboxStore\<close>

definition set_entry ::
  "string \<Rightarrow> (OutboxEntry \<Rightarrow> OutboxEntry) \<Rightarrow> ('z messaging_scheme, unit) eff" where
  "set_entry event_id f =
     bnd (asks (\<lambda>s. map_of (outbox_entries s) event_id)) (\<lambda>entry.
     case entry of
       None \<Rightarrow> raise (KeyError event_id)
     | Some e \<Rightarrow> upd (\<lambda>s. s\<lparr>outbox_entries := od_put event_id (f e) (outbox_entries s)\<rparr>))"

definition outbox_record :: "EventEnvelope \<Rightarrow> ('z messaging_scheme, unit) eff" where
  "outbox_record event =
     bnd (asks (\<lambda>s. map_of (outbox_entries s) (evt_event_id event))) (\<lambda>existing.
     bnd (guard (case existing of None \<Rightarrow> True | Some e \<Rightarrow> event_eq (ob_event e) event)
            (ValueError ''EventId cannot be reused with changed content'')) (\<lambda>_.
     upd (\<lambda>s. s\<lparr>outbox_entries := od_setdefault (evt_event_id event)
                  \<lparr>ob_event = event, ob_published = False, ob_claimed = False\<rparr>
                  (outbox_entries s)\<rparr>)))"

definition pending :: "'z messaging_scheme \<Rightarrow> EventEnvelope list" where
  "pending s = map (\<lambda>(_, e). ob_event e)
     (filter (\<lambda>(_, e). \<not> ob_published e \<and> \<not> ob_claimed e) (outbox_entries s))"

definition claim_entry :: "string \<Rightarrow> ('z messaging_scheme, unit) eff" where
  "claim_entry event_id = set_entry event_id (\<lambda>e. e\<lparr>ob_claimed := True\<rparr>)"

definition mark_published :: "string \<Rightarrow> ('z messaging_scheme, unit) eff" where
  "mark_published event_id = set_entry event_id (\<lambda>e. e\<lparr>ob_published := True, ob_claimed := False\<rparr>)"

definition release_entry :: "string \<Rightarrow> ('z messaging_scheme, unit) eff" where
  "release_entry event_id = set_entry event_id (\<lambda>e. e\<lparr>ob_claimed := False\<rparr>)"

definition recover_unpublished_claims :: "('z messaging_scheme, unit) eff" where
  "recover_unpublished_claims =
     upd (\<lambda>s. s\<lparr>outbox_entries :=
       map (\<lambda>(k, e). (k, if ob_published e then e else e\<lparr>ob_claimed := False\<rparr>)) (outbox_entries s)\<rparr>)"

section \<open>OutboxRelay\<close>

text \<open>
  \<^verbatim>\<open>drain\<close> walks the pending entries it saw at the start. \<^verbatim>\<open>except Exception\<close> releases the
  claim and re-raises; a \<^verbatim>\<open>CancelledError\<close> is not an \<^verbatim>\<open>Exception\<close> and leaves the claim
  for \<open>recover_unpublished_claims\<close> of the next relay.
\<close>

definition relay_one ::
  "('z messaging_scheme) subscriptions \<Rightarrow> EventEnvelope \<Rightarrow> ('z messaging_scheme, unit) eff" where
  "relay_one subs event =
     bnd (claim_entry (evt_event_id event)) (\<lambda>_.
     bnd (catch (publish_event subs event) (\<lambda>error.
            if is_exception error
            then bnd (release_entry (evt_event_id event)) (\<lambda>_. raise error)
            else raise error)) (\<lambda>_.
     mark_published (evt_event_id event)))"

fun relay_all ::
  "('z messaging_scheme) subscriptions \<Rightarrow> EventEnvelope list \<Rightarrow> nat \<Rightarrow> ('z messaging_scheme, nat) eff" where
  "relay_all subs [] n = ret n"
| "relay_all subs (event # rest) n =
     bnd (relay_one subs event) (\<lambda>_. relay_all subs rest (Suc n))"

definition drain :: "('z messaging_scheme) subscriptions \<Rightarrow> ('z messaging_scheme, nat) eff" where
  "drain subs = bnd (asks pending) (\<lambda>events. relay_all subs events 0)"

section \<open>What every messaging operation keeps\<close>

text \<open>
  The outbox is well formed when its keys are distinct and each entry is filed under its Event's
  identifier; one state is a successor of another when no entry, receipt or publication is lost
  and no recorded Event changed.
\<close>

definition outbox_ok :: "'z messaging_scheme \<Rightarrow> bool" where
  "outbox_ok s \<longleftrightarrow> od_ok (outbox_entries s)
     \<and> (\<forall>k e. map_of (outbox_entries s) k = Some e \<longrightarrow> evt_event_id (ob_event e) = k)"

definition extends :: "'z messaging_scheme \<Rightarrow> 'z messaging_scheme \<Rightarrow> bool" where
  "extends s t \<longleftrightarrow> delivered s \<subseteq> delivered t
     \<and> (\<forall>k e. map_of (outbox_entries s) k = Some e \<longrightarrow>
          (\<exists>e'. map_of (outbox_entries t) k = Some e' \<and> ob_event e' = ob_event e
                \<and> (ob_published e \<longrightarrow> ob_published e')))"

definition grows :: "('z messaging_scheme, 'a) eff \<Rightarrow> bool" where
  "grows m \<longleftrightarrow> (\<forall>s. outbox_ok s \<longrightarrow> outbox_ok (snd (m s)) \<and> extends s (snd (m s)))"

lemma extends_refl [simp]: "extends s s"
  by (auto simp: extends_def)

lemma extends_trans:
  assumes "extends s t" "extends t u"
  shows "extends s u"
proof -
  { fix k e
    assume "map_of (outbox_entries s) k = Some e"
    with assms(1) obtain e' where "map_of (outbox_entries t) k = Some e'"
      "ob_event e' = ob_event e" "ob_published e \<longrightarrow> ob_published e'"
      unfolding extends_def by blast
    moreover from this(1) assms(2) obtain e'' where "map_of (outbox_entries u) k = Some e''"
      "ob_event e'' = ob_event e'" "ob_published e' \<longrightarrow> ob_published e''"
      unfolding extends_def by blast
    ultimately have "\<exists>e''. map_of (outbox_entries u) k = Some e'' \<and> ob_event e'' = ob_event e
        \<and> (ob_published e \<longrightarrow> ob_published e'')" by auto }
  moreover have "delivered s \<subseteq> delivered u" using assms unfolding extends_def by blast
  ultimately show ?thesis unfolding extends_def by blast
qed

lemma growsD: "grows m \<Longrightarrow> outbox_ok s \<Longrightarrow> m s = (r, t) \<Longrightarrow> outbox_ok t \<and> extends s t"
  unfolding grows_def by (metis snd_conv)

lemma grows_basic [keeps_rules]:
  "grows (ret x)" "grows (raise e)" "grows (asks g)" "grows (lift r)" "grows (guard b e)"
  by (auto simp: grows_def effect_simps)

lemma grows_bnd [keeps_rules]:
  assumes "grows m" "\<And>x. grows (f x)"
  shows "grows (bnd m f)"
  unfolding grows_def
proof (intro allI impI)
  fix s :: "'a messaging_scheme"
  assume ok: "outbox_ok s"
  obtain r t where m: "m s = (r, t)" by fastforce
  note 1 = growsD [OF assms(1) ok m]
  show "outbox_ok (snd (bnd m f s)) \<and> extends s (snd (bnd m f s))"
  proof (cases r)
    case (Inl e)
    with m 1 show ?thesis by (simp add: effect_simps)
  next
    case (Inr x)
    obtain q u where f: "f x t = (q, u)" by fastforce
    from growsD [OF assms(2) _ f] 1 have "outbox_ok u" "extends s u"
      using extends_trans by blast+
    with m f Inr show ?thesis by (simp add: effect_simps)
  qed
qed

lemma grows_catch [keeps_rules]:
  assumes "grows m" "\<And>e. grows (h e)"
  shows "grows (catch m h)"
  unfolding grows_def
proof (intro allI impI)
  fix s :: "'a messaging_scheme"
  assume ok: "outbox_ok s"
  obtain r t where m: "m s = (r, t)" by fastforce
  note 1 = growsD [OF assms(1) ok m]
  show "outbox_ok (snd (catch m h s)) \<and> extends s (snd (catch m h s))"
  proof (cases r)
    case (Inr x)
    with m 1 show ?thesis by (simp add: effect_simps)
  next
    case (Inl e)
    obtain q u where f: "h e t = (q, u)" by fastforce
    from growsD [OF assms(2) _ f] 1 have "outbox_ok u" "extends s u"
      using extends_trans by blast+
    with m f Inl show ?thesis by (simp add: effect_simps)
  qed
qed

lemma grows_cases [keeps_rules]:
  "(b \<Longrightarrow> grows m) \<Longrightarrow> (\<not> b \<Longrightarrow> grows n) \<Longrightarrow> grows (if b then m else n)"
  "(x = None \<Longrightarrow> grows m) \<Longrightarrow> (\<And>y. x = Some y \<Longrightarrow> grows (f y)) \<Longrightarrow>
   grows (case x of None \<Rightarrow> m | Some y \<Rightarrow> f y)"
  by (auto split: option.splits)

lemma grows_set_entry:
  assumes "\<And>e. ob_event (f e) = ob_event e" "\<And>e. ob_published e \<Longrightarrow> ob_published (f e)"
  shows "grows (set_entry k f)"
  using assms
  by (auto simp: grows_def set_entry_def effect_simps outbox_ok_def extends_def
      split: option.splits if_splits)

lemma grows_outbox [keeps_rules]:
  "grows (claim_entry k)" "grows (mark_published k)" "grows (release_entry k)"
  unfolding claim_entry_def mark_published_def release_entry_def
  by (rule grows_set_entry; simp)+

lemma grows_record [keeps_rules]: "grows (outbox_record event)"
  by (auto simp: grows_def outbox_record_def effect_simps outbox_ok_def extends_def
      split: option.splits if_splits)


lemma grows_receipt [keeps_rules]:
  "grows (upd (\<lambda>s. s\<lparr>delivered := insert r (delivered s)\<rparr>))"
  by (auto simp: grows_def effect_simps outbox_ok_def extends_def)

lemma grows_log [keeps_rules]:
  "grows (upd (\<lambda>s. if b s then s\<lparr>published_log := f s\<rparr> else s))"
  by (auto simp: grows_def effect_simps outbox_ok_def extends_def)

lemma subscribe_distinct:
  assumes "subscribe ty name c subs = Inr subs'" "\<And>t. distinct (consumer_names subs t)"
  shows "distinct (consumer_names subs' t)"
  using assms(1) assms(2) [of t]
  by (auto simp: subscribe_def consumer_names_def registrations_def split: if_splits option.splits)

section \<open>Delivery\<close>

text \<open>
  The contract a consumer keeps: whatever it does to the composed state, it neither loses nor
  rewrites outbox entries, receipts and publications.
\<close>

locale event_consumers =
  fixes subs :: "('z messaging_scheme) subscriptions"
  assumes consumer_grows: "(name, c) \<in> set (registrations subs ty) \<Longrightarrow> grows (c event)"
begin

lemma deliver_once_grows: "grows (c event) \<Longrightarrow> grows (deliver_once event name c)"
  unfolding deliver_once_def by (intro keeps_rules)

lemma deliver_all_grows: "\<forall>(n, c) \<in> set rs. grows (c event) \<Longrightarrow> grows (deliver_all event rs)"
  by (induction rs) (auto intro!: keeps_rules deliver_once_grows)

lemma publish_grows: "grows (publish_event subs event)"
  unfolding publish_event_def
  by (intro keeps_rules deliver_all_grows) (auto intro: consumer_grows)

lemma relay_one_grows: "grows (relay_one subs event)"
  unfolding relay_one_def by (intro keeps_rules publish_grows)

lemma relay_all_grows: "grows (relay_all subs events n)"
  by (induction events arbitrary: n) (auto intro!: keeps_rules relay_one_grows)

lemma drain_grows: "grows (drain subs)"
  unfolding drain_def by (intro keeps_rules relay_all_grows)

lemma deliver_all_receipts:
  assumes "deliver_all event rs s = (Inr u, t)" "outbox_ok s" "\<forall>(n, c) \<in> set rs. grows (c event)"
    "name \<in> set (map fst rs)"
  shows "(evt_event_id event, name) \<in> delivered t"
  using assms
proof (induction rs arbitrary: s)
  case (Cons p rs)
  obtain n c where p: "p = (n, c)" by fastforce
  from Cons.prems(1) p obtain m where
    m: "deliver_once event n c s = (Inr (), m)" "deliver_all event rs m = (Inr u, t)"
    by (auto simp: effect_simps split: prod.splits sum.splits)
  have g: "grows (deliver_once event n c)" using Cons.prems(3) p by (auto intro: deliver_once_grows)
  note ok = growsD [OF g Cons.prems(2) m(1)]
  have "(evt_event_id event, n) \<in> delivered m"
    using m(1) by (auto simp: deliver_once_def effect_simps split: if_splits prod.splits sum.splits)
  moreover have "extends m t"
    using growsD [OF deliver_all_grows _ m(2)] ok Cons.prems(3) by auto
  ultimately have "(evt_event_id event, n) \<in> delivered t" by (auto simp: extends_def)
  with Cons.IH [OF m(2)] ok Cons.prems p show ?case by auto
qed simp

lemma publish_receipts:
  assumes "publish_event subs event s = (Inr u, t)" "outbox_ok s"
    "name \<in> set (consumer_names subs (evt_event_type event))"
  shows "(evt_event_id event, name) \<in> delivered t"
proof -
  let ?rs = "registrations subs (evt_event_type event)"
  from assms(1) obtain m where d: "deliver_all event ?rs m = (Inr u, t)"
    and m: "m = s \<or> m = s\<lparr>published_log := published_log s @ [event]\<rparr>"
    by (auto simp: publish_event_def effect_simps split: if_splits)
  from m assms(2) have ok: "outbox_ok m" by (auto simp: outbox_ok_def)
  show ?thesis
    by (rule deliver_all_receipts [OF d ok])
       (use assms(3) consumer_grows in \<open>auto simp: consumer_names_def\<close>)
qed

lemma relay_one_done:
  assumes "relay_one subs event s = (Inr u, t)" "outbox_ok s"
  shows "outbox_ok t \<and> extends s t
     \<and> (\<exists>e. map_of (outbox_entries t) (evt_event_id event) = Some e \<and> ob_published e)
     \<and> (\<forall>name \<in> set (consumer_names subs (evt_event_type event)).
          (evt_event_id event, name) \<in> delivered t)"
proof -
  from assms(1) obtain m n where 1: "claim_entry (evt_event_id event) s = (Inr (), m)"
    and 2: "publish_event subs event m = (Inr (), n)"
    and 3: "mark_published (evt_event_id event) n = (Inr u, t)"
    by (auto simp: relay_one_def effect_simps split: prod.splits sum.splits if_splits)
  have "outbox_ok m" using growsD [OF grows_outbox(1) assms(2) 1] by simp
  note receipts = publish_receipts [OF 2 this]
  have "delivered t = delivered n"
    using 3 by (auto simp: mark_published_def set_entry_def effect_simps split: option.splits)
  moreover have "\<exists>e. map_of (outbox_entries t) (evt_event_id event) = Some e \<and> ob_published e"
    using 3 by (auto simp: mark_published_def set_entry_def effect_simps split: option.splits)
  ultimately show ?thesis
    using receipts growsD [OF relay_one_grows assms(2,1)] by simp
qed

lemma relay_all_done:
  assumes "relay_all subs events n s = (Inr k, t)" "outbox_ok s"
  shows "k = n + length events \<and> outbox_ok t \<and> extends s t
     \<and> (\<forall>event \<in> set events.
          (\<exists>e. map_of (outbox_entries t) (evt_event_id event) = Some e \<and> ob_published e)
          \<and> (\<forall>name \<in> set (consumer_names subs (evt_event_type event)).
               (evt_event_id event, name) \<in> delivered t))"
  using assms
proof (induction events arbitrary: n s)
  case Nil
  then show ?case by (simp add: effect_simps)
next
  case (Cons event events)
  from Cons.prems(1) obtain m where 1: "relay_one subs event s = (Inr (), m)"
    and 2: "relay_all subs events (Suc n) m = (Inr k, t)"
    by (auto simp: effect_simps split: prod.splits sum.splits)
  note first = relay_one_done [OF 1 Cons.prems(2)]
  note rest = Cons.IH [OF 2 conjunct1 [OF first]]
  from first rest have "\<exists>e. map_of (outbox_entries t) (evt_event_id event) = Some e \<and> ob_published e"
    "\<forall>name \<in> set (consumer_names subs (evt_event_type event)). (evt_event_id event, name) \<in> delivered t"
    unfolding extends_def by blast+
  moreover have "extends s t" using first rest extends_trans by blast
  ultimately show ?case using rest by simp
qed

text \<open>A failed delivery hands its claim back, so the Event stays recoverable.\<close>

lemma relay_one_failed:
  assumes "relay_one subs event s = (Inl x, t)" "outbox_ok s" "is_exception x"
    "map_of (outbox_entries s) (evt_event_id event) = Some e"
  shows "\<exists>e'. map_of (outbox_entries t) (evt_event_id event) = Some e' \<and> ob_event e' = ob_event e
     \<and> \<not> ob_claimed e'"
proof -
  from assms(4) obtain m where 1: "claim_entry (evt_event_id event) s = (Inr (), m)"
    by (auto simp: claim_entry_def set_entry_def effect_simps)
  note m = growsD [OF grows_outbox(1) assms(2) 1]
  obtain r n where 2: "publish_event subs event m = (r, n)" by fastforce
  note n = growsD [OF publish_grows conjunct1 [OF m] 2]
  have "extends s n" using m n extends_trans by blast
  then obtain e' where e': "map_of (outbox_entries n) (evt_event_id event) = Some e'"
    "ob_event e' = ob_event e"
    using assms(4) unfolding extends_def by blast
  then show ?thesis
    using assms(1,3) 1 2
    by (auto simp: relay_one_def mark_published_def release_entry_def set_entry_def effect_simps
        split: sum.splits if_splits)
qed

end

lemma recover_pending:
  assumes "recover_unpublished_claims s = (r, t)"
  shows "pending t = map (\<lambda>(_, e). ob_event e) (filter (\<lambda>(_, e). \<not> ob_published e) (outbox_entries s))"
    and "map_of (outbox_entries t) k =
      map_option (\<lambda>e. if ob_published e then e else e\<lparr>ob_claimed := False\<rparr>) (map_of (outbox_entries s) k)"
proof -
  let ?f = "\<lambda>(k, e). (k, if ob_published e then e else e\<lparr>ob_claimed := False\<rparr>)"
  have t: "outbox_entries t = map ?f (outbox_entries s)"
    using assms by (auto simp: recover_unpublished_claims_def effect_simps)
  have "map (\<lambda>(_, e). ob_event e) (filter (\<lambda>(_, e). \<not> ob_published e \<and> \<not> ob_claimed e) (map ?f d))
    = map (\<lambda>(_, e). ob_event e) (filter (\<lambda>(_, e). \<not> ob_published e) d)" for d :: "(string, OutboxEntry) odict"
    by (induction d) auto
  then show "pending t = map (\<lambda>(_, e). ob_event e) (filter (\<lambda>(_, e). \<not> ob_published e) (outbox_entries s))"
    by (simp only: pending_def t)
  show "map_of (outbox_entries t) k =
      map_option (\<lambda>e. if ob_published e then e else e\<lparr>ob_claimed := False\<rparr>) (map_of (outbox_entries s) k)"
    unfolding t map_of_map by simp
qed

lemma pending_recorded:
  "outbox_ok s \<Longrightarrow> event \<in> set (pending s) \<Longrightarrow>
   \<exists>e. map_of (outbox_entries s) (evt_event_id event) = Some e \<and> ob_event e = event"
  unfolding pending_def outbox_ok_def
  by (auto simp: map_of_eq_Some_iff)

text \<open>What a drain has done, when it returned and however it ended.\<close>

context event_consumers
begin

lemma drain_done:
  assumes "outbox_ok s" "drain subs s = (Inr n, t)"
  shows "n = length (pending s)
    \<and> (\<forall>event \<in> set (pending s).
         (\<exists>e. map_of (outbox_entries t) (evt_event_id event) = Some e
              \<and> ob_event e = event \<and> ob_published e)
         \<and> (\<forall>name \<in> set (consumer_names subs (evt_event_type event)).
              (evt_event_id event, name) \<in> delivered t))"
proof -
  have r: "relay_all subs (pending s) 0 s = (Inr n, t)"
    using assms(2) by (simp add: drain_def effect_simps)
  note all = relay_all_done [OF r assms(1)]
  have "\<exists>e. map_of (outbox_entries t) (evt_event_id event) = Some e \<and> ob_event e = event \<and> ob_published e"
    if "event \<in> set (pending s)" for event
    using all that pending_recorded [OF assms(1) that] unfolding extends_def by fastforce
  with all show ?thesis by simp
qed

end

lemma recovered_entry:
  assumes "extends s t" "recover_unpublished_claims t = (Inr (), u)" "map_of (outbox_entries s) k = Some e"
  shows "\<exists>e'. map_of (outbox_entries u) k = Some e' \<and> ob_event e' = ob_event e
     \<and> (ob_published e \<longrightarrow> ob_published e')
     \<and> (ob_published e' \<or> ob_event e \<in> set (pending u))"
proof -
  obtain e' where e': "map_of (outbox_entries t) k = Some e'" "ob_event e' = ob_event e"
    "ob_published e \<longrightarrow> ob_published e'"
    using assms(1,3) unfolding extends_def by blast
  have "ob_event e \<in> set (pending u)" if "\<not> ob_published e'"
    using that e' map_of_SomeD [OF e'(1)] unfolding recover_pending(1) [OF assms(2)] by force
  with e' show ?thesis
    unfolding recover_pending(2) [OF assms(2)] by auto
qed

text \<open>A drain that returns delivered everything that was pending when it
  started: it reports that number, every such Event is marked published and holds a receipt
  from every consumer subscribed to its type.\<close>

theorem drain_delivers:
  assumes "\<forall>ty. \<forall>(name, c) \<in> set (registrations subs ty). \<forall>event. grows (c event)"
    and "outbox_ok s" and "drain subs s = (Inr n, t)"
  shows "n = length (pending s)
    \<and> (\<forall>event \<in> set (pending s).
         (\<exists>e. map_of (outbox_entries t) (evt_event_id event) = Some e
              \<and> ob_event e = event \<and> ob_published e)
         \<and> (\<forall>name \<in> set (consumer_names subs (evt_event_type event)).
              (evt_event_id event, name) \<in> delivered t))"
  by (rule event_consumers.drain_done [OF event_consumers.intro]) (use assms in fast)+

text \<open>No recorded Event is lost or altered, however a drain ends: after a drain that
  returned, raised or was cancelled, and the claim recovery of the next relay, every Event
  recorded before is still recorded with the same content and is either published or pending
  again.\<close>

theorem drain_loses_nothing:
  assumes "\<forall>ty. \<forall>(name, c) \<in> set (registrations subs ty). \<forall>event. grows (c event)"
    and "outbox_ok s" and "drain subs s = (r, t)" and "recover_unpublished_claims t = (Inr (), u)"
    and "map_of (outbox_entries s) k = Some e"
  shows "\<exists>e'. map_of (outbox_entries u) k = Some e' \<and> ob_event e' = ob_event e
     \<and> (ob_published e \<longrightarrow> ob_published e')
     \<and> (ob_published e' \<or> ob_event e \<in> set (pending u))"
proof -
  have "event_consumers subs" by (rule event_consumers.intro) (use assms(1) in fast)
  from growsD [OF event_consumers.drain_grows [OF this] assms(2,3)]
  show ?thesis by (intro recovered_entry [OF _ assms(4,5)]) simp
qed

lemma deliver_all_receipted:
  assumes "\<forall>name \<in> set (map fst rs). (evt_event_id event, name) \<in> delivered s"
  shows "deliver_all event rs s = (Inr (), s)"
  using assms by (induction rs) (auto simp: deliver_once_def effect_simps)

lemma published_log_grows:
  "list_all (\<lambda>i. evt_event_id i \<noteq> x) (published_log s) \<or> (\<exists>i \<in> set (published_log s). evt_event_id i = x)"
  by (auto simp: list_all_iff)

text \<open>Redelivery is harmless: once an Event is in the published log and all its
  consumers hold receipts, publishing it again calls no consumer and changes nothing.\<close>

theorem republish_is_identity:
  assumes "evt_event_id event \<noteq> []" and "evt_producer event \<noteq> []"
    and "\<exists>i \<in> set (published_log s). evt_event_id i = evt_event_id event"
    and "\<forall>name \<in> set (consumer_names subs (evt_event_type event)).
           (evt_event_id event, name) \<in> delivered s"
  shows "publish_event subs event s = (Inr (), s)"
  using assms deliver_all_receipted [of "registrations subs (evt_event_type event)" event s]
  by (auto simp: publish_event_def effect_simps consumer_names_def list_all_iff)

section \<open>A concrete run\<close>

definition sample_event :: "string \<Rightarrow> EventEnvelope" where
  "sample_event i =
     \<lparr>evt_event_id = i, evt_event_type = ''ExecutionAttemptSucceeded'', evt_event_version = ''1.0'',
      evt_occurred_at = Aware 1, evt_recorded_at = Aware 1, evt_producer = ''Skill Runtime'',
      evt_correlation_id = ''c'', evt_subject = ''x'', evt_payload = [],
      evt_metadata = event_metadata_defaults, evt_causation_id = None, evt_tenant_id = None,
      evt_workspace_id = None, evt_request_id = None, evt_workflow_id = None,
      evt_workflow_step_id = None, evt_execution_id = None, evt_ai_invocation_id = None\<rparr>"

definition sample_subscriptions :: "messaging subscriptions" where
  "sample_subscriptions =
     [(''ExecutionAttemptSucceeded'', [(''workflow-engine'', \<lambda>_. outbox_record (sample_event ''e2''))])]"

definition sample_outbox :: messaging where
  "sample_outbox = snd (outbox_record (sample_event ''e1'') (messaging_init (\<lambda>n. int n) (\<lambda>n. show_nat n)))"

lemmas sample_defs = sample_outbox_def sample_subscriptions_def sample_event_def messaging_init_def
  event_metadata_defaults_def outbox_record_def od_setdefault_def effect_simps registrations_def

lemmas relay_defs = drain_def pending_def relay_one_def claim_entry_def set_entry_def
  publish_event_def deliver_once_def mark_published_def release_entry_def

lemma sample_consumers:
  "\<forall>ty. \<forall>(name, c) \<in> set (registrations sample_subscriptions ty). \<forall>event. grows (c event)"
  by (auto simp: sample_subscriptions_def registrations_def split: if_splits intro: keeps_rules)

lemma sample_ok: "outbox_ok sample_outbox"
  by (auto simp: sample_defs outbox_ok_def)

lemma sample_pending: "pending sample_outbox = [sample_event ''e1'']"
  by (simp add: sample_defs pending_def)

lemma sample_run:
  "\<exists>t. drain sample_subscriptions sample_outbox = (Inr 1, t) \<and> length (outbox_entries t) = 2"
  by (simp add: sample_defs relay_defs)

lemma sample_names: "consumer_names sample_subscriptions ''ExecutionAttemptSucceeded'' = [''workflow-engine'']"
  by (simp add: consumer_names_def registrations_def sample_subscriptions_def)

theorem drain_delivers_witness:
  "\<exists>t. drain sample_subscriptions sample_outbox = (Inr 1, t)
     \<and> (''e1'', ''workflow-engine'') \<in> delivered t"
proof -
  obtain t where t: "drain sample_subscriptions sample_outbox = (Inr 1, t)" using sample_run by blast
  have "(''e1'', ''workflow-engine'') \<in> delivered t"
    using drain_delivers [OF sample_consumers sample_ok t]
    by (simp add: sample_pending) (simp add: sample_event_def sample_names)
  with t show ?thesis by blast
qed

theorem drain_loses_nothing_witness:
  "\<exists>t u e. drain sample_subscriptions sample_outbox = (Inr 1, t)
     \<and> recover_unpublished_claims t = (Inr (), u)
     \<and> map_of (outbox_entries u) ''e1'' = Some e \<and> ob_event e = sample_event ''e1''"
proof -
  obtain t where t: "drain sample_subscriptions sample_outbox = (Inr 1, t)" using sample_run by blast
  obtain u where u: "recover_unpublished_claims t = (Inr (), u)"
    by (simp add: recover_unpublished_claims_def effect_simps)
  have e: "map_of (outbox_entries sample_outbox) ''e1'' =
      Some \<lparr>ob_event = sample_event ''e1'', ob_published = False, ob_claimed = False\<rparr>"
    by (simp add: sample_defs)
  from drain_loses_nothing [OF sample_consumers sample_ok t u e] t u show ?thesis by auto
qed

theorem republish_is_identity_witness:
  "\<exists>t. publish_event sample_subscriptions (sample_event ''e1'') sample_outbox = (Inr (), t)
     \<and> publish_event sample_subscriptions (sample_event ''e1'') t = (Inr (), t)"
proof -
  obtain t where t: "publish_event sample_subscriptions (sample_event ''e1'') sample_outbox = (Inr (), t)"
    "published_log t = [sample_event ''e1'']" "delivered t = {(''e1'', ''workflow-engine'')}"
    by (simp add: sample_defs relay_defs)
  have "publish_event sample_subscriptions (sample_event ''e1'') t = (Inr (), t)"
    by (rule republish_is_identity) (simp_all add: t, simp_all add: sample_event_def sample_names)
  with t show ?thesis by blast
qed

end
