(* ===== verification/Json.thy ===== *)
theory Json
  imports Effects "HOL-Library.List_Lexorder" "HOL-Library.Char_ord"
begin

text \<open>
  \<^verbatim>\<open>json.dumps\<close> of the standard library on the dynamic values, as the digests, prompts and
  schemas use it: \<^verbatim>\<open>ensure_ascii\<close> on, keys sorted by code point or kept in insertion order, and
  either the compact or the default separators. The shortest decimal form of a \<^verbatim>\<open>float\<close>
  (\<^verbatim>\<open>repr\<close>) is an argument.
\<close>

record json_style =
  item_separator :: string
  key_separator :: string
  sort_keys :: bool
  float_repr :: "rat \<Rightarrow> string"

definition hex_digit :: "nat \<Rightarrow> char" where
  "hex_digit n = ''0123456789abcdef'' ! n"

definition json_char :: "char \<Rightarrow> string" where
  "json_char c = (let n = of_char c :: nat in
     if n = 34 then [CHR 0x5C, CHR 0x22]
     else if n = 92 then [CHR 0x5C, CHR 0x5C]
     else if n = 10 then [CHR 0x5C, CHR ''n'']
     else if n = 13 then [CHR 0x5C, CHR ''r'']
     else if n = 9 then [CHR 0x5C, CHR ''t'']
     else if n = 8 then [CHR 0x5C, CHR ''b'']
     else if n = 12 then [CHR 0x5C, CHR ''f'']
     else if n < 32 \<or> 126 < n
       then [CHR 0x5C, CHR ''u'', CHR ''0'', CHR ''0'', hex_digit (n div 16), hex_digit (n mod 16)]
     else [c])"

definition json_string :: "string \<Rightarrow> string" where
  "json_string s = [CHR 0x22] @ concat (map json_char s) @ [CHR 0x22]"

definition json_object :: "json_style \<Rightarrow> (string \<times> string) list \<Rightarrow> string" where
  "json_object st items =
     ''{'' @ join (item_separator st)
       (map (\<lambda>(k, v). json_string k @ key_separator st @ v)
          (if sort_keys st then sort_key fst items else items)) @ ''}''"

fun json_dumps :: "json_style \<Rightarrow> pyval \<Rightarrow> string" where
  "json_dumps st PNone = ''null''"
| "json_dumps st (PBool b) = (if b then ''true'' else ''false'')"
| "json_dumps st (PInt i) = show_int i"
| "json_dumps st (PFloat r) = float_repr st r"
| "json_dumps st (PStr s) = json_string s"
| "json_dumps st (PList xs) = ''['' @ join (item_separator st) (map (json_dumps st) xs) @ '']''"
| "json_dumps st (PTuple xs) = ''['' @ join (item_separator st) (map (json_dumps st) xs) @ '']''"
| "json_dumps st (PDict d) = json_object st (map (\<lambda>(k, v). (k, json_dumps st v)) d)"

definition compact_sorted :: "(rat \<Rightarrow> string) \<Rightarrow> json_style" where
  "compact_sorted repr =
     \<lparr>item_separator = '','', key_separator = '':'', sort_keys = True, float_repr = repr\<rparr>"

text \<open>With sorted keys the text does not depend on the insertion order of a dictionary.\<close>

lemma distinct_sort_key: "distinct (map fst xs) \<Longrightarrow> distinct (map fst (sort_key fst xs))"
  by (simp add: distinct_map)

lemma sort_key_perm:
  assumes "distinct (map fst xs)" "distinct (map fst ys)" "set xs = set ys"
  shows "sort_key fst xs = sort_key fst (ys :: (string \<times> 'a) list)"
proof (rule map_sorted_distinct_set_unique [where f = fst])
  show "inj_on fst (set (sort_key fst xs) \<union> set (sort_key fst ys))"
    using assms by (simp add: distinct_map)
qed (use assms in \<open>simp_all add: distinct_sort_key\<close>)

lemma json_object_perm:
  assumes "sort_keys st" "distinct (map fst xs)" "distinct (map fst ys)" "set xs = set ys"
  shows "json_object st xs = json_object st ys"
  using sort_key_perm [OF assms(2-4)] assms(1) by (simp add: json_object_def)

lemma json_dumps_perm:
  assumes "sort_keys st" "distinct (map fst d)" "distinct (map fst e)" "set d = set e"
  shows "json_dumps st (PDict d) = json_dumps st (PDict e)"
  using assms by (auto intro!: json_object_perm simp: comp_def split_def)

end
