(* ===== verification/Registries.thy ===== *)
theory Registries
  imports Contracts
begin

text \<open>
  The static catalogs: \<^verbatim>\<open>packages/capability_registry/.../registry.py\<close>,
  \<^verbatim>\<open>packages/skill_registry/.../registry.py\<close> and the routing table of
  \<^verbatim>\<open>adapters/command_dispatch_in_process/.../dispatcher.py\<close>. Each is a dictionary built once
  from a tuple and refused when two items share a key; the locale \<open>keyed_catalog\<close> states that
  contract once for all of them.
\<close>

section \<open>Registration by unique key\<close>

definition dict_of :: "('v \<Rightarrow> 'k) \<Rightarrow> 'v list \<Rightarrow> ('k, 'v) odict" where
  "dict_of key items = foldl (\<lambda>d x. od_put (key x) x d) [] items"

definition build_catalog :: "('v \<Rightarrow> 'k) \<Rightarrow> string \<Rightarrow> 'v list \<Rightarrow> exn + ('k, 'v) odict" where
  "build_catalog key message items =
     (let d = dict_of key items in
      if length d \<noteq> length items then Inl (ValueError message) else Inr d)"

lemma dict_of_snoc: "dict_of key (xs @ [x]) = od_put (key x) x (dict_of key xs)"
  by (simp add: dict_of_def)

lemma dict_of_ok [simp]: "od_ok (dict_of key xs)"
  by (induction xs rule: rev_induct) (simp_all add: dict_of_snoc, simp add: dict_of_def)

lemma dict_of_keys: "set (od_keys (dict_of key xs)) = key ` set xs"
proof (induction xs rule: rev_induct)
  case Nil
  then show ?case by (simp add: dict_of_def)
next
  case (snoc x xs)
  then show ?case unfolding dict_of_snoc od_keys_put by simp
qed

lemma dict_of_mem: "(k, v) \<in> set (dict_of key xs) \<Longrightarrow> v \<in> set xs \<and> key v = k"
proof (induction xs rule: rev_induct)
  case Nil
  then show ?case by (simp add: dict_of_def)
next
  case (snoc x xs)
  then show ?case
    using set_od_put_subset [of "key x" x "dict_of key xs"] by (auto simp: dict_of_snoc)
qed

lemma dict_of_length: "length (dict_of key xs) = card (key ` set xs)"
proof -
  have "length (dict_of key xs) = card (set (od_keys (dict_of key xs)))"
    using distinct_card [OF dict_of_ok [of key xs]] by simp
  then show ?thesis by (simp only: dict_of_keys)
qed

lemma dict_of_unique: "length (dict_of key xs) = length xs \<longleftrightarrow> distinct (map key xs)"
proof -
  have "length (dict_of key xs) = card (set (map key xs))" by (simp add: dict_of_length)
  also have "\<dots> = length (map key xs) \<longleftrightarrow> distinct (map key xs)"
    using card_distinct distinct_card by blast
  finally show ?thesis by simp
qed

lemma dict_of_lookup:
  assumes "distinct (map key xs)"
  shows "map_of (dict_of key xs) k = Some v \<longleftrightarrow> v \<in> set xs \<and> key v = k"
  using assms
proof (induction xs arbitrary: v rule: rev_induct)
  case Nil
  then show ?case by (simp add: dict_of_def)
next
  case (snoc x xs)
  then show ?case by (auto simp: dict_of_snoc image_iff)
qed

text \<open>The contract of a catalog: it holds exactly the registered items, each under its own key.\<close>

locale keyed_catalog =
  fixes key :: "'v \<Rightarrow> 'k"
    and build :: "'v list \<Rightarrow> exn + 'c"
    and resolve :: "'c \<Rightarrow> 'k \<Rightarrow> exn + 'v"
  assumes build_iff: "(\<exists>c. build items = Inr c) \<longleftrightarrow> distinct (map key items)"
    and resolve_iff: "build items = Inr c \<Longrightarrow> resolve c k = Inr v \<longleftrightarrow> v \<in> set items \<and> key v = k"
    and resolve_lookup_error: "resolve c k = Inl e \<Longrightarrow> is_lookup_error e"
begin

lemma resolve_total: "build items = Inr c \<Longrightarrow> x \<in> set items \<Longrightarrow> resolve c (key x) = Inr x"
  using resolve_iff by blast

lemma resolve_unknown:
  "build items = Inr c \<Longrightarrow> k \<notin> key ` set items \<Longrightarrow> \<exists>e. resolve c k = Inl e \<and> is_lookup_error e"
  using resolve_iff resolve_lookup_error by (cases "resolve c k") force+

lemma order_irrelevant:
  assumes "build xs = Inr c" "build ys = Inr d" "set xs = set ys"
  shows "resolve c k = Inr v \<longleftrightarrow> resolve d k = Inr v"
  using assms resolve_iff by metis

end

lemma build_catalog_iff: "(\<exists>c. build_catalog key m items = Inr c) \<longleftrightarrow> distinct (map key items)"
  by (auto simp: build_catalog_def Let_def dict_of_unique)

lemma build_catalog_lookup:
  "build_catalog key m items = Inr c \<Longrightarrow> map_of c k = Some v \<longleftrightarrow> v \<in> set items \<and> key v = k"
proof -
  assume "build_catalog key m items = Inr c"
  then have "c = dict_of key items" "distinct (map key items)"
    by (auto simp: build_catalog_def Let_def dict_of_unique split: if_splits)
  then show ?thesis using dict_of_lookup by metis
qed

lemma case_lookup_Inr [simp]:
  "(case x of None \<Rightarrow> Inl e | Some y \<Rightarrow> Inr y) = Inr v \<longleftrightarrow> x = Some v"
  by (cases x) auto

lemma case_lookup_Inl [simp]:
  "(case x of None \<Rightarrow> Inl e | Some y \<Rightarrow> Inr y) = Inl f \<longleftrightarrow> x = None \<and> f = e"
  by (cases x) auto

section \<open>Capability registry\<close>

record CapabilityImplementation =
  ci_capability_id :: string
  ci_capability_contract_version_id :: string
  ci_implementation_reference :: string
  ci_boundary :: string
  ci_prompt_package_ref :: "string option"
  ci_prompt_package_version_ref :: "string option"
  ci_output_schema_ref :: "string option"

type_synonym capability_registry = "(string \<times> string, CapabilityImplementation) odict"

definition capability_registry :: "CapabilityImplementation list \<Rightarrow> exn + capability_registry" where
  "capability_registry implementations =
     build_catalog (\<lambda>i. (ci_capability_id i, ci_capability_contract_version_id i))
       ''duplicate Capability contract registration'' implementations"

definition resolve_capability ::
  "capability_registry \<Rightarrow> string \<times> string \<Rightarrow> exn + CapabilityImplementation" where
  "resolve_capability r k = (case map_of r k of
       None \<Rightarrow> Inl (LookupError (''unsupported Capability contract: '' @ fst k @ ''/'' @ snd k))
     | Some i \<Rightarrow> Inr i)"

interpretation capability: keyed_catalog
  "\<lambda>i. (ci_capability_id i, ci_capability_contract_version_id i)"
  capability_registry resolve_capability
  by unfold_locales
     (simp_all add: capability_registry_def build_catalog_iff resolve_capability_def
        build_catalog_lookup)

section \<open>Skill registry\<close>

record SkillDefinition =
  sd_skill_id :: string
  sd_skill_version_id :: string
  sd_capability_id :: string
  sd_capability_contract_version_id :: string
  sd_implementation_reference :: string

type_synonym skill_registry = "(string, SkillDefinition) odict"

definition skill_registry :: "SkillDefinition list \<Rightarrow> exn + skill_registry" where
  "skill_registry definitions =
     build_catalog sd_skill_version_id ''duplicate SkillVersionId'' definitions"

definition resolve_skill :: "skill_registry \<Rightarrow> string \<Rightarrow> exn + SkillDefinition" where
  "resolve_skill r k = (case map_of r k of
       None \<Rightarrow> Inl (LookupError (''unknown SkillVersionId: '' @ k))
     | Some d \<Rightarrow> Inr d)"

interpretation skills: keyed_catalog sd_skill_version_id skill_registry resolve_skill
  by unfold_locales
     (simp_all add: skill_registry_def build_catalog_iff resolve_skill_def build_catalog_lookup)

section \<open>Command dispatcher\<close>

text \<open>
  A handler is an effect on the state of the whole composition; the routing table maps each
  target component to one handler.
\<close>

type_synonym 's handler = "CommandEnvelope \<Rightarrow> ('s, ResultEnvelope) eff"

type_synonym 's routes = "(string, 's handler) odict"

definition register_target :: "string \<Rightarrow> 's handler \<Rightarrow> 's routes \<Rightarrow> exn + 's routes" where
  "register_target target h routes =
     (if target = [] then Inl (ValueError ''target component must be non-empty'')
      else if map_of routes target \<noteq> None then Inl (DuplicateCommandTarget target)
      else Inr (od_put target h routes))"

definition dispatch_command :: "'s routes \<Rightarrow> 's handler" where
  "dispatch_command routes c =
     (if cmd_target_component c = [] \<or> cmd_command_id c = [] \<or> cmd_command_version c = []
      then raise (ValueError ''Command routing envelope is incomplete'')
      else case map_of routes (cmd_target_component c) of
             None \<Rightarrow> raise (UnknownCommandTarget (cmd_target_component c))
           | Some h \<Rightarrow> h c)"

lemma register_routes:
  assumes "register_target target h routes = Inr routes'"
  shows "dispatch_command routes' c =
     (if cmd_command_id c = [] \<or> cmd_command_version c = [] \<or> cmd_target_component c \<noteq> target
      then dispatch_command routes c else h c)"
  using assms by (auto simp: register_target_def dispatch_command_def split: if_splits option.splits)

text \<open>Routing is exact and stable: a target registered once keeps its handler
  through every later successful registration, a second registration of the same target is
  refused, and a valid Command for it reaches that handler and no other.\<close>

theorem dispatch_exact_target:
  assumes "register_target target h routes = Inr routes'"
    and "foldl (\<lambda>r (t, g). ebind r (register_target t g)) (Inr routes') later = Inr routes''"
    and "command_envelope c = Inr c" and "cmd_target_component c = target"
  shows "dispatch_command routes'' c = h c
    \<and> register_target target g routes'' = Inl (DuplicateCommandTarget target)"
proof -
  have "map_of routes'' target = Some h \<and> target \<noteq> []"
    using assms(2)
  proof (induction later arbitrary: routes'' rule: rev_induct)
    case Nil
    then show ?case using assms(1) by (auto simp: register_target_def split: if_splits)
  next
    case (snoc p later)
    then show ?case
      by (cases p) (auto simp: register_target_def split: if_splits)
  qed
  then show ?thesis
    using command_envelope_required [OF assms(3)] assms(4)
    by (auto simp: dispatch_command_def register_target_def)
qed

section \<open>A concrete routing table\<close>

definition sample_command :: CommandEnvelope where
  "sample_command =
     \<lparr>cmd_command_id = ''c1'', cmd_command_type = ''StartWorkflow'', cmd_command_version = ''1.0'',
      cmd_correlation_id = ''r'', cmd_causation_id = ''q'', cmd_target_component = ''Workflow Engine'',
      cmd_initiator = ''Manager'', cmd_timestamp = Aware 0, cmd_tenant_id = ''t'', cmd_workspace_id = ''w'',
      cmd_payload = [], cmd_metadata =
        \<lparr>cmeta_request_id = ''q'', cmeta_idempotency_key = ''i'', cmeta_authorization =
           \<lparr>auth_actor_id = ''a'', auth_permissions = {''workflow.start''}, auth_tenant_id = ''t'',
            auth_workspace_id = ''w'', auth_policy_id = ''p'', auth_policy_version_id = ''v''\<rparr>,
         cmeta_attempt_number = None, cmeta_expires_at = None, cmeta_trace_id = None, cmeta_span_id = None,
         cmeta_skill_version_id = None, cmeta_authoritative_result_id = None,
         cmeta_workflow_ai_budget_admission = None\<rparr>,
      cmd_workflow_id = None, cmd_workflow_step_id = None, cmd_execution_id = None\<rparr>"

theorem dispatch_exact_target_witness:
  "\<exists>first all. register_target ''Workflow Engine'' (\<lambda>c. raise (ValueError (cmd_command_id c))) [] = Inr first
     \<and> register_target ''Skill Runtime'' (\<lambda>_. raise AssertionError) first = Inr all
     \<and> dispatch_command all sample_command (0 :: nat) = (Inl (ValueError ''c1''), 0)"
proof -
  let ?h = "(\<lambda>c. raise (ValueError (cmd_command_id c))) :: nat handler"
    and ?g = "(\<lambda>_. raise AssertionError) :: nat handler"
  obtain first where first: "register_target ''Workflow Engine'' ?h [] = Inr first"
    by (simp add: register_target_def)
  obtain all where all: "register_target ''Skill Runtime'' ?g first = Inr all"
    using first by (auto simp: register_target_def)
  have fold: "foldl (\<lambda>r (t, g). ebind r (register_target t g)) (Inr first) [(''Skill Runtime'', ?g)] = Inr all"
    using all by simp
  have "command_envelope sample_command = Inr sample_command" "cmd_target_component sample_command = ''Workflow Engine''"
    "cmd_command_id sample_command = ''c1''"
    by (simp_all add: sample_command_def command_envelope_def governed_dispatch_error_def)
  with dispatch_exact_target [OF first fold this(1,2)] first all show ?thesis by (auto simp: effect_simps)
qed

end
