(* ===== verification/Prompt_Pipeline.thy ===== *)
theory Prompt_Pipeline
  imports Json Registries
begin

text \<open>
  \<^verbatim>\<open>packages/ai_gateway/.../prompt_pipeline.py\<close>: the governed prompt packages, their catalog,
  prompt assembly and the release/rollback decision. SHA-256 (\<^verbatim>\<open>hashlib\<close>) and the \<^verbatim>\<open>repr\<close> of
  floats are arguments. \<^verbatim>\<open>release_selection\<close> compares object identities; packages are immutable
  values here, so it compares the values.
\<close>

definition STRUCTURED_TASK_KIND_SCHEMA :: pydict where
  "STRUCTURED_TASK_KIND_SCHEMA =
     [(''type'', PStr ''object''),
      (''properties'', PDict
         [(''task_kind'', PDict
             [(''type'', PStr ''string''),
              (''enum'', PList [PStr ''Question'', PStr ''Instruction'', PStr ''Statement''])])]),
      (''required'', PList [PStr ''task_kind'']),
      (''additionalProperties'', PBool False)]"

fun deep_freeze :: "pyval \<Rightarrow> pyval" where
  "deep_freeze (PDict d) = PDict (map (\<lambda>(k, v). (k, deep_freeze v)) d)"
| "deep_freeze (PList xs) = PTuple (map deep_freeze xs)"
| "deep_freeze (PTuple xs) = PTuple (map deep_freeze xs)"
| "deep_freeze v = v"

fun json_value :: "pyval \<Rightarrow> pyval" where
  "json_value (PDict d) = PDict (map (\<lambda>(k, v). (k, json_value v)) d)"
| "json_value (PTuple xs) = PList (map json_value xs)"
| "json_value v = v"

datatype PackageState = APPROVED | CANDIDATE | DISABLED

record PromptPackage =
  pp_reference :: string
  pp_version_reference :: string
  pp_owner :: string
  pp_capability_id :: string
  pp_capability_contract_version_id :: string
  pp_typed_variables :: "(string \<times> string) list"
  pp_system_instruction_reference :: string
  pp_system_instruction :: string
  pp_output_schema_reference :: string
  pp_output_schema :: pydict
  pp_task_class :: string
  pp_evaluation_set_reference :: string
  pp_rollback_version_reference :: "string option"
  pp_quality_threshold :: decimal
  pp_per_class_recall_threshold :: decimal
  pp_max_regression :: decimal
  pp_max_input_tokens :: int
  pp_max_output_tokens :: int
  pp_max_cost :: decimal
  pp_state :: PackageState
  pp_change_history :: "string list"

definition unit_range :: "decimal \<Rightarrow> bool" where
  "unit_range d \<longleftrightarrow> 0 \<le> d \<and> d \<le> Dec 1 0"

definition dict_of_val :: "pyval \<Rightarrow> pydict" where
  "dict_of_val v = (case v of PDict d \<Rightarrow> d | _ \<Rightarrow> [])"

definition prompt_package :: "PromptPackage \<Rightarrow> exn + PromptPackage" where
  "prompt_package p =
     (if \<not> list_all (\<lambda>s. s \<noteq> [])
            [pp_reference p, pp_version_reference p, pp_owner p, pp_capability_id p,
             pp_capability_contract_version_id p, pp_system_instruction_reference p,
             pp_system_instruction p, pp_output_schema_reference p, pp_task_class p,
             pp_evaluation_set_reference p]
      then Inl (ValueError ''prompt-package references and content must be non-empty'')
      else if pp_typed_variables p \<noteq> [(''statement'', ''string[1..512]'')]
      then Inl (ValueError ''prompt-package typed variables do not match the governed contract'')
      else if pp_capability_id p \<noteq> ''StructuredTaskKindClassification''
              \<or> pp_capability_contract_version_id p \<noteq> ''1''
              \<or> pp_task_class p \<noteq> ''classification''
      then Inl (ValueError ''prompt-package contract association is incompatible'')
      else if pp_change_history p = []
      then Inl (ValueError ''prompt-package change history is required'')
      else if \<not> unit_range (pp_quality_threshold p)
      then Inl (ValueError ''quality threshold must be within 0..1'')
      else if \<not> unit_range (pp_per_class_recall_threshold p)
      then Inl (ValueError ''per-class recall threshold must be within 0..1'')
      else if \<not> unit_range (pp_max_regression p)
      then Inl (ValueError ''maximum regression must be within 0..1'')
      else if pp_max_input_tokens p \<noteq> 256 \<or> pp_max_output_tokens p \<noteq> 16
              \<or> dval (pp_max_cost p) \<noteq> dval (Dec 1 (- 2))
      then Inl (ValueError ''prompt-package bounds do not match the governed contract'')
      else Inr (p\<lparr>pp_output_schema := dict_of_val (deep_freeze (PDict (pp_output_schema p)))\<rparr>))"

text \<open>The digest input and identity of a package; \<open>sha\<close> is \<^verbatim>\<open>sha256(...).hexdigest()\<close>.\<close>

definition package_material :: "(rat \<Rightarrow> string) \<Rightarrow> PromptPackage \<Rightarrow> string" where
  "package_material repr p =
     json_dumps (compact_sorted repr) (PDict
       [(''reference'', PStr (pp_reference p)),
        (''version'', PStr (pp_version_reference p)),
        (''instruction'', PStr (pp_system_instruction p)),
        (''schema'', json_value (PDict (pp_output_schema p))),
        (''variables'', PTuple (map (\<lambda>(n, t). PTuple [PStr n, PStr t]) (pp_typed_variables p)))])"

definition package_identity :: "(string \<Rightarrow> string) \<Rightarrow> (rat \<Rightarrow> string) \<Rightarrow> PromptPackage \<Rightarrow> string" where
  "package_identity sha repr p = sha (package_material repr p)"

record AssembledPrompt =
  ap_content :: string
  ap_package_identity :: string
  ap_output_schema_reference :: string
  ap_output_schema :: pydict

section \<open>Catalog\<close>

type_synonym prompt_catalog = "(string \<times> string, PromptPackage) odict"

definition prompt_catalog :: "PromptPackage list \<Rightarrow> exn + prompt_catalog" where
  "prompt_catalog packages =
     build_catalog (\<lambda>p. (pp_reference p, pp_version_reference p))
       ''duplicate prompt-package version'' packages"

definition resolve_package ::
  "prompt_catalog \<Rightarrow> string \<Rightarrow> string \<Rightarrow> bool \<Rightarrow> exn + PromptPackage" where
  "resolve_package cat reference version executable =
     (case map_of cat (reference, version) of
        None \<Rightarrow> Inl (LookupError ''prompt package is unknown, disabled, or incompatible'')
      | Some p \<Rightarrow>
          if executable \<and> pp_state p = DISABLED
          then Inl (LookupError ''prompt package is unknown, disabled, or incompatible'')
          else Inr p)"

definition bind_statement :: "pydict \<Rightarrow> exn + string" where
  "bind_statement variables =
     (if \<not> keys_are variables [''statement'']
      then Inl (ValueError ''prompt variables do not match the governed declaration'')
      else case pget variables ''statement'' of
        PStr s \<Rightarrow>
          if 1 \<le> length (strip s) \<and> length (strip s) \<le> 512 then Inr (strip s)
          else Inl (ValueError ''statement binding is outside the governed contract'')
      | _ \<Rightarrow> Inl (ValueError ''prompt variables do not match the governed declaration''))"

definition prompt_text :: "(rat \<Rightarrow> string) \<Rightarrow> PromptPackage \<Rightarrow> string \<Rightarrow> string" where
  "prompt_text repr p statement =
     join [CHR 0x0A]
       [''<system ref='' @ [CHR 0x27] @ pp_system_instruction_reference p @ [CHR 0x27] @ ''>'',
        pp_system_instruction p,
        ''</system>'',
        ''<task class='' @ [CHR 0x27] @ pp_task_class p @ [CHR 0x27] @ ''>'',
        statement,
        ''</task>'',
        ''<schema ref='' @ [CHR 0x27] @ pp_output_schema_reference p @ [CHR 0x27] @ ''>'',
        json_dumps (compact_sorted repr) (json_value (PDict (pp_output_schema p))),
        ''</schema>'']"

definition assemble_prompt ::
  "(string \<Rightarrow> string) \<Rightarrow> (rat \<Rightarrow> string) \<Rightarrow> prompt_catalog \<Rightarrow> string \<Rightarrow> string \<Rightarrow> pydict
   \<Rightarrow> exn + AssembledPrompt"
where
  "assemble_prompt sha repr cat reference version variables =
     ebind (resolve_package cat reference version True) (\<lambda>p.
     ebind (bind_statement variables) (\<lambda>statement.
     Inr \<lparr>ap_content = prompt_text repr p statement,
          ap_package_identity = package_identity sha repr p,
          ap_output_schema_reference = pp_output_schema_reference p,
          ap_output_schema = pp_output_schema p\<rparr>))"

definition governed_schema :: "prompt_catalog \<Rightarrow> string \<Rightarrow> string \<Rightarrow> exn + pydict" where
  "governed_schema cat reference version =
     (case find (\<lambda>p. pp_output_schema_reference p = reference \<and> pp_version_reference p = version
                     \<and> pp_state p \<noteq> DISABLED) (map snd cat) of
        None \<Rightarrow> Inl (LookupError ''governed output schema is unresolved'')
      | Some p \<Rightarrow> Inr (pp_output_schema p))"

definition rollback_package :: "prompt_catalog \<Rightarrow> PromptPackage \<Rightarrow> exn + PromptPackage option" where
  "rollback_package cat p =
     (case pp_rollback_version_reference p of
        None \<Rightarrow>
          if list_ex (\<lambda>q. pp_reference q = pp_reference p \<and> pp_state q = APPROVED) (map snd cat)
          then Inl (LookupError ''first-release rollback is invalid after an approved version exists'')
          else Inr None
      | Some version \<Rightarrow>
          ebind (resolve_package cat (pp_reference p) version True) (\<lambda>target.
          if pp_state target \<noteq> APPROVED \<or> pp_version_reference target = pp_version_reference p
          then Inl (LookupError ''approved immutable rollback target is unavailable'')
          else Inr (Some target)))"

definition expected_classes :: "string set" where
  "expected_classes = {''Question'', ''Instruction'', ''Statement''}"

definition release_selection ::
  "prompt_catalog \<Rightarrow> PromptPackage \<Rightarrow> decimal \<Rightarrow> (string, decimal) odict \<Rightarrow> decimal option \<Rightarrow> bool
   \<Rightarrow> exn + PromptPackage option"
where
  "release_selection cat p accuracy per_class_recall rollback_accuracy safety_and_schema_passed =
     (if map_of cat (pp_reference p, pp_version_reference p) \<noteq> Some p
      then Inl (LookupError ''candidate package is not an immutable catalog member'')
      else if set (od_keys per_class_recall) \<noteq> expected_classes
      then Inl (ValueError ''release evidence must contain the exact governed class set'')
      else ebind (rollback_package cat p) (\<lambda>rollback.
        let passed = safety_and_schema_passed \<and> pp_quality_threshold p \<le> accuracy
              \<and> list_all (\<lambda>(_, v). pp_per_class_recall_threshold p \<le> v) per_class_recall
              \<and> (case rollback_accuracy of None \<Rightarrow> True
                 | Some r \<Rightarrow> r - accuracy \<le> pp_max_regression p)
        in Inr (if passed then Some p else rollback)))"

section \<open>Properties\<close>

lemma catalog_lookup:
  assumes "prompt_catalog packages = Inr cat"
  shows "map_of cat k = Some p \<longleftrightarrow> p \<in> set packages \<and> (pp_reference p, pp_version_reference p) = k"
  using build_catalog_lookup [OF assms [unfolded prompt_catalog_def]] by simp

lemma catalog_mem:
  assumes "prompt_catalog packages = Inr cat"
  shows "(k, q) \<in> set cat \<longleftrightarrow> map_of cat k = Some q"
proof -
  have "od_ok cat"
    using assms by (auto simp: prompt_catalog_def build_catalog_def Let_def split: if_splits)
  then show ?thesis by (simp add: map_of_eq_Some_iff)
qed

lemma resolve_package_Inr:
  "resolve_package cat r v b = Inr p \<longleftrightarrow> map_of cat (r, v) = Some p \<and> (b \<longrightarrow> pp_state p \<noteq> DISABLED)"
  by (auto simp: resolve_package_def split: option.splits)

interpretation prompts: keyed_catalog "\<lambda>p. (pp_reference p, pp_version_reference p)" prompt_catalog
  "\<lambda>cat k. resolve_package cat (fst k) (snd k) False"
proof unfold_locales
  show "resolve_package c (fst k) (snd k) False = Inr v \<longleftrightarrow>
      v \<in> set items \<and> (pp_reference v, pp_version_reference v) = k"
    if "prompt_catalog items = Inr c" for items c k v
    using catalog_lookup [OF that] by (simp add: resolve_package_Inr)
qed (auto simp: prompt_catalog_def build_catalog_iff resolve_package_def split: option.splits)

lemma strip_trimmed: "strip s = [] \<or> \<not> py_space (last (strip s))"
  unfolding strip_def by (rule rstrip_by_result)

lemma bind_statement_Inr:
  "bind_statement vs = Inr x \<longleftrightarrow>
     keys_are vs [''statement''] \<and> (\<exists>s. pget vs ''statement'' = PStr s \<and> x = strip s)
     \<and> 1 \<le> length x \<and> length x \<le> 512"
  by (auto simp: bind_statement_def split: pyval.splits)

text \<open>Freezing and thawing a schema gives back its JSON text.\<close>

lemma json_dumps_freeze: "json_dumps st (json_value (deep_freeze v)) = json_dumps st v"
proof (induction v)
  case (PDict d)
  have "map (\<lambda>x. (fst x, json_dumps st (json_value (deep_freeze (snd x))))) d
    = map (\<lambda>x. (fst x, json_dumps st (snd x))) d"
    using PDict by (intro map_cong) (auto simp: snds.simps)
  then show ?case
    by (simp only: deep_freeze.simps json_value.simps json_dumps.simps map_map comp_def split_def
        fst_conv snd_conv)
qed (auto simp: comp_def intro!: arg_cong [where f = "join _"])

lemma rollback_package_cases:
  assumes "prompt_catalog packages = Inr cat" "rollback_package cat p = Inr rollback"
  shows "case rollback of
      None \<Rightarrow> pp_rollback_version_reference p = None
        \<and> (\<forall>q \<in> set packages. pp_reference q = pp_reference p \<longrightarrow> pp_state q \<noteq> APPROVED)
    | Some q \<Rightarrow> q \<in> set packages \<and> pp_state q = APPROVED \<and> pp_reference q = pp_reference p
        \<and> pp_rollback_version_reference p = Some (pp_version_reference q)
        \<and> pp_version_reference q \<noteq> pp_version_reference p"
proof (cases "pp_rollback_version_reference p")
  case None
  with assms(2) have "rollback = None"
    and none: "\<not> list_ex (\<lambda>q. pp_reference q = pp_reference p \<and> pp_state q = APPROVED) (map snd cat)"
    by (auto simp: rollback_package_def split: if_splits)
  moreover have "pp_state q \<noteq> APPROVED" if "q \<in> set packages" "pp_reference q = pp_reference p" for q
  proof -
    have "map_of cat (pp_reference q, pp_version_reference q) = Some q"
      using that catalog_lookup [OF assms(1)] by simp
    then have "q \<in> set (map snd cat)"
      using catalog_mem [OF assms(1)] by (metis image_eqI set_map snd_conv)
    with none that show ?thesis by (auto simp: list_ex_iff)
  qed
  ultimately show ?thesis using None by simp
next
  case (Some v)
  with assms(2) catalog_lookup [OF assms(1)] show ?thesis
    by (auto simp: rollback_package_def resolve_package_Inr split: if_splits)
qed

text \<open>C38 (safety). Release safety: of a catalog member, the candidate itself is selected exactly when
  every release gate held (safety, accuracy, the recall of each of the three classes and the
  regression bound); otherwise the selection is an approved, different version of the same
  package registered in the catalog, or nothing, when the package never had an approved version.\<close>

theorem release_selection_gated:
  assumes "prompt_catalog packages = Inr cat"
    and "release_selection cat p acc recall ra safe = Inr chosen"
  shows "p \<in> set packages \<and> set (od_keys recall) = expected_classes
    \<and> (if safe \<and> dval (pp_quality_threshold p) \<le> dval acc
          \<and> (\<forall>(c, v) \<in> set recall. dval (pp_per_class_recall_threshold p) \<le> dval v)
          \<and> (\<forall>r. ra = Some r \<longrightarrow> dval r - dval acc \<le> dval (pp_max_regression p))
       then chosen = Some p
       else case chosen of
              None \<Rightarrow> pp_rollback_version_reference p = None
                \<and> (\<forall>q \<in> set packages. pp_reference q = pp_reference p \<longrightarrow> pp_state q \<noteq> APPROVED)
            | Some q \<Rightarrow> q \<in> set packages \<and> pp_state q = APPROVED \<and> pp_reference q = pp_reference p
                \<and> pp_rollback_version_reference p = Some (pp_version_reference q)
                \<and> pp_version_reference q \<noteq> pp_version_reference p)"
proof -
  from assms(2) obtain rollback where
    member: "map_of cat (pp_reference p, pp_version_reference p) = Some p" and
    classes: "set (od_keys recall) = expected_classes" and
    rb: "rollback_package cat p = Inr rollback" and
    chosen: "chosen = (if safe \<and> pp_quality_threshold p \<le> acc
              \<and> list_all (\<lambda>(_, v). pp_per_class_recall_threshold p \<le> v) recall
              \<and> (case ra of None \<Rightarrow> True | Some r \<Rightarrow> r - acc \<le> pp_max_regression p)
            then Some p else rollback)"
    by (auto simp: release_selection_def Let_def split: if_splits)
  have "p \<in> set packages" using member catalog_lookup [OF assms(1)] by blast
  with classes chosen rollback_package_cases [OF assms(1) rb] show ?thesis
    by (simp add: dec_order list_all_iff split: option.splits)
qed

text \<open>Prompt assembly uses exactly one registered, enabled package and the caller's
  statement with its surrounding whitespace removed: the text is the package's template around
  it, and the schema and identity handed on are the package's own.\<close>

theorem assemble_prompt_exact:
  assumes "prompt_catalog packages = Inr cat"
  shows "assemble_prompt sha repr cat reference version variables = Inr a \<longleftrightarrow>
    (\<exists>p s. p \<in> set packages \<and> pp_reference p = reference \<and> pp_version_reference p = version
       \<and> pp_state p \<noteq> DISABLED
       \<and> keys_are variables [''statement''] \<and> pget variables ''statement'' = PStr s
       \<and> strip s \<noteq> [] \<and> length (strip s) \<le> 512
       \<and> a = \<lparr>ap_content = prompt_text repr p (strip s),
              ap_package_identity = package_identity sha repr p,
              ap_output_schema_reference = pp_output_schema_reference p,
              ap_output_schema = pp_output_schema p\<rparr>)"
proof -
  have len: "1 \<le> length x \<longleftrightarrow> x \<noteq> []" for x :: string by (cases x) auto
  show ?thesis
    unfolding assemble_prompt_def ebind_Inr resolve_package_Inr bind_statement_Inr
      catalog_lookup [OF assms] len
    by auto
qed

section \<open>A concrete catalog\<close>

definition sample_package :: "string \<Rightarrow> PackageState \<Rightarrow> string option \<Rightarrow> PromptPackage" where
  "sample_package v st rb =
     \<lparr>pp_reference = ''prompt'', pp_version_reference = v, pp_owner = ''owner'',
      pp_capability_id = ''StructuredTaskKindClassification'',
      pp_capability_contract_version_id = ''1'',
      pp_typed_variables = [(''statement'', ''string[1..512]'')],
      pp_system_instruction_reference = ''sys'', pp_system_instruction = ''Classify.'',
      pp_output_schema_reference = ''schema'', pp_output_schema = STRUCTURED_TASK_KIND_SCHEMA,
      pp_task_class = ''classification'', pp_evaluation_set_reference = ''eval'',
      pp_rollback_version_reference = rb, pp_quality_threshold = Dec 9 (- 1),
      pp_per_class_recall_threshold = Dec 8 (- 1), pp_max_regression = Dec 1 (- 2),
      pp_max_input_tokens = 256, pp_max_output_tokens = 16, pp_max_cost = Dec 1 (- 2),
      pp_state = st, pp_change_history = [''first'']\<rparr>"

abbreviation sample_packages :: "PromptPackage list" where
  "sample_packages \<equiv> [sample_package ''v1'' APPROVED None, sample_package ''v2'' CANDIDATE (Some ''v1'')]"

definition sample_catalog :: prompt_catalog where
  "sample_catalog =
     [((''prompt'', ''v1''), sample_package ''v1'' APPROVED None),
      ((''prompt'', ''v2''), sample_package ''v2'' CANDIDATE (Some ''v1''))]"

definition sample_recall :: "(string, decimal) odict" where
  "sample_recall = [(''Question'', Dec 9 (- 1)), (''Instruction'', Dec 7 (- 1)), (''Statement'', Dec 1 0)]"

lemma sample_catalog_built: "prompt_catalog sample_packages = Inr sample_catalog"
  by (simp add: prompt_catalog_def build_catalog_def dict_of_def sample_package_def sample_catalog_def)

lemma sample_selection:
  "release_selection sample_catalog (sample_package ''v2'' CANDIDATE (Some ''v1'')) (Dec 95 (- 2))
     sample_recall None True = Inr (Some (sample_package ''v1'' APPROVED None))"
  by (simp add: release_selection_def rollback_package_def resolve_package_def sample_catalog_def
      sample_package_def sample_recall_def expected_classes_def insert_commute dec_order dval_def)

theorem release_selection_gated_witness:
  "\<exists>q. release_selection sample_catalog (sample_package ''v2'' CANDIDATE (Some ''v1'')) (Dec 95 (- 2))
         sample_recall None True = Inr (Some q)
     \<and> pp_state q = APPROVED \<and> pp_version_reference q = ''v1''"
proof -
  have "\<not> (\<forall>(c, v) \<in> set sample_recall. dval (Dec 8 (- 1)) \<le> dval v)"
    by (simp add: sample_recall_def dval_def)
  with release_selection_gated [OF sample_catalog_built sample_selection] sample_selection
  show ?thesis by (simp add: sample_package_def)
qed

theorem assemble_prompt_exact_witness:
  "\<exists>a. assemble_prompt id (\<lambda>_. []) sample_catalog ''prompt'' ''v1'' [(''statement'', PStr '' go '')] = Inr a
     \<and> ap_output_schema_reference a = ''schema''"
proof -
  let ?p = "sample_package ''v1'' APPROVED None"
  have st: "strip '' go '' = ''go''" by (simp add: strip_def rstrip_by_def py_space_def)
  have "assemble_prompt id (\<lambda>_. []) sample_catalog ''prompt'' ''v1'' [(''statement'', PStr '' go '')] =
    Inr \<lparr>ap_content = prompt_text (\<lambda>_. []) ?p ''go'', ap_package_identity = package_identity id (\<lambda>_. []) ?p,
         ap_output_schema_reference = pp_output_schema_reference ?p,
         ap_output_schema = pp_output_schema ?p\<rparr>"
    unfolding assemble_prompt_exact [OF sample_catalog_built]
    by (rule exI [of _ ?p], rule exI [of _ "'' go ''"]) (simp add: st keys_are_def, simp add: sample_package_def)
  then show ?thesis by (simp add: sample_package_def)
qed

end
