(* ===== verification/Gateway_Types.thy ===== *)
theory Gateway_Types
  imports Messaging Prompt_Pipeline
begin

text \<open>
  The data of the AI Gateway (\<^verbatim>\<open>packages/ai_gateway/.../gateway.py\<close>): requests, routes,
  responses, the model catalog, and the state of \<^verbatim>\<open>ReferenceGatewayStore\<close> and
  \<^verbatim>\<open>ReferenceAIGateway\<close> as one record over the messaging state. Instants and durations are
  in microseconds.

  SHA-256, \<^verbatim>\<open>repr\<close> of floats, \<^verbatim>\<open>datetime.isoformat\<close> and \<^verbatim>\<open>json.loads\<close> are the
  fields of \<open>text_services\<close>, an argument of the operations that use them.
\<close>

record text_services =
  sha256 :: "string \<Rightarrow> string"
  repr_float :: "rat \<Rightarrow> string"
  isoformat :: "datetime \<Rightarrow> string"
  json_loads :: "string \<Rightarrow> exn + pyval"

datatype ResponseMode = TEXT | STRUCTURED | STREAM

fun response_mode_value :: "ResponseMode \<Rightarrow> string" where
  "response_mode_value TEXT = ''text''"
| "response_mode_value STRUCTURED = ''structured''"
| "response_mode_value STREAM = ''stream''"

datatype InvocationState =
    INV_REQUESTED | INV_POLICY_VALIDATED | INV_PROVIDER_SELECTED | INV_PREPARED | INV_INVOKED
  | INV_STREAMING | INV_RETRYING | INV_SUCCEEDED | INV_FAILED | INV_TIMED_OUT | INV_CANCELLED

fun data_classification_value :: "DataClassification \<Rightarrow> string" where
  "data_classification_value NON_SENSITIVE = ''NonSensitive''"
| "data_classification_value INTERNAL = ''Internal''"
| "data_classification_value RESTRICTED = ''Restricted''"

record ContextItem =
  cx_reference :: string
  cx_version :: string
  cx_content :: string
  cx_relevance :: int
  cx_necessity_reason :: string
  cx_trusted :: bool
  cx_mandatory :: bool

record AIInvocationRequest =
  rq_execution_id :: string
  rq_capability_contract_version_id :: string
  rq_prompt :: string
  rq_tenant_id :: string
  rq_workspace_id :: string
  rq_correlation_id :: string
  rq_causation_id :: string
  rq_authorization :: AuthorizationContext
  rq_command_id :: string
  rq_idempotency_key :: string
  rq_capability_id :: string
  rq_prompt_template_ref :: string
  rq_prompt_template_version_ref :: string
  rq_system_instruction_ref :: string
  rq_response_mode :: ResponseMode
  rq_output_schema_ref :: "string option"
  rq_output_schema :: "pydict option"
  rq_output_schema_identity :: "string option"
  rq_required_capabilities :: "string set"
  rq_quality_tier :: int
  rq_latency_tier :: int
  rq_max_input_tokens :: int
  rq_max_output_tokens :: int
  rq_max_total_cost :: decimal
  rq_deadline :: "datetime option"
  rq_context_items :: "ContextItem list"
  rq_locale :: string
  rq_data_classification :: DataClassification
  rq_safety_policy_ref :: string
  rq_cache_policy_ref :: string
  rq_budget_policy_ref :: string
  rq_allowed_adapters :: "string set"
  rq_blocked_adapters :: "string set"
  rq_residency :: string
  rq_required_data_handling :: "string set"
  rq_minimum_security_tier :: int
  rq_allow_fallback :: bool
  rq_max_provider_attempts :: int
  rq_repair_attempts :: int
  rq_cache_allowed :: bool
  rq_deterministic_parameters :: "(string \<times> string) list"
  rq_workflow_ai_budget_admission :: "pydict option"
  rq_workflow_id :: "string option"
  rq_workflow_step_id :: "string option"
  rq_workflow_definition_version_id :: "string option"
  rq_skill_version_id :: "string option"

text \<open>A request with the dataclass defaults for everything the caller does not pass.\<close>

definition request_defaults ::
  "ident \<Rightarrow> ident \<Rightarrow> string \<Rightarrow> ident \<Rightarrow> ident \<Rightarrow> ident \<Rightarrow> ident \<Rightarrow> AuthorizationContext
   \<Rightarrow> string \<Rightarrow> string \<Rightarrow> AIInvocationRequest"
where
  "request_defaults execution contract prompt tenant workspace correlation causation auth command key =
     \<lparr>rq_execution_id = execution, rq_capability_contract_version_id = contract, rq_prompt = prompt,
      rq_tenant_id = tenant, rq_workspace_id = workspace, rq_correlation_id = correlation,
      rq_causation_id = causation, rq_authorization = auth, rq_command_id = command,
      rq_idempotency_key = key, rq_capability_id = ''text-generation'',
      rq_prompt_template_ref = ''reference-template'', rq_prompt_template_version_ref = ''v1'',
      rq_system_instruction_ref = ''reference-system-v1'', rq_response_mode = TEXT,
      rq_output_schema_ref = None, rq_output_schema = None, rq_output_schema_identity = None,
      rq_required_capabilities = {''text''}, rq_quality_tier = 1, rq_latency_tier = 1,
      rq_max_input_tokens = 1024, rq_max_output_tokens = 128, rq_max_total_cost = Dec 100 (- 2),
      rq_deadline = None, rq_context_items = [], rq_locale = ''en'',
      rq_data_classification = INTERNAL, rq_safety_policy_ref = ''reference-safety-v1'',
      rq_cache_policy_ref = ''reference-cache-v1'', rq_budget_policy_ref = ''reference-budget-v1'',
      rq_allowed_adapters = {}, rq_blocked_adapters = {}, rq_residency = ''any'',
      rq_required_data_handling = {}, rq_minimum_security_tier = 1, rq_allow_fallback = True,
      rq_max_provider_attempts = 2, rq_repair_attempts = 1, rq_cache_allowed = True,
      rq_deterministic_parameters = [], rq_workflow_ai_budget_admission = None,
      rq_workflow_id = None, rq_workflow_step_id = None, rq_workflow_definition_version_id = None,
      rq_skill_version_id = None\<rparr>"

record RouteDecision =
  rt_decision_reference :: string
  rt_model_key :: string
  rt_adapter_key :: string
  rt_considered :: "string list"
  rt_excluded :: "(string, string) odict"
  rt_estimated_cost :: decimal
  rt_reason :: string

record AIInvocationResponse =
  rsp_ai_invocation_id :: string
  rsp_result :: ResultEnvelope
  rsp_content :: "string option"
  rsp_error :: "ErrorEnvelope option"
  rsp_usage :: "AIUsage option"
  rsp_route :: "RouteDecision option"
  rsp_cache_hit :: bool

record Acceptance =
  acc_ai_invocation_id :: string
  acc_acknowledgement :: ResultEnvelope
  acc_replay :: bool

record ModelCatalogEntry =
  mdl_model_key :: string
  mdl_adapter_key :: string
  mdl_capabilities :: "string set"
  mdl_context_limit :: int
  mdl_max_output :: int
  mdl_quality_tier :: int
  mdl_latency_tier :: int
  mdl_input_cost_per_token :: decimal
  mdl_output_cost_per_token :: decimal
  mdl_pricing_version :: string
  mdl_residencies :: "string set"
  mdl_data_handling :: "string set"
  mdl_security_tier :: int
  mdl_available :: bool
  mdl_healthy :: bool
  mdl_deprecated :: bool
  mdl_cached_input_cost_per_token :: "decimal option"
  mdl_reasoning_cost_per_token :: "decimal option"

record ProviderResult =
  prv_content :: string
  prv_usage :: "AIUsage option"
  prv_confidence :: decimal

record GatewayInvocation =
  inv_request :: AIInvocationRequest
  inv_invocation_id :: string
  inv_acknowledgement :: ResultEnvelope
  inv_state :: InvocationState
  inv_accepted_at :: int
  inv_route :: "RouteDecision option"
  inv_terminal :: "AIInvocationResponse option"
  inv_execution_owner :: "string option"
  inv_execution_lease_expires_at :: "int option"
  inv_claim_generation :: int
  inv_recovery_phase :: string
  inv_terminal_intent :: "AIInvocationResponse option"
  inv_stream_started :: bool
  inv_stream_sequence :: int
  inv_stream_content :: "string list"
  inv_stream_usage :: "AIUsage option"
  inv_provider_sequence :: "RouteDecision list"
  inv_next_provider_attempt :: int
  inv_cumulative_usage :: AIUsage
  inv_cumulative_cost :: decimal
  inv_last_provider_failure_code :: "string option"
  inv_last_provider_failure_retryable :: bool
  inv_stream_terminal_emitted :: bool

definition new_invocation ::
  "AIInvocationRequest \<Rightarrow> string \<Rightarrow> ResultEnvelope \<Rightarrow> int \<Rightarrow> GatewayInvocation" where
  "new_invocation request i acknowledgement now =
     \<lparr>inv_request = request, inv_invocation_id = i, inv_acknowledgement = acknowledgement,
      inv_state = INV_REQUESTED, inv_accepted_at = now, inv_route = None, inv_terminal = None,
      inv_execution_owner = None, inv_execution_lease_expires_at = None,
      inv_claim_generation = 0, inv_recovery_phase = ''accepted'', inv_terminal_intent = None,
      inv_stream_started = False, inv_stream_sequence = 0, inv_stream_content = [],
      inv_stream_usage = None, inv_provider_sequence = [], inv_next_provider_attempt = 1,
      inv_cumulative_usage = usage_of 0 0, inv_cumulative_cost = 0,
      inv_last_provider_failure_code = None, inv_last_provider_failure_retryable = False,
      inv_stream_terminal_emitted = False\<rparr>"

text \<open>The reservation states are strings in the source; these are the ones it writes.\<close>

record GatewayReservation =
  rsv_invocation_id :: string
  rsv_tenant_id :: string
  rsv_workspace_id :: string
  rsv_amount :: decimal
  rsv_state :: string
  rsv_expires_at :: int
  rsv_actual :: "decimal option"

record CachedContent =
  cc_content :: string
  cc_usage :: AIUsage
  cc_expires_at :: int
  cc_provenance :: string
  cc_route :: "RouteDecision option"

type_synonym attempt_row = "int \<times> string \<times> string \<times> AIUsage option \<times> decimal"

record gateway_state = messaging +
  invocations :: "(string, GatewayInvocation) odict"
  admission :: "(string \<times> string \<times> string, string \<times> string) odict"
  reservations :: "(string, GatewayReservation) odict"
  cache :: "(string \<times> string \<times> string, CachedContent) odict"
  usage_ledger :: "(string, AIUsage) odict"
  attempts :: "(string, attempt_row list) odict"
  usage_events :: "(string, (string, AIUsage \<times> decimal) odict) odict"
  provider_effects :: "(string \<times> string, ProviderResult) odict"
  provider_effect_reservations :: "(string \<times> string) set"
  terminal_events :: "(string, bool) odict"
  tenant_limit :: decimal
  workspace_limit :: decimal
  lifecycle :: "(string, InvocationState list) odict"
  cooldowns :: "(string, int) odict"
  degraded :: "string set"

definition gateway_init ::
  "messaging \<Rightarrow> decimal \<Rightarrow> decimal option \<Rightarrow> gateway_state" where
  "gateway_init m tlimit wlimit = messaging.extend m
     \<lparr>invocations = [], admission = [], reservations = [], cache = [], usage_ledger = [],
      attempts = [], usage_events = [], provider_effects = [], provider_effect_reservations = {},
      terminal_events = [], tenant_limit = tlimit, workspace_limit = dec_or wlimit tlimit,
      lifecycle = [], cooldowns = [], degraded = {}\<rparr>"

section \<open>Catalog prices\<close>

definition estimate_cost :: "ModelCatalogEntry \<Rightarrow> int \<Rightarrow> int \<Rightarrow> int \<Rightarrow> int \<Rightarrow> decimal" where
  "estimate_cost m input output cached_in reasoning =
     (let cached = min input (max 0 cached_in);
          uncached = input - cached;
          cached_rate = dec_or (mdl_cached_input_cost_per_token m) (mdl_input_cost_per_token m);
          reasoning_rate = dec_or (mdl_reasoning_cost_per_token m) (mdl_output_cost_per_token m)
      in imul uncached (mdl_input_cost_per_token m) + imul cached cached_rate
         + imul output (mdl_output_cost_per_token m) + imul reasoning reasoning_rate)"

definition rates_ok :: "ModelCatalogEntry \<Rightarrow> bool" where
  "rates_ok m \<longleftrightarrow> 0 \<le> dval (mdl_input_cost_per_token m) \<and> 0 \<le> dval (mdl_output_cost_per_token m)
     \<and> (\<forall>d. mdl_cached_input_cost_per_token m = Some d \<longrightarrow> 0 \<le> dval d)
     \<and> (\<forall>d. mdl_reasoning_cost_per_token m = Some d \<longrightarrow> 0 \<le> dval d)"

lemma dec_or_nonneg:
  "0 \<le> dval e \<Longrightarrow> (\<And>d. x = Some d \<Longrightarrow> 0 \<le> dval d) \<Longrightarrow> 0 \<le> dval (dec_or x e)"
  by (cases x) (auto simp: dec_or_def)

lemma estimate_cost_value:
  "dval (estimate_cost m i q c r) =
     of_int (i - min i (max 0 c)) * dval (mdl_input_cost_per_token m)
     + of_int (min i (max 0 c))
         * dval (dec_or (mdl_cached_input_cost_per_token m) (mdl_input_cost_per_token m))
     + of_int q * dval (mdl_output_cost_per_token m)
     + of_int r * dval (dec_or (mdl_reasoning_cost_per_token m) (mdl_output_cost_per_token m))"
  by (simp add: estimate_cost_def Let_def)

text \<open>Cached tokens are a discount on input tokens only as far as the rate is lower, so the price
  of an actual usage within the planned token counts never exceeds the plan.\<close>

lemma estimate_cost_bound:
  assumes "rates_ok m" "0 \<le> i" "i \<le> i'" "0 \<le> q" "q \<le> q'" "r \<le> 0"
    and "dval (dec_or (mdl_cached_input_cost_per_token m) (mdl_input_cost_per_token m))
           \<le> dval (mdl_input_cost_per_token m)"
  shows "dval (estimate_cost m i q c r) \<le> dval (estimate_cost m i' q' 0 0)"
proof -
  let ?k = "min i (max 0 c)" and ?a = "dval (mdl_input_cost_per_token m)"
    and ?b = "dval (dec_or (mdl_cached_input_cost_per_token m) (mdl_input_cost_per_token m))"
    and ?o = "dval (mdl_output_cost_per_token m)"
    and ?r = "dval (dec_or (mdl_reasoning_cost_per_token m) (mdl_output_cost_per_token m))"
  have nn: "0 \<le> ?a" "0 \<le> ?o" "0 \<le> ?r"
    using assms(1) by (auto simp: rates_ok_def intro: dec_or_nonneg)
  have k: "0 \<le> ?k" using assms(2) by simp
  have "of_int (i - ?k) * ?a + of_int ?k * ?b \<le> of_int (i - ?k) * ?a + of_int ?k * ?a"
    using k assms(7) by (simp add: mult_left_mono)
  also have "\<dots> = of_int i * ?a" by (simp add: algebra_simps)
  also have "\<dots> \<le> of_int i' * ?a" using assms(3) nn by (simp add: mult_right_mono)
  finally have 1: "of_int (i - ?k) * ?a + of_int ?k * ?b \<le> of_int i' * ?a" .
  have 2: "of_int q * ?o \<le> of_int q' * ?o" using assms(5) nn by (simp add: mult_right_mono)
  have 3: "of_int r * ?r \<le> 0" using assms(6) nn by (simp add: mult_le_0_iff)
  have "dval (estimate_cost m i' q' 0 0) = of_int i' * ?a + of_int q' * ?o"
    using assms(2,3) by (simp add: estimate_cost_value)
  with 1 2 3 show ?thesis by (simp add: estimate_cost_value)
qed

section \<open>A concrete request\<close>

definition sample_tx :: text_services where
  "sample_tx = \<lparr>sha256 = id, repr_float = (\<lambda>_. ''0.0''), isoformat = (\<lambda>_. []),
     json_loads = (\<lambda>s. if s = ''{}'' then Inr (PDict []) else Inl JSONDecodeError)\<rparr>"

definition sample_gateway_auth :: AuthorizationContext where
  "sample_gateway_auth =
     \<lparr>auth_actor_id = ''actor'', auth_permissions = {''ai.invoke''}, auth_tenant_id = ''t'',
      auth_workspace_id = ''w'', auth_policy_id = ''p'', auth_policy_version_id = ''v''\<rparr>"

definition sample_request :: AIInvocationRequest where
  "sample_request = request_defaults ''x'' ''1'' ''hello'' ''t'' ''w'' ''c'' ''d'' sample_gateway_auth ''k'' ''i''"

definition sample_ack :: ResultEnvelope where
  "sample_ack =
     \<lparr>res_result_id = ''r'', res_result_status = ACCEPTED, res_outcome_category = ACKNOWLEDGEMENT_CATEGORY,
      res_subject_reference = ''ai1'', res_tenant_id = ''t'', res_workspace_id = ''w'',
      res_correlation_id = ''c'', res_causation_id = ''d'', res_producer_component = ''AI Gateway'',
      res_contract_version = ''1.0'', res_command_id = Some ''k'', res_event_id = None,
      res_started_at = None, res_completed_at = None, res_value_reference = None,
      res_error_id = None, res_warnings = [], res_metadata = [], res_predecessor_result_id = None,
      res_parent_result_id = None, res_child_result_references = [], res_disposition_counts = []\<rparr>"

end
