(* ===== verification/Gateway_Store.thy ===== *)
theory Gateway_Store
  imports Gateway_Types "HOL-Library.Product_Lexorder"
begin

text \<open>
  \<^verbatim>\<open>ReferenceGatewayStore\<close> (\<^verbatim>\<open>gateway.py\<close>): idempotent admission, execution claims with
  fencing generations and leases, the budget ledger, usage events, provider effects and the
  response cache.

  \<^verbatim>\<open>load\<close> hands out the stored object itself, so what a worker assigns to its invocation is
  at once what the store holds: a worker's assignment is \<open>modify_invocation\<close> on the stored
  value, and \<^verbatim>\<open>checkpoint\<close> of that same object only signals the waiters. Every operation
  that the source runs under the store's lock is one step here.
\<close>

section \<open>Printed decimals\<close>

text \<open>\<^verbatim>\<open>str(Decimal)\<close>: plain digits for small non-positive exponents, else scientific.\<close>

definition decimal_digits :: "decimal \<Rightarrow> string" where
  "decimal_digits d = show_nat (nat \<bar>dcoeff d\<bar>)"

definition decimal_layout :: "decimal \<Rightarrow> int \<Rightarrow> string" where
  "decimal_layout d dotplace =
     (let digits = decimal_digits d; n = int (length digits) in
      (if dcoeff d < 0 then ''-'' else []) @
      (if dotplace \<le> 0 then ''0.'' @ replicate (nat (- dotplace)) (CHR ''0'') @ digits
       else if n \<le> dotplace then digits @ replicate (nat (dotplace - n)) (CHR ''0'')
       else take (nat dotplace) digits @ ''.'' @ drop (nat dotplace) digits))"

definition decimal_str :: "decimal \<Rightarrow> string" where
  "decimal_str d =
     (let leftdigits = dexpo d + int (length (decimal_digits d));
          dotplace = (if dexpo d \<le> 0 \<and> - 6 < leftdigits then leftdigits else 1)
      in decimal_layout d dotplace @
         (if leftdigits = dotplace then []
          else ''E'' @ (if 0 \<le> leftdigits - dotplace then ''+'' else []) @ show_int (leftdigits - dotplace)))"

section \<open>Request digest\<close>

definition py_strs :: "string set \<Rightarrow> pyval" where
  "py_strs A = PList (map PStr (sorted_list_of_set A))"

definition json_sorted :: "text_services \<Rightarrow> json_style" where
  "json_sorted tx =
     \<lparr>item_separator = '', '', key_separator = '': '', sort_keys = True, float_repr = repr_float tx\<rparr>"

definition request_value :: "text_services \<Rightarrow> AIInvocationRequest \<Rightarrow> pyval" where
  "request_value tx r = PDict
     [(''execution'', PStr (rq_execution_id r)),
      (''capability_contract'', PStr (rq_capability_contract_version_id r)),
      (''capability'', PStr (rq_capability_id r)),
      (''prompt'', PStr (rq_prompt r)),
      (''template'', PTuple [PStr (rq_prompt_template_ref r), PStr (rq_prompt_template_version_ref r)]),
      (''system'', PStr (rq_system_instruction_ref r)),
      (''mode'', PStr (response_mode_value (rq_response_mode r))),
      (''schema'', opt_str (rq_output_schema_ref r)),
      (''scope'', PTuple [PStr (rq_tenant_id r), PStr (rq_workspace_id r)]),
      (''lineage'', PTuple [PStr (rq_correlation_id r), PStr (rq_causation_id r)]),
      (''authorization'', (let a = rq_authorization r in PDict
         [(''actor'', PStr (auth_actor_id a)),
          (''permissions'', py_strs (auth_permissions a)),
          (''tenant'', PStr (auth_tenant_id a)),
          (''workspace'', PStr (auth_workspace_id a)),
          (''policy'', PStr (auth_policy_id a)),
          (''policy_version'', PStr (auth_policy_version_id a))])),
      (''required_capabilities'', py_strs (rq_required_capabilities r)),
      (''quality'', PInt (rq_quality_tier r)),
      (''latency'', PInt (rq_latency_tier r)),
      (''token_limits'', PTuple [PInt (rq_max_input_tokens r), PInt (rq_max_output_tokens r)]),
      (''cost_limit'', PStr (decimal_str (rq_max_total_cost r))),
      (''deadline'', opt_str (map_option (isoformat tx) (rq_deadline r))),
      (''context'', PList (map (\<lambda>c. PTuple
         [PStr (cx_reference c), PStr (cx_version c), PStr (cx_content c), PInt (cx_relevance c),
          PStr (cx_necessity_reason c), PBool (cx_trusted c), PBool (cx_mandatory c)])
         (rq_context_items r))),
      (''locale'', PStr (rq_locale r)),
      (''classification'', PStr (data_classification_value (rq_data_classification r))),
      (''policies'', PTuple [PStr (rq_safety_policy_ref r), PStr (rq_cache_policy_ref r),
                             PStr (rq_budget_policy_ref r)]),
      (''adapters'', PTuple [py_strs (rq_allowed_adapters r), py_strs (rq_blocked_adapters r)]),
      (''residency'', PStr (rq_residency r)),
      (''data_handling'', py_strs (rq_required_data_handling r)),
      (''security'', PInt (rq_minimum_security_tier r)),
      (''fallback'', PTuple [PBool (rq_allow_fallback r), PInt (rq_max_provider_attempts r)]),
      (''repair_attempts'', PInt (rq_repair_attempts r)),
      (''cache_allowed'', PBool (rq_cache_allowed r)),
      (''parameters'', PList (map (\<lambda>(k, v). PTuple [PStr k, PStr v]) (sort (rq_deterministic_parameters r)))),
      (''workflow_ai_budget_admission'', (case rq_workflow_ai_budget_admission r of
          None \<Rightarrow> PNone | Some d \<Rightarrow> PDict d))]"

definition request_digest :: "text_services \<Rightarrow> AIInvocationRequest \<Rightarrow> string" where
  "request_digest tx r = sha256 tx (json_dumps (json_sorted tx) (request_value tx r))"

section \<open>Invocations, claims and fencing\<close>

definition load_invocation :: "string \<Rightarrow> ('z gateway_state_scheme, GatewayInvocation) eff" where
  "load_invocation i =
     bnd (asks (\<lambda>s. map_of (invocations s) i)) (\<lambda>v.
     case v of None \<Rightarrow> raise (KeyError i) | Some x \<Rightarrow> ret x)"

definition modify_invocation ::
  "string \<Rightarrow> (GatewayInvocation \<Rightarrow> GatewayInvocation) \<Rightarrow> ('z gateway_state_scheme, unit) eff" where
  "modify_invocation i f =
     bnd (load_invocation i) (\<lambda>v. upd (\<lambda>s. s\<lparr>invocations := od_put i (f v) (invocations s)\<rparr>))"

definition admission_key :: "AIInvocationRequest \<Rightarrow> string \<times> string \<times> string" where
  "admission_key r = (rq_tenant_id r, rq_workspace_id r, rq_idempotency_key r)"

definition store_accept ::
  "text_services \<Rightarrow> AIInvocationRequest \<Rightarrow> string \<Rightarrow> ResultEnvelope \<Rightarrow> int
   \<Rightarrow> ('z gateway_state_scheme, Acceptance) eff"
where
  "store_accept tx request i acknowledgement now =
     bnd (asks (\<lambda>s. map_of (admission s) (admission_key request))) (\<lambda>replay.
     case replay of
       Some (existing_id, existing_digest) \<Rightarrow>
         if existing_digest \<noteq> request_digest tx request
         then raise (ValueError ''IdempotencyKey payload conflict'')
         else bnd (load_invocation existing_id) (\<lambda>existing.
              ret \<lparr>acc_ai_invocation_id = existing_id,
                   acc_acknowledgement = inv_acknowledgement existing, acc_replay = True\<rparr>)
     | None \<Rightarrow>
         bnd (upd (\<lambda>s. s\<lparr>admission := od_put (admission_key request) (i, request_digest tx request) (admission s),
                         invocations := od_put i (new_invocation request i acknowledgement now) (invocations s),
                         terminal_events := od_put i False (terminal_events s)\<rparr>)) (\<lambda>_.
         ret \<lparr>acc_ai_invocation_id = i, acc_acknowledgement = acknowledgement, acc_replay = False\<rparr>))"

definition claim_refused :: "GatewayInvocation \<Rightarrow> string \<Rightarrow> int \<Rightarrow> bool" where
  "claim_refused v owner now \<longleftrightarrow>
     inv_execution_owner v \<noteq> None \<and> inv_execution_owner v \<noteq> Some owner
     \<and> (case inv_execution_lease_expires_at v of None \<Rightarrow> False | Some e \<Rightarrow> now < e)"

definition claim_execution ::
  "string \<Rightarrow> string \<Rightarrow> int \<Rightarrow> int \<Rightarrow> ('z gateway_state_scheme, int option) eff" where
  "claim_execution i owner now lease =
     bnd (load_invocation i) (\<lambda>v.
     if inv_terminal v \<noteq> None \<or> claim_refused v owner now then ret None
     else bnd (modify_invocation i (\<lambda>v. v\<lparr>
            inv_execution_owner := Some owner,
            inv_execution_lease_expires_at := Some (now + lease),
            inv_claim_generation := inv_claim_generation v + 1,
            inv_recovery_phase := ''claimed''\<rparr>)) (\<lambda>_.
          ret (Some (inv_claim_generation v + 1))))"

definition owns_execution :: "GatewayInvocation \<Rightarrow> string \<Rightarrow> int \<Rightarrow> bool" where
  "owns_execution v owner generation \<longleftrightarrow>
     inv_execution_owner v = Some owner \<and> inv_claim_generation v = generation"

definition release_execution ::
  "string \<Rightarrow> string \<Rightarrow> int \<Rightarrow> ('z gateway_state_scheme, unit) eff" where
  "release_execution i owner generation =
     bnd (load_invocation i) (\<lambda>v.
     if owns_execution v owner generation
     then modify_invocation i (\<lambda>v. v\<lparr>inv_execution_owner := None,
            inv_execution_lease_expires_at := None\<rparr>)
     else ret ())"

definition renew_execution ::
  "string \<Rightarrow> string \<Rightarrow> int \<Rightarrow> int \<Rightarrow> int \<Rightarrow> ('z gateway_state_scheme, bool) eff" where
  "renew_execution i owner generation now lease =
     bnd (load_invocation i) (\<lambda>v.
     if inv_terminal v \<noteq> None \<or> \<not> owns_execution v owner generation then ret False
     else bnd (modify_invocation i (\<lambda>v. v\<lparr>inv_execution_lease_expires_at := Some (now + lease)\<rparr>)) (\<lambda>_.
          ret True))"

definition assert_execution_owner ::
  "string \<Rightarrow> string \<Rightarrow> int \<Rightarrow> ('z gateway_state_scheme, unit) eff" where
  "assert_execution_owner i owner generation =
     bnd (load_invocation i) (\<lambda>v.
     guard (owns_execution v owner generation)
       (ExecutionOwnershipLost ''AI Gateway execution ownership was lost''))"

definition fence_option ::
  "string \<Rightarrow> (string \<times> int) option \<Rightarrow> ('z gateway_state_scheme, unit) eff" where
  "fence_option i claim = (case claim of
       None \<Rightarrow> ret ()
     | Some (owner, generation) \<Rightarrow> assert_execution_owner i owner generation)"

text \<open>\<^verbatim>\<open>wait_for_terminal\<close> with the wait as an effect of its own: what the other workers do
  until the event is set, or the \<^verbatim>\<open>TimeoutError\<close> of \<^verbatim>\<open>asyncio.wait_for\<close>.\<close>

definition wait_for_terminal ::
  "(string \<Rightarrow> ('z gateway_state_scheme, unit) eff) \<Rightarrow> string
   \<Rightarrow> ('z gateway_state_scheme, AIInvocationResponse) eff"
where
  "wait_for_terminal wait i =
     bnd (load_invocation i) (\<lambda>v.
     case inv_terminal v of
       Some t \<Rightarrow> ret t
     | None \<Rightarrow>
         bnd (upd (\<lambda>s. s\<lparr>terminal_events := od_setdefault i False (terminal_events s)\<rparr>)) (\<lambda>_.
         bnd (wait i) (\<lambda>_.
         bnd (load_invocation i) (\<lambda>v.
         case inv_terminal v of
           Some t \<Rightarrow> ret t
         | None \<Rightarrow> raise (RuntimeError ''execution lease ended without terminal outcome'')))))"

text \<open>\<^verbatim>\<open>checkpoint\<close> of a loaded invocation: the object is already the stored one.\<close>

definition checkpoint :: "string \<Rightarrow> ('z gateway_state_scheme, unit) eff" where
  "checkpoint i =
     bnd (load_invocation i) (\<lambda>v.
     if inv_terminal v \<noteq> None
     then upd (\<lambda>s. s\<lparr>terminal_events := od_put i True (terminal_events s)\<rparr>)
     else ret ())"

definition checkpoint_terminal_intent :: "string \<Rightarrow> ('z gateway_state_scheme, unit) eff" where
  "checkpoint_terminal_intent i =
     bnd (load_invocation i) (\<lambda>v.
     case inv_execution_owner v of
       None \<Rightarrow> raise (ExecutionOwnershipLost ''terminal intent requires execution ownership'')
     | Some owner \<Rightarrow>
         if inv_claim_generation v \<le> 0
         then raise (ExecutionOwnershipLost ''terminal intent requires execution ownership'')
         else bnd (assert_execution_owner i owner (inv_claim_generation v)) (\<lambda>_.
              bnd (load_invocation i) (\<lambda>current.
              if inv_terminal_intent current \<noteq> None
                 \<and> inv_terminal_intent current \<noteq> inv_terminal_intent v
              then raise (ExecutionOwnershipLost ''immutable terminal intent already exists'')
              else ret ())))"

section \<open>Budget ledger\<close>

definition held :: "GatewayReservation \<Rightarrow> bool" where
  "held r \<longleftrightarrow> rsv_state r \<in> {''pending'', ''committed'', ''usage_pending''}"

definition tenant_used :: "(string, GatewayReservation) odict \<Rightarrow> string \<Rightarrow> decimal" where
  "tenant_used rs tenant =
     dec_sum (map (\<lambda>(_, r). rsv_amount r)
       (filter (\<lambda>(_, r). held r \<and> rsv_tenant_id r = tenant) rs))"

definition workspace_used :: "(string, GatewayReservation) odict \<Rightarrow> string \<Rightarrow> string \<Rightarrow> decimal" where
  "workspace_used rs tenant workspace =
     dec_sum (map (\<lambda>(_, r). rsv_amount r)
       (filter (\<lambda>(_, r). held r \<and> rsv_tenant_id r = tenant \<and> rsv_workspace_id r = workspace) rs))"

definition reserve ::
  "string \<Rightarrow> string \<Rightarrow> string \<Rightarrow> decimal \<Rightarrow> int \<Rightarrow> ('z gateway_state_scheme, GatewayReservation) eff" where
  "reserve i tenant workspace amount now =
     bnd (asks (\<lambda>s. map_of (reservations s) i)) (\<lambda>current.
     case current of
       Some r \<Rightarrow> ret r
     | None \<Rightarrow>
         bnd (asks (\<lambda>s. tenant_limit s < tenant_used (reservations s) tenant + amount)) (\<lambda>over.
         if over then raise (ValueError ''hard budget exceeded'') else
         bnd (asks (\<lambda>s. workspace_limit s < workspace_used (reservations s) tenant workspace + amount)) (\<lambda>over.
         if over then raise (ValueError ''workspace hard budget exceeded'') else
         bnd (ret \<lparr>rsv_invocation_id = i, rsv_tenant_id = tenant, rsv_workspace_id = workspace,
                   rsv_amount = amount, rsv_state = ''pending'',
                   rsv_expires_at = now + 300000000, rsv_actual = None\<rparr>) (\<lambda>r.
         bnd (upd (\<lambda>s. s\<lparr>reservations := od_put i r (reservations s)\<rparr>)) (\<lambda>_.
         ret r)))))"

definition modify_reservation ::
  "string \<Rightarrow> (GatewayReservation \<Rightarrow> GatewayReservation) \<Rightarrow> ('z gateway_state_scheme, unit) eff" where
  "modify_reservation i f =
     bnd (asks (\<lambda>s. map_of (reservations s) i)) (\<lambda>r.
     case r of
       None \<Rightarrow> raise (KeyError i)
     | Some x \<Rightarrow> upd (\<lambda>s. s\<lparr>reservations := od_put i (f x) (reservations s)\<rparr>))"

definition reconcile ::
  "string \<Rightarrow> decimal \<Rightarrow> AIUsage \<Rightarrow> (string \<times> int) option \<Rightarrow> ('z gateway_state_scheme, unit) eff" where
  "reconcile i actual usage claim =
     bnd (fence_option i claim) (\<lambda>_.
     bnd (modify_reservation i (\<lambda>r. r\<lparr>rsv_state := ''committed'', rsv_actual := Some actual\<rparr>)) (\<lambda>_.
     upd (\<lambda>s. s\<lparr>usage_ledger := od_put i usage (usage_ledger s)\<rparr>)))"

definition expired :: "int \<Rightarrow> GatewayReservation \<Rightarrow> bool" where
  "expired now r \<longleftrightarrow> rsv_state r = ''pending'' \<and> rsv_expires_at r \<le> now"

definition release_expired :: "int \<Rightarrow> ('z gateway_state_scheme, string list) eff" where
  "release_expired now =
     bnd (asks (\<lambda>s. map (\<lambda>(_, r). rsv_invocation_id r) (filter (\<lambda>(_, r). expired now r) (reservations s)))) (\<lambda>released.
     bnd (upd (\<lambda>s. s\<lparr>reservations :=
            map (\<lambda>(k, r). (k, if expired now r then r\<lparr>rsv_state := ''released''\<rparr> else r)) (reservations s)\<rparr>)) (\<lambda>_.
     ret released))"

definition release_reservation :: "string \<Rightarrow> string \<Rightarrow> ('z gateway_state_scheme, unit) eff" where
  "release_reservation i state =
     bnd (asks (\<lambda>s. map_of (reservations s) i)) (\<lambda>r.
     case r of
       None \<Rightarrow> ret ()
     | Some x \<Rightarrow>
         if rsv_state x = ''pending''
         then upd (\<lambda>s. s\<lparr>reservations := od_put i (x\<lparr>rsv_state := state\<rparr>) (reservations s)\<rparr>)
         else ret ())"

section \<open>Usage, provider effects, attempts and cache\<close>

text \<open>\<^verbatim>\<open>max(..., key=...)\<close> keeps the first maximal element.\<close>

definition usage_rank :: "AIUsage \<Rightarrow> bool \<times> int" where
  "usage_rank u = (\<not> estimated u, input_tokens u + output_tokens u)"

fun strongest :: "AIUsage \<Rightarrow> AIUsage list \<Rightarrow> AIUsage" where
  "strongest u [] = u"
| "strongest u (v # vs) = strongest (if usage_rank u < usage_rank v then v else u) vs"

definition event_costs :: "(string, AIUsage \<times> decimal) odict \<Rightarrow> decimal" where
  "event_costs events = dec_sum (map (\<lambda>(_, _, c). c) events)"

definition dec_max :: "decimal \<Rightarrow> decimal \<Rightarrow> decimal" where
  "dec_max a b = (if a < b then b else a)"

definition record_usage ::
  "string \<Rightarrow> AIUsage \<Rightarrow> decimal \<Rightarrow> string \<Rightarrow> string \<Rightarrow> bool \<Rightarrow> (string \<times> int) option
   \<Rightarrow> ('z gateway_state_scheme, unit) eff"
where
  "record_usage i usage cost event_key kind final claim =
     bnd (fence_option i claim) (\<lambda>_.
     bnd (upd (\<lambda>s. s\<lparr>usage_events := od_setdefault i [] (usage_events s)\<rparr>)) (\<lambda>_.
     bnd (asks (\<lambda>s. the (map_of (usage_events s) i))) (\<lambda>events.
     let cost' = (if kind = ''provider_partial'' then dec_max 0 (cost - event_costs events) else cost);
         events' = od_setdefault event_key (usage, cost') events
     in bnd (upd (\<lambda>s. s\<lparr>usage_events := od_put i events' (usage_events s)\<rparr>)) (\<lambda>_.
        bnd (modify_reservation i (\<lambda>r. r\<lparr>
               rsv_state := (if final then ''committed'' else ''usage_pending''),
               rsv_actual := Some (event_costs events')\<rparr>)) (\<lambda>_.
        upd (\<lambda>s. s\<lparr>usage_ledger := od_put i
               (strongest (fst (snd (hd events'))) (map (fst \<circ> snd) (tl events'))) (usage_ledger s)\<rparr>))))))"

definition load_provider_effect ::
  "string \<Rightarrow> string \<Rightarrow> ('z gateway_state_scheme, ProviderResult option) eff" where
  "load_provider_effect i effect_key = asks (\<lambda>s. map_of (provider_effects s) (i, effect_key))"

definition reserve_provider_effect ::
  "string \<Rightarrow> string \<Rightarrow> string \<Rightarrow> int \<Rightarrow> ('z gateway_state_scheme, unit) eff" where
  "reserve_provider_effect i effect_key owner generation =
     bnd (assert_execution_owner i owner generation) (\<lambda>_.
     upd (\<lambda>s. s\<lparr>provider_effect_reservations := insert (i, effect_key) (provider_effect_reservations s)\<rparr>))"

definition record_provider_effect ::
  "string \<Rightarrow> string \<Rightarrow> ProviderResult \<Rightarrow> (string \<times> int) option \<Rightarrow> ('z gateway_state_scheme, unit) eff" where
  "record_provider_effect i effect_key result claim =
     bnd (fence_option i claim) (\<lambda>_.
     upd (\<lambda>s. s\<lparr>provider_effects := od_setdefault (i, effect_key) result (provider_effects s)\<rparr>))"

definition cached ::
  "string \<Rightarrow> string \<Rightarrow> string \<Rightarrow> int \<Rightarrow> ('z gateway_state_scheme, CachedContent option) eff" where
  "cached tenant workspace key now =
     bnd (asks (\<lambda>s. map_of (cache s) (tenant, workspace, key))) (\<lambda>c.
     case c of
       None \<Rightarrow> ret None
     | Some x \<Rightarrow> if cc_expires_at x \<le> now then ret None else ret (Some x))"

definition cache_content ::
  "string \<Rightarrow> string \<Rightarrow> string \<Rightarrow> CachedContent \<Rightarrow> ('z gateway_state_scheme, unit) eff" where
  "cache_content tenant workspace key value =
     upd (\<lambda>s. s\<lparr>cache := od_put (tenant, workspace, key) value (cache s)\<rparr>)"

definition invalidated :: "string \<Rightarrow> string \<Rightarrow> string option \<Rightarrow> string \<times> string \<times> string \<Rightarrow> bool" where
  "invalidated tenant workspace key k \<longleftrightarrow>
     fst k = tenant \<and> fst (snd k) = workspace \<and> (key = None \<or> key = Some (snd (snd k)))"

definition invalidate_cache ::
  "string \<Rightarrow> string \<Rightarrow> string option \<Rightarrow> ('z gateway_state_scheme, nat) eff" where
  "invalidate_cache tenant workspace key =
     bnd (asks (\<lambda>s. length (filter (\<lambda>(k, _). invalidated tenant workspace key k) (cache s)))) (\<lambda>n.
     bnd (upd (\<lambda>s. s\<lparr>cache := filter (\<lambda>(k, _). \<not> invalidated tenant workspace key k) (cache s)\<rparr>)) (\<lambda>_.
     ret n))"

definition record_attempt :: "string \<Rightarrow> attempt_row \<Rightarrow> ('z gateway_state_scheme, unit) eff" where
  "record_attempt i row =
     upd (\<lambda>s. s\<lparr>attempts := od_put i
            ((case map_of (attempts s) i of None \<Rightarrow> [] | Some rows \<Rightarrow> rows) @ [row]) (attempts s)\<rparr>)"

end
