(* ===== verification/Gateway_Assembly.thy ===== *)
theory Gateway_Assembly
  imports Gateway_Store
begin

text \<open>
  \<^verbatim>\<open>ReferenceAIGateway._assemble\<close> and \<^verbatim>\<open>_estimate\<close>: the prompt is the system and task
  sections followed by the selected evidence. Mandatory context is always selected, optional
  context only as far as it fits; the last piece is cut by bisection to the longest prefix that
  fits. Requests for the governed prompt package take the package's text instead.
\<close>

section \<open>Token estimate and rendering\<close>

definition estimate :: "string \<Rightarrow> int" where
  "estimate text = max 1 ((int (utf8_len text) + 3) div 4)"

definition quoted :: "string \<Rightarrow> string" where
  "quoted s = [CHR 0x27] @ s @ [CHR 0x27]"

definition base_sections :: "AIInvocationRequest \<Rightarrow> string list" where
  "base_sections r =
     [''<system ref='' @ quoted (rq_system_instruction_ref r) @ ''>approved instructions</system>'',
      ''<task>'' @ strip (rq_prompt r) @ ''</task>'']"

definition evidence :: "ContextItem \<Rightarrow> string" where
  "evidence c =
     ''<evidence ref='' @ quoted (cx_reference c) @ '' trusted=''
     @ quoted (if cx_trusted c then ''true'' else ''false'') @ '' reason=''
     @ quoted (cx_necessity_reason c) @ ''>'' @ cx_content c @ ''</evidence>''"

definition render :: "AIInvocationRequest \<Rightarrow> ContextItem list \<Rightarrow> string" where
  "render r items = join [CHR 0x0A] (base_sections r @ map evidence items)"

section \<open>Selection\<close>

definition context_rank :: "ContextItem \<Rightarrow> int \<times> int \<times> string" where
  "context_rank c = (- of_bool (cx_mandatory c), - cx_relevance c, cx_reference c)"

definition unique_items :: "ContextItem list \<Rightarrow> ContextItem list" where
  "unique_items items =
     map snd (foldl (\<lambda>d c. od_setdefault (cx_reference c, cx_version c) c d) []
       (sort_key context_rank items))"

definition optional_relevance :: "ContextItem list \<Rightarrow> int option" where
  "optional_relevance items =
     (case map cx_relevance (filter (\<lambda>c. \<not> cx_mandatory c) items) of
        [] \<Rightarrow> None
      | x # xs \<Rightarrow> Some (fold max xs x))"

function bisect :: "(nat \<Rightarrow> bool) \<Rightarrow> nat \<Rightarrow> nat \<Rightarrow> nat" where
  "bisect fits low high =
     (if low < high
      then let middle = (low + high + 1) div 2 in
        if fits middle then bisect fits middle high else bisect fits low (middle - 1)
      else low)"
  by auto
termination by (relation "measure (\<lambda>(_, low, high). high - low)") auto

declare bisect.simps [simp del]

definition cut_item :: "ContextItem \<Rightarrow> nat \<Rightarrow> ContextItem" where
  "cut_item c n = c\<lparr>cx_content := take n (cx_content c)\<rparr>"

definition fits_with :: "AIInvocationRequest \<Rightarrow> ContextItem list \<Rightarrow> ContextItem \<Rightarrow> bool" where
  "fits_with r selected c \<longleftrightarrow> estimate (render r (selected @ [c])) \<le> rq_max_input_tokens r"

definition select_item ::
  "AIInvocationRequest \<Rightarrow> int \<Rightarrow> int option \<Rightarrow> ContextItem list \<Rightarrow> ContextItem \<Rightarrow> ContextItem list" where
  "select_item r stage best selected c =
     (if \<not> cx_mandatory c \<and> stage = 0 \<and> (case best of None \<Rightarrow> False | Some b \<Rightarrow> cx_relevance c < b)
      then selected
      else if cx_mandatory c then selected @ [c]
      else if fits_with r selected c then selected @ [c]
      else let low = bisect (\<lambda>n. fits_with r selected (cut_item c n)) 0 (length (cx_content c))
           in if low \<noteq> 0 then selected @ [cut_item c low] else selected)"

definition select_context :: "AIInvocationRequest \<Rightarrow> int \<Rightarrow> ContextItem list" where
  "select_context r stage =
     (let items = unique_items (rq_context_items r)
      in foldl (select_item r stage (optional_relevance items)) [] items)"

definition context_value :: "AIInvocationRequest \<Rightarrow> int \<Rightarrow> string \<Rightarrow> ContextItem list \<Rightarrow> pyval" where
  "context_value r stage prompt selected = PDict
     [(''prompt'', PStr prompt),
      (''stage'', PInt stage),
      (''max_input_tokens'', PInt (rq_max_input_tokens r)),
      (''selected'', PList (map (\<lambda>c. PDict
         [(''reference'', PStr (cx_reference c)), (''version'', PStr (cx_version c)),
          (''content'', PStr (cx_content c)), (''trusted'', PBool (cx_trusted c)),
          (''mandatory'', PBool (cx_mandatory c)),
          (''necessity_reason'', PStr (cx_necessity_reason c))]) selected))]"

definition assemble_governed ::
  "text_services \<Rightarrow> prompt_catalog \<Rightarrow> AIInvocationRequest \<Rightarrow> int \<Rightarrow> exn + (string \<times> int \<times> string)" where
  "assemble_governed tx cat r stage =
     (if stage \<noteq> 0 \<or> rq_context_items r \<noteq> []
      then Inl (ValueError ''governed Stage 1 package forbids history or context'')
      else ebind (assemble_prompt (sha256 tx) (repr_float tx) cat (rq_prompt_template_ref r)
              (rq_prompt_template_version_ref r) [(''statement'', PStr (rq_prompt r))]) (\<lambda>a.
        if Some (ap_output_schema_reference a) \<noteq> rq_output_schema_ref r
        then Inl (ValueError ''governed schema reference does not match the prompt package'')
        else if \<not> (case rq_output_schema r of None \<Rightarrow> False
                    | Some d \<Rightarrow> py_eq (PDict d) (PDict (ap_output_schema a)))
                \<or> rq_output_schema_identity r \<noteq> Some (ap_package_identity a)
        then Inl (ValueError ''governed schema material does not match immutable package binding'')
        else if rq_max_input_tokens r < estimate (ap_content a)
        then Inl (ValueError ''assembled governed prompt exceeds its input ceiling'')
        else Inr (ap_content a, estimate (ap_content a), ap_package_identity a)))"

definition assemble_context ::
  "text_services \<Rightarrow> AIInvocationRequest \<Rightarrow> int \<Rightarrow> exn + (string \<times> int \<times> string)" where
  "assemble_context tx r stage =
     (let selected = select_context r stage; prompt = render r selected in
      if rq_max_input_tokens r < estimate prompt
      then Inl (ValueError ''mandatory context exceeds input token limit'')
      else Inr (prompt, estimate prompt,
        sha256 tx (json_dumps (compact_sorted (repr_float tx)) (context_value r stage prompt selected))))"

definition assemble ::
  "text_services \<Rightarrow> prompt_catalog option \<Rightarrow> AIInvocationRequest \<Rightarrow> int
   \<Rightarrow> exn + (string \<times> int \<times> string)"
where
  "assemble tx packages r stage =
     (case packages of
        Some cat \<Rightarrow>
          if rq_prompt_template_ref r = ''structured-task-kind''
          then assemble_governed tx cat r stage else assemble_context tx r stage
      | None \<Rightarrow> assemble_context tx r stage)"

section \<open>The bisection finds the longest prefix that fits\<close>

lemma bisect_spec:
  assumes "low \<le> high" "\<And>m n. m \<le> n \<Longrightarrow> fits n \<Longrightarrow> fits m" "low = 0 \<or> fits low"
    "\<And>n. fits n \<Longrightarrow> low \<le> n \<Longrightarrow> n \<le> len \<Longrightarrow> n \<le> high" "high \<le> len"
  shows "(bisect fits low high = 0 \<or> fits (bisect fits low high)) \<and> bisect fits low high \<le> len
    \<and> (\<forall>n \<le> len. fits n \<longrightarrow> n \<le> bisect fits low high)"
  using assms
proof (induction fits low high rule: bisect.induct)
  case (1 fits low high)
  show ?case
  proof (cases "low < high")
    case False
    with "1.prems"(1) have eq: "low = high" by simp
    have b: "bisect fits low high = low" by (subst bisect.simps) (simp add: False)
    have "n \<le> low" if "n \<le> len" "fits n" for n
      using "1.prems"(4) [OF that(2) _ that(1)] eq by (cases "low \<le> n") auto
    with "1.prems"(3,5) eq show ?thesis unfolding b by blast
  next
    case True
    define m where "m = (low + high + 1) div 2"
    then have m: "low < m" "m \<le> high" using True by auto
    show ?thesis
    proof (cases "fits m")
      case fit: True
      have "bisect fits low high = bisect fits m high"
        by (subst bisect.simps) (use True fit in \<open>simp add: m_def Let_def\<close>)
      moreover have "(bisect fits m high = 0 \<or> fits (bisect fits m high)) \<and> bisect fits m high \<le> len
          \<and> (\<forall>n \<le> len. fits n \<longrightarrow> n \<le> bisect fits m high)"
        by (rule "1.IH"(1) [OF True m_def]) (use fit m "1.prems" in auto)
      ultimately show ?thesis by simp
    next
      case no: False
      have "bisect fits low high = bisect fits low (m - 1)"
        by (subst bisect.simps) (use True no in \<open>simp add: m_def Let_def\<close>)
      moreover have "(bisect fits low (m - 1) = 0 \<or> fits (bisect fits low (m - 1)))
          \<and> bisect fits low (m - 1) \<le> len \<and> (\<forall>n \<le> len. fits n \<longrightarrow> n \<le> bisect fits low (m - 1))"
      proof (rule "1.IH"(2) [OF True m_def no])
        show "n \<le> m - 1" if "fits n" for n
          using that no "1.prems"(2) [of m n] by (cases "m \<le> n") auto
      qed (use m "1.prems" in auto)
      ultimately show ?thesis by simp
    qed
  qed
qed

lemma bisect_longest:
  assumes "\<And>m n. m \<le> n \<Longrightarrow> fits n \<Longrightarrow> fits m"
  shows "bisect fits 0 len = Max {n. n \<le> len \<and> (n = 0 \<or> fits n)}"
proof -
  have b: "(bisect fits 0 len = 0 \<or> fits (bisect fits 0 len)) \<and> bisect fits 0 len \<le> len
    \<and> (\<forall>n \<le> len. fits n \<longrightarrow> n \<le> bisect fits 0 len)"
    by (rule bisect_spec) (use assms in auto)
  show ?thesis
    by (rule sym, rule Max_eqI) (use b in auto)
qed

section \<open>What fits\<close>

lemma estimate_mono: "utf8_len a \<le> utf8_len b \<Longrightarrow> estimate a \<le> estimate b"
  by (auto simp: estimate_def intro!: zdiv_mono1 max.mono)

lemma estimate_pos: "1 \<le> estimate s"
  by (simp add: estimate_def)

lemma join_snoc: "xs \<noteq> [] \<Longrightarrow> join sep (xs @ [y]) = join sep xs @ sep @ y"
proof (induction xs)
  case (Cons x xs)
  then show ?case by (cases xs) auto
qed simp

lemma render_snoc: "render r (items @ [c]) = render r items @ [CHR 0x0A] @ evidence c"
  using join_snoc [of "base_sections r @ map evidence items" "[CHR 0x0A]" "evidence c"]
  by (simp add: render_def base_sections_def)

lemma render_grows: "estimate (render r items) \<le> estimate (render r (items @ [c]))"
  by (rule estimate_mono) (simp add: render_snoc)

lemma fits_with_cut: "m \<le> n \<Longrightarrow> fits_with r sel (cut_item c n) \<Longrightarrow> fits_with r sel (cut_item c m)"
  unfolding fits_with_def
  by (erule order_trans [rotated], rule estimate_mono)
     (auto simp: render_snoc evidence_def cut_item_def quoted_def utf8_len_mono)

definition fitting :: "AIInvocationRequest \<Rightarrow> ContextItem list \<Rightarrow> bool" where
  "fitting r items \<longleftrightarrow> estimate (render r items) \<le> rq_max_input_tokens r"

lemma fits_with_fitting: "fits_with r sel c = fitting r (sel @ [c])"
  by (simp add: fits_with_def fitting_def)

lemma fitting_prefix: "fitting r (sel @ [c]) \<Longrightarrow> fitting r sel"
  unfolding fitting_def using render_grows order_trans by blast

lemma cut_bisect:
  assumes "bisect (\<lambda>n. fits_with r sel (cut_item c n)) 0 len = n"
  shows "(n = 0 \<or> fitting r (sel @ [cut_item c n])) \<and> (\<forall>m \<le> len. fitting r (sel @ [cut_item c m]) \<longrightarrow> m \<le> n)"
proof -
  have "(bisect (\<lambda>n. fits_with r sel (cut_item c n)) 0 len = 0
      \<or> fits_with r sel (cut_item c (bisect (\<lambda>n. fits_with r sel (cut_item c n)) 0 len)))
    \<and> bisect (\<lambda>n. fits_with r sel (cut_item c n)) 0 len \<le> len
    \<and> (\<forall>m \<le> len. fits_with r sel (cut_item c m) \<longrightarrow> m \<le> bisect (\<lambda>n. fits_with r sel (cut_item c n)) 0 len)"
    by (rule bisect_spec) (auto intro: fits_with_cut)
  then show ?thesis unfolding assms by (simp add: fits_with_fitting)
qed

lemma select_optional:
  assumes "\<not> cx_mandatory c"
  shows "fitting r (select_item r stage best sel c) = fitting r sel"
    and "\<not> fitting r sel \<Longrightarrow> select_item r stage best sel c = sel"
proof -
  let ?n = "bisect (\<lambda>n. fits_with r sel (cut_item c n)) 0 (length (cx_content c))"
  have n: "?n = 0 \<or> fitting r (sel @ [cut_item c ?n])" using cut_bisect [OF refl] by blast
  have cases: "select_item r stage best sel c = sel
      \<or> select_item r stage best sel c = sel @ [c] \<and> fitting r (sel @ [c])
      \<or> select_item r stage best sel c = sel @ [cut_item c ?n] \<and> fitting r (sel @ [cut_item c ?n])"
    using assms n by (simp add: select_item_def fits_with_fitting [of r sel c] Let_def) (metis neq0_conv)
  from cases show "fitting r (select_item r stage best sel c) = fitting r sel"
    by (elim disjE) (auto dest: fitting_prefix)
  show "select_item r stage best sel c = sel" if "\<not> fitting r sel"
    using cases that by (elim disjE) (auto dest: fitting_prefix)
qed

section \<open>Which items are selected\<close>

lemma unique_items_props:
  assumes "sorted_wrt P xs"
  defines "d \<equiv> foldl (\<lambda>d c. od_setdefault (cx_reference c, cx_version c) c d) [] xs"
  shows "sorted_wrt P (map snd d) \<and> set (map snd d) \<subseteq> set xs
    \<and> (\<forall>c \<in> set xs. (cx_reference c, cx_version c) \<in> set (map fst d))"
  using assms(1) unfolding d_def
proof (induction xs rule: rev_induct)
  case (snoc x xs)
  let ?d = "foldl (\<lambda>d c. od_setdefault (cx_reference c, cx_version c) c d) [] xs"
  let ?k = "(cx_reference x, cx_version x)"
  from snoc have IH: "sorted_wrt P (map snd ?d)" "set (map snd ?d) \<subseteq> set xs"
    "\<forall>c \<in> set xs. (cx_reference c, cx_version c) \<in> set (map fst ?d)" and new: "\<forall>y \<in> set xs. P y x"
    by (auto simp: sorted_wrt_append)
  show ?case
  proof (cases "map_of ?d ?k")
    case None
    then have "od_setdefault ?k x ?d = ?d @ [(?k, x)]" by (simp add: od_setdefault_def)
    with IH new show ?thesis by (simp add: sorted_wrt_append) blast
  next
    case (Some y)
    then have "od_setdefault ?k x ?d = ?d" "?k \<in> set (map fst ?d)"
      by (auto simp: od_setdefault_def dest: map_of_SomeD intro: rev_image_eqI)
    with IH show ?thesis by auto
  qed
qed simp

lemma mandatory_first:
  "sorted_wrt (\<lambda>a b. cx_mandatory b \<longrightarrow> cx_mandatory a) (sort_key context_rank items)"
proof -
  have "sorted_wrt (\<lambda>a b. context_rank a \<le> context_rank b) (sort_key context_rank items)"
    using sorted_sort_key [of context_rank items] by (simp add: sorted_map)
  then show ?thesis
    by (rule sorted_wrt_mono_rel [rotated]) (auto simp: context_rank_def less_eq_prod_def split: if_splits)
qed

lemma filter_split:
  "sorted_wrt (\<lambda>a b. P b \<longrightarrow> P a) xs \<Longrightarrow> xs = filter P xs @ filter (\<lambda>x. \<not> P x) xs"
proof (induction xs)
  case (Cons x xs)
  then show ?case
    by (cases "P x") (auto simp: filter_empty_conv filter_id_conv)
qed simp

definition mandatory_items :: "AIInvocationRequest \<Rightarrow> ContextItem list" where
  "mandatory_items r = filter cx_mandatory (unique_items (rq_context_items r))"

lemma unique_items_split:
  "unique_items (rq_context_items r) =
     mandatory_items r @ filter (\<lambda>c. \<not> cx_mandatory c) (unique_items (rq_context_items r))"
  unfolding mandatory_items_def
  by (rule filter_split) (use unique_items_props [OF mandatory_first] in \<open>simp add: unique_items_def\<close>)

lemma unique_items_subset: "set (unique_items items) \<subseteq> set items"
  using unique_items_props [OF mandatory_first, of items] by (simp add: unique_items_def)

lemma foldl_mandatory:
  "list_all cx_mandatory xs \<Longrightarrow> foldl (select_item r stage best) sel xs = sel @ xs"
  by (induction xs arbitrary: sel) (auto simp: select_item_def)

lemma foldl_optional:
  "list_all (\<lambda>c. \<not> cx_mandatory c) xs \<Longrightarrow>
   fitting r (foldl (select_item r stage best) sel xs) = fitting r sel
   \<and> (\<not> fitting r sel \<longrightarrow> foldl (select_item r stage best) sel xs = sel)"
  by (induction xs arbitrary: sel) (auto simp: select_optional)

lemma select_item_prefix:
  "\<exists>rest. select_item r stage best sel c = sel @ rest
     \<and> (\<forall>x \<in> set rest. x = c \<or> (\<exists>n. 0 < n \<and> x = cut_item c n))"
  by (auto simp: select_item_def Let_def)

lemma foldl_prefix:
  "\<exists>rest. foldl (select_item r stage best) sel xs = sel @ rest
     \<and> (\<forall>x \<in> set rest. \<exists>c \<in> set xs. x = c \<or> (\<exists>n. 0 < n \<and> x = cut_item c n))"
proof (induction xs arbitrary: sel)
  case (Cons c xs)
  obtain one where one: "select_item r stage best sel c = sel @ one"
    "\<forall>x \<in> set one. x = c \<or> (\<exists>n. 0 < n \<and> x = cut_item c n)" using select_item_prefix by blast
  obtain rest where "foldl (select_item r stage best) (sel @ one) xs = (sel @ one) @ rest"
    "\<forall>x \<in> set rest. \<exists>c \<in> set xs. x = c \<or> (\<exists>n. 0 < n \<and> x = cut_item c n)" using Cons by blast
  with one show ?case by (intro exI [of _ "one @ rest"]) auto
qed simp

lemma select_context_shape:
  "\<exists>rest. select_context r stage = mandatory_items r @ rest
     \<and> (\<forall>x \<in> set rest. \<exists>c \<in> set (rq_context_items r). \<not> cx_mandatory c \<and> (x = c \<or> (\<exists>n. 0 < n \<and> x = cut_item c n)))
     \<and> fitting r (select_context r stage) = fitting r (mandatory_items r)"
proof -
  define best where "best = optional_relevance (unique_items (rq_context_items r))"
  define opts where "opts = filter (\<lambda>c. \<not> cx_mandatory c) (unique_items (rq_context_items r))"
  have m: "list_all cx_mandatory (mandatory_items r)" by (simp add: mandatory_items_def list_all_iff)
  have o: "list_all (\<lambda>c. \<not> cx_mandatory c) opts" "set opts \<subseteq> set (rq_context_items r)"
    using unique_items_subset [of "rq_context_items r"] by (auto simp: opts_def list_all_iff)
  have eq: "select_context r stage = foldl (select_item r stage best) (mandatory_items r) opts"
    unfolding select_context_def Let_def best_def [symmetric]
    by (subst unique_items_split, fold opts_def) (simp add: foldl_mandatory [OF m])
  obtain rest where "foldl (select_item r stage best) (mandatory_items r) opts = mandatory_items r @ rest"
    "\<forall>x \<in> set rest. \<exists>c \<in> set opts. x = c \<or> (\<exists>n. 0 < n \<and> x = cut_item c n)" using foldl_prefix by blast
  note rest = this
  have "\<exists>c \<in> set (rq_context_items r). \<not> cx_mandatory c \<and> (x = c \<or> (\<exists>n. 0 < n \<and> x = cut_item c n))"
    if "x \<in> set rest" for x
    using rest(2) that o unfolding list_all_iff by blast
  moreover have "fitting r (select_context r stage) = fitting r (mandatory_items r)"
    using foldl_optional [OF o(1)] eq by simp
  ultimately show ?thesis using eq rest(1) by auto
qed

text \<open>C35 (equivalence). The bisection cuts optimally: an optional item that is considered but does not fit as a
  whole is kept with the longest prefix of its content that still fits, and dropped when not even
  one character fits.\<close>

theorem optional_item_cut_longest:
  assumes "\<not> cx_mandatory c" and "\<not> fitting r (sel @ [c])"
    and "stage \<noteq> 0 \<or> best = None \<or> (\<exists>b. best = Some b \<and> b \<le> cx_relevance c)"
  shows "select_item r stage best sel c =
    (let n = Max {n. n \<le> length (cx_content c) \<and> (n = 0 \<or> fitting r (sel @ [cut_item c n]))}
     in if n = 0 then sel else sel @ [cut_item c n])"
proof -
  have "bisect (\<lambda>n. fits_with r sel (cut_item c n)) 0 (length (cx_content c)) =
      Max {n. n \<le> length (cx_content c) \<and> (n = 0 \<or> fits_with r sel (cut_item c n))}"
    by (rule bisect_longest) (rule fits_with_cut)
  then show ?thesis
    using assms by (auto simp: select_item_def fits_with_fitting Let_def split: option.splits)
qed

lemma assemble_context_cases:
  "assemble_context tx r stage =
     (if fitting r (select_context r stage)
      then Inr (render r (select_context r stage), estimate (render r (select_context r stage)),
        sha256 tx (json_dumps (compact_sorted (repr_float tx))
          (context_value r stage (render r (select_context r stage)) (select_context r stage))))
      else Inl (ValueError ''mandatory context exceeds input token limit''))"
  by (simp add: assemble_context_def Let_def fitting_def)

text \<open>C34 (functional). Context assembly fails exactly when the mandatory context alone is over the input
  limit. Otherwise the prompt renders all mandatory items (each once, the first in rank order of
  every reference and version) followed by whole or shortened optional items of the request, and
  its estimate is the reported token count, between 1 and the limit.\<close>

theorem assembly_keeps_mandatory:
  "case assemble_context tx r stage of
     Inl e \<Rightarrow> e = ValueError ''mandatory context exceeds input token limit''
       \<and> rq_max_input_tokens r < estimate (render r (mandatory_items r))
   | Inr (prompt, tokens, digest) \<Rightarrow>
       estimate (render r (mandatory_items r)) \<le> rq_max_input_tokens r
       \<and> tokens = estimate prompt \<and> 1 \<le> tokens \<and> tokens \<le> rq_max_input_tokens r
       \<and> (\<exists>rest. prompt = render r (mandatory_items r @ rest)
            \<and> (\<forall>x \<in> set rest. \<exists>c \<in> set (rq_context_items r).
                 \<not> cx_mandatory c \<and> (x = c \<or> (\<exists>n. 0 < n \<and> x = cut_item c n))))"
proof -
  obtain rest where rest: "select_context r stage = mandatory_items r @ rest"
    "\<forall>x \<in> set rest. \<exists>c \<in> set (rq_context_items r).
       \<not> cx_mandatory c \<and> (x = c \<or> (\<exists>n. 0 < n \<and> x = cut_item c n))"
    "fitting r (select_context r stage) = fitting r (mandatory_items r)"
    using select_context_shape by blast
  show ?thesis
  proof (cases "fitting r (select_context r stage)")
    case False
    with rest(3) show ?thesis by (simp add: assemble_context_cases) (simp add: fitting_def)
  next
    case True
    moreover have "estimate (render r (mandatory_items r)) \<le> rq_max_input_tokens r"
      "estimate (render r (select_context r stage)) \<le> rq_max_input_tokens r"
      using True rest(3) by (simp_all add: fitting_def)
    ultimately show ?thesis
      using rest(1,2) by (simp add: assemble_context_cases estimate_pos) blast
  qed
qed

text \<open>C36 (bounds). Whichever path assembles the prompt, the token count it reports is the estimate of the
  text sent and is positive and within the request's input limit; under the governed template
  with a package catalog the text is that of a registered, enabled package bound to the request
  by schema reference and package identity, and no context was attached.\<close>

theorem assemble_within_limit:
  assumes "assemble tx packages r stage = Inr (prompt, tokens, digest)"
  shows "tokens = estimate prompt \<and> 1 \<le> tokens \<and> tokens \<le> rq_max_input_tokens r
    \<and> (\<forall>cat. packages = Some cat \<and> rq_prompt_template_ref r = ''structured-task-kind'' \<longrightarrow>
         rq_context_items r = [] \<and> stage = 0 \<and> rq_output_schema_identity r = Some digest
         \<and> (\<exists>p. resolve_package cat ''structured-task-kind'' (rq_prompt_template_version_ref r) True = Inr p
              \<and> digest = package_identity (sha256 tx) (repr_float tx) p
              \<and> rq_output_schema_ref r = Some (pp_output_schema_reference p)
              \<and> prompt = prompt_text (repr_float tx) p (strip (rq_prompt r))))"
proof (cases "\<exists>cat. packages = Some cat \<and> rq_prompt_template_ref r = ''structured-task-kind''")
  case True
  then obtain cat where cat: "packages = Some cat" "rq_prompt_template_ref r = ''structured-task-kind''" by blast
  with assms obtain a where a: "assemble_prompt (sha256 tx) (repr_float tx) cat ''structured-task-kind''
      (rq_prompt_template_version_ref r) [(''statement'', PStr (rq_prompt r))] = Inr a"
    and rest: "stage = 0" "rq_context_items r = []" "prompt = ap_content a" "tokens = estimate prompt"
      "digest = ap_package_identity a" "rq_output_schema_identity r = Some digest"
      "rq_output_schema_ref r = Some (ap_output_schema_reference a)" "tokens \<le> rq_max_input_tokens r"
    by (auto simp: assemble_def assemble_governed_def split: if_splits)
  from a obtain p where "resolve_package cat ''structured-task-kind'' (rq_prompt_template_version_ref r) True = Inr p"
    "a = \<lparr>ap_content = prompt_text (repr_float tx) p (strip (rq_prompt r)),
          ap_package_identity = package_identity (sha256 tx) (repr_float tx) p,
          ap_output_schema_reference = pp_output_schema_reference p,
          ap_output_schema = pp_output_schema p\<rparr>"
    by (auto simp: assemble_prompt_def bind_statement_Inr)
  with rest cat estimate_pos show ?thesis by simp
next
  case False
  with assms have "assemble_context tx r stage = Inr (prompt, tokens, digest)"
    by (auto simp: assemble_def split: option.splits if_splits)
  with False estimate_pos show ?thesis
    by (auto simp: assemble_context_cases fitting_def split: if_splits)
qed

section \<open>A concrete assembly\<close>

definition sample_context :: "ContextItem list" where
  "sample_context =
     [\<lparr>cx_reference = ''b'', cx_version = ''1'', cx_content = ''optional evidence'', cx_relevance = 5,
       cx_necessity_reason = ''n'', cx_trusted = False, cx_mandatory = False\<rparr>,
      \<lparr>cx_reference = ''a'', cx_version = ''1'', cx_content = ''must'', cx_relevance = 1,
       cx_necessity_reason = ''n'', cx_trusted = True, cx_mandatory = True\<rparr>]"

definition sample_context_request :: AIInvocationRequest where
  "sample_context_request = sample_request\<lparr>rq_context_items := sample_context\<rparr>"

lemma sample_mandatory: "map cx_reference (mandatory_items sample_context_request) = [''a'']"
  by code_simp

lemma sample_fits: "estimate (render sample_context_request (mandatory_items sample_context_request)) \<le> 1024"
  by code_simp

lemma sample_limit: "rq_max_input_tokens sample_context_request = 1024"
  by code_simp

lemma sample_assembles: "\<exists>p t d. assemble_context sample_tx sample_context_request 0 = Inr (p, t, d)"
proof -
  have "fitting sample_context_request (select_context sample_context_request 0)"
    using select_context_shape [of sample_context_request 0] sample_fits sample_limit
    by (auto simp: fitting_def)
  then show ?thesis by (simp add: assemble_context_cases)
qed

theorem assembly_keeps_mandatory_witness:
  "\<exists>p t d rest. assemble_context sample_tx sample_context_request 0 = Inr (p, t, d) \<and> t \<le> 1024
     \<and> p = render sample_context_request (mandatory_items sample_context_request @ rest)"
proof -
  obtain p t d where a: "assemble_context sample_tx sample_context_request 0 = Inr (p, t, d)"
    using sample_assembles by blast
  with assembly_keeps_mandatory [where tx = sample_tx and r = sample_context_request and stage = 0] sample_limit show ?thesis
    by auto
qed

theorem assemble_within_limit_witness:
  "\<exists>p t d. assemble sample_tx None sample_context_request 0 = Inr (p, t, d) \<and> 1 \<le> t \<and> t \<le> 1024"
proof -
  obtain p t d where a: "assemble sample_tx None sample_context_request 0 = Inr (p, t, d)"
    using sample_assembles by (auto simp: assemble_def)
  from assemble_within_limit [OF a] a sample_limit show ?thesis by auto
qed

theorem optional_item_cut_longest_witness:
  "\<exists>n. select_item (sample_context_request\<lparr>rq_max_input_tokens := 37\<rparr>) 0 (Some 5) [] (hd sample_context) =
     (if n = 0 then [] else [cut_item (hd sample_context) n])"
proof -
  have "\<not> fitting (sample_context_request\<lparr>rq_max_input_tokens := 37\<rparr>) ([] @ [hd sample_context])"
    by code_simp
  moreover have "\<not> cx_mandatory (hd sample_context)" "cx_relevance (hd sample_context) = 5"
    by (simp_all add: sample_context_def)
  ultimately have "select_item (sample_context_request\<lparr>rq_max_input_tokens := 37\<rparr>) 0 (Some 5) [] (hd sample_context) =
    (let n = Max {n. n \<le> length (cx_content (hd sample_context)) \<and> (n = 0
        \<or> fitting (sample_context_request\<lparr>rq_max_input_tokens := 37\<rparr>) ([] @ [cut_item (hd sample_context) n]))}
     in if n = 0 then [] else [] @ [cut_item (hd sample_context) n])"
    by (intro optional_item_cut_longest) auto
  then show ?thesis by (simp add: Let_def) blast
qed

end
