(* ===== verification/Gateway_Routing.thy ===== *)
theory Gateway_Routing
  imports Gateway_Assembly
begin

text \<open>
  Route selection of \<^verbatim>\<open>ReferenceAIGateway\<close>: provider health with cooldowns, the hard
  constraints that exclude a catalog entry, the cheapest-first order of what remains, and the
  response cache key and its eligibility. \<^verbatim>\<open>repr\<close> of the sorted parameter list in the cache key
  is an argument.
\<close>

section \<open>Provider health\<close>

definition health_state :: "string \<Rightarrow> ('z gateway_state_scheme, string) eff" where
  "health_state model_key =
     bnd clock_now (\<lambda>now.
     bnd (asks (\<lambda>s. map_of (cooldowns s) model_key)) (\<lambda>cooldown.
     if (case cooldown of None \<Rightarrow> False | Some c \<Rightarrow> now < c) then ret ''cooldown''
     else bnd (upd (\<lambda>s. s\<lparr>cooldowns := AList.delete model_key (cooldowns s)\<rparr>)) (\<lambda>_.
          bnd (asks (\<lambda>s. model_key \<in> degraded s)) (\<lambda>d.
          ret (if d then ''degraded'' else ''healthy'')))))"

definition health_codes :: "string set" where
  "health_codes = {''AI_PROVIDER_RATE_LIMITED'', ''AI_PROVIDER_QUOTA_EXHAUSTED'',
     ''AI_PROVIDER_OVERLOADED'', ''AI_PROVIDER_TRANSIENT_FAILURE''}"

definition record_health_failure :: "int \<Rightarrow> string \<Rightarrow> string \<Rightarrow> ('z gateway_state_scheme, unit) eff" where
  "record_health_failure health_cooldown model_key code =
     (if code \<notin> health_codes then ret ()
      else bnd (upd (\<lambda>s. s\<lparr>degraded := insert model_key (degraded s)\<rparr>)) (\<lambda>_.
           bnd clock_now (\<lambda>now.
           upd (\<lambda>s. s\<lparr>cooldowns := od_put model_key (now + health_cooldown) (cooldowns s)\<rparr>))))"

definition record_health_success :: "string \<Rightarrow> ('z gateway_state_scheme, unit) eff" where
  "record_health_success model_key =
     upd (\<lambda>s. s\<lparr>degraded := degraded s - {model_key},
                cooldowns := AList.delete model_key (cooldowns s)\<rparr>)"

section \<open>Eligibility\<close>

definition exclusion ::
  "AIInvocationRequest \<Rightarrow> int \<Rightarrow> string \<Rightarrow> ModelCatalogEntry \<Rightarrow> string option" where
  "exclusion r tokens health e =
     (if mdl_deprecated e \<or> \<not> mdl_healthy e then Some ''unavailable''
      else if \<not> mdl_available e then Some ''availability''
      else if health = ''rate_limited'' \<or> health = ''cooldown'' then Some health
      else if \<not> rq_required_capabilities r \<subseteq> mdl_capabilities e then Some ''capability''
      else if mdl_quality_tier e < rq_quality_tier r then Some ''quality''
      else if mdl_context_limit e < tokens + rq_max_output_tokens r then Some ''context''
      else if mdl_max_output e < rq_max_output_tokens r then Some ''output''
      else if rq_allowed_adapters r \<noteq> {} \<and> mdl_adapter_key e \<notin> rq_allowed_adapters r
        then Some ''adapter_policy''
      else if mdl_adapter_key e \<in> rq_blocked_adapters r then Some ''security_policy''
      else if rq_residency r \<noteq> ''any'' \<and> rq_residency r \<notin> mdl_residencies e then Some ''residency''
      else if \<not> rq_required_data_handling r \<subseteq> mdl_data_handling e then Some ''data_handling''
      else if mdl_security_tier e < rq_minimum_security_tier r then Some ''security''
      else if rq_latency_tier r < mdl_latency_tier e then Some ''latency''
      else if rq_max_total_cost r < estimate_cost e tokens (rq_max_output_tokens r) 0 0
        then Some ''budget''
      else None)"

fun partition_catalog ::
  "AIInvocationRequest \<Rightarrow> int \<Rightarrow> ModelCatalogEntry list \<Rightarrow> (string, string) odict
   \<Rightarrow> ModelCatalogEntry list
   \<Rightarrow> ('z gateway_state_scheme, (string, string) odict \<times> ModelCatalogEntry list) eff"
where
  "partition_catalog r tokens [] excluded eligible = ret (excluded, eligible)"
| "partition_catalog r tokens (e # es) excluded eligible =
     bnd (health_state (mdl_model_key e)) (\<lambda>health.
     case exclusion r tokens health e of
       Some reason \<Rightarrow>
         partition_catalog r tokens es (od_put (mdl_model_key e) reason excluded) eligible
     | None \<Rightarrow> partition_catalog r tokens es excluded (eligible @ [e]))"

definition find_model :: "ModelCatalogEntry list \<Rightarrow> string \<Rightarrow> exn + ModelCatalogEntry" where
  "find_model catalog key =
     (case find (\<lambda>e. mdl_model_key e = key) catalog of None \<Rightarrow> Inl StopIteration | Some e \<Rightarrow> Inr e)"

definition route_decision ::
  "text_services \<Rightarrow> ModelCatalogEntry list \<Rightarrow> AIInvocationRequest \<Rightarrow> int \<Rightarrow> (string, string) odict
   \<Rightarrow> ModelCatalogEntry \<Rightarrow> RouteDecision"
where
  "route_decision tx catalog r tokens excluded e =
     \<lparr>rt_decision_reference = ''route:'' @ take 12 (sha256 tx
        (mdl_model_key e @ mdl_pricing_version e @ show_int tokens
         @ json_dumps (json_sorted tx) (PDict (map (\<lambda>(k, v). (k, PStr v)) excluded)))),
      rt_model_key = mdl_model_key e,
      rt_adapter_key = mdl_adapter_key e,
      rt_considered = sort (map mdl_model_key catalog),
      rt_excluded = excluded,
      rt_estimated_cost = estimate_cost e tokens (rq_max_output_tokens r) 0 0,
      rt_reason = ''cheapest capable model satisfying all hard constraints''\<rparr>"

definition latency_of :: "ModelCatalogEntry list \<Rightarrow> string \<Rightarrow> int" where
  "latency_of catalog key = (case find_model catalog key of Inl _ \<Rightarrow> 0 | Inr e \<Rightarrow> mdl_latency_tier e)"

definition route_rank :: "ModelCatalogEntry list \<Rightarrow> RouteDecision \<Rightarrow> rat \<times> int \<times> string" where
  "route_rank catalog d =
     (dval (rt_estimated_cost d), latency_of catalog (rt_model_key d), rt_model_key d)"

definition eligible_routes ::
  "text_services \<Rightarrow> ModelCatalogEntry list \<Rightarrow> AIInvocationRequest \<Rightarrow> int
   \<Rightarrow> ('z gateway_state_scheme, RouteDecision list) eff"
where
  "eligible_routes tx catalog r tokens =
     bnd (partition_catalog r tokens catalog [] []) (\<lambda>(excluded, eligible).
     ret (sort_key (route_rank catalog) (map (route_decision tx catalog r tokens excluded) eligible)))"

definition select_route ::
  "text_services \<Rightarrow> ModelCatalogEntry list \<Rightarrow> AIInvocationRequest \<Rightarrow> int
   \<Rightarrow> ('z gateway_state_scheme, RouteDecision) eff"
where
  "select_route tx catalog r tokens =
     bnd (eligible_routes tx catalog r tokens) (\<lambda>eligible.
     case eligible of
       [] \<Rightarrow> raise (ValueError ''no eligible model'')
     | d # _ \<Rightarrow> ret d)"

definition usage_cost :: "ModelCatalogEntry list \<Rightarrow> string \<Rightarrow> AIUsage \<Rightarrow> exn + decimal" where
  "usage_cost catalog model_key u =
     ebind (find_model catalog model_key) (\<lambda>e.
     Inr (estimate_cost e (input_tokens u) (output_tokens u) (cached_tokens u) (reasoning_tokens u)))"

section \<open>Cache key\<close>

definition sorted_csv :: "string set \<Rightarrow> string" where
  "sorted_csv A = join '','' (sorted_list_of_set A)"

definition cache_key ::
  "text_services \<Rightarrow> ((string \<times> string) list \<Rightarrow> string) \<Rightarrow> AIInvocationRequest \<Rightarrow> string \<Rightarrow> RouteDecision
   \<Rightarrow> string"
where
  "cache_key tx repr_parameters r context_digest route =
     sha256 tx (join ''|''
       [rq_prompt_template_ref r, rq_prompt_template_version_ref r, strip (rq_prompt r),
        sorted_csv (rq_required_capabilities r), context_digest,
        (case rq_output_schema_ref r of None \<Rightarrow> ''none'' | Some x \<Rightarrow> if x = [] then ''none'' else x),
        rq_system_instruction_ref r, rq_safety_policy_ref r, rq_cache_policy_ref r,
        rq_budget_policy_ref r, data_classification_value (rq_data_classification r),
        rq_residency r, sorted_csv (rq_required_data_handling r),
        sorted_csv (rq_allowed_adapters r), sorted_csv (rq_blocked_adapters r),
        show_int (rq_minimum_security_tier r), rq_locale r, show_int (rq_max_input_tokens r),
        show_int (rq_max_output_tokens r), show_int (rq_quality_tier r),
        show_int (rq_latency_tier r), repr_parameters (sort (rq_deterministic_parameters r)),
        rt_model_key route, rt_adapter_key route])"

definition cache_eligible :: "AIInvocationRequest \<Rightarrow> bool" where
  "cache_eligible r \<longleftrightarrow> rq_cache_allowed r
     \<and> rq_cache_policy_ref r \<notin> {''no-store'', ''cache-disabled''}
     \<and> rq_data_classification r \<in> {NON_SENSITIVE, INTERNAL}"

section \<open>The chosen route\<close>

text \<open>The hard constraints, stated without the order in which the code tests them, and the
  cooldowns as they are when the catalog is walked: the clock is read once per entry, so the
  entry at index \<^verbatim>\<open>i\<close> is tested at reading \<^verbatim>\<open>i\<close>. A cooldown found to have ended is deleted, so
  an entry counts as cooling down when its cooldown covers every reading taken for its model up
  to its own.\<close>

definition hard_constraints :: "AIInvocationRequest \<Rightarrow> int \<Rightarrow> ModelCatalogEntry \<Rightarrow> bool" where
  "hard_constraints r tokens e \<longleftrightarrow>
     mdl_available e \<and> mdl_healthy e \<and> \<not> mdl_deprecated e
     \<and> rq_required_capabilities r \<subseteq> mdl_capabilities e
     \<and> rq_quality_tier r \<le> mdl_quality_tier e
     \<and> tokens + rq_max_output_tokens r \<le> mdl_context_limit e
     \<and> rq_max_output_tokens r \<le> mdl_max_output e
     \<and> (rq_allowed_adapters r = {} \<or> mdl_adapter_key e \<in> rq_allowed_adapters r)
     \<and> mdl_adapter_key e \<notin> rq_blocked_adapters r
     \<and> (rq_residency r = ''any'' \<or> rq_residency r \<in> mdl_residencies e)
     \<and> rq_required_data_handling r \<subseteq> mdl_data_handling e
     \<and> rq_minimum_security_tier r \<le> mdl_security_tier e
     \<and> mdl_latency_tier e \<le> rq_latency_tier r
     \<and> estimate_cost e tokens (rq_max_output_tokens r) 0 0 \<le> rq_max_total_cost r"

definition cooldown_at :: "'z gateway_state_scheme \<Rightarrow> string \<Rightarrow> nat \<Rightarrow> bool" where
  "cooldown_at s k j \<longleftrightarrow> (case map_of (cooldowns s) k of
     None \<Rightarrow> False | Some until \<Rightarrow> clock_feed s (clock_reads s + j) < until)"

definition cooling_down :: "ModelCatalogEntry list \<Rightarrow> 'z gateway_state_scheme \<Rightarrow> nat \<Rightarrow> bool" where
  "cooling_down catalog s i \<longleftrightarrow>
     (\<forall>j \<le> i. mdl_model_key (catalog ! j) = mdl_model_key (catalog ! i)
        \<longrightarrow> cooldown_at s (mdl_model_key (catalog ! i)) j)"

definition routable ::
  "AIInvocationRequest \<Rightarrow> int \<Rightarrow> 'z gateway_state_scheme \<Rightarrow> ModelCatalogEntry list \<Rightarrow> nat \<Rightarrow> bool"
where
  "routable r tokens s catalog i \<longleftrightarrow>
     i < length catalog \<and> hard_constraints r tokens (catalog ! i) \<and> \<not> cooling_down catalog s i"

lemma exclusion_None:
  "exclusion r tokens h e = None \<longleftrightarrow>
     hard_constraints r tokens e \<and> h \<noteq> ''rate_limited'' \<and> h \<noteq> ''cooldown''"
  by (auto simp: exclusion_def hard_constraints_def dec_order not_less)

lemma health_state_reads:
  "\<exists>h u. health_state k s = (Inr h, u) \<and> h \<noteq> ''rate_limited''
     \<and> (h = ''cooldown'' \<longleftrightarrow> cooldown_at s k 0)
     \<and> clock_feed u = clock_feed s \<and> clock_reads u = Suc (clock_reads s)
     \<and> (\<forall>j. map_of (cooldowns u) j =
            (if j = k \<and> \<not> cooldown_at s k 0 then None else map_of (cooldowns s) j))"
  by (auto simp: health_state_def cooldown_at_def effect_simps delete_conv' restrict_map_def
      split: option.splits)

lemma cooling_down_first: "cooling_down (e # es) s 0 \<longleftrightarrow> cooldown_at s (mdl_model_key e) 0"
  by (simp add: cooling_down_def)

lemma all_le_Suc: "(\<forall>j \<le> Suc i. P j) \<longleftrightarrow> P 0 \<and> (\<forall>j \<le> i. P (Suc j))"
  by (metis Suc_le_mono le0 not0_implies_Suc)

lemma cooldown_at_kept:
  assumes "clock_feed u = clock_feed s" "clock_reads u = Suc (clock_reads s)"
    "map_of (cooldowns u) k = map_of (cooldowns s) k"
  shows "cooldown_at u k j = cooldown_at s k (Suc j)"
  using assms by (simp add: cooldown_at_def split: option.split)

lemma cooling_down_rest:
  assumes "clock_feed u = clock_feed s" "clock_reads u = Suc (clock_reads s)"
    "\<forall>j. map_of (cooldowns u) j =
       (if j = mdl_model_key e \<and> \<not> cooldown_at s (mdl_model_key e) 0 then None else map_of (cooldowns s) j)"
  shows "cooling_down (e # es) s (Suc i) \<longleftrightarrow> cooling_down es u i"
proof (cases "mdl_model_key (es ! i) = mdl_model_key e \<and> \<not> cooldown_at s (mdl_model_key e) 0")
  case True
  then have "\<not> cooldown_at u (mdl_model_key (es ! i)) i" using assms(3) by (simp add: cooldown_at_def)
  with True show ?thesis by (auto simp: cooling_down_def all_le_Suc)
next
  case False
  then have "map_of (cooldowns u) (mdl_model_key (es ! i)) = map_of (cooldowns s) (mdl_model_key (es ! i))"
    using assms(3) by auto
  then have kept: "cooldown_at u (mdl_model_key (es ! i)) j = cooldown_at s (mdl_model_key (es ! i)) (Suc j)" for j
    by (rule cooldown_at_kept [OF assms(1,2)])
  show ?thesis using False by (auto simp: cooling_down_def all_le_Suc kept)
qed

lemma routable_first:
  "routable r tokens s (e # es) 0 \<longleftrightarrow> hard_constraints r tokens e \<and> \<not> cooldown_at s (mdl_model_key e) 0"
  by (simp add: routable_def cooling_down_first)

lemma upt_first: "[0..<Suc n] = 0 # map Suc [0..<n]"
  by (simp add: upt_conv_Cons map_Suc_upt del: upt_Suc)

lemma partition_catalog_returns:
  "\<exists>x t. partition_catalog r tokens es ex el s =
     (Inr (x, el @ map ((!) es) (filter (routable r tokens s es) [0..<length es])), t)"
proof (induction es arbitrary: ex el s)
  case Nil
  then show ?case by (simp add: effect_simps)
next
  case (Cons e es)
  obtain h u where h: "health_state (mdl_model_key e) s = (Inr h, u)" "h \<noteq> ''rate_limited''"
    "h = ''cooldown'' \<longleftrightarrow> cooldown_at s (mdl_model_key e) 0"
    and u: "clock_feed u = clock_feed s" "clock_reads u = Suc (clock_reads s)"
    "\<forall>j. map_of (cooldowns u) j =
       (if j = mdl_model_key e \<and> \<not> cooldown_at s (mdl_model_key e) 0 then None else map_of (cooldowns s) j)"
    using health_state_reads [of "mdl_model_key e" s] by blast
  let ?ex = "case exclusion r tokens h e of Some reason \<Rightarrow> od_put (mdl_model_key e) reason ex | None \<Rightarrow> ex"
  let ?el = "el @ (if routable r tokens s (e # es) 0 then [e] else [])"
  have none: "exclusion r tokens h e = None \<longleftrightarrow> routable r tokens s (e # es) 0"
    using h(2,3) by (auto simp: exclusion_None routable_first)
  have step: "partition_catalog r tokens (e # es) ex el s = partition_catalog r tokens es ?ex ?el u"
    using h(1) none by (auto simp: effect_simps split: option.splits)
  have rest: "routable r tokens s (e # es) (Suc i) = routable r tokens u es i" for i
    using cooling_down_rest [OF u] by (simp add: routable_def)
  have "map ((!) (e # es)) (filter (routable r tokens s (e # es)) [0..<length (e # es)])
      = (if routable r tokens s (e # es) 0 then [e] else [])
        @ map ((!) es) (filter (routable r tokens u es) [0..<length es])"
    by (simp only: length_Cons upt_first)
      (simp add: filter_map comp_def rest del: upt_Suc)
  then show ?case
    using Cons.IH [of ?ex ?el u] unfolding step by simp
qed

lemma eligible_routes_returns:
  "\<exists>x l t. eligible_routes tx catalog r tokens s =
        (Inr (sort_key (route_rank catalog) (map (route_decision tx catalog r tokens x) l)), t)
     \<and> set l = {catalog ! i |i. routable r tokens s catalog i}"
proof -
  obtain x t where p: "partition_catalog r tokens catalog [] [] s =
      (Inr (x, map ((!) catalog) (filter (routable r tokens s catalog) [0..<length catalog])), t)"
    using partition_catalog_returns [of r tokens catalog "[]" "[]" s] by auto
  have "set (map ((!) catalog) (filter (routable r tokens s catalog) [0..<length catalog]))
      = {catalog ! i |i. routable r tokens s catalog i}"
    by (auto simp: routable_def)
  then show ?thesis
    using p
    by (intro exI [of _ x] exI [of _ "map ((!) catalog) (filter (routable r tokens s catalog) [0..<length catalog])"]
        exI [of _ t]) (simp add: eligible_routes_def effect_simps)
qed

lemma sort_key_head:
  assumes "sort_key f xs = y # ys"
  shows "y \<in> set xs" "\<forall>x \<in> set xs. f y \<le> f x"
proof -
  have s: "set xs = insert y (set ys)" using arg_cong [OF assms, of set] by simp
  then show "y \<in> set xs" by simp
  have "sorted (map f (y # ys))" using sorted_sort_key [of f xs] assms by simp
  then show "\<forall>x \<in> set xs. f y \<le> f x" using s by auto
qed

text \<open>C33 (functional). Routing picks the cheapest model that may serve the request: the route
  selected is a catalog entry that satisfies every hard constraint (lifecycle, capabilities,
  quality, context window, output size, adapter policies, residency, data handling, security,
  latency and the request's cost limit) and whose model was not cooling down at the clock reading
  taken for it, and no other such entry, one whose cooldown has ended included, has a lower
  estimated cost. Selection fails only with \<^verbatim>\<open>no eligible model\<close>, exactly when no such entry
  exists.\<close>

theorem route_cheapest_admissible:
  "case select_route tx catalog r tokens s of
     (Inr d, t) \<Rightarrow>
       (\<exists>i < length catalog. hard_constraints r tokens (catalog ! i) \<and> \<not> cooling_down catalog s i
          \<and> rt_model_key d = mdl_model_key (catalog ! i)
          \<and> rt_adapter_key d = mdl_adapter_key (catalog ! i)
          \<and> rt_estimated_cost d = estimate_cost (catalog ! i) tokens (rq_max_output_tokens r) 0 0
          \<and> rt_estimated_cost d \<le> rq_max_total_cost r)
       \<and> (\<forall>i < length catalog. hard_constraints r tokens (catalog ! i) \<and> \<not> cooling_down catalog s i
            \<longrightarrow> rt_estimated_cost d \<le> estimate_cost (catalog ! i) tokens (rq_max_output_tokens r) 0 0)
   | (Inl x, t) \<Rightarrow> x = ValueError ''no eligible model''
       \<and> (\<forall>i < length catalog. hard_constraints r tokens (catalog ! i) \<longrightarrow> cooling_down catalog s i)"
proof -
  obtain x l t where e: "eligible_routes tx catalog r tokens s =
      (Inr (sort_key (route_rank catalog) (map (route_decision tx catalog r tokens x) l)), t)"
    and l: "set l = {catalog ! i |i. routable r tokens s catalog i}"
    using eligible_routes_returns by blast
  show ?thesis
  proof (cases "sort_key (route_rank catalog) (map (route_decision tx catalog r tokens x) l)")
    case Nil
    then have "length (sort_key (route_rank catalog) (map (route_decision tx catalog r tokens x) l)) = 0"
      by simp
    then have "l = []" by (simp only: length_sort length_map length_0_conv)
    with e Nil l show ?thesis by (auto simp: select_route_def effect_simps routable_def)
  next
    case (Cons d ds)
    note head = sort_key_head [OF Cons]
    have sel: "select_route tx catalog r tokens s = (Inr d, t)"
      using e Cons by (simp add: select_route_def effect_simps)
    from head(1) l obtain i where i: "routable r tokens s catalog i"
      "d = route_decision tx catalog r tokens x (catalog ! i)" by auto
    have cheapest: "rt_estimated_cost d \<le> estimate_cost (catalog ! j) tokens (rq_max_output_tokens r) 0 0"
      if "routable r tokens s catalog j" for j
    proof -
      have "route_rank catalog d \<le> route_rank catalog (route_decision tx catalog r tokens x (catalog ! j))"
        using head(2) that l by auto
      then show ?thesis by (auto simp: route_rank_def less_eq_prod_def route_decision_def dec_order)
    qed
    have "i < length catalog \<and> hard_constraints r tokens (catalog ! i) \<and> \<not> cooling_down catalog s i
        \<and> rt_model_key d = mdl_model_key (catalog ! i)
        \<and> rt_adapter_key d = mdl_adapter_key (catalog ! i)
        \<and> rt_estimated_cost d = estimate_cost (catalog ! i) tokens (rq_max_output_tokens r) 0 0
        \<and> rt_estimated_cost d \<le> rq_max_total_cost r"
      using i by (auto simp: routable_def route_decision_def hard_constraints_def)
    with cheapest sel show ?thesis by (auto simp: routable_def)
  qed
qed

text \<open>A provider failure that signals overload takes the model out of routing until the
  cooldown ends, and any other failure does not touch its health: right after the failure is
  recorded, the model's state read at a time before the cooldown ends is \<^verbatim>\<open>cooldown\<close>, read
  later it is \<^verbatim>\<open>degraded\<close> until a success is recorded.\<close>

theorem health_cooldown_window:
  assumes "record_health_failure window k code s = (Inr (), t)"
  shows "if code \<in> health_codes
    then (clock_feed t (clock_reads t) < clock_feed s (clock_reads s) + window \<longrightarrow>
            fst (health_state k t) = Inr ''cooldown'')
       \<and> (clock_feed s (clock_reads s) + window \<le> clock_feed t (clock_reads t) \<longrightarrow>
            fst (health_state k t) = Inr ''degraded'')
       \<and> fst (health_state k (snd (record_health_success k t))) = Inr ''healthy''
    else t = s"
  using assms
  by (auto simp: record_health_failure_def health_state_def record_health_success_def effect_simps
      delete_conv' restrict_map_def)

section \<open>A concrete catalog\<close>

definition sample_model :: "string \<Rightarrow> decimal \<Rightarrow> ModelCatalogEntry" where
  "sample_model key price =
     \<lparr>mdl_model_key = key, mdl_adapter_key = ''mock'', mdl_capabilities = {''text''},
      mdl_context_limit = 8192, mdl_max_output = 1024, mdl_quality_tier = 1, mdl_latency_tier = 1,
      mdl_input_cost_per_token = price, mdl_output_cost_per_token = price,
      mdl_pricing_version = ''p1'', mdl_residencies = {''any''}, mdl_data_handling = {''internal''},
      mdl_security_tier = 1, mdl_available = True, mdl_healthy = True, mdl_deprecated = False,
      mdl_cached_input_cost_per_token = None, mdl_reasoning_cost_per_token = None\<rparr>"

definition sample_models :: "ModelCatalogEntry list" where
  "sample_models = [sample_model ''large'' (Dec 2 (- 3)), sample_model ''small'' (Dec 1 (- 3))]"

text \<open>Three models: the cheapest is cooling down when it is read, the next one's cooldown ends
  before it is read.\<close>

definition cooling_models :: "ModelCatalogEntry list" where
  "cooling_models = [sample_model ''large'' (Dec 3 (- 3)), sample_model ''cooling'' (Dec 1 (- 3)),
     sample_model ''recovered'' (Dec 2 (- 3))]"

abbreviation cooling_gateway :: gateway_state where
  "cooling_gateway \<equiv> (gateway_init (messaging_init int show_nat) (Dec 100 0) None)
     \<lparr>cooldowns := [(''cooling'', 30), (''recovered'', 2)]\<rparr>"

lemma cooling_models_constrained:
  "\<forall>e \<in> set cooling_models. hard_constraints sample_request 10 e"
  by (simp add: cooling_models_def sample_model_def hard_constraints_def sample_request_def
      request_defaults_def dec_order estimate_cost_value dec_or_def dval_Dec)

lemma cooling_models_cooling:
  "\<not> cooling_down cooling_models cooling_gateway 0" "cooling_down cooling_models cooling_gateway 1"
  "\<not> cooling_down cooling_models cooling_gateway 2"
  by (auto simp: cooling_down_def cooldown_at_def cooling_models_def sample_model_def
      gateway_init_def messaging_init_def messaging.defs numeral_2_eq_2 all_le_Suc)

theorem route_cheapest_admissible_witness:
  "\<exists>d t. select_route sample_tx cooling_models sample_request 10 cooling_gateway = (Inr d, t)
     \<and> rt_model_key d = ''recovered''"
proof -
  have n: "length cooling_models = 3" by (simp add: cooling_models_def)
  have hard: "hard_constraints sample_request 10 (cooling_models ! i)" if "i < 3" for i
    using cooling_models_constrained nth_mem [of i cooling_models] that n by auto
  have out: "rq_max_output_tokens sample_request = 128"
    by (simp add: sample_request_def request_defaults_def)
  have cost: "\<not> estimate_cost (cooling_models ! 0) 10 128 0 0 \<le> estimate_cost (cooling_models ! 2) 10 128 0 0"
    by (simp add: cooling_models_def sample_model_def dec_order estimate_cost_value dec_or_def dval_Dec)
  note main = route_cheapest_admissible [where tx = sample_tx and catalog = cooling_models
      and r = sample_request and tokens = 10 and s = cooling_gateway, unfolded n out]
  show ?thesis
  proof (cases "select_route sample_tx cooling_models sample_request 10 cooling_gateway")
    case (Pair x t)
    note main = main [unfolded Pair]
    show ?thesis
    proof (cases x)
      case (Inl e)
      with main hard [of 0] cooling_models_cooling(1) show ?thesis by auto
    next
      case (Inr d)
      then obtain i where i: "i < 3" "\<not> cooling_down cooling_models cooling_gateway i"
        "rt_model_key d = mdl_model_key (cooling_models ! i)"
        "rt_estimated_cost d = estimate_cost (cooling_models ! i) 10 128 0 0"
        using main by auto
      have "rt_estimated_cost d \<le> estimate_cost (cooling_models ! 2) 10 128 0 0"
        using main Inr hard [of 2] cooling_models_cooling(3) by auto
      then have "i \<noteq> 0" using cost i(4) by metis
      then have "i = 2" using i(1,2) cooling_models_cooling(2) by (metis One_nat_def less_2_cases numeral_3_eq_3 less_SucE numeral_2_eq_2)
      with i(3) Pair Inr show ?thesis by (simp add: cooling_models_def sample_model_def)
    qed
  qed
qed

theorem health_cooldown_window_witness:
  "\<exists>t. record_health_failure 30 ''small'' ''AI_PROVIDER_OVERLOADED''
         (gateway_init (messaging_init int show_nat) (Dec 100 0) None) = (Inr (), t)
     \<and> fst (health_state ''small'' t) = Inr ''cooldown''"
proof -
  let ?s = "gateway_init (messaging_init int show_nat) (Dec 100 0) None"
  obtain t where t: "record_health_failure 30 ''small'' ''AI_PROVIDER_OVERLOADED'' ?s = (Inr (), t)"
    "clock_feed t (clock_reads t) = 1" "clock_feed ?s (clock_reads ?s) = 0"
    by (simp add: record_health_failure_def health_codes_def effect_simps gateway_init_def
        messaging_init_def messaging.defs)
  have code: "''AI_PROVIDER_OVERLOADED'' \<in> health_codes" by (simp add: health_codes_def)
  from health_cooldown_window [OF t(1)] code t(2,3) have "fst (health_state ''small'' t) = Inr ''cooldown''"
    by simp
  with t(1) show ?thesis by blast
qed

end
