(* ===== verification/Gateway_Claims.thy ===== *)
theory Gateway_Claims
  imports Gateway_Store
begin

text \<open>
  The Gateway store under concurrent workers: \<open>store_step\<close> is one operation of any worker,
  a run is any interleaving of such steps. The facts that hold however the workers interleave:
  admission is decided once per idempotency key, fencing generations only grow, a fenced-out
  worker stays out, and a recorded provider effect never changes.
\<close>

section \<open>Interleavings\<close>

text \<open>
  What a worker may assign to the invocation it loaded: everything except the request, the
  identity, the acknowledgement, the owner and the generation. The assignments of owner and
  generation that follow a claim in the code repeat the values the claim has stored.
\<close>

definition worker_assignment :: "(GatewayInvocation \<Rightarrow> GatewayInvocation) \<Rightarrow> bool" where
  "worker_assignment f \<longleftrightarrow> (\<forall>v. inv_request (f v) = inv_request v
     \<and> inv_invocation_id (f v) = inv_invocation_id v
     \<and> inv_acknowledgement (f v) = inv_acknowledgement v
     \<and> inv_execution_owner (f v) = inv_execution_owner v
     \<and> inv_claim_generation (f v) = inv_claim_generation v)"

inductive store_step ::
  "text_services \<Rightarrow> 'z gateway_state_scheme \<Rightarrow> 'z gateway_state_scheme \<Rightarrow> bool" for tx where
  step_accept: "map_of (invocations s) i = None \<Longrightarrow>
     store_accept tx rq i ack now s = (r, t) \<Longrightarrow> store_step tx s t"
| step_claim: "claim_execution i owner now lease s = (c, t) \<Longrightarrow> store_step tx s t"
| step_release_claim: "release_execution i owner g s = (u, t) \<Longrightarrow> store_step tx s t"
| step_renew: "renew_execution i owner g now lease s = (b, t) \<Longrightarrow> store_step tx s t"
| step_checkpoint: "checkpoint i s = (u, t) \<Longrightarrow> store_step tx s t"
| step_intent: "checkpoint_terminal_intent i s = (u, t) \<Longrightarrow> store_step tx s t"
| step_work: "worker_assignment f \<Longrightarrow> modify_invocation i f s = (u, t) \<Longrightarrow> store_step tx s t"
| step_reserve: "reserve i tenant workspace amount now s = (v, t) \<Longrightarrow> store_step tx s t"
| step_reconcile: "reconcile i actual usage claim s = (u, t) \<Longrightarrow> store_step tx s t"
| step_expire: "release_expired now s = (is, t) \<Longrightarrow> store_step tx s t"
| step_release: "release_reservation i state s = (u, t) \<Longrightarrow> store_step tx s t"
| step_usage: "record_usage i usage cost k kind final claim s = (u, t) \<Longrightarrow> store_step tx s t"
| step_effect_reserve: "reserve_provider_effect i k owner g s = (u, t) \<Longrightarrow> store_step tx s t"
| step_effect: "record_provider_effect i k result claim s = (u, t) \<Longrightarrow> store_step tx s t"
| step_cache: "cache_content tenant workspace k value s = (u, t) \<Longrightarrow> store_step tx s t"
| step_invalidate: "invalidate_cache tenant workspace k' s = (n, t) \<Longrightarrow> store_step tx s t"
| step_attempt: "record_attempt i row s = (u, t) \<Longrightarrow> store_step tx s t"

inductive_cases store_stepE: "store_step tx s t"

abbreviation store_run :: "text_services \<Rightarrow> 'z gateway_state_scheme \<Rightarrow> 'z gateway_state_scheme \<Rightarrow> bool" where
  "store_run tx \<equiv> (store_step tx)\<^sup>*\<^sup>*"

section \<open>What single operations do to the invocations\<close>

lemma load_invocation_apply [effect_simps]:
  "load_invocation i s = (case map_of (invocations s) i of None \<Rightarrow> Inl (KeyError i) | Some v \<Rightarrow> Inr v, s)"
  by (simp add: load_invocation_def effect_simps split: option.splits)

lemma modify_invocation_apply [effect_simps]:
  "modify_invocation i f s = (case map_of (invocations s) i of
      None \<Rightarrow> (Inl (KeyError i), s)
    | Some v \<Rightarrow> (Inr (), s\<lparr>invocations := od_put i (f v) (invocations s)\<rparr>))"
  by (simp add: modify_invocation_def effect_simps split: option.splits)

lemma modify_reservation_apply [effect_simps]:
  "modify_reservation i f s = (case map_of (reservations s) i of
      None \<Rightarrow> (Inl (KeyError i), s)
    | Some r \<Rightarrow> (Inr (), s\<lparr>reservations := od_put i (f r) (reservations s)\<rparr>))"
  by (simp add: modify_reservation_def effect_simps split: option.splits)

lemma assert_execution_owner_apply [effect_simps]:
  "assert_execution_owner i owner g s =
     (case map_of (invocations s) i of
        None \<Rightarrow> Inl (KeyError i)
      | Some v \<Rightarrow> if owns_execution v owner g then Inr ()
                  else Inl (ExecutionOwnershipLost ''AI Gateway execution ownership was lost''), s)"
  by (simp add: assert_execution_owner_def effect_simps split: option.splits)

lemma fence_option_apply [effect_simps]:
  "fence_option i claim s = (case claim of
      None \<Rightarrow> Inr ()
    | Some (owner, g) \<Rightarrow> fst (assert_execution_owner i owner g s), s)"
  by (auto simp: fence_option_def effect_simps split: option.splits)

lemma fence_option_state: "fence_option i claim s = (fst (fence_option i claim s), s)"
  by (simp add: fence_option_apply)

lemmas store_splits = option.splits prod.splits sum.splits if_splits

lemma claim_execution_cases:
  assumes "claim_execution i owner now lease s = (c, t)"
  obtains (missing) "map_of (invocations s) i = None" "c = Inl (KeyError i)" "t = s"
    | (refused) v where "map_of (invocations s) i = Some v"
        "inv_terminal v \<noteq> None \<or> claim_refused v owner now" "c = Inr None" "t = s"
    | (claimed) v where "map_of (invocations s) i = Some v" "inv_terminal v = None"
        "\<not> claim_refused v owner now" "c = Inr (Some (inv_claim_generation v + 1))"
        "t = s\<lparr>invocations := od_put i (v\<lparr>inv_execution_owner := Some owner,
            inv_execution_lease_expires_at := Some (now + lease),
            inv_claim_generation := inv_claim_generation v + 1,
            inv_recovery_phase := ''claimed''\<rparr>) (invocations s)\<rparr>"
  using assms by (auto simp: claim_execution_def effect_simps split: store_splits)

text \<open>The order in which a stored invocation can develop.\<close>

definition inv_le :: "GatewayInvocation \<Rightarrow> GatewayInvocation \<Rightarrow> bool" where
  "inv_le v w \<longleftrightarrow> inv_request w = inv_request v \<and> inv_invocation_id w = inv_invocation_id v
     \<and> inv_acknowledgement w = inv_acknowledgement v
     \<and> (inv_claim_generation v < inv_claim_generation w
        \<or> inv_claim_generation v = inv_claim_generation w
          \<and> (inv_execution_owner w = inv_execution_owner v \<or> inv_execution_owner w = None))"

lemma inv_le_refl [simp]: "inv_le v v"
  by (simp add: inv_le_def)

lemma inv_le_trans: "inv_le u v \<Longrightarrow> inv_le v w \<Longrightarrow> inv_le u w"
  unfolding inv_le_def by auto

definition store_le :: "'z gateway_state_scheme \<Rightarrow> 'z gateway_state_scheme \<Rightarrow> bool" where
  "store_le s t \<longleftrightarrow>
     (\<forall>i v. map_of (invocations s) i = Some v \<longrightarrow> (\<exists>w. map_of (invocations t) i = Some w \<and> inv_le v w))
     \<and> (\<forall>k a. map_of (admission s) k = Some a \<longrightarrow> map_of (admission t) k = Some a)
     \<and> (\<forall>k e. map_of (provider_effects s) k = Some e \<longrightarrow> map_of (provider_effects t) k = Some e)"

lemma store_le_refl [simp]: "store_le s s"
  by (auto simp: store_le_def)

lemma store_le_trans: "store_le s t \<Longrightarrow> store_le t u \<Longrightarrow> store_le s u"
  unfolding store_le_def using inv_le_trans by meson

lemma store_le_frame:
  assumes "invocations t = invocations s" "admission t = admission s"
    "\<And>k e. map_of (provider_effects s) k = Some e \<Longrightarrow> map_of (provider_effects t) k = Some e"
  shows "store_le s t"
  using assms by (auto simp: store_le_def)

lemma store_le_put:
  assumes "map_of (invocations s) i = Some v" "inv_le v w"
  shows "store_le s (s\<lparr>invocations := od_put i w (invocations s)\<rparr>)"
  using assms by (auto simp: store_le_def)

lemma accept_le:
  assumes "map_of (invocations s) i = None" "store_accept tx rq i ack now s = (r, t)"
  shows "store_le s t"
proof (cases "map_of (admission s) (admission_key rq)")
  case None
  with assms have "t = s\<lparr>admission := od_put (admission_key rq) (i, request_digest tx rq) (admission s),
      invocations := od_put i (new_invocation rq i ack now) (invocations s),
      terminal_events := od_put i False (terminal_events s)\<rparr>"
    by (simp add: store_accept_def effect_simps)
  with assms(1) None show ?thesis by (auto simp: store_le_def)
next
  case (Some a)
  with assms(2) have "t = s"
    by (auto simp: store_accept_def effect_simps split: store_splits)
  then show ?thesis by simp
qed

lemma claim_le: "claim_execution i owner now lease s = (c, t) \<Longrightarrow> store_le s t"
  by (erule claim_execution_cases) (auto intro!: store_le_put simp: inv_le_def)

lemma claim_ops_le:
  "release_execution i owner g s = (u, t) \<Longrightarrow> store_le s t"
  "renew_execution i owner g now lease s = (b, t) \<Longrightarrow> store_le s t"
  "worker_assignment f \<Longrightarrow> modify_invocation i f s = (u, t) \<Longrightarrow> store_le s t"
  by (auto simp: release_execution_def renew_execution_def effect_simps owns_execution_def inv_le_def
      worker_assignment_def intro!: store_le_put split: store_splits)

lemma quiet_ops_le:
  "checkpoint i s = (u, t) \<Longrightarrow> store_le s t"
  "checkpoint_terminal_intent i s = (u, t) \<Longrightarrow> store_le s t"
  "reserve i tenant workspace amount now s = (v, t) \<Longrightarrow> store_le s t"
  "release_expired now s = (is, t) \<Longrightarrow> store_le s t"
  "release_reservation i state s = (u, t) \<Longrightarrow> store_le s t"
  "cache_content tenant workspace k value s = (u, t) \<Longrightarrow> store_le s t"
  "invalidate_cache tenant workspace k' s = (n, t) \<Longrightarrow> store_le s t"
  "record_attempt i row s = (u, t) \<Longrightarrow> store_le s t"
  by (auto simp: checkpoint_def checkpoint_terminal_intent_def reserve_def release_expired_def
      release_reservation_def cache_content_def invalidate_cache_def record_attempt_def effect_simps
      intro!: store_le_frame split: store_splits)

lemma fenced_ops_le:
  "reconcile i actual usage claim s = (u, t) \<Longrightarrow> store_le s t"
  "record_usage i usage cost k kind final claim s = (u, t) \<Longrightarrow> store_le s t"
  "reserve_provider_effect i k owner g s = (u, t) \<Longrightarrow> store_le s t"
  "record_provider_effect i k result claim s = (u, t) \<Longrightarrow> store_le s t"
  by (auto simp: reconcile_def record_usage_def reserve_provider_effect_def record_provider_effect_def
      effect_simps Let_def intro!: store_le_frame split: store_splits)

lemma store_step_le: "store_step tx s t \<Longrightarrow> store_le s t"
  by (erule store_stepE)
     (blast intro: accept_le claim_le claim_ops_le quiet_ops_le fenced_ops_le)+

interpretation gateway_order: ordered_steps "store_step tx" store_le for tx
  by unfold_locales (auto intro: store_le_trans store_step_le)

section \<open>Idempotent admission\<close>

lemma accept_registers:
  assumes "store_accept tx rq i ack now s = (Inr a, t)"
  shows "\<exists>v. map_of (admission t) (admission_key rq) = Some (acc_ai_invocation_id a, request_digest tx rq)
     \<and> map_of (invocations t) (acc_ai_invocation_id a) = Some v
     \<and> inv_acknowledgement v = acc_acknowledgement a"
  using assms by (auto simp: store_accept_def effect_simps new_invocation_def split: store_splits)

text \<open>One idempotency key admits one invocation: once a request was accepted, and after any
  interleaving of the workers, every further acceptance under the same tenant, workspace and
  idempotency key leaves the store as it is; it returns the first invocation and its
  acknowledgement as a replay when the request digest is the same and is refused as a conflict
  otherwise.\<close>

theorem admission_once:
  assumes "store_accept tx rq i ack now s = (Inr a, t)" and "store_run tx t u"
    and "admission_key rq' = admission_key rq"
  shows "store_accept tx rq' i' ack' now' u =
    (if request_digest tx rq' = request_digest tx rq
     then Inr \<lparr>acc_ai_invocation_id = acc_ai_invocation_id a,
               acc_acknowledgement = acc_acknowledgement a, acc_replay = True\<rparr>
     else Inl (ValueError ''IdempotencyKey payload conflict''), u)"
proof -
  obtain v where v: "map_of (admission t) (admission_key rq) = Some (acc_ai_invocation_id a, request_digest tx rq)"
    "map_of (invocations t) (acc_ai_invocation_id a) = Some v"
    "inv_acknowledgement v = acc_acknowledgement a"
    using accept_registers [OF assms(1)] by blast
  from gateway_order.run_le [OF assms(2)] v obtain w where
    "map_of (admission u) (admission_key rq) = Some (acc_ai_invocation_id a, request_digest tx rq)"
    "map_of (invocations u) (acc_ai_invocation_id a) = Some w" "inv_le v w"
    unfolding store_le_def by blast
  then show ?thesis
    using v(3) assms(3) by (simp add: store_accept_def effect_simps inv_le_def)
qed

section \<open>Fencing\<close>

lemma inv_le_fences:
  assumes "inv_le v w" "g \<le> inv_claim_generation v" "\<not> owns_execution v owner g"
  shows "g \<le> inv_claim_generation w" "\<not> owns_execution w owner g"
  using assms by (auto simp: inv_le_def owns_execution_def)

lemma fenced_out:
  assumes "store_run tx s t" "map_of (invocations s) i = Some v" "g \<le> inv_claim_generation v"
    "\<not> owns_execution v owner g"
  shows "assert_execution_owner i owner g t =
    (Inl (ExecutionOwnershipLost ''AI Gateway execution ownership was lost''), t)"
proof -
  from gateway_order.run_le [OF assms(1)] assms(2) obtain w where
    "map_of (invocations t) i = Some w" "inv_le v w"
    unfolding store_le_def by blast
  with inv_le_fences assms(3,4) show ?thesis by (simp add: effect_simps)
qed

text \<open>C26 (safety). Fencing: a claim hands its worker a generation under which it passes the fence; once
  another claim of the same invocation succeeded, however the workers interleaved in between and
  afterwards, the first worker is fenced out for good, and everything it still tries to write
  under its claim (reconciliation, usage, provider effects) raises and changes nothing.\<close>

theorem claim_fences_predecessor:
  assumes "claim_execution i owner now lease s = (Inr (Some g), s1)" and "store_run tx s1 s2"
    and "claim_execution i owner' now' lease' s2 = (Inr (Some g'), s3)" and "store_run tx s3 s4"
  shows "assert_execution_owner i owner g s1 = (Inr (), s1) \<and> g < g'
    \<and> assert_execution_owner i owner' g' s3 = (Inr (), s3)
    \<and> (let lost = Inl (ExecutionOwnershipLost ''AI Gateway execution ownership was lost'') in
         assert_execution_owner i owner g s4 = (lost, s4)
         \<and> reconcile i actual usage (Some (owner, g)) s4 = (lost, s4)
         \<and> record_usage i usage cost key kind final (Some (owner, g)) s4 = (lost, s4)
         \<and> reserve_provider_effect i key owner g s4 = (lost, s4)
         \<and> record_provider_effect i key result (Some (owner, g)) s4 = (lost, s4))"
proof -
  from assms(1) obtain v1 where v1: "map_of (invocations s1) i = Some v1" "owns_execution v1 owner g"
    by (rule claim_execution_cases) (auto simp: owns_execution_def)
  from gateway_order.run_le [OF assms(2)] v1 obtain v2 where
    v2: "map_of (invocations s2) i = Some v2" "inv_le v1 v2"
    unfolding store_le_def by blast
  from assms(3) obtain v3 where v3: "map_of (invocations s3) i = Some v3" "owns_execution v3 owner' g'"
      and g': "g' = inv_claim_generation v2 + 1"
    by (rule claim_execution_cases) (use v2(1) in \<open>auto simp: owns_execution_def\<close>)
  from v1(2) v2(2) g' have less: "g < g'" by (auto simp: inv_le_def owns_execution_def)
  then have "\<not> owns_execution v3 owner g" "g \<le> inv_claim_generation v3"
    using v3(2) by (auto simp: owns_execution_def)
  then have lost: "assert_execution_owner i owner g s4 =
      (Inl (ExecutionOwnershipLost ''AI Gateway execution ownership was lost''), s4)"
    using fenced_out [OF assms(4) v3(1)] by blast
  have fence: "fence_option i (Some (owner, g)) s4 =
      (Inl (ExecutionOwnershipLost ''AI Gateway execution ownership was lost''), s4)"
    using lost by (simp add: fence_option_def)
  show ?thesis
    using v1 v3 less lost fence
    by (simp add: reconcile_def record_usage_def reserve_provider_effect_def
        record_provider_effect_def Let_def bnd_def) (simp add: effect_simps)
qed

lemma lease_blocks:
  assumes "map_of (invocations s) i = Some v" "inv_execution_owner v = Some owner"
    "inv_execution_lease_expires_at v = Some e" "now < e" "owner' \<noteq> owner"
  shows "claim_execution i owner' now lease s = (Inr None, s)"
  using assms by (simp add: claim_execution_def effect_simps claim_refused_def)

text \<open>Within its lease a claim excludes everybody else: right after a claim, or after a
  successful renewal by the owner, no other worker can claim the invocation at any instant
  before the lease that was granted ends.\<close>

theorem lease_excludes_others:
  assumes "claim_execution i owner now lease s = (Inr (Some g), t)
       \<or> renew_execution i owner g now lease s = (Inr True, t)"
    and "owner' \<noteq> owner" and "later < now + lease"
  shows "claim_execution i owner' later lease' t = (Inr None, t)"
proof -
  from assms(1) obtain v where "map_of (invocations t) i = Some v"
    "inv_execution_owner v = Some owner" "inv_execution_lease_expires_at v = Some (now + lease)"
  proof
    assume "claim_execution i owner now lease s = (Inr (Some g), t)"
    then show thesis by (rule claim_execution_cases) (auto intro: that)
  next
    assume "renew_execution i owner g now lease s = (Inr True, t)"
    then show thesis
      by (auto simp: renew_execution_def effect_simps owns_execution_def intro: that
          split: store_splits)
  qed
  from lease_blocks [OF this] assms(2,3) show ?thesis by simp
qed

text \<open>A provider effect is recorded once: after the first recording of an effect key, no
  interleaving of the workers changes what is stored under it, so a restarted worker that loads
  it gets the first result, and recording another result is without effect.\<close>

theorem provider_effect_once:
  assumes "record_provider_effect i key result claim s = (Inr (), t)" and "store_run tx t u"
  shows "\<exists>first. load_provider_effect i key t = (Inr (Some first), t)
    \<and> load_provider_effect i key u = (Inr (Some first), u)
    \<and> (map_of (provider_effects s) (i, key) = None \<longrightarrow> first = result)
    \<and> (\<forall>other claim' r w. record_provider_effect i key other claim' u = (r, w) \<longrightarrow>
         load_provider_effect i key w = (Inr (Some first), w))"
proof -
  have "provider_effects t = od_setdefault (i, key) result (provider_effects s)"
    using assms(1) by (auto simp: record_provider_effect_def effect_simps split: store_splits)
  then obtain first where first: "map_of (provider_effects t) (i, key) = Some first"
    and new: "map_of (provider_effects s) (i, key) = None \<Longrightarrow> first = result"
    by (cases "map_of (provider_effects s) (i, key)") simp_all
  have u: "map_of (provider_effects u) (i, key) = Some first"
    using gateway_order.run_le [OF assms(2)] first unfolding store_le_def by blast
  have "map_of (provider_effects w) (i, key) = Some first"
    if "record_provider_effect i key other claim' u = (r, w)" for other claim' r w
    using fenced_ops_le(4) [OF that] u unfolding store_le_def by blast
  then show ?thesis using first new u by (simp add: load_provider_effect_def effect_simps)
qed

section \<open>A concrete interleaving\<close>

definition gateway_empty :: gateway_state where
  "gateway_empty = gateway_init (messaging_init int show_nat) (Dec 100 0) None"

definition gateway_accepted :: gateway_state where
  "gateway_accepted = snd (store_accept sample_tx sample_request ''ai1'' sample_ack 0 gateway_empty)"

lemma gateway_empty_fields [simp]:
  "invocations gateway_empty = []" "admission gateway_empty = []" "reservations gateway_empty = []"
  "provider_effects gateway_empty = []" "tenant_limit gateway_empty = Dec 100 0"
  "workspace_limit gateway_empty = Dec 100 0" "usage_events gateway_empty = []"
  "usage_ledger gateway_empty = []" "terminal_events gateway_empty = []"
  by (simp_all add: gateway_empty_def gateway_init_def messaging.defs dec_or_def)

lemma sample_accept:
  "store_accept sample_tx sample_request ''ai1'' sample_ack 0 gateway_empty =
     (Inr \<lparr>acc_ai_invocation_id = ''ai1'', acc_acknowledgement = sample_ack, acc_replay = False\<rparr>,
      gateway_accepted)"
  by (simp add: gateway_accepted_def store_accept_def effect_simps)

lemma gateway_accepted_invocation:
  "map_of (invocations gateway_accepted) ''ai1'' = Some (new_invocation sample_request ''ai1'' sample_ack 0)"
  by (simp add: gateway_accepted_def store_accept_def effect_simps)

lemma sample_claims:
  "\<exists>s1 s3. claim_execution ''ai1'' ''worker-a'' 0 10 gateway_accepted = (Inr (Some 1), s1)
     \<and> claim_execution ''ai1'' ''worker-b'' 20 10 s1 = (Inr (Some 2), s3)"
  by (simp add: claim_execution_def effect_simps gateway_accepted_invocation new_invocation_def claim_refused_def)

theorem admission_once_witness:
  "store_accept sample_tx sample_request ''ai2'' sample_ack 7 gateway_accepted =
     (Inr \<lparr>acc_ai_invocation_id = ''ai1'', acc_acknowledgement = sample_ack, acc_replay = True\<rparr>,
      gateway_accepted)"
  using admission_once [OF sample_accept rtranclp.rtrancl_refl refl] by simp

theorem claim_fences_predecessor_witness:
  "\<exists>s1 s3. claim_execution ''ai1'' ''worker-a'' 0 10 gateway_accepted = (Inr (Some 1), s1)
     \<and> claim_execution ''ai1'' ''worker-b'' 20 10 s1 = (Inr (Some 2), s3)
     \<and> fst (reconcile ''ai1'' 0 (usage_of 0 0) (Some (''worker-a'', 1)) s3) =
         Inl (ExecutionOwnershipLost ''AI Gateway execution ownership was lost'')"
proof -
  obtain s1 s3 where s: "claim_execution ''ai1'' ''worker-a'' 0 10 gateway_accepted = (Inr (Some 1), s1)"
    "claim_execution ''ai1'' ''worker-b'' 20 10 s1 = (Inr (Some 2), s3)"
    using sample_claims by blast
  from claim_fences_predecessor [OF s(1) rtranclp.rtrancl_refl s(2) rtranclp.rtrancl_refl] s
  show ?thesis by (simp add: Let_def)
qed

theorem lease_excludes_others_witness:
  "\<exists>t. claim_execution ''ai1'' ''worker-a'' 0 10 gateway_accepted = (Inr (Some 1), t)
     \<and> claim_execution ''ai1'' ''worker-b'' 9 10 t = (Inr None, t)"
proof -
  obtain t where t: "claim_execution ''ai1'' ''worker-a'' 0 10 gateway_accepted = (Inr (Some 1), t)"
    using sample_claims by blast
  from lease_excludes_others [OF disjI1 [OF t], of "''worker-b''" 9 10] t show ?thesis by simp
qed

theorem provider_effect_once_witness:
  "\<exists>t. record_provider_effect ''ai1'' ''e'' \<lparr>prv_content = ''ok'', prv_usage = None, prv_confidence = Dec 1 0\<rparr>
         None gateway_accepted = (Inr (), t)
     \<and> load_provider_effect ''ai1'' ''e'' t =
         (Inr (Some \<lparr>prv_content = ''ok'', prv_usage = None, prv_confidence = Dec 1 0\<rparr>), t)"
proof -
  let ?r = "\<lparr>prv_content = ''ok'', prv_usage = None, prv_confidence = Dec 1 0\<rparr>"
  obtain t where t: "record_provider_effect ''ai1'' ''e'' ?r None gateway_accepted = (Inr (), t)"
    by (simp add: record_provider_effect_def effect_simps)
  have "map_of (provider_effects gateway_accepted) (''ai1'', ''e'') = None"
    by (simp add: gateway_accepted_def store_accept_def effect_simps)
  with provider_effect_once [OF t rtranclp.rtrancl_refl] t show ?thesis by blast
qed

end
