(* ===== verification/Governance.thy ===== *)
theory Governance
  imports Effects
begin

text \<open>
  \<^verbatim>\<open>packages/workflow_engine/src/aieos/workflow_engine/governance.py\<close>: the canonical scale-6
  money amounts, the budget envelope a governed Workflow is started with, and the admission
  binding the Engine hands to the Gateway. Amounts are micro-USD integers inside the Engine and
  canonical decimal strings on the wire; the printer and the parser are inverse to each
  other.
\<close>

section \<open>Canonical amounts\<close>

text \<open>
  \<^verbatim>\<open>_AMOUNT\<close>: either \<open>0.\<close> and one to six digits ending in a non-zero one, or a whole part
  without leading zero, optionally followed by such a fraction. Fractions hold no dot, so
  splitting at the first dot decides the match.
\<close>

definition part_whole :: "string \<Rightarrow> string" where
  "part_whole s = takeWhile (\<lambda>c. c \<noteq> CHR ''.'') s"

definition part_dot :: "string \<Rightarrow> bool" where
  "part_dot s \<longleftrightarrow> dropWhile (\<lambda>c. c \<noteq> CHR ''.'') s \<noteq> []"

definition part_fraction :: "string \<Rightarrow> string" where
  "part_fraction s = tl (dropWhile (\<lambda>c. c \<noteq> CHR ''.'') s)"

definition whole_ok :: "string \<Rightarrow> bool" where
  "whole_ok w \<longleftrightarrow> w \<noteq> [] \<and> list_all is_digit w \<and> hd w \<noteq> CHR ''0''"

definition fraction_ok :: "string \<Rightarrow> bool" where
  "fraction_ok f \<longleftrightarrow> f \<noteq> [] \<and> length f \<le> 6 \<and> list_all is_digit f \<and> last f \<noteq> CHR ''0''"

definition AMOUNT :: "string \<Rightarrow> bool" where
  "AMOUNT s \<longleftrightarrow>
     (if part_dot s
      then (part_whole s = ''0'' \<or> whole_ok (part_whole s)) \<and> fraction_ok (part_fraction s)
      else whole_ok (part_whole s))"

definition fraction_field :: "string \<Rightarrow> string" where
  "fraction_field f = take 6 (f @ ''000000'')"

definition scale6 :: "string \<Rightarrow> exn + int" where
  "scale6 value =
     (if \<not> AMOUNT value
      then Inl (ValueError ''Amount must be a canonical positive scale-6 decimal'')
      else let whole = part_whole value; fraction = part_fraction value in
        if 18 < length whole + length fraction
        then Inl (ValueError ''Amount must contain at most 18 total digits'')
        else if part_dot value
          then Inr (int (int_of_digits whole) * 1000000
                    + int (int_of_digits (fraction_field fraction)))
          else Inr (int (int_of_digits whole) * 1000000))"

text \<open>The printer the Engine uses for committed, settled and remaining amounts.\<close>

definition micro_amount :: "int \<Rightarrow> string" where
  "micro_amount n =
     rstrip_by (\<lambda>c. c = CHR ''.'')
       (rstrip_by (\<lambda>c. c = CHR ''0'')
         (show_int (n div 1000000) @ ''.'' @ zero_pad 6 (show_nat (nat (n mod 1000000)))))"

lemma digit_not_dot: "list_all is_digit s \<Longrightarrow> c \<in> set s \<Longrightarrow> c \<noteq> CHR ''.''"
  by (auto simp: list_all_iff is_digit_def)

lemma part_no_dot:
  "(\<And>c. c \<in> set s \<Longrightarrow> c \<noteq> CHR ''.'') \<Longrightarrow>
   part_whole s = s \<and> \<not> part_dot s \<and> part_fraction s = []"
  by (simp add: part_whole_def part_dot_def part_fraction_def takeWhile_eq_all_conv
      dropWhile_eq_Nil_conv [THEN iffD2])

lemma part_with_dot:
  "(\<And>c. c \<in> set w \<Longrightarrow> c \<noteq> CHR ''.'') \<Longrightarrow>
   part_whole (w @ ''.'' @ f) = w \<and> part_dot (w @ ''.'' @ f) \<and> part_fraction (w @ ''.'' @ f) = f"
  by (simp add: part_whole_def part_dot_def part_fraction_def takeWhile_append2 dropWhile_append2)

lemma part_decompose: "s = (if part_dot s then part_whole s @ ''.'' @ part_fraction s else part_whole s)"
proof (cases "part_dot s")
  case True
  then obtain c cs where d: "dropWhile (\<lambda>c. c \<noteq> CHR ''.'') s = c # cs"
    unfolding part_dot_def by (cases "dropWhile (\<lambda>c. c \<noteq> CHR ''.'') s") simp_all
  then have "c = CHR ''.''" by (simp add: dropWhile_eq_Cons_conv)
  moreover have "s = part_whole s @ dropWhile (\<lambda>c. c \<noteq> CHR ''.'') s"
    unfolding part_whole_def by (rule takeWhile_dropWhile_id [symmetric])
  ultimately show ?thesis using d True by (simp add: part_fraction_def)
next
  case False
  have "s = part_whole s @ dropWhile (\<lambda>c. c \<noteq> CHR ''.'') s"
    unfolding part_whole_def by (rule takeWhile_dropWhile_id [symmetric])
  moreover have "dropWhile (\<lambda>c. c \<noteq> CHR ''.'') s = []" using False unfolding part_dot_def by blast
  ultimately have "s = part_whole s" by (metis append_Nil2)
  with False show ?thesis by simp
qed

text \<open>The six-digit fraction field and its shortest form determine each other.\<close>

lemma int_of_digits_inj:
  "list_all is_digit s \<Longrightarrow> list_all is_digit t \<Longrightarrow> length s = length t \<Longrightarrow>
   int_of_digits s = int_of_digits t \<Longrightarrow> s = t"
proof (induction s arbitrary: t rule: rev_induct)
  case (snoc c s)
  then obtain d u where t: "t = u @ [d]" by (cases t rule: rev_cases) auto
  with snoc.prems have lt: "digit_val c < 10" "digit_val d < 10" by (auto intro: digit_val_less)
  from snoc.prems t have "10 * int_of_digits s + digit_val c = 10 * int_of_digits u + digit_val d"
    by simp
  with lt have eq: "int_of_digits s = int_of_digits u" "digit_val c = digit_val d"
    by presburger+
  with snoc t have "s = u" by simp
  moreover from eq snoc.prems t have "c = d" by (simp add: digit_val_inj)
  ultimately show ?case using t by simp
qed simp

lemma fraction_field_eq:
  "length f \<le> 6 \<Longrightarrow> fraction_field f = f @ replicate (6 - length f) (CHR ''0'')"
proof -
  have "''000000'' = replicate 6 (CHR ''0'')" by (simp add: numeral_eq_Suc)
  then show "length f \<le> 6 \<Longrightarrow> ?thesis" by (simp add: fraction_field_def)
qed

lemma fraction_field_strip:
  "fraction_ok f \<Longrightarrow> rstrip_by (\<lambda>c. c = CHR ''0'') (fraction_field f) = f"
  by (simp add: fraction_field_eq fraction_ok_def, subst rstrip_by_append_all)
     (auto intro: rstrip_by_last)

lemma fraction_field_props:
  assumes "length f \<le> 6" "list_all is_digit f"
  shows "length (fraction_field f) = 6" "list_all is_digit (fraction_field f)"
  using assms by (auto simp: fraction_field_eq list_all_iff digit_val_zero)

lemma pad6_int_of_digits:
  assumes "length s = 6" "list_all is_digit s"
  shows "zero_pad 6 (show_nat (int_of_digits s)) = s"
proof (rule int_of_digits_inj)
  have "int_of_digits s < 10 ^ 6" using assms int_of_digits_less by fastforce
  then show "length (zero_pad 6 (show_nat (int_of_digits s))) = length s"
    using assms by (simp add: zero_pad_props show_nat_length)
qed (simp_all add: assms zero_pad_props show_nat_digits)

lemma fraction_of_value:
  assumes "0 < v" "v < 1000000"
  defines "f \<equiv> rstrip_by (\<lambda>c. c = CHR ''0'') (zero_pad 6 (show_nat v))"
  shows "fraction_ok f" "fraction_field f = zero_pad 6 (show_nat v)"
proof -
  let ?z = "zero_pad 6 (show_nat v)"
  have len: "length ?z = 6" using assms by (simp add: zero_pad_props show_nat_length)
  have dig: "list_all is_digit ?z" by (simp add: zero_pad_props show_nat_digits)
  obtain n where f: "f = take n ?z" and rest: "\<forall>c \<in> set (drop n ?z). c = CHR ''0''"
    using rstrip_by_take [of "\<lambda>c. c = CHR ''0''" ?z] unfolding f_def by blast
  have "length (drop n ?z) = 6 - length f" using f len by (simp add: min_def)
  then have z: "drop n ?z = replicate (6 - length f) (CHR ''0'')"
    using rest by (intro replicate_eqI) simp_all
  have le: "length f \<le> 6" using f len by simp
  have "f @ replicate (6 - length f) (CHR ''0'') = ?z"
    using append_take_drop_id [of n ?z] f z by simp
  note whole = this
  then show "fraction_field f = ?z" using le by (simp add: fraction_field_eq)
  have "f \<noteq> []"
  proof
    assume "f = []"
    with whole have "?z = replicate 6 (CHR ''0'')" by simp
    then have "int_of_digits ?z = 0" by (simp add: int_of_digits_replicate)
    with assms show False by (simp add: zero_pad_props)
  qed
  moreover have "last f \<noteq> CHR ''0''"
    using rstrip_by_result [of "\<lambda>c. c = CHR ''0''" ?z] \<open>f \<noteq> []\<close> unfolding f_def by auto
  moreover have "list_all is_digit f" using dig f by (auto simp: list_all_iff dest: in_set_takeD)
  ultimately show "fraction_ok f" using le by (simp add: fraction_ok_def)
qed

text \<open>The printed form, split by whether there is a fraction.\<close>

lemma micro_amount_parts:
  assumes "0 \<le> w" "v < 1000000"
  shows "micro_amount (w * 1000000 + int v) =
    rstrip_by (\<lambda>c. c = CHR ''.'') (rstrip_by (\<lambda>c. c = CHR ''0'')
      ((show_nat (nat w) @ ''.'') @ zero_pad 6 (show_nat v)))"
proof -
  have "(w * 1000000 + int v) div 1000000 = w" "nat ((w * 1000000 + int v) mod 1000000) = v"
    using assms by auto
  then show ?thesis
    using assms(1) unfolding micro_amount_def show_int_def by simp
qed

lemma micro_amount_whole:
  assumes "0 \<le> w"
  shows "micro_amount (w * 1000000) = show_nat (nat w)"
proof -
  have 0: "zero_pad 6 (show_nat 0) = replicate 6 (CHR ''0'')"
    by (simp add: zero_pad_def show_nat_0 numeral_eq_Suc)
  have d: "last (show_nat (nat w)) \<noteq> CHR ''.''"
    using digit_not_dot [OF show_nat_digits last_in_set] by simp
  have "micro_amount (w * 1000000) =
      rstrip_by (\<lambda>c. c = CHR ''.'') (rstrip_by (\<lambda>c. c = CHR ''0'')
        ((show_nat (nat w) @ ''.'') @ replicate 6 (CHR ''0'')))"
    using micro_amount_parts [OF assms, of 0] by (simp only: 0 of_nat_0 add_0_right)
  also have "\<dots> = rstrip_by (\<lambda>c. c = CHR ''.'') (show_nat (nat w) @ ''.'')"
    by (subst rstrip_by_append_all) (simp_all add: rstrip_by_last)
  also have "\<dots> = show_nat (nat w)"
    using d by (subst rstrip_by_append_all) (simp_all add: rstrip_by_last)
  finally show ?thesis .
qed

lemma micro_amount_fraction:
  assumes "0 \<le> w" "0 < v" "v < 1000000"
  defines "f \<equiv> rstrip_by (\<lambda>c. c = CHR ''0'') (zero_pad 6 (show_nat v))"
  shows "micro_amount (w * 1000000 + int v) = show_nat (nat w) @ ''.'' @ f"
proof -
  have f: "fraction_ok f" using fraction_of_value(1) [OF assms(2,3)] by (simp add: f_def)
  then have last: "f \<noteq> []" "last f \<noteq> CHR ''.''"
    using digit_not_dot [of f "last f"] by (auto simp: fraction_ok_def)
  have "rstrip_by (\<lambda>c. c = CHR ''0'') ((show_nat (nat w) @ ''.'') @ zero_pad 6 (show_nat v))
      = (show_nat (nat w) @ ''.'') @ f"
    unfolding f_def by (rule rstrip_by_append_keep) (use last f_def in simp)
  then show ?thesis
    using last by (simp add: micro_amount_parts [OF assms(1,3)] rstrip_by_last)
qed

lemma show_nat_whole_ok: "n \<noteq> 0 \<Longrightarrow> whole_ok (show_nat n)"
  by (simp add: whole_ok_def show_nat_digits show_nat_hd)

lemma micro_split:
  assumes "0 < n"
  obtains w v where "n = w * 1000000 + int v" "0 \<le> w" "v < 1000000"
    "w = n div 1000000" "v = nat (n mod 1000000)"
  using assms by (auto simp: nat_less_iff)

definition digit_count :: "int \<Rightarrow> nat" where
  "digit_count n = length (part_whole (micro_amount n)) + length (part_fraction (micro_amount n))"

lemma AMOUNT_no_dot: "AMOUNT s \<Longrightarrow> \<not> part_dot s \<Longrightarrow> whole_ok s \<and> part_whole s = s"
  using part_decompose [of s] by (auto simp: AMOUNT_def)

lemma fraction_value:
  assumes "fraction_ok f"
  shows "0 < int_of_digits (fraction_field f)" "int_of_digits (fraction_field f) < 1000000"
proof -
  have f: "length f \<le> 6" "list_all is_digit f" using assms by (auto simp: fraction_ok_def)
  note p = fraction_field_props [OF f]
  show "int_of_digits (fraction_field f) < 1000000" using int_of_digits_less [OF p(2)] p(1) by simp
  show "0 < int_of_digits (fraction_field f)"
  proof (rule ccontr)
    assume "\<not> 0 < int_of_digits (fraction_field f)"
    then have "int_of_digits (fraction_field f) = int_of_digits (replicate 6 (CHR ''0''))"
      by (simp add: int_of_digits_replicate)
    then have "fraction_field f = replicate 6 (CHR ''0'')"
      using p by (intro int_of_digits_inj) (simp_all add: list_all_iff digit_val_zero)
    then have "rstrip_by (\<lambda>c. c = CHR ''0'') (fraction_field f) = []"
      using rstrip_by_append_all [of "replicate 6 (CHR ''0'')" "\<lambda>c. c = CHR ''0''" "[]"]
      by (simp add: rstrip_by_def)
    with fraction_field_strip [OF assms] assms show False by (simp add: fraction_ok_def)
  qed
qed

lemma int_of_zero: "int_of_digits ''0'' = 0"
  by (simp add: int_of_digits_def digit_val_zero)

lemma whole_value_pos: "whole_ok w \<Longrightarrow> 0 < int_of_digits w"
  by (metis gr0I list.sel(1) show_nat_0 show_nat_int_of whole_ok_def)

text \<open>The value of an accepted amount, and the amount that prints to it.\<close>

lemma scale6_cases:
  assumes "scale6 s = Inr n"
  obtains (whole) "whole_ok s" "length s \<le> 18" "n = int (int_of_digits s) * 1000000"
  | (fraction) w f where "s = w @ ''.'' @ f" "w = ''0'' \<or> whole_ok w" "fraction_ok f"
      "length w + length f \<le> 18"
      "n = int (int_of_digits w) * 1000000 + int (int_of_digits (fraction_field f))"
proof (cases "part_dot s")
  case True
  with assms have "s = part_whole s @ ''.'' @ part_fraction s"
    using part_decompose [of s] by simp
  with True assms show ?thesis
    by (intro fraction [of "part_whole s" "part_fraction s"])
       (auto simp: scale6_def AMOUNT_def Let_def split: if_splits)
next
  case False
  with assms show ?thesis
    using AMOUNT_no_dot [of s]
    by (intro whole) (auto simp: scale6_def Let_def split: if_splits)
qed

lemma scale6_pos: "scale6 s = Inr n \<Longrightarrow> 0 < n"
proof (erule scale6_cases)
  assume "whole_ok s" "n = int (int_of_digits s) * 1000000"
  then show "0 < n" using whole_value_pos [of s] by simp
next
  fix w f
  assume "fraction_ok f"
    "n = int (int_of_digits w) * 1000000 + int (int_of_digits (fraction_field f))"
  then show "0 < n" using fraction_value(1) [of f] by simp
qed

section \<open>Envelope and admission binding\<close>

definition opaque_id :: "string \<Rightarrow> bool" where
  "opaque_id s \<longleftrightarrow> 1 \<le> length s \<and> length s \<le> 256
     \<and> list_all (\<lambda>c. 33 \<le> (of_char c :: nat) \<and> (of_char c :: nat) \<le> 126) s"

definition require_opaque_id :: "pyval \<Rightarrow> string \<Rightarrow> exn + string" where
  "require_opaque_id value field =
     (case as_str value of
        None \<Rightarrow> Inl (ValueError (field @ '' must be a printable opaque identifier''))
      | Some s \<Rightarrow> if opaque_id s then Inr s
                  else Inl (ValueError (field @ '' must be a printable opaque identifier'')))"

record WorkflowAIBudgetEnvelope =
  env_definition_version_id :: string
  env_policy_id :: string
  env_policy_version_id :: string
  env_tenant_id :: string
  env_workspace_id :: string
  env_ceiling_microusd :: int

definition envelope_keys :: "string list" where
  "envelope_keys =
     [''ContractVersion'', ''GatewayNormalizedCostUnitRegistryVersion'',
      ''WorkflowDefinitionVersionId'', ''PolicyId'', ''PolicyVersionId'', ''TenantId'',
      ''WorkspaceId'', ''BudgetCeiling'']"

definition envelope_parse :: "pydict \<Rightarrow> exn + WorkflowAIBudgetEnvelope" where
  "envelope_parse value =
     ebind (require (keys_are value envelope_keys
              \<and> py_eq (pget value ''ContractVersion'') (PInt 1)
              \<and> py_eq (pget value ''GatewayNormalizedCostUnitRegistryVersion'') (PInt 1))
            (ValueError ''unsupported WorkflowAIBudgetEnvelope'')) (\<lambda>_.
     case as_map (pget value ''BudgetCeiling'') of
       None \<Rightarrow> Inl (ValueError ''unknown normalized cost unit'')
     | Some budget \<Rightarrow>
       ebind (require (keys_are budget [''Amount'', ''CurrencyOrReferenceUnit'']
                \<and> py_eq (pget budget ''CurrencyOrReferenceUnit'') (PStr ''USD''))
              (ValueError ''unknown normalized cost unit'')) (\<lambda>_.
       case as_str (pget budget ''Amount'') of
         None \<Rightarrow> Inl (ValueError ''BudgetCeiling.Amount must be a string'')
       | Some amount \<Rightarrow>
         ebind (require_opaque_id (pget value ''WorkflowDefinitionVersionId'')
                  ''WorkflowDefinitionVersionId'') (\<lambda>d.
         ebind (require_opaque_id (pget value ''PolicyId'') ''PolicyId'') (\<lambda>p.
         ebind (require_opaque_id (pget value ''PolicyVersionId'') ''PolicyVersionId'') (\<lambda>pv.
         ebind (require_opaque_id (pget value ''TenantId'') ''TenantId'') (\<lambda>t.
         ebind (require_opaque_id (pget value ''WorkspaceId'') ''WorkspaceId'') (\<lambda>w.
         ebind (scale6 amount) (\<lambda>c.
           Inr \<lparr>env_definition_version_id = d, env_policy_id = p, env_policy_version_id = pv,
                env_tenant_id = t, env_workspace_id = w, env_ceiling_microusd = c\<rparr>))))))))"

definition capability_binding :: "string \<Rightarrow> string \<Rightarrow> string \<Rightarrow> pyval" where
  "capability_binding skill_version_id capability_id contract_version_id =
     PDict [(''SkillVersionId'', PStr skill_version_id),
            (''CapabilityId'', PStr capability_id),
            (''CapabilityContractVersionId'', PStr contract_version_id)]"

definition gateway_idempotency_key :: "string \<Rightarrow> string \<Rightarrow> string \<Rightarrow> string \<Rightarrow> string" where
  "gateway_idempotency_key workflow_id step_id command_id execution_id =
     workflow_id @ '':'' @ step_id @ '':'' @ command_id @ '':'' @ execution_id"

definition admission_binding ::
  "WorkflowAIBudgetEnvelope \<Rightarrow> ident \<Rightarrow> ident \<Rightarrow> ident \<Rightarrow> ident \<Rightarrow> string \<Rightarrow> string \<Rightarrow> string
   \<Rightarrow> int \<Rightarrow> int \<Rightarrow> exn + pydict" where
  "admission_binding envelope workflow_id workflow_step_id command_id execution_id
     skill_version_id capability_id contract_version_id state_version committed_microusd =
     (if committed_microusd \<le> 0 then Inl (ValueError ''committed exposure must be positive'')
      else Inr
        [(''BindingContractVersion'', PInt 1),
         (''TenantId'', PStr (env_tenant_id envelope)),
         (''WorkspaceId'', PStr (env_workspace_id envelope)),
         (''WorkflowId'', PStr workflow_id),
         (''WorkflowStepId'', PStr workflow_step_id),
         (''CommandId'', PStr command_id),
         (''ExecutionId'', PStr execution_id),
         (''WorkflowDefinitionVersionId'', PStr (env_definition_version_id envelope)),
         (''PolicyId'', PStr (env_policy_id envelope)),
         (''PolicyVersionId'', PStr (env_policy_version_id envelope)),
         (''WorkflowAdmissionStateVersion'', PInt state_version),
         (''GatewayIdempotencyKey'',
            PStr (gateway_idempotency_key workflow_id workflow_step_id command_id execution_id)),
         (''CommittedExposure'',
            PDict [(''Amount'', PStr (micro_amount committed_microusd)),
                   (''CurrencyOrReferenceUnit'', PStr ''USD'')]),
         (''CapabilityBinding'',
            capability_binding skill_version_id capability_id contract_version_id)])"

definition validate_binding ::
  "pydict \<Rightarrow> ident \<Rightarrow> ident \<Rightarrow> ident \<Rightarrow> ident \<Rightarrow> string \<Rightarrow> string \<Rightarrow> ident \<Rightarrow> ident \<Rightarrow> ident
   \<Rightarrow> exn + unit" where
  "validate_binding value workflow_id workflow_step_id command_id execution_id tenant_id
     workspace_id skill_version_id capability_id contract_version_id =
     ebind (require (py_eq (pget value ''BindingContractVersion'') (PInt 1)
              \<and> py_eq (pget value ''WorkflowId'') (PStr workflow_id)
              \<and> py_eq (pget value ''WorkflowStepId'') (PStr workflow_step_id)
              \<and> py_eq (pget value ''CommandId'') (PStr command_id)
              \<and> py_eq (pget value ''ExecutionId'') (PStr execution_id)
              \<and> py_eq (pget value ''TenantId'') (PStr tenant_id)
              \<and> py_eq (pget value ''WorkspaceId'') (PStr workspace_id))
            (ValueError ''workflow AI admission binding lineage mismatch'')) (\<lambda>_.
     case (as_map (pget value ''CapabilityBinding''), as_map (pget value ''CommittedExposure'')) of
       (Some capability, Some committed) \<Rightarrow>
         (case as_str (pget committed ''Amount'') of
            None \<Rightarrow> Inl (ValueError ''workflow AI admission binding capability mismatch'')
          | Some amount \<Rightarrow>
            ebind (require (py_eq (PDict capability)
                     (capability_binding skill_version_id capability_id contract_version_id)
                     \<and> py_eq (pget committed ''CurrencyOrReferenceUnit'') (PStr ''USD''))
                   (ValueError ''workflow AI admission binding capability mismatch'')) (\<lambda>_.
            ebind (scale6 amount) (\<lambda>_. Inr ())))
     | _ \<Rightarrow> Inl (ValueError ''workflow AI admission binding capability mismatch''))"

lemma capability_binding_wf [simp]: "py_wf (capability_binding s c v)"
  by (simp add: capability_binding_def)

lemma binding_fields:
  assumes "admission_binding env w st cid x sv c ccv n k = Inr b"
  shows "0 < k"
    "pget b ''BindingContractVersion'' = PInt 1"
    "pget b ''TenantId'' = PStr (env_tenant_id env)"
    "pget b ''WorkspaceId'' = PStr (env_workspace_id env)"
    "pget b ''WorkflowId'' = PStr w" "pget b ''WorkflowStepId'' = PStr st"
    "pget b ''CommandId'' = PStr cid" "pget b ''ExecutionId'' = PStr x"
    "pget b ''WorkflowDefinitionVersionId'' = PStr (env_definition_version_id env)"
    "pget b ''PolicyId'' = PStr (env_policy_id env)"
    "pget b ''PolicyVersionId'' = PStr (env_policy_version_id env)"
    "pget b ''WorkflowAdmissionStateVersion'' = PInt n"
    "pget b ''GatewayIdempotencyKey'' = PStr (gateway_idempotency_key w st cid x)"
    "pget b ''CommittedExposure'' =
       PDict [(''Amount'', PStr (micro_amount k)), (''CurrencyOrReferenceUnit'', PStr ''USD'')]"
    "pget b ''CapabilityBinding'' = capability_binding sv c ccv"
    "py_wf (PDict b)"
    "set (map fst b) = {''BindingContractVersion'', ''TenantId'', ''WorkspaceId'', ''WorkflowId'',
       ''WorkflowStepId'', ''CommandId'', ''ExecutionId'', ''WorkflowDefinitionVersionId'',
       ''PolicyId'', ''PolicyVersionId'', ''WorkflowAdmissionStateVersion'',
       ''GatewayIdempotencyKey'', ''CommittedExposure'', ''CapabilityBinding''}"
  using assms by (auto simp: admission_binding_def split: if_splits)

lemma envelope_parse_ceiling: "envelope_parse v = Inr env \<Longrightarrow> 0 < env_ceiling_microusd env"
  by (auto simp: envelope_parse_def split: option.splits dest: scale6_pos)

lemma scale6_micro_amount:
  assumes "0 < n" "digit_count n \<le> 18"
  shows "scale6 (micro_amount n) = Inr n"
proof -
  obtain w v where n: "n = w * 1000000 + int v" and w: "0 \<le> w" and v: "v < 1000000"
    using micro_split [OF assms(1)] by metis
  show ?thesis
  proof (cases "v = 0")
    case True
    with assms n w have s: "micro_amount n = show_nat (nat w)" and "nat w \<noteq> 0"
      using micro_amount_whole by auto
    then show ?thesis
      using assms(2) part_no_dot [of "show_nat (nat w)"] digit_not_dot [OF show_nat_digits, of _ "nat w"]
        True n w show_nat_whole_ok
      by (simp add: scale6_def AMOUNT_def digit_count_def Let_def)
  next
    case False
    define f where "f = rstrip_by (\<lambda>c. c = CHR ''0'') (zero_pad 6 (show_nat v))"
    have s: "micro_amount n = show_nat (nat w) @ ''.'' @ f"
      using micro_amount_fraction [OF w _ v] False n by (simp add: f_def)
    have f: "fraction_ok f" "int_of_digits (fraction_field f) = v"
      using fraction_of_value [of v] False v by (simp_all add: f_def zero_pad_props)
    have parts: "part_whole (micro_amount n) = show_nat (nat w)" "part_dot (micro_amount n)"
        "part_fraction (micro_amount n) = f"
      using part_with_dot [of "show_nat (nat w)" f] digit_not_dot [OF show_nat_digits, of _ "nat w"]
      by (simp_all add: s)
    have "show_nat (nat w) = ''0'' \<or> whole_ok (show_nat (nat w))"
      by (cases "nat w = 0") (simp_all add: show_nat_whole_ok show_nat_0)
    with f have "AMOUNT (micro_amount n)" by (simp add: AMOUNT_def parts)
    then have "scale6 (micro_amount n) =
        Inr (int (int_of_digits (show_nat (nat w))) * 1000000 + int (int_of_digits (fraction_field f)))"
      using assms(2) parts(2) by (simp add: scale6_def digit_count_def Let_def parts)
    then show ?thesis using f n w by simp
  qed
qed

lemma micro_amount_scale6:
  assumes "scale6 s = Inr n"
  shows "micro_amount n = s"
  using assms
proof (cases rule: scale6_cases)
  case whole
  then show ?thesis
    by (simp add: micro_amount_whole show_nat_int_of whole_ok_def)
next
  case (fraction w f)
  have v: "0 < int_of_digits (fraction_field f)" "int_of_digits (fraction_field f) < 1000000"
    using fraction fraction_value by auto
  have "zero_pad 6 (show_nat (int_of_digits (fraction_field f))) = fraction_field f"
    using fraction by (intro pad6_int_of_digits) (auto simp: fraction_ok_def fraction_field_props)
  moreover have "show_nat (int_of_digits w) = w"
    using fraction(2) by (auto simp: show_nat_int_of whole_ok_def int_of_zero show_nat_0)
  ultimately show ?thesis
    using fraction micro_amount_fraction [OF _ v, of "int (int_of_digits w)"]
    by (simp add: fraction_field_strip)
qed

lemma scale6_digit_count: "scale6 s = Inr n \<Longrightarrow> digit_count n \<le> 18"
  using micro_amount_scale6 [of s n]
  by (auto simp: digit_count_def scale6_def Let_def split: if_splits)

text \<open>
  C37 (roundtrip). \<open>scale6\<close> and the Engine's amount printer are inverse to each other: a string is
  accepted with value \<open>n\<close> exactly when \<open>n\<close> is positive, has at most 18 printed digits and the
  string is the printed form of \<open>n\<close>. So no amount is rounded on its way through a binding, zero
  and negative amounts are refused, and two different accepted strings never denote the same
  amount (comparing bindings as dictionaries compares the money in them).
\<close>

theorem scale6_iff:
  "scale6 s = Inr n \<longleftrightarrow> 0 < n \<and> digit_count n \<le> 18 \<and> s = micro_amount n"
  using scale6_pos scale6_digit_count micro_amount_scale6 scale6_micro_amount by blast

text \<open>
  A binding the Engine produces for a step passes the contract validator for
  exactly that step: with the ids it was made for and the envelope's scope, every committed
  exposure of at most 18 digits is accepted.
\<close>

theorem admission_binding_validates:
  assumes "admission_binding env w st cid x sv c ccv n k = Inr b" "digit_count k \<le> 18"
  shows "validate_binding b w st cid x (env_tenant_id env) (env_workspace_id env) sv c ccv = Inr ()"
proof -
  note f = binding_fields [OF assms(1)]
  have "scale6 (micro_amount k) = Inr k" by (rule scale6_micro_amount) (use f(1) assms(2) in simp_all)
  moreover obtain d where "capability_binding sv c ccv = PDict d" by (simp add: capability_binding_def)
  moreover from this have "py_eq (PDict d) (PDict d)" by (metis capability_binding_wf py_eq_refl)
  ultimately show ?thesis
    by (simp add: validate_binding_def f require_def py_num_def)
qed

theorem admission_binding_validates_witness:
  "\<exists>b. validate_binding b ''wf'' ''st'' ''cmd'' ''ex'' ''t'' ''w'' ''sk'' ''cap'' ''1'' = Inr ()"
proof -
  let ?env = "\<lparr>env_definition_version_id = ''d'', env_policy_id = ''p'', env_policy_version_id = ''pv'',
     env_tenant_id = ''t'', env_workspace_id = ''w'', env_ceiling_microusd = 10000\<rparr>"
  obtain b where b: "admission_binding ?env ''wf'' ''st'' ''cmd'' ''ex'' ''sk'' ''cap'' ''1'' 1 10000 = Inr b"
    by (simp add: admission_binding_def)
  have "digit_count 10000 \<le> 18"
    by (simp add: digit_count_def micro_amount_def show_nat_rec show_int_def zero_pad_def
        rstrip_by_def digit_char_def part_whole_def part_fraction_def)
  from admission_binding_validates [OF b this] show ?thesis by auto
qed

end
