(* ===== verification/Gateway_Admission.thy ===== *)
theory Gateway_Admission
  imports Gateway_Routing Gateway_Claims Governance
begin

text \<open>
  Admission at the Gateway boundary (\<^verbatim>\<open>_preflight\<close>, \<^verbatim>\<open>_validate_workflow_admission\<close> and
  \<^verbatim>\<open>accept\<close> of \<^verbatim>\<open>ReferenceAIGateway\<close>). The \<^verbatim>\<open>WorkflowAdmissionAuthority\<close> protocol is a
  record of two queries; the locale \<open>admission_authority\<close> states what the Gateway relies on.
\<close>

record 's authority =
  authoritative_ai_admission :: "string \<Rightarrow> string \<Rightarrow> string \<Rightarrow> ('s, pydict option) eff"
  owns_ai_dispatch :: "string option \<Rightarrow> string \<Rightarrow> string \<Rightarrow> ('s, bool) eff"

section \<open>Workflow admission bindings\<close>

definition binding_keys :: "string list" where
  "binding_keys =
     [''BindingContractVersion'', ''TenantId'', ''WorkspaceId'', ''WorkflowId'', ''WorkflowStepId'',
      ''CommandId'', ''ExecutionId'', ''WorkflowDefinitionVersionId'', ''PolicyId'',
      ''PolicyVersionId'', ''WorkflowAdmissionStateVersion'', ''GatewayIdempotencyKey'',
      ''CommittedExposure'', ''CapabilityBinding'']"

definition positive_version :: "pyval \<Rightarrow> bool" where
  "positive_version v \<longleftrightarrow> (case as_int v of None \<Rightarrow> False | Some n \<Rightarrow> 1 \<le> n)"

definition binding_matches :: "AIInvocationRequest \<Rightarrow> pydict \<Rightarrow> pydict \<Rightarrow> pydict \<Rightarrow> bool" where
  "binding_matches r b capability exposure \<longleftrightarrow>
     py_eq (pget b ''BindingContractVersion'') (PInt 1)
     \<and> py_eq (pget b ''TenantId'') (PStr (rq_tenant_id r))
     \<and> py_eq (pget b ''WorkspaceId'') (PStr (rq_workspace_id r))
     \<and> py_eq (pget b ''WorkflowId'') (opt_str (rq_workflow_id r))
     \<and> py_eq (pget b ''WorkflowStepId'') (opt_str (rq_workflow_step_id r))
     \<and> py_eq (pget b ''WorkflowDefinitionVersionId'') (opt_str (rq_workflow_definition_version_id r))
     \<and> py_eq (pget b ''CommandId'') (PStr (rq_command_id r))
     \<and> py_eq (pget b ''ExecutionId'') (PStr (rq_execution_id r))
     \<and> py_eq (pget b ''PolicyId'') (PStr (auth_policy_id (rq_authorization r)))
     \<and> py_eq (pget b ''PolicyVersionId'') (PStr (auth_policy_version_id (rq_authorization r)))
     \<and> py_eq (pget b ''GatewayIdempotencyKey'') (PStr (rq_idempotency_key r))
     \<and> positive_version (pget b ''WorkflowAdmissionStateVersion'')
     \<and> py_eq (PDict capability)
         (PDict [(''SkillVersionId'', opt_str (rq_skill_version_id r)),
                 (''CapabilityId'', PStr (rq_capability_id r)),
                 (''CapabilityContractVersionId'', PStr (rq_capability_contract_version_id r))])
     \<and> keys_are exposure [''Amount'', ''CurrencyOrReferenceUnit'']
     \<and> py_eq (pget exposure ''CurrencyOrReferenceUnit'') (PStr ''USD'')
     \<and> as_str (pget exposure ''Amount'') \<noteq> None"

definition mismatch :: exn where
  "mismatch = ValueError ''Workflow AI admission binding does not match Gateway request''"

definition check_binding :: "AIInvocationRequest \<Rightarrow> pydict \<Rightarrow> exn + unit" where
  "check_binding r b =
     (if \<not> keys_are b binding_keys
      then Inl (ValueError ''committed Workflow AI admission binding is required'')
      else case (as_map (pget b ''CapabilityBinding''), as_map (pget b ''CommittedExposure'')) of
        (Some capability, Some exposure) \<Rightarrow>
          if \<not> binding_matches r b capability exposure then Inl mismatch
          else if \<not> (case as_str (pget exposure ''Amount'') of None \<Rightarrow> False | Some a \<Rightarrow> AMOUNT a)
          then Inl mismatch
          else Inr ()
      | _ \<Rightarrow> Inl mismatch)"

definition validate_workflow_admission ::
  "('z gateway_state_scheme) authority option \<Rightarrow> AIInvocationRequest \<Rightarrow> pydict
   \<Rightarrow> ('z gateway_state_scheme, unit) eff"
where
  "validate_workflow_admission authority r b =
     bnd (lift (check_binding r b)) (\<lambda>_.
     case authority of
       None \<Rightarrow> raise (ValueError ''authoritative Workflow AI admission is unavailable'')
     | Some auth \<Rightarrow>
         (case rq_workflow_id r of
            None \<Rightarrow> raise AssertionError
          | Some w \<Rightarrow>
              bnd (authoritative_ai_admission auth w (rq_command_id r) (rq_execution_id r)) (\<lambda>a.
              guard (case a of None \<Rightarrow> False | Some d \<Rightarrow> py_eq (PDict d) (PDict b))
                (ValueError ''authoritative Workflow AI admission does not match Gateway request''))))"

section \<open>Preflight and acceptance\<close>

definition preflight_envelope :: "AIInvocationRequest \<Rightarrow> exn + unit" where
  "preflight_envelope r =
     (if rq_command_id r = [] \<or> rq_idempotency_key r = [] \<or> strip (rq_prompt r) = []
      then Inl (ValueError ''invalid admission envelope'')
      else if rq_max_input_tokens r \<le> 0 \<or> rq_max_output_tokens r \<le> 0
      then Inl (ValueError ''token budgets must be positive'')
      else if rq_max_total_cost r \<le> 0
      then Inl (ValueError ''coarse budget feasibility failed'')
      else if (rq_output_schema r = None) \<noteq> (rq_output_schema_identity r = None)
      then Inl (ValueError ''governed schema material and identity must be bound together'')
      else Inr ())"

definition workflow_owned ::
  "('z gateway_state_scheme) authority option \<Rightarrow> AIInvocationRequest \<Rightarrow> ('z gateway_state_scheme, bool) eff"
where
  "workflow_owned authority r = (case authority of
       None \<Rightarrow> ret False
     | Some a \<Rightarrow> owns_ai_dispatch a (rq_workflow_id r) (rq_command_id r) (rq_execution_id r))"

definition preflight ::
  "('z gateway_state_scheme) authority option \<Rightarrow> AIInvocationRequest \<Rightarrow> ('z gateway_state_scheme, unit) eff"
where
  "preflight authority r =
     bnd (authorize (rq_authorization r) ''ai.invoke'' (rq_tenant_id r) (rq_workspace_id r)) (\<lambda>_.
     bnd (lift (preflight_envelope r)) (\<lambda>_.
     bnd (workflow_owned authority r) (\<lambda>owned.
     case rq_workflow_ai_budget_admission r of
       None \<Rightarrow>
         guard (\<not> owned) (ValueError ''committed Workflow AI admission binding is required'')
     | Some b \<Rightarrow> validate_workflow_admission authority r b)))"

definition gateway_accept ::
  "text_services \<Rightarrow> ('z gateway_state_scheme) authority option \<Rightarrow> AIInvocationRequest
   \<Rightarrow> ('z gateway_state_scheme, Acceptance) eff"
where
  "gateway_accept tx authority r =
     bnd (preflight authority r) (\<lambda>_.
     bnd (new_id ''ai'') (\<lambda>i.
     bnd (new_id ''result'') (\<lambda>rid.
     bnd clock_now (\<lambda>started.
     bnd (lift (result_envelope
       \<lparr>res_result_id = rid, res_result_status = ACCEPTED,
        res_outcome_category = ACKNOWLEDGEMENT_CATEGORY, res_subject_reference = i,
        res_tenant_id = rq_tenant_id r, res_workspace_id = rq_workspace_id r,
        res_correlation_id = rq_correlation_id r, res_causation_id = rq_causation_id r,
        res_producer_component = ''AI Gateway'', res_contract_version = ''1.0'',
        res_command_id = Some (rq_command_id r), res_event_id = None,
        res_started_at = Some (Aware started), res_completed_at = None,
        res_value_reference = None, res_error_id = None, res_warnings = [], res_metadata = [],
        res_predecessor_result_id = None, res_parent_result_id = None,
        res_child_result_references = [], res_disposition_counts = []\<rparr>)) (\<lambda>ack.
     bnd clock_now (\<lambda>now.
     bnd (store_accept tx r i ack now) (\<lambda>accepted.
     bnd (upd (\<lambda>s. s\<lparr>lifecycle := od_setdefault (acc_ai_invocation_id accepted) [INV_REQUESTED] (lifecycle s)\<rparr>)) (\<lambda>_.
     ret accepted))))))))"

section \<open>What the Gateway relies on\<close>

locale admission_authority =
  fixes authority :: "('z gateway_state_scheme) authority"
    and committed :: "'z gateway_state_scheme \<Rightarrow> string \<Rightarrow> string \<Rightarrow> string \<Rightarrow> pydict option"
    and owned :: "'z gateway_state_scheme \<Rightarrow> string option \<Rightarrow> string \<Rightarrow> string \<Rightarrow> bool"
  assumes admission_query: "authoritative_ai_admission authority w c e s = (Inr (committed s w c e), s)"
    and owns_query: "owns_ai_dispatch authority w' c e s = (Inr (owned s w' c e), s)"
begin

lemma validate_ok:
  assumes "validate_workflow_admission (Some authority) r b s = (Inr u, t)"
  shows "t = s \<and> check_binding r b = Inr ()
    \<and> (\<exists>w d. rq_workflow_id r = Some w
         \<and> committed s w (rq_command_id r) (rq_execution_id r) = Some d \<and> py_eq (PDict d) (PDict b))"
  using assms
  by (auto simp: validate_workflow_admission_def effect_simps admission_query
      split: sum.splits option.splits if_splits)

lemma validate_pure: "snd (validate_workflow_admission (Some authority) r b s) = s"
  by (auto simp: validate_workflow_admission_def effect_simps admission_query
      split: sum.splits option.splits if_splits)

lemma preflight_pure: "snd (preflight (Some authority) r s) = s"
  by (auto simp: preflight_def workflow_owned_def effect_simps owns_query validate_pure
      split: sum.splits option.splits if_splits)

lemma preflight_ok:
  assumes "preflight (Some authority) r s = (Inr u, t)"
  shows "t = s \<and> preflight_envelope r = Inr ()
    \<and> scope_check (active_policy_versions s) (revoked_policy_versions s) (rq_authorization r)
        ''ai.invoke'' (rq_tenant_id r) (rq_workspace_id r) = Inr ()
    \<and> (case rq_workflow_ai_budget_admission r of
         None \<Rightarrow> \<not> owned s (rq_workflow_id r) (rq_command_id r) (rq_execution_id r)
       | Some b \<Rightarrow> validate_workflow_admission (Some authority) r b s = (Inr (), s))"
  using assms validate_pure
  by (auto simp: preflight_def workflow_owned_def effect_simps owns_query
      split: sum.splits option.splits if_splits dest: validate_ok)

end

lemma check_binding_Inr:
  assumes "check_binding r b = Inr u"
  obtains capability exposure amount where "keys_are b binding_keys"
    "pget b ''CapabilityBinding'' = PDict capability" "pget b ''CommittedExposure'' = PDict exposure"
    "binding_matches r b capability exposure" "pget exposure ''Amount'' = PStr amount" "AMOUNT amount"
  using assms by (auto simp: check_binding_def split: option.splits if_splits)

end
