(* ===== verification/Gateway_Schema.thy ===== *)
theory Gateway_Schema
  imports Gateway_Store
begin

text \<open>
  Validation of structured provider output: \<^verbatim>\<open>_validate_structured\<close> and the JSON-Schema subset
  \<^verbatim>\<open>_validate_json_schema\<close> of \<^verbatim>\<open>gateway.py\<close>. The recursion always descends into a part of the
  schema. \<open>governed_output_exact\<close> shows what the governed task-kind schema lets through.
\<close>

fun first_error :: "(exn + unit) list \<Rightarrow> exn + unit" where
  "first_error [] = Inr ()"
| "first_error (r # rs) = ebind r (\<lambda>_. first_error rs)"

fun as_seq :: "pyval \<Rightarrow> pyval list option" where
  "as_seq (PList xs) = Some xs"
| "as_seq (PTuple xs) = Some xs"
| "as_seq _ = None"

fun as_list :: "pyval \<Rightarrow> pyval list option" where
  "as_list (PList xs) = Some xs"
| "as_list _ = None"

definition has_key :: "pydict \<Rightarrow> string \<Rightarrow> bool" where
  "has_key d k \<longleftrightarrow> k \<in> set (map fst d)"

definition required_present :: "pydict \<Rightarrow> pyval \<Rightarrow> bool" where
  "required_present value key \<longleftrightarrow> (case as_str key of None \<Rightarrow> False | Some k \<Rightarrow> has_key value k)"

lemma size_in_dict: "(k, v) \<in> set d \<Longrightarrow> size v < size (PDict d)"
  by (induction d) auto

lemma size_pget_dict: "pget d k = PDict e \<Longrightarrow> size (PDict e) < size (PDict d)"
  using size_in_dict [of k "PDict e" d] map_of_SomeD [of d k]
  by (auto simp: pget_def split: option.splits)

lemma as_map_SomeD: "as_map v = Some d \<Longrightarrow> v = PDict d"
  by simp

lemma size_nested:
  "(k, PDict sub) \<in> set properties \<Longrightarrow> Some properties = as_map (pget schema j) \<Longrightarrow>
   size (PDict sub) < size (PDict schema)"
  using size_in_dict size_pget_dict less_trans as_map_SomeD by metis

function validate_json_schema :: "pydict \<Rightarrow> pyval \<Rightarrow> exn + unit" where
  "validate_json_schema schema value =
     (if pget schema ''type'' = PStr ''object'' then
        (case as_map value of
           None \<Rightarrow> Inl (ValueError ''structured output must be an object'')
         | Some object_value \<Rightarrow>
             (case (as_map (pget schema ''properties''), as_seq (pget schema ''required'')) of
                (Some properties, Some required) \<Rightarrow>
                  if pget schema ''additionalProperties'' = PBool False
                     \<and> \<not> set (map fst object_value) \<subseteq> set (map fst properties)
                  then Inl (ValueError ''structured output contains unsupported properties'')
                  else if \<not> list_all (required_present object_value) required
                  then Inl (ValueError ''structured output omits a required property'')
                  else first_error (map (\<lambda>(key, item).
                    if has_key object_value key
                    then (case as_map item of
                            None \<Rightarrow> Inl (ValueError ''governed object schema is invalid'')
                          | Some sub \<Rightarrow> validate_json_schema sub (pget object_value key))
                    else Inr ()) properties)
              | _ \<Rightarrow> Inl (ValueError ''governed object schema is invalid'')))
      else if pget schema ''type'' = PStr ''string'' then
        (case as_str value of
           None \<Rightarrow> Inl (ValueError ''structured output value must be a string'')
         | Some s \<Rightarrow>
             if pget schema ''enum'' \<noteq> PNone
                \<and> \<not> (case as_seq (pget schema ''enum'') of None \<Rightarrow> False
                    | Some members \<Rightarrow> list_ex (\<lambda>m. py_eq (PStr s) m) members)
             then Inl (ValueError ''structured output value is outside the governed enum'')
             else Inr ())
      else if pget schema ''type'' = PStr ''array'' then
        (case as_list value of
           None \<Rightarrow> Inl (ValueError ''structured output value must be an array'')
         | Some array_value \<Rightarrow>
             (case as_map (pget schema ''items'') of
                None \<Rightarrow> Inl (ValueError ''governed array schema is invalid'')
              | Some items \<Rightarrow> first_error (map (validate_json_schema items) array_value)))
      else Inl (ValueError ''governed structured output schema is unsupported''))"
  by pat_completeness auto

termination
  by (relation "measure (\<lambda>(schema, _). size (PDict schema))")
     (auto simp del: pyval.size dest: size_nested size_pget_dict)

declare validate_json_schema.simps [simp del]

definition answer_shape :: "pydict \<Rightarrow> exn + unit" where
  "answer_shape value =
     (if \<not> set (map fst value) \<subseteq> {''answer'', ''model''}
      then Inl (ValueError ''structured output contains unsupported properties'')
      else if \<not> (case as_str (pget value ''answer'') of None \<Rightarrow> False | Some s \<Rightarrow> s \<noteq> [])
      then Inl (ValueError ''structured output requires a non-empty answer'')
      else if has_key value ''model'' \<and> as_str (pget value ''model'') = None
      then Inl (ValueError ''structured output model must be a string'')
      else Inr ())"

definition analysis_shape :: "pydict \<Rightarrow> exn + unit" where
  "analysis_shape value =
     (if \<not> keys_are value [''result''] then Inl (ValueError ''structured output requires result object'')
      else case as_map (pget value ''result'') of
        None \<Rightarrow> Inl (ValueError ''structured output requires result object'')
      | Some result \<Rightarrow>
          if \<not> keys_are result [''summary'', ''items'']
          then Inl (ValueError ''structured result shape is invalid'')
          else if \<not> (case as_str (pget result ''summary'') of None \<Rightarrow> False | Some s \<Rightarrow> s \<noteq> [])
          then Inl (ValueError ''structured summary must be a non-empty string'')
          else (case as_list (pget result ''items'') of
                  None \<Rightarrow> Inl (ValueError ''structured items must be strings'')
                | Some items \<Rightarrow>
                    if list_all (\<lambda>i. as_str i \<noteq> None) items then Inr ()
                    else Inl (ValueError ''structured items must be strings'')))"

definition validate_structured :: "text_services \<Rightarrow> AIInvocationRequest \<Rightarrow> string \<Rightarrow> exn + string" where
  "validate_structured tx r content =
     ebind (json_loads tx content) (\<lambda>parsed.
     case as_map parsed of
       None \<Rightarrow> Inl (ValueError ''structured output must be an object'')
     | Some value \<Rightarrow>
         ebind (if rq_output_schema_ref r \<in> {Some ''answer-v1'', Some ''reference-answer-v1''}
                then answer_shape value
                else if rq_output_schema_ref r = Some ''analysis-v1'' then analysis_shape value
                else case rq_output_schema r of
                  Some schema \<Rightarrow> validate_json_schema schema (PDict value)
                | None \<Rightarrow> Inl (ValueError ''structured output schema is unresolved'')) (\<lambda>_.
         Inr (json_dumps (json_sorted tx) (PDict value))))"

section \<open>The governed schema\<close>

lemma first_error_map [simp]: "first_error (map f xs) = Inr u \<longleftrightarrow> (\<forall>x \<in> set xs. f x = Inr ())"
  by (induction xs) auto

lemma validate_string_enum:
  assumes "pget schema ''type'' = PStr ''string''"
  shows "validate_json_schema schema v = Inr u \<longleftrightarrow>
    (\<exists>s. v = PStr s \<and> (pget schema ''enum'' = PNone
       \<or> (\<exists>ms. as_seq (pget schema ''enum'') = Some ms \<and> (\<exists>m \<in> set ms. py_eq (PStr s) m))))"
  using assms
  by (subst validate_json_schema.simps) (auto simp: list_ex_iff split: option.splits if_splits)

definition frozen_task_kind_schema :: pydict where
  "frozen_task_kind_schema = dict_of_val (deep_freeze (PDict STRUCTURED_TASK_KIND_SCHEMA))"

lemma frozen_schema_parts:
  "pget frozen_task_kind_schema ''type'' = PStr ''object''"
  "pget frozen_task_kind_schema ''required'' = PTuple [PStr ''task_kind'']"
  "pget frozen_task_kind_schema ''additionalProperties'' = PBool False"
  "pget frozen_task_kind_schema ''properties'' = PDict [(''task_kind'', PDict
     [(''type'', PStr ''string''),
      (''enum'', PTuple [PStr ''Question'', PStr ''Instruction'', PStr ''Statement''])])]"
  by (simp_all add: frozen_task_kind_schema_def STRUCTURED_TASK_KIND_SCHEMA_def dict_of_val_def)

lemma task_kind_member:
  "validate_json_schema [(''type'', PStr ''string''),
      (''enum'', PTuple [PStr ''Question'', PStr ''Instruction'', PStr ''Statement''])] v = Inr () \<longleftrightarrow>
   v \<in> {PStr ''Question'', PStr ''Instruction'', PStr ''Statement''}"
  by (subst validate_string_enum) auto

lemma single_key:
  assumes "distinct (map fst d)" "set (map fst d) \<subseteq> {k}" "k \<in> set (map fst d)"
  shows "d = [(k, pget d k)]"
proof (cases d)
  case Nil
  with assms show ?thesis by simp
next
  case (Cons p ps)
  then have "ps = []" using assms by (cases ps) auto
  with Cons assms show ?thesis by (cases p) auto
qed

lemma validate_object:
  assumes "pget schema ''type'' = PStr ''object''" "pget schema ''properties'' = PDict properties"
    "as_seq (pget schema ''required'') = Some required" "pget schema ''additionalProperties'' = PBool False"
  shows "validate_json_schema schema v = Inr () \<longleftrightarrow>
    (\<exists>d. v = PDict d \<and> set (map fst d) \<subseteq> set (map fst properties)
       \<and> list_all (required_present d) required
       \<and> (\<forall>(key, item) \<in> set properties. has_key d key \<longrightarrow>
            (\<exists>sub. item = PDict sub \<and> validate_json_schema sub (pget d key) = Inr ())))"
proof (cases v)
  case (PDict d)
  have "(case as_map item of None \<Rightarrow> Inl (ValueError ''governed object schema is invalid'')
      | Some sub \<Rightarrow> validate_json_schema sub (pget d key)) = Inr ()
    \<longleftrightarrow> (\<exists>sub. item = PDict sub \<and> validate_json_schema sub (pget d key) = Inr ())" for key item
    by (cases "as_map item") auto
  then show ?thesis
    using assms PDict by (subst validate_json_schema.simps) (auto simp: split_def)
qed (use assms in \<open>subst validate_json_schema.simps, simp\<close>)+

text \<open>The governed task-kind schema, as the frozen package carries it, lets through exactly the
  objects with the single member \<^verbatim>\<open>task_kind\<close> whose value is one of the three class names;
  everything else, extra members included, is refused with a \<^verbatim>\<open>ValueError\<close>.\<close>

theorem governed_output_exact:
  assumes "py_wf v"
  shows "validate_json_schema frozen_task_kind_schema v = Inr () \<longleftrightarrow>
    (\<exists>k \<in> {''Question'', ''Instruction'', ''Statement''}. v = PDict [(''task_kind'', PStr k)])"
proof -
  have "validate_json_schema frozen_task_kind_schema v = Inr () \<longleftrightarrow>
    (\<exists>d. v = PDict d \<and> set (map fst d) \<subseteq> {''task_kind''} \<and> has_key d ''task_kind''
       \<and> pget d ''task_kind'' \<in> {PStr ''Question'', PStr ''Instruction'', PStr ''Statement''})"
    by (subst validate_object [OF frozen_schema_parts(1,4) _ frozen_schema_parts(3)])
       (auto simp: frozen_schema_parts required_present_def task_kind_member)
  also have "\<dots> \<longleftrightarrow> (\<exists>k \<in> {''Question'', ''Instruction'', ''Statement''}. v = PDict [(''task_kind'', PStr k)])"
    (is "?L \<longleftrightarrow> ?R")
  proof
    assume ?L
    then obtain d where d: "v = PDict d" "set (map fst d) \<subseteq> {''task_kind''}" "has_key d ''task_kind''"
      "pget d ''task_kind'' \<in> {PStr ''Question'', PStr ''Instruction'', PStr ''Statement''}" by blast
    then have "d = [(''task_kind'', pget d ''task_kind'')]"
      using assms single_key [of d "''task_kind''"] by (simp add: has_key_def)
    then have "v = PDict [(''task_kind'', pget d ''task_kind'')]" using d(1) by simp
    with d(4) show ?R by auto
  qed (auto simp: has_key_def)
  finally show ?thesis .
qed

theorem governed_output_exact_witness:
  "validate_json_schema frozen_task_kind_schema (PDict [(''task_kind'', PStr ''Question'')]) = Inr ()
   \<and> validate_json_schema frozen_task_kind_schema (PDict [(''task_kind'', PStr ''Joke'')]) \<noteq> Inr ()"
  using governed_output_exact [of "PDict [(''task_kind'', PStr ''Question'')]"]
    governed_output_exact [of "PDict [(''task_kind'', PStr ''Joke'')]"]
  by simp

end
