(* ===== verification/Gateway_Execution.thy ===== *)
theory Gateway_Execution
  imports Gateway_Admission Gateway_Schema
begin

text \<open>
  Execution of an accepted invocation by \<^verbatim>\<open>ReferenceAIGateway\<close>: transitions and evidence,
  success and failure responses, validation with metered repair, the provider attempt loop with
  cache, budget and deadline checks, \<^verbatim>\<open>execute\<close> and \<^verbatim>\<open>invoke\<close>.

  What the Gateway is constructed with is the record \<open>gateway_env\<close>. A provider adapter's
  \<^verbatim>\<open>invoke\<close> and the wait of \<^verbatim>\<open>wait_for_terminal\<close> are arbitrary effects on the whole
  state, since other workers and the heartbeat run while they are awaited; the heartbeat's event
  is a predicate on the state. The clock, the lease and the identifiers are those of the state.
\<close>

record 's gateway_env =
  ge_tx :: text_services
  ge_catalog :: "ModelCatalogEntry list"
  ge_packages :: "prompt_catalog option"
  ge_adapters :: "string set"
  ge_invoke :: "string \<Rightarrow> string \<Rightarrow> string \<Rightarrow> AIInvocationRequest \<Rightarrow> string \<Rightarrow> int option \<Rightarrow> ('s, ProviderResult) eff"
  ge_lost :: "'s \<Rightarrow> bool"
  ge_wait :: "string \<Rightarrow> ('s, unit) eff"
  ge_repr_parameters :: "(string \<times> string) list \<Rightarrow> string"
  ge_execution_lease :: int
  ge_health_cooldown :: int
  ge_authority :: "'s authority option"

section \<open>Transitions and evidence\<close>

fun invocation_state_value :: "InvocationState \<Rightarrow> string" where
  "invocation_state_value INV_REQUESTED = ''Requested''"
| "invocation_state_value INV_POLICY_VALIDATED = ''PolicyValidated''"
| "invocation_state_value INV_PROVIDER_SELECTED = ''ProviderSelected''"
| "invocation_state_value INV_PREPARED = ''Prepared''"
| "invocation_state_value INV_INVOKED = ''Invoked''"
| "invocation_state_value INV_STREAMING = ''Streaming''"
| "invocation_state_value INV_RETRYING = ''Retrying''"
| "invocation_state_value INV_SUCCEEDED = ''Succeeded''"
| "invocation_state_value INV_FAILED = ''Failed''"
| "invocation_state_value INV_TIMED_OUT = ''TimedOut''"
| "invocation_state_value INV_CANCELLED = ''Cancelled''"

definition observe :: "string \<Rightarrow> string \<Rightarrow> pydict \<Rightarrow> ('z gateway_state_scheme, unit) eff" where
  "observe i operation attributes =
     bnd (load_invocation i) (\<lambda>v. let r = inv_request v in
     bnd clock_now (\<lambda>now.
     bnd (lift (observability_context
       \<lparr>obs_component_identity = ''AI Gateway'', obs_operation_name = operation,
        obs_contract_version = ''1.0'', obs_observed_at = Aware now,
        obs_environment_identity = ''reference'', obs_deployment_identity = ''offline'',
        obs_data_classification = rq_data_classification r, obs_redaction_status = APPLIED,
        obs_tenant_id = rq_tenant_id r, obs_workspace_id = rq_workspace_id r,
        obs_correlation_id = rq_correlation_id r, obs_causation_id = rq_causation_id r,
        obs_request_id = None, obs_command_id = Some (rq_command_id r), obs_event_id = None,
        obs_workflow_id = None, obs_workflow_step_id = None,
        obs_execution_id = Some (rq_execution_id r),
        obs_ai_invocation_id = Some (inv_invocation_id v), obs_result_id = None,
        obs_error_id = None\<rparr>)) (\<lambda>c.
     bnd (record_log c LOG_INFO ''AI Gateway conformance evidence'' attributes) (\<lambda>_.
     ret ()))))"

definition transition :: "string \<Rightarrow> InvocationState \<Rightarrow> ('z gateway_state_scheme, unit) eff" where
  "transition i state =
     bnd (modify_invocation i (\<lambda>v. v\<lparr>inv_state := state\<rparr>)) (\<lambda>_.
     bnd (asks (\<lambda>s. map_of (lifecycle s) i)) (\<lambda>l.
     case l of
       None \<Rightarrow> raise (KeyError i)
     | Some states \<Rightarrow>
         bnd (upd (\<lambda>s. s\<lparr>lifecycle := od_put i (states @ [state]) (lifecycle s)\<rparr>)) (\<lambda>_.
         observe i ''ai.invocation.transition'' [(''state'', PStr (invocation_state_value state))])))"

section \<open>Responses\<close>

text \<open>\<^verbatim>\<open>format(cost, "f").rstrip("0").rstrip(".")\<close>\<close>

definition decimal_fixed :: "decimal \<Rightarrow> string" where
  "decimal_fixed d =
     (if 0 \<le> dexpo d then show_int (dcoeff d * 10 ^ nat (dexpo d))
      else decimal_layout d (dexpo d + int (length (decimal_digits d))))"

definition actual_cost_text :: "decimal \<Rightarrow> string" where
  "actual_cost_text d =
     rstrip_by (\<lambda>c. c = CHR ''.'') (rstrip_by (\<lambda>c. c = CHR ''0'') (decimal_fixed d))"

definition accounting_evidence :: "GatewayInvocation \<Rightarrow> string \<Rightarrow> pydict" where
  "accounting_evidence v settled_result_id =
     [(''gateway_accounting_evidence'', PDict
        [(''evidence_version'', PInt 1), (''status'', PStr ''settled''),
         (''tenant_id'', PStr (rq_tenant_id (inv_request v))),
         (''workspace_id'', PStr (rq_workspace_id (inv_request v))),
         (''ai_invocation_id'', PStr (inv_invocation_id v)),
         (''settled_result_id'', PStr settled_result_id),
         (''actual_cost'', PStr (actual_cost_text (inv_cumulative_cost v))),
         (''currency_or_reference_unit'', PStr ''USD'')])]"

definition invocation_scope :: "GatewayInvocation \<Rightarrow> outcome_scope" where
  "invocation_scope v =
     \<lparr>os_subject = inv_invocation_id v, os_producer = ''AI Gateway'',
      os_tenant_id = rq_tenant_id (inv_request v), os_workspace_id = rq_workspace_id (inv_request v),
      os_correlation_id = rq_correlation_id (inv_request v),
      os_causation_id = rq_causation_id (inv_request v)\<rparr>"

definition success ::
  "text_services \<Rightarrow> string \<Rightarrow> string \<Rightarrow> AIUsage \<Rightarrow> RouteDecision \<Rightarrow> bool
   \<Rightarrow> ('z gateway_state_scheme, AIInvocationResponse) eff"
where
  "success tx i content usage route cache_hit =
     bnd (transition i INV_SUCCEEDED) (\<lambda>_.
     bnd (load_invocation i) (\<lambda>v.
     bnd (succeeded (invocation_scope v) None None (Some (''ai-content:'' @ sha256 tx content))
            (accounting_evidence v ''pending_result_binding'') None) (\<lambda>result.
     let result = result\<lparr>res_metadata := accounting_evidence v (res_result_id result)\<rparr>;
         response = \<lparr>rsp_ai_invocation_id = inv_invocation_id v, rsp_result = result,
           rsp_content = Some content, rsp_error = None, rsp_usage = Some usage,
           rsp_route = Some route, rsp_cache_hit = cache_hit\<rparr>
     in bnd (modify_invocation i (\<lambda>v. v\<lparr>inv_terminal := Some response\<rparr>)) (\<lambda>_.
        bnd (observe i ''ai.invocation.succeeded''
          [(''result_id'', PStr (res_result_id result)),
           (''capability_id'', PStr (rq_capability_id (inv_request v))),
           (''capability_contract_version_id'', PStr (rq_capability_contract_version_id (inv_request v))),
           (''prompt_package_ref'', PStr (rq_prompt_template_ref (inv_request v))),
           (''prompt_package_version_ref'', PStr (rq_prompt_template_version_ref (inv_request v))),
           (''disposition'', PStr ''invoked''), (''cache_hit'', PBool cache_hit),
           (''input_tokens'', PInt (input_tokens usage)), (''output_tokens'', PInt (output_tokens usage)),
           (''cached_tokens'', PInt (cached_tokens usage)),
           (''reasoning_tokens'', PInt (reasoning_tokens usage)),
           (''token_measurement_status'', PStr (if estimated usage then ''estimated'' else ''measured'')),
           (''estimated_cost'', PStr (decimal_str (rt_estimated_cost route))),
           (''actual_cost_status'', PStr ''canonical_store''),
           (''budget_outcome'', PStr ''within_ceiling''),
           (''provider_attempt_count_status'', PStr ''canonical_store''),
           (''repair_attempt_count_status'', PStr ''canonical_store''),
           (''fallback_attempt_count_status'', PStr ''canonical_store''),
           (''total_model_call_count_status'', PStr ''canonical_store''),
           (''model_key'', PStr (rt_model_key route))]) (\<lambda>_.
        ret response)))))"

definition failure_class :: "string \<Rightarrow> bool \<Rightarrow> ResultStatus \<times> InvocationState \<times> ErrorCategory" where
  "failure_class code retryable =
     (if contains ''TIMEOUT'' code then (TIMED_OUT, INV_TIMED_OUT, TIMEOUT)
      else if contains ''CANCELLED'' code then (CANCELLED, INV_CANCELLED, CANCELLATION)
      else if \<not> retryable then (FAILED, INV_FAILED, AI_INVALID_RESPONSE)
      else (FAILED, INV_FAILED, AI_PROVIDER_UNAVAILABLE))"

definition failure ::
  "string \<Rightarrow> string \<Rightarrow> bool \<Rightarrow> ('z gateway_state_scheme, AIInvocationResponse) eff" where
  "failure i code retryable =
     (let (status, state, category) = failure_class code retryable in
      bnd (transition i state) (\<lambda>_.
      bnd (load_invocation i) (\<lambda>v.
      bnd (unsuccessful (invocation_scope v)
        \<lparr>fd_status = status, fd_error_code = code, fd_category = category,
         fd_severity = (if retryable then WARNING else ERROR),
         fd_retry = (if retryable then RETRYABLE else NEVER_RETRY),
         fd_message = ''The provider-neutral mock invocation failed.''\<rparr> None None None []) (\<lambda>(result, error).
      bnd (ret \<lparr>rsp_ai_invocation_id = inv_invocation_id v, rsp_result = result, rsp_content = None,
                rsp_error = Some error, rsp_usage = None, rsp_route = inv_route v,
                rsp_cache_hit = False\<rparr>) (\<lambda>response.
      bnd (modify_invocation i (\<lambda>v. v\<lparr>inv_terminal := Some response\<rparr>)) (\<lambda>_.
      bnd (observe i ''ai.invocation.failed''
        [(''result_id'', PStr (res_result_id result)),
         (''capability_id'', PStr (rq_capability_id (inv_request v))),
         (''capability_contract_version_id'', PStr (rq_capability_contract_version_id (inv_request v))),
         (''prompt_package_ref'', PStr (rq_prompt_template_ref (inv_request v))),
         (''prompt_package_version_ref'', PStr (rq_prompt_template_version_ref (inv_request v))),
         (''disposition'', PStr ''invoked''), (''error_id'', PStr (err_error_id error)),
         (''error_code'', PStr code), (''retryable'', PBool retryable),
         (''status'', PStr (result_status_value status))]) (\<lambda>_.
      ret response)))))))"

section \<open>Validation and metered repair\<close>

definition fence ::
  "('z gateway_state_scheme) gateway_env \<Rightarrow> string \<Rightarrow> string \<Rightarrow> int \<Rightarrow> ('z gateway_state_scheme, unit) eff" where
  "fence env i owner generation =
     bnd (asks (ge_lost env)) (\<lambda>lost.
     if lost then raise (ExecutionOwnershipLost ''AI Gateway execution heartbeat was lost'')
     else assert_execution_owner i owner generation)"

text \<open>
  One provider crossing: a recorded effect is reused; otherwise the effect key is reserved, the
  adapter is called (within the deadline, whose expiry becomes the given failure), and the result
  is recorded under the fence.
\<close>

definition provider_effect ::
  "('z gateway_state_scheme) gateway_env \<Rightarrow> string \<Rightarrow> AIInvocationRequest \<Rightarrow> string \<Rightarrow> string \<Rightarrow> string
   \<Rightarrow> string \<Rightarrow> string \<Rightarrow> int \<Rightarrow> string \<Rightarrow> ('z gateway_state_scheme, ProviderResult) eff"
where
  "provider_effect env i r adapter model prompt effect_key owner generation timeout_code =
     bnd (load_provider_effect i effect_key) (\<lambda>recorded.
     bnd (case recorded of
            Some result \<Rightarrow> ret result
          | None \<Rightarrow>
              bnd (reserve_provider_effect i effect_key owner generation) (\<lambda>_.
              bnd (case rq_deadline r of
                     None \<Rightarrow> ge_invoke env adapter model prompt r effect_key None
                   | Some deadline \<Rightarrow>
                       bnd clock_now (\<lambda>now.
                       catch (ge_invoke env adapter model prompt r effect_key
                                (Some (max 0 (instant deadline - now))))
                         (\<lambda>e. if e = TimeoutError then raise (ProviderFailure timeout_code False None)
                              else raise e))) (\<lambda>result.
              bnd (fence env i owner generation) (\<lambda>_.
              bnd (record_provider_effect i effect_key result (Some (owner, generation))) (\<lambda>_.
              ret result))))) (\<lambda>result.
     bnd (fence env i owner generation) (\<lambda>_.
     ret result)))"

definition repair_prompt :: "AIInvocationRequest \<Rightarrow> string" where
  "repair_prompt r =
     ''<repair schema='' @ quoted (case rq_output_schema_ref r of None \<Rightarrow> ''None'' | Some x \<Rightarrow> x)
     @ '' error='' @ quoted ''schema-validation''
     @ ''>Return only one conforming JSON value.</repair>''"

definition validated_output :: "text_services \<Rightarrow> AIInvocationRequest \<Rightarrow> string \<Rightarrow> exn + string" where
  "validated_output tx r content =
     ebind (validate_structured tx r content) (\<lambda>validated.
     if rq_max_output_tokens r < estimate validated
     then Inl (ProviderFailure ''AI_OUTPUT_LIMIT_EXCEEDED'' False None)
     else Inr validated)"

definition metered_usage :: "ProviderResult \<Rightarrow> int \<Rightarrow> AIInvocationRequest \<Rightarrow> AIUsage" where
  "metered_usage result tokens r = (case prv_usage result of
       Some u \<Rightarrow> u
     | None \<Rightarrow> (usage_of tokens (rq_max_output_tokens r))\<lparr>estimated := True\<rparr>)"

record attempt_context =
  at_invocation :: string
  at_request :: AIInvocationRequest
  at_candidate :: RouteDecision
  at_number :: int
  at_owner :: string
  at_generation :: int

text \<open>One repair round: budget checks, provider crossing, metering; returns the new content and
  the usage and cost of the round.\<close>

definition repair_round ::
  "('z gateway_state_scheme) gateway_env \<Rightarrow> attempt_context \<Rightarrow> int \<Rightarrow> decimal
   \<Rightarrow> ('z gateway_state_scheme, string \<times> AIUsage \<times> decimal) eff"
where
  "repair_round env a repair_attempt available =
     (let r = at_request a; i = at_invocation a; model = rt_model_key (at_candidate a);
          prompt = repair_prompt r; number = at_number a * 100 + repair_attempt + 1 in
      bnd (lift (find_model (ge_catalog env) model)) (\<lambda>entry.
      if available < estimate_cost entry (estimate prompt) (rq_max_output_tokens r) 0 0
      then raise (ProviderFailure ''AI_REPAIR_BUDGET_EXHAUSTED'' False None) else
      bnd (provider_effect env i r (rt_adapter_key (at_candidate a)) model prompt
             (i @ '':repair:'' @ show_int number) (at_owner a) (at_generation a)
             ''AI_PROVIDER_TIMEOUT'') (\<lambda>repaired.
      let usage = metered_usage repaired (estimate prompt) r in
      if rq_max_output_tokens r < output_tokens usage
      then raise (ProviderFailure ''AI_OUTPUT_LIMIT_EXCEEDED'' False (Some usage)) else
      bnd (lift (usage_cost (ge_catalog env) model usage)) (\<lambda>cost.
      if available < cost
      then raise (ProviderFailure ''AI_REPAIR_BUDGET_EXHAUSTED'' False (Some usage)) else
      bnd (record_attempt i (number, model, ''repair'', Some usage, cost)) (\<lambda>_.
      bnd (observe i ''ai.structured.repair''
        [(''provider_attempt'', PInt (at_number a)), (''repair_attempt'', PInt (repair_attempt + 1)),
         (''schema_ref'', PStr (case rq_output_schema_ref r of None \<Rightarrow> ''missing''
             | Some x \<Rightarrow> if x = [] then ''missing'' else x)),
         (''input_tokens'', PInt (input_tokens usage)), (''output_tokens'', PInt (output_tokens usage)),
         (''cost'', PStr (decimal_str cost))]) (\<lambda>_.
      ret (prv_content repaired, usage, cost)))))))"

fun repair_loop ::
  "('z gateway_state_scheme) gateway_env \<Rightarrow> attempt_context \<Rightarrow> decimal \<Rightarrow> nat \<Rightarrow> int \<Rightarrow> string
   \<Rightarrow> int \<Rightarrow> int \<Rightarrow> decimal \<Rightarrow> ('z gateway_state_scheme, string \<times> AIUsage \<times> decimal) eff"
where
  "repair_loop env a remaining 0 k content rin rout rcost = raise AssertionError"
| "repair_loop env a remaining (Suc n) k content rin rout rcost =
     (case validated_output (ge_tx env) (at_request a) content of
        Inr validated \<Rightarrow> ret (validated, usage_of rin rout, rcost)
      | Inl e \<Rightarrow>
          if \<not> is_value_error e then raise e
          else if rq_repair_attempts (at_request a) \<le> k
          then raise (ProviderFailure ''AI_INVALID_RESPONSE'' False
                 (if rin \<noteq> 0 \<or> rout \<noteq> 0 then Some (usage_of rin rout) else None))
          else bnd (repair_round env a k (remaining - rcost)) (\<lambda>(content', usage, cost).
               repair_loop env a remaining n (k + 1) content' (rin + input_tokens usage)
                 (rout + output_tokens usage) (rcost + cost)))"

definition validate_and_repair ::
  "('z gateway_state_scheme) gateway_env \<Rightarrow> attempt_context \<Rightarrow> string \<Rightarrow> decimal
   \<Rightarrow> ('z gateway_state_scheme, string \<times> AIUsage \<times> decimal) eff"
where
  "validate_and_repair env a content remaining =
     (if rq_response_mode (at_request a) \<noteq> STRUCTURED
      then if rq_max_output_tokens (at_request a) < estimate content
           then raise (ProviderFailure ''AI_OUTPUT_LIMIT_EXCEEDED'' False None)
           else ret (content, usage_of 0 0, 0)
      else repair_loop env a remaining (nat (rq_repair_attempts (at_request a) + 1)) 0 content 0 0 0)"

section \<open>Provider attempts\<close>

text \<open>The local variables of \<^verbatim>\<open>execute\<close> that survive from one attempt to the next.\<close>

type_synonym provider_failure = "string \<times> bool \<times> AIUsage option"

record attempt_vars =
  lv_spent :: decimal
  lv_input :: int
  lv_output :: int
  lv_cached :: int
  lv_reasoning :: int
  lv_failure :: "provider_failure option"
  lv_prompt :: string
  lv_tokens :: int
  lv_digest :: string

definition charge :: "decimal \<Rightarrow> AIUsage \<Rightarrow> attempt_vars \<Rightarrow> attempt_vars" where
  "charge cost u l = l\<lparr>lv_spent := lv_spent l + cost, lv_input := lv_input l + input_tokens u,
     lv_output := lv_output l + output_tokens u, lv_cached := lv_cached l + cached_tokens u,
     lv_reasoning := lv_reasoning l + reasoning_tokens u\<rparr>"

definition total_usage :: "attempt_vars \<Rightarrow> AIUsage" where
  "total_usage l = \<lparr>input_tokens = lv_input l, output_tokens = lv_output l,
     cached_tokens = lv_cached l, reasoning_tokens = lv_reasoning l, estimated = False\<rparr>"

datatype attempt_result =
    Responded AIInvocationResponse
  | LowConfidence attempt_vars
  | AttemptFailed provider_failure attempt_vars

definition catch_provider ::
  "('s, 'a) eff \<Rightarrow> (provider_failure \<Rightarrow> ('s, 'a) eff) \<Rightarrow> ('s, 'a) eff" where
  "catch_provider m h = catch m (\<lambda>e. case e of
       ProviderFailure code retryable usage \<Rightarrow> h (code, retryable, usage)
     | _ \<Rightarrow> raise e)"

text \<open>The provider call with its metering, up to the point where the attempt is charged.\<close>

definition attempt_call ::
  "('z gateway_state_scheme) gateway_env \<Rightarrow> attempt_context \<Rightarrow> attempt_vars
   \<Rightarrow> ('z gateway_state_scheme, ProviderResult \<times> AIUsage \<times> decimal) eff"
where
  "attempt_call env a l =
     (let r = at_request a; i = at_invocation a; model = rt_model_key (at_candidate a) in
      bnd (provider_effect env i r (rt_adapter_key (at_candidate a)) model (lv_prompt l)
             (i @ '':provider:'' @ show_int (at_number a)) (at_owner a) (at_generation a)
             ''AI_PROVIDER_EFFECT_AMBIGUOUS'') (\<lambda>result.
      let usage = metered_usage result (lv_tokens l) r in
      bnd (lift (usage_cost (ge_catalog env) model usage)) (\<lambda>cost.
      if rq_max_output_tokens r < output_tokens usage
      then raise (ProviderFailure ''AI_OUTPUT_LIMIT_EXCEEDED'' False (Some usage))
      else if rq_max_total_cost r - lv_spent l < cost
      then raise (ProviderFailure ''AI_BUDGET_OVERRUN'' False (Some usage))
      else ret (result, usage, cost))))"

definition settle_success ::
  "('z gateway_state_scheme) gateway_env \<Rightarrow> attempt_context \<Rightarrow> attempt_vars \<Rightarrow> AIUsage \<Rightarrow> string
   \<Rightarrow> ('z gateway_state_scheme, AIInvocationResponse) eff"
where
  "settle_success env a l usage content =
     (let r = at_request a; i = at_invocation a in
      bnd (modify_invocation i (\<lambda>v. v\<lparr>inv_cumulative_cost := lv_spent l,
             inv_cumulative_usage := total_usage l\<rparr>)) (\<lambda>_.
      bnd (fence env i (at_owner a) (at_generation a)) (\<lambda>_.
      bnd (reconcile i (lv_spent l) (total_usage l) (Some (at_owner a, at_generation a))) (\<lambda>_.
      bnd (if cache_eligible r
           then bnd clock_now (\<lambda>now.
                cache_content (rq_tenant_id r) (rq_workspace_id r)
                  (cache_key (ge_tx env) (ge_repr_parameters env) r (lv_digest l) (at_candidate a))
                  \<lparr>cc_content = content, cc_usage = usage, cc_expires_at = now + 600000000,
                   cc_provenance = i, cc_route = Some (at_candidate a)\<rparr>)
           else ret ()) (\<lambda>_.
      bnd (success (ge_tx env) i content (total_usage l) (at_candidate a) False) (\<lambda>response.
      bnd (checkpoint i) (\<lambda>_.
      ret response)))))))"

definition escalate ::
  "('z gateway_state_scheme) gateway_env \<Rightarrow> attempt_context \<Rightarrow> attempt_vars
   \<Rightarrow> ('z gateway_state_scheme, attempt_vars) eff"
where
  "escalate env a l =
     (let i = at_invocation a in
      bnd (modify_invocation i (\<lambda>v. v\<lparr>inv_cumulative_cost := lv_spent l,
             inv_cumulative_usage := total_usage l, inv_next_provider_attempt := at_number a + 1,
             inv_last_provider_failure_code := Some ''AI_LOW_CONFIDENCE'',
             inv_last_provider_failure_retryable := True\<rparr>)) (\<lambda>_.
      bnd (lift (assemble (ge_tx env) (ge_packages env) (at_request a) 1)) (\<lambda>(prompt, tokens, digest).
      bnd (observe i ''ai.context.escalated''
        [(''stage'', PInt 1), (''input_tokens'', PInt tokens), (''signal'', PStr ''low_confidence'')]) (\<lambda>_.
      bnd (checkpoint i) (\<lambda>_.
      ret (l\<lparr>lv_failure := Some (''AI_LOW_CONFIDENCE'', True, None), lv_prompt := prompt,
             lv_tokens := tokens, lv_digest := digest\<rparr>))))))"

definition attempt_finish ::
  "('z gateway_state_scheme) gateway_env \<Rightarrow> attempt_context \<Rightarrow> attempt_vars \<Rightarrow> ProviderResult \<Rightarrow> AIUsage
   \<Rightarrow> decimal \<Rightarrow> ('z gateway_state_scheme, attempt_result) eff"
where
  "attempt_finish env a l result usage cost =
     (let r = at_request a; i = at_invocation a; model = rt_model_key (at_candidate a);
          low = prv_confidence result < Dec 5 (- 1) in
      bnd (record_attempt i (at_number a, model, if low then ''low_confidence'' else ''completed'',
             Some usage, cost)) (\<lambda>_.
      bnd (observe i ''ai.provider.usage''
        [(''attempt'', PInt (at_number a)), (''input_tokens'', PInt (input_tokens usage)),
         (''output_tokens'', PInt (output_tokens usage)), (''cost'', PStr (decimal_str cost)),
         (''cumulative_cost'', PStr (decimal_str (lv_spent l))),
         (''adapter_key'', PStr (rt_adapter_key (at_candidate a)))]) (\<lambda>_.
      bnd (validate_and_repair env a (prv_content result) (rq_max_total_cost r - lv_spent l))
        (\<lambda>(content, repair_usage, repair_cost).
      bnd (record_health_success model) (\<lambda>_.
      if low
      then bnd (escalate env a (charge repair_cost repair_usage l)) (\<lambda>l'. ret (LowConfidence l'))
      else bnd (settle_success env a (charge repair_cost repair_usage l) usage content) (\<lambda>response.
           ret (Responded response)))))))"

definition attempt ::
  "('z gateway_state_scheme) gateway_env \<Rightarrow> attempt_context \<Rightarrow> attempt_vars
   \<Rightarrow> ('z gateway_state_scheme, attempt_result) eff"
where
  "attempt env a l =
     bnd (catch_provider (bnd (attempt_call env a l) (\<lambda>x. ret (Inr x))) (\<lambda>f. ret (Inl f))) (\<lambda>called.
     case called of
       Inl f \<Rightarrow> ret (AttemptFailed f l)
     | Inr (result, usage, cost) \<Rightarrow>
         catch_provider (attempt_finish env a (charge cost usage l) result usage cost)
           (\<lambda>f. ret (AttemptFailed f (charge cost usage l))))"

text \<open>The handler of \<^verbatim>\<open>except ProviderFailure\<close>.\<close>

definition attempt_failed ::
  "('z gateway_state_scheme) gateway_env \<Rightarrow> attempt_context \<Rightarrow> provider_failure \<Rightarrow> attempt_vars
   \<Rightarrow> ('z gateway_state_scheme, attempt_vars) eff"
where
  "attempt_failed env a f l =
     (let i = at_invocation a; model = rt_model_key (at_candidate a); (code, retryable, used) = f in
      bnd (case used of
             None \<Rightarrow> ret (0, l)
           | Some u \<Rightarrow> bnd (lift (usage_cost (ge_catalog env) model u)) (\<lambda>cost. ret (cost, charge cost u l)))
        (\<lambda>(cost, l).
      bnd (record_attempt i (at_number a, model, ''failed'', used, cost)) (\<lambda>_.
      bnd (observe i ''ai.provider.failure''
        [(''attempt'', PInt (at_number a)), (''code'', PStr code), (''retryable'', PBool retryable),
         (''cost'', PStr (decimal_str cost)), (''cumulative_cost'', PStr (decimal_str (lv_spent l))),
         (''adapter_key'', PStr (rt_adapter_key (at_candidate a)))]) (\<lambda>_.
      bnd (modify_invocation i (\<lambda>v. v\<lparr>inv_cumulative_cost := lv_spent l,
             inv_cumulative_usage := total_usage l, inv_next_provider_attempt := at_number a + 1,
             inv_last_provider_failure_code := Some code,
             inv_last_provider_failure_retryable := retryable\<rparr>)) (\<lambda>_.
      bnd (record_health_failure (ge_health_cooldown env) model code) (\<lambda>_.
      bnd (checkpoint i) (\<lambda>_.
      ret (l\<lparr>lv_failure := Some f\<rparr>))))))))"

definition cache_hit ::
  "('z gateway_state_scheme) gateway_env \<Rightarrow> attempt_context \<Rightarrow> attempt_vars
   \<Rightarrow> ('z gateway_state_scheme, AIInvocationResponse option) eff"
where
  "cache_hit env a l =
     (let r = at_request a; i = at_invocation a;
          key = cache_key (ge_tx env) (ge_repr_parameters env) r (lv_digest l) (at_candidate a) in
      bnd (if cache_eligible r
           then bnd clock_now (\<lambda>now. cached (rq_tenant_id r) (rq_workspace_id r) key now)
           else ret None) (\<lambda>entry.
      case entry of
        None \<Rightarrow> ret None
      | Some c \<Rightarrow>
          bnd clock_now (\<lambda>now.
          if cc_expires_at c \<le> now then ret None else
          let usage = \<lparr>input_tokens = lv_input l + input_tokens (cc_usage c),
                output_tokens = lv_output l + output_tokens (cc_usage c),
                cached_tokens = input_tokens (cc_usage c),
                reasoning_tokens = reasoning_tokens (cc_usage c), estimated = estimated (cc_usage c)\<rparr>
          in bnd (reconcile i (lv_spent l) usage (Some (at_owner a, at_generation a))) (\<lambda>_.
             bnd (success (ge_tx env) i (cc_content c) usage
                    (case cc_route c of None \<Rightarrow> at_candidate a | Some route \<Rightarrow> route) True) (\<lambda>response.
             bnd (observe i ''ai.cache.hit''
               [(''cache_key'', PStr key),
                (''estimated_savings'', PStr (decimal_str (rt_estimated_cost (at_candidate a)))),
                (''cached_tokens'', PInt (cached_tokens usage))]) (\<lambda>_.
             bnd (checkpoint i) (\<lambda>_.
             ret (Some response))))))))"

definition deadline_passed :: "AIInvocationRequest \<Rightarrow> ('z gateway_state_scheme, bool) eff" where
  "deadline_passed r = (case rq_deadline r of
       None \<Rightarrow> ret False
     | Some d \<Rightarrow> bnd clock_now (\<lambda>now. lift (dt_leq d (Aware now))))"

text \<open>The loop over the candidates: a response ends it, falling through leaves the variables.\<close>

fun attempt_loop ::
  "('z gateway_state_scheme) gateway_env \<Rightarrow> string \<Rightarrow> AIInvocationRequest \<Rightarrow> string \<Rightarrow> int
   \<Rightarrow> RouteDecision list \<Rightarrow> int \<Rightarrow> attempt_vars
   \<Rightarrow> ('z gateway_state_scheme, AIInvocationResponse + attempt_vars) eff"
where
  "attempt_loop env i r owner generation [] n l = ret (Inr l)"
| "attempt_loop env i r owner generation (candidate # rest) n l =
     (let a = \<lparr>at_invocation = i, at_request = r, at_candidate = candidate, at_number = n,
               at_owner = owner, at_generation = generation\<rparr> in
      if rq_max_total_cost r - lv_spent l < rt_estimated_cost candidate
      then ret (Inr (l\<lparr>lv_failure := Some (''AI_FALLBACK_BUDGET_EXHAUSTED'', False, None)\<rparr>))
      else bnd (deadline_passed r) (\<lambda>late.
      if late then ret (Inr (l\<lparr>lv_failure := Some (''AI_PROVIDER_TIMEOUT'', False, None)\<rparr>))
      else bnd (if 1 < n then transition i INV_RETRYING else ret ()) (\<lambda>_.
      bnd (modify_invocation i (\<lambda>v. v\<lparr>inv_route := Some candidate\<rparr>)) (\<lambda>_.
      bnd (checkpoint i) (\<lambda>_.
      bnd (cache_hit env a l) (\<lambda>hit.
      case hit of
        Some response \<Rightarrow> ret (Inl response)
      | None \<Rightarrow>
          bnd (transition i INV_INVOKED) (\<lambda>_.
          bnd (health_state (rt_model_key candidate)) (\<lambda>health.
          bnd (observe i ''ai.provider.attempt''
            [(''attempt'', PInt n), (''model_key'', PStr (rt_model_key candidate)),
             (''adapter_key'', PStr (rt_adapter_key candidate)), (''provider_health'', PStr health),
             (''prior_spend'', PStr (decimal_str (lv_spent l))),
             (''remaining_budget'', PStr (decimal_str (rq_max_total_cost r - lv_spent l))),
             (''failover_reason'', PStr (case lv_failure l of
                 Some (code, _) \<Rightarrow> if 1 < n then code else [] | None \<Rightarrow> []))]) (\<lambda>_.
          bnd (guard (rt_adapter_key candidate \<in> ge_adapters env) (KeyError (rt_adapter_key candidate))) (\<lambda>_.
          bnd (attempt env a l) (\<lambda>outcome.
          case outcome of
            Responded response \<Rightarrow> ret (Inl response)
          | LowConfidence l' \<Rightarrow> attempt_loop env i r owner generation rest (n + 1) l'
          | AttemptFailed f l' \<Rightarrow>
              bnd (attempt_failed env a f l') (\<lambda>l''.
              if fst (snd f) then attempt_loop env i r owner generation rest (n + 1) l''
              else ret (Inr l'')))))))))))))"

section \<open>execute and invoke\<close>

text \<open>\<^verbatim>\<open>xs[:n]\<close>, where a negative bound counts from the end.\<close>

definition slice_to :: "'a list \<Rightarrow> int \<Rightarrow> 'a list" where
  "slice_to xs n = (if 0 \<le> n then take (nat n) xs else take (length xs - nat (- n)) xs)"

definition to_lower :: "string \<Rightarrow> string" where
  "to_lower s = map (\<lambda>c. let n = of_char c :: nat in
     if 65 \<le> n \<and> n \<le> 90 \<or> 192 \<le> n \<and> n \<le> 222 \<and> n \<noteq> 215 then char_of (n + 32) else c) s"

record prepared =
  pd_prompt :: string
  pd_tokens :: int
  pd_digest :: string
  pd_route :: RouteDecision
  pd_reservation :: GatewayReservation

definition planned_route ::
  "('z gateway_state_scheme) gateway_env \<Rightarrow> GatewayInvocation \<Rightarrow> int \<Rightarrow> ('z gateway_state_scheme, RouteDecision) eff"
where
  "planned_route env v tokens =
     (let sequence = inv_provider_sequence v in
      if sequence \<noteq> []
      then ret (sequence ! nat (min (inv_next_provider_attempt v - 1) (int (length sequence) - 1)))
      else select_route (ge_tx env) (ge_catalog env) (inv_request v) tokens)"

text \<open>Policy, context, route and budget reservation: the part of \<^verbatim>\<open>execute\<close> during which no
  reservation is held yet.\<close>

definition prepare_execution ::
  "('z gateway_state_scheme) gateway_env \<Rightarrow> string \<Rightarrow> ('z gateway_state_scheme, prepared) eff"
where
  "prepare_execution env i =
     bnd (transition i INV_POLICY_VALIDATED) (\<lambda>_.
     bnd (load_invocation i) (\<lambda>v. let r = inv_request v in
     bnd (lift (assemble (ge_tx env) (ge_packages env) r 0)) (\<lambda>(prompt, tokens, digest).
     bnd (observe i ''ai.context.prepared''
       [(''input_tokens'', PInt tokens), (''context_digest'', PStr digest), (''stage'', PInt 0)]) (\<lambda>_.
     bnd (planned_route env v tokens) (\<lambda>route.
     bnd (modify_invocation i (\<lambda>v. v\<lparr>inv_route := Some route\<rparr>)) (\<lambda>_.
     bnd (observe i ''ai.route.decided''
       [(''model_key'', PStr (rt_model_key route)), (''adapter_key'', PStr (rt_adapter_key route)),
        (''decision_reference'', PStr (rt_decision_reference route)),
        (''excluded'', PDict (map (\<lambda>(k, x). (k, PStr x)) (rt_excluded route)))]) (\<lambda>_.
     bnd (transition i INV_PROVIDER_SELECTED) (\<lambda>_.
     bnd (checkpoint i) (\<lambda>_.
     bnd clock_now (\<lambda>now.
     bnd (lift (find_model (ge_catalog env) (rt_model_key route))) (\<lambda>_.
     bnd (reserve i (rq_tenant_id r) (rq_workspace_id r) (rq_max_total_cost r) now) (\<lambda>reservation.
     ret \<lparr>pd_prompt = prompt, pd_tokens = tokens, pd_digest = digest, pd_route = route,
          pd_reservation = reservation\<rparr>))))))))))))"

definition provider_candidates ::
  "('z gateway_state_scheme) gateway_env \<Rightarrow> string \<Rightarrow> prepared \<Rightarrow> ('z gateway_state_scheme, RouteDecision list) eff"
where
  "provider_candidates env i p =
     bnd (load_invocation i) (\<lambda>v. let r = inv_request v in
     if inv_provider_sequence v \<noteq> [] then ret (inv_provider_sequence v)
     else bnd (if rq_allow_fallback r
               then bnd (eligible_routes (ge_tx env) (ge_catalog env) r (pd_tokens p)) (\<lambda>routes.
                    ret (filter (\<lambda>c. rt_model_key c \<noteq> rt_model_key (pd_route p)) routes))
               else ret []) (\<lambda>fallback.
          let candidates = pd_route p # fallback in
          bnd (modify_invocation i (\<lambda>v. v\<lparr>inv_provider_sequence :=
                 slice_to candidates (rq_max_provider_attempts r)\<rparr>)) (\<lambda>_.
          bnd (checkpoint i) (\<lambda>_.
          ret candidates))))"

definition initial_vars :: "GatewayInvocation \<Rightarrow> prepared \<Rightarrow> attempt_vars" where
  "initial_vars v p =
     \<lparr>lv_spent = inv_cumulative_cost v, lv_input = input_tokens (inv_cumulative_usage v),
      lv_output = output_tokens (inv_cumulative_usage v),
      lv_cached = cached_tokens (inv_cumulative_usage v),
      lv_reasoning = reasoning_tokens (inv_cumulative_usage v),
      lv_failure = map_option (\<lambda>code. (code, inv_last_provider_failure_retryable v, None))
        (inv_last_provider_failure_code v),
      lv_prompt = pd_prompt p, lv_tokens = pd_tokens p, lv_digest = pd_digest p\<rparr>"

definition settle_failure ::
  "string \<Rightarrow> string \<Rightarrow> int \<Rightarrow> attempt_vars \<Rightarrow> ('z gateway_state_scheme, AIInvocationResponse) eff"
where
  "settle_failure i owner generation l =
     bnd (load_invocation i) (\<lambda>v.
     bnd (if 0 < lv_spent l
          then reconcile i (lv_spent l) (inv_cumulative_usage v) (Some (owner, generation))
          else release_reservation i ''released'') (\<lambda>_.
     bnd (case lv_failure l of
            None \<Rightarrow> failure i ''AI_GATEWAY_FAILURE'' False
          | Some (code, retryable, _) \<Rightarrow> failure i code retryable) (\<lambda>response.
     bnd (if 0 < lv_input l \<or> 0 < lv_output l
          then let response = response\<lparr>rsp_usage := Some (inv_cumulative_usage v)\<rparr> in
               bnd (modify_invocation i (\<lambda>v. v\<lparr>inv_terminal := Some response\<rparr>)) (\<lambda>_. ret response)
          else ret response) (\<lambda>response.
     bnd (checkpoint i) (\<lambda>_.
     ret response)))))"

definition run_execution ::
  "('z gateway_state_scheme) gateway_env \<Rightarrow> string \<Rightarrow> string \<Rightarrow> int \<Rightarrow> prepared
   \<Rightarrow> ('z gateway_state_scheme, AIInvocationResponse) eff"
where
  "run_execution env i owner generation p =
     bnd (transition i INV_PREPARED) (\<lambda>_.
     bnd (observe i ''ai.budget.reserved''
       [(''amount'', PStr (decimal_str (rsv_amount (pd_reservation p)))),
        (''expires_at'', PStr (isoformat (ge_tx env) (Aware (rsv_expires_at (pd_reservation p)))))]) (\<lambda>_.
     bnd (checkpoint i) (\<lambda>_.
     bnd (provider_candidates env i p) (\<lambda>candidates.
     bnd (load_invocation i) (\<lambda>v. let r = inv_request v in
     bnd (attempt_loop env i r owner generation
            (drop (nat (inv_next_provider_attempt v - 1)) (slice_to candidates (rq_max_provider_attempts r)))
            (inv_next_provider_attempt v) (initial_vars v p)) (\<lambda>outcome.
     case outcome of
       Inl response \<Rightarrow> ret response
     | Inr l \<Rightarrow> settle_failure i owner generation l))))))"

definition record_intent :: "string \<Rightarrow> AIInvocationResponse \<Rightarrow> ('z gateway_state_scheme, unit) eff" where
  "record_intent i response =
     bnd (modify_invocation i (\<lambda>v. v\<lparr>inv_terminal_intent := Some response,
            inv_recovery_phase := ''terminalization_pending''\<rparr>)) (\<lambda>_.
     suppress (bnd (checkpoint_terminal_intent i) (\<lambda>_. checkpoint i)))"

definition failure_code :: "GatewayInvocation \<Rightarrow> exn \<Rightarrow> string" where
  "failure_code v e =
     (case inv_last_provider_failure_code v of
        Some code \<Rightarrow> if code \<noteq> [] then code else
          (if contains ''input ceiling'' (to_lower (exn_str e)) then ''AI_INPUT_LIMIT_EXCEEDED''
           else if contains ''persist'' (to_lower (exn_str e)) then ''AI_GATEWAY_PERSISTENCE_FAILURE''
           else ''AI_GATEWAY_FAILURE'')
      | None \<Rightarrow>
          (if contains ''input ceiling'' (to_lower (exn_str e)) then ''AI_INPUT_LIMIT_EXCEEDED''
           else if contains ''persist'' (to_lower (exn_str e)) then ''AI_GATEWAY_PERSISTENCE_FAILURE''
           else ''AI_GATEWAY_FAILURE''))"

definition execution_error ::
  "('z gateway_state_scheme) gateway_env \<Rightarrow> string \<Rightarrow> bool \<Rightarrow> exn \<Rightarrow> ('z gateway_state_scheme, AIInvocationResponse) eff"
where
  "execution_error env i reserved e =
     (case e of
        CancelledError \<Rightarrow>
          bnd (if reserved then release_reservation i ''released'' else ret ()) (\<lambda>_.
          bnd (failure i ''AI_PROVIDER_CANCELLED'' False) (\<lambda>response.
          bnd (record_intent i response) (\<lambda>_.
          ret response)))
      | ExecutionOwnershipLost _ \<Rightarrow> wait_for_terminal (ge_wait env) i
      | GeneratorExit \<Rightarrow> raise GeneratorExit
      | _ \<Rightarrow>
          bnd (if reserved then suppress (release_reservation i ''released'') else ret ()) (\<lambda>_.
          bnd (load_invocation i) (\<lambda>v.
          bnd (failure i (failure_code v e) False) (\<lambda>response.
          bnd (record_intent i response) (\<lambda>_.
          ret response)))))"

definition execute ::
  "('z gateway_state_scheme) gateway_env \<Rightarrow> string \<Rightarrow> ('z gateway_state_scheme, AIInvocationResponse) eff"
where
  "execute env i =
     bnd (load_invocation i) (\<lambda>v.
     case inv_terminal v of
       Some response \<Rightarrow> ret response
     | None \<Rightarrow>
         bnd uuid_hex (\<lambda>u. let owner = ''gateway-worker:'' @ u in
         bnd clock_now (\<lambda>now.
         bnd (claim_execution i owner now (ge_execution_lease env)) (\<lambda>claim.
         case claim of
           None \<Rightarrow> wait_for_terminal (ge_wait env) i
         | Some generation \<Rightarrow>
             bnd clock_now (\<lambda>now.
             bnd (modify_invocation i (\<lambda>v. v\<lparr>inv_execution_owner := Some owner,
                    inv_execution_lease_expires_at := Some (now + ge_execution_lease env),
                    inv_claim_generation := generation, inv_recovery_phase := ''claimed''\<rparr>)) (\<lambda>_.
             bnd (load_invocation i) (\<lambda>v.
             case inv_terminal_intent v of
               Some response \<Rightarrow>
                 bnd (modify_invocation i (\<lambda>v. v\<lparr>inv_terminal := Some response,
                        inv_recovery_phase := ''terminalization_pending''\<rparr>)) (\<lambda>_.
                 bnd (finally_do (checkpoint i) (release_execution i owner generation)) (\<lambda>_.
                 ret response))
             | None \<Rightarrow>
                 finally_do
                   (bnd (catch (bnd (prepare_execution env i) (\<lambda>p. ret (Inr p)))
                           (\<lambda>e. bnd (execution_error env i False e) (\<lambda>x. ret (Inl x)))) (\<lambda>started.
                    case started of
                      Inl response \<Rightarrow> ret response
                    | Inr p \<Rightarrow> catch (run_execution env i owner generation p) (execution_error env i True)))
                   (suppress (release_execution i owner generation)))))))))"

definition gateway_invoke ::
  "('z gateway_state_scheme) gateway_env \<Rightarrow> AIInvocationRequest \<Rightarrow> ('z gateway_state_scheme, AIInvocationResponse) eff"
where
  "gateway_invoke env r =
     bnd (gateway_accept (ge_tx env) (ge_authority env) r) (\<lambda>accepted.
     let i = acc_ai_invocation_id accepted in
     bnd (load_invocation i) (\<lambda>v.
     case inv_terminal v of
       Some response \<Rightarrow> ret response
     | None \<Rightarrow>
         catch (execute env i) (\<lambda>e.
           if is_exception e
           then bnd (failure i ''AI_GATEWAY_PERSISTENCE_FAILURE'' False) (\<lambda>response.
                bnd (record_intent i response) (\<lambda>_.
                ret response))
           else raise e)))"

end
