(* ===== verification/Gateway_Budget.thy ===== *)
theory Gateway_Budget
  imports Gateway_Claims
begin

text \<open>
  The budget ledger of \<^verbatim>\<open>ReferenceGatewayStore\<close>: reservations are admitted against a hard
  tenant limit and a hard workspace limit. The theorems here show that the limits hold in every
  reachable ledger state as long as no reservation that was released on expiry is reconciled
  afterwards, and that such a late reconciliation does break the limit
  (\<open>late_reconcile_overcommits\<close>).
\<close>

section \<open>Sums over reservations\<close>

definition weight :: "(GatewayReservation \<Rightarrow> bool) \<Rightarrow> GatewayReservation \<Rightarrow> rat" where
  "weight P r = (if P r then dval (rsv_amount r) else 0)"

definition ledger_total :: "(GatewayReservation \<Rightarrow> bool) \<Rightarrow> (string, GatewayReservation) odict \<Rightarrow> rat" where
  "ledger_total P rs = sum_list (map (\<lambda>(_, r). weight P r) rs)"

lemma total_simps [simp]:
  "ledger_total P [] = 0" "ledger_total P ((k, r) # rs) = weight P r + ledger_total P rs"
  by (simp_all add: ledger_total_def)

lemma total_filter: "sum_list (map dval (map (\<lambda>(_, r). rsv_amount r) (filter (\<lambda>(_, r). P r) rs))) = ledger_total P rs"
  by (induction rs) (auto simp: weight_def)

lemma tenant_used_total [simp]:
  "dval (tenant_used rs t) = ledger_total (\<lambda>r. held r \<and> rsv_tenant_id r = t) rs"
  unfolding tenant_used_def dval_dec_sum by (rule total_filter)

lemma workspace_used_total [simp]:
  "dval (workspace_used rs t w) = ledger_total (\<lambda>r. held r \<and> rsv_tenant_id r = t \<and> rsv_workspace_id r = w) rs"
  unfolding workspace_used_def dval_dec_sum by (rule total_filter)

lemma total_new: "map_of rs k = None \<Longrightarrow> ledger_total P (od_put k r rs) = ledger_total P rs + weight P r"
  by (induction rs) (auto split: if_splits)

lemma total_change:
  "map_of rs k = Some r \<Longrightarrow> ledger_total P (od_put k r' rs) = ledger_total P rs - weight P r + weight P r'"
  by (induction rs) (auto split: if_splits)

lemma total_map_le:
  assumes "\<And>k r. (k, r) \<in> set rs \<Longrightarrow> weight P (f r) \<le> weight P r"
  shows "ledger_total P (map (\<lambda>(k, r). (k, f r)) rs) \<le> ledger_total P rs"
  using assms by (induction rs) (fastforce intro: add_mono)+

section \<open>The ledger's runs\<close>

definition budget_ok :: "'z gateway_state_scheme \<Rightarrow> bool" where
  "budget_ok s \<longleftrightarrow>
     (\<forall>(k, r) \<in> set (reservations s). 0 \<le> dval (rsv_amount r))
     \<and> (\<forall>t. dval (tenant_used (reservations s) t) \<le> dval (tenant_limit s))
     \<and> (\<forall>t w. dval (workspace_used (reservations s) t w) \<le> dval (workspace_limit s))"

definition settled_in_time :: "string \<Rightarrow> 'z gateway_state_scheme \<Rightarrow> bool" where
  "settled_in_time i s \<longleftrightarrow> (\<forall>r. map_of (reservations s) i = Some r \<longrightarrow> held r)"

inductive ledger_step :: "'z gateway_state_scheme \<Rightarrow> 'z gateway_state_scheme \<Rightarrow> bool" where
  ledger_reserve: "0 \<le> dval amount \<Longrightarrow> reserve i tenant workspace amount now s = (x, t) \<Longrightarrow> ledger_step s t"
| ledger_reconcile: "settled_in_time i s \<Longrightarrow> reconcile i actual usage claim s = (u, t) \<Longrightarrow> ledger_step s t"
| ledger_usage: "settled_in_time i s \<Longrightarrow>
     record_usage i usage cost k kind final claim s = (u, t) \<Longrightarrow> ledger_step s t"
| ledger_release: "release_reservation i state s = (u, t) \<Longrightarrow> ledger_step s t"
| ledger_expire: "release_expired now s = (is, t) \<Longrightarrow> ledger_step s t"
| ledger_other: "reservations t = reservations s \<Longrightarrow> tenant_limit t = tenant_limit s \<Longrightarrow>
     workspace_limit t = workspace_limit s \<Longrightarrow> ledger_step s t"

inductive_cases ledger_stepE: "ledger_step s t"

lemma budget_ok_frame:
  "reservations t = reservations s \<Longrightarrow> tenant_limit t = tenant_limit s \<Longrightarrow>
   workspace_limit t = workspace_limit s \<Longrightarrow> budget_ok s \<Longrightarrow> budget_ok t"
  by (simp add: budget_ok_def)

text \<open>A ledger that holds at most as much as a budgeted one, for every selection by scope, is
  budgeted.\<close>

lemma budget_ok_le:
  assumes "budget_ok s" "tenant_limit t = tenant_limit s" "workspace_limit t = workspace_limit s"
    and "\<And>k r. (k, r) \<in> set (reservations t) \<Longrightarrow> 0 \<le> dval (rsv_amount r)"
    and "\<And>x. ledger_total (\<lambda>r. held r \<and> rsv_tenant_id r = x) (reservations t)
           \<le> ledger_total (\<lambda>r. held r \<and> rsv_tenant_id r = x) (reservations s)"
    and "\<And>x y. ledger_total (\<lambda>r. held r \<and> rsv_tenant_id r = x \<and> rsv_workspace_id r = y) (reservations t)
           \<le> ledger_total (\<lambda>r. held r \<and> rsv_tenant_id r = x \<and> rsv_workspace_id r = y) (reservations s)"
  shows "budget_ok t"
  using assms(1-4) order_trans [OF assms(5)] order_trans [OF assms(6)] by (auto simp: budget_ok_def)

lemma budget_ok_change:
  assumes "budget_ok s" "map_of (reservations s) i = Some r"
    and "rsv_amount r' = rsv_amount r" "rsv_tenant_id r' = rsv_tenant_id r"
      "rsv_workspace_id r' = rsv_workspace_id r" "held r' \<Longrightarrow> held r"
    and "reservations t = od_put i r' (reservations s)" "tenant_limit t = tenant_limit s"
      "workspace_limit t = workspace_limit s"
  shows "budget_ok t"
proof (rule budget_ok_le [OF assms(1,8,9)])
  have nn: "0 \<le> dval (rsv_amount r)"
    using assms(1) map_of_SomeD [OF assms(2)] by (auto simp: budget_ok_def)
  show "0 \<le> dval (rsv_amount q)" if "(k, q) \<in> set (reservations t)" for k q
    using that assms(1,3,7) nn set_od_put_subset [of i r' "reservations s"]
    by (fastforce simp: budget_ok_def)
qed (use assms(1,3-6) map_of_SomeD [OF assms(2)] in
      \<open>auto simp: assms(7) total_change [OF assms(2)] weight_def budget_ok_def\<close>)

lemma budget_ok_settle:
  assumes "budget_ok s" "tenant_limit t = tenant_limit s" "workspace_limit t = workspace_limit s"
    "map_of (reservations s) i = Some r" "held r"
    "reservations t = od_put i (r\<lparr>rsv_state := st, rsv_actual := a\<rparr>) (reservations s)"
  shows "budget_ok t"
  by (rule budget_ok_change [OF assms(1,4) _ _ _ _ assms(6,2,3)]) (simp_all add: assms(5))

lemma budget_ok_reserve:
  assumes "budget_ok s" "0 \<le> dval amount" "reserve i tenant workspace amount now s = (x, t)"
  shows "budget_ok t"
proof (cases "t = s")
  case False
  let ?r = "\<lparr>rsv_invocation_id = i, rsv_tenant_id = tenant, rsv_workspace_id = workspace,
    rsv_amount = amount, rsv_state = ''pending'', rsv_expires_at = now + 300000000, rsv_actual = None\<rparr>"
  from assms(3) False have new: "map_of (reservations s) i = None"
    and t: "t = s\<lparr>reservations := od_put i ?r (reservations s)\<rparr>"
    and fits: "dval (tenant_used (reservations s) tenant) + dval amount \<le> dval (tenant_limit s)"
      "dval (workspace_used (reservations s) tenant workspace) + dval amount \<le> dval (workspace_limit s)"
    by (auto simp: reserve_def effect_simps dec_order split: store_splits)
  have "\<forall>(k, q) \<in> set (reservations t). 0 \<le> dval (rsv_amount q)"
    using assms(1,2) t set_od_put_subset [of i ?r "reservations s"] by (fastforce simp: budget_ok_def)
  moreover have "ledger_total (\<lambda>r. held r \<and> rsv_tenant_id r = y) (reservations t) \<le> dval (tenant_limit t)" for y
    using assms(1) fits by (auto simp: t total_new [OF new] weight_def budget_ok_def)
  moreover have "ledger_total (\<lambda>r. held r \<and> rsv_tenant_id r = y \<and> rsv_workspace_id r = z) (reservations t)
      \<le> dval (workspace_limit t)" for y z
    using assms(1) fits by (auto simp: t total_new [OF new] weight_def budget_ok_def)
  ultimately show ?thesis by (simp add: budget_ok_def)
qed (use assms in simp)

lemma budget_ok_expire:
  assumes "budget_ok s" "release_expired now s = (is, t)"
  shows "budget_ok t"
proof -
  let ?f = "\<lambda>r. if expired now r then r\<lparr>rsv_state := ''released''\<rparr> else r"
  have t: "reservations t = map (\<lambda>(k, r). (k, ?f r)) (reservations s)"
    "tenant_limit t = tenant_limit s" "workspace_limit t = workspace_limit s"
    using assms(2) by (auto simp: release_expired_def effect_simps)
  have nn: "0 \<le> dval (rsv_amount r)" if "(k, r) \<in> set (reservations s)" for k r
    using that assms(1) by (auto simp: budget_ok_def)
  show ?thesis
    by (rule budget_ok_le [OF assms(1) t(2,3)])
       (auto simp: t(1) weight_def held_def nn intro!: total_map_le)
qed

lemma reconcile_ledger:
  assumes "reconcile i actual usage claim s = (u, t)"
  shows "tenant_limit t = tenant_limit s \<and> workspace_limit t = workspace_limit s
    \<and> (reservations t = reservations s \<or> (\<exists>r. map_of (reservations s) i = Some r
         \<and> reservations t = od_put i (r\<lparr>rsv_state := ''committed'', rsv_actual := Some actual\<rparr>) (reservations s)))"
  using assms by (auto simp: reconcile_def effect_simps split: store_splits)

lemma usage_ledger:
  assumes "record_usage i usage cost k kind final claim s = (u, t)"
  shows "tenant_limit t = tenant_limit s \<and> workspace_limit t = workspace_limit s
    \<and> (reservations t = reservations s \<or> (\<exists>r. map_of (reservations s) i = Some r
         \<and> reservations t = od_put i (r\<lparr>rsv_state := (if final then ''committed'' else ''usage_pending''),
             rsv_actual := rsv_actual (the (map_of (reservations t) i))\<rparr>) (reservations s)))"
proof (cases "fst (fence_option i claim s)")
  case (Inl e)
  with fence_option_state [of i claim s] assms show ?thesis
    by (simp add: record_usage_def bnd_def)
next
  case (Inr x)
  then have fence: "fence_option i claim s = (Inr (), s)"
    using fence_option_state [of i claim s] by simp
  show ?thesis
  proof (cases "map_of (reservations s) i")
    case None
    with assms show ?thesis
      by (auto simp add: record_usage_def fence effect_simps Let_def simp del: fence_option_apply)
  next
    case (Some r)
    with assms show ?thesis
      by (auto simp add: record_usage_def fence effect_simps Let_def simp del: fence_option_apply)
  qed
qed

lemma release_ledger:
  assumes "release_reservation i state s = (u, t)"
  shows "t = s \<or> (\<exists>r. map_of (reservations s) i = Some r \<and> held r
         \<and> t = s\<lparr>reservations := od_put i (r\<lparr>rsv_state := state\<rparr>) (reservations s)\<rparr>)"
  using assms by (auto simp: release_reservation_def effect_simps held_def split: store_splits)

lemma budget_ok_release:
  assumes "budget_ok s" "release_reservation i state s = (u, t)"
  shows "budget_ok t"
  using release_ledger [OF assms(2)]
proof
  assume "\<exists>r. map_of (reservations s) i = Some r \<and> held r
    \<and> t = s\<lparr>reservations := od_put i (r\<lparr>rsv_state := state\<rparr>) (reservations s)\<rparr>"
  then obtain r where r: "map_of (reservations s) i = Some r" "held r"
    "t = s\<lparr>reservations := od_put i (r\<lparr>rsv_state := state\<rparr>) (reservations s)\<rparr>" by blast
  show ?thesis
    by (rule budget_ok_change [OF assms(1) r(1), of "r\<lparr>rsv_state := state\<rparr>"]) (simp_all add: r)
qed (use assms in simp)

lemma budget_ok_settled:
  assumes "budget_ok s" "settled_in_time i s"
    and "reconcile i actual usage claim s = (u, t) \<or> record_usage i usage cost k kind final claim s = (u, t)"
  shows "budget_ok t"
  using assms(3)
proof
  assume "reconcile i actual usage claim s = (u, t)"
  from reconcile_ledger [OF this] assms(1,2) show ?thesis
    unfolding settled_in_time_def by (metis budget_ok_frame budget_ok_settle)
next
  assume "record_usage i usage cost k kind final claim s = (u, t)"
  from usage_ledger [OF this] assms(1,2) show ?thesis
    unfolding settled_in_time_def by (metis budget_ok_frame budget_ok_settle)
qed

lemma ledger_step_ok: "ledger_step s t \<Longrightarrow> budget_ok s \<Longrightarrow> budget_ok t"
  by (erule ledger_stepE)
     (blast intro: budget_ok_reserve budget_ok_expire budget_ok_release budget_ok_settled budget_ok_frame)+

lemma ledger_run_ok: "ledger_step\<^sup>*\<^sup>* s t \<Longrightarrow> budget_ok s \<Longrightarrow> budget_ok t"
  by (induction rule: rtranclp_induct) (auto intro: ledger_step_ok)

text \<open>C24 (invariant). The hard budgets hold: from an empty ledger with non-negative limits, in every state
  reachable by any interleaving of reservations, settlements in time, releases and expiries, what
  a tenant and what a workspace hold together (pending, usage-pending and committed) never exceeds
  its limit.\<close>

theorem hard_budget_never_exceeded:
  assumes "ledger_step\<^sup>*\<^sup>* s t" and "reservations s = []"
    and "0 \<le> dval (tenant_limit s)" and "0 \<le> dval (workspace_limit s)"
  shows "dval (tenant_used (reservations t) tenant) \<le> dval (tenant_limit t)
    \<and> dval (workspace_used (reservations t) tenant workspace) \<le> dval (workspace_limit t)"
proof -
  have "budget_ok s" using assms(2-4) by (simp add: budget_ok_def)
  with ledger_run_ok [OF assms(1)] show ?thesis by (simp add: budget_ok_def)
qed

section \<open>Concrete ledgers\<close>

lemma sample_reserve:
  "\<exists>r t. reserve ''ai1'' ''t'' ''w'' (Dec 60 0) 0 gateway_accepted = (Inr r, t)
     \<and> reservations t = [(''ai1'', r)] \<and> held r \<and> rsv_tenant_id r = ''t'' \<and> rsv_amount r = Dec 60 0"
  by (simp add: reserve_def effect_simps gateway_accepted_def store_accept_def dec_order held_def)

theorem hard_budget_never_exceeded_witness:
  "\<exists>t. snd (reserve ''ai1'' ''t'' ''w'' (Dec 60 0) 0 gateway_accepted) = t
     \<and> dval (tenant_used (reservations t) ''t'') = 60
     \<and> dval (tenant_used (reservations t) ''t'') \<le> dval (tenant_limit t)"
proof -
  obtain r t where t: "reserve ''ai1'' ''t'' ''w'' (Dec 60 0) 0 gateway_accepted = (Inr r, t)"
    "reservations t = [(''ai1'', r)]" "held r" "rsv_tenant_id r = ''t''" "rsv_amount r = Dec 60 0"
    using sample_reserve by blast
  have "ledger_step gateway_accepted t" by (rule ledger_reserve [OF _ t(1)]) simp
  then have "ledger_step\<^sup>*\<^sup>* gateway_accepted t" by blast
  note bound = hard_budget_never_exceeded [OF this, of "''t''" "''w''"]
  have "reservations gateway_accepted = []" "0 \<le> dval (tenant_limit gateway_accepted)"
    "0 \<le> dval (workspace_limit gateway_accepted)"
    by (simp_all add: gateway_accepted_def store_accept_def effect_simps)
  with bound t show ?thesis by (simp add: weight_def)
qed

text \<open>
  The run that breaks the limit of 100: one invocation reserves 60, its reservation expires and is
  released, a second invocation reserves the freed 60, and the first one, still running, settles.
  \<^verbatim>\<open>reconcile\<close> sets the released reservation to committed without another look at the limits.
\<close>

definition late_run :: "(gateway_state, unit) eff" where
  "late_run =
     bnd (reserve ''ai1'' ''t'' ''w'' (Dec 60 0) 0) (\<lambda>_.
     bnd (release_expired 300000000) (\<lambda>_.
     bnd (reserve ''ai2'' ''t'' ''w'' (Dec 60 0) 300000000) (\<lambda>_.
     reconcile ''ai1'' (Dec 60 0) (usage_of 1 1) None)))"

text \<open>A settlement after expiry exceeds the hard budget: the four store operations above
  all succeed, and afterwards the tenant holds 120 against a limit of 100.\<close>

theorem late_reconcile_overcommits:
  "\<exists>t. late_run gateway_empty = (Inr (), t) \<and> dval (tenant_limit t) = 100
     \<and> dval (tenant_used (reservations t) ''t'') = 120"
  by (simp add: late_run_def reserve_def release_expired_def reconcile_def effect_simps dec_order
      expired_def held_def weight_def usage_of_def)

end
