(* ===== verification/Gateway_Spending.thy ===== *)
theory Gateway_Spending
  imports Gateway_Execution Gateway_Budget
begin

text \<open>
  What the execution of \<^verbatim>\<open>gateway.py\<close> guarantees about spending and output: repair rounds stay
  within the remaining budget, returned content is validated and within the output limit, and an
  invocation that ends in a response has spent at most the request's limit. The last section
  relates the printed actual cost to the amounts the Workflow Engine parses.
\<close>

section \<open>Repair\<close>

lemma repair_round_cost:
  "repair_round env a k available s = (Inr (content, usage, cost), t) \<Longrightarrow> dval cost \<le> dval available"
  unfolding repair_round_def Let_def
  by (auto simp: dec_order elim!: bnd_InrE split: if_splits)

lemma validated_output_Inr:
  "validated_output tx r c = Inr v \<Longrightarrow> validate_structured tx r c = Inr v \<and> estimate v \<le> rq_max_output_tokens r"
  by (auto simp: validated_output_def split: if_splits)

lemma repair_loop_result:
  assumes "repair_loop env a remaining n k content rin rout rcost s = (Inr (c, u, cost), t)"
    and "dval rcost \<le> dval remaining"
  shows "(\<exists>raw. validate_structured (ge_tx env) (at_request a) raw = Inr c)
    \<and> estimate c \<le> rq_max_output_tokens (at_request a) \<and> dval cost \<le> dval remaining"
  using assms
proof (induction n arbitrary: k content rin rout rcost s)
  case (Suc n)
  show ?case
  proof (cases "validated_output (ge_tx env) (at_request a) content")
    case (Inr v)
    with Suc.prems validated_output_Inr [OF Inr] show ?thesis by auto
  next
    case (Inl e)
    with Suc.prems(1) obtain c' u' cost' m where
      round: "repair_round env a k (remaining - rcost) s = (Inr (c', u', cost'), m)" and
      rest: "repair_loop env a remaining n (k + 1) c' (rin + input_tokens u') (rout + output_tokens u')
        (rcost + cost') m = (Inr (c, u, cost), t)"
      by (auto elim!: bnd_InrE split: if_splits)
    from repair_round_cost [OF round] have "dval (rcost + cost') \<le> dval remaining" by simp
    from Suc.IH [OF rest this] show ?thesis .
  qed
qed simp

text \<open>C27 (safety). What validation lets through: the content returned is within the request's output limit
  and, for a structured request, is the canonical form of provider output that passed the schema
  check; the repair rounds that led to it cost at most the budget that remained.\<close>

theorem repaired_output_valid:
  assumes "validate_and_repair env a content remaining s = (Inr (c, u, cost), t)"
    and "0 \<le> dval remaining"
  shows "estimate c \<le> rq_max_output_tokens (at_request a) \<and> dval cost \<le> dval remaining
    \<and> (rq_response_mode (at_request a) = STRUCTURED \<longrightarrow>
         (\<exists>raw. validate_structured (ge_tx env) (at_request a) raw = Inr c))
    \<and> (rq_response_mode (at_request a) \<noteq> STRUCTURED \<longrightarrow> c = content \<and> dval cost = 0)"
proof (cases "rq_response_mode (at_request a) = STRUCTURED")
  case True
  with assms(1) have "repair_loop env a remaining (nat (rq_repair_attempts (at_request a) + 1)) 0 content 0 0 0 s =
      (Inr (c, u, cost), t)" by (simp add: validate_and_repair_def)
  from repair_loop_result [OF this] assms(2) True show ?thesis by simp
next
  case False
  with assms show ?thesis by (auto simp: validate_and_repair_def split: if_splits)
qed

section \<open>What settlement leaves behind\<close>

definition cost_is :: "string \<Rightarrow> decimal \<Rightarrow> 'z gateway_state_scheme \<Rightarrow> bool" where
  "cost_is i c s \<longleftrightarrow> (\<exists>v. map_of (invocations s) i = Some v \<and> inv_cumulative_cost v = c)"

definition settled_at :: "string \<Rightarrow> decimal \<Rightarrow> 'z gateway_state_scheme \<Rightarrow> bool" where
  "settled_at i c s \<longleftrightarrow> (\<exists>r. map_of (reservations s) i = Some r \<and> rsv_actual r = Some c \<and> rsv_state r = ''committed'')"

definition answered :: "string \<Rightarrow> AIInvocationResponse \<Rightarrow> 'z gateway_state_scheme \<Rightarrow> bool" where
  "answered i x s \<longleftrightarrow> (\<exists>v. map_of (invocations s) i = Some v \<and> inv_terminal v = Some x)"

lemmas outcome_state = cost_is_def settled_at_def answered_def

lemma outcome_frame:
  assumes "\<And>s. invocations (f s) = invocations s" "\<And>s. reservations (f s) = reservations s"
  shows "cost_is i c (f s) = cost_is i c s" "settled_at i c (f s) = settled_at i c s"
    "answered i x (f s) = answered i x s"
  using assms by (simp_all add: outcome_state)

definition stable :: "('z gateway_state_scheme \<Rightarrow> bool) \<Rightarrow> bool" where
  "stable I \<longleftrightarrow> (\<forall>s t. invocations t = invocations s \<and> reservations t = reservations s \<longrightarrow> I t = I s)"

lemma stable_outcomes [simp]: "stable (cost_is i c)" "stable (settled_at i c)" "stable (answered i x)"
  by (auto simp: stable_def outcome_state)

lemma keeps_quiet:
  assumes "stable I" "\<And>s. invocations (snd (m s)) = invocations s" "\<And>s. reservations (snd (m s)) = reservations s"
  shows "keeps I m"
  using assms unfolding keeps_def stable_def by blast

lemma quiet_effects:
  assumes "stable I"
  shows "keeps I clock_now" "keeps I (new_id p)" "keeps I (load_invocation i)"
    "keeps I (record_log ctx sv m attrs)" "keeps I (checkpoint i)" "keeps I (assert_execution_owner i ow g)"
    "keeps I (fence_option i cl)" "keeps I (cache_content te ws k val)" "keeps I (record_attempt i row)"
    "keeps I (cached te ws k n)" "keeps I (record_health_success k)"
    "keeps I (record_health_failure n k code)" "keeps I (health_state k)"
    "keeps I (succeeded sc cid ev vr md pr)" "keeps I (fence env i ow g)"
  by (rule keeps_quiet [OF assms];
      simp add: effect_simps checkpoint_def cache_content_def record_attempt_def cached_def Let_def
        record_health_success_def record_health_failure_def health_state_def succeeded_def fence_def
        split: option.splits)+

lemma keeps_observe: "stable I \<Longrightarrow> keeps I (observe i operation attrs)"
  unfolding observe_def Let_def by (intro keeps_rules quiet_effects)

lemma keeps_modify:
  "(\<And>v. inv_cumulative_cost (f v) = inv_cumulative_cost v) \<Longrightarrow> keeps (cost_is i c) (modify_invocation j f)"
  "keeps (settled_at i c) (modify_invocation j f)"
  "(\<And>v. inv_terminal (f v) = inv_terminal v) \<Longrightarrow> keeps (answered i x) (modify_invocation j f)"
  by (auto simp: keeps_def effect_simps outcome_state split: option.splits)

lemma keeps_lifecycle:
  "stable I \<Longrightarrow> keeps I (upd (\<lambda>s. s\<lparr>lifecycle := h s\<rparr>))"
  by (rule keeps_quiet) (simp_all add: effect_simps)

lemma keeps_transition:
  "keeps (cost_is i c) (transition j st)" "keeps (settled_at i c) (transition j st)"
  "keeps (answered i x) (transition j st)"
  unfolding transition_def
  by (intro keeps_rules keeps_modify keeps_lifecycle keeps_observe stable_outcomes; simp)+

lemma keeps_success:
  "keeps (cost_is i c) (success tx j content usage route hit)"
  "keeps (settled_at i c) (success tx j content usage route hit)"
  unfolding success_def Let_def
  by (intro keeps_rules keeps_transition keeps_modify keeps_observe quiet_effects stable_outcomes; simp)+

lemma modify_answers:
  "triple (\<lambda>_. True) (modify_invocation i (\<lambda>v. v\<lparr>inv_terminal := Some x\<rparr>)) (\<lambda>_. answered i x)"
  by (auto simp: triple_def effect_simps answered_def split: option.splits)

lemma success_answers: "triple (\<lambda>_. True) (success tx i content usage route hit) (answered i)"
  unfolding success_def Let_def
  by (rule triple_bnd [OF triple_any] triple_bnd [OF modify_answers]
      triple_bnd [OF triple_keeps [OF keeps_observe [OF stable_outcomes(3)]]] triple_ret)+

lemma reconcile_settles:
  "reconcile i c usage claim s = (Inr u, t) \<Longrightarrow> settled_at i c t"
  by (auto simp: reconcile_def effect_simps settled_at_def split: store_splits)

lemma keeps_reconcile: "keeps (cost_is i c) (reconcile j actual usage claim)"
  unfolding reconcile_def
  by (intro keeps_rules quiet_effects stable_outcomes)
     (auto simp: keeps_def effect_simps cost_is_def split: option.splits)

lemma modify_cost:
  "modify_invocation i (\<lambda>v. v\<lparr>inv_cumulative_cost := c, inv_cumulative_usage := u\<rparr>) s = (Inr y, t) \<Longrightarrow> cost_is i c t"
  by (auto simp: effect_simps cost_is_def split: option.splits)

definition settled_response :: "string \<Rightarrow> decimal \<Rightarrow> AIInvocationResponse \<Rightarrow> 'z gateway_state_scheme \<Rightarrow> bool" where
  "settled_response i c x s \<longleftrightarrow> cost_is i c s \<and> settled_at i c s \<and> answered i x s"

lemma success_settled:
  "triple (\<lambda>s. cost_is i c s \<and> settled_at i c s) (success tx i content usage route hit) (settled_response i c)"
  by (rule triple_mono [OF triple_conj [OF triple_conj [OF triple_keeps [OF keeps_success(1)]
        triple_keeps [OF keeps_success(2)]] success_answers]])
     (auto simp: settled_response_def)

lemma stable_settled [simp]: "stable (settled_response i c x)" "stable (\<lambda>s. cost_is i c s \<and> settled_at i c s)"
  by (auto simp: stable_def outcome_state settled_response_def)

lemma reconcile_triple:
  "triple (cost_is i c) (reconcile i c usage claim) (\<lambda>_ s. cost_is i c s \<and> settled_at i c s)"
  by (rule tripleI) (auto dest: reconcile_settles keepsD [OF keeps_reconcile])

lemma settle_success_outcome:
  "triple (\<lambda>_. True) (settle_success env a l usage content)
     (settled_response (at_invocation a) (lv_spent l))"
proof -
  let ?i = "at_invocation a" and ?c = "lv_spent l"
  have modify: "triple (\<lambda>_. True) (modify_invocation ?i (\<lambda>v. v\<lparr>inv_cumulative_cost := ?c,
      inv_cumulative_usage := total_usage l\<rparr>)) (\<lambda>_. cost_is ?i ?c)"
    by (rule tripleI) (rule modify_cost)
  show ?thesis
    unfolding settle_success_def Let_def
    by (rule triple_bnd [OF modify] triple_bnd [OF triple_keeps [OF quiet_effects(15) [OF stable_outcomes(1)]]]
        triple_bnd [OF reconcile_triple] triple_bnd [OF success_settled]
        triple_bnd [OF triple_keeps [OF quiet_effects(5) [OF stable_settled(1)]]] triple_ret
        triple_bnd [OF triple_keeps] keeps_rules quiet_effects stable_settled(2))+
qed

section \<open>Attempts\<close>

definition within_limit :: "attempt_context \<Rightarrow> AIInvocationResponse \<Rightarrow> 'z gateway_state_scheme \<Rightarrow> bool" where
  "within_limit a x s \<longleftrightarrow>
     (\<exists>c. dval c \<le> dval (rq_max_total_cost (at_request a)) \<and> settled_response (at_invocation a) c x s)"

definition attempt_post :: "attempt_context \<Rightarrow> attempt_result \<Rightarrow> 'z gateway_state_scheme \<Rightarrow> bool" where
  "attempt_post a outcome s = (case outcome of
       Responded x \<Rightarrow> within_limit a x s
     | LowConfidence l \<Rightarrow> cost_is (at_invocation a) (lv_spent l) s
     | AttemptFailed f l \<Rightarrow> True)"

lemma triple_True: "(\<And>s x t. m s = (Inr x, t) \<Longrightarrow> Q x) \<Longrightarrow> triple (\<lambda>_. True) m (\<lambda>x _. Q x)"
  by (auto simp: triple_def)

lemma triple_catch_provider:
  "triple P m Q \<Longrightarrow> (\<And>f. triple (\<lambda>_. True) (h f) Q) \<Longrightarrow> triple P (catch_provider m h) Q"
  by (auto simp: triple_def catch_provider_def elim!: catch_InrE split: exn.splits)

lemma triple_if: "triple P m Q \<Longrightarrow> triple P n Q \<Longrightarrow> triple P (if b then m else n) Q"
  by simp

lemma triple_case_prod: "(\<And>x y. triple P (f x y) Q) \<Longrightarrow> triple P (case z of (x, y) \<Rightarrow> f x y) Q"
  by (cases z) simp

lemma attempt_call_bound:
  "attempt_call env a l s = (Inr (result, usage, cost), t) \<Longrightarrow>
   dval (lv_spent l + cost) \<le> dval (rq_max_total_cost (at_request a))
   \<and> output_tokens usage \<le> rq_max_output_tokens (at_request a)"
  unfolding attempt_call_def Let_def
  by (auto simp: dec_order elim!: bnd_InrE split: if_splits)

lemma modify_cost_escalation:
  "triple (\<lambda>_. True) (modify_invocation i (\<lambda>v. v\<lparr>inv_cumulative_cost := c, inv_cumulative_usage := u,
     inv_next_provider_attempt := n, inv_last_provider_failure_code := code,
     inv_last_provider_failure_retryable := b\<rparr>)) (\<lambda>_. cost_is i c)"
  by (auto simp: triple_def effect_simps cost_is_def split: option.splits)

lemma escalate_post:
  "triple (\<lambda>_. True) (escalate env a l) (\<lambda>l' s. cost_is (at_invocation a) (lv_spent l') s)"
  unfolding escalate_def Let_def
  by (rule triple_bnd [OF modify_cost_escalation] triple_case_prod
      triple_bnd [OF triple_keeps [OF keeps_observe [OF stable_outcomes(1)]]]
      triple_bnd [OF triple_keeps [OF quiet_effects(5) [OF stable_outcomes(1)]]]
      triple_bnd [OF triple_keeps [OF keeps_basic(4)]])+
     (simp add: triple_def)

lemma attempt_failed_post:
  "triple (\<lambda>_. True) (attempt_failed env a f l) (\<lambda>l' s. cost_is (at_invocation a) (lv_spent l') s)"
  unfolding attempt_failed_def Let_def
  by (rule triple_case_prod triple_bnd [OF modify_cost_escalation]
      triple_bnd [OF triple_keeps [OF quiet_effects(12) [OF stable_outcomes(1)]]]
      triple_bnd [OF triple_keeps [OF quiet_effects(5) [OF stable_outcomes(1)]]]
      triple_bnd [OF triple_any])+
     (simp add: triple_def)

lemma attempt_finish_post:
  assumes "dval (lv_spent l) \<le> dval (rq_max_total_cost (at_request a))"
  shows "triple (\<lambda>_. True) (attempt_finish env a l result usage cost) (attempt_post a)"
proof -
  have repair: "triple (\<lambda>_. True) (validate_and_repair env a content (rq_max_total_cost (at_request a) - lv_spent l))
      (\<lambda>(c, u, rc) _. dval (lv_spent l + rc) \<le> dval (rq_max_total_cost (at_request a)))" for content
  proof (rule tripleI, clarify)
    fix s c u rc t
    assume v: "validate_and_repair env a content (rq_max_total_cost (at_request a) - lv_spent l) s = (Inr (c, u, rc), t)"
    have "dval rc \<le> dval (rq_max_total_cost (at_request a) - lv_spent l)"
      using v assms by (auto simp: validate_and_repair_def split: if_splits dest!: repair_loop_result)
    then show "dval (lv_spent l + rc) \<le> dval (rq_max_total_cost (at_request a))" by simp
  qed
  have settle: "triple (\<lambda>_. dval (lv_spent l + rc) \<le> dval (rq_max_total_cost (at_request a)))
      (bnd (settle_success env a (charge rc u l) usage c) (\<lambda>x. ret (Responded x))) (attempt_post a)" for rc u c
    by (rule tripleI, elim bnd_InrE)
       (auto simp: attempt_post_def within_limit_def charge_def
         dest!: tripleD [OF settle_success_outcome TrueI] intro!: exI [of _ "lv_spent l + rc"])
  have low: "triple (\<lambda>_. dval (lv_spent l + rc) \<le> dval (rq_max_total_cost (at_request a)))
      (bnd (escalate env a (charge rc u l)) (\<lambda>l'. ret (LowConfidence l'))) (attempt_post a)" for rc u
    by (rule tripleI, elim bnd_InrE)
       (auto simp: attempt_post_def dest!: tripleD [OF escalate_post TrueI])
  let ?P = "\<lambda>rc (_ :: 'a gateway_state_scheme). dval (lv_spent l + rc) \<le> dval (rq_max_total_cost (at_request a))"
  have health: "triple (?P rc) (record_health_success (rt_model_key (at_candidate a))) (\<lambda>_. ?P rc)" for rc
    unfolding triple_def by blast
  show ?thesis
    unfolding attempt_finish_def Let_def
  proof (rule triple_bnd [OF triple_any], rule triple_bnd [OF triple_any], rule triple_bnd [OF repair], goal_cases)
    case (1 _ _ z)
    obtain c u rc where z: "z = (c, u, rc)" by (cases z)
    show ?case
      unfolding z prod.case by (rule triple_bnd [OF health]) (rule triple_if [OF low settle])
  qed
qed

lemma attempt_outcome: "triple (\<lambda>_. True) (attempt env a l) (attempt_post a)"
  unfolding attempt_def
proof (rule triple_bnd)
  show "triple (\<lambda>_. True) (catch_provider (bnd (attempt_call env a l) (\<lambda>x. ret (Inr x))) (\<lambda>f. ret (Inl f)))
    (\<lambda>called _. \<forall>result usage cost. called = Inr (result, usage, cost) \<longrightarrow>
       dval (lv_spent l + cost) \<le> dval (rq_max_total_cost (at_request a)))"
    by (rule triple_catch_provider; rule triple_True) (auto elim!: bnd_InrE dest: attempt_call_bound)
next
  fix called :: "provider_failure + ProviderResult \<times> AIUsage \<times> decimal"
  show "triple (\<lambda>_. \<forall>result usage cost. called = Inr (result, usage, cost) \<longrightarrow>
       dval (lv_spent l + cost) \<le> dval (rq_max_total_cost (at_request a)))
    (case called of Inl f \<Rightarrow> ret (AttemptFailed f l)
     | Inr (result, usage, cost) \<Rightarrow>
         catch_provider (attempt_finish env a (charge cost usage l) result usage cost)
           (\<lambda>f. ret (AttemptFailed f (charge cost usage l)))) (attempt_post a)"
  proof (cases called)
    case (Inl f)
    then show ?thesis by (simp add: triple_def attempt_post_def)
  next
    case (Inr x)
    obtain result usage cost where x: "x = (result, usage, cost)" by (cases x)
    have "triple (\<lambda>_. dval (lv_spent l + cost) \<le> dval (rq_max_total_cost (at_request a)))
        (catch_provider (attempt_finish env a (charge cost usage l) result usage cost)
           (\<lambda>f. ret (AttemptFailed f (charge cost usage l)))) (attempt_post a)"
    proof (cases "dval (lv_spent l + cost) \<le> dval (rq_max_total_cost (at_request a))")
      case True
      then have "triple (\<lambda>_. True) (attempt_finish env a (charge cost usage l) result usage cost) (attempt_post a)"
        by (intro attempt_finish_post) (simp add: charge_def)
      then show ?thesis
        by (intro triple_catch_provider) (auto simp: triple_def attempt_post_def)
    qed (simp add: triple_def)
    then show ?thesis using Inr x by simp
  qed
qed

section \<open>The attempt loop\<close>

definition loop_post ::
  "string \<Rightarrow> AIInvocationRequest \<Rightarrow> AIInvocationResponse + attempt_vars \<Rightarrow> 'z gateway_state_scheme \<Rightarrow> bool" where
  "loop_post i r outcome s = (case outcome of
       Inl x \<Rightarrow> \<exists>c. dval c \<le> dval (rq_max_total_cost r) \<and> settled_response i c x s
     | Inr l \<Rightarrow> cost_is i (lv_spent l) s)"

lemma cache_hit_post:
  assumes "dval (lv_spent l) \<le> dval (rq_max_total_cost (at_request a))"
  shows "triple (cost_is (at_invocation a) (lv_spent l)) (cache_hit env a l)
    (\<lambda>hit s. case hit of None \<Rightarrow> cost_is (at_invocation a) (lv_spent l) s | Some x \<Rightarrow> within_limit a x s)"
proof -
  let ?i = "at_invocation a" and ?c = "lv_spent l"
  have query: "keeps (cost_is ?i ?c) (if cache_eligible (at_request a)
      then bnd clock_now (\<lambda>now. cached te ws key now) else ret None)" for te ws key
    by (intro keeps_rules quiet_effects stable_outcomes)
  have hit: "triple (settled_response ?i ?c x) (ret (Some x))
      (\<lambda>hit s. case hit of None \<Rightarrow> cost_is ?i ?c s | Some x \<Rightarrow> within_limit a x s)" for x
    using assms by (auto simp: triple_def within_limit_def)
  have miss: "triple (cost_is ?i ?c) (ret None)
      (\<lambda>hit s. case hit of None \<Rightarrow> cost_is ?i ?c s | Some x \<Rightarrow> within_limit a x s)"
    by (simp add: triple_def)
  show ?thesis
    unfolding cache_hit_def Let_def
  proof (rule triple_bnd [OF triple_keeps [OF query]], goal_cases)
    case (1 entry)
    show ?case
    proof (cases entry)
      case (Some c)
      then show ?thesis
        by (simp, intro triple_bnd [OF triple_keeps [OF quiet_effects(1) [OF stable_outcomes(1)]]])
           (auto intro!: miss triple_bnd [OF reconcile_triple] triple_bnd [OF success_settled] hit
             triple_bnd [OF triple_keeps [OF keeps_observe [OF stable_settled(1)]]]
             triple_bnd [OF triple_keeps [OF quiet_effects(5) [OF stable_settled(1)]]])
    qed (simp add: miss)
  qed
qed

lemma triple_pre: "(\<And>s. P s \<Longrightarrow> P' s) \<Longrightarrow> triple P' m Q \<Longrightarrow> triple P m Q"
  by (auto simp: triple_def)

lemma triple_option:
  "(x = None \<Longrightarrow> triple P m Q) \<Longrightarrow> (\<And>y. x = Some y \<Longrightarrow> triple P (f y) Q) \<Longrightarrow>
   triple P (case x of None \<Rightarrow> m | Some y \<Rightarrow> f y) Q"
  by (cases x) auto

lemma loop_outcome:
  assumes "\<And>l'. triple (cost_is i (lv_spent l')) (next_attempt l') (loop_post i (at_request a))"
    and "at_invocation a = i"
  shows "triple (\<lambda>_. True) (bnd (attempt env a l) (\<lambda>outcome. case outcome of
            Responded response \<Rightarrow> ret (Inl response)
          | LowConfidence l' \<Rightarrow> next_attempt l'
          | AttemptFailed f l' \<Rightarrow>
              bnd (attempt_failed env a f l') (\<lambda>l''.
              if fst (snd f) then next_attempt l'' else ret (Inr l'')))) (loop_post i (at_request a))"
proof (rule triple_bnd [OF attempt_outcome])
  fix outcome
  have stop: "triple (cost_is i (lv_spent l')) (ret (Inr l')) (loop_post i (at_request a))" for l'
    by (simp add: triple_def loop_post_def)
  have failed: "triple (\<lambda>_. True) (attempt_failed env a f l') (\<lambda>l'' s. cost_is i (lv_spent l'') s)" for f l'
    using attempt_failed_post [of env a f l'] assms(2) by simp
  show "triple (attempt_post a outcome) (case outcome of
            Responded response \<Rightarrow> ret (Inl response)
          | LowConfidence l' \<Rightarrow> next_attempt l'
          | AttemptFailed f l' \<Rightarrow>
              bnd (attempt_failed env a f l') (\<lambda>l''.
              if fst (snd f) then next_attempt l'' else ret (Inr l''))) (loop_post i (at_request a))"
  proof (cases outcome)
    case (Responded x)
    then show ?thesis using assms(2) by (simp add: triple_def attempt_post_def within_limit_def loop_post_def)
  next
    case (LowConfidence l')
    then show ?thesis using assms by (auto simp: attempt_post_def intro: triple_pre)
  next
    case (AttemptFailed f l')
    then show ?thesis
      by simp (rule triple_pre [OF _ triple_bnd [OF failed]], simp, rule triple_if [OF assms(1) stop])
  qed
qed

lemma attempt_loop_post:
  assumes "\<forall>c \<in> set candidates. 0 \<le> dval (rt_estimated_cost c)"
  shows "triple (cost_is i (lv_spent l)) (attempt_loop env i r owner generation candidates n l) (loop_post i r)"
  using assms
proof (induction candidates arbitrary: n l)
  case Nil
  then show ?case by (simp add: triple_def loop_post_def)
next
  case (Cons c rest)
  let ?a = "\<lparr>at_invocation = i, at_request = r, at_candidate = c, at_number = n,
               at_owner = owner, at_generation = generation\<rparr>"
  let ?I = "cost_is i (lv_spent l)"
  have stop: "triple ?I (ret (Inr (l\<lparr>lv_failure := f\<rparr>))) (loop_post i r)" for f
    by (simp add: triple_def loop_post_def)
  have late: "keeps ?I (deadline_passed r)"
    unfolding deadline_passed_def by (intro keeps_rules quiet_effects stable_outcomes)
  have retry: "keeps ?I (if 1 < n then transition i INV_RETRYING else ret ())"
    by (intro keeps_rules keeps_transition)
  have route: "keeps ?I (modify_invocation i (\<lambda>v. v\<lparr>inv_route := Some c\<rparr>))"
    by (rule keeps_modify) simp
  have again: "triple (\<lambda>_. True) (bnd (attempt env ?a l) (\<lambda>outcome. case outcome of
            Responded response \<Rightarrow> ret (Inl response)
          | LowConfidence l' \<Rightarrow> attempt_loop env i r owner generation rest (n + 1) l'
          | AttemptFailed f l' \<Rightarrow>
              bnd (attempt_failed env ?a f l') (\<lambda>l''.
              if fst (snd f) then attempt_loop env i r owner generation rest (n + 1) l''
              else ret (Inr l'')))) (loop_post i r)"
    by (rule loop_outcome [where a = ?a and next_attempt = "attempt_loop env i r owner generation rest (n + 1)",
          unfolded attempt_context.simps])
       (use Cons in simp_all)
  show ?case
  proof (cases "rq_max_total_cost r - lv_spent l < rt_estimated_cost c")
    case False
    moreover from False Cons.prems have "dval (lv_spent l) \<le> dval (rq_max_total_cost (at_request ?a))"
      by (simp add: dec_order)
    note hit = cache_hit_post [OF this, of env, simplified]
    ultimately show ?thesis
      unfolding attempt_loop.simps Let_def if_not_P [OF False]
      by (intro triple_bnd [OF triple_keeps [OF late]] triple_if stop triple_bnd [OF triple_keeps [OF retry]]
          triple_bnd [OF triple_keeps [OF route]]
          triple_bnd [OF triple_keeps [OF quiet_effects(5) [OF stable_outcomes(1)]]]
          triple_bnd [OF hit] triple_option)
        ((rule again triple_bnd [OF triple_any])+, simp add: triple_def loop_post_def within_limit_def)
  qed (simp add: stop)
qed

text \<open>C1 (safety). Spending stays within the request: when the attempt loop ends in a response, from
  the cache or from any of the candidates and whatever the earlier attempts and repair rounds cost,
  the invocation's recorded terminal outcome is that response, its cumulative cost is at most
  \<^verbatim>\<open>max_total_cost\<close>, and the budget reservation is committed with exactly that cost as the
  actual amount. The loop starts from the cost recorded for the invocation; candidates carry
  non-negative estimates.\<close>

theorem response_within_budget:
  assumes "attempt_loop env i r owner generation candidates n l s = (Inr (Inl x), t)"
    and "map_of (invocations s) i = Some v" "inv_cumulative_cost v = lv_spent l"
    and "\<forall>c \<in> set candidates. 0 \<le> dval (rt_estimated_cost c)"
  shows "\<exists>w rsv. map_of (invocations t) i = Some w \<and> inv_terminal w = Some x
    \<and> dval (inv_cumulative_cost w) \<le> dval (rq_max_total_cost r)
    \<and> map_of (reservations t) i = Some rsv \<and> rsv_state rsv = ''committed''
    \<and> rsv_actual rsv = Some (inv_cumulative_cost w)"
proof -
  have "cost_is i (lv_spent l) s" using assms(2,3) by (simp add: cost_is_def)
  from tripleD [OF attempt_loop_post [OF assms(4)] this assms(1)] show ?thesis
    by (auto simp: loop_post_def settled_response_def outcome_state)
qed

section \<open>The printed actual cost\<close>

text \<open>The evidence of a settlement carries the cost as text; the Workflow Engine parses it with
  \<^verbatim>\<open>scale6\<close>. With one to six fractional digits the text is the canonical amount.\<close>

lemma pad_int_of_digits:
  assumes "length s = w" "0 < w" "list_all is_digit s"
  shows "zero_pad w (show_nat (int_of_digits s)) = s"
proof (rule int_of_digits_inj)
  have "int_of_digits s < 10 ^ w" using assms int_of_digits_less by fastforce
  then show "length (zero_pad w (show_nat (int_of_digits s))) = length s"
    using assms by (simp add: zero_pad_props show_nat_length)
qed (simp_all add: assms zero_pad_props show_nat_digits)

lemma div_mod_of:
  fixes n :: nat
  shows "r < m \<Longrightarrow> n = q * m + r \<Longrightarrow> q = n div m \<and> r = n mod m"
  by simp

lemma show_nat_split:
  assumes "0 < k" "k < length (show_nat n)"
  defines "m \<equiv> length (show_nat n) - k"
  shows "take m (show_nat n) = show_nat (n div 10 ^ k)"
    "drop m (show_nat n) = zero_pad k (show_nat (n mod 10 ^ k))"
proof -
  let ?t = "take m (show_nat n)" and ?d = "drop m (show_nat n)"
  have digits: "list_all is_digit ?t" "list_all is_digit ?d"
    using show_nat_digits [of n] by (auto simp: list_all_iff dest: in_set_takeD in_set_dropD)
  have len: "length ?d = k" using assms by (simp add: m_def)
  have less: "int_of_digits ?d < 10 ^ k" using int_of_digits_less [OF digits(2)] len by simp
  have "n = int_of_digits (?t @ ?d)" by simp
  then have "n = int_of_digits ?t * 10 ^ k + int_of_digits ?d" by (simp only: int_of_digits_append len)
  from div_mod_of [OF less this]
  have parts: "int_of_digits ?t = n div 10 ^ k" "int_of_digits ?d = n mod 10 ^ k" by blast+
  show "?d = zero_pad k (show_nat (n mod 10 ^ k))"
    using pad_int_of_digits [OF len assms(1) digits(2)] parts(2) by simp
  have "n \<noteq> 0" using assms by (intro notI) (simp add: show_nat_0)
  have "?t \<noteq> []" "hd ?t \<noteq> CHR ''0''"
    using assms show_nat_hd [OF \<open>n \<noteq> 0\<close>] by (auto simp: m_def hd_take)
  then show "?t = show_nat (n div 10 ^ k)"
    using show_nat_int_of [OF digits(1)] parts(1) by simp
qed

lemma decimal_fixed_fraction:
  assumes "0 < k" "0 \<le> c"
  shows "decimal_fixed (Dec c (- int k)) =
    show_nat (nat c div 10 ^ k) @ ''.'' @ zero_pad k (show_nat (nat c mod 10 ^ k))"
proof (cases "k < length (show_nat (nat c))")
  case True
  with assms show_nat_split [OF assms(1) True] show ?thesis
    by (simp add: decimal_fixed_def decimal_layout_def decimal_digits_def nat_diff_distrib' Let_def) 
next
  case False
  have "nat c < 10 ^ length (show_nat (nat c))"
    using int_of_digits_less [OF show_nat_digits, of "nat c"] by simp
  also have "\<dots> \<le> (10 :: nat) ^ k" using False by (intro power_increasing) auto
  finally have "nat c div 10 ^ k = 0" "nat c mod 10 ^ k = nat c" by simp_all
  with assms False show ?thesis
    by (simp add: decimal_fixed_def decimal_layout_def decimal_digits_def zero_pad_def show_nat_0 nat_diff_distrib' Let_def)
qed

lemma actual_cost_text_micro:
  assumes "0 < k" "k \<le> 6" "0 \<le> c"
  shows "actual_cost_text (Dec c (- int k)) = micro_amount (c * 10 ^ (6 - k))"
proof -
  let ?v = "nat c mod 10 ^ k" and ?z = "zero_pad k (show_nat (nat c mod 10 ^ k))"
  have "?v < 10 ^ k" by simp
  then have len: "length ?z = k" using assms(1) by (simp add: zero_pad_props show_nat_length)
  have "zero_pad 6 (show_nat (int_of_digits (?z @ replicate (6 - k) (CHR ''0'')))) = ?z @ replicate (6 - k) (CHR ''0'')"
    using assms len zero_pad_props(3) [OF show_nat_digits]
    by (intro pad_int_of_digits) (auto simp: list_all_iff digit_val_zero)
  then have pad: "zero_pad 6 (show_nat (?v * 10 ^ (6 - k))) = ?z @ replicate (6 - k) (CHR ''0'')"
    by (simp add: int_of_digits_append int_of_digits_replicate zero_pad_props)
  have million: "(1000000 :: int) = 10 ^ k * 10 ^ (6 - k)"
    using assms(2) by (simp flip: power_add)
  have div: "c * 10 ^ (6 - k) div 1000000 = int (nat c div 10 ^ k)"
    unfolding million using assms(3) by (simp add: zdiv_int)
  have "c * 10 ^ (6 - k) mod 1000000 = int (?v * 10 ^ (6 - k))"
    unfolding million mult_mod_left [symmetric] using assms(3) by (simp add: zmod_int)
  then have mod: "nat (c * 10 ^ (6 - k) mod 1000000) = ?v * 10 ^ (6 - k)" by (simp only: nat_int)
  have "micro_amount (c * 10 ^ (6 - k)) =
      rstrip_by (\<lambda>c. c = CHR ''.'') (rstrip_by (\<lambda>c. c = CHR ''0'')
        ((show_nat (nat c div 10 ^ k) @ ''.'' @ ?z) @ replicate (6 - k) (CHR ''0'')))"
    unfolding micro_amount_def div mod pad by (simp add: show_int_def)
  also have "\<dots> = actual_cost_text (Dec c (- int k))"
    unfolding actual_cost_text_def decimal_fixed_fraction [OF assms(1,3)]
    by (subst rstrip_by_append_all) auto
  finally show ?thesis by simp
qed
text \<open>A settled cost kept with one to six fractional digits reaches the Workflow Engine
  exactly: the text in the accounting evidence parses to that number of millionths of a dollar
  (positive amounts of at most 18 digits, the range of the amount format).\<close>

theorem settled_cost_parses:
  assumes "0 < k" "k \<le> 6" "0 < c" "digit_count (c * 10 ^ (6 - k)) \<le> 18"
  shows "scale6 (actual_cost_text (Dec c (- int k))) = Inr (c * 10 ^ (6 - k))"
  using assms actual_cost_text_micro [of k c] scale6_micro_amount [of "c * 10 ^ (6 - k)"] by simp

lemma show_nat_ten: "0 < w \<Longrightarrow> show_nat (10 * w) = show_nat w @ ''0''"
  by (subst show_nat.simps) (simp add: digit_val_zero)

text \<open>A settled cost without fractional digits does not: its own trailing zeros are stripped, so
  ten times an amount prints like the amount itself, and a zero cost prints as the empty string,
  which \<^verbatim>\<open>scale6\<close> refuses.\<close>

theorem whole_cost_misprinted:
  "actual_cost_text (Dec (10 * (1 + int w)) 0) = actual_cost_text (Dec (1 + int w) 0)
   \<and> actual_cost_text 0 = [] \<and> (\<exists>e. scale6 (actual_cost_text 0) = Inl e)"
proof -
  have "nat (10 * (1 + int w)) = 10 * (1 + w)" "nat (1 + int w) = 1 + w" by simp_all
  then have "decimal_fixed (Dec (10 * (1 + int w)) 0) = decimal_fixed (Dec (1 + int w) 0) @ ''0''"
    using show_nat_ten [of "1 + w"] by (simp add: decimal_fixed_def show_int_def)
  then have ten: "actual_cost_text (Dec (10 * (1 + int w)) 0) = actual_cost_text (Dec (1 + int w) 0)"
    using rstrip_by_append_all [of "''0''" "\<lambda>c. c = CHR ''0''"] by (simp add: actual_cost_text_def)
  have zero: "actual_cost_text 0 = []"
    by (simp add: actual_cost_text_def decimal_fixed_def zero_decimal_def show_int_def show_nat_0 rstrip_by_def)
  then have "\<exists>e. scale6 (actual_cost_text 0) = Inl e"
    by (cases "scale6 (actual_cost_text 0)") (auto elim: scale6_cases simp: whole_ok_def)
  with ten zero show ?thesis by blast
qed

section \<open>A concrete run\<close>

definition sample_env :: "gateway_state gateway_env" where
  "sample_env = \<lparr>ge_tx = sample_tx, ge_catalog = sample_models, ge_packages = None, ge_adapters = {''mock''},
     ge_invoke = (\<lambda>adapter model prompt r key timeout. ret
       \<lparr>prv_content = ''fine'', prv_usage = Some (usage_of 10 20), prv_confidence = Dec 9 (- 1)\<rparr>),
     ge_lost = (\<lambda>_. False), ge_wait = (\<lambda>_. ret ()), ge_repr_parameters = (\<lambda>_. []),
     ge_execution_lease = 60000000, ge_health_cooldown = 30000000, ge_authority = None\<rparr>"

definition sample_candidate :: RouteDecision where
  "sample_candidate = \<lparr>rt_decision_reference = ''d'', rt_model_key = ''small'', rt_adapter_key = ''mock'',
     rt_considered = [''small''], rt_excluded = [], rt_estimated_cost = Dec 138 (- 3), rt_reason = ''cheapest''\<rparr>"

definition sample_vars :: attempt_vars where
  "sample_vars = \<lparr>lv_spent = 0, lv_input = 0, lv_output = 0, lv_cached = 0, lv_reasoning = 0, lv_failure = None,
     lv_prompt = ''hello'', lv_tokens = 10, lv_digest = ''digest''\<rparr>"

text \<open>The accepted sample invocation, claimed by a worker and with its budget reserved.\<close>

definition sample_start :: gateway_state where
  "sample_start = snd (bnd (claim_execution ''ai1'' ''worker'' 0 60000000) (\<lambda>_.
     bnd (upd (\<lambda>s. s\<lparr>lifecycle := [(''ai1'', [INV_REQUESTED])]\<rparr>)) (\<lambda>_.
     reserve ''ai1'' ''t'' ''w'' (rq_max_total_cost sample_request) 1)) gateway_accepted)"

definition sample_run :: "(exn + (AIInvocationResponse + attempt_vars)) \<times> gateway_state" where
  "sample_run =
     attempt_loop sample_env ''ai1'' sample_request ''worker'' 1 [sample_candidate] 1 sample_vars sample_start"

lemma sample_run_responds:
  "case fst sample_run of Inr (Inl x) \<Rightarrow> True | _ \<Rightarrow> False"
  by code_simp

lemma sample_start_cost:
  "map_option inv_cumulative_cost (map_of (invocations sample_start) ''ai1'') = Some 0"
  by code_simp

theorem response_within_budget_witness:
  "\<exists>x w rsv. fst sample_run = Inr (Inl x)
    \<and> map_of (invocations (snd sample_run)) ''ai1'' = Some w \<and> inv_terminal w = Some x
    \<and> dval (inv_cumulative_cost w) \<le> 1
    \<and> map_of (reservations (snd sample_run)) ''ai1'' = Some rsv \<and> rsv_state rsv = ''committed''"
proof -
  obtain x where x: "fst sample_run = Inr (Inl x)"
    using sample_run_responds by (auto split: sum.splits)
  obtain v where v: "map_of (invocations sample_start) ''ai1'' = Some v" "inv_cumulative_cost v = lv_spent sample_vars"
    using sample_start_cost by (auto simp: sample_vars_def)
  have r: "attempt_loop sample_env ''ai1'' sample_request ''worker'' 1 [sample_candidate] 1 sample_vars sample_start =
      (Inr (Inl x), snd sample_run)"
    using x by (simp add: sample_run_def prod_eq_iff)
  have c: "\<forall>c \<in> set [sample_candidate]. 0 \<le> dval (rt_estimated_cost c)"
    by (simp add: sample_candidate_def dval_Dec)
  have "dval (rq_max_total_cost sample_request) = 1"
    by (simp add: sample_request_def request_defaults_def dval_Dec)
  with response_within_budget [OF r v c] x show ?thesis by auto
qed

theorem settled_cost_parses_witness:
  "scale6 (actual_cost_text (Dec 1250 (- 3))) = Inr 1250000"
proof -
  have "digit_count 1250000 \<le> 18"
    by (simp add: digit_count_def micro_amount_def show_int_def show_nat_rec digit_char_def zero_pad_def
        rstrip_by_def part_whole_def part_fraction_def)
  then show ?thesis using settled_cost_parses [where k = 3 and c = 1250] by simp
qed

theorem repaired_output_valid_witness:
  "\<exists>c u cost t. validate_and_repair sample_env
       \<lparr>at_invocation = ''ai1'', at_request = sample_request, at_candidate = sample_candidate, at_number = 1,
        at_owner = ''worker'', at_generation = 1\<rparr> ''fine'' (Dec 1 0) sample_start = (Inr (c, u, cost), t)
     \<and> c = ''fine'' \<and> estimate c \<le> 128 \<and> dval cost \<le> 1"
proof -
  let ?a = "\<lparr>at_invocation = ''ai1'', at_request = sample_request, at_candidate = sample_candidate, at_number = 1,
        at_owner = ''worker'', at_generation = 1\<rparr>"
  have m: "rq_response_mode sample_request \<noteq> STRUCTURED" "rq_max_output_tokens sample_request = 128"
    by (simp_all add: sample_request_def request_defaults_def)
  have "estimate ''fine'' \<le> 128" by code_simp
  then obtain u t where e: "validate_and_repair sample_env ?a ''fine'' (Dec 1 0) sample_start = (Inr (''fine'', u, 0), t)"
    using m by (auto simp: validate_and_repair_def)
  from repaired_output_valid [OF e] m have "estimate ''fine'' \<le> 128" by simp
  with e show ?thesis by auto
qed

end
