(* ===== verification/Workflow_Repository.thy ===== *)
theory Workflow_Repository
  imports Gateway_Admission
begin

text \<open>
  The state of the Workflow Engine (\<^verbatim>\<open>packages/workflow_engine/.../engine.py\<close>): definitions,
  instances, command receipts and \<^verbatim>\<open>InMemoryWorkflowRepository\<close>, as an extension of the
  Gateway's state. The repository is the \<^verbatim>\<open>WorkflowAdmissionAuthority\<close> of the Gateway and of
  the Skill Runtime, so the locale \<open>admission_authority\<close> is interpreted here.

  An instance is a mutable object reached through \<^verbatim>\<open>instances\<close>; \<open>modify_instance\<close> is an
  assignment to its fields. The context variable of \<^verbatim>\<open>dispatch_context\<close> is a field of the state.
\<close>

datatype WorkflowState = WF_CREATED | WF_RUNNING | WF_COMPLETED | WF_FAILED | WF_CANCELLED

datatype CommandProcessingState = CMD_IN_PROGRESS | CMD_COMPLETED

datatype WorkflowAIAdmissionState =
    ADM_REQUESTED | ADM_PENDING_ADMISSION | ADM_COMMITTED | ADM_GATEWAY_ACCEPTED | ADM_SETTLING
  | ADM_RECONCILED | ADM_RELEASED | ADM_REJECTED

fun workflow_state_value :: "WorkflowState \<Rightarrow> string" where
  "workflow_state_value WF_CREATED = ''Created''"
| "workflow_state_value WF_RUNNING = ''Running''"
| "workflow_state_value WF_COMPLETED = ''Completed''"
| "workflow_state_value WF_FAILED = ''Failed''"
| "workflow_state_value WF_CANCELLED = ''Cancelled''"

fun admission_state_value :: "WorkflowAIAdmissionState \<Rightarrow> string" where
  "admission_state_value ADM_REQUESTED = ''Requested''"
| "admission_state_value ADM_PENDING_ADMISSION = ''PendingAdmission''"
| "admission_state_value ADM_COMMITTED = ''Committed''"
| "admission_state_value ADM_GATEWAY_ACCEPTED = ''GatewayAccepted''"
| "admission_state_value ADM_SETTLING = ''Settling''"
| "admission_state_value ADM_RECONCILED = ''Reconciled''"
| "admission_state_value ADM_RELEASED = ''Released''"
| "admission_state_value ADM_REJECTED = ''Rejected''"

record WorkflowDefinition =
  wd_workflow_definition_id :: string
  wd_workflow_definition_version_id :: string
  wd_skill_version_id :: string
  wd_max_attempts :: int
  wd_workflow_kind :: string
  wd_ai_budget_envelope :: "pydict option"

definition workflow_definition :: "WorkflowDefinition \<Rightarrow> exn + WorkflowDefinition" where
  "workflow_definition d =
     (if wd_max_attempts d < 1 then Inl (ValueError ''max_attempts must be positive'') else Inr d)"

record WorkflowInstance =
  wf_workflow_id :: string
  wf_workflow_step_id :: string
  wf_definition :: WorkflowDefinition
  wf_tenant_id :: string
  wf_workspace_id :: string
  wf_request_id :: string
  wf_correlation_id :: string
  wf_authorization :: AuthorizationContext
  wf_input_payload :: pydict
  wf_timeout_seconds :: rat
  wf_state :: WorkflowState
  wf_attempt_number :: int
  wf_execution_ids :: "string list"
  wf_processed_event_ids :: "string set"
  wf_workflow_events :: "(string, EventEnvelope) odict"
  wf_initial_attempt_command :: "CommandEnvelope option"
  wf_retry_commands :: "(string, CommandEnvelope) odict"
  wf_outcome :: "ResultEnvelope option"
  wf_error :: "ErrorEnvelope option"
  wf_ai_budget_envelope :: "WorkflowAIBudgetEnvelope option"
  wf_ai_admissions :: "(string, pydict) odict"
  wf_ai_admission_states :: "(string, pydict) odict"
  wf_transition_version :: int

record WorkflowCommandReceipt =
  wr_command :: CommandEnvelope
  wr_result :: ResultEnvelope
  wr_workflow_id :: string
  wr_error :: "ErrorEnvelope option"
  wr_state :: CommandProcessingState

record engine_state = gateway_state +
  instances :: "(string, WorkflowInstance) odict"
  command_receipts :: "(string, WorkflowCommandReceipt) odict"
  dispatched :: "CommandEnvelope option"

section \<open>InMemoryWorkflowRepository\<close>

definition add_instance :: "WorkflowInstance \<Rightarrow> ('z engine_state_scheme, unit) eff" where
  "add_instance v =
     bnd (asks (\<lambda>s. map_of (instances s) (wf_workflow_id v))) (\<lambda>existing.
     bnd (guard (existing = None) (ValueError ''WorkflowId already exists'')) (\<lambda>_.
     upd (\<lambda>s. s\<lparr>instances := od_put (wf_workflow_id v) v (instances s)\<rparr>)))"

definition load_instance :: "string \<Rightarrow> ('z engine_state_scheme, WorkflowInstance) eff" where
  "load_instance w =
     bnd (asks (\<lambda>s. map_of (instances s) w)) (\<lambda>v.
     case v of None \<Rightarrow> raise (KeyError w) | Some v \<Rightarrow> ret v)"

definition modify_instance ::
  "string \<Rightarrow> (WorkflowInstance \<Rightarrow> WorkflowInstance) \<Rightarrow> ('z engine_state_scheme, unit) eff" where
  "modify_instance w f =
     bnd (load_instance w) (\<lambda>v. upd (\<lambda>s. s\<lparr>instances := od_put w (f v) (instances s)\<rparr>))"

definition receipt_for_command ::
  "string \<Rightarrow> ('z engine_state_scheme, WorkflowCommandReceipt option) eff" where
  "receipt_for_command k = asks (\<lambda>s. map_of (command_receipts s) k)"

definition put_receipt ::
  "WorkflowCommandReceipt \<Rightarrow> ('z engine_state_scheme, WorkflowCommandReceipt) eff" where
  "put_receipt r =
     bnd (upd (\<lambda>s. s\<lparr>command_receipts := od_put (cmd_command_id (wr_command r)) r (command_receipts s)\<rparr>))
       (\<lambda>_. ret r)"

definition begin_command ::
  "CommandEnvelope \<Rightarrow> ResultEnvelope \<Rightarrow> string \<Rightarrow> ErrorEnvelope option
   \<Rightarrow> ('z engine_state_scheme, WorkflowCommandReceipt) eff" where
  "begin_command c result w error =
     put_receipt \<lparr>wr_command = c, wr_result = result, wr_workflow_id = w, wr_error = error,
                  wr_state = CMD_IN_PROGRESS\<rparr>"

definition modify_receipt ::
  "string \<Rightarrow> (WorkflowCommandReceipt \<Rightarrow> WorkflowCommandReceipt) \<Rightarrow> ('z engine_state_scheme, WorkflowCommandReceipt) eff"
where
  "modify_receipt k f =
     bnd (receipt_for_command k) (\<lambda>r.
     case r of
       None \<Rightarrow> raise (KeyError k)
     | Some r \<Rightarrow> bnd (upd (\<lambda>s. s\<lparr>command_receipts := od_put k (f r) (command_receipts s)\<rparr>)) (\<lambda>_. ret (f r)))"

definition complete_command :: "string \<Rightarrow> ('z engine_state_scheme, ResultEnvelope) eff" where
  "complete_command k =
     bnd (modify_receipt k (\<lambda>r. r\<lparr>wr_state := CMD_COMPLETED\<rparr>)) (\<lambda>r. ret (wr_result r))"

definition remember_completed_command ::
  "CommandEnvelope \<Rightarrow> ResultEnvelope \<Rightarrow> string \<Rightarrow> ErrorEnvelope option \<Rightarrow> ('z engine_state_scheme, unit) eff"
where
  "remember_completed_command c result w error =
     bnd (begin_command c result w error) (\<lambda>_.
     bnd (modify_receipt (cmd_command_id c) (\<lambda>r. r\<lparr>wr_state := CMD_COMPLETED\<rparr>)) (\<lambda>_.
     ret ()))"

definition dispatch_context ::
  "CommandEnvelope \<Rightarrow> ('z engine_state_scheme, 'a) eff \<Rightarrow> ('z engine_state_scheme, 'a) eff" where
  "dispatch_context c m =
     bnd (asks dispatched) (\<lambda>token.
     bnd (upd (\<lambda>s. s\<lparr>dispatched := Some c\<rparr>)) (\<lambda>_.
     finally_do m (upd (\<lambda>s. s\<lparr>dispatched := token\<rparr>))))"

section \<open>The admission authority\<close>

definition admission_live :: "WorkflowInstance \<Rightarrow> pyval \<Rightarrow> bool" where
  "admission_live v state \<longleftrightarrow>
     wf_state v = WF_RUNNING \<and> state \<in> PStr ` admission_state_value ` {ADM_COMMITTED, ADM_GATEWAY_ACCEPTED, ADM_SETTLING}
     \<or> wf_state v = WF_COMPLETED \<and> state = PStr (admission_state_value ADM_RECONCILED)"

definition instance_admission :: "WorkflowInstance \<Rightarrow> string \<Rightarrow> string \<Rightarrow> pydict option" where
  "instance_admission v command_id execution_id =
     (case (map_of (wf_ai_admissions v) command_id, map_of (wf_ai_admission_states v) command_id) of
        (Some binding, Some entry) \<Rightarrow>
          (let version = pget binding ''WorkflowAdmissionStateVersion'' in
           if \<not> admission_live v (pget entry ''State'')
              \<or> as_int version = None
              \<or> as_int version \<noteq> Some (wf_transition_version v)
              \<or> \<not> py_eq (pget entry ''WorkflowAdmissionStateVersion'') version
              \<or> \<not> py_eq (pget entry ''Binding'') (PDict binding)
              \<or> \<not> py_eq (pget binding ''ExecutionId'') (PStr execution_id)
           then None else Some binding)
      | _ \<Rightarrow> None)"

definition committed_admission ::
  "'z engine_state_scheme \<Rightarrow> string \<Rightarrow> string \<Rightarrow> string \<Rightarrow> pydict option" where
  "committed_admission s workflow_id command_id execution_id =
     (if (case dispatched s of
            None \<Rightarrow> False
          | Some d \<Rightarrow> cmd_workflow_id d \<noteq> Some workflow_id \<or> cmd_command_id d \<noteq> command_id
                      \<or> cmd_execution_id d \<noteq> Some execution_id)
      then None
      else case map_of (instances s) workflow_id of
             None \<Rightarrow> None
           | Some v \<Rightarrow> instance_admission v command_id execution_id)"

definition dispatch_owned :: "'z engine_state_scheme \<Rightarrow> string option \<Rightarrow> string \<Rightarrow> string \<Rightarrow> bool" where
  "dispatch_owned s workflow_id command_id execution_id \<longleftrightarrow>
     dispatched s \<noteq> None
     \<or> (case workflow_id of
          None \<Rightarrow> False
        | Some w \<Rightarrow>
            (case map_of (instances s) w of
               None \<Rightarrow> False
             | Some v \<Rightarrow> map_of (wf_ai_admissions v) command_id \<noteq> None
                         \<or> map_of (wf_ai_admission_states v) command_id \<noteq> None))"

definition repository_authority :: "('z engine_state_scheme) authority" where
  "repository_authority =
     \<lparr>authoritative_ai_admission = (\<lambda>w c e. asks (\<lambda>s. committed_admission s w c e)),
      owns_ai_dispatch = (\<lambda>w c e. asks (\<lambda>s. dispatch_owned s w c e))\<rparr>"

interpretation repository: admission_authority repository_authority committed_admission dispatch_owned
  by unfold_locales (simp_all add: repository_authority_def effect_simps)

section \<open>Instances under the operations\<close>

lemma repository_apply [effect_simps]:
  "load_instance w s = (case map_of (instances s) w of None \<Rightarrow> Inl (KeyError w) | Some v \<Rightarrow> Inr v, s)"
  "modify_instance w f s = (case map_of (instances s) w of
       None \<Rightarrow> (Inl (KeyError w), s)
     | Some v \<Rightarrow> (Inr (), s\<lparr>instances := od_put w (f v) (instances s)\<rparr>))"
  "receipt_for_command k s = (Inr (map_of (command_receipts s) k), s)"
  "modify_receipt k g s = (case map_of (command_receipts s) k of
       None \<Rightarrow> (Inl (KeyError k), s)
     | Some r \<Rightarrow> (Inr (g r), s\<lparr>command_receipts := od_put k (g r) (command_receipts s)\<rparr>))"
  "begin_command c res w err s =
     (let r = \<lparr>wr_command = c, wr_result = res, wr_workflow_id = w, wr_error = err, wr_state = CMD_IN_PROGRESS\<rparr>
      in (Inr r, s\<lparr>command_receipts := od_put (cmd_command_id c) r (command_receipts s)\<rparr>))"
  by (simp_all add: load_instance_def modify_instance_def receipt_for_command_def modify_receipt_def
      begin_command_def put_receipt_def Let_def eff_apply split: option.splits)

text \<open>C25 (safety). What a Workflow-owned request must present at the Gateway: preflight lets a request with an
  admission binding pass only when the Engine holds, for the request's Workflow, Command and
  Execution, a binding equal to the presented one whose version is the instance's current
  transition version, with the Workflow running and the admission committed (or completed and
  reconciled, the replay case); the state is not changed. A request without a binding passes only
  outside an Engine dispatch and for a Command the instance has never admitted.\<close>

theorem preflight_requires_current_admission:
  assumes "preflight (Some repository_authority) r s = (Inr u, t)"
  shows "t = s \<and> (case rq_workflow_ai_budget_admission r of
      None \<Rightarrow> dispatched s = None \<and>
        (\<forall>w v. rq_workflow_id r = Some w \<longrightarrow> map_of (instances s) w = Some v \<longrightarrow>
           map_of (wf_ai_admissions v) (rq_command_id r) = None)
    | Some b \<Rightarrow> \<exists>w v d entry. rq_workflow_id r = Some w \<and> map_of (instances s) w = Some v
        \<and> map_of (wf_ai_admissions v) (rq_command_id r) = Some d \<and> py_eq (PDict d) (PDict b)
        \<and> as_int (pget d ''WorkflowAdmissionStateVersion'') = Some (wf_transition_version v)
        \<and> pget d ''ExecutionId'' = PStr (rq_execution_id r)
        \<and> map_of (wf_ai_admission_states v) (rq_command_id r) = Some entry
        \<and> admission_live v (pget entry ''State''))"
proof -
  note ok = repository.preflight_ok [OF assms]
  show ?thesis
  proof (cases "rq_workflow_ai_budget_admission r")
    case None
    with ok show ?thesis by (auto simp: dispatch_owned_def)
  next
    case (Some b)
    with ok have "validate_workflow_admission (Some repository_authority) r b s = (Inr (), s)" by simp
    from repository.validate_ok [OF this] ok Some show ?thesis
      by (auto simp: committed_admission_def instance_admission_def Let_def split: if_splits option.splits)
  qed
qed

text \<open>A repository with nothing in it, on top of the empty Gateway.\<close>

definition repository_empty :: engine_state where
  "repository_empty = gateway_state.extend gateway_empty
     \<lparr>instances = [], command_receipts = [], dispatched = None\<rparr>"

theorem preflight_requires_current_admission_witness:
  "\<exists>t. preflight (Some repository_authority) sample_request repository_empty = (Inr (), t) \<and> t = repository_empty
     \<and> dispatched repository_empty = None"
proof -
  have "fst (preflight (Some repository_authority) sample_request repository_empty) = Inr ()" by code_simp
  then have "preflight (Some repository_authority) sample_request repository_empty = (Inr (), repository_empty)"
    using repository.preflight_pure by (simp add: prod_eq_iff)
  from preflight_requires_current_admission [OF this] this show ?thesis
    by (auto simp: sample_request_def request_defaults_def)
qed

end
