(* ===== verification/Workflow_Engine.thy ===== *)
theory Workflow_Engine
  imports Workflow_Repository Json
begin

text \<open>
  \<^verbatim>\<open>WorkflowEngine\<close> of \<^verbatim>\<open>packages/workflow_engine/.../engine.py\<close>: command handling (start, resume,
  cancel, reject), consumption of attempt Events (completion, failure, retry), creation of attempt
  Commands with their budget admission, and reconciliation with the Gateway's accounting.

  The dispatcher and the drain of the shared outbox are effects on the whole state
  (\<open>engine_env\<close>): both may re-enter the Engine before they return. \<open>en_str\<close> is \<^verbatim>\<open>str\<close> on
  values that are not strings.
\<close>

record 's engine_env =
  en_tx :: text_services
  en_dispatch :: "CommandEnvelope \<Rightarrow> ('s, ResultEnvelope) eff"
  en_drain :: "('s, nat) eff"
  en_str :: "pyval \<Rightarrow> string"

definition engine_name :: string where
  "engine_name = ''Workflow Engine''"

definition approved_identity :: "string list" where
  "approved_identity =
     [''ClassifyAndRouteTask'', ''classify-and-route-task-v1'', ''ClassifyAndRouteTask'',
      ''structured-task-kind-skill-v1'']"

definition definition_identity :: "WorkflowDefinition \<Rightarrow> string list" where
  "definition_identity d =
     [wd_workflow_definition_id d, wd_workflow_definition_version_id d, wd_workflow_kind d,
      wd_skill_version_id d]"

definition is_approved_reference_workflow :: "WorkflowDefinition \<Rightarrow> bool" where
  "is_approved_reference_workflow d \<longleftrightarrow> definition_identity d = approved_identity"

section \<open>Payload reads\<close>

definition payload_string :: "pydict \<Rightarrow> string \<Rightarrow> exn + string" where
  "payload_string payload key = (case as_str (pget payload key) of
       Some s \<Rightarrow> if s = [] then Inl (ValueError (key @ '' must be a non-empty string'')) else Inr s
     | None \<Rightarrow> Inl (ValueError (key @ '' must be a non-empty string'')))"

definition payload_optional_string :: "pydict \<Rightarrow> string \<Rightarrow> exn + string" where
  "payload_optional_string payload key = (case map_of payload key of
       None \<Rightarrow> Inr []
     | Some v \<Rightarrow> (case as_str v of Some s \<Rightarrow> Inr s | None \<Rightarrow> Inl (ValueError (key @ '' must be a string''))))"

definition payload_int :: "pydict \<Rightarrow> string \<Rightarrow> int \<Rightarrow> exn + int" where
  "payload_int payload key fallback = (case map_of payload key of
       None \<Rightarrow> Inr fallback
     | Some (PInt n) \<Rightarrow> Inr n
     | Some _ \<Rightarrow> Inl (ValueError (key @ '' must be an integer'')))"

definition payload_float :: "pydict \<Rightarrow> string \<Rightarrow> rat \<Rightarrow> exn + rat" where
  "payload_float payload key fallback = (case map_of payload key of
       None \<Rightarrow> Inr fallback
     | Some (PInt n) \<Rightarrow> Inr (of_int n)
     | Some (PFloat x) \<Rightarrow> Inr x
     | Some _ \<Rightarrow> Inl (ValueError (key @ '' must be numeric'')))"

text \<open>\<^verbatim>\<open>{**d, ...}\<close> and \<^verbatim>\<open>d.update\<close>.\<close>

definition dict_update :: "pydict \<Rightarrow> pydict \<Rightarrow> pydict" where
  "dict_update d news = foldl (\<lambda>d (k, v). od_put k v d) d news"

definition permitted ::
  "AuthorizationContext \<Rightarrow> string \<Rightarrow> string \<Rightarrow> string \<Rightarrow> ('z engine_state_scheme, bool) eff" where
  "permitted a permission tenant workspace =
     catch (bnd (authorize a permission tenant workspace) (\<lambda>_. ret True))
       (\<lambda>e. case e of AuthorizationFailure _ \<Rightarrow> ret False | _ \<Rightarrow> raise e)"

section \<open>Evidence and Events\<close>

definition instance_scope :: "WorkflowInstance \<Rightarrow> string \<Rightarrow> outcome_scope" where
  "instance_scope v causation_id =
     \<lparr>os_subject = wf_workflow_id v, os_producer = engine_name, os_tenant_id = wf_tenant_id v,
      os_workspace_id = wf_workspace_id v, os_correlation_id = wf_correlation_id v,
      os_causation_id = causation_id\<rparr>"

definition command_scope :: "CommandEnvelope \<Rightarrow> string \<Rightarrow> outcome_scope" where
  "command_scope c subject =
     \<lparr>os_subject = subject, os_producer = engine_name, os_tenant_id = cmd_tenant_id c,
      os_workspace_id = cmd_workspace_id c, os_correlation_id = cmd_correlation_id c,
      os_causation_id = cmd_command_id c\<rparr>"

text \<open>\<^verbatim>\<open>x or y\<close> on an optional string.\<close>

definition str_or :: "string option \<Rightarrow> string \<Rightarrow> string" where
  "str_or x y = (case x of Some s \<Rightarrow> if s = [] then y else s | None \<Rightarrow> y)"

definition engine_reject ::
  "CommandEnvelope \<Rightarrow> string \<Rightarrow> string \<Rightarrow> ('z engine_state_scheme, ResultEnvelope) eff" where
  "engine_reject c code message =
     (let subject = str_or (cmd_workflow_id c) (cmd_command_id c) in
      bnd (unsuccessful (command_scope c subject)
        \<lparr>fd_status = REJECTED, fd_error_code = code, fd_category = VALIDATION, fd_severity = WARNING,
         fd_retry = NEVER_RETRY, fd_message = message\<rparr> (Some (cmd_command_id c)) None None []) (\<lambda>(result, error).
      bnd (remember_completed_command c result subject (Some error)) (\<lambda>_.
      ret result)))"

definition engine_observe :: "WorkflowInstance \<Rightarrow> ResultEnvelope \<Rightarrow> ('z engine_state_scheme, unit) eff" where
  "engine_observe v result =
     bnd clock_now (\<lambda>now.
     bnd (lift (observability_context
       \<lparr>obs_component_identity = engine_name, obs_operation_name = ''workflow_terminal'',
        obs_contract_version = ''1.0'', obs_observed_at = Aware now,
        obs_environment_identity = ''local'', obs_deployment_identity = ''reference'',
        obs_data_classification = NON_SENSITIVE, obs_redaction_status = NOT_REQUIRED,
        obs_tenant_id = wf_tenant_id v, obs_workspace_id = wf_workspace_id v,
        obs_correlation_id = wf_correlation_id v, obs_causation_id = res_causation_id result,
        obs_request_id = Some (wf_request_id v), obs_command_id = None, obs_event_id = None,
        obs_workflow_id = Some (wf_workflow_id v), obs_workflow_step_id = Some (wf_workflow_step_id v),
        obs_execution_id = None, obs_ai_invocation_id = None,
        obs_result_id = Some (res_result_id result), obs_error_id = res_error_id result\<rparr>)) (\<lambda>ctx.
     bnd (record_log ctx (if res_result_status result = SUCCEEDED then LOG_INFO else LOG_ERROR)
       (''Workflow reached '' @ result_status_value (res_result_status result) @ ''.'')
       [(''attempt_count'', PInt (wf_attempt_number v))]) (\<lambda>_.
     ret ())))"

definition publish_workflow_event ::
  "('z engine_state_scheme) engine_env \<Rightarrow> string \<Rightarrow> string \<Rightarrow> string \<Rightarrow> ('z engine_state_scheme, unit) eff"
where
  "publish_workflow_event env w event_type causation_id =
     bnd clock_now (\<lambda>now.
     bnd (load_instance w) (\<lambda>v.
     bnd (case map_of (wf_workflow_events v) event_type of
            Some event \<Rightarrow> ret event
          | None \<Rightarrow>
              bnd (new_id ''event'') (\<lambda>eid.
              bnd (lift (event_envelope
                \<lparr>evt_event_id = eid, evt_event_type = event_type, evt_event_version = ''1.0'',
                 evt_occurred_at = Aware now, evt_recorded_at = Aware now, evt_producer = engine_name,
                 evt_correlation_id = wf_correlation_id v, evt_subject = wf_workflow_id v,
                 evt_payload = [(''state'', PStr (workflow_state_value (wf_state v))),
                   (''result_id'', opt_str (map_option res_result_id (wf_outcome v)))],
                 evt_metadata = event_metadata_defaults, evt_causation_id = Some causation_id,
                 evt_tenant_id = Some (wf_tenant_id v), evt_workspace_id = Some (wf_workspace_id v),
                 evt_request_id = Some (wf_request_id v), evt_workflow_id = Some (wf_workflow_id v),
                 evt_workflow_step_id = Some (wf_workflow_step_id v), evt_execution_id = None,
                 evt_ai_invocation_id = None\<rparr>)) (\<lambda>event.
              bnd (modify_instance w (\<lambda>v. v\<lparr>wf_workflow_events :=
                     od_put event_type event (wf_workflow_events v)\<rparr>)) (\<lambda>_.
              ret event)))) (\<lambda>event.
     bnd (outbox_record event) (\<lambda>_.
     bnd (en_drain env) (\<lambda>_.
     ret ())))))"

section \<open>Attempt Commands and budget admission\<close>

text \<open>\<^verbatim>\<open>used\<close>: the exposure of every admission already committed on the instance.\<close>

definition committed_exposure :: "pydict \<Rightarrow> exn + int" where
  "committed_exposure item = (case as_map (pget item ''CommittedExposure'') of
       None \<Rightarrow> Inl (ValueError ''WORKFLOW_AI_ADMISSION_STATE_INVALID'')
     | Some exposure \<Rightarrow> (case as_str (pget exposure ''Amount'') of
           None \<Rightarrow> Inl (ValueError ''WORKFLOW_AI_ADMISSION_STATE_INVALID'')
         | Some amount \<Rightarrow> scale6 amount))"

fun used_exposure :: "pydict list \<Rightarrow> exn + int" where
  "used_exposure [] = Inr 0"
| "used_exposure (item # items) =
     ebind (committed_exposure item) (\<lambda>n. ebind (used_exposure items) (\<lambda>m. Inr (n + m)))"

definition needs_admission :: "WorkflowInstance \<Rightarrow> bool" where
  "needs_admission v \<longleftrightarrow> is_approved_reference_workflow (wf_definition v)
     \<and> pget (wf_input_payload v) ''authoritative_result_id'' = PNone"

definition attempt_exposure :: int where
  "attempt_exposure = 10000"

definition check_admission :: "string \<Rightarrow> ('z engine_state_scheme, unit) eff" where
  "check_admission w =
     bnd (load_instance w) (\<lambda>v.
     if \<not> needs_admission v then ret () else
     bnd (permitted (wf_authorization v) ''ai.invoke'' (wf_tenant_id v) (wf_workspace_id v)) (\<lambda>ok.
     bnd (guard ok (ValueError ''WORKFLOW_AI_AUTHORIZATION_REVOKED'')) (\<lambda>_.
     case wf_ai_budget_envelope v of
       None \<Rightarrow> raise AssertionError
     | Some envelope \<Rightarrow>
         bnd (guard (auth_policy_id (wf_authorization v) = env_policy_id envelope
                     \<and> auth_policy_version_id (wf_authorization v) = env_policy_version_id envelope)
                (ValueError ''WORKFLOW_AI_AUTHORIZATION_REVOKED'')) (\<lambda>_.
         bnd (lift (used_exposure (map snd (wf_ai_admissions v)))) (\<lambda>used.
         guard (used + attempt_exposure \<le> env_ceiling_microusd envelope)
           (ValueError ''WORKFLOW_AI_BUDGET_EXHAUSTED''))))))"

definition put_admission_state :: "string \<Rightarrow> pydict \<Rightarrow> WorkflowInstance \<Rightarrow> WorkflowInstance" where
  "put_admission_state k entry v =
     v\<lparr>wf_ai_admission_states := od_put k entry (wf_ai_admission_states v)\<rparr>"

definition requested_entry :: "WorkflowInstance \<Rightarrow> string \<Rightarrow> string \<Rightarrow> pydict" where
  "requested_entry v command_id execution_id =
     [(''State'', PStr (admission_state_value ADM_REQUESTED)),
      (''LogicalAdmissionKey'', PStr (join '':''
         [wf_tenant_id v, wf_workspace_id v, wf_workflow_id v, wf_workflow_step_id v, command_id, execution_id])),
      (''WorkflowAdmissionStateVersion'', PInt (wf_transition_version v)),
      (''CommittedExposure'', PNone), (''GatewayEvidence'', PNone), (''SettledActual'', PNone),
      (''Disposition'', PStr ''admission_requested'')]"

definition pending_entry :: "pydict \<Rightarrow> pydict" where
  "pending_entry entry = dict_update entry
     [(''State'', PStr (admission_state_value ADM_PENDING_ADMISSION)),
      (''Disposition'', PStr ''authority_scope_and_accounting_validated'')]"

definition committed_entry :: "pydict \<Rightarrow> pydict \<Rightarrow> pydict" where
  "committed_entry entry binding = dict_update entry
     [(''State'', PStr (admission_state_value ADM_COMMITTED)),
      (''CommittedExposure'', pget binding ''CommittedExposure''),
      (''GatewayIdempotencyKey'', pget binding ''GatewayIdempotencyKey''),
      (''Binding'', PDict binding),
      (''Disposition'', PStr ''committed_before_gateway_handoff'')]"

definition commit_admission ::
  "string \<Rightarrow> string \<Rightarrow> string \<Rightarrow> ('z engine_state_scheme, pydict option) eff" where
  "commit_admission w command_id execution_id =
     bnd (load_instance w) (\<lambda>v.
     if \<not> needs_admission v then ret None else
     case wf_ai_budget_envelope v of
       None \<Rightarrow> raise AssertionError
     | Some envelope \<Rightarrow>
         bnd (modify_instance w (\<lambda>v. v\<lparr>wf_transition_version := wf_transition_version v + 1\<rparr>)) (\<lambda>_.
         bnd (load_instance w) (\<lambda>v.
         let requested = requested_entry v command_id execution_id in
         bnd (modify_instance w (put_admission_state command_id requested)) (\<lambda>_.
         bnd (modify_instance w (put_admission_state command_id (pending_entry requested))) (\<lambda>_.
         bnd (lift (admission_binding envelope (wf_workflow_id v) (wf_workflow_step_id v) command_id execution_id
                (wd_skill_version_id (wf_definition v)) ''StructuredTaskKindClassification'' ''1''
                (wf_transition_version v) attempt_exposure)) (\<lambda>binding.
         bnd (modify_instance w (\<lambda>v. v\<lparr>wf_ai_admissions := od_put command_id binding (wf_ai_admissions v)\<rparr>)) (\<lambda>_.
         bnd (modify_instance w (put_admission_state command_id
                (committed_entry (pending_entry requested) binding))) (\<lambda>_.
         ret (Some binding)))))))))"

definition authoritative_reference :: "pydict \<Rightarrow> exn + string option" where
  "authoritative_reference payload = (case pget payload ''authoritative_result_id'' of
       PNone \<Rightarrow> Inr None
     | PStr s \<Rightarrow> Inr (Some s)
     | _ \<Rightarrow> Inl (TypeError ''expected string or bytes-like object''))"

definition attempt_payload ::
  "('z engine_state_scheme) engine_env \<Rightarrow> WorkflowInstance \<Rightarrow> exn + pydict" where
  "attempt_payload env v =
     (if is_approved_reference_workflow (wf_definition v)
      then case map_of (wf_input_payload v) ''statement'' of
             None \<Rightarrow> Inl (KeyError ''statement'')
           | Some (PStr s) \<Rightarrow> Inr [(''statement'', PStr (strip s))]
           | Some x \<Rightarrow> Inr [(''statement'', PStr (strip (en_str env x)))]
      else Inr (dict_update (wf_input_payload v)
             [(''skill_version_id'', PStr (wd_skill_version_id (wf_definition v))),
              (''timeout_seconds'', PFloat (wf_timeout_seconds v))]))"

definition attempt_envelope ::
  "('z engine_state_scheme) engine_env \<Rightarrow> WorkflowInstance \<Rightarrow> ident \<Rightarrow> ident \<Rightarrow> ident \<Rightarrow> pydict option
   \<Rightarrow> ('z engine_state_scheme, CommandEnvelope) eff"
where
  "attempt_envelope env v causation_id command_id execution_id granted =
     (let governed = is_approved_reference_workflow (wf_definition v) in
      bnd clock_now (\<lambda>now.
      bnd (lift (attempt_payload env v)) (\<lambda>payload.
      bnd (lift (authoritative_reference (wf_input_payload v))) (\<lambda>reference.
      bnd (lift (command_metadata
        \<lparr>cmeta_request_id = wf_request_id v,
         cmeta_idempotency_key = wf_workflow_step_id v @ '':'' @ show_int (wf_attempt_number v),
         cmeta_authorization = wf_authorization v, cmeta_attempt_number = Some (wf_attempt_number v),
         cmeta_expires_at = None, cmeta_trace_id = None, cmeta_span_id = None,
         cmeta_skill_version_id = (if governed then Some (wd_skill_version_id (wf_definition v)) else None),
         cmeta_authoritative_result_id = reference, cmeta_workflow_ai_budget_admission = granted\<rparr>)) (\<lambda>metadata.
      lift (command_envelope
        \<lparr>cmd_command_id = command_id, cmd_command_type = ''DispatchExecutionAttempt'',
         cmd_command_version = (if governed then ''2.0'' else ''1.0''),
         cmd_correlation_id = wf_correlation_id v, cmd_causation_id = causation_id,
         cmd_target_component = ''Skill Runtime'', cmd_initiator = engine_name, cmd_timestamp = Aware now,
         cmd_tenant_id = wf_tenant_id v, cmd_workspace_id = wf_workspace_id v, cmd_payload = payload,
         cmd_metadata = metadata, cmd_workflow_id = Some (wf_workflow_id v),
         cmd_workflow_step_id = Some (wf_workflow_step_id v), cmd_execution_id = Some execution_id\<rparr>))))))"

definition create_attempt_command ::
  "('z engine_state_scheme) engine_env \<Rightarrow> string \<Rightarrow> string \<Rightarrow> ('z engine_state_scheme, CommandEnvelope) eff"
where
  "create_attempt_command env w causation_id =
     bnd (check_admission w) (\<lambda>_.
     bnd (modify_instance w (\<lambda>v. v\<lparr>wf_attempt_number := wf_attempt_number v + 1\<rparr>)) (\<lambda>_.
     bnd (new_id ''execution'') (\<lambda>execution_id.
     bnd (modify_instance w (\<lambda>v. v\<lparr>wf_execution_ids := wf_execution_ids v @ [execution_id]\<rparr>)) (\<lambda>_.
     bnd (new_id ''command'') (\<lambda>command_id.
     bnd (commit_admission w command_id execution_id) (\<lambda>admission.
     bnd (load_instance w) (\<lambda>v.
     attempt_envelope env v causation_id command_id execution_id admission)))))))"

section \<open>Terminal outcomes\<close>

definition failed_outcome ::
  "string \<Rightarrow> string \<Rightarrow> string option \<Rightarrow> string option \<Rightarrow> failure_details
   \<Rightarrow> ('z engine_state_scheme, ResultEnvelope \<times> ErrorEnvelope) eff"
where
  "failed_outcome w causation_id command_id event_id details =
     bnd (load_instance w) (\<lambda>v.
     unsuccessful (instance_scope v causation_id) details command_id event_id None [])"

definition set_outcome ::
  "string \<Rightarrow> ResultEnvelope \<Rightarrow> ErrorEnvelope \<Rightarrow> ('z engine_state_scheme, unit) eff" where
  "set_outcome w result error =
     modify_instance w (\<lambda>v. v\<lparr>wf_outcome := Some result, wf_error := Some error\<rparr>)"

definition announce ::
  "('z engine_state_scheme) engine_env \<Rightarrow> string \<Rightarrow> string \<Rightarrow> EventEnvelope \<Rightarrow> ('z engine_state_scheme, unit) eff"
where
  "announce env w event_type event =
     bnd (publish_workflow_event env w event_type (evt_event_id event)) (\<lambda>_.
     bnd (load_instance w) (\<lambda>v.
     case wf_outcome v of
       None \<Rightarrow> raise (TypeError ''outcome'')
     | Some result \<Rightarrow> engine_observe v result))"

definition engine_fail ::
  "('z engine_state_scheme) engine_env \<Rightarrow> string \<Rightarrow> EventEnvelope \<Rightarrow> ('z engine_state_scheme, unit) eff"
where
  "engine_fail env w event =
     bnd (modify_instance w (\<lambda>v. v\<lparr>wf_state := WF_FAILED\<rparr>)) (\<lambda>_.
     bnd (failed_outcome w (evt_event_id event) None (Some (evt_event_id event))
       \<lparr>fd_status = FAILED, fd_error_code = ''WORKFLOW_ATTEMPTS_EXHAUSTED'', fd_category = WORKFLOW_STATE,
        fd_severity = ERROR, fd_retry = NEVER_RETRY,
        fd_message = ''Workflow failed after permitted attempts were exhausted.''\<rparr>) (\<lambda>(result, error).
     bnd (set_outcome w result error) (\<lambda>_.
     announce env w ''WorkflowFailed'' event)))"

definition settle_receipts :: "string \<Rightarrow> ResultEnvelope \<Rightarrow> ErrorEnvelope \<Rightarrow> ('z engine_state_scheme, unit) eff" where
  "settle_receipts w result error =
     upd (\<lambda>s. s\<lparr>command_receipts := map (\<lambda>(k, r). (k,
       if wr_workflow_id r = w \<and> wr_state r = CMD_IN_PROGRESS
       then r\<lparr>wr_result := result, wr_error := Some error\<rparr> else r)) (command_receipts s)\<rparr>)"

definition reject_pre_acceptance_attempt ::
  "('z engine_state_scheme) engine_env \<Rightarrow> string \<Rightarrow> EventEnvelope \<Rightarrow> ('z engine_state_scheme, unit) eff"
where
  "reject_pre_acceptance_attempt env w event =
     bnd (modify_instance w (\<lambda>v. v\<lparr>wf_state := WF_FAILED\<rparr>)) (\<lambda>_.
     bnd (failed_outcome w (evt_event_id event) None (Some (evt_event_id event))
       \<lparr>fd_status = REJECTED,
        fd_error_code = str_or (as_str (pget (evt_payload event) ''error_code'')) ''WORKFLOW_PRE_AI_REJECTED'',
        fd_category = VALIDATION, fd_severity = WARNING, fd_retry = NEVER_RETRY,
        fd_message = ''Workflow execution was rejected before AI acceptance.''\<rparr>) (\<lambda>(result, error).
     bnd (set_outcome w result error) (\<lambda>_.
     bnd (settle_receipts w result error) (\<lambda>_.
     announce env w ''WorkflowFailed'' event))))"

definition admission_category :: "string \<Rightarrow> ErrorCategory" where
  "admission_category code =
     (if code = ''WORKFLOW_AI_AUTHORIZATION_REVOKED'' then AUTHORIZATION else VALIDATION)"

definition reject_retry_admission ::
  "('z engine_state_scheme) engine_env \<Rightarrow> string \<Rightarrow> EventEnvelope \<Rightarrow> string \<Rightarrow> ('z engine_state_scheme, unit) eff"
where
  "reject_retry_admission env w event code =
     bnd (modify_instance w (\<lambda>v. v\<lparr>wf_state := WF_FAILED\<rparr>)) (\<lambda>_.
     bnd (failed_outcome w (evt_event_id event) None (Some (evt_event_id event))
       \<lparr>fd_status = REJECTED, fd_error_code = code, fd_category = admission_category code,
        fd_severity = WARNING, fd_retry = NEVER_RETRY,
        fd_message = (if code = ''WORKFLOW_AI_AUTHORIZATION_REVOKED''
          then ''Workflow AI authorization is unavailable before retry admission.''
          else ''Workflow AI budget is exhausted before retry Gateway dispatch.'')\<rparr>) (\<lambda>(result, error).
     bnd (set_outcome w result error) (\<lambda>_.
     announce env w ''WorkflowFailed'' event)))"

section \<open>Reconciliation\<close>

definition evidence_missing :: exn where
  "evidence_missing = ValueError ''WORKFLOW_AI_GATEWAY_EVIDENCE_MISSING''"

definition amount_of :: "pyval \<Rightarrow> exn \<Rightarrow> exn + int" where
  "amount_of v e = (case as_map v of
       None \<Rightarrow> Inl e
     | Some d \<Rightarrow> (case as_str (pget d ''Amount'') of None \<Rightarrow> Inl e | Some amount \<Rightarrow> scale6 amount))"

definition entry_amounts :: "pydict \<Rightarrow> exn + int \<times> int" where
  "entry_amounts entry =
     (if pget entry ''State'' = PStr (admission_state_value ADM_RECONCILED)
      then ebind (amount_of (pget entry ''SettledActual'') evidence_missing) (\<lambda>n. Inr (n, 0))
      else if pget entry ''State'' \<in> PStr ` admission_state_value ` {ADM_COMMITTED, ADM_GATEWAY_ACCEPTED, ADM_SETTLING}
      then ebind (amount_of (pget entry ''CommittedExposure'') (ValueError ''WORKFLOW_AI_ADMISSION_STATE_INVALID''))
             (\<lambda>n. Inr (0, n))
      else Inr (0, 0))"

fun total_amounts :: "pydict list \<Rightarrow> exn + int \<times> int" where
  "total_amounts [] = Inr (0, 0)"
| "total_amounts (entry # rest) =
     ebind (entry_amounts entry) (\<lambda>(a, b). ebind (total_amounts rest) (\<lambda>(c, d). Inr (a + c, b + d)))"

definition gateway_evidence :: "pydict \<Rightarrow> pydict \<Rightarrow> exn + pydict" where
  "gateway_evidence lineage entry =
     (case (as_map (pget entry ''Binding''), as_map (pget lineage ''accounting_evidence'')) of
        (Some _, Some accounting) \<Rightarrow>
          (case as_map (pget accounting ''gateway_evidence'') of None \<Rightarrow> Inl evidence_missing | Some g \<Rightarrow> Inr g)
      | _ \<Rightarrow> Inl evidence_missing)"

definition evidence_matches :: "WorkflowInstance \<Rightarrow> pydict \<Rightarrow> pydict \<Rightarrow> bool" where
  "evidence_matches v lineage g \<longleftrightarrow>
     py_eq (pget g ''evidence_version'') (PInt 1) \<and> py_eq (pget g ''status'') (PStr ''settled'')
     \<and> py_eq (pget g ''tenant_id'') (PStr (wf_tenant_id v))
     \<and> py_eq (pget g ''workspace_id'') (PStr (wf_workspace_id v))
     \<and> py_eq (pget g ''ai_invocation_id'') (pget lineage ''ai_invocation_id'')
     \<and> py_eq (pget g ''settled_result_id'') (pget lineage ''gateway_result_id'')
     \<and> py_eq (pget g ''currency_or_reference_unit'') (PStr ''USD'')
     \<and> as_str (pget g ''actual_cost'') \<noteq> None"

definition reconciled_entry :: "pydict \<Rightarrow> pydict \<Rightarrow> pydict \<Rightarrow> pydict" where
  "reconciled_entry lineage g entry = dict_update entry
     [(''State'', PStr (admission_state_value ADM_GATEWAY_ACCEPTED)),
      (''AIInvocationId'', pget lineage ''ai_invocation_id''),
      (''GatewayEvidence'', PDict g),
      (''Disposition'', PStr ''gateway_acceptance_correlated''),
      (''State'', PStr (admission_state_value ADM_SETTLING)),
      (''Disposition'', PStr ''gateway_terminal_accounting_validating''),
      (''State'', PStr (admission_state_value ADM_RECONCILED)),
      (''SettledActual'', PDict [(''Amount'', pget g ''actual_cost''), (''CurrencyOrReferenceUnit'', PStr ''USD'')]),
      (''Disposition'', PStr ''gateway_authoritative_actual_settled'')]"

definition reconcile_ai_admission ::
  "string \<Rightarrow> pydict \<Rightarrow> bool \<Rightarrow> ('z engine_state_scheme, int \<times> int) eff" where
  "reconcile_ai_admission w lineage bypassed =
     (if bypassed then ret (0, 0) else
      bnd (load_instance w) (\<lambda>v.
      case as_str (pget lineage ''command_id'') of
        None \<Rightarrow> raise evidence_missing
      | Some command_id \<Rightarrow>
          (case map_of (wf_ai_admission_states v) command_id of
             None \<Rightarrow> raise evidence_missing
           | Some entry \<Rightarrow>
               bnd (lift (gateway_evidence lineage entry)) (\<lambda>g.
               bnd (guard (evidence_matches v lineage g) (ValueError ''WORKFLOW_AI_GATEWAY_EVIDENCE_MISMATCH'')) (\<lambda>_.
               bnd (lift (scale6 (case as_str (pget g ''actual_cost'') of None \<Rightarrow> [] | Some a \<Rightarrow> a))) (\<lambda>_.
               bnd (modify_instance w (put_admission_state command_id (reconciled_entry lineage g entry))) (\<lambda>_.
               bnd (load_instance w) (\<lambda>v.
               lift (total_amounts (map snd (wf_ai_admission_states v)))))))))))"

section \<open>Completion\<close>

definition lineage_matches :: "WorkflowInstance \<Rightarrow> EventEnvelope \<Rightarrow> pydict \<Rightarrow> bool" where
  "lineage_matches v event lineage \<longleftrightarrow>
     py_eq (pget lineage ''tenant_id'') (PStr (wf_tenant_id v))
     \<and> py_eq (pget lineage ''workspace_id'') (PStr (wf_workspace_id v))
     \<and> py_eq (pget lineage ''workflow_id'') (PStr (wf_workflow_id v))
     \<and> py_eq (pget lineage ''workflow_step_id'') (PStr (wf_workflow_step_id v))
     \<and> py_eq (pget lineage ''execution_id'') (opt_str (evt_execution_id event))
     \<and> (case evt_execution_id event of None \<Rightarrow> False | Some x \<Rightarrow> x \<in> set (wf_execution_ids v))"

definition task_routes :: "(string, string) odict" where
  "task_routes = [(''Question'', ''question_queue''), (''Instruction'', ''instruction_queue''),
     (''Statement'', ''information_queue'')]"

text \<open>
  \<^verbatim>\<open>json.loads(str(value))["task_kind"]\<close> and the lookup of its route. Only a string value can be
  the text of an object with that key: the \<^verbatim>\<open>str\<close> of any other value either is not JSON (a
  dictionary prints the key in single quotes) or loads as something without string keys.
\<close>

definition task_route :: "text_services \<Rightarrow> pyval \<Rightarrow> (string \<times> string) option" where
  "task_route tx value = (case value of
       PStr text \<Rightarrow> (case json_loads tx text of
           Inr (PDict d) \<Rightarrow> (case pget d ''task_kind'' of
               PStr kind \<Rightarrow> map_option (\<lambda>r. (kind, r)) (map_of task_routes kind)
             | _ \<Rightarrow> None)
         | _ \<Rightarrow> None)
     | _ \<Rightarrow> None)"

definition routed_value ::
  "text_services \<Rightarrow> WorkflowInstance \<Rightarrow> WorkflowAIBudgetEnvelope \<Rightarrow> EventEnvelope \<Rightarrow> string \<Rightarrow> string \<Rightarrow> string"
where
  "routed_value tx v envelope event kind route =
     json_dumps (compact_sorted (repr_float tx)) (PDict
       [(''task_kind'', PStr kind), (''route'', PStr route), (''workflow_id'', PStr (wf_workflow_id v)),
        (''workflow_step_id'', PStr (wf_workflow_step_id v)),
        (''execution_id'', opt_str (evt_execution_id event)),
        (''capability_result_id'', pget (evt_payload event) ''result_id''),
        (''governance_evidence'', PDict
           [(''workflow_definition_version_id'', PStr (env_definition_version_id envelope)),
            (''policy_id'', PStr (env_policy_id envelope)),
            (''policy_version_id'', PStr (env_policy_version_id envelope))])])"

text \<open>\<^verbatim>\<open>amount or "0"\<close>\<close>

definition amount_text :: "int \<Rightarrow> pyval" where
  "amount_text n = PStr (if micro_amount n = [] then ''0'' else micro_amount n)"

definition get_or :: "pydict \<Rightarrow> string \<Rightarrow> pyval \<Rightarrow> pyval" where
  "get_or d k fallback = (case map_of d k of None \<Rightarrow> fallback | Some x \<Rightarrow> x)"

definition budget_evidence ::
  "WorkflowAIBudgetEnvelope \<Rightarrow> pydict \<Rightarrow> int \<Rightarrow> int \<Rightarrow> pydict" where
  "budget_evidence envelope lineage settled committed =
     (let avoided = py_eq (pget lineage ''avoided_model_calls'') (PInt 1) in
      [(''contract_version'', PInt 1), (''source'', PStr ''accepted_workflow_budget_envelope''),
       (''workflow_definition_version_id'', PStr (env_definition_version_id envelope)),
       (''policy_id'', PStr (env_policy_id envelope)),
       (''policy_version_id'', PStr (env_policy_version_id envelope)),
       (''admission_decision'', PStr (if avoided then ''bypassed'' else ''committed'')),
       (''logical_admission_binding'',
          if avoided then PStr ''not_applicable_by_design'' else get_or lineage ''command_id'' (PStr ''not_exposed'')),
       (''conservative_committed_exposure'', amount_text committed),
       (''gateway_authoritative_settled_actual'', amount_text settled),
       (''remaining_workflow_budget'', amount_text (env_ceiling_microusd envelope - (settled + committed))),
       (''ai_calls_made'', PInt (if avoided then 0 else 1)),
       (''ai_calls_avoided'', PInt (if avoided then 1 else 0)),
       (''gateway_accounting'', get_or lineage ''accounting_evidence'' (PStr ''not_exposed'')),
       (''replay_recovery_decision'', PStr ''original_or_idempotent_replay'')])"

definition completion_value ::
  "('z engine_state_scheme) engine_env \<Rightarrow> WorkflowInstance \<Rightarrow> EventEnvelope
   \<Rightarrow> ('z engine_state_scheme, pyval option) eff"
where
  "completion_value env v event =
     (let value = pget (evt_payload event) ''value_reference'' in
      if is_approved_reference_workflow (wf_definition v)
      then case task_route (en_tx env) value of
             None \<Rightarrow> ret None
           | Some (kind, route) \<Rightarrow>
               (case wf_ai_budget_envelope v of
                  None \<Rightarrow> raise AssertionError
                | Some envelope \<Rightarrow> ret (Some (PStr (routed_value (en_tx env) v envelope event kind route))))
      else ret (Some value))"

definition finish_completion ::
  "('z engine_state_scheme) engine_env \<Rightarrow> string \<Rightarrow> EventEnvelope \<Rightarrow> pydict \<Rightarrow> pyval
   \<Rightarrow> ('z engine_state_scheme, unit) eff"
where
  "finish_completion env w event lineage value =
     bnd (load_instance w) (\<lambda>v.
     bnd (case wf_ai_budget_envelope v of
            None \<Rightarrow> ret []
          | Some envelope \<Rightarrow>
              bnd (reconcile_ai_admission w lineage (py_eq (pget lineage ''avoided_model_calls'') (PInt 1)))
                (\<lambda>(settled, committed).
              ret [(''workflow_ai_budget_evidence'', PDict (budget_evidence envelope lineage settled committed))]))
       (\<lambda>evidence.
     bnd (succeeded (instance_scope v (evt_event_id event)) None (Some (evt_event_id event)) (as_str value)
       ([(''attempt_count'', PInt (wf_attempt_number v)),
         (''execution_ids'', PTuple (map PStr (wf_execution_ids v))),
         (''audit_lineage'', PDict lineage)] @ evidence) None) (\<lambda>result.
     bnd (modify_instance w (\<lambda>v. v\<lparr>wf_outcome := Some result\<rparr>)) (\<lambda>_.
     bnd (modify_instance w (\<lambda>v. v\<lparr>wf_state := WF_COMPLETED\<rparr>)) (\<lambda>_.
     announce env w ''WorkflowCompleted'' event)))))"

definition engine_complete ::
  "('z engine_state_scheme) engine_env \<Rightarrow> string \<Rightarrow> EventEnvelope \<Rightarrow> ('z engine_state_scheme, unit) eff"
where
  "engine_complete env w event =
     bnd (load_instance w) (\<lambda>v.
     case as_map (pget (evt_payload event) ''audit_lineage'') of
       None \<Rightarrow> engine_fail env w event
     | Some lineage \<Rightarrow>
         if \<not> lineage_matches v event lineage then engine_fail env w event else
         bnd (completion_value env v event) (\<lambda>value.
         case value of
           None \<Rightarrow> engine_fail env w event
         | Some value \<Rightarrow>
             finish_completion env w event
               (od_put ''capability_result_id'' (pget (evt_payload event) ''result_id'') lineage) value))"

section \<open>Consumption of attempt Events\<close>

definition attempt_events :: "string list" where
  "attempt_events = [''ExecutionAttemptSucceeded'', ''ExecutionAttemptFailed'', ''ExecutionAttemptTimedOut'']"

definition terminal_state :: "WorkflowState \<Rightarrow> bool" where
  "terminal_state st \<longleftrightarrow> st \<in> {WF_COMPLETED, WF_FAILED, WF_CANCELLED}"

definition permits_new_attempt :: "'z engine_state_scheme \<Rightarrow> string \<Rightarrow> bool" where
  "permits_new_attempt s step_id =
     (case find (\<lambda>v. wf_workflow_step_id v = step_id) (map snd (instances s)) of
        None \<Rightarrow> False
      | Some v \<Rightarrow> wf_state v = WF_RUNNING \<and> wf_attempt_number v < wd_max_attempts (wf_definition v))"

definition retryable :: "pyval \<Rightarrow> bool" where
  "retryable classification \<longleftrightarrow>
     classification \<in> PStr ` retry_value ` {RETRYABLE, RETRYABLE_AFTER_DELAY, REQUIRES_POLICY_EVALUATION}"

definition retry_allowed :: "'z engine_state_scheme \<Rightarrow> WorkflowInstance \<Rightarrow> pyval \<Rightarrow> bool" where
  "retry_allowed s v classification \<longleftrightarrow>
     permits_new_attempt s (wf_workflow_step_id v) \<and> retryable classification"

definition record_retry_decision ::
  "WorkflowInstance \<Rightarrow> EventEnvelope \<Rightarrow> string \<Rightarrow> ('z engine_state_scheme, unit) eff" where
  "record_retry_decision v event decision_id =
     bnd clock_now (\<lambda>now.
     record_decision
       \<lparr>dec_decision_id = decision_id, dec_decision_type = ''RetryExecutionAttempt'',
        dec_component = engine_name, dec_tenant_id = wf_tenant_id v, dec_workspace_id = wf_workspace_id v,
        dec_correlation_id = wf_correlation_id v, dec_recorded_at = Aware now,
        dec_triggering_id = Some (evt_event_id event)\<rparr>)"

definition owns_attempt_command :: "string option \<Rightarrow> WorkflowInstance \<Rightarrow> bool" where
  "owns_attempt_command command_id v = (case command_id of
       None \<Rightarrow> False
     | Some k \<Rightarrow> (case wf_initial_attempt_command v of None \<Rightarrow> False | Some c \<Rightarrow> cmd_command_id c = k)
         \<or> list_ex (\<lambda>(_, c). cmd_command_id c = k) (wf_retry_commands v))"

definition pre_acceptance_rejection_workflow_id :: "'z engine_state_scheme \<Rightarrow> EventEnvelope \<Rightarrow> string option" where
  "pre_acceptance_rejection_workflow_id s event =
     (if pget (evt_payload event) ''pre_acceptance_rejection'' \<noteq> PBool True then None
      else case filter (owns_attempt_command (evt_causation_id event)) (map snd (instances s)) of
             [v] \<Rightarrow> Some (wf_workflow_id v)
           | _ \<Rightarrow> None)"

definition admission_failure :: "exn \<Rightarrow> bool" where
  "admission_failure e \<longleftrightarrow> is_value_error e
     \<and> exn_str e \<in> {''WORKFLOW_AI_BUDGET_EXHAUSTED'', ''WORKFLOW_AI_AUTHORIZATION_REVOKED''}"

text \<open>Creation of an attempt Command where the two admission failures are answered by the caller.\<close>

definition try_attempt_command ::
  "('z engine_state_scheme) engine_env \<Rightarrow> string \<Rightarrow> string \<Rightarrow> ('z engine_state_scheme, string + CommandEnvelope) eff"
where
  "try_attempt_command env w causation_id =
     catch (bnd (create_attempt_command env w causation_id) (\<lambda>c. ret (Inr c)))
       (\<lambda>e. if admission_failure e then ret (Inl (exn_str e)) else raise e)"

definition dispatch_attempt ::
  "('z engine_state_scheme) engine_env \<Rightarrow> CommandEnvelope \<Rightarrow> ('z engine_state_scheme, unit) eff" where
  "dispatch_attempt env c = dispatch_context c (bnd (en_dispatch env c) (\<lambda>_. ret ()))"

definition mark_processed :: "string \<Rightarrow> EventEnvelope \<Rightarrow> ('z engine_state_scheme, unit) eff" where
  "mark_processed w event =
     modify_instance w (\<lambda>v. v\<lparr>wf_processed_event_ids := insert (evt_event_id event) (wf_processed_event_ids v)\<rparr>)"

definition retry_attempt ::
  "('z engine_state_scheme) engine_env \<Rightarrow> string \<Rightarrow> EventEnvelope \<Rightarrow> ('z engine_state_scheme, unit) eff"
where
  "retry_attempt env w event =
     bnd (new_id ''decision'') (\<lambda>decision_id.
     bnd (try_attempt_command env w decision_id) (\<lambda>created.
     case created of
       Inl code \<Rightarrow> reject_retry_admission env w event code
     | Inr c \<Rightarrow>
         bnd (load_instance w) (\<lambda>v.
         bnd (record_retry_decision v event decision_id) (\<lambda>_.
         bnd (modify_instance w (\<lambda>v. v\<lparr>wf_retry_commands :=
                od_put (evt_event_id event) c (wf_retry_commands v)\<rparr>)) (\<lambda>_.
         dispatch_attempt env c)))))"

definition attempt_unsuccessful ::
  "('z engine_state_scheme) engine_env \<Rightarrow> string \<Rightarrow> EventEnvelope \<Rightarrow> ('z engine_state_scheme, unit) eff"
where
  "attempt_unsuccessful env w event =
     bnd (load_instance w) (\<lambda>v.
     case map_of (wf_retry_commands v) (evt_event_id event) of
       Some c \<Rightarrow> dispatch_attempt env c
     | None \<Rightarrow>
         bnd (asks (\<lambda>s. retry_allowed s v
               (get_or (evt_payload event) ''retry_classification'' (PStr ''NeverRetry'')))) (\<lambda>allowed.
         if allowed then retry_attempt env w event else engine_fail env w event))"

definition consuming_instance :: "EventEnvelope \<Rightarrow> ('z engine_state_scheme, string) eff" where
  "consuming_instance event =
     (case evt_workflow_id event of
        None \<Rightarrow> raise (ValueError ''attempt Event must reference WorkflowId'')
      | Some w \<Rightarrow>
          bnd (asks (\<lambda>s. if map_of (instances s) w \<noteq> None then Some w
                         else pre_acceptance_rejection_workflow_id s event)) (\<lambda>found.
          case found of
            None \<Rightarrow> raise (KeyError (''Workflow does not exist: '' @ w))
          | Some w \<Rightarrow> ret w))"

definition process_event ::
  "('z engine_state_scheme) engine_env \<Rightarrow> string \<Rightarrow> EventEnvelope \<Rightarrow> ('z engine_state_scheme, unit) eff"
where
  "process_event env w event =
     bnd (load_instance w) (\<lambda>v.
     if evt_event_id event \<in> wf_processed_event_ids v then ret ()
     else if evt_tenant_id event \<noteq> Some (wf_tenant_id v) \<or> evt_workspace_id event \<noteq> Some (wf_workspace_id v)
     then raise (PermissionError ''cross-scope Event delivery denied'')
     else bnd (if terminal_state (wf_state v) then ret ()
               else if evt_event_type event = ''ExecutionAttemptSucceeded'' then engine_complete env w event
               else if pget (evt_payload event) ''pre_acceptance_rejection'' = PBool True
               then reject_pre_acceptance_attempt env w event
               else attempt_unsuccessful env w event) (\<lambda>_.
          mark_processed w event))"

definition engine_consume ::
  "('z engine_state_scheme) engine_env \<Rightarrow> EventEnvelope \<Rightarrow> ('z engine_state_scheme, unit) eff"
where
  "engine_consume env event =
     (if evt_event_type event \<notin> set attempt_events then ret ()
      else bnd (consuming_instance event) (\<lambda>w. process_event env w event))"

section \<open>Commands\<close>

definition start_definition :: "pydict \<Rightarrow> exn + WorkflowDefinition" where
  "start_definition payload =
     ebind (payload_string payload ''workflow_definition_id'') (\<lambda>definition_id.
     ebind (payload_string payload ''workflow_definition_version_id'') (\<lambda>version_id.
     ebind (payload_string payload ''skill_version_id'') (\<lambda>skill_version_id.
     ebind (payload_int payload ''max_attempts'' 2) (\<lambda>max_attempts.
     ebind (payload_optional_string payload ''workflow_kind'') (\<lambda>kind.
     workflow_definition
       \<lparr>wd_workflow_definition_id = definition_id, wd_workflow_definition_version_id = version_id,
        wd_skill_version_id = skill_version_id, wd_max_attempts = max_attempts, wd_workflow_kind = kind,
        wd_ai_budget_envelope = as_map (pget payload ''workflow_ai_budget_envelope'')\<rparr>)))))"

definition envelope_in_scope :: "CommandEnvelope \<Rightarrow> WorkflowDefinition \<Rightarrow> WorkflowAIBudgetEnvelope \<Rightarrow> bool" where
  "envelope_in_scope c d envelope \<longleftrightarrow>
     env_definition_version_id envelope = wd_workflow_definition_version_id d
     \<and> env_tenant_id envelope = cmd_tenant_id c \<and> env_workspace_id envelope = cmd_workspace_id c
     \<and> env_policy_id envelope = auth_policy_id (cmeta_authorization (cmd_metadata c))
     \<and> env_policy_version_id envelope = auth_policy_version_id (cmeta_authorization (cmd_metadata c))"

definition statement_ok :: "pyval \<Rightarrow> bool" where
  "statement_ok v = (case as_str v of
       None \<Rightarrow> False | Some st \<Rightarrow> 1 \<le> length (strip st) \<and> length (strip st) \<le> 512)"

text \<open>The checks between authorization and creation of the instance: a rejection code with its
  message, or the definition and the parsed envelope.\<close>

definition start_checks ::
  "CommandEnvelope \<Rightarrow> string \<times> string + WorkflowDefinition \<times> WorkflowAIBudgetEnvelope option" where
  "start_checks c =
     (let payload = cmd_payload c; reference = pget payload ''authoritative_result_id'' in
      if reference \<noteq> PNone \<and> (case as_str reference of None \<Rightarrow> True | Some r \<Rightarrow> \<not> opaque_result_id r)
      then Inl (''AUTHORITATIVE_RESULT_ID_INVALID'', ''AuthoritativeResultId must be a well-formed opaque ResultId'')
      else case start_definition payload of
        Inl _ \<Rightarrow> Inl (''WORKFLOW_DEFINITION_INVALID'', ''Workflow definition identity is incomplete or invalid'')
      | Inr d \<Rightarrow>
          if (\<exists>m \<in> set (definition_identity d). m \<in> set approved_identity) \<and> \<not> is_approved_reference_workflow d
          then Inl (''WORKFLOW_REFERENCE_IDENTITY_INVALID'',
                 ''structured-AI execution requires the exact approved reference Workflow identity'')
          else if \<not> is_approved_reference_workflow d then Inr (d, None)
          else if \<not> statement_ok (pget payload ''statement'')
          then Inl (''CLASSIFY_AND_ROUTE_INPUT_INVALID'', ''statement must contain 1..512 characters'')
          else case wd_ai_budget_envelope d of
            None \<Rightarrow> Inl (''WORKFLOW_AI_BUDGET_ENVELOPE_REQUIRED'', ''AI-capable workflow requires an envelope'')
          | Some raw \<Rightarrow>
              (case envelope_parse raw of
                 Inl _ \<Rightarrow> Inl (''WORKFLOW_AI_BUDGET_ENVELOPE_INVALID'', ''unsupported AI budget envelope'')
               | Inr envelope \<Rightarrow>
                   if envelope_in_scope c d envelope then Inr (d, Some envelope)
                   else Inl (''WORKFLOW_AI_BUDGET_ENVELOPE_SCOPE_MISMATCH'', ''AI budget envelope binding mismatch'')))"

definition resume_start ::
  "('z engine_state_scheme) engine_env \<Rightarrow> WorkflowCommandReceipt \<Rightarrow> ('z engine_state_scheme, ResultEnvelope) eff"
where
  "resume_start env receipt =
     (let w = wr_workflow_id receipt; k = cmd_command_id (wr_command receipt) in
      bnd (load_instance w) (\<lambda>v.
      if wf_outcome v \<noteq> None then complete_command k else
      bnd (publish_workflow_event env w ''WorkflowStarted'' k) (\<lambda>_.
      bnd (load_instance w) (\<lambda>v.
      bnd (case wf_initial_attempt_command v of
             Some c \<Rightarrow> ret (Inr c)
           | None \<Rightarrow>
               bnd (try_attempt_command env w k) (\<lambda>created.
               case created of
                 Inl code \<Rightarrow> ret (Inl code)
               | Inr c \<Rightarrow>
                   bnd (modify_instance w (\<lambda>v. v\<lparr>wf_initial_attempt_command := Some c\<rparr>)) (\<lambda>_.
                   ret (Inr c)))) (\<lambda>created.
      case created of
        Inr c \<Rightarrow> bnd (dispatch_attempt env c) (\<lambda>_. complete_command k)
      | Inl code \<Rightarrow>
          bnd (failed_outcome w k (Some k) None
            \<lparr>fd_status = REJECTED, fd_error_code = code, fd_category = admission_category code,
             fd_severity = WARNING, fd_retry = NEVER_RETRY,
             fd_message = (if code = ''WORKFLOW_AI_AUTHORIZATION_REVOKED''
               then ''Workflow AI authorization is unavailable before admission.''
               else ''Workflow AI budget is exhausted before Gateway dispatch.'')\<rparr>) (\<lambda>(result, error).
          bnd (modify_instance w (\<lambda>v. v\<lparr>wf_state := WF_FAILED\<rparr>)) (\<lambda>_.
          bnd (set_outcome w result error) (\<lambda>_.
          bnd (modify_receipt k (\<lambda>r. r\<lparr>wr_result := result, wr_error := Some error\<rparr>)) (\<lambda>_.
          complete_command k)))))))))"

definition new_instance ::
  "CommandEnvelope \<Rightarrow> WorkflowDefinition \<Rightarrow> WorkflowAIBudgetEnvelope option \<Rightarrow> string \<Rightarrow> string \<Rightarrow> rat
   \<Rightarrow> WorkflowInstance"
where
  "new_instance c d envelope w step timeout =
     \<lparr>wf_workflow_id = w, wf_workflow_step_id = step, wf_definition = d, wf_tenant_id = cmd_tenant_id c,
      wf_workspace_id = cmd_workspace_id c, wf_request_id = cmeta_request_id (cmd_metadata c),
      wf_correlation_id = cmd_correlation_id c, wf_authorization = cmeta_authorization (cmd_metadata c),
      wf_input_payload = cmd_payload c, wf_timeout_seconds = timeout, wf_state = WF_RUNNING,
      wf_attempt_number = 0, wf_execution_ids = [], wf_processed_event_ids = {}, wf_workflow_events = [],
      wf_initial_attempt_command = None, wf_retry_commands = [], wf_outcome = None, wf_error = None,
      wf_ai_budget_envelope = envelope, wf_ai_admissions = [], wf_ai_admission_states = [],
      wf_transition_version = 0\<rparr>"

text \<open>The new instance, the acknowledgement and the receipt that a restart resumes from.\<close>

definition open_workflow ::
  "CommandEnvelope \<Rightarrow> WorkflowDefinition \<Rightarrow> WorkflowAIBudgetEnvelope option
   \<Rightarrow> ('z engine_state_scheme, WorkflowCommandReceipt) eff"
where
  "open_workflow c d envelope =
     bnd (new_id ''workflow'') (\<lambda>w.
     bnd (new_id ''step'') (\<lambda>step.
     bnd (lift (payload_float (cmd_payload c) ''timeout_seconds'' 1)) (\<lambda>timeout.
     bnd (add_instance (new_instance c d envelope w step timeout)) (\<lambda>_.
     bnd (accepted (command_scope c w) (cmd_command_id c) (Some w)) (\<lambda>acknowledgement.
     begin_command c acknowledgement w None)))))"

definition engine_start ::
  "('z engine_state_scheme) engine_env \<Rightarrow> CommandEnvelope \<Rightarrow> ('z engine_state_scheme, ResultEnvelope) eff"
where
  "engine_start env c =
     bnd (permitted (cmeta_authorization (cmd_metadata c)) ''workflow.start'' (cmd_tenant_id c) (cmd_workspace_id c))
       (\<lambda>ok.
     if \<not> ok then engine_reject c ''WORKFLOW_START_UNAUTHORIZED'' ''Workflow start denied'' else
     case start_checks c of
       Inl (code, message) \<Rightarrow> engine_reject c code message
     | Inr (d, envelope) \<Rightarrow> bnd (open_workflow c d envelope) (resume_start env))"

definition engine_cancel :: "CommandEnvelope \<Rightarrow> ('z engine_state_scheme, ResultEnvelope) eff" where
  "engine_cancel c = (case cmd_workflow_id c of
     None \<Rightarrow> engine_reject c ''WORKFLOW_ID_REQUIRED'' ''WorkflowId is required''
   | Some w \<Rightarrow>
     bnd (permitted (cmeta_authorization (cmd_metadata c)) ''workflow.cancel'' (cmd_tenant_id c) (cmd_workspace_id c))
       (\<lambda>ok.
     if \<not> ok then engine_reject c ''WORKFLOW_CANCEL_UNAUTHORIZED'' ''Workflow cancellation denied'' else
     bnd (asks (\<lambda>s. map_of (instances s) w)) (\<lambda>found.
     case found of
       None \<Rightarrow> engine_reject c ''WORKFLOW_NOT_FOUND'' ''Workflow does not exist''
     | Some v \<Rightarrow>
         if wf_tenant_id v \<noteq> cmd_tenant_id c \<or> wf_workspace_id v \<noteq> cmd_workspace_id c
         then engine_reject c ''WORKFLOW_SCOPE_MISMATCH'' ''Workflow does not belong to the command scope''
         else if wf_state v = WF_CANCELLED
         then (case wf_outcome v of
                 None \<Rightarrow> raise (RuntimeError ''cancelled Workflow is missing its terminal outcome'')
               | Some result \<Rightarrow>
                   bnd (remember_completed_command c result (wf_workflow_id v) (wf_error v)) (\<lambda>_. ret result))
         else if wf_state v = WF_COMPLETED \<or> wf_state v = WF_FAILED
         then engine_reject c ''WORKFLOW_ALREADY_TERMINAL'' ''terminal Workflow cannot be cancelled''
         else
           bnd (modify_instance w (\<lambda>v. v\<lparr>wf_state := WF_CANCELLED\<rparr>)) (\<lambda>_.
           bnd (failed_outcome w (cmd_command_id c) (Some (cmd_command_id c)) None
             \<lparr>fd_status = CANCELLED, fd_error_code = ''WORKFLOW_CANCELLED'', fd_category = CANCELLATION,
              fd_severity = INFORMATIONAL, fd_retry = NEVER_RETRY,
              fd_message = ''Workflow cancellation became authoritative.''\<rparr>) (\<lambda>(result, error).
           bnd (set_outcome w result error) (\<lambda>_.
           bnd (remember_completed_command c result (wf_workflow_id v) (Some error)) (\<lambda>_.
           ret result)))))))"

definition handle_command ::
  "('z engine_state_scheme) engine_env \<Rightarrow> CommandEnvelope \<Rightarrow> ('z engine_state_scheme, ResultEnvelope) eff"
where
  "handle_command env c =
     (if cmd_target_component c \<noteq> engine_name then raise (ValueError ''Command target does not match Workflow Engine'')
      else if cmd_command_version c \<notin> {''1'', ''1.0'', ''2'', ''2.0''}
      then engine_reject c ''WORKFLOW_COMMAND_VERSION_UNSUPPORTED''
             ''unknown Workflow command version cannot use compatibility fallback''
      else if cmd_command_type c = ''StartWorkflow'' then engine_start env c
      else if cmd_command_type c = ''CancelWorkflow'' then engine_cancel c
      else engine_reject c ''WORKFLOW_COMMAND_INVALID'' ''unsupported Workflow Command'')"

definition engine_handle ::
  "('z engine_state_scheme) engine_env \<Rightarrow> CommandEnvelope \<Rightarrow> ('z engine_state_scheme, ResultEnvelope) eff"
where
  "engine_handle env c =
     bnd (receipt_for_command (cmd_command_id c)) (\<lambda>receipt.
     case receipt of
       None \<Rightarrow> handle_command env c
     | Some r \<Rightarrow>
         if \<not> command_eq (wr_command r) c
         then raise (ValueError ''CommandId cannot be reused with changed immutable content'')
         else if wr_state r = CMD_COMPLETED then ret (wr_result r)
         else if cmd_command_type c = ''StartWorkflow'' then resume_start env r
         else handle_command env c)"

definition engine_outcome :: "string \<Rightarrow> ('z engine_state_scheme, ResultEnvelope option) eff" where
  "engine_outcome w = asks (\<lambda>s. case map_of (instances s) w of None \<Rightarrow> None | Some v \<Rightarrow> wf_outcome v)"

end
