(* ===== verification/Engine_Orders.thy ===== *)
theory Engine_Orders
  imports Workflow_Engine
begin

text \<open>
  Preservation through the Engine's handlers, proved once for any order on the state.

  A handler may re-enter the Engine in two places, the dispatcher and the drain of the outbox, so
  what it keeps is stated as a preorder between the state before and the state after
  (\<open>evolves\<close>). The locale \<open>engine_order\<close> lists what an order must accept: fields outside the
  Engine's core, Events recorded in the outbox, assignments to instances and receipts that a
  handler owns, creation of an attempt, and the two re-entrant ports. Every operation of the Engine
  then respects the order. The theories that follow interpret it: terminal outcomes, the budget of
  every instance, and the outbox.
\<close>

section \<open>Effects along an order\<close>

definition evolves :: "('s \<Rightarrow> 's \<Rightarrow> bool) \<Rightarrow> ('s, 'a) eff \<Rightarrow> bool" where
  "evolves R m \<longleftrightarrow> (\<forall>s. R s (snd (m s)))"

lemma evolvesD: "evolves R m \<Longrightarrow> m s = (r, t) \<Longrightarrow> R s t"
  unfolding evolves_def by (metis snd_conv)

lemma evolves_upd: "(\<And>s. R s (f s)) \<Longrightarrow> evolves R (upd f)"
  by (simp add: evolves_def effect_simps)

lemma evolves_mono: "evolves R m \<Longrightarrow> (\<And>s t. R s t \<Longrightarrow> Q s t) \<Longrightarrow> evolves Q m"
  by (auto simp: evolves_def)

locale evolution =
  fixes R :: "'s \<Rightarrow> 's \<Rightarrow> bool"
  assumes refl: "R s s" and trans: "R s t \<Longrightarrow> R t u \<Longrightarrow> R s u"
begin

lemma pure:
  "evolves R (ret x)" "evolves R (raise e)" "evolves R (asks g)" "evolves R (lift r)" "evolves R (guard b e)"
  by (auto simp: evolves_def effect_simps refl)

lemma bind: "evolves R m \<Longrightarrow> (\<And>x. evolves R (f x)) \<Longrightarrow> evolves R (bnd m f)"
  unfolding evolves_def effect_simps
  by (auto split: prod.splits sum.splits intro: trans dest: spec) (metis snd_conv trans)+

lemma handle: "evolves R m \<Longrightarrow> (\<And>e. evolves R (h e)) \<Longrightarrow> evolves R (catch m h)"
  unfolding evolves_def effect_simps
  by (auto split: prod.splits sum.splits intro: trans dest: spec) (metis snd_conv trans)+

lemma final: "evolves R m \<Longrightarrow> evolves R f \<Longrightarrow> evolves R (finally_do m f)"
  unfolding finally_do_def by (intro bind handle pure)

lemma branch:
  "(b \<Longrightarrow> evolves R m) \<Longrightarrow> (\<not> b \<Longrightarrow> evolves R n) \<Longrightarrow> evolves R (if b then m else n)"
  "(x = None \<Longrightarrow> evolves R m) \<Longrightarrow> (\<And>y. x = Some y \<Longrightarrow> evolves R (g y)) \<Longrightarrow>
   evolves R (case x of None \<Rightarrow> m | Some y \<Rightarrow> g y)"
  "(\<And>a. evolves R (h a)) \<Longrightarrow> (\<And>b. evolves R (k b)) \<Longrightarrow> evolves R (case z of Inl a \<Rightarrow> h a | Inr b \<Rightarrow> k b)"
  "(\<And>a b. evolves R (p a b)) \<Longrightarrow> evolves R (case q of (a, b) \<Rightarrow> p a b)"
  by (auto split: option.splits sum.splits prod.splits)

lemmas rules = bind handle final branch pure

end

section \<open>The Engine's core state\<close>

text \<open>
  The extension of the record holds the state of the components above the Engine; \<open>p\<close> is the part of
  it that counts. \<open>core id\<close> is the finest core, \<open>core (\<lambda>_. ())\<close> the Engine's own.
\<close>

definition core ::
  "('z \<Rightarrow> 'p) \<Rightarrow> 'z engine_state_scheme
     \<Rightarrow> (string, WorkflowInstance) odict \<times> (string, WorkflowCommandReceipt) odict
        \<times> (string, OutboxEntry) odict \<times> (string \<times> string) set \<times> 'p" where
  "core p s = (instances s, command_receipts s, outbox_entries s, delivered s, p (engine_state.more s))"

abbreviation same_core :: "('z \<Rightarrow> 'p) \<Rightarrow> 'z engine_state_scheme \<Rightarrow> 'z engine_state_scheme \<Rightarrow> bool" where
  "same_core p s t \<equiv> core p t = core p s"

interpretation offside: evolution "same_core p" for p
  by unfold_locales simp_all

lemma offside_reads:
  "evolves (same_core p) clock_now" "evolves (same_core p) (new_id prefix)" "evolves (same_core p) (load_instance w)"
  "evolves (same_core p) (receipt_for_command k)" "evolves (same_core p) (record_log ctx sv msg ats)"
  "evolves (same_core p) (authorize a perm t ws)" "evolves (same_core p) (record_decision d)"
  by (auto simp: evolves_def core_def effect_simps Let_def record_decision_def)

lemma offside_outcomes:
  "evolves (same_core p) (accepted sc k vr)" "evolves (same_core p) (succeeded sc cid ev vr md pr)"
  "evolves (same_core p) (unsuccessful sc fd cid ev pr md)"
  unfolding accepted_def succeeded_def unsuccessful_def by (intro offside.rules offside_reads)+

lemmas offside_services = offside_reads offside_outcomes

definition same_identity :: "WorkflowInstance \<Rightarrow> WorkflowInstance \<Rightarrow> bool" where
  "same_identity v v' \<longleftrightarrow>
     wf_workflow_id v' = wf_workflow_id v \<and> wf_workflow_step_id v' = wf_workflow_step_id v
     \<and> wf_definition v' = wf_definition v \<and> wf_tenant_id v' = wf_tenant_id v
     \<and> wf_workspace_id v' = wf_workspace_id v \<and> wf_authorization v' = wf_authorization v
     \<and> wf_input_payload v' = wf_input_payload v \<and> wf_ai_budget_envelope v' = wf_ai_budget_envelope v
     \<and> wf_attempt_number v \<le> wf_attempt_number v' \<and> wf_transition_version v \<le> wf_transition_version v'
     \<and> wf_processed_event_ids v \<subseteq> wf_processed_event_ids v'"

definition same_outcome :: "WorkflowInstance \<Rightarrow> WorkflowInstance \<Rightarrow> bool" where
  "same_outcome v v' \<longleftrightarrow> wf_state v' = wf_state v \<and> wf_outcome v' = wf_outcome v \<and> wf_error v' = wf_error v"

lemma same_identity_order [simp]:
  "same_identity v v"
  "same_identity u v \<Longrightarrow> same_identity v w \<Longrightarrow> same_identity u w"
  by (auto simp: same_identity_def)

lemma same_outcome_order: "same_outcome v v" "same_outcome u v \<Longrightarrow> same_outcome v w \<Longrightarrow> same_outcome u w"
  by (auto simp: same_outcome_def)

text \<open>Assignments that touch neither identity nor admissions; \<open>put_admission_state\<close> is one.\<close>

definition benign :: "(WorkflowInstance \<Rightarrow> WorkflowInstance) \<Rightarrow> bool" where
  "benign f \<longleftrightarrow> (\<forall>v. same_identity v (f v) \<and> wf_ai_admissions (f v) = wf_ai_admissions v)"

lemmas benign_simps = benign_def same_identity_def same_outcome_def put_admission_state_def

section \<open>What an order has to accept\<close>

locale engine_order = evolution R
  for R :: "'z engine_state_scheme \<Rightarrow> 'z engine_state_scheme \<Rightarrow> bool" +
  fixes X K :: "string set" and env :: "('z engine_state_scheme) engine_env"
  assumes frame: "core id t = core id s \<Longrightarrow> R s t"
    and records: "evolves R (outbox_record event)"
    and annotates: "benign f \<Longrightarrow> (\<And>v. same_outcome v (f v)) \<Longrightarrow> evolves R (modify_instance w f)"
    and updates: "w \<in> X \<Longrightarrow> benign f \<Longrightarrow> evolves R (modify_instance w f)"
    and adds: "wf_ai_admissions v = [] \<Longrightarrow> evolves R (add_instance v)"
    and attempts: "evolves R (create_attempt_command env w k)"
    and receipts: "k \<in> K \<Longrightarrow> evolves R (upd (\<lambda>s. s\<lparr>command_receipts := od_put k r (command_receipts s)\<rparr>))"
    and settles: "evolves R (settle_receipts w result error)"
    and dispatch: "evolves R (en_dispatch env c)"
    and drains: "evolves R (en_drain env)"
begin

lemma offside_evolves: "evolves (same_core id) m \<Longrightarrow> evolves R m"
  by (erule evolves_mono) (rule frame)

lemmas services = offside_services [THEN offside_evolves]

lemmas basic = bind handle final pure services records dispatch drains attempts settles

lemma permitted: "evolves R (permitted a p t ws)"
  unfolding permitted_def by (intro basic) (auto intro: pure split: exn.splits)

lemma receipt_writes:
  "k \<in> K \<Longrightarrow> evolves R (modify_receipt k f)"
  "cmd_command_id c \<in> K \<Longrightarrow> evolves R (begin_command c result w err)"
  unfolding modify_receipt_def begin_command_def put_receipt_def
  by (intro basic branch receipts; simp)+

lemma command_ends:
  "k \<in> K \<Longrightarrow> evolves R (complete_command k)"
  "cmd_command_id c \<in> K \<Longrightarrow> evolves R (remember_completed_command c result w err)"
  unfolding complete_command_def remember_completed_command_def by (intro basic receipt_writes; assumption)+

lemma reject: "cmd_command_id c \<in> K \<Longrightarrow> evolves R (engine_reject c code message)"
  unfolding engine_reject_def Let_def by (intro basic branch command_ends)

lemma in_context: "evolves R m \<Longrightarrow> evolves R (dispatch_context c m)"
  unfolding dispatch_context_def by (intro basic evolves_upd frame) (simp_all add: core_def)

lemma dispatch_attempt: "evolves R (dispatch_attempt env c)"
  unfolding dispatch_attempt_def by (intro in_context basic)

lemma try_attempt: "evolves R (try_attempt_command env w k)"
  unfolding try_attempt_command_def by (intro basic branch)

lemma published: "evolves R (publish_workflow_event env w ty k)"
  unfolding publish_workflow_event_def by (intro basic branch annotates) (simp_all add: benign_simps)

lemma observe: "evolves R (engine_observe v result)"
  unfolding engine_observe_def by (intro basic)

lemma announced: "evolves R (announce env w ty event)"
  unfolding announce_def by (intro basic branch published observe)

lemma outcome_writes:
  assumes "w \<in> X"
  shows "evolves R (set_outcome w result err)" "evolves R (failed_outcome w k cid ev fd)"
    "evolves R (modify_instance w (\<lambda>v. v\<lparr>wf_state := st\<rparr>))"
    "evolves R (modify_instance w (\<lambda>v. v\<lparr>wf_outcome := oc\<rparr>))"
  using assms unfolding set_outcome_def failed_outcome_def
  by (intro basic updates; simp add: benign_simps)+

lemma failures:
  assumes "w \<in> X"
  shows "evolves R (engine_fail env w event)" "evolves R (reject_pre_acceptance_attempt env w event)"
    "evolves R (reject_retry_admission env w event code)"
  unfolding engine_fail_def reject_pre_acceptance_attempt_def reject_retry_admission_def
  by (intro basic branch announced outcome_writes assms)+

lemma reconciled: "evolves R (reconcile_ai_admission w lineage bypassed)"
  unfolding reconcile_ai_admission_def
  by (intro basic branch annotates) (simp_all add: benign_simps)

lemma completed:
  assumes "w \<in> X"
  shows "evolves R (engine_complete env w event)"
  unfolding engine_complete_def finish_completion_def completion_value_def Let_def
  by (intro basic branch announced outcome_writes failures reconciled assms)

lemma marked: "evolves R (mark_processed w event)"
  unfolding mark_processed_def by (rule annotates) (auto simp: benign_simps)

lemma retried:
  assumes "w \<in> X"
  shows "evolves R (attempt_unsuccessful env w event)"
  unfolding attempt_unsuccessful_def retry_attempt_def record_retry_decision_def
  by (intro basic branch dispatch_attempt try_attempt failures annotates assms) (simp_all add: benign_simps)

lemma processed: "w \<in> X \<Longrightarrow> evolves R (process_event env w event)"
  unfolding process_event_def by (intro basic branch completed failures retried marked)

lemma instance_found: "evolves R (consuming_instance event)"
  unfolding consuming_instance_def by (intro basic branch)

lemma consumed: "X = UNIV \<Longrightarrow> evolves R (engine_consume env event)"
  unfolding engine_consume_def by (intro basic branch instance_found processed) simp

lemma resumed:
  assumes "wr_workflow_id receipt \<in> X" "cmd_command_id (wr_command receipt) \<in> K"
  shows "evolves R (resume_start env receipt)"
  unfolding resume_start_def Let_def
  by (intro basic branch command_ends published try_attempt dispatch_attempt outcome_writes receipt_writes annotates assms)
    (simp_all add: benign_simps)

lemma opened: "cmd_command_id c \<in> K \<Longrightarrow> evolves R (open_workflow c d envelope)"
  unfolding open_workflow_def by (intro basic receipt_writes adds) (simp_all add: new_instance_def)

lemma started: "X = UNIV \<Longrightarrow> K = UNIV \<Longrightarrow> evolves R (engine_start env c)"
  unfolding engine_start_def by (intro basic branch permitted reject opened resumed) simp_all

lemma cancelled:
  assumes "\<And>w. cmd_workflow_id c = Some w \<Longrightarrow> w \<in> X" "cmd_command_id c \<in> K"
  shows "evolves R (engine_cancel c)"
  unfolding engine_cancel_def
  by (intro basic branch permitted reject command_ends outcome_writes assms)

lemma handled: "X = UNIV \<Longrightarrow> K = UNIV \<Longrightarrow> evolves R (engine_handle env c)"
  unfolding engine_handle_def handle_command_def
  by (intro basic branch started cancelled reject resumed) simp_all

end

end
