(* ===== verification/Workflow_Outcomes.thy ===== *)
theory Workflow_Outcomes
  imports Engine_Orders
begin

text \<open>
  Terminal outcomes are final: whatever command or Event the Engine handles, an instance that has
  its terminal outcome keeps state, Result and Error, a completed command receipt keeps its Result,
  identities never change, and attempt numbers, processed Events and transition versions only grow.

  The order is \<open>engine_le\<close>. A handler may write the outcome of the one instance it works on, so the
  handlers are first shown to respect the order with that instance and that command exempted
  (\<open>engine_le_but\<close>), then that the exempted instance had no outcome when the handler began.
\<close>

definition has_outcome :: "WorkflowInstance \<Rightarrow> bool" where
  "has_outcome v \<longleftrightarrow> terminal_state (wf_state v) \<and> wf_outcome v \<noteq> None"

definition engine_le_but ::
  "string set \<Rightarrow> string set \<Rightarrow> 'z engine_state_scheme \<Rightarrow> 'z engine_state_scheme \<Rightarrow> bool" where
  "engine_le_but X K s t \<longleftrightarrow>
     (\<forall>w v. map_of (instances s) w = Some v \<longrightarrow>
        (\<exists>v'. map_of (instances t) w = Some v' \<and> same_identity v v'
            \<and> (w \<notin> X \<and> has_outcome v \<longrightarrow> same_outcome v v')))
     \<and> (\<forall>k r. map_of (command_receipts s) k = Some r \<and> wr_state r = CMD_COMPLETED \<and> k \<notin> K \<longrightarrow>
          map_of (command_receipts t) k = Some r)"

abbreviation engine_le :: "'z engine_state_scheme \<Rightarrow> 'z engine_state_scheme \<Rightarrow> bool" where
  "engine_le \<equiv> engine_le_but {} {}"

lemma has_outcome_same: "has_outcome v \<Longrightarrow> same_outcome v v' \<Longrightarrow> has_outcome v'"
  by (simp add: has_outcome_def same_outcome_def)

lemma engine_le_frame:
  "instances t = instances s \<Longrightarrow> command_receipts t = command_receipts s \<Longrightarrow> engine_le_but X K s t"
  by (auto simp: engine_le_but_def same_outcome_order)

lemma engine_le_trans:
  assumes "engine_le_but X K s t" "engine_le_but X K t u"
  shows "engine_le_but X K s u"
  unfolding engine_le_but_def
proof (intro conjI allI impI)
  fix w v assume "map_of (instances s) w = Some v"
  with assms(1) obtain v1 where 1: "map_of (instances t) w = Some v1" "same_identity v v1"
    "w \<notin> X \<and> has_outcome v \<longrightarrow> same_outcome v v1" unfolding engine_le_but_def by blast
  with assms(2) obtain v2 where 2: "map_of (instances u) w = Some v2" "same_identity v1 v2"
    "w \<notin> X \<and> has_outcome v1 \<longrightarrow> same_outcome v1 v2" unfolding engine_le_but_def by blast
  from 1 2 show "\<exists>v'. map_of (instances u) w = Some v' \<and> same_identity v v'
      \<and> (w \<notin> X \<and> has_outcome v \<longrightarrow> same_outcome v v')"
    by (meson has_outcome_same same_identity_order(2) same_outcome_order(2))
qed (use assms in \<open>simp add: engine_le_but_def\<close>)

interpretation outcomes: evolution "engine_le_but X K" for X K
  by unfold_locales (simp add: engine_le_frame, erule (1) engine_le_trans)

lemma engine_le_weaken: "engine_le s t \<Longrightarrow> engine_le_but X K s t"
  unfolding engine_le_but_def by fast

lemma engine_le_exempt:
  assumes "engine_le_but X K s t"
    and "\<And>w v. w \<in> X \<Longrightarrow> map_of (instances s) w = Some v \<Longrightarrow> \<not> has_outcome v"
    and "\<And>k r. k \<in> K \<Longrightarrow> map_of (command_receipts s) k = Some r \<Longrightarrow> wr_state r \<noteq> CMD_COMPLETED"
  shows "engine_le s t"
  using assms unfolding engine_le_but_def by fast

section \<open>Writes\<close>

lemma instance_write:
  assumes "\<And>v. same_identity v (f v)" "\<And>v. w \<notin> X \<Longrightarrow> same_outcome v (f v)"
  shows "evolves (engine_le_but X K) (modify_instance w f)"
  using assms
  by (auto simp: evolves_def repository_apply engine_le_but_def same_outcome_order split: option.splits)

lemma outcomes_offside: "evolves (same_core id) m \<Longrightarrow> evolves (engine_le_but X K) m"
  by (erule evolves_mono) (rule engine_le_frame; simp add: core_def)

lemmas outcomes_services = offside_services [THEN outcomes_offside]

lemma added: "evolves (engine_le_but X K) (add_instance v)"
  by (auto simp: evolves_def add_instance_def effect_simps engine_le_but_def same_outcome_order)

lemma attempt_created: "evolves (engine_le_but X K) (create_attempt_command env w k)"
proof -
  have "evolves (engine_le_but X K) (check_admission w)"
    unfolding check_admission_def permitted_def
    by (intro outcomes.rules outcomes_services) (auto intro: outcomes.pure split: exn.splits)
  then show ?thesis
    unfolding create_attempt_command_def commit_admission_def attempt_envelope_def Let_def
    by (intro outcomes.rules outcomes_services instance_write)
      (auto simp: same_identity_def same_outcome_def put_admission_state_def)
qed

lemma receipt_written:
  "k \<in> K \<Longrightarrow> evolves (engine_le_but X K) (upd (\<lambda>s. s\<lparr>command_receipts := od_put k r (command_receipts s)\<rparr>))"
  by (rule evolves_upd) (auto simp: engine_le_but_def same_outcome_order)

lemma receipts_settled: "evolves (engine_le_but X K) (settle_receipts w result err)"
  unfolding settle_receipts_def
  by (rule evolves_upd)
    (auto simp: engine_le_but_def same_outcome_order map_of_map)

lemma outbox_outside: "evolves (engine_le_but X K) (outbox_record event)"
  by (auto simp: evolves_def outbox_record_def effect_simps intro!: engine_le_frame split: option.splits)

section \<open>The handlers\<close>

text \<open>The ports the Engine calls: whatever they re-enter respects the order.\<close>

locale outcome_ports =
  fixes env :: "('z engine_state_scheme) engine_env"
  assumes dispatch_le: "evolves engine_le (en_dispatch env c)"
    and drain_le: "evolves engine_le (en_drain env)"

sublocale outcome_ports \<subseteq> but: engine_order "engine_le_but X K" X K env for X K
  by unfold_locales
    (auto intro: engine_le_frame instance_write added attempt_created receipt_written receipts_settled
      outbox_outside evolves_mono [OF dispatch_le] evolves_mono [OF drain_le] engine_le_weaken
      simp: core_def benign_def)

context outcome_ports
begin

lemma process_le: "engine_le s (snd (process_event env w event s))"
proof (cases "map_of (instances s) w")
  case None
  then show ?thesis by (simp add: process_event_def effect_simps repository_apply engine_le_frame)
next
  case (Some v)
  show ?thesis
  proof (cases "terminal_state (wf_state v)")
    case True
    with Some show ?thesis
      using but.marked [of "{}" "{}" w event]
      by (simp add: process_event_def effect_simps repository_apply engine_le_frame evolves_def)
  next
    case False
    have "engine_le_but {w} {} s (snd (process_event env w event s))"
      using but.processed [of w "{w}" "{}" event] by (simp add: evolves_def)
    then show ?thesis by (rule engine_le_exempt) (use Some False in \<open>auto simp: has_outcome_def\<close>)
  qed
qed

lemma consume_le: "evolves engine_le (engine_consume env event)"
  unfolding engine_consume_def
  by (intro outcomes.rules but.instance_found) (simp add: evolves_def process_le)

lemma resume_le:
  assumes "map_of (command_receipts s) (cmd_command_id (wr_command receipt)) = Some r" "wr_state r \<noteq> CMD_COMPLETED"
  shows "engine_le s (snd (resume_start env receipt s))"
proof (cases "map_of (instances s) (wr_workflow_id receipt)")
  case None
  then show ?thesis by (simp add: resume_start_def effect_simps repository_apply engine_le_frame Let_def)
next
  case (Some v)
  show ?thesis
  proof (cases "wf_outcome v")
    case None
    have "engine_le_but {wr_workflow_id receipt} {cmd_command_id (wr_command receipt)} s
        (snd (resume_start env receipt s))"
      using but.resumed [of receipt "{wr_workflow_id receipt}" "{cmd_command_id (wr_command receipt)}"]
      by (simp add: evolves_def)
    then show ?thesis by (rule engine_le_exempt) (use None Some assms in \<open>auto simp: has_outcome_def\<close>)
  next
    case (Some oc)
    have "engine_le_but {} {cmd_command_id (wr_command receipt)} s (snd (resume_start env receipt s))"
      using but.command_ends(1) [of "cmd_command_id (wr_command receipt)" "{cmd_command_id (wr_command receipt)}" "{}"]
        Some \<open>map_of (instances s) _ = Some v\<close>
      by (simp add: resume_start_def effect_simps repository_apply Let_def evolves_def)
    then show ?thesis by (rule engine_le_exempt) (use assms in auto)
  qed
qed

end

text \<open>A command that has no completed receipt: what it rejects or completes is recorded for the first time.\<close>

definition open_command :: "CommandEnvelope \<Rightarrow> 'z engine_state_scheme \<Rightarrow> bool" where
  "open_command c s \<longleftrightarrow>
     (\<forall>r. map_of (command_receipts s) (cmd_command_id c) = Some r \<longrightarrow> wr_state r \<noteq> CMD_COMPLETED)"

lemma open_workflow_fresh:
  assumes "open_workflow c d envelope s = (Inr receipt, t)"
  shows "wr_command receipt = c \<and> map_of (instances s) (wr_workflow_id receipt) = None
    \<and> map_of (command_receipts t) (cmd_command_id c) = Some receipt \<and> wr_state receipt = CMD_IN_PROGRESS"
  using assms
  by (auto simp: open_workflow_def repository_apply effect_simps add_instance_def new_instance_def accepted_def
      Let_def split: sum.splits if_splits elim!: bnd_InrE)

lemma after_ret: "snd (bnd m (\<lambda>_. ret x) s) = snd (m s)"
  by (simp add: effect_simps split: prod.splits sum.splits)

lemma after_ask: "bnd (asks g) f s = f (g s) s"
  by (simp add: effect_simps)

lemma permitted_state: "snd (permitted a p tn ws s) = s"
  by (auto simp: permitted_def effect_simps authorize_apply split: sum.splits exn.splits prod.splits)

lemma permitted_then:
  assumes "\<And>ok. engine_le s (snd (f ok s))"
  shows "engine_le s (snd (bnd (permitted a p tn ws) f s))"
  using permitted_state [of a p tn ws s] assms
  by (auto simp: effect_simps engine_le_frame split: prod.splits sum.splits)

context outcome_ports
begin

lemma open_exempt:
  assumes "evolves (engine_le_but X {cmd_command_id c}) m" "open_command c s"
    and "\<And>w v. w \<in> X \<Longrightarrow> map_of (instances s) w = Some v \<Longrightarrow> \<not> has_outcome v"
  shows "engine_le s (snd (m s))"
  by (rule engine_le_exempt [of X "{cmd_command_id c}"])
    (use assms in \<open>auto simp: open_command_def evolves_def\<close>)

lemma reject_le:
  fixes s :: "'z engine_state_scheme"
  shows "open_command c s \<Longrightarrow> engine_le s (snd (engine_reject c code message s))"
  by (rule open_exempt [where X = "{}"]) (auto intro: but.reject)

lemma remember_le:
  fixes s :: "'z engine_state_scheme"
  shows "open_command c s \<Longrightarrow> engine_le s (snd (remember_completed_command c result wid err s))"
  by (rule open_exempt [where X = "{}"]) (auto intro: but.command_ends)

lemma start_le:
  assumes "open_command c s"
  shows "engine_le s (snd (bnd (open_workflow c d envelope) (resume_start env) s))"
proof -
  obtain q t where t: "open_workflow c d envelope s = (q, t)" by fastforce
  have le: "engine_le s t"
    using open_exempt [where X = "{}" and m = "open_workflow c d envelope"] but.opened assms t by fastforce
  show ?thesis
  proof (cases q)
    case (Inr receipt)
    note fresh = open_workflow_fresh [OF t [unfolded Inr]]
    then have "engine_le t (snd (resume_start env receipt t))" by (intro resume_le) auto
    with le have "engine_le s (snd (resume_start env receipt t))" by (rule engine_le_trans)
    with Inr t show ?thesis by (simp add: effect_simps)
  qed (use le t in \<open>simp add: effect_simps\<close>)
qed

lemma cancel_le:
  fixes s :: "'z engine_state_scheme"
  assumes "open_command c s"
  shows "engine_le s (snd (engine_cancel c s))"
proof (cases "\<exists>w v. cmd_workflow_id c = Some w \<and> map_of (instances s) w = Some v \<and> has_outcome v")
  case False
  show ?thesis
    by (rule open_exempt [where X = "{w. cmd_workflow_id c = Some w}"], rule but.cancelled)
      (use assms False in auto)
next
  case True
  then obtain w v where w: "cmd_workflow_id c = Some w" "map_of (instances s) w = Some v" "has_outcome v" by auto
  then have "wf_state v \<in> {WF_COMPLETED, WF_FAILED, WF_CANCELLED}" "\<exists>oc. wf_outcome v = Some oc"
    by (auto simp: has_outcome_def terminal_state_def)
  with w reject_le [OF assms] remember_le [OF assms] show ?thesis
    unfolding engine_cancel_def w(1) option.case
    by (intro permitted_then) (auto simp: after_ask after_ret)
qed

lemma engine_start_le: "open_command c s \<Longrightarrow> engine_le s (snd (engine_start env c s))"
  unfolding engine_start_def
  by (rule permitted_then) (auto simp: reject_le start_le split: sum.splits)

lemma handle_command_le: "open_command c s \<Longrightarrow> engine_le s (snd (handle_command env c s))"
  by (simp add: handle_command_def engine_start_le cancel_le reject_le) (simp add: effect_simps engine_le_frame)

lemma handle_le: "evolves engine_le (engine_handle env c)"
  unfolding evolves_def
proof
  fix s
  show "engine_le s (snd (engine_handle env c s))"
  proof (cases "map_of (command_receipts s) (cmd_command_id c)")
    case None
    then show ?thesis
      by (simp add: engine_handle_def repository_apply effect_simps handle_command_le open_command_def)
  next
    case (Some r)
    then show ?thesis
      using handle_command_le [of c s] resume_le [of s r r]
      by (auto simp: engine_handle_def repository_apply effect_simps engine_le_frame open_command_def command_eq_fields)
  qed
qed

end

end
