(* ===== verification/Workflow_Budget.thy ===== *)
theory Workflow_Budget
  imports Workflow_Outcomes
begin

text \<open>
  The AI budget of a Workflow instance: the conservative exposure of the admissions committed on an
  instance never exceeds the ceiling of its envelope, whatever commands and Events the Engine
  handles and however they re-enter; a committed attempt carries the admission the Gateway asks
  for, and fences every earlier attempt of the same instance.
\<close>

section \<open>The invariant\<close>

definition within_budget :: "WorkflowInstance \<Rightarrow> bool" where
  "within_budget v \<longleftrightarrow> wf_ai_admissions v = [] \<or>
     (\<exists>e n. wf_ai_budget_envelope v = Some e \<and> used_exposure (map snd (wf_ai_admissions v)) = Inr n
        \<and> n \<le> env_ceiling_microusd e)"

text \<open>Every binding carries a version the instance has already reached.\<close>

definition versioned :: "WorkflowInstance \<Rightarrow> bool" where
  "versioned v \<longleftrightarrow> (\<forall>(k, b) \<in> set (wf_ai_admissions v).
     case as_int (pget b ''WorkflowAdmissionStateVersion'') of None \<Rightarrow> False | Some n \<Rightarrow> n \<le> wf_transition_version v)"

definition budgeted :: "'z engine_state_scheme \<Rightarrow> bool" where
  "budgeted s \<longleftrightarrow> (\<forall>w v. map_of (instances s) w = Some v \<longrightarrow> within_budget v \<and> versioned v)"

text \<open>Room for one more attempt, as \<open>check_admission\<close> establishes it.\<close>

definition admissible :: "WorkflowInstance \<Rightarrow> bool" where
  "admissible v \<longleftrightarrow> (needs_admission v \<longrightarrow>
     (\<exists>e n. wf_ai_budget_envelope v = Some e \<and> used_exposure (map snd (wf_ai_admissions v)) = Inr n
        \<and> n + attempt_exposure \<le> env_ceiling_microusd e))"

definition room :: "string \<Rightarrow> 'z engine_state_scheme \<Rightarrow> bool" where
  "room w s \<longleftrightarrow> budgeted s \<and> (\<forall>v. map_of (instances s) w = Some v \<longrightarrow> admissible v)"

lemma exposure_pos: "committed_exposure item = Inr n \<Longrightarrow> 0 < n"
  by (auto simp: committed_exposure_def split: option.splits dest: scale6_pos)

lemma used_put:
  assumes "used_exposure (map snd d) = Inr n" "committed_exposure b = Inr m"
  shows "\<exists>n'. used_exposure (map snd (od_put k b d)) = Inr n' \<and> n' \<le> n + m"
  using assms
proof (induction d arbitrary: n)
  case (Cons p d)
  then obtain x y where xy: "committed_exposure (snd p) = Inr x" "used_exposure (map snd d) = Inr y" "n = x + y"
    by auto
  with Cons.IH [OF xy(2) Cons.prems(2)] Cons.prems(2) exposure_pos [OF xy(1)] show ?case
    by (cases p) auto
qed simp

lemma exposure_digits: "digit_count attempt_exposure \<le> 18"
  by (simp add: attempt_exposure_def digit_count_def micro_amount_def show_nat_rec show_int_def zero_pad_def
      rstrip_by_def digit_char_def part_whole_def part_fraction_def)

lemma binding_total [simp]:
  "admission_binding e wid sid cid xid skill cap ver version attempt_exposure \<noteq> Inl x"
  by (simp add: admission_binding_def attempt_exposure_def)

lemma committed_binding:
  assumes "admission_binding e wid sid cid xid skill cap ver version attempt_exposure = Inr binding"
  shows "committed_exposure binding = Inr attempt_exposure"
proof -
  have "scale6 (micro_amount attempt_exposure) = Inr attempt_exposure"
    by (rule scale6_micro_amount) (use exposure_digits in \<open>simp_all add: attempt_exposure_def\<close>)
  with assms show ?thesis
    by (auto simp: admission_binding_def committed_exposure_def attempt_exposure_def split: if_splits)
qed

lemma commit_within:
  assumes "admissible v" "needs_admission v" "committed_exposure b = Inr attempt_exposure"
  shows "within_budget (v\<lparr>wf_ai_admissions := od_put k b (wf_ai_admissions v)\<rparr>)"
proof -
  from assms obtain e n where e: "wf_ai_budget_envelope v = Some e"
    "used_exposure (map snd (wf_ai_admissions v)) = Inr n" "n + attempt_exposure \<le> env_ceiling_microusd e"
    by (auto simp: admissible_def)
  with used_put [OF e(2) assms(3), of k] show ?thesis by (auto simp: within_budget_def)
qed

section \<open>The invariant through the handlers\<close>

lemma benign_admissions:
  assumes "benign f" "within_budget v \<and> versioned v"
  shows "within_budget (f v) \<and> versioned (f v)"
proof -
  from assms(1) have f: "wf_ai_admissions (f v) = wf_ai_admissions v" "wf_ai_budget_envelope (f v) = wf_ai_budget_envelope v"
    "wf_transition_version v \<le> wf_transition_version (f v)"
    by (simp_all add: benign_def same_identity_def)
  with assms(2) show ?thesis
    unfolding within_budget_def versioned_def
    by (auto split: option.splits intro: order_trans)
qed

lemma budgeted_write: "benign f \<Longrightarrow> keeps budgeted (modify_instance w f)"
  using benign_admissions by (auto simp: keeps_def repository_apply budgeted_def split: option.splits)

lemma room_write:
  assumes "benign f"
  shows "keeps (room w) (modify_instance w f)"
proof -
  have "admissible v \<Longrightarrow> admissible (f v)" for v
    using assms by (auto simp: benign_def same_identity_def admissible_def needs_admission_def)
  with assms benign_admissions show ?thesis
    by (auto simp: keeps_def repository_apply room_def budgeted_def split: option.splits)
qed

lemma same_instances:
  assumes "\<And>s. instances (snd (m s)) = instances s"
  shows "keeps (room w) m" "keeps budgeted m"
  using assms by (auto simp: keeps_def room_def budgeted_def)

lemma check_state: "snd (check_admission w s) = s"
  by (auto simp: check_admission_def effect_simps repository_apply permitted_def authorize_apply
      split: option.splits sum.splits exn.splits if_splits)

lemma check_room:
  assumes "check_admission w s = (Inr u, t)" "budgeted s"
  shows "room w t"
  using assms
  by (auto simp: check_admission_def eff_apply repository_apply room_def admissible_def permitted_def authorize_apply
      split: option.splits sum.splits exn.splits if_splits)

text \<open>From \<open>P\<close>, every outcome of the effect, a raise too, satisfies \<open>Q\<close>.\<close>

definition secures :: "('s \<Rightarrow> bool) \<Rightarrow> ('s, 'a) eff \<Rightarrow> ('s \<Rightarrow> bool) \<Rightarrow> bool" where
  "secures P m Q \<longleftrightarrow> (\<forall>s. P s \<longrightarrow> Q (snd (m s)))"

lemma secures_keeps: "secures P m I \<Longrightarrow> (\<And>x. keeps I (f x)) \<Longrightarrow> secures P (bnd m f) I"
  by (auto simp: secures_def keeps_def effect_simps split: prod.splits sum.splits)

lemma secures_bnd:
  assumes "keeps P m" "\<And>s. P s \<Longrightarrow> Q s" "\<And>x. secures P (f x) Q"
  shows "secures P (bnd m f) Q"
  using assms unfolding secures_def keeps_def
  by (auto simp: effect_simps split: prod.splits sum.splits)

text \<open>What \<open>commit_admission\<close> does to the instance of a governed attempt.\<close>

definition admitted ::
  "WorkflowInstance \<Rightarrow> string \<Rightarrow> string \<Rightarrow> pydict \<Rightarrow> WorkflowInstance" where
  "admitted v cid xid b =
     (let v1 = v\<lparr>wf_transition_version := wf_transition_version v + 1\<rparr> in
      put_admission_state cid (committed_entry (pending_entry (requested_entry v1 cid xid)) b)
        (v1\<lparr>wf_ai_admissions := od_put cid b (wf_ai_admissions v)\<rparr>))"

lemma put_put [simp]: "od_put k a (od_put k b d) = od_put k a d"
  by (induction d) auto

lemma commit_apply:
  assumes "map_of (instances s) w = Some v" "needs_admission v" "wf_ai_budget_envelope v = Some e"
    and "admission_binding e (wf_workflow_id v) (wf_workflow_step_id v) cid xid
           (wd_skill_version_id (wf_definition v)) ''StructuredTaskKindClassification'' ''1''
           (wf_transition_version v + 1) attempt_exposure = Inr b"
  shows "commit_admission w cid xid s = (Inr (Some b), s\<lparr>instances := od_put w (admitted v cid xid b) (instances s)\<rparr>)"
  using assms by (simp add: commit_admission_def eff_apply repository_apply Let_def admitted_def put_admission_state_def)

lemma admitted_budget:
  assumes "admissible v" "needs_admission v" "within_budget v" "versioned v"
    and "admission_binding e wid sid cid xid skill cap ver (wf_transition_version v + 1) attempt_exposure = Inr b"
  shows "within_budget (admitted v cid xid b) \<and> versioned (admitted v cid xid b)"
proof -
  have "pget b ''WorkflowAdmissionStateVersion'' = PInt (wf_transition_version v + 1)"
    using assms(5) by (auto simp: admission_binding_def split: if_splits)
  moreover have "n \<le> wf_transition_version v \<Longrightarrow> n \<le> wf_transition_version v + 1" for n by simp
  ultimately have "versioned (admitted v cid xid b)"
    using assms(4) set_od_put_subset [of cid b "wf_ai_admissions v"]
    by (fastforce simp: admitted_def Let_def put_admission_state_def versioned_def split: option.splits)
  moreover have "within_budget (v\<lparr>wf_ai_admissions := od_put cid b (wf_ai_admissions v)\<rparr>)"
    by (rule commit_within [OF assms(1,2) committed_binding [OF assms(5)]])
  ultimately show ?thesis by (simp add: admitted_def Let_def put_admission_state_def within_budget_def)
qed

lemma commit_secures: "secures (room w) (commit_admission w cid xid) budgeted"
  unfolding secures_def
proof (intro allI impI)
  fix s :: "'a engine_state_scheme"
  assume room: "room w s"
  then have ok: "budgeted s" by (simp add: room_def)
  show "budgeted (snd (commit_admission w cid xid s))"
  proof (cases "map_of (instances s) w")
    case None
    with ok show ?thesis by (simp add: commit_admission_def eff_apply repository_apply)
  next
    case (Some v)
    show ?thesis
    proof (cases "needs_admission v")
      case False
      with Some ok show ?thesis by (simp add: commit_admission_def eff_apply repository_apply)
    next
      case True
      from room Some have v: "within_budget v" "versioned v" "admissible v" by (auto simp: room_def budgeted_def)
      from v(3) True obtain e where e: "wf_ai_budget_envelope v = Some e" by (auto simp: admissible_def)
      obtain b where b: "admission_binding e (wf_workflow_id v) (wf_workflow_step_id v) cid xid
           (wd_skill_version_id (wf_definition v)) ''StructuredTaskKindClassification'' ''1''
           (wf_transition_version v + 1) attempt_exposure = Inr b"
        by (metis binding_total obj_sumE)
      from admitted_budget [OF v(3) True v(1,2) b] ok show ?thesis
        by (simp add: commit_apply [OF Some True e b] budgeted_def)
    qed
  qed
qed

lemma check_then:
  fixes f :: "unit \<Rightarrow> ('a engine_state_scheme, 'b) eff"
  assumes "secures (room w) (f ()) budgeted"
  shows "keeps budgeted (bnd (check_admission w) f)"
  unfolding keeps_def
proof (intro allI impI)
  fix s :: "'a engine_state_scheme"
  assume ok: "budgeted s"
  obtain q t where t: "check_admission w s = (q, t)" by fastforce
  with check_state [of w s] have [simp]: "t = s" by simp
  show "budgeted (snd (bnd (check_admission w) f s))"
    using t ok assms check_room [of w s "()" s] by (cases q) (auto simp: eff_apply secures_def)
qed

lemma attempt_budgeted: "keeps budgeted (create_attempt_command env w k)"
proof -
  have benign: "benign (\<lambda>v. v\<lparr>wf_attempt_number := wf_attempt_number v + 1\<rparr>)"
    "benign (\<lambda>v. v\<lparr>wf_execution_ids := wf_execution_ids v @ [x]\<rparr>)" for x
    by (simp_all add: benign_simps)
  have step: "secures (room w) (bnd (modify_instance w (\<lambda>v. v\<lparr>wf_attempt_number := wf_attempt_number v + 1\<rparr>)) (\<lambda>_.
     bnd (new_id ''execution'') (\<lambda>execution_id.
     bnd (modify_instance w (\<lambda>v. v\<lparr>wf_execution_ids := wf_execution_ids v @ [execution_id]\<rparr>)) (\<lambda>_.
     bnd (new_id ''command'') (\<lambda>command_id.
     bnd (commit_admission w command_id execution_id) (f execution_id command_id)))))) budgeted"
    if "\<And>x c a. keeps budgeted (f x c a)" for f
    by (intro secures_bnd secures_keeps commit_secures room_write benign same_instances that)
      (simp_all add: room_def effect_simps)
  show ?thesis
    unfolding create_attempt_command_def attempt_envelope_def Let_def
    by (rule check_then, rule step, intro keeps_rules same_instances) (simp_all add: effect_simps repository_apply)
qed

abbreviation budget_le :: "'z engine_state_scheme \<Rightarrow> 'z engine_state_scheme \<Rightarrow> bool" where
  "budget_le s t \<equiv> budgeted s \<longrightarrow> budgeted t"

lemma keeps_evolves: "evolves budget_le m \<longleftrightarrow> keeps budgeted m"
  by (simp add: evolves_def keeps_def)

locale budget_ports =
  fixes env :: "('z engine_state_scheme) engine_env"
  assumes dispatch_keeps: "keeps budgeted (en_dispatch env c)"
    and drain_keeps: "keeps budgeted (en_drain env)"

sublocale budget_ports \<subseteq> budget: engine_order budget_le UNIV UNIV env
  by unfold_locales
    (auto simp: keeps_evolves core_def dispatch_keeps drain_keeps budgeted_write attempt_budgeted,
      auto simp: keeps_def budgeted_def outbox_record_def add_instance_def settle_receipts_def within_budget_def
        versioned_def effect_simps split: option.splits)

section \<open>A new attempt\<close>

lemma envelope_fields:
  assumes "attempt_envelope env v k cid xid granted s = (Inr c, t)"
  shows "instances t = instances s \<and> command_envelope c = Inr c \<and> cmd_command_id c = cid \<and> cmd_execution_id c = Some xid
    \<and> cmd_tenant_id c = wf_tenant_id v \<and> cmd_workspace_id c = wf_workspace_id v
    \<and> cmd_workflow_id c = Some (wf_workflow_id v) \<and> cmd_workflow_step_id c = Some (wf_workflow_step_id v)
    \<and> cmeta_authorization (cmd_metadata c) = wf_authorization v
    \<and> cmeta_workflow_ai_budget_admission (cmd_metadata c) = granted
    \<and> cmeta_skill_version_id (cmd_metadata c) =
        (if is_approved_reference_workflow (wf_definition v) then Some (wd_skill_version_id (wf_definition v)) else None)"
proof -
  from assms obtain now payload reference where 1: "instances t = instances s"
    and c: "command_envelope
        \<lparr>cmd_command_id = cid, cmd_command_type = ''DispatchExecutionAttempt'',
         cmd_command_version = (if is_approved_reference_workflow (wf_definition v) then ''2.0'' else ''1.0''),
         cmd_correlation_id = wf_correlation_id v, cmd_causation_id = k,
         cmd_target_component = ''Skill Runtime'', cmd_initiator = engine_name, cmd_timestamp = Aware now,
         cmd_tenant_id = wf_tenant_id v, cmd_workspace_id = wf_workspace_id v, cmd_payload = payload,
         cmd_metadata =
          \<lparr>cmeta_request_id = wf_request_id v,
           cmeta_idempotency_key = wf_workflow_step_id v @ '':'' @ show_int (wf_attempt_number v),
           cmeta_authorization = wf_authorization v, cmeta_attempt_number = Some (wf_attempt_number v),
           cmeta_expires_at = None, cmeta_trace_id = None, cmeta_span_id = None,
           cmeta_skill_version_id =
             (if is_approved_reference_workflow (wf_definition v) then Some (wd_skill_version_id (wf_definition v)) else None),
           cmeta_authoritative_result_id = reference, cmeta_workflow_ai_budget_admission = granted\<rparr>,
         cmd_workflow_id = Some (wf_workflow_id v), cmd_workflow_step_id = Some (wf_workflow_step_id v),
         cmd_execution_id = Some xid\<rparr> = Inr c"
    unfolding attempt_envelope_def Let_def
    by (elim bnd_InrE) (fastforce simp: clock_now_apply command_metadata_Inr)
  note same = command_envelope_scope(1) [OF c]
  from 1 c [folded same] show ?thesis by (simp add: same)
qed

lemma create_inversion:
  assumes "create_attempt_command env w k s = (Inr c, t)" "map_of (instances s) w = Some v" "needs_admission v"
  obtains e xid b where "wf_ai_budget_envelope v = Some e" "cmd_execution_id c = Some xid"
    "admission_binding e (wf_workflow_id v) (wf_workflow_step_id v) (cmd_command_id c) xid
       (wd_skill_version_id (wf_definition v)) ''StructuredTaskKindClassification'' ''1''
       (wf_transition_version v + 1) attempt_exposure = Inr b"
    "cmeta_workflow_ai_budget_admission (cmd_metadata c) = Some b"
    "map_of (instances t) w = Some (admitted (v\<lparr>wf_attempt_number := wf_attempt_number v + 1,
        wf_execution_ids := wf_execution_ids v @ [xid]\<rparr>) (cmd_command_id c) xid b)"
    "cmd_tenant_id c = wf_tenant_id v" "cmd_workspace_id c = wf_workspace_id v"
    "cmd_workflow_id c = Some (wf_workflow_id v)" "cmd_workflow_step_id c = Some (wf_workflow_step_id v)"
    "cmeta_authorization (cmd_metadata c) = wf_authorization v"
    "cmeta_skill_version_id (cmd_metadata c) = Some (wd_skill_version_id (wf_definition v))"
proof -
  obtain u where u: "check_admission w s = (Inr u, s)"
    using assms(1) check_state [of w s] by (auto simp: create_attempt_command_def elim!: bnd_InrE)
  from u assms(2,3) obtain e where e: "wf_ai_budget_envelope v = Some e"
    by (auto simp: check_admission_def eff_apply repository_apply permitted_def authorize_apply
        split: option.splits sum.splits exn.splits if_splits)
  let ?x = "''execution_'' @ id_feed s (id_draws s)" and ?c = "''command_'' @ id_feed s (Suc (id_draws s))"
  let ?v = "v\<lparr>wf_attempt_number := wf_attempt_number v + 1, wf_execution_ids := wf_execution_ids v @ [?x]\<rparr>"
  obtain b where b: "admission_binding e (wf_workflow_id ?v) (wf_workflow_step_id ?v) ?c ?x
       (wd_skill_version_id (wf_definition ?v)) ''StructuredTaskKindClassification'' ''1''
       (wf_transition_version ?v + 1) attempt_exposure = Inr b" by (metis binding_total obj_sumE)
  have n: "needs_admission ?v" "wf_ai_budget_envelope ?v = Some e"
    using assms(3) e by (simp_all add: needs_admission_def)
  let ?s = "s\<lparr>instances := od_put w ?v (instances s), id_draws := Suc (Suc (id_draws s))\<rparr>"
  have i: "map_of (instances ?s) w = Some ?v" by simp
  have "attempt_envelope env (admitted ?v ?c ?x b) k ?c ?x (Some b)
      (?s\<lparr>instances := od_put w (admitted ?v ?c ?x b) (instances ?s)\<rparr>) = (Inr c, t)"
    using assms(1,2) commit_apply [OF i n b]
    by (simp add: create_attempt_command_def eff_apply u repository_apply new_id_apply)
  from envelope_fields [OF this] that [OF e, of ?x b] b assms(3) show ?thesis
    by (simp add: admitted_def Let_def put_admission_state_def needs_admission_def)
qed

lemma create_returns:
  assumes "map_of (instances s) w = Some v" "needs_admission v" "check_admission w s = (Inr (), s)"
    and "wf_request_id v \<noteq> []" "0 \<le> wf_attempt_number v" "wf_correlation_id v \<noteq> []" "k \<noteq> []"
    and "wf_tenant_id v \<noteq> []" "wf_workspace_id v \<noteq> []"
    and "auth_tenant_id (wf_authorization v) = wf_tenant_id v" "auth_workspace_id (wf_authorization v) = wf_workspace_id v"
    and "map_of (wf_input_payload v) ''statement'' = Some (PStr st)"
  shows "\<exists>c t. create_attempt_command env w k s = (Inr c, t)"
proof -
  from assms(1-3) obtain e where e: "wf_ai_budget_envelope v = Some e"
    by (auto simp: check_admission_def eff_apply repository_apply permitted_def authorize_apply
        split: option.splits sum.splits exn.splits if_splits)
  let ?x = "''execution_'' @ id_feed s (id_draws s)" and ?c = "''command_'' @ id_feed s (Suc (id_draws s))"
  let ?v = "v\<lparr>wf_attempt_number := wf_attempt_number v + 1, wf_execution_ids := wf_execution_ids v @ [?x]\<rparr>"
  obtain b where b: "admission_binding e (wf_workflow_id ?v) (wf_workflow_step_id ?v) ?c ?x
       (wd_skill_version_id (wf_definition ?v)) ''StructuredTaskKindClassification'' ''1''
       (wf_transition_version ?v + 1) attempt_exposure = Inr b" by (metis binding_total obj_sumE)
  have n: "needs_admission ?v" "wf_ai_budget_envelope ?v = Some e"
    using assms(2) e by (simp_all add: needs_admission_def)
  let ?s = "s\<lparr>instances := od_put w ?v (instances s), id_draws := Suc (Suc (id_draws s))\<rparr>"
  have i: "map_of (instances ?s) w = Some ?v" by simp
  show ?thesis
    using assms commit_apply [OF i n b]
    by (simp add: create_attempt_command_def eff_apply repository_apply new_id_apply attempt_envelope_def Let_def
        clock_now_apply admitted_def put_admission_state_def attempt_payload_def authoritative_reference_def
        needs_admission_def command_metadata_def command_envelope_def governed_dispatch_error_def engine_name_def keys_are_def)
qed

section \<open>Fencing\<close>

lemma binding_wf:
  assumes "admission_binding e wid sid cid xid skill cap ver version n = Inr b"
  shows "py_wf (PDict b)" "pget b ''WorkflowAdmissionStateVersion'' = PInt version"
    "pget b ''ExecutionId'' = PStr xid"
  using assms by (auto simp: admission_binding_def split: if_splits)

lemma committed_lookup:
  "pget (committed_entry (pending_entry (requested_entry v cid xid)) b) ''State'' = PStr ''Committed''"
  "pget (committed_entry (pending_entry (requested_entry v cid xid)) b) ''Binding'' = PDict b"
  "pget (committed_entry (pending_entry (requested_entry v cid xid)) b) ''WorkflowAdmissionStateVersion'' =
     PInt (wf_transition_version v)"
  by (simp_all add: committed_entry_def pending_entry_def requested_entry_def dict_update_def)

lemma admitted_current:
  assumes "admission_binding e wid sid cid xid skill cap ver (wf_transition_version v + 1) n = Inr b"
    and "wf_state v = WF_RUNNING"
  shows "instance_admission (admitted v cid xid b) cid xid = Some b"
  using assms(2) binding_wf [OF assms(1)] py_eq_refl [of "PDict b"]
  by (simp add: instance_admission_def admitted_def Let_def put_admission_state_def admission_live_def committed_lookup
      py_num_def del: py_wf.simps py_eq.simps(3))

lemma admitted_fences:
  assumes "versioned v" "k \<noteq> cid"
  shows "instance_admission (admitted v cid xid b) k x = None"
proof (cases "map_of (wf_ai_admissions v) k")
  case (Some d)
  with assms(1) obtain n where "as_int (pget d ''WorkflowAdmissionStateVersion'') = Some n" "n \<le> wf_transition_version v"
    unfolding versioned_def by (fastforce dest: map_of_SomeD split: option.splits)
  with Some assms(2) show ?thesis
    by (simp add: instance_admission_def admitted_def Let_def put_admission_state_def split: option.splits)
qed (use assms(2) in \<open>simp add: instance_admission_def admitted_def Let_def put_admission_state_def split: option.splits\<close>)

text \<open>C39 (safety). A new governed attempt takes over the Workflow's AI admission: after the Engine created an
  attempt Command, the repository answers exactly that Command and Execution with the binding the
  Command carries, answers no other Command of the instance any more, and the exposure committed so
  far, the new attempt included, is within the envelope's ceiling.\<close>

theorem new_attempt_fences:
  assumes "budgeted s" "map_of (instances s) w = Some v" "needs_admission v" "wf_state v = WF_RUNNING"
    and "create_attempt_command env w k s = (Inr c, t)"
  shows "\<exists>v' e b x n. map_of (instances t) w = Some v' \<and> wf_ai_budget_envelope v' = Some e
    \<and> cmd_execution_id c = Some x \<and> cmeta_workflow_ai_budget_admission (cmd_metadata c) = Some b
    \<and> instance_admission v' (cmd_command_id c) x = Some b
    \<and> (\<forall>k' x'. k' \<noteq> cmd_command_id c \<longrightarrow> instance_admission v' k' x' = None)
    \<and> used_exposure (map snd (wf_ai_admissions v')) = Inr n \<and> n \<le> env_ceiling_microusd e
    \<and> wf_attempt_number v' = wf_attempt_number v + 1"
proof -
  from create_inversion [OF assms(5,2,3)] obtain e x b where
    e: "wf_ai_budget_envelope v = Some e" "cmd_execution_id c = Some x"
    and b: "admission_binding e (wf_workflow_id v) (wf_workflow_step_id v) (cmd_command_id c) x
       (wd_skill_version_id (wf_definition v)) ''StructuredTaskKindClassification'' ''1''
       (wf_transition_version v + 1) attempt_exposure = Inr b"
    and c: "cmeta_workflow_ai_budget_admission (cmd_metadata c) = Some b"
    and t: "map_of (instances t) w = Some (admitted (v\<lparr>wf_attempt_number := wf_attempt_number v + 1,
        wf_execution_ids := wf_execution_ids v @ [x]\<rparr>) (cmd_command_id c) x b)" (is "_ = Some ?v'")
    by metis
  have "budgeted t" using keepsD [OF attempt_budgeted assms(1,5)] .
  with t have "within_budget ?v'" by (simp add: budgeted_def)
  moreover have "versioned v" using assms(1,2) by (simp add: budgeted_def)
  then have "\<forall>k' x'. k' \<noteq> cmd_command_id c \<longrightarrow> instance_admission ?v' k' x' = None"
    by (intro allI impI admitted_fences) (simp_all add: versioned_def cong: option.case_cong)
  moreover have "instance_admission ?v' (cmd_command_id c) x = Some b"
    by (rule admitted_current) (use b assms(4) in simp_all)
  moreover have "wf_ai_admissions ?v' \<noteq> []" by (simp add: admitted_def Let_def put_admission_state_def)
  moreover have "wf_ai_budget_envelope ?v' = Some e" "wf_attempt_number ?v' = wf_attempt_number v + 1"
    using e by (simp_all add: admitted_def Let_def put_admission_state_def)
  ultimately show ?thesis using t e c by (auto simp: within_budget_def)
qed

text \<open>An instance of the reference Workflow with a ceiling of three attempts, nothing admitted yet.\<close>

definition sample_envelope :: WorkflowAIBudgetEnvelope where
  "sample_envelope = \<lparr>env_definition_version_id = ''classify-and-route-task-v1'', env_policy_id = ''policy'',
     env_policy_version_id = ''policy-v1'', env_tenant_id = ''tenant'', env_workspace_id = ''workspace'',
     env_ceiling_microusd = 30000\<rparr>"

definition sample_authorization :: AuthorizationContext where
  "sample_authorization = \<lparr>auth_actor_id = ''actor'', auth_permissions = {''ai.invoke'', ''workflow.start'', ''workflow.cancel''},
     auth_tenant_id = ''tenant'', auth_workspace_id = ''workspace'', auth_policy_id = ''policy'',
     auth_policy_version_id = ''policy-v1''\<rparr>"

definition sample_instance :: WorkflowInstance where
  "sample_instance =
     \<lparr>wf_workflow_id = ''wf'', wf_workflow_step_id = ''step'',
      wf_definition = \<lparr>wd_workflow_definition_id = ''ClassifyAndRouteTask'',
        wd_workflow_definition_version_id = ''classify-and-route-task-v1'',
        wd_skill_version_id = ''structured-task-kind-skill-v1'', wd_max_attempts = 2,
        wd_workflow_kind = ''ClassifyAndRouteTask'', wd_ai_budget_envelope = None\<rparr>,
      wf_tenant_id = ''tenant'', wf_workspace_id = ''workspace'', wf_request_id = ''request'',
      wf_correlation_id = ''correlation'', wf_authorization = sample_authorization,
      wf_input_payload = [(''statement'', PStr ''Where is it?'')], wf_timeout_seconds = 1, wf_state = WF_RUNNING,
      wf_attempt_number = 0, wf_execution_ids = [], wf_processed_event_ids = {}, wf_workflow_events = [],
      wf_initial_attempt_command = None, wf_retry_commands = [], wf_outcome = None, wf_error = None,
      wf_ai_budget_envelope = Some sample_envelope, wf_ai_admissions = [], wf_ai_admission_states = [],
      wf_transition_version = 0\<rparr>"

definition quiet_env :: "('z engine_state_scheme) engine_env" where
  "quiet_env = \<lparr>en_tx = sample_tx, en_dispatch = (\<lambda>_. raise (UnknownCommandTarget ''Skill Runtime'')),
     en_drain = ret 0, en_str = (\<lambda>_. [])\<rparr>"

definition sample_repository :: engine_state where
  "sample_repository = repository_empty\<lparr>instances := [(''wf'', sample_instance)]\<rparr>"

lemma sample_instance_fields:
  "map_of (instances sample_repository) ''wf'' = Some sample_instance" "needs_admission sample_instance"
  "wf_state sample_instance = WF_RUNNING" "budgeted sample_repository"
  by (simp_all add: sample_repository_def sample_instance_def needs_admission_def is_approved_reference_workflow_def
      definition_identity_def approved_identity_def budgeted_def within_budget_def versioned_def)

lemma sample_check: "check_admission ''wf'' sample_repository = (Inr (), sample_repository)"
proof -
  have "fst (check_admission ''wf'' sample_repository) = Inr ()" by code_simp
  then show ?thesis using check_state [of "''wf''" sample_repository] by (simp add: prod_eq_iff)
qed

theorem new_attempt_fences_witness:
  "\<exists>c t v' b x. create_attempt_command quiet_env ''wf'' ''cause'' sample_repository = (Inr c, t)
     \<and> map_of (instances t) ''wf'' = Some v' \<and> instance_admission v' (cmd_command_id c) x = Some b
     \<and> wf_attempt_number v' = 1"
proof -
  obtain c t where c: "create_attempt_command quiet_env ''wf'' ''cause'' sample_repository = (Inr c, t)"
    using create_returns [OF sample_instance_fields(1,2) sample_check]
    by (fastforce simp: sample_instance_def sample_authorization_def)
  from new_attempt_fences [OF sample_instance_fields(4,1,2,3) c] c show ?thesis
    by (auto simp: sample_instance_def)
qed

end
