(* ===== verification/Skill_Runtime.thy ===== *)
theory Skill_Runtime
  imports Workflow_Budget Registries
begin

text \<open>
  \<^verbatim>\<open>packages/skill_runtime/.../runtime.py\<close>: the execution records and command receipts of
  \<^verbatim>\<open>InMemoryExecutionRepository\<close> and \<^verbatim>\<open>SkillRuntime.handle\<close>, which executes exactly one attempt
  per Command of the Workflow Engine and publishes its terminal Event.

  The state extends the Engine's. An implementation of the \<^verbatim>\<open>Skill\<close> protocol is a record of its
  effect and of its two optional validators; \<open>rt_wait_for\<close> is \<^verbatim>\<open>asyncio.wait_for\<close>, which either
  returns what the awaited effect returns or raises \<open>TimeoutError\<close> somewhere on the way.
\<close>

section \<open>Data\<close>

datatype ExecutionState = EX_REQUESTED | EX_EXECUTING | EX_SUCCEEDED | EX_FAILED | EX_TIMED_OUT | EX_CANCELLED

record ExecutionRecord =
  er_execution_id :: string
  er_workflow_id :: string
  er_workflow_step_id :: string
  er_attempt_number :: int
  er_tenant_id :: string
  er_workspace_id :: string
  er_state :: ExecutionState
  er_acknowledgement :: ResultEnvelope
  er_start_event :: "EventEnvelope option"
  er_terminal_event :: "EventEnvelope option"
  er_result :: "ResultEnvelope option"
  er_error :: "ErrorEnvelope option"

record ExecutionCommandReceipt =
  xr_command :: CommandEnvelope
  xr_acknowledgement :: ResultEnvelope
  xr_error :: "ErrorEnvelope option"
  xr_completed :: bool

record runtime_state = engine_state +
  executions :: "(string, ExecutionRecord) odict"
  execution_receipts :: "(string, ExecutionCommandReceipt) odict"

record SkillInput =
  si_execution_id :: string
  si_tenant_id :: string
  si_workspace_id :: string
  si_correlation_id :: string
  si_causation_id :: string
  si_authorization :: AuthorizationContext
  si_payload :: pydict
  si_authoritative_result_id :: "string option"
  si_workflow_ai_budget_admission :: "pydict option"
  si_workflow_id :: "string option"
  si_workflow_step_id :: "string option"
  si_skill_version_id :: "string option"

record SkillOutput =
  so_value :: string
  so_memory_id :: string
  so_ai_invocation_id :: string
  so_reused_result_id :: "string option"
  so_gateway_result_id :: "string option"
  so_accounting_evidence :: "pydict option"

record 's skill =
  sk_execute :: "SkillInput \<Rightarrow> ('s, SkillOutput) eff"
  sk_validate_registry_binding :: "(CapabilityImplementation \<Rightarrow> exn + unit) option"
  sk_validate_reused_output :: "(string \<Rightarrow> exn + string) option"

record 's runtime_env =
  rt_tx :: text_services
  rt_skills :: skill_registry
  rt_capabilities :: capability_registry
  rt_implementations :: "(string, 's skill) odict"
  rt_authority :: "'s authority option"
  rt_wait_for :: "rat \<Rightarrow> ('s, SkillOutput) eff \<Rightarrow> ('s, SkillOutput) eff"
  rt_drain :: "('s, nat) eff"
  rt_default_timeout :: rat

definition runtime_name :: string where
  "runtime_name = ''Skill Runtime''"

section \<open>InMemoryExecutionRepository\<close>

definition add_execution :: "ExecutionRecord \<Rightarrow> ('z runtime_state_scheme, unit) eff" where
  "add_execution record =
     bnd (asks (\<lambda>s. map_of (executions s) (er_execution_id record))) (\<lambda>existing.
     bnd (guard (existing = None) (ValueError ''ExecutionId already exists'')) (\<lambda>_.
     upd (\<lambda>s. s\<lparr>executions := od_put (er_execution_id record) record (executions s)\<rparr>)))"

definition load_execution :: "string \<Rightarrow> ('z runtime_state_scheme, ExecutionRecord) eff" where
  "load_execution x =
     bnd (asks (\<lambda>s. map_of (executions s) x)) (\<lambda>r.
     case r of None \<Rightarrow> raise (KeyError x) | Some r \<Rightarrow> ret r)"

text \<open>Assignment to fields of the record object.\<close>

definition modify_execution ::
  "string \<Rightarrow> (ExecutionRecord \<Rightarrow> ExecutionRecord) \<Rightarrow> ('z runtime_state_scheme, unit) eff" where
  "modify_execution x f =
     bnd (load_execution x) (\<lambda>r. upd (\<lambda>s. s\<lparr>executions := od_put x (f r) (executions s)\<rparr>))"

definition begin_execution_command ::
  "CommandEnvelope \<Rightarrow> ResultEnvelope \<Rightarrow> ErrorEnvelope option \<Rightarrow> bool \<Rightarrow> ('z runtime_state_scheme, unit) eff" where
  "begin_execution_command c result error completed =
     upd (\<lambda>s. s\<lparr>execution_receipts := od_put (cmd_command_id c)
       \<lparr>xr_command = c, xr_acknowledgement = result, xr_error = error, xr_completed = completed\<rparr>
       (execution_receipts s)\<rparr>)"

definition complete_execution_command :: "string \<Rightarrow> ('z runtime_state_scheme, ResultEnvelope) eff" where
  "complete_execution_command k =
     bnd (asks (\<lambda>s. map_of (execution_receipts s) k)) (\<lambda>r.
     case r of
       None \<Rightarrow> raise (KeyError k)
     | Some r \<Rightarrow>
         bnd (upd (\<lambda>s. s\<lparr>execution_receipts := od_put k (r\<lparr>xr_completed := True\<rparr>) (execution_receipts s)\<rparr>)) (\<lambda>_.
         ret (xr_acknowledgement r)))"

definition find_result :: "string \<Rightarrow> ExecutionRecord list \<Rightarrow> ResultEnvelope option" where
  "find_result result_id records =
     (case filter (\<lambda>r. case er_result r of None \<Rightarrow> False | Some x \<Rightarrow> res_result_id x = result_id) records of
        [] \<Rightarrow> None
      | r # _ \<Rightarrow> er_result r)"

definition resolve_authoritative_result ::
  "string \<Rightarrow> string \<Rightarrow> ident \<Rightarrow> string \<Rightarrow> ident \<Rightarrow> string \<Rightarrow> ('z runtime_state_scheme, ResultEnvelope) eff"
where
  "resolve_authoritative_result result_id tenant_id workspace_id capability_id contract_version_id digest =
     bnd (asks (\<lambda>s. find_result result_id (map snd (executions s)))) (\<lambda>found.
     case found of
       None \<Rightarrow> raise (LookupError ''authoritative Result is unavailable'')
     | Some result \<Rightarrow>
         if res_result_status result \<noteq> SUCCEEDED \<or> res_tenant_id result \<noteq> tenant_id
            \<or> res_workspace_id result \<noteq> workspace_id
            \<or> \<not> py_eq (pget (res_metadata result) ''capability_id'') (PStr capability_id)
            \<or> \<not> py_eq (pget (res_metadata result) ''capability_contract_version_id'') (PStr contract_version_id)
            \<or> \<not> py_eq (pget (res_metadata result) ''normalized_input_digest'') (PStr digest)
            \<or> res_value_reference result = None
         then raise (PermissionError ''authoritative Result is incompatible or outside scope'')
         else ret result)"

section \<open>The admission binding of a governed attempt\<close>

definition attempt_binding_ok :: "CommandEnvelope \<Rightarrow> SkillDefinition \<Rightarrow> ident \<Rightarrow> ident \<Rightarrow> ident \<Rightarrow> pydict \<Rightarrow> bool" where
  "attempt_binding_ok c d workflow_id step_id execution_id value =
     (case as_map (pget value ''CommittedExposure'') of
        None \<Rightarrow> False
      | Some committed \<Rightarrow>
          py_eq (pget value ''BindingContractVersion'') (PInt 1)
          \<and> py_eq (pget value ''WorkflowId'') (PStr workflow_id)
          \<and> py_eq (pget value ''WorkflowStepId'') (PStr step_id)
          \<and> py_eq (pget value ''CommandId'') (PStr (cmd_command_id c))
          \<and> py_eq (pget value ''ExecutionId'') (PStr execution_id)
          \<and> py_eq (pget value ''TenantId'') (PStr (cmd_tenant_id c))
          \<and> py_eq (pget value ''WorkspaceId'') (PStr (cmd_workspace_id c))
          \<and> py_eq (pget value ''PolicyId'') (PStr (auth_policy_id (cmeta_authorization (cmd_metadata c))))
          \<and> py_eq (pget value ''PolicyVersionId'') (PStr (auth_policy_version_id (cmeta_authorization (cmd_metadata c))))
          \<and> py_eq (pget value ''WorkflowDefinitionVersionId'') (PStr ''classify-and-route-task-v1'')
          \<and> py_eq (pget value ''GatewayIdempotencyKey'')
              (PStr (workflow_id @ '':'' @ step_id @ '':'' @ cmd_command_id c @ '':'' @ execution_id))
          \<and> positive_version (pget value ''WorkflowAdmissionStateVersion'')
          \<and> py_eq (pget value ''CapabilityBinding'')
              (PDict [(''SkillVersionId'', PStr (sd_skill_version_id d)), (''CapabilityId'', PStr (sd_capability_id d)),
                      (''CapabilityContractVersionId'', PStr (sd_capability_contract_version_id d))])
          \<and> keys_are committed [''Amount'', ''CurrencyOrReferenceUnit'']
          \<and> py_eq (pget committed ''CurrencyOrReferenceUnit'') (PStr ''USD'')
          \<and> (case as_str (pget committed ''Amount'') of None \<Rightarrow> False | Some amount \<Rightarrow> AMOUNT amount))"

section \<open>Events, evidence and rejection\<close>

definition attempt_scope :: "CommandEnvelope \<Rightarrow> string \<Rightarrow> outcome_scope" where
  "attempt_scope c subject =
     \<lparr>os_subject = subject, os_producer = runtime_name, os_tenant_id = cmd_tenant_id c,
      os_workspace_id = cmd_workspace_id c, os_correlation_id = cmd_correlation_id c,
      os_causation_id = cmd_command_id c\<rparr>"

definition lineage_keys :: "string list" where
  "lineage_keys =
     [''workflow_id'', ''workflow_step_id'', ''command_id'', ''execution_id'', ''tenant_id'', ''workspace_id'',
      ''capability_id'', ''capability_contract_version_id'', ''ai_invocation_id'', ''gateway_result_id'',
      ''reuse_lineage'', ''reused_result_id'', ''ai_invocation_id_status'', ''execution_disposition'',
      ''avoided_model_calls'', ''accounting_evidence'']"

definition attempt_event_payload ::
  "CommandEnvelope \<Rightarrow> ResultEnvelope \<Rightarrow> ErrorEnvelope option \<Rightarrow> bool \<Rightarrow> pydict" where
  "attempt_event_payload c result error rejected_early =
     [(''result_id'', PStr (res_result_id result)),
      (''result_status'', PStr (result_status_value (res_result_status result))),
      (''error_id'', opt_str (map_option err_error_id error)),
      (''error_code'', opt_str (map_option err_error_code error)),
      (''pre_acceptance_rejection'', PBool rejected_early),
      (''retry_classification'', PStr (retry_value (case error of
          None \<Rightarrow> NEVER_RETRY | Some e \<Rightarrow> err_retry_classification e))),
      (''attempt_number'', case cmeta_attempt_number (cmd_metadata c) of None \<Rightarrow> PNone | Some n \<Rightarrow> PInt n),
      (''value_reference'', opt_str (res_value_reference result)),
      (''audit_lineage'', PDict (filter (\<lambda>(k, _). k \<in> set lineage_keys) (res_metadata result)))]"

definition attempt_event ::
  "CommandEnvelope \<Rightarrow> string \<Rightarrow> ResultEnvelope \<Rightarrow> ErrorEnvelope option \<Rightarrow> bool
   \<Rightarrow> ('z runtime_state_scheme, EventEnvelope) eff"
where
  "attempt_event c event_type result error rejected_early =
     bnd clock_now (\<lambda>now.
     bnd (new_id ''event'') (\<lambda>eid.
     lift (event_envelope
       \<lparr>evt_event_id = eid, evt_event_type = event_type, evt_event_version = ''1.0'',
        evt_occurred_at = Aware now, evt_recorded_at = Aware now, evt_producer = runtime_name,
        evt_correlation_id = cmd_correlation_id c,
        evt_subject = str_or (cmd_execution_id c) (cmd_command_id c),
        evt_payload = attempt_event_payload c result error rejected_early,
        evt_metadata = event_metadata_defaults\<lparr>emeta_trace_id := cmeta_trace_id (cmd_metadata c),
          emeta_span_id := cmeta_span_id (cmd_metadata c)\<rparr>,
        evt_causation_id = Some (cmd_command_id c), evt_tenant_id = Some (cmd_tenant_id c),
        evt_workspace_id = Some (cmd_workspace_id c),
        evt_request_id = Some (cmeta_request_id (cmd_metadata c)), evt_workflow_id = cmd_workflow_id c,
        evt_workflow_step_id = cmd_workflow_step_id c, evt_execution_id = cmd_execution_id c,
        evt_ai_invocation_id = None\<rparr>)))"

definition publish_attempt ::
  "('z runtime_state_scheme) runtime_env \<Rightarrow> EventEnvelope \<Rightarrow> ('z runtime_state_scheme, unit) eff" where
  "publish_attempt env event =
     bnd (outbox_record event) (\<lambda>_. bnd (rt_drain env) (\<lambda>_. ret ()))"

definition structured_attempt :: "CommandEnvelope \<Rightarrow> ResultEnvelope \<Rightarrow> bool" where
  "structured_attempt c result \<longleftrightarrow>
     py_eq (pget (res_metadata result) ''capability_id'') (PStr ''StructuredTaskKindClassification'')
     \<or> cmeta_skill_version_id (cmd_metadata c) = Some ''structured-task-kind-skill-v1''
     \<or> py_eq (pget (cmd_payload c) ''skill_version_id'') (PStr ''structured-task-kind-skill-v1'')"

definition structured_attributes :: "ResultEnvelope \<Rightarrow> string option \<Rightarrow> pydict" where
  "structured_attributes result invocation =
     (let bypassed = res_result_status result = SUCCEEDED
            \<and> (case as_str (pget (res_metadata result) ''reused_result_id'') of None \<Rightarrow> False | Some r \<Rightarrow> r \<noteq> []);
          invoked = truthy_str invocation;
          counts = PStr (if invoked then ''canonical_store'' else ''not_exposed'') in
      [(''capability_id'', PStr ''StructuredTaskKindClassification''),
       (''capability_contract_version_id'', PStr ''1''),
       (''prompt_package_ref'', PStr ''structured-task-kind''), (''prompt_package_version_ref'', PStr ''v1''),
       (''disposition'', PStr (if bypassed then ''authoritative_result_bypass''
          else if invoked then ''gateway_accepted_ai_execution''
          else if res_result_status result = REJECTED then ''pre_acceptance_rejection'' else ''not_invoked'')),
       (''terminal_outcome'', PStr (result_status_value (res_result_status result))),
       (''accounting_correlation'', PStr (if bypassed then ''no_ai_invocation_by_design''
          else if invoked then ''ai_invocation_id'' else ''not_created'')),
       (''bypass_reason'', PStr (if bypassed then ''authoritative_result_reuse'' else ''not_applicable'')),
       (''avoided_input_tokens'', PInt (if bypassed then 256 else 0)),
       (''avoided_output_tokens'', PInt (if bypassed then 16 else 0)),
       (''avoided_cost'', PStr (if bypassed then ''0.01'' else ''0'')),
       (''provider_attempt_count_status'', counts), (''repair_attempt_count_status'', counts),
       (''fallback_attempt_count_status'', counts), (''total_model_call_count_status'', counts)])"

definition observe_attempt :: "CommandEnvelope \<Rightarrow> ResultEnvelope \<Rightarrow> ('z runtime_state_scheme, unit) eff" where
  "observe_attempt c result =
     (let structured = structured_attempt c result;
          invocation = as_str (pget (res_metadata result) ''ai_invocation_id'') in
      bnd clock_now (\<lambda>now.
      bnd (lift (observability_context
        \<lparr>obs_component_identity = runtime_name, obs_operation_name = ''execute_attempt'',
         obs_contract_version = ''1.0'', obs_observed_at = Aware now,
         obs_environment_identity = ''local'', obs_deployment_identity = ''reference'',
         obs_data_classification = (if structured then INTERNAL else NON_SENSITIVE),
         obs_redaction_status = (if structured then APPLIED else NOT_REQUIRED),
         obs_tenant_id = cmd_tenant_id c, obs_workspace_id = cmd_workspace_id c,
         obs_correlation_id = cmd_correlation_id c, obs_causation_id = cmd_command_id c,
         obs_request_id = Some (cmeta_request_id (cmd_metadata c)), obs_command_id = Some (cmd_command_id c),
         obs_event_id = None, obs_workflow_id = cmd_workflow_id c, obs_workflow_step_id = cmd_workflow_step_id c,
         obs_execution_id = cmd_execution_id c,
         obs_ai_invocation_id = (if truthy_str invocation then invocation else None),
         obs_result_id = Some (res_result_id result), obs_error_id = res_error_id result\<rparr>)) (\<lambda>ctx.
      bnd (record_log ctx (if res_result_status result = SUCCEEDED then LOG_INFO else LOG_ERROR)
        (''Execution attempt reached '' @ result_status_value (res_result_status result) @ ''.'')
        (if structured then structured_attributes result invocation else [])) (\<lambda>_.
      ret ()))))"

definition engine_owned ::
  "('z runtime_state_scheme) runtime_env \<Rightarrow> CommandEnvelope \<Rightarrow> ('z runtime_state_scheme, bool) eff" where
  "engine_owned env c =
     (case (rt_authority env, cmd_workflow_id c, cmd_execution_id c, cmd_workflow_step_id c,
            cmeta_attempt_number (cmd_metadata c)) of
        (Some authority, Some w, Some x, Some _, Some _) \<Rightarrow> owns_ai_dispatch authority (Some w) (cmd_command_id c) x
      | _ \<Rightarrow> ret False)"

text \<open>The record and Event of an attempt the Engine dispatched and the Runtime refused.\<close>

definition record_rejection ::
  "('z runtime_state_scheme) runtime_env \<Rightarrow> CommandEnvelope \<Rightarrow> ResultEnvelope \<Rightarrow> ErrorEnvelope
   \<Rightarrow> ('z runtime_state_scheme, unit) eff"
where
  "record_rejection env c result error =
     (case (cmd_execution_id c, cmd_workflow_id c, cmd_workflow_step_id c, cmeta_attempt_number (cmd_metadata c)) of
        (Some x, Some w, Some step, Some n) \<Rightarrow>
          bnd (asks (\<lambda>s. map_of (executions s) x)) (\<lambda>found.
          bnd (if found = None then add_execution
                 \<lparr>er_execution_id = x, er_workflow_id = w, er_workflow_step_id = step, er_attempt_number = n,
                  er_tenant_id = cmd_tenant_id c, er_workspace_id = cmd_workspace_id c, er_state = EX_FAILED,
                  er_acknowledgement = result, er_start_event = None, er_terminal_event = None,
                  er_result = Some result, er_error = Some error\<rparr>
               else ret ()) (\<lambda>_.
          bnd (load_execution x) (\<lambda>r.
          if er_terminal_event r \<noteq> None then ret () else
          bnd (attempt_event c ''ExecutionAttemptFailed'' result (Some error) True) (\<lambda>event.
          bnd (modify_execution x (\<lambda>r. r\<lparr>er_terminal_event := Some event\<rparr>)) (\<lambda>_.
          publish_attempt env event)))))
      | _ \<Rightarrow> raise AssertionError)"

definition runtime_reject ::
  "('z runtime_state_scheme) runtime_env \<Rightarrow> CommandEnvelope \<Rightarrow> string \<times> string
   \<Rightarrow> ('z runtime_state_scheme, ResultEnvelope) eff"
where
  "runtime_reject env c reason =
     bnd (unsuccessful (attempt_scope c (str_or (cmd_execution_id c) (cmd_command_id c)))
       \<lparr>fd_status = REJECTED, fd_error_code = fst reason, fd_category = VALIDATION, fd_severity = WARNING,
        fd_retry = NEVER_RETRY, fd_message = snd reason\<rparr> (Some (cmd_command_id c)) None None []) (\<lambda>(result, error).
     bnd (begin_execution_command c result (Some error) True) (\<lambda>_.
     bnd (engine_owned env c) (\<lambda>owned.
     bnd (if owned then record_rejection env c result error else ret ()) (\<lambda>_.
     bnd (observe_attempt c result) (\<lambda>_.
     ret result)))))"

section \<open>Checks before acceptance\<close>

record 's skill_context =
  ac_execution_id :: string
  ac_workflow_id :: string
  ac_workflow_step_id :: string
  ac_attempt_number :: int
  ac_definition :: SkillDefinition
  ac_capability :: CapabilityImplementation
  ac_implementation :: "'s skill"

definition governed_version :: "CommandEnvelope \<Rightarrow> bool" where
  "governed_version c \<longleftrightarrow> cmd_command_version c \<in> {''2'', ''2.0''}"

definition selected_skill :: "CommandEnvelope \<Rightarrow> exn + string" where
  "selected_skill c =
     (if governed_version c
      then Inr (case cmeta_skill_version_id (cmd_metadata c) of None \<Rightarrow> [] | Some v \<Rightarrow> v)
      else payload_string (cmd_payload c) ''skill_version_id'')"

definition resolved_skill ::
  "('z runtime_state_scheme) runtime_env \<Rightarrow> string
   \<Rightarrow> string \<times> string + SkillDefinition \<times> CapabilityImplementation"
where
  "resolved_skill env version =
     (case resolve_skill (rt_skills env) version of
        Inl _ \<Rightarrow> Inl (''SKILL_OR_CAPABILITY_UNAVAILABLE'', ''Skill or Capability immutable identity is unavailable'')
      | Inr d \<Rightarrow>
          (case resolve_capability (rt_capabilities env) (sd_capability_id d, sd_capability_contract_version_id d) of
             Inl _ \<Rightarrow> Inl (''SKILL_OR_CAPABILITY_UNAVAILABLE'', ''Skill or Capability immutable identity is unavailable'')
           | Inr cap \<Rightarrow>
               if ci_implementation_reference cap \<noteq> sd_implementation_reference d
               then Inl (''CAPABILITY_IMPLEMENTATION_MISMATCH'', ''Skill and Capability resolution evidence disagree'')
               else Inr (d, cap)))"

definition admission_refusal ::
  "CommandEnvelope \<Rightarrow> SkillDefinition \<Rightarrow> CapabilityImplementation \<Rightarrow> bool \<Rightarrow> ident \<Rightarrow> ident \<Rightarrow> ident
   \<Rightarrow> (string \<times> string) option"
where
  "admission_refusal c d cap owned w step x =
     (if ci_boundary cap = ''AI Gateway'' \<and> ci_capability_id cap = ''StructuredTaskKindClassification''
         \<and> owned \<and> cmeta_authoritative_result_id (cmd_metadata c) = None
      then case cmeta_workflow_ai_budget_admission (cmd_metadata c) of
             None \<Rightarrow> Some (''WORKFLOW_AI_ADMISSION_REQUIRED'', ''governed AI execution requires committed admission'')
           | Some binding \<Rightarrow>
               if attempt_binding_ok c d w step x binding then None
               else Some (''WORKFLOW_AI_ADMISSION_INVALID'', ''governed AI admission binding mismatch'')
      else None)"

definition registry_binding_ok :: "'s skill \<Rightarrow> CapabilityImplementation \<Rightarrow> exn + bool" where
  "registry_binding_ok impl cap = (case sk_validate_registry_binding impl of
       None \<Rightarrow> Inr True
     | Some validate \<Rightarrow> (case validate cap of
           Inr _ \<Rightarrow> Inr True
         | Inl e \<Rightarrow> if is_lookup_error e \<or> is_value_error e then Inr False else Inl e))"

definition implementation_checks ::
  "('z runtime_state_scheme) runtime_env \<Rightarrow> SkillDefinition \<Rightarrow> CapabilityImplementation
   \<Rightarrow> exn + (string \<times> string + ('z runtime_state_scheme) skill)"
where
  "implementation_checks env d cap =
     (case map_of (rt_implementations env) (sd_implementation_reference d) of
        None \<Rightarrow> Inr (Inl (''SKILL_IMPLEMENTATION_MISSING'', ''approved Skill implementation unavailable''))
      | Some impl \<Rightarrow> ebind (registry_binding_ok impl cap) (\<lambda>ok. Inr (
          if ok then Inr impl
          else Inl (''CAPABILITY_PACKAGE_BINDING_MISMATCH'',
                 ''Capability Registry and immutable package/schema evidence disagree''))))"

definition skill_checks ::
  "('z runtime_state_scheme) runtime_env \<Rightarrow> CommandEnvelope \<Rightarrow> ident \<Rightarrow> ident \<Rightarrow> ident \<Rightarrow> int
   \<Rightarrow> ('z runtime_state_scheme, string \<times> string + ('z runtime_state_scheme) skill_context) eff"
where
  "skill_checks env c x w step n =
     bnd (lift (selected_skill c)) (\<lambda>version.
     if version = [] then ret (Inl (''SKILL_CONTEXT_INVALID'', ''SkillVersionId is required'')) else
     case resolved_skill env version of
       Inl reason \<Rightarrow> ret (Inl reason)
     | Inr (d, cap) \<Rightarrow>
         bnd (case rt_authority env of
                None \<Rightarrow> ret False
              | Some authority \<Rightarrow> owns_ai_dispatch authority (Some w) (cmd_command_id c) x) (\<lambda>owned.
         case admission_refusal c d cap owned w step x of
           Some reason \<Rightarrow> ret (Inl reason)
         | None \<Rightarrow>
             bnd (lift (implementation_checks env d cap)) (\<lambda>found.
             case found of
               Inl reason \<Rightarrow> ret (Inl reason)
             | Inr impl \<Rightarrow> ret (Inr
                 \<lparr>ac_execution_id = x, ac_workflow_id = w, ac_workflow_step_id = step, ac_attempt_number = n,
                  ac_definition = d, ac_capability = cap, ac_implementation = impl\<rparr>))))"

definition attempt_checks ::
  "('z runtime_state_scheme) runtime_env \<Rightarrow> CommandEnvelope
   \<Rightarrow> ('z runtime_state_scheme, string \<times> string + ('z runtime_state_scheme) skill_context) eff"
where
  "attempt_checks env c =
     (case cmd_execution_id c of
        None \<Rightarrow> ret (Inl (''SKILL_COMMAND_INVALID'', ''invalid execution Command''))
      | Some x \<Rightarrow>
          if cmd_command_type c \<noteq> ''DispatchExecutionAttempt''
          then ret (Inl (''SKILL_COMMAND_INVALID'', ''invalid execution Command'')) else
          bnd (permitted (cmeta_authorization (cmd_metadata c)) ''skill.execute'' (cmd_tenant_id c) (cmd_workspace_id c))
            (\<lambda>ok.
          if \<not> ok then ret (Inl (''SKILL_EXECUTION_UNAUTHORIZED'', ''execution is unauthorized'')) else
          case (cmd_workflow_id c, cmd_workflow_step_id c, cmeta_attempt_number (cmd_metadata c)) of
            (Some w, Some step, Some n) \<Rightarrow>
              if cmd_command_version c \<notin> {''1'', ''1.0'', ''2'', ''2.0''}
              then ret (Inl (''SKILL_COMMAND_VERSION_UNSUPPORTED'',
                     ''unknown execution command version cannot use a legacy compatibility path''))
              else skill_checks env c x w step n
          | _ \<Rightarrow> ret (Inl (''SKILL_CONTEXT_INVALID'', ''execution context is incomplete''))))"

section \<open>One attempt\<close>

definition skill_input :: "CommandEnvelope \<Rightarrow> ('z runtime_state_scheme) skill_context \<Rightarrow> SkillInput" where
  "skill_input c ctx =
     \<lparr>si_execution_id = ac_execution_id ctx, si_tenant_id = cmd_tenant_id c, si_workspace_id = cmd_workspace_id c,
      si_correlation_id = cmd_correlation_id c, si_causation_id = cmd_command_id c,
      si_authorization = cmeta_authorization (cmd_metadata c),
      si_payload = filter (\<lambda>(k, _). k \<notin> {''skill_version_id'', ''timeout_seconds''}) (cmd_payload c),
      si_authoritative_result_id = cmeta_authoritative_result_id (cmd_metadata c),
      si_workflow_ai_budget_admission = cmeta_workflow_ai_budget_admission (cmd_metadata c),
      si_workflow_id = cmd_workflow_id c, si_workflow_step_id = cmd_workflow_step_id c,
      si_skill_version_id = Some (sd_skill_version_id (ac_definition ctx))\<rparr>"

definition statement_digest :: "text_services \<Rightarrow> pydict \<Rightarrow> exn + string" where
  "statement_digest tx payload = ebind (payload_string payload ''statement'') (\<lambda>st. Inr (sha256 tx (strip st)))"

text \<open>Reuse of an earlier Result, or one call of the implementation within its time limit.\<close>

definition reuse_result ::
  "('z runtime_state_scheme) runtime_env \<Rightarrow> CommandEnvelope \<Rightarrow> ('z runtime_state_scheme) skill_context \<Rightarrow> string
   \<Rightarrow> ('z runtime_state_scheme, SkillOutput \<times> string option) eff"
where
  "reuse_result env c ctx reference =
     bnd (lift (statement_digest (rt_tx env) (si_payload (skill_input c ctx)))) (\<lambda>digest.
     bnd (resolve_authoritative_result reference (cmd_tenant_id c) (cmd_workspace_id c)
            (sd_capability_id (ac_definition ctx)) (sd_capability_contract_version_id (ac_definition ctx)) digest)
       (\<lambda>source.
     case sk_validate_reused_output (ac_implementation ctx) of
       None \<Rightarrow> raise (ValueError ''Capability cannot validate authoritative reused output'')
     | Some validate \<Rightarrow>
         (case res_value_reference source of
            None \<Rightarrow> raise AssertionError
          | Some text \<Rightarrow>
              bnd (lift (validate text)) (\<lambda>value.
              ret (\<lparr>so_value = value, so_memory_id = [], so_ai_invocation_id = [],
                    so_reused_result_id = Some (res_result_id source), so_gateway_result_id = None,
                    so_accounting_evidence = None\<rparr>, Some (res_result_id source))))))"

definition call_skill ::
  "('z runtime_state_scheme) runtime_env \<Rightarrow> CommandEnvelope \<Rightarrow> ('z runtime_state_scheme) skill_context \<Rightarrow> rat
   \<Rightarrow> ('z runtime_state_scheme, SkillOutput \<times> string option) eff"
where
  "call_skill env c ctx timeout =
     (let auth = cmeta_authorization (cmd_metadata c); reference = cmeta_authoritative_result_id (cmd_metadata c) in
      bnd (if governed_version c
           then bnd (authorize auth ''ai.invoke'' (cmd_tenant_id c) (cmd_workspace_id c)) (\<lambda>_.
                if reference \<noteq> None then authorize auth ''result.read'' (cmd_tenant_id c) (cmd_workspace_id c)
                else ret ())
           else ret ()) (\<lambda>_.
      case reference of
        Some r \<Rightarrow> reuse_result env c ctx r
      | None \<Rightarrow>
          bnd (rt_wait_for env timeout (sk_execute (ac_implementation ctx) (skill_input c ctx))) (\<lambda>output.
          ret (output, None))))"

record attempt_end =
  ae_result :: ResultEnvelope
  ae_error :: "ErrorEnvelope option"
  ae_state :: ExecutionState
  ae_event_type :: string
  ae_rejected_early :: bool

definition expected_failure :: "exn \<Rightarrow> bool" where
  "expected_failure e \<longleftrightarrow> is_value_error e \<or> is_lookup_error e \<or> (\<exists>m. e = PermissionError m)"

lemma expected_failure_code [code]:
  "expected_failure e = (is_value_error e \<or> is_lookup_error e \<or> (case e of PermissionError m \<Rightarrow> True | _ \<Rightarrow> False))"
  by (cases e) (auto simp: expected_failure_def)

definition capability_metadata :: "string option \<Rightarrow> SkillDefinition \<Rightarrow> pydict" where
  "capability_metadata invocation d =
     (if truthy_str invocation then (''ai_invocation_id'', opt_str invocation)
      else (''ai_invocation_id_status'', PStr ''not_created'')) #
     [(''capability_id'', PStr (sd_capability_id d)),
      (''capability_contract_version_id'', PStr (sd_capability_contract_version_id d))]"

text \<open>The details of the Error, the metadata and the early-rejection mark for each clause of \<^verbatim>\<open>except\<close>.\<close>

definition failure_plan :: "SkillDefinition \<Rightarrow> exn \<Rightarrow> failure_details \<times> pydict \<times> bool" where
  "failure_plan d e =
     (let failed = (\<lambda>retry. \<lparr>fd_status = FAILED, fd_error_code = ''EXECUTION_ATTEMPT_FAILED'',
            fd_category = EXECUTION_FAILURE, fd_severity = ERROR, fd_retry = retry,
            fd_message = ''The execution attempt failed.''\<rparr>) in
      if expected_failure e then (failed NEVER_RETRY, capability_metadata None d, True)
      else case e of
        TimeoutError \<Rightarrow> (\<lparr>fd_status = TIMED_OUT, fd_error_code = ''EXECUTION_ATTEMPT_TIMED_OUT'',
            fd_category = TIMEOUT, fd_severity = WARNING, fd_retry = REQUIRES_POLICY_EVALUATION,
            fd_message = ''The execution attempt exceeded its allowed duration.''\<rparr>, [], False)
      | SkillDependencyFailure f \<Rightarrow> (\<lparr>fd_status = sf_status f, fd_error_code = sf_error_code f,
            fd_category = sf_category f, fd_severity = WARNING, fd_retry = sf_retry f, fd_message = sf_message f\<rparr>,
            capability_metadata (sf_ai_invocation_id f) d,
            sf_pre_acceptance_rejection f \<or> sf_status f = REJECTED \<and> sf_ai_invocation_id f = None)
      | _ \<Rightarrow> (failed REQUIRES_POLICY_EVALUATION, capability_metadata None d, False))"

definition failure_state :: "ResultStatus \<Rightarrow> ExecutionState \<times> string" where
  "failure_state status =
     (if status = TIMED_OUT then (EX_TIMED_OUT, ''ExecutionAttemptTimedOut'')
      else if status = CANCELLED then (EX_CANCELLED, ''ExecutionAttemptFailed'')
      else (EX_FAILED, ''ExecutionAttemptFailed''))"

definition end_failed ::
  "CommandEnvelope \<Rightarrow> ('z runtime_state_scheme) skill_context \<Rightarrow> ResultEnvelope \<Rightarrow> exn
   \<Rightarrow> ('z runtime_state_scheme, attempt_end) eff"
where
  "end_failed c ctx ack e =
     (case failure_plan (ac_definition ctx) e of (details, metadata, rejected_early) \<Rightarrow>
      bnd (unsuccessful (attempt_scope c (ac_execution_id ctx)) details (Some (cmd_command_id c)) None
             (Some (res_result_id ack)) metadata) (\<lambda>(result, error).
      ret \<lparr>ae_result = result, ae_error = Some error, ae_state = fst (failure_state (fd_status details)),
           ae_event_type = snd (failure_state (fd_status details)), ae_rejected_early = rejected_early\<rparr>))"

definition accounting_or_default :: "pydict option \<Rightarrow> pydict" where
  "accounting_or_default given = (case given of
       Some (p # d) \<Rightarrow> p # d
     | _ \<Rightarrow> [(''settled_actual_spend_status'', PStr ''not_exposed''),
              (''provider_attempt_details'', PStr ''not_exposed''), (''fallback_details'', PStr ''not_exposed''),
              (''repair_details'', PStr ''not_exposed'')])"

definition terminal_metadata ::
  "CommandEnvelope \<Rightarrow> ('z runtime_state_scheme) skill_context \<Rightarrow> SkillOutput \<Rightarrow> string option \<Rightarrow> string \<Rightarrow> pydict"
where
  "terminal_metadata c ctx output reused digest =
     (let d = ac_definition ctx; cap = ac_capability ctx; bypass = reused \<noteq> None;
          base =
            [(''workflow_id'', PStr (ac_workflow_id ctx)), (''workflow_step_id'', PStr (ac_workflow_step_id ctx)),
             (''command_id'', PStr (cmd_command_id c)), (''execution_id'', PStr (ac_execution_id ctx)),
             (''tenant_id'', PStr (cmd_tenant_id c)), (''workspace_id'', PStr (cmd_workspace_id c)),
             (''memory_id'', PStr (so_memory_id output)), (''capability_id'', PStr (sd_capability_id d)),
             (''capability_contract_version_id'', PStr (sd_capability_contract_version_id d)),
             (''normalized_input_digest'', PStr digest), (''reused_result_id'', PStr (str_or reused [])),
             (''execution_disposition'',
                PStr (if bypass then ''authoritative_result_bypass'' else ''gateway_accepted_ai_execution'')),
             (''avoided_model_calls'', PInt (if bypass then 1 else 0)),
             (''avoided_input_tokens'', PInt (if bypass then 256 else 0)),
             (''avoided_output_tokens'', PInt (if bypass then 16 else 0)),
             (''avoided_cost'', PStr (if bypass then ''0.01'' else ''0''))];
          package = (if sd_capability_id d = ''StructuredTaskKindClassification''
            then [(''prompt_package_ref'', opt_str (ci_prompt_package_ref cap)),
                  (''prompt_package_version_ref'', opt_str (ci_prompt_package_version_ref cap)),
                  (''output_schema_ref'', opt_str (ci_output_schema_ref cap))] else []);
          path = (if bypass
            then [(''ai_invocation_id_status'', PStr ''no_ai_invocation_by_design''), (''reuse_lineage'', opt_str reused)]
            else [(''ai_invocation_id'', PStr (so_ai_invocation_id output)),
                  (''gateway_result_id'', PStr (str_or (so_gateway_result_id output) ''not_exposed'')),
                  (''accounting_evidence'', PDict (accounting_or_default (so_accounting_evidence output)))])
      in base @ package @ path)"

definition end_succeeded ::
  "('z runtime_state_scheme) runtime_env \<Rightarrow> CommandEnvelope \<Rightarrow> ('z runtime_state_scheme) skill_context
   \<Rightarrow> ResultEnvelope \<Rightarrow> SkillOutput \<Rightarrow> string option \<Rightarrow> ('z runtime_state_scheme, attempt_end) eff"
where
  "end_succeeded env c ctx ack output reused =
     bnd (if sd_capability_id (ac_definition ctx) = ''StructuredTaskKindClassification''
          then lift (statement_digest (rt_tx env) (si_payload (skill_input c ctx))) else ret []) (\<lambda>digest.
     bnd (succeeded (attempt_scope c (ac_execution_id ctx)) (Some (cmd_command_id c)) None (Some (so_value output))
            (terminal_metadata c ctx output reused digest) (Some (res_result_id ack))) (\<lambda>result.
     ret \<lparr>ae_result = result, ae_error = None, ae_state = EX_SUCCEEDED,
          ae_event_type = ''ExecutionAttemptSucceeded'', ae_rejected_early = False\<rparr>))"

definition attempt_outcome ::
  "('z runtime_state_scheme) runtime_env \<Rightarrow> CommandEnvelope \<Rightarrow> ('z runtime_state_scheme) skill_context
   \<Rightarrow> ResultEnvelope \<Rightarrow> ('z runtime_state_scheme, attempt_end) eff"
where
  "attempt_outcome env c ctx ack =
     bnd (lift (payload_float (cmd_payload c) ''timeout_seconds'' (rt_default_timeout env))) (\<lambda>timeout.
     bnd (catch (bnd (call_skill env c ctx timeout) (\<lambda>output. ret (Inr output)))
            (\<lambda>e. if is_exception e then ret (Inl e) else raise e)) (\<lambda>called.
     case called of
       Inl e \<Rightarrow> end_failed c ctx ack e
     | Inr (output, reused) \<Rightarrow> end_succeeded env c ctx ack output reused))"

definition open_attempt ::
  "CommandEnvelope \<Rightarrow> ('z runtime_state_scheme) skill_context \<Rightarrow> ('z runtime_state_scheme, ResultEnvelope) eff"
where
  "open_attempt c ctx =
     bnd (accepted (attempt_scope c (ac_execution_id ctx)) (cmd_command_id c) (Some (ac_execution_id ctx))) (\<lambda>ack.
     bnd (begin_execution_command c ack None False) (\<lambda>_.
     bnd (attempt_event c ''ExecutionAttemptStarted'' ack None False) (\<lambda>started.
     bnd (add_execution
       \<lparr>er_execution_id = ac_execution_id ctx, er_workflow_id = ac_workflow_id ctx,
        er_workflow_step_id = ac_workflow_step_id ctx, er_attempt_number = ac_attempt_number ctx,
        er_tenant_id = cmd_tenant_id c, er_workspace_id = cmd_workspace_id c, er_state = EX_EXECUTING,
        er_acknowledgement = ack, er_start_event = Some started, er_terminal_event = None,
        er_result = None, er_error = None\<rparr>) (\<lambda>_.
     ret ack))))"

definition finish_attempt ::
  "('z runtime_state_scheme) runtime_env \<Rightarrow> CommandEnvelope \<Rightarrow> string \<Rightarrow> attempt_end
   \<Rightarrow> ('z runtime_state_scheme, ResultEnvelope) eff"
where
  "finish_attempt env c x ending =
     bnd (modify_execution x (\<lambda>r. r\<lparr>er_state := ae_state ending, er_result := Some (ae_result ending),
            er_error := ae_error ending\<rparr>)) (\<lambda>_.
     bnd (attempt_event c (ae_event_type ending) (ae_result ending) (ae_error ending) (ae_rejected_early ending)) (\<lambda>event.
     bnd (modify_execution x (\<lambda>r. r\<lparr>er_terminal_event := Some event\<rparr>)) (\<lambda>_.
     bnd (publish_attempt env event) (\<lambda>_.
     bnd (observe_attempt c (ae_result ending)) (\<lambda>_.
     complete_execution_command (cmd_command_id c))))))"

definition run_attempt ::
  "('z runtime_state_scheme) runtime_env \<Rightarrow> CommandEnvelope \<Rightarrow> ('z runtime_state_scheme) skill_context
   \<Rightarrow> ResultEnvelope \<Rightarrow> ('z runtime_state_scheme, ResultEnvelope) eff"
where
  "run_attempt env c ctx ack =
     bnd (load_execution (ac_execution_id ctx)) (\<lambda>r.
     case er_start_event r of
       None \<Rightarrow> raise AssertionError
     | Some started \<Rightarrow>
         bnd (publish_attempt env started) (\<lambda>_.
         bnd (load_execution (ac_execution_id ctx)) (\<lambda>r.
         if er_result r \<noteq> None
         then case er_terminal_event r of
                None \<Rightarrow> raise AssertionError
              | Some event \<Rightarrow>
                  bnd (publish_attempt env event) (\<lambda>_. complete_execution_command (cmd_command_id c))
         else bnd (attempt_outcome env c ctx ack) (finish_attempt env c (ac_execution_id ctx)))))"

definition runtime_handle ::
  "('z runtime_state_scheme) runtime_env \<Rightarrow> CommandEnvelope \<Rightarrow> ('z runtime_state_scheme, ResultEnvelope) eff"
where
  "runtime_handle env c =
     bnd (asks (\<lambda>s. map_of (execution_receipts s) (cmd_command_id c))) (\<lambda>receipt.
     if (case receipt of None \<Rightarrow> False | Some r \<Rightarrow> \<not> command_eq (xr_command r) c)
     then raise (ValueError ''CommandId cannot be reused with changed immutable content'') else
     case receipt of
       Some r \<Rightarrow> if xr_completed r then ret (xr_acknowledgement r) else
         if cmd_target_component c \<noteq> runtime_name
         then raise (ValueError ''Command target does not match Skill Runtime'') else
         bnd (attempt_checks env c) (\<lambda>checked. case checked of
           Inl reason \<Rightarrow> runtime_reject env c reason
         | Inr ctx \<Rightarrow> run_attempt env c ctx (xr_acknowledgement r))
     | None \<Rightarrow>
         if cmd_target_component c \<noteq> runtime_name
         then raise (ValueError ''Command target does not match Skill Runtime'') else
         bnd (attempt_checks env c) (\<lambda>checked. case checked of
           Inl reason \<Rightarrow> runtime_reject env c reason
         | Inr ctx \<Rightarrow> bnd (open_attempt c ctx) (run_attempt env c ctx)))"

end
