(* ===== verification/Structured_Task.thy ===== *)
theory Structured_Task
  imports Skill_Runtime
begin

text \<open>
  \<^verbatim>\<open>packages/skill_runtime/.../structured_task_kind.py\<close>: the governed structured capability. Its
  input and output contracts, the immutable prompt package, the one Gateway invocation it makes for
  an attempt, the acceptance of the Gateway's canonical result, and the model-free release
  evaluation. The Gateway is an argument: \<^verbatim>\<open>services.ai_gateway.invoke\<close>.
\<close>

section \<open>Contracts\<close>

datatype TaskKind = QUESTION | INSTRUCTION | STATEMENT

fun task_kind_value :: "TaskKind \<Rightarrow> string" where
  "task_kind_value QUESTION = ''Question''"
| "task_kind_value INSTRUCTION = ''Instruction''"
| "task_kind_value STATEMENT = ''Statement''"

definition all_task_kinds :: "TaskKind list" where
  "all_task_kinds = [QUESTION, INSTRUCTION, STATEMENT]"

text \<open>\<^verbatim>\<open>TaskKind(value)\<close>\<close>

definition task_kind_of :: "pyval \<Rightarrow> TaskKind option" where
  "task_kind_of v = (case as_str v of
       None \<Rightarrow> None
     | Some s \<Rightarrow> find (\<lambda>k. task_kind_value k = s) all_task_kinds)"

definition parse_task_input :: "pydict \<Rightarrow> exn + string" where
  "parse_task_input payload =
     (if \<not> keys_are payload [''statement'']
      then Inl (ValueError ''structured task input must contain exactly statement'')
      else case as_str (pget payload ''statement'') of
             None \<Rightarrow> Inl (ValueError ''statement must be a string'')
           | Some st \<Rightarrow>
               if 1 \<le> length (strip st) \<and> length (strip st) \<le> 512 then Inr (strip st)
               else Inl (ValueError ''statement must contain 1..512 Unicode scalar values''))"

definition accept_result :: "text_services \<Rightarrow> string option \<Rightarrow> exn + TaskKind" where
  "accept_result tx content = (case content of
       None \<Rightarrow> Inl (ValueError ''Gateway returned no canonical structured content'')
     | Some text \<Rightarrow>
         (case json_loads tx text of
            Inl e \<Rightarrow> if e = JSONDecodeError
              then Inl (ValueError ''Gateway canonical result is not structured JSON'') else Inl e
          | Inr value \<Rightarrow>
              (case as_map value of
                 None \<Rightarrow> Inl (ValueError ''Gateway canonical result has an incompatible field set'')
               | Some d \<Rightarrow>
                   if \<not> keys_are d [''task_kind'']
                   then Inl (ValueError ''Gateway canonical result has an incompatible field set'')
                   else case task_kind_of (pget d ''task_kind'') of
                          None \<Rightarrow> Inl (ValueError ''Gateway canonical result has an invalid task kind'')
                        | Some k \<Rightarrow> Inr k)))"

definition canonical_json :: "text_services \<Rightarrow> TaskKind \<Rightarrow> string" where
  "canonical_json tx k = json_dumps
     \<lparr>item_separator = '','', key_separator = '':'', sort_keys = False, float_repr = repr_float tx\<rparr>
     (PDict [(''task_kind'', PStr (task_kind_value k))])"

record CapabilityPolicyContext =
  pc_data_classification :: DataClassification
  pc_safety_policy_ref :: string
  pc_cache_policy_ref :: string
  pc_budget_policy_ref :: string
  pc_residency :: string
  pc_required_data_handling :: "string set"
  pc_minimum_security_tier :: int

definition capability_policy_context :: "CapabilityPolicyContext \<Rightarrow> exn + CapabilityPolicyContext" where
  "capability_policy_context p =
     (if pc_safety_policy_ref p = [] \<or> pc_cache_policy_ref p = [] \<or> pc_budget_policy_ref p = []
         \<or> pc_residency p = [] \<or> pc_minimum_security_tier p \<le> 0
      then Inl (ValueError ''verified capability policy context is incomplete'') else Inr p)"

definition STRUCTURED_TASK_KIND_PACKAGE :: PromptPackage where
  "STRUCTURED_TASK_KIND_PACKAGE =
     \<lparr>pp_reference = ''structured-task-kind'', pp_version_reference = ''v1'', pp_owner = ''Prompt Pipeline'',
      pp_capability_id = ''StructuredTaskKindClassification'', pp_capability_contract_version_id = ''1'',
      pp_typed_variables = [(''statement'', ''string[1..512]'')],
      pp_system_instruction_reference = ''structured-task-kind-system-v1'',
      pp_system_instruction = ''Classify only the communicative form of the task. Return exactly one ''
        @ ''task_kind enum value; ''
        @ ''do not infer intent, priority, topic, sentiment, authority, or workflow routing.'',
      pp_output_schema_reference = ''structured-task-kind-schema-v1'',
      pp_output_schema = dict_of_val (deep_freeze (PDict STRUCTURED_TASK_KIND_SCHEMA)),
      pp_task_class = ''classification'',
      pp_evaluation_set_reference = ''structured-task-kind-protected-v1'',
      pp_rollback_version_reference = None, pp_quality_threshold = Dec 95 (- 2),
      pp_per_class_recall_threshold = Dec 90 (- 2), pp_max_regression = Dec 2 (- 2),
      pp_max_input_tokens = 256, pp_max_output_tokens = 16, pp_max_cost = Dec 1 (- 2),
      pp_state = CANDIDATE, pp_change_history = [''v1 first-release candidate: minimum-sufficient wording'']\<rparr>"

section \<open>StructuredTaskKindClassification\<close>

record task_capability =
  tc_packages :: prompt_catalog
  tc_authoritative_results :: "(string, TaskKind) odict"
  tc_policy_context :: "CapabilityPolicyContext option"

definition validate_registry_binding ::
  "text_services \<Rightarrow> task_capability \<Rightarrow> CapabilityImplementation \<Rightarrow> exn + unit" where
  "validate_registry_binding tx tc cap =
     ebind (resolve_package (tc_packages tc) ''structured-task-kind'' ''v1'' True) (\<lambda>p.
     require (ci_capability_id cap = ''StructuredTaskKindClassification''
         \<and> ci_capability_contract_version_id cap = ''1''
         \<and> ci_prompt_package_ref cap = Some (pp_reference p)
         \<and> ci_prompt_package_version_ref cap = Some (pp_version_reference p)
         \<and> ci_output_schema_ref cap = Some (pp_output_schema_reference p)
         \<and> package_identity (sha256 tx) (repr_float tx) p
            = package_identity (sha256 tx) (repr_float tx) STRUCTURED_TASK_KIND_PACKAGE)
       (ValueError ''immutable capability package/schema binding mismatch''))"

definition validate_reused_output :: "text_services \<Rightarrow> string \<Rightarrow> exn + string" where
  "validate_reused_output tx value =
     ebind (accept_result tx (Some value)) (\<lambda>k. Inr (canonical_json tx k))"

definition require_security_context :: "SkillInput \<Rightarrow> exn + unit" where
  "require_security_context i =
     require (auth_tenant_id (si_authorization i) = si_tenant_id i
        \<and> auth_workspace_id (si_authorization i) = si_workspace_id i
        \<and> ''ai.invoke'' \<in> auth_permissions (si_authorization i))
       (ValueError ''missing or scope-mismatched verified security context'')"

definition require_policy_context :: "task_capability \<Rightarrow> exn + CapabilityPolicyContext" where
  "require_policy_context tc = (case tc_policy_context tc of
       None \<Rightarrow> Inl (ValueError ''verified capability policy context is missing'')
     | Some p \<Rightarrow> Inr p)"

definition gateway_key :: "SkillInput \<Rightarrow> exn + string" where
  "gateway_key i =
     (case (case si_workflow_ai_budget_admission i of
              Some b \<Rightarrow> pget b ''GatewayIdempotencyKey'' | None \<Rightarrow> PStr (si_execution_id i)) of
        PStr key \<Rightarrow> Inr key
      | _ \<Rightarrow> Inl (ValueError ''governed AI execution requires a Gateway admission binding''))"

text \<open>\<^verbatim>\<open>str(admission["WorkflowDefinitionVersionId"])\<close>\<close>

definition definition_version :: "(pyval \<Rightarrow> string) \<Rightarrow> SkillInput \<Rightarrow> exn + string option" where
  "definition_version str_of i = (case si_workflow_ai_budget_admission i of
       None \<Rightarrow> Inr None
     | Some b \<Rightarrow> (case map_of b ''WorkflowDefinitionVersionId'' of
           None \<Rightarrow> Inl (KeyError ''WorkflowDefinitionVersionId'')
         | Some (PStr s) \<Rightarrow> Inr (Some s)
         | Some v \<Rightarrow> Inr (Some (str_of v))))"

definition structured_request ::
  "text_services \<Rightarrow> (pyval \<Rightarrow> string) \<Rightarrow> SkillInput \<Rightarrow> string \<Rightarrow> PromptPackage \<Rightarrow> CapabilityPolicyContext
   \<Rightarrow> exn + AIInvocationRequest"
where
  "structured_request tx str_of i statement p policy =
     ebind (gateway_key i) (\<lambda>key.
     ebind (definition_version str_of i) (\<lambda>version.
     Inr ((request_defaults (si_execution_id i) ''1'' statement (si_tenant_id i) (si_workspace_id i)
            (si_correlation_id i) (si_causation_id i) (si_authorization i) (si_causation_id i) key)
       \<lparr>rq_capability_id := ''StructuredTaskKindClassification'',
        rq_prompt_template_ref := pp_reference p, rq_prompt_template_version_ref := pp_version_reference p,
        rq_system_instruction_ref := pp_system_instruction_reference p, rq_response_mode := STRUCTURED,
        rq_output_schema_ref := Some (pp_output_schema_reference p), rq_output_schema := Some (pp_output_schema p),
        rq_output_schema_identity := Some (package_identity (sha256 tx) (repr_float tx) p),
        rq_required_capabilities := {''structured''}, rq_max_input_tokens := pp_max_input_tokens p,
        rq_max_output_tokens := pp_max_output_tokens p, rq_max_total_cost := pp_max_cost p,
        rq_context_items := [], rq_data_classification := pc_data_classification policy,
        rq_safety_policy_ref := pc_safety_policy_ref policy, rq_cache_policy_ref := pc_cache_policy_ref policy,
        rq_budget_policy_ref := pc_budget_policy_ref policy, rq_residency := pc_residency policy,
        rq_required_data_handling := pc_required_data_handling policy,
        rq_minimum_security_tier := pc_minimum_security_tier policy, rq_allow_fallback := True,
        rq_max_provider_attempts := 2, rq_repair_attempts := 1, rq_cache_allowed := False,
        rq_workflow_ai_budget_admission := si_workflow_ai_budget_admission i,
        rq_workflow_id := si_workflow_id i, rq_workflow_step_id := si_workflow_step_id i,
        rq_workflow_definition_version_id := version, rq_skill_version_id := si_skill_version_id i\<rparr>)))"

definition dependency_failure :: "string \<Rightarrow> SkillFailure" where
  "dependency_failure message =
     \<lparr>sf_message = message, sf_status = FAILED, sf_category = DEPENDENCY_FAILURE,
      sf_retry = REQUIRES_POLICY_EVALUATION, sf_error_code = ''SKILL_DEPENDENCY_FAILURE'',
      sf_ai_invocation_id = None, sf_pre_acceptance_rejection = False\<rparr>"

definition from_gateway :: "AIInvocationResponse \<Rightarrow> SkillFailure" where
  "from_gateway response = (case rsp_error response of
       None \<Rightarrow> dependency_failure ''AI Gateway returned a normalized terminal failure''
     | Some e \<Rightarrow>
         \<lparr>sf_message = err_message e, sf_status = res_result_status (rsp_result response),
          sf_category = err_error_category e, sf_retry = err_retry_classification e,
          sf_error_code = err_error_code e, sf_ai_invocation_id = Some (rsp_ai_invocation_id response),
          sf_pre_acceptance_rejection = False\<rparr>)"

definition usage_field :: "(AIUsage \<Rightarrow> int) \<Rightarrow> AIInvocationResponse \<Rightarrow> pyval" where
  "usage_field f response = (case rsp_usage response of None \<Rightarrow> PNone | Some u \<Rightarrow> PInt (f u))"

definition complete_ai_path :: "text_services \<Rightarrow> AIInvocationResponse \<Rightarrow> exn + SkillOutput" where
  "complete_ai_path tx response =
     (if res_result_status (rsp_result response) \<noteq> SUCCEEDED
      then Inl (SkillDependencyFailure (from_gateway response))
      else case accept_result tx (rsp_content response) of
             Inl e \<Rightarrow> if is_value_error e
               then Inl (SkillDependencyFailure
                 ((dependency_failure ''Canonical structured result failed deterministic capability acceptance'')
                    \<lparr>sf_retry := NEVER_RETRY\<rparr>))
               else Inl e
           | Inr k \<Rightarrow> Inr
               \<lparr>so_value = canonical_json tx k, so_memory_id = [],
                so_ai_invocation_id = rsp_ai_invocation_id response, so_reused_result_id = None,
                so_gateway_result_id = Some (res_result_id (rsp_result response)),
                so_accounting_evidence = Some
                  [(''settled_actual_spend_status'', PStr ''canonical_gateway_store''),
                   (''gateway_evidence'', case as_map (pget (res_metadata (rsp_result response))
                        ''gateway_accounting_evidence'') of None \<Rightarrow> PNone | Some g \<Rightarrow> PDict g),
                   (''input_tokens'', usage_field input_tokens response),
                   (''output_tokens'', usage_field output_tokens response),
                   (''cached_tokens'', usage_field cached_tokens response),
                   (''reasoning_tokens'', usage_field reasoning_tokens response),
                   (''provider_attempt_details'', PStr ''not_exposed''),
                   (''fallback_details'', PStr ''not_exposed''), (''repair_details'', PStr ''not_exposed'')]\<rparr>)"

definition structured_execute ::
  "text_services \<Rightarrow> (pyval \<Rightarrow> string) \<Rightarrow> task_capability \<Rightarrow> (AIInvocationRequest \<Rightarrow> ('s, AIInvocationResponse) eff)
   \<Rightarrow> SkillInput \<Rightarrow> ('s, SkillOutput) eff"
where
  "structured_execute tx str_of tc invoke i =
     bnd (lift (parse_task_input (si_payload i))) (\<lambda>statement.
     bnd (lift (require_security_context i)) (\<lambda>_.
     bnd (lift (resolve_package (tc_packages tc) ''structured-task-kind'' ''v1'' True)) (\<lambda>p.
     bnd (lift (require_policy_context tc)) (\<lambda>policy.
     case map_of (tc_authoritative_results tc) (si_execution_id i) of
       Some k \<Rightarrow> ret \<lparr>so_value = canonical_json tx k, so_memory_id = [], so_ai_invocation_id = [],
                      so_reused_result_id = None, so_gateway_result_id = None, so_accounting_evidence = None\<rparr>
     | None \<Rightarrow>
         bnd (lift (structured_request tx str_of i statement p policy)) (\<lambda>r.
         bnd (invoke r) (\<lambda>response.
         lift (complete_ai_path tx response)))))))"

definition structured_skill ::
  "text_services \<Rightarrow> (pyval \<Rightarrow> string) \<Rightarrow> task_capability \<Rightarrow> (AIInvocationRequest \<Rightarrow> ('s, AIInvocationResponse) eff)
   \<Rightarrow> 's skill"
where
  "structured_skill tx str_of tc invoke =
     \<lparr>sk_execute = structured_execute tx str_of tc invoke,
      sk_validate_registry_binding = Some (validate_registry_binding tx tc),
      sk_validate_reused_output = Some (validate_reused_output tx)\<rparr>"

section \<open>Release evaluation\<close>

text \<open>
  Ratios are exact rationals; the comparison with a two-digit threshold is the one the source makes
  with its 28-digit quotients for any fixture below ten to the twenty-six. \<^verbatim>\<open>Decimal(0) / Decimal(0)\<close>
  raises \<open>InvalidOperation\<close>.
\<close>

definition matches :: "TaskKind list \<Rightarrow> TaskKind list \<Rightarrow> TaskKind \<Rightarrow> TaskKind \<Rightarrow> nat" where
  "matches expected actual e a = length (filter (\<lambda>(x, y). x = e \<and> y = a) (zip expected actual))"

definition correct_count :: "TaskKind list \<Rightarrow> TaskKind list \<Rightarrow> nat" where
  "correct_count expected actual = length (filter (\<lambda>(x, y). x = y) (zip expected actual))"

definition exact_accuracy :: "TaskKind list \<Rightarrow> TaskKind list \<Rightarrow> decimal \<Rightarrow> bool" where
  "exact_accuracy expected actual threshold \<longleftrightarrow>
     expected \<noteq> [] \<and> length expected = length actual
     \<and> dval threshold \<le> of_nat (correct_count expected actual) / of_nat (length expected)"

record EvaluationResult =
  ev_accuracy :: rat
  ev_per_class_recall :: "(TaskKind, rat) odict"
  ev_confusion :: "(TaskKind, (TaskKind, nat) odict) odict"
  ev_passed :: bool

fun recalls :: "TaskKind list \<Rightarrow> TaskKind list \<Rightarrow> TaskKind list \<Rightarrow> exn + (TaskKind, rat) odict" where
  "recalls expected actual [] = Inr []"
| "recalls expected actual (k # ks) =
     (if k \<notin> set expected then Inl InvalidOperation
      else ebind (recalls expected actual ks) (\<lambda>rest.
           Inr ((k, of_nat (matches expected actual k k) / of_nat (count_list expected k)) # rest)))"

definition evaluate_predictions :: "TaskKind list \<Rightarrow> TaskKind list \<Rightarrow> exn + EvaluationResult" where
  "evaluate_predictions expected actual =
     (if expected = [] \<or> length expected \<noteq> length actual
      then Inr \<lparr>ev_accuracy = 0, ev_per_class_recall = [], ev_confusion = [], ev_passed = False\<rparr>
      else let accuracy = of_nat (correct_count expected actual) / of_nat (length expected) in
        ebind (recalls expected actual all_task_kinds) (\<lambda>recall.
        Inr \<lparr>ev_accuracy = accuracy, ev_per_class_recall = recall,
             ev_confusion = map (\<lambda>e. (e, map (\<lambda>a. (a, matches expected actual e a)) all_task_kinds)) all_task_kinds,
             ev_passed = (95 / 100 \<le> accuracy \<and> list_all (\<lambda>(_, x). 90 / 100 \<le> x) recall)\<rparr>))"

section \<open>From the Engine's admission to the Gateway's check\<close>

text \<open>The envelope of an instance is bound to the instance, as \<open>start_checks\<close> requires it.\<close>

definition envelope_scoped :: "WorkflowInstance \<Rightarrow> bool" where
  "envelope_scoped v \<longleftrightarrow> (\<forall>e. wf_ai_budget_envelope v = Some e \<longrightarrow>
     env_tenant_id e = wf_tenant_id v \<and> env_workspace_id e = wf_workspace_id v
     \<and> env_definition_version_id e = wd_workflow_definition_version_id (wf_definition v))"

lemma started_scoped:
  assumes "start_checks c = Inr (d, envelope)"
  shows "envelope_scoped (new_instance c d envelope w step timeout)"
  using assms
  by (auto simp: start_checks_def Let_def envelope_scoped_def new_instance_def envelope_in_scope_def
      split: if_splits sum.splits option.splits)

lemma identity_scoped: "same_identity v v' \<Longrightarrow> envelope_scoped v \<Longrightarrow> envelope_scoped v'"
  by (simp add: envelope_scoped_def same_identity_def)

lemma checked_policy:
  assumes "create_attempt_command env w k s = (Inr c, t)" "map_of (instances s) w = Some v" "needs_admission v"
    "wf_ai_budget_envelope v = Some e"
  shows "auth_policy_id (wf_authorization v) = env_policy_id e
    \<and> auth_policy_version_id (wf_authorization v) = env_policy_version_id e"
proof -
  obtain u where "check_admission w s = (Inr u, s)"
    using assms(1) check_state [of w s] by (auto simp: create_attempt_command_def elim!: bnd_InrE)
  with assms(2-4) show ?thesis
    by (auto simp: check_admission_def eff_apply repository_apply permitted_def authorize_apply
        split: sum.splits exn.splits if_splits)
qed

lemma exposure_amount: "AMOUNT (micro_amount attempt_exposure)"
proof -
  have "scale6 (micro_amount attempt_exposure) = Inr attempt_exposure"
    by (rule scale6_micro_amount) (use exposure_digits in \<open>simp_all add: attempt_exposure_def\<close>)
  then show ?thesis by (simp add: scale6_def split: if_splits)
qed

lemma request_fields:
  assumes "structured_request tx str_of i st p policy = Inr r"
    and "si_workflow_ai_budget_admission i = Some b" "pget b ''WorkflowDefinitionVersionId'' = PStr version"
    and "pget b ''GatewayIdempotencyKey'' = PStr key"
  shows "rq_workflow_ai_budget_admission r = Some b" "rq_workflow_id r = si_workflow_id i"
    "rq_workflow_step_id r = si_workflow_step_id i" "rq_command_id r = si_causation_id i"
    "rq_execution_id r = si_execution_id i" "rq_tenant_id r = si_tenant_id i" "rq_workspace_id r = si_workspace_id i"
    "rq_authorization r = si_authorization i" "rq_idempotency_key r = key" "rq_skill_version_id r = si_skill_version_id i"
    "rq_capability_id r = ''StructuredTaskKindClassification''" "rq_capability_contract_version_id r = ''1''"
    "rq_workflow_definition_version_id r = Some version"
  using assms
  by (auto simp: structured_request_def gateway_key_def definition_version_def request_defaults_def pget_def
      split: option.splits pyval.splits)

text \<open>C40 (safety). The admission the Engine commits is the admission the other components ask for. For a
  governed attempt Command the Engine has just created and dispatches, the Skill Runtime's own check
  of the binding passes, and the request its structured Skill builds for the attempt passes the
  Gateway's admission check against the Engine's repository, without changing any state.\<close>

theorem admission_flows_to_gateway:
  fixes s t :: "'z runtime_state_scheme"
  assumes create: "create_attempt_command env w k s = (Inr c, t)"
    and v: "map_of (instances s) w = Some v" "wf_workflow_id v = w" "needs_admission v" "wf_state v = WF_RUNNING"
      "envelope_scoped v" "0 \<le> wf_transition_version v"
    and ctx: "cmd_execution_id c = Some (ac_execution_id ctx)" "ac_workflow_id ctx = w"
      "ac_workflow_step_id ctx = wf_workflow_step_id v"
      "sd_skill_version_id (ac_definition ctx) = wd_skill_version_id (wf_definition v)"
      "sd_capability_id (ac_definition ctx) = ''StructuredTaskKindClassification''"
      "sd_capability_contract_version_id (ac_definition ctx) = ''1''"
    and r: "structured_request tx str_of (skill_input c ctx) st p policy = Inr r"
  shows "admission_refusal c (ac_definition ctx) (ac_capability ctx) owned w (wf_workflow_step_id v) (ac_execution_id ctx) = None
    \<and> (\<exists>b. rq_workflow_ai_budget_admission r = Some b \<and>
         validate_workflow_admission (Some repository_authority) r b (t\<lparr>dispatched := Some c\<rparr>)
           = (Inr (), t\<lparr>dispatched := Some c\<rparr>))"
proof -
  let ?x = "ac_execution_id ctx"
  obtain e xid b where e: "wf_ai_budget_envelope v = Some e" and x: "cmd_execution_id c = Some xid"
    and b: "admission_binding e (wf_workflow_id v) (wf_workflow_step_id v) (cmd_command_id c) xid
       (wd_skill_version_id (wf_definition v)) ''StructuredTaskKindClassification'' ''1''
       (wf_transition_version v + 1) attempt_exposure = Inr b"
    and c1: "cmeta_workflow_ai_budget_admission (cmd_metadata c) = Some b"
    and t: "map_of (instances t) w = Some (admitted (v\<lparr>wf_attempt_number := wf_attempt_number v + 1,
        wf_execution_ids := wf_execution_ids v @ [xid]\<rparr>) (cmd_command_id c) xid b)"
    and c2: "cmd_tenant_id c = wf_tenant_id v" "cmd_workspace_id c = wf_workspace_id v"
      "cmd_workflow_id c = Some (wf_workflow_id v)" "cmd_workflow_step_id c = Some (wf_workflow_step_id v)"
      "cmeta_authorization (cmd_metadata c) = wf_authorization v"
    by (rule create_inversion [OF create v(1,3)])
  have [simp]: "xid = ?x" using x ctx(1) by simp
  note c = c1 c2 [unfolded v(2)]
  note f = binding_fields [OF b, unfolded v(2)]
  have scope: "env_tenant_id e = wf_tenant_id v" "env_workspace_id e = wf_workspace_id v"
    "env_definition_version_id e = ''classify-and-route-task-v1''"
    using v(3,5) e by (auto simp: envelope_scoped_def needs_admission_def is_approved_reference_workflow_def
        definition_identity_def approved_identity_def)
  note policy = checked_policy [OF create v(1,3) e]
  have cap: "py_eq (capability_binding sv cc vv) (capability_binding sv cc vv)" for sv cc vv
    by (rule py_eq_refl) simp
  have "attempt_binding_ok c (ac_definition ctx) w (wf_workflow_step_id v) ?x b"
    using f scope policy c ctx exposure_amount v(6) cap
    by (simp add: attempt_binding_ok_def gateway_idempotency_key_def positive_version_def keys_are_def py_num_def
        capability_binding_def)
  moreover have "si_workflow_ai_budget_admission (skill_input c ctx) = Some b" using c by (simp add: skill_input_def)
  note q = request_fields [OF r this f(9,13)]
  have "check_binding r b = Inr ()"
    using f scope policy c ctx exposure_amount v(6) cap q
    by (simp add: check_binding_def binding_matches_def binding_keys_def keys_are_def positive_version_def py_num_def
        capability_binding_def skill_input_def)
  moreover have "instance_admission (admitted (v\<lparr>wf_attempt_number := wf_attempt_number v + 1,
        wf_execution_ids := wf_execution_ids v @ [?x]\<rparr>) (cmd_command_id c) ?x b) (cmd_command_id c) ?x = Some b"
    by (rule admitted_current) (use b v(4) in simp_all)
  then have "committed_admission (t\<lparr>dispatched := Some c\<rparr>) w (cmd_command_id c) ?x = Some b"
    using t c ctx(1) by (simp add: committed_admission_def)
  ultimately show ?thesis
    using q c py_eq_refl [OF f(16)]
    by (simp add: admission_refusal_def validate_workflow_admission_def repository_authority_def eff_apply skill_input_def
        del: py_eq.simps)
qed

lemma request_built:
  assumes "si_workflow_ai_budget_admission i = Some b" "pget b ''WorkflowDefinitionVersionId'' = PStr version"
    and "pget b ''GatewayIdempotencyKey'' = PStr key"
  shows "\<exists>r. structured_request tx str_of i st p policy = Inr r"
  using assms
  by (auto simp: structured_request_def gateway_key_def definition_version_def pget_def split: option.splits pyval.splits)

definition sample_runtime :: runtime_state where
  "sample_runtime = engine_state.extend sample_repository \<lparr>executions = [], execution_receipts = []\<rparr>"

definition sample_skill_definition :: SkillDefinition where
  "sample_skill_definition = \<lparr>sd_skill_id = ''structured-task-kind-skill'',
     sd_skill_version_id = ''structured-task-kind-skill-v1'', sd_capability_id = ''StructuredTaskKindClassification'',
     sd_capability_contract_version_id = ''1'', sd_implementation_reference = ''structured-task-kind-local''\<rparr>"

definition sample_capability :: CapabilityImplementation where
  "sample_capability = \<lparr>ci_capability_id = ''StructuredTaskKindClassification'', ci_capability_contract_version_id = ''1'',
     ci_implementation_reference = ''structured-task-kind-local'', ci_boundary = ''AI Gateway'',
     ci_prompt_package_ref = Some ''structured-task-kind'', ci_prompt_package_version_ref = Some ''v1'',
     ci_output_schema_ref = Some ''structured-task-kind-schema-v1''\<rparr>"

definition sample_policy_context :: CapabilityPolicyContext where
  "sample_policy_context = \<lparr>pc_data_classification = INTERNAL, pc_safety_policy_ref = ''reference-safety-v1'',
     pc_cache_policy_ref = ''no-store'', pc_budget_policy_ref = ''reference-budget-v1'', pc_residency = ''any'',
     pc_required_data_handling = {}, pc_minimum_security_tier = 1\<rparr>"

lemma sample_runtime_instance: "map_of (instances sample_runtime) ''wf'' = Some sample_instance"
  by (simp add: sample_runtime_def sample_repository_def engine_state.defs repository_empty_def gateway_state.defs)

lemma sample_runtime_check: "check_admission ''wf'' sample_runtime = (Inr (), sample_runtime)"
proof -
  have "fst (check_admission ''wf'' sample_runtime) = Inr ()" by code_simp
  then show ?thesis using check_state [of "''wf''" sample_runtime] by (simp add: prod_eq_iff)
qed

theorem admission_flows_to_gateway_witness:
  "\<exists>c t r b. create_attempt_command quiet_env ''wf'' ''cause'' sample_runtime = (Inr c, t)
     \<and> rq_command_id r = cmd_command_id c
     \<and> validate_workflow_admission (Some repository_authority) r b (t\<lparr>dispatched := Some c\<rparr>)
         = (Inr (), t\<lparr>dispatched := Some c\<rparr>)"
proof -
  obtain c t where c: "create_attempt_command quiet_env ''wf'' ''cause'' sample_runtime = (Inr c, t)"
    using create_returns [OF sample_runtime_instance sample_instance_fields(2) sample_runtime_check]
    by (fastforce simp: sample_instance_def sample_authorization_def)
  obtain e x b where x: "cmd_execution_id c = Some x"
    and b: "admission_binding e (wf_workflow_id sample_instance) (wf_workflow_step_id sample_instance) (cmd_command_id c) x
       (wd_skill_version_id (wf_definition sample_instance)) ''StructuredTaskKindClassification'' ''1''
       (wf_transition_version sample_instance + 1) attempt_exposure = Inr b"
    and m: "cmeta_workflow_ai_budget_admission (cmd_metadata c) = Some b"
    by (rule create_inversion [OF c sample_runtime_instance sample_instance_fields(2)])
  let ?ctx = "\<lparr>ac_execution_id = x, ac_workflow_id = ''wf'', ac_workflow_step_id = ''step'', ac_attempt_number = 1,
    ac_definition = sample_skill_definition, ac_capability = sample_capability,
    ac_implementation = structured_skill sample_tx (\<lambda>_. []) \<lparr>tc_packages = [], tc_authoritative_results = [],
      tc_policy_context = None\<rparr> (\<lambda>_. raise AssertionError)\<rparr> :: runtime_state skill_context"
  have i: "si_workflow_ai_budget_admission (skill_input c ?ctx) = Some b" using m by (simp add: skill_input_def)
  obtain r where r: "structured_request sample_tx (\<lambda>_. []) (skill_input c ?ctx) ''Where is it?''
      STRUCTURED_TASK_KIND_PACKAGE sample_policy_context = Inr r"
    using request_built [OF i binding_fields(9,13) [OF b]] by blast
  have "rq_command_id r = cmd_command_id c"
    using request_fields(4) [OF r i binding_fields(9,13) [OF b]] by (simp add: skill_input_def)
  moreover have "\<exists>b. validate_workflow_admission (Some repository_authority) r b (t\<lparr>dispatched := Some c\<rparr>)
      = (Inr (), t\<lparr>dispatched := Some c\<rparr>)"
    using admission_flows_to_gateway [OF c sample_runtime_instance _ sample_instance_fields(2,3) _ _ _ _ _ _ _ _ r]
      x by (auto simp: sample_instance_def sample_skill_definition_def envelope_scoped_def sample_envelope_def)
  ultimately show ?thesis using c by blast
qed

section \<open>The release evaluation\<close>

lemma all_kinds: "k \<in> set all_task_kinds"
  by (cases k) (simp_all add: all_task_kinds_def)

lemma matches_simps [simp]:
  "matches [] ys e a = 0"
  "matches (x # xs) (y # ys) e a = (if x = e \<and> y = a then 1 else 0) + matches xs ys e a"
  by (simp_all add: matches_def)

lemma confusion_total:
  "length expected = length actual \<Longrightarrow>
   (\<Sum>e\<leftarrow>all_task_kinds. \<Sum>a\<leftarrow>all_task_kinds. matches expected actual e a) = length expected"
proof (induction expected actual rule: list_induct2)
  case (Cons x xs y ys)
  then show ?case by (cases x; cases y) (simp_all add: all_task_kinds_def)
qed (simp add: all_task_kinds_def)

lemma confusion_diagonal:
  "length expected = length actual \<Longrightarrow> (\<Sum>k\<leftarrow>all_task_kinds. matches expected actual k k) = correct_count expected actual"
proof (induction expected actual rule: list_induct2)
  case (Cons x xs y ys)
  then show ?case by (cases x; cases y) (simp_all add: all_task_kinds_def correct_count_def)
qed (simp add: all_task_kinds_def correct_count_def)

lemma recalls_cases:
  "recalls expected actual ks = (if set ks \<subseteq> set expected
     then Inr (map (\<lambda>k. (k, of_nat (matches expected actual k k) / of_nat (count_list expected k))) ks)
     else Inl InvalidOperation)"
  by (induction ks) (auto simp: ebind_def)

text \<open>The release evaluation of a labelled fixture: with every task kind among the expected
  labels it returns, its confusion matrix accounts for every row and its diagonal for every correct
  one, and it passes exactly when the accuracy reaches 0.95 and the recall of every kind reaches
  0.90. A fixture that lacks a task kind makes it raise instead.\<close>

theorem evaluation_exact:
  assumes "expected \<noteq> []" "length expected = length actual"
  shows "if \<forall>k. k \<in> set expected
    then \<exists>r. evaluate_predictions expected actual = Inr r
      \<and> (\<Sum>(e, row)\<leftarrow>ev_confusion r. \<Sum>(a, n)\<leftarrow>row. n) = length expected
      \<and> ev_accuracy r = of_nat (\<Sum>k\<leftarrow>all_task_kinds. matches expected actual k k) / of_nat (length expected)
      \<and> (ev_passed r \<longleftrightarrow> exact_accuracy expected actual (Dec 95 (- 2))
           \<and> (\<forall>k. 90 / 100 * rat_of_nat (count_list expected k) \<le> rat_of_nat (matches expected actual k k)))
    else evaluate_predictions expected actual = Inl InvalidOperation"
proof (cases "\<forall>k. k \<in> set expected")
  case True
  then have sub: "set all_task_kinds \<subseteq> set expected" by blast
  have pos: "0 < count_list expected k" for k using True by (simp add: count_list_0_iff flip: neq0_conv)
  let ?acc = "rat_of_nat (correct_count expected actual) / rat_of_nat (length expected)"
  have "list_all (\<lambda>k. 90 / 100 \<le> rat_of_nat (matches expected actual k k) / rat_of_nat (count_list expected k)) all_task_kinds
      \<longleftrightarrow> (\<forall>k. 90 / 100 * rat_of_nat (count_list expected k) \<le> rat_of_nat (matches expected actual k k))"
    using pos all_kinds by (simp add: list_all_iff field_simps) blast
  moreover have "exact_accuracy expected actual (Dec 95 (- 2)) \<longleftrightarrow> 95 / 100 \<le> ?acc"
    using assms by (simp add: exact_accuracy_def dval_Dec)
  ultimately show ?thesis
    using True assms sub confusion_total [OF assms(2)] confusion_diagonal [OF assms(2)]
    by (simp add: evaluate_predictions_def Let_def recalls_cases list_all_iff comp_def)
next
  case False
  then have "\<not> set all_task_kinds \<subseteq> set expected" using all_kinds by blast
  with False assms show ?thesis by (simp add: evaluate_predictions_def Let_def recalls_cases)
qed

theorem evaluation_exact_witness:
  "(\<exists>r. evaluate_predictions [QUESTION, INSTRUCTION, STATEMENT] [QUESTION, INSTRUCTION, STATEMENT] = Inr r)
   \<and> evaluate_predictions [QUESTION] [QUESTION] = Inl InvalidOperation"
proof -
  have "k \<in> set [QUESTION, INSTRUCTION, STATEMENT]" for k by (cases k) simp_all
  with evaluation_exact [of "[QUESTION, INSTRUCTION, STATEMENT]" "[QUESTION, INSTRUCTION, STATEMENT]"]
  have "\<exists>r. evaluate_predictions [QUESTION, INSTRUCTION, STATEMENT] [QUESTION, INSTRUCTION, STATEMENT] = Inr r" by auto
  moreover have "\<not> (\<forall>k. k \<in> set [QUESTION])" by (auto intro!: exI [of _ STATEMENT])
  with evaluation_exact [of "[QUESTION]" "[QUESTION]"] have "evaluate_predictions [QUESTION] [QUESTION] = Inl InvalidOperation"
    by (simp split: if_splits)
  ultimately show ?thesis ..
qed

end
