(* ===== verification/Gateway_Frame.thy ===== *)
theory Gateway_Frame
  imports Workflow_Budget Gateway_Spending
begin

text \<open>
  The AI Gateway does not touch the Workflow: whatever an invocation does, on every path, it leaves
  instances, command receipts, outbox and delivery receipts as they were, provided its provider
  adapters do. This is the frame under which the Skill Runtime calls the Gateway while the Engine
  waits for the attempt.
\<close>

locale gateway_ports =
  fixes env :: "('z engine_state_scheme) gateway_env" and p :: "'z \<Rightarrow> 'p"
  assumes provider_frame: "evolves (same_core p) (ge_invoke env adapter model prompt r key timeout)"
    and wait_frame: "evolves (same_core p) (ge_wait env i)"
    and authority_frame:
      "ge_authority env = Some a \<Longrightarrow> evolves (same_core p) (authoritative_ai_admission a w c e)"
      "ge_authority env = Some a \<Longrightarrow> evolves (same_core p) (owns_ai_dispatch a w' c e)"

section \<open>The store\<close>

lemma offside_upd: "(\<And>s. core p (f s) = core p s) \<Longrightarrow> evolves (same_core p) (upd f)"
  by (rule evolves_upd)

lemma offside_suppress: "evolves (same_core p) m \<Longrightarrow> evolves (same_core p) (suppress m)"
  unfolding suppress_def by (intro offside.rules)

lemma store_rows:
  "evolves (same_core p) (load_invocation i)" "evolves (same_core p) (modify_invocation i f)"
  "evolves (same_core p) (modify_reservation i g)"
  unfolding load_invocation_def modify_invocation_def modify_reservation_def
  by (intro offside.rules offside_upd; simp add: core_def)+

lemma store_claims:
  "evolves (same_core p) (claim_execution i owner now lease)" "evolves (same_core p) (assert_execution_owner i owner g)"
  "evolves (same_core p) (fence_option i claim)" "evolves (same_core p) (release_execution i owner g)"
  "evolves (same_core p) (renew_execution i owner g now lease)"
  unfolding claim_execution_def assert_execution_owner_def fence_option_def release_execution_def renew_execution_def
  by (intro offside.rules store_rows; simp)+

lemma store_ledger:
  "evolves (same_core p) (checkpoint i)" "evolves (same_core p) (checkpoint_terminal_intent i)"
  "evolves (same_core p) (reserve i tn ws amount now)" "evolves (same_core p) (reconcile i actual usage claim)"
  "evolves (same_core p) (release_reservation i state)" "evolves (same_core p) (record_attempt i row)"
  unfolding checkpoint_def checkpoint_terminal_intent_def reserve_def reconcile_def release_reservation_def
    record_attempt_def
  by (intro offside.rules offside_upd store_rows store_claims; simp add: core_def)+

lemma store_effects:
  "evolves (same_core p) (load_provider_effect i key)" "evolves (same_core p) (reserve_provider_effect i key owner g)"
  "evolves (same_core p) (record_provider_effect i key result claim)" "evolves (same_core p) (cached tn ws key now)"
  "evolves (same_core p) (cache_content tn ws key entry)" "evolves (same_core p) (store_accept tx r i ack now)"
  unfolding load_provider_effect_def reserve_provider_effect_def record_provider_effect_def cached_def
    cache_content_def store_accept_def
  by (intro offside.rules offside_upd store_rows store_claims; simp add: core_def)+

lemmas store_frames = store_rows store_claims store_ledger store_effects

section \<open>Routing, evidence and responses\<close>

lemma health_frames:
  "evolves (same_core p) (health_state k)" "evolves (same_core p) (record_health_failure cooldown k code)"
  "evolves (same_core p) (record_health_success k)"
  unfolding health_state_def record_health_failure_def record_health_success_def
  by (intro offside.rules offside_upd offside_reads; simp add: core_def)+

lemma partition_frame: "evolves (same_core p) (partition_catalog r tokens models excluded eligible)"
  by (induction models arbitrary: excluded eligible) (auto intro!: offside.rules health_frames)

lemma route_frames:
  "evolves (same_core p) (eligible_routes tx models r tokens)" "evolves (same_core p) (select_route tx models r tokens)"
  unfolding select_route_def eligible_routes_def
  by (intro offside.rules partition_frame; auto intro: offside.rules split: list.splits)+

lemma evidence_frames:
  "evolves (same_core p) (observe i operation attributes)" "evolves (same_core p) (transition i state)"
  unfolding transition_def observe_def Let_def
  by (intro offside.rules offside_services offside_upd store_frames; simp add: core_def)+

lemma response_frames:
  "evolves (same_core p) (success tx i content usage route hit)" "evolves (same_core p) (failure i code again)"
  unfolding success_def failure_def Let_def
  by (intro offside.rules offside_services evidence_frames store_frames)+

lemmas response_rules = offside.rules offside_services store_frames health_frames route_frames evidence_frames response_frames

lemma settling_frames:
  "evolves (same_core p) (settle_success env a l usage content)" "evolves (same_core p) (escalate env a l)"
  "evolves (same_core p) (attempt_failed env a f l)" "evolves (same_core p) (cache_hit env a l)"
  "evolves (same_core p) (deadline_passed r)" "evolves (same_core p) (prepare_execution env i)"
  "evolves (same_core p) (provider_candidates env i prepared)" "evolves (same_core p) (settle_failure i owner g vars)"
  "evolves (same_core p) (record_intent i response)" "evolves (same_core p) (fence env i owner g)"
  unfolding settle_success_def escalate_def attempt_failed_def cache_hit_def deadline_passed_def prepare_execution_def
    provider_candidates_def settle_failure_def record_intent_def fence_def planned_route_def Let_def
  by (intro response_rules offside_suppress)+

section \<open>One invocation\<close>

context gateway_ports
begin

lemma crossing_frame: "evolves (same_core p) (provider_effect env i r adapter model prompt key owner g code)"
  unfolding provider_effect_def by (intro response_rules settling_frames provider_frame)

lemma repair_frame:
  "evolves (same_core p) (repair_round env a k available)"
  "evolves (same_core p) (repair_loop env a remaining n k content rin rout rcost)"
proof -
  show 1: "evolves (same_core p) (repair_round env a k available)" for k available
    unfolding repair_round_def Let_def by (intro response_rules crossing_frame)
  show "evolves (same_core p) (repair_loop env a remaining n k content rin rout rcost)"
    by (induction n arbitrary: k content rin rout rcost)
      (auto intro!: response_rules 1 simp del: bnd_simps split: sum.splits)
qed

lemma attempt_frame: "evolves (same_core p) (attempt env a l)"
  unfolding attempt_def attempt_call_def attempt_finish_def catch_provider_def validate_and_repair_def Let_def
  by (intro response_rules crossing_frame repair_frame settling_frames)
    (auto intro: response_rules split: exn.splits)

lemma loop_frame: "evolves (same_core p) (attempt_loop env i r owner g candidates n l)"
  by (induction candidates arbitrary: n l)
    (auto intro!: response_rules attempt_frame settling_frames simp: Let_def simp del: bnd_simps split: attempt_result.splits)

lemma wait_terminal_frame: "evolves (same_core p) (wait_for_terminal (ge_wait env) i)"
  unfolding wait_for_terminal_def by (intro response_rules wait_frame offside_upd) (simp add: core_def)

lemma execute_frame: "evolves (same_core p) (execute env i)"
proof -
  have "evolves (same_core p) (execution_error env i reserved e)" for reserved e
    unfolding execution_error_def
    by (cases e; simp only: exn.case; intro response_rules settling_frames wait_terminal_frame offside_suppress)
  moreover have "evolves (same_core p) uuid_hex" by (simp add: evolves_def effect_simps core_def)
  ultimately show ?thesis
    unfolding execute_def run_execution_def Let_def
    by (intro response_rules settling_frames loop_frame wait_terminal_frame offside_suppress)
qed

lemma preflight_frame: "evolves (same_core p) (preflight (ge_authority env) r)"
  unfolding preflight_def workflow_owned_def validate_workflow_admission_def
  by (intro response_rules authority_frame)

lemma invoke_frame: "evolves (same_core p) (gateway_invoke env r)"
  unfolding gateway_invoke_def gateway_accept_def Let_def
  by (intro response_rules settling_frames preflight_frame execute_frame offside_upd) (simp add: core_def)

end

end
