(* ===== verification/Reference_Components.thy ===== *)
theory Reference_Components
  imports Structured_Task Gateway_Frame
begin

text \<open>
  The components of the reference host around the Engine: the deterministic Gateway and providers of
  \<^verbatim>\<open>adapters/ai_mock/.../gateway.py\<close>, the reference Skill of \<^verbatim>\<open>apps/api/.../reference_skill.py\<close>,
  the Gateway router of \<^verbatim>\<open>apps/api/.../composition.py\<close> and the Manager of
  \<^verbatim>\<open>packages/manager/.../manager.py\<close>, on the state of the whole host.
\<close>

datatype MockProviderBehavior =
    MOCK_SUCCESS | MOCK_TRANSIENT_FAILURE | MOCK_PERMANENT_FAILURE | MOCK_TIMEOUT | MOCK_CANCELLED
  | MOCK_MALFORMED | MOCK_LOW_CONFIDENCE | MOCK_DEGRADED | MOCK_MISSING_USAGE | MOCK_MID_STREAM_FAILURE

record mock_provider =
  mp_prefix :: string
  mp_transient_failures :: int
  mp_calls :: int
  mp_prompts :: "string list"
  mp_behaviors :: "MockProviderBehavior list"
  mp_effects :: "(string, exn + ProviderResult) odict"

record host_state = runtime_state +
  mock_failures_remaining :: int
  mock_invocations :: "string list"
  providers :: "(string, mock_provider) odict"
  request_results :: "(string, ResultEnvelope) odict"
  request_errors :: "(string, ErrorEnvelope) odict"
  request_commands :: "(string, CommandEnvelope) odict"
  workflow_commands :: "(string, CommandEnvelope) odict"

section \<open>MockAIGateway\<close>

definition mock_scope :: "AIInvocationRequest \<Rightarrow> string \<Rightarrow> outcome_scope" where
  "mock_scope r i =
     \<lparr>os_subject = i, os_producer = ''AI Gateway'', os_tenant_id = rq_tenant_id r,
      os_workspace_id = rq_workspace_id r, os_correlation_id = rq_correlation_id r,
      os_causation_id = rq_causation_id r\<rparr>"

definition mock_gateway_invoke ::
  "AIInvocationRequest \<Rightarrow> ('z host_state_scheme, AIInvocationResponse) eff" where
  "mock_gateway_invoke r =
     bnd (authorize (rq_authorization r) ''ai.invoke'' (rq_tenant_id r) (rq_workspace_id r)) (\<lambda>_.
     bnd (new_id ''ai'') (\<lambda>i.
     bnd (upd (\<lambda>s. s\<lparr>mock_invocations := mock_invocations s @ [i]\<rparr>)) (\<lambda>_.
     bnd (asks mock_failures_remaining) (\<lambda>failures.
     if failures \<noteq> 0
     then bnd (upd (\<lambda>s. s\<lparr>mock_failures_remaining := mock_failures_remaining s - 1\<rparr>)) (\<lambda>_.
          bnd (unsuccessful (mock_scope r i)
            \<lparr>fd_status = FAILED, fd_error_code = ''AI_PROVIDER_TEMPORARILY_UNAVAILABLE'',
             fd_category = AI_PROVIDER_UNAVAILABLE, fd_severity = WARNING, fd_retry = RETRYABLE,
             fd_message = ''The mock AI capability is temporarily unavailable.''\<rparr> None None None [])
            (\<lambda>(result, error).
          ret \<lparr>rsp_ai_invocation_id = i, rsp_result = result, rsp_content = None, rsp_error = Some error,
               rsp_usage = None, rsp_route = None, rsp_cache_hit = False\<rparr>))
     else bnd (succeeded (mock_scope r i) None None (Some (''value:'' @ i)) [] None) (\<lambda>result.
          ret \<lparr>rsp_ai_invocation_id = i, rsp_result = result,
               rsp_content = Some (''Hello from AIEOS: '' @ strip (rq_prompt r)), rsp_error = None,
               rsp_usage = None, rsp_route = None, rsp_cache_hit = False\<rparr>)))))"

section \<open>DeterministicMockProvider\<close>

definition modify_provider ::
  "string \<Rightarrow> (mock_provider \<Rightarrow> mock_provider) \<Rightarrow> ('z host_state_scheme, unit) eff" where
  "modify_provider key f =
     upd (\<lambda>s. s\<lparr>providers := map (\<lambda>(k, p). (k, if k = key then f p else p)) (providers s)\<rparr>)"

definition load_provider :: "string \<Rightarrow> ('z host_state_scheme, mock_provider) eff" where
  "load_provider key =
     bnd (asks (\<lambda>s. map_of (providers s) key)) (\<lambda>p.
     case p of None \<Rightarrow> raise (KeyError key) | Some p \<Rightarrow> ret p)"

definition next_behavior :: "string \<Rightarrow> ('z host_state_scheme, MockProviderBehavior) eff" where
  "next_behavior key =
     bnd (load_provider key) (\<lambda>p.
     case mp_behaviors p of
       [] \<Rightarrow> ret MOCK_SUCCESS
     | b # rest \<Rightarrow> bnd (modify_provider key (\<lambda>p. p\<lparr>mp_behaviors := rest\<rparr>)) (\<lambda>_. ret b))"

definition declarative_openers :: "string list" where
  "declarative_openers = [''a'', ''an'', ''the'', ''this'', ''that'', ''these'', ''those'', ''i'', ''we'', ''you'',
     ''he'', ''she'', ''it'', ''they'', ''there'']"

definition surface_form_task_kind :: "string \<Rightarrow> exn + string" where
  "surface_form_task_kind prompt =
     (let statement = strip prompt in
      if statement \<noteq> [] \<and> last statement = CHR ''?'' then Inr ''Question''
      else if statement = [] then Inl (LookupError ''list index out of range'')
      else let first = rstrip_by (\<lambda>c. c \<in> set ''.,!?'') (to_lower (takeWhile (\<lambda>c. \<not> py_space c) statement)) in
        if first \<in> set declarative_openers then Inr ''Statement'' else Inr ''Instruction'')"

definition token_count :: "string \<Rightarrow> int" where
  "token_count text = max 1 (int (utf8_len text div 4))"

definition default_json :: "text_services \<Rightarrow> json_style" where
  "default_json tx = \<lparr>item_separator = '', '', key_separator = '': '', sort_keys = False, float_repr = repr_float tx\<rparr>"

definition mock_content ::
  "text_services \<Rightarrow> string \<Rightarrow> MockProviderBehavior \<Rightarrow> string \<Rightarrow> AIInvocationRequest \<Rightarrow> exn + string" where
  "mock_content tx prefix behavior model r =
     (if behavior = MOCK_MALFORMED then Inr ''not-json''
      else if rq_output_schema_ref r = Some ''structured-task-kind-schema-v1''
      then if behavior = MOCK_DEGRADED
           then Inr (json_dumps (default_json tx) (PDict [(''task_kind'', PStr ''Statement'')]))
           else ebind (surface_form_task_kind (rq_prompt r)) (\<lambda>k.
                Inr (json_dumps (default_json tx) (PDict [(''task_kind'', PStr k)])))
      else if rq_output_schema_ref r = Some ''analysis-v1''
      then Inr (json_dumps (default_json tx)
             (PDict [(''result'', PDict [(''summary'', PStr (strip (rq_prompt r))), (''items'', PList [PStr model])])]))
      else if truthy_str (rq_output_schema_ref r)
      then Inr (json_dumps (default_json tx) (PDict [(''answer'', PStr (strip (rq_prompt r))), (''model'', PStr model)]))
      else Inr (prefix @ '': '' @ strip (rq_prompt r)))"

definition behavior_failure :: "MockProviderBehavior \<Rightarrow> AIUsage \<Rightarrow> exn option" where
  "behavior_failure behavior usage = (case behavior of
       MOCK_TRANSIENT_FAILURE \<Rightarrow> Some (ProviderFailure ''AI_PROVIDER_TEMPORARILY_UNAVAILABLE'' True (Some usage))
     | MOCK_PERMANENT_FAILURE \<Rightarrow> Some (ProviderFailure ''AI_PROVIDER_REJECTED'' False (Some usage))
     | MOCK_TIMEOUT \<Rightarrow> Some (ProviderFailure ''AI_PROVIDER_TIMEOUT'' True None)
     | MOCK_CANCELLED \<Rightarrow> Some (ProviderFailure ''AI_PROVIDER_CANCELLED'' False None)
     | _ \<Rightarrow> None)"

definition remember_effect :: "string \<Rightarrow> string option \<Rightarrow> exn + ProviderResult \<Rightarrow> ('z host_state_scheme, unit) eff" where
  "remember_effect key effect_key outcome = (case effect_key of
       None \<Rightarrow> ret ()
     | Some k \<Rightarrow> modify_provider key (\<lambda>p. p\<lparr>mp_effects := od_put k outcome (mp_effects p)\<rparr>))"

definition invoke_once ::
  "text_services \<Rightarrow> string \<Rightarrow> string \<Rightarrow> string \<Rightarrow> AIInvocationRequest \<Rightarrow> string option
   \<Rightarrow> ('z host_state_scheme, ProviderResult) eff"
where
  "invoke_once tx key model prompt r effect_key =
     bnd (load_provider key) (\<lambda>p.
     case (case effect_key of None \<Rightarrow> None | Some k \<Rightarrow> map_of (mp_effects p) k) of
       Some outcome \<Rightarrow> lift outcome
     | None \<Rightarrow>
         bnd (modify_provider key (\<lambda>p. p\<lparr>mp_calls := mp_calls p + 1, mp_prompts := mp_prompts p @ [prompt]\<rparr>)) (\<lambda>_.
         let failure_usage = usage_of (token_count prompt) 0 in
         if mp_transient_failures p \<noteq> 0
         then let problem = ProviderFailure ''AI_PROVIDER_TEMPORARILY_UNAVAILABLE'' True (Some failure_usage) in
              bnd (modify_provider key (\<lambda>p. p\<lparr>mp_transient_failures := mp_transient_failures p - 1\<rparr>)) (\<lambda>_.
              bnd (remember_effect key effect_key (Inl problem)) (\<lambda>_.
              raise problem))
         else bnd (next_behavior key) (\<lambda>behavior.
              case behavior_failure behavior failure_usage of
                Some problem \<Rightarrow> raise problem
              | None \<Rightarrow>
                  bnd (lift (mock_content tx (mp_prefix p) behavior model r)) (\<lambda>content.
                  let result = \<lparr>prv_content = content,
                        prv_usage = (if behavior = MOCK_MISSING_USAGE then None
                          else Some (usage_of (token_count prompt) (token_count content))),
                        prv_confidence = (if behavior = MOCK_LOW_CONFIDENCE then Dec 25 (- 2) else Dec 1 0)\<rparr> in
                  bnd (remember_effect key effect_key (Inr result)) (\<lambda>_.
                  ret result)))))"

text \<open>The provider-owned durable boundary is attached only in the PostgreSQL composition.\<close>

type_synonym 's effect_boundary =
  "AIInvocationRequest \<Rightarrow> string \<Rightarrow> string \<Rightarrow> string \<Rightarrow> ('s, ProviderResult) eff \<Rightarrow> ('s, ProviderResult) eff"

definition mock_request_hash :: "text_services \<Rightarrow> string \<Rightarrow> string \<Rightarrow> AIInvocationRequest \<Rightarrow> string" where
  "mock_request_hash tx model prompt r = sha256 tx (json_dumps (compact_sorted (repr_float tx)) (PDict
     [(''model_key'', PStr model), (''prompt'', PStr prompt), (''tenant_id'', PStr (rq_tenant_id r)),
      (''workspace_id'', PStr (rq_workspace_id r)),
      (''response_mode'', PStr (response_mode_value (rq_response_mode r))),
      (''output_schema_ref'', opt_str (rq_output_schema_ref r))]))"

definition provider_invoke ::
  "text_services \<Rightarrow> ('z host_state_scheme) effect_boundary option \<Rightarrow> string \<Rightarrow> string \<Rightarrow> string \<Rightarrow> AIInvocationRequest
   \<Rightarrow> string option \<Rightarrow> ('z host_state_scheme, ProviderResult) eff"
where
  "provider_invoke tx boundary key model prompt r effect_key =
     (case (effect_key, boundary) of
        (Some k, Some run) \<Rightarrow>
          run r k (if contains '':repair:'' k then ''structured_repair'' else ''provider_invoke'')
            (mock_request_hash tx model prompt r) (invoke_once tx key model prompt r None)
      | _ \<Rightarrow> invoke_once tx key model prompt r effect_key)"

section \<open>HelloAIEOSSkill\<close>

definition hello_request :: "SkillInput \<Rightarrow> string \<Rightarrow> AIInvocationRequest" where
  "hello_request i message =
     request_defaults (si_execution_id i) ''text-generation-v1'' message (si_tenant_id i) (si_workspace_id i)
       (si_correlation_id i) (si_causation_id i) (si_authorization i) (si_causation_id i) (si_execution_id i)"

definition hello_failure :: "ErrorEnvelope option \<Rightarrow> SkillFailure" where
  "hello_failure error = (case error of
       Some e \<Rightarrow> (dependency_failure (err_message e))
         \<lparr>sf_category := err_error_category e, sf_retry := err_retry_classification e\<rparr>
     | None \<Rightarrow> (dependency_failure ''AI invocation returned no content'')\<lparr>sf_category := AI_INVALID_RESPONSE\<rparr>)"

definition hello_execute ::
  "(AIInvocationRequest \<Rightarrow> ('z host_state_scheme, AIInvocationResponse) eff) \<Rightarrow> SkillInput
   \<Rightarrow> ('z host_state_scheme, SkillOutput) eff"
where
  "hello_execute invoke i =
     (case as_str (pget (si_payload i) ''message'') of
        None \<Rightarrow> raise (ValueError ''reference message must be a non-empty string'')
      | Some message \<Rightarrow>
          if strip message = [] then raise (ValueError ''reference message must be a non-empty string'') else
          bnd (invoke (hello_request i message)) (\<lambda>response.
          case (rsp_error response, rsp_content response) of
            (None, Some content) \<Rightarrow>
              bnd (store_memory save_record
                \<lparr>mw_content = content, mw_tenant_id = si_tenant_id i, mw_workspace_id = si_workspace_id i,
                 mw_correlation_id = si_correlation_id i, mw_provenance = rsp_ai_invocation_id response,
                 mw_authorization = si_authorization i\<rparr>) (\<lambda>memory.
              ret \<lparr>so_value = content, so_memory_id = mr_memory_id memory,
                   so_ai_invocation_id = rsp_ai_invocation_id response, so_reused_result_id = None,
                   so_gateway_result_id = None, so_accounting_evidence = None\<rparr>)
          | (error, _) \<Rightarrow> raise (SkillDependencyFailure (hello_failure error))))"

definition hello_skill ::
  "(AIInvocationRequest \<Rightarrow> ('z host_state_scheme, AIInvocationResponse) eff) \<Rightarrow> ('z host_state_scheme) skill" where
  "hello_skill invoke =
     \<lparr>sk_execute = hello_execute invoke, sk_validate_registry_binding = None, sk_validate_reused_output = None\<rparr>"

text \<open>\<^verbatim>\<open>CapabilityGatewayRouter.invoke\<close>\<close>

definition routed_invoke ::
  "(AIInvocationRequest \<Rightarrow> ('s, AIInvocationResponse) eff) \<Rightarrow> (AIInvocationRequest \<Rightarrow> ('s, AIInvocationResponse) eff)
   \<Rightarrow> AIInvocationRequest \<Rightarrow> ('s, AIInvocationResponse) eff"
where
  "routed_invoke text_gateway structured_gateway r =
     (if rq_capability_id r = ''StructuredTaskKindClassification'' then structured_gateway r else text_gateway r)"

section \<open>Manager\<close>

definition manager_name :: string where
  "manager_name = ''Manager''"

definition manager_reject ::
  "CommandEnvelope \<Rightarrow> string \<Rightarrow> string \<Rightarrow> ('z host_state_scheme, ResultEnvelope) eff" where
  "manager_reject c code message =
     bnd (unsuccessful
       \<lparr>os_subject = cmeta_request_id (cmd_metadata c), os_producer = manager_name, os_tenant_id = cmd_tenant_id c,
        os_workspace_id = cmd_workspace_id c, os_correlation_id = cmd_correlation_id c,
        os_causation_id = cmd_command_id c\<rparr>
       \<lparr>fd_status = REJECTED, fd_error_code = code, fd_category = VALIDATION, fd_severity = WARNING,
        fd_retry = NEVER_RETRY, fd_message = message\<rparr> (Some (cmd_command_id c)) None None []) (\<lambda>(result, error).
     bnd (upd (\<lambda>s. s\<lparr>request_commands := od_put (cmd_command_id c) c (request_commands s),
                     request_results := od_put (cmd_command_id c) result (request_results s),
                     request_errors := od_put (cmd_command_id c) error (request_errors s)\<rparr>)) (\<lambda>_.
     ret result))"

definition start_command :: "CommandEnvelope \<Rightarrow> string \<Rightarrow> ('z host_state_scheme, CommandEnvelope) eff" where
  "start_command c message =
     bnd (new_id ''command'') (\<lambda>k.
     bnd clock_now (\<lambda>now.
     bnd (lift (command_metadata
       \<lparr>cmeta_request_id = cmeta_request_id (cmd_metadata c),
        cmeta_idempotency_key = cmeta_idempotency_key (cmd_metadata c) @ '':workflow'',
        cmeta_authorization = cmeta_authorization (cmd_metadata c), cmeta_attempt_number = None,
        cmeta_expires_at = None, cmeta_trace_id = None, cmeta_span_id = None, cmeta_skill_version_id = None,
        cmeta_authoritative_result_id = None, cmeta_workflow_ai_budget_admission = None\<rparr>)) (\<lambda>metadata.
     lift (command_envelope
       \<lparr>cmd_command_id = k, cmd_command_type = ''StartWorkflow'', cmd_command_version = ''1.0'',
        cmd_correlation_id = cmd_correlation_id c, cmd_causation_id = cmd_command_id c,
        cmd_target_component = engine_name, cmd_initiator = manager_name, cmd_timestamp = Aware now,
        cmd_tenant_id = cmd_tenant_id c, cmd_workspace_id = cmd_workspace_id c,
        cmd_payload =
          [(''message'', PStr message), (''workflow_definition_id'', PStr ''hello-aieos''),
           (''workflow_definition_version_id'', PStr ''hello-aieos-v1''),
           (''skill_version_id'', PStr ''hello-aieos-skill-v1''),
           (''max_attempts'', get_or (cmd_payload c) ''max_attempts'' (PInt 2)),
           (''timeout_seconds'', get_or (cmd_payload c) ''timeout_seconds'' (PFloat 1))],
        cmd_metadata = metadata, cmd_workflow_id = None, cmd_workflow_step_id = None, cmd_execution_id = None\<rparr>))))"

definition handoff ::
  "('z host_state_scheme) handler \<Rightarrow> CommandEnvelope \<Rightarrow> string \<Rightarrow> ('z host_state_scheme, ResultEnvelope) eff"
where
  "handoff submit c message =
     bnd (asks (\<lambda>s. map_of (workflow_commands s) (cmd_command_id c))) (\<lambda>started.
     bnd (case started of
            Some start \<Rightarrow> ret start
          | None \<Rightarrow>
              bnd (start_command c message) (\<lambda>start.
              bnd (upd (\<lambda>s. s\<lparr>request_commands := od_put (cmd_command_id c) c (request_commands s),
                              workflow_commands := od_put (cmd_command_id c) start (workflow_commands s)\<rparr>)) (\<lambda>_.
              ret start))) (\<lambda>start.
     bnd (submit start) (\<lambda>acknowledgement.
     bnd (upd (\<lambda>s. s\<lparr>request_commands := od_put (cmd_command_id c) c (request_commands s),
                     request_results := od_put (cmd_command_id c) acknowledgement (request_results s)\<rparr>)) (\<lambda>_.
     case res_value_reference acknowledgement of
       None \<Rightarrow> ret acknowledgement
     | Some w \<Rightarrow>
         bnd (engine_outcome w) (\<lambda>outcome.
         let result = (case outcome of Some x \<Rightarrow> x | None \<Rightarrow> acknowledgement) in
         bnd (upd (\<lambda>s. s\<lparr>request_results := od_put (cmd_command_id c) result (request_results s)\<rparr>)) (\<lambda>_.
         ret result))))))"

definition manager_accept ::
  "('z host_state_scheme) handler \<Rightarrow> CommandEnvelope \<Rightarrow> ('z host_state_scheme, ResultEnvelope) eff"
where
  "manager_accept submit c =
     (if cmd_target_component c \<noteq> manager_name \<or> cmd_command_type c \<noteq> ''AcceptRequest''
      then manager_reject c ''REQUEST_COMMAND_INVALID'' ''unsupported Manager Command'' else
      bnd (permitted (cmeta_authorization (cmd_metadata c)) ''request.accept'' (cmd_tenant_id c) (cmd_workspace_id c))
        (\<lambda>ok.
      if \<not> ok then manager_reject c ''REQUEST_UNAUTHORIZED'' ''Request acceptance denied'' else
      case payload_string (cmd_payload c) ''message'' of
        Inl _ \<Rightarrow> manager_reject c ''REQUEST_PAYLOAD_INVALID'' ''Request message must be a non-empty string''
      | Inr message \<Rightarrow> handoff submit c message))"

definition manager_handle ::
  "('z host_state_scheme) handler \<Rightarrow> CommandEnvelope \<Rightarrow> ('z host_state_scheme, ResultEnvelope) eff"
where
  "manager_handle submit c =
     bnd (asks (\<lambda>s. map_of (request_results s) (cmd_command_id c))) (\<lambda>seen.
     bnd (asks (\<lambda>s. map_of (request_commands s) (cmd_command_id c))) (\<lambda>existing.
     case (seen, existing) of
       (Some result, None) \<Rightarrow> raise (KeyError (cmd_command_id c))
     | (Some result, Some old) \<Rightarrow>
         if \<not> command_eq old c
         then raise (ValueError ''CommandId cannot be reused with changed immutable content'')
         else if res_completed_at result \<noteq> None then ret result
         else manager_accept submit c
     | (None, Some old) \<Rightarrow>
         if \<not> command_eq old c
         then raise (ValueError ''CommandId cannot be reused with changed immutable content'')
         else manager_accept submit c
     | (None, None) \<Rightarrow> manager_accept submit c))"

end
