(* ===== verification/Host_Composition.thy ===== *)
theory Host_Composition
  imports Reference_Components
begin

text \<open>
  \<^verbatim>\<open>apps/api/src/aieos_api/composition.py\<close> for the in-memory runtime: the objects \<^verbatim>\<open>compose\<close> wires
  together and the facade \<^verbatim>\<open>ReferenceRuntime\<close> (\<^verbatim>\<open>database is None\<close>).

  The components call each other in a cycle: a handler dispatches Commands and drains the outbox,
  the drain delivers Events to the Engine, which dispatches again. \<open>host_ports n\<close> is the pair of
  dispatcher and drain with \<open>n\<close> nested calls left; the nested call beyond that raises, as Python's
  recursion limit does (\<^verbatim>\<open>RecursionError\<close> is a \<^verbatim>\<open>RuntimeError\<close>). Theorems hold for every \<open>n\<close>.

  What the event loop decides is a parameter: \<open>hc_wait_for\<close> and \<open>hc_provider_wait\<close> are
  \<^verbatim>\<open>asyncio.wait_for\<close> around a Skill and around a provider call, \<open>hc_wait\<close> the wait for another
  worker's terminal state, \<open>hc_lost\<close> whether the heartbeat has lost the claim.
\<close>

section \<open>Settings and wiring\<close>

record host_config =
  hc_tx :: text_services
  hc_str :: "pyval \<Rightarrow> string"
  hc_repr_parameters :: "(string \<times> string) list \<Rightarrow> string"
  hc_tenant_id :: string
  hc_workspace_id :: string
  hc_timeout_seconds :: rat
  hc_wait_for :: "rat \<Rightarrow> (host_state, SkillOutput) eff \<Rightarrow> (host_state, SkillOutput) eff"
  hc_provider_wait :: "int option \<Rightarrow> (host_state, ProviderResult) eff \<Rightarrow> (host_state, ProviderResult) eff"
  hc_wait :: "string \<Rightarrow> (host_state, unit) eff"
  hc_lost :: "host_state \<Rightarrow> bool"

definition reference_authorization :: "string \<Rightarrow> string \<Rightarrow> AuthorizationContext" where
  "reference_authorization tenant workspace =
     \<lparr>auth_actor_id = ''reference-user'',
      auth_permissions = {''request.accept'', ''workflow.start'', ''workflow.cancel'', ''skill.execute'', ''ai.invoke'',
        ''memory.write'', ''memory.read'', ''result.read''},
      auth_tenant_id = tenant, auth_workspace_id = workspace, auth_policy_id = ''reference-policy'',
      auth_policy_version_id = ''reference-policy-v1''\<rparr>"

definition reference_models :: "ModelCatalogEntry list" where
  "reference_models =
     [\<lparr>mdl_model_key = ''economy-text-v1'', mdl_adapter_key = ''mock-economy'',
       mdl_capabilities = {''text'', ''structured'', ''stream''}, mdl_context_limit = 4096, mdl_max_output = 1024,
       mdl_quality_tier = 1, mdl_latency_tier = 1, mdl_input_cost_per_token = Dec 1 (- 6),
       mdl_output_cost_per_token = Dec 2 (- 6), mdl_pricing_version = ''reference-2026-08'',
       mdl_residencies = {''any''}, mdl_data_handling = {''internal''}, mdl_security_tier = 1, mdl_available = True,
       mdl_healthy = True, mdl_deprecated = False, mdl_cached_input_cost_per_token = None,
       mdl_reasoning_cost_per_token = None\<rparr>,
      \<lparr>mdl_model_key = ''quality-text-v1'', mdl_adapter_key = ''mock-quality'',
       mdl_capabilities = {''text'', ''structured'', ''stream'', ''reasoning''}, mdl_context_limit = 16384,
       mdl_max_output = 4096, mdl_quality_tier = 3, mdl_latency_tier = 2, mdl_input_cost_per_token = Dec 4 (- 6),
       mdl_output_cost_per_token = Dec 8 (- 6), mdl_pricing_version = ''reference-2026-08'',
       mdl_residencies = {''any''}, mdl_data_handling = {''internal''}, mdl_security_tier = 1, mdl_available = True,
       mdl_healthy = True, mdl_deprecated = False, mdl_cached_input_cost_per_token = None,
       mdl_reasoning_cost_per_token = None\<rparr>]"

definition reference_capabilities :: "CapabilityImplementation list" where
  "reference_capabilities =
     [\<lparr>ci_capability_id = ''text-generation'', ci_capability_contract_version_id = ''text-generation-v1'',
       ci_implementation_reference = ''hello-aieos-local'', ci_boundary = ''AI Gateway'',
       ci_prompt_package_ref = None, ci_prompt_package_version_ref = None, ci_output_schema_ref = None\<rparr>,
      \<lparr>ci_capability_id = ''StructuredTaskKindClassification'', ci_capability_contract_version_id = ''1'',
       ci_implementation_reference = ''structured-task-kind-local'', ci_boundary = ''AI Gateway'',
       ci_prompt_package_ref = Some ''structured-task-kind'', ci_prompt_package_version_ref = Some ''v1'',
       ci_output_schema_ref = Some ''structured-task-kind-schema-v1''\<rparr>]"

definition reference_skills :: "SkillDefinition list" where
  "reference_skills =
     [\<lparr>sd_skill_id = ''hello-aieos-skill'', sd_skill_version_id = ''hello-aieos-skill-v1'',
       sd_capability_id = ''text-generation'', sd_capability_contract_version_id = ''text-generation-v1'',
       sd_implementation_reference = ''hello-aieos-local''\<rparr>,
      \<lparr>sd_skill_id = ''structured-task-kind-skill'', sd_skill_version_id = ''structured-task-kind-skill-v1'',
       sd_capability_id = ''StructuredTaskKindClassification'', sd_capability_contract_version_id = ''1'',
       sd_implementation_reference = ''structured-task-kind-local''\<rparr>]"

definition reference_policy_context :: CapabilityPolicyContext where
  "reference_policy_context =
     \<lparr>pc_data_classification = INTERNAL, pc_safety_policy_ref = ''reference-safety-v1'',
      pc_cache_policy_ref = ''no-store'', pc_budget_policy_ref = ''reference-budget-v1'', pc_residency = ''any'',
      pc_required_data_handling = {}, pc_minimum_security_tier = 1\<rparr>"

text \<open>The catalogs as their constructors return them (\<open>catalogs_composed\<close>: none of them raises).\<close>

definition composed :: "exn + ('k, 'v) odict \<Rightarrow> ('k, 'v) odict" where
  "composed r = (case r of Inl _ \<Rightarrow> [] | Inr d \<Rightarrow> d)"

definition host_packages :: prompt_catalog where
  "host_packages = composed (prompt_catalog [STRUCTURED_TASK_KIND_PACKAGE])"

definition host_capabilities :: capability_registry where
  "host_capabilities = composed (capability_registry reference_capabilities)"

definition host_skills :: skill_registry where
  "host_skills = composed (skill_registry reference_skills)"

definition host_gateway :: "host_config \<Rightarrow> host_state gateway_env" where
  "host_gateway cfg =
     \<lparr>ge_tx = hc_tx cfg, ge_catalog = reference_models, ge_packages = Some host_packages,
      ge_adapters = {''mock-economy'', ''mock-quality''},
      ge_invoke = (\<lambda>adapter model prompt r key timeout.
        hc_provider_wait cfg timeout (provider_invoke (hc_tx cfg) None adapter model prompt r (Some key))),
      ge_lost = hc_lost cfg, ge_wait = hc_wait cfg, ge_repr_parameters = hc_repr_parameters cfg,
      ge_execution_lease = 30000000, ge_health_cooldown = 30000000, ge_authority = Some repository_authority\<rparr>"

definition host_invoke :: "host_config \<Rightarrow> AIInvocationRequest \<Rightarrow> (host_state, AIInvocationResponse) eff" where
  "host_invoke cfg = routed_invoke mock_gateway_invoke (gateway_invoke (host_gateway cfg))"

definition host_task_capability :: task_capability where
  "host_task_capability =
     \<lparr>tc_packages = host_packages, tc_authoritative_results = [],
      tc_policy_context = Some reference_policy_context\<rparr>"

definition host_implementations :: "host_config \<Rightarrow> (string, host_state skill) odict" where
  "host_implementations cfg =
     [(''hello-aieos-local'', hello_skill (host_invoke cfg)),
      (''structured-task-kind-local'',
         structured_skill (hc_tx cfg) (hc_str cfg) host_task_capability (host_invoke cfg))]"

definition host_runtime :: "host_config \<Rightarrow> (host_state, nat) eff \<Rightarrow> host_state runtime_env" where
  "host_runtime cfg drained =
     \<lparr>rt_tx = hc_tx cfg, rt_skills = host_skills, rt_capabilities = host_capabilities,
      rt_implementations = host_implementations cfg, rt_authority = Some repository_authority,
      rt_wait_for = hc_wait_for cfg, rt_drain = drained, rt_default_timeout = hc_timeout_seconds cfg\<rparr>"

definition host_engine ::
  "host_config \<Rightarrow> host_state handler \<Rightarrow> (host_state, nat) eff \<Rightarrow> host_state engine_env" where
  "host_engine cfg dispatch drained =
     \<lparr>en_tx = hc_tx cfg, en_dispatch = dispatch, en_drain = drained, en_str = hc_str cfg\<rparr>"

text \<open>\<^verbatim>\<open>dispatcher.register\<close> and \<^verbatim>\<open>event_bus.subscribe\<close>, in the order of the source.\<close>

definition host_routes ::
  "host_config \<Rightarrow> host_state handler \<Rightarrow> (host_state, nat) eff \<Rightarrow> host_state routes" where
  "host_routes cfg dispatch drained = composed (
     ebind (register_target manager_name (manager_handle dispatch) []) (\<lambda>r.
     ebind (register_target engine_name (engine_handle (host_engine cfg dispatch drained)) r) (\<lambda>r.
     register_target runtime_name (runtime_handle (host_runtime cfg drained)) r)))"

definition host_subscriptions ::
  "host_config \<Rightarrow> host_state handler \<Rightarrow> (host_state, nat) eff \<Rightarrow> host_state subscriptions" where
  "host_subscriptions cfg dispatch drained = composed (
     foldl (\<lambda>subs ty. ebind subs (subscribe ty ''workflow-engine'' (engine_consume (host_engine cfg dispatch drained))))
       (Inr []) [''ExecutionAttemptSucceeded'', ''ExecutionAttemptFailed'', ''ExecutionAttemptTimedOut''])"

primrec host_ports :: "host_config \<Rightarrow> nat \<Rightarrow> host_state handler \<times> (host_state, nat) eff" where
  "host_ports cfg 0 =
     (\<lambda>_. raise (RuntimeError ''maximum recursion depth exceeded''),
      raise (RuntimeError ''maximum recursion depth exceeded''))"
| "host_ports cfg (Suc n) =
     (case host_ports cfg n of (dispatch, drained) \<Rightarrow>
        (dispatch_command (host_routes cfg dispatch drained), drain (host_subscriptions cfg dispatch drained)))"

abbreviation host_dispatch :: "host_config \<Rightarrow> nat \<Rightarrow> host_state handler" where
  "host_dispatch cfg n \<equiv> fst (host_ports cfg n)"

abbreviation host_drain :: "host_config \<Rightarrow> nat \<Rightarrow> (host_state, nat) eff" where
  "host_drain cfg n \<equiv> snd (host_ports cfg n)"

section \<open>The state after composition\<close>

definition new_provider :: "string \<Rightarrow> mock_provider" where
  "new_provider prefix = \<lparr>mp_prefix = prefix, mp_transient_failures = 0, mp_calls = 0, mp_prompts = [],
     mp_behaviors = [], mp_effects = []\<rparr>"

definition host_init :: "host_config \<Rightarrow> (nat \<Rightarrow> int) \<Rightarrow> (nat \<Rightarrow> string) \<Rightarrow> int \<Rightarrow> host_state" where
  "host_init cfg clock ids failures =
     runtime_state.extend
       (engine_state.extend
         (gateway_state.extend
           (gateway_init ((messaging_init clock ids)\<lparr>active_policy_versions :=
              Some {policy_key (reference_authorization (hc_tenant_id cfg) (hc_workspace_id cfg))}\<rparr>) (Dec 100 0) None)
           \<lparr>instances = [], command_receipts = [], dispatched = None\<rparr>)
         \<lparr>executions = [], execution_receipts = []\<rparr>)
       \<lparr>mock_failures_remaining = failures, mock_invocations = [],
        providers = [(''mock-economy'', new_provider ''Economy''), (''mock-quality'', new_provider ''Quality'')],
        request_results = [], request_errors = [], request_commands = [], workflow_commands = []\<rparr>"

section \<open>ReferenceRuntime\<close>

definition metadata_of :: "string \<Rightarrow> string \<Rightarrow> AuthorizationContext \<Rightarrow> CommandMetadata" where
  "metadata_of request_id key auth =
     \<lparr>cmeta_request_id = request_id, cmeta_idempotency_key = key, cmeta_authorization = auth,
      cmeta_attempt_number = None, cmeta_expires_at = None, cmeta_trace_id = None, cmeta_span_id = None,
      cmeta_skill_version_id = None, cmeta_authoritative_result_id = None,
      cmeta_workflow_ai_budget_admission = None\<rparr>"

definition given_or_new :: "string option \<Rightarrow> (host_state, string) eff" where
  "given_or_new given = (case given of Some (x # xs) \<Rightarrow> ret (x # xs) | _ \<Rightarrow> new_id ''command'')"

definition build_request_command ::
  "host_config \<Rightarrow> string \<Rightarrow> string option \<Rightarrow> string option \<Rightarrow> int \<Rightarrow> rat option \<Rightarrow> (host_state, CommandEnvelope) eff"
where
  "build_request_command cfg message command_id idempotency_key max_attempts timeout_seconds =
     bnd (new_id ''request'') (\<lambda>request_id.
     bnd (new_id ''decision'') (\<lambda>decision_id.
     bnd (new_id ''correlation'') (\<lambda>correlation_id.
     bnd clock_now (\<lambda>recorded_at.
     bnd (record_decision
       \<lparr>dec_decision_id = decision_id, dec_decision_type = ''DispatchRequest'', dec_component = ''Reference Host'',
        dec_tenant_id = hc_tenant_id cfg, dec_workspace_id = hc_workspace_id cfg, dec_correlation_id = correlation_id,
        dec_recorded_at = Aware recorded_at, dec_triggering_id = None\<rparr>) (\<lambda>_.
     bnd (given_or_new command_id) (\<lambda>k.
     bnd clock_now (\<lambda>now.
     bnd (lift (command_metadata (metadata_of request_id (str_or idempotency_key request_id)
            (reference_authorization (hc_tenant_id cfg) (hc_workspace_id cfg))))) (\<lambda>metadata.
     lift (command_envelope
       \<lparr>cmd_command_id = k, cmd_command_type = ''AcceptRequest'', cmd_command_version = ''1.0'',
        cmd_correlation_id = correlation_id, cmd_causation_id = decision_id, cmd_target_component = manager_name,
        cmd_initiator = ''Reference Host'', cmd_timestamp = Aware now, cmd_tenant_id = hc_tenant_id cfg,
        cmd_workspace_id = hc_workspace_id cfg,
        cmd_payload =
          [(''message'', PStr message), (''max_attempts'', PInt max_attempts),
           (''timeout_seconds'', PFloat (case timeout_seconds of
              None \<Rightarrow> hc_timeout_seconds cfg | Some x \<Rightarrow> if x = 0 then hc_timeout_seconds cfg else x))],
        cmd_metadata = metadata, cmd_workflow_id = None, cmd_workflow_step_id = None, cmd_execution_id = None\<rparr>)))))))))"

definition run_command :: "host_config \<Rightarrow> nat \<Rightarrow> CommandEnvelope \<Rightarrow> (host_state, ResultEnvelope) eff" where
  "run_command cfg n c = host_dispatch cfg n c"

definition run_execution_command :: "host_config \<Rightarrow> nat \<Rightarrow> CommandEnvelope \<Rightarrow> (host_state, ResultEnvelope) eff" where
  "run_execution_command cfg n c =
     (if cmd_target_component c \<noteq> runtime_name
      then raise (ValueError ''execution command must target Skill Runtime'') else host_dispatch cfg n c)"

definition run_workflow_command :: "host_config \<Rightarrow> nat \<Rightarrow> CommandEnvelope \<Rightarrow> (host_state, ResultEnvelope) eff" where
  "run_workflow_command cfg n c =
     (if cmd_target_component c \<noteq> engine_name
      then raise (ValueError ''workflow command must target Workflow Engine'') else host_dispatch cfg n c)"

definition run_message ::
  "host_config \<Rightarrow> nat \<Rightarrow> string \<Rightarrow> string option \<Rightarrow> string option \<Rightarrow> int \<Rightarrow> rat option \<Rightarrow> (host_state, ResultEnvelope) eff"
where
  "run_message cfg n message command_id idempotency_key max_attempts timeout_seconds =
     bnd (build_request_command cfg message command_id idempotency_key max_attempts timeout_seconds) (run_command cfg n)"

definition classify_command ::
  "host_config \<Rightarrow> string \<Rightarrow> string \<Rightarrow> string option \<Rightarrow> (host_state, CommandEnvelope) eff"
where
  "classify_command cfg statement budget_ceiling command_id =
     (let auth = reference_authorization (hc_tenant_id cfg) (hc_workspace_id cfg) in
      bnd (new_id ''request'') (\<lambda>request_id.
      bnd (given_or_new command_id) (\<lambda>k.
      bnd (new_id ''correlation'') (\<lambda>correlation_id.
      bnd clock_now (\<lambda>now.
      bnd (lift (command_metadata (metadata_of request_id request_id auth))) (\<lambda>metadata.
      lift (command_envelope
        \<lparr>cmd_command_id = k, cmd_command_type = ''StartWorkflow'', cmd_command_version = ''2.0'',
         cmd_correlation_id = correlation_id, cmd_causation_id = request_id, cmd_target_component = engine_name,
         cmd_initiator = ''Reference Host'', cmd_timestamp = Aware now, cmd_tenant_id = hc_tenant_id cfg,
         cmd_workspace_id = hc_workspace_id cfg,
         cmd_payload =
           [(''workflow_definition_id'', PStr ''ClassifyAndRouteTask''),
            (''workflow_definition_version_id'', PStr ''classify-and-route-task-v1''),
            (''workflow_kind'', PStr ''ClassifyAndRouteTask''),
            (''skill_version_id'', PStr ''structured-task-kind-skill-v1''),
            (''statement'', PStr statement), (''max_attempts'', PInt 1),
            (''workflow_ai_budget_envelope'', PDict
              [(''ContractVersion'', PInt 1), (''GatewayNormalizedCostUnitRegistryVersion'', PInt 1),
               (''WorkflowDefinitionVersionId'', PStr ''classify-and-route-task-v1''),
               (''PolicyId'', PStr (auth_policy_id auth)), (''PolicyVersionId'', PStr (auth_policy_version_id auth)),
               (''TenantId'', PStr (hc_tenant_id cfg)), (''WorkspaceId'', PStr (hc_workspace_id cfg)),
               (''BudgetCeiling'', PDict [(''Amount'', PStr budget_ceiling), (''CurrencyOrReferenceUnit'', PStr ''USD'')])])],
         cmd_metadata = metadata, cmd_workflow_id = None, cmd_workflow_step_id = None, cmd_execution_id = None\<rparr>)))))))"

definition classify_and_route_task ::
  "host_config \<Rightarrow> nat \<Rightarrow> string \<Rightarrow> string \<Rightarrow> string option \<Rightarrow> (host_state, ResultEnvelope) eff"
where
  "classify_and_route_task cfg n statement budget_ceiling command_id =
     bnd (classify_command cfg statement budget_ceiling command_id) (run_workflow_command cfg n)"

end
