(* ===== verification/Host_Invariants.thy ===== *)
theory Host_Invariants
  imports Host_Composition
begin

text \<open>
  Preservation through the whole composed host.

  \<open>host_order\<close> lists what an order on the state has to accept of the parts: fields outside the core,
  the operations of the outbox, and the handlers of Engine, Skill Runtime and Manager whenever the
  ports they are given respect the order. Dispatcher and drain then respect it at every depth, by
  induction. For an order on the Engine's own core (\<open>core_order\<close>) Skill Runtime and Manager come for
  free. The orders are those of terminal outcomes, of the budget of every Workflow and of the outbox.
\<close>

section \<open>Skills and providers leave the core alone\<close>

text \<open>
  What is assumed of the event loop: waiting for a computation that does not touch the core does
  not touch it either, whether the wait ends with the computation or cancels it half-way.
\<close>

definition host_part ::
  "host_state \<Rightarrow> (string, ExecutionRecord) odict \<times> (string, ExecutionCommandReceipt) odict
     \<times> (string, ResultEnvelope) odict \<times> (string, ErrorEnvelope) odict
     \<times> (string, CommandEnvelope) odict \<times> (string, CommandEnvelope) odict" where
  "host_part s = (executions s, execution_receipts s, request_results s, request_errors s, request_commands s,
     workflow_commands s)"

definition host_keep where
  "host_keep m = host_part (engine_state.extend undefined m)"

lemma host_keep_more: "host_keep (engine_state.more s) = host_part s"
  by (cases s) (simp add: host_keep_def host_part_def engine_state.extend_def)

lemmas core_simps = core_def host_keep_more host_part_def

definition cooperative :: "host_config \<Rightarrow> bool" where
  "cooperative cfg \<longleftrightarrow>
     (\<forall>t m. evolves (same_core host_keep) m \<longrightarrow> evolves (same_core host_keep) (hc_wait_for cfg t m))
     \<and> (\<forall>t m. evolves (same_core host_keep) m \<longrightarrow> evolves (same_core host_keep) (hc_provider_wait cfg t m))
     \<and> (\<forall>i. evolves (same_core host_keep) (hc_wait cfg i))"

lemma cooperativeD:
  assumes "cooperative cfg"
  shows "evolves (same_core host_keep) m \<Longrightarrow> evolves (same_core host_keep) (hc_wait_for cfg t m)"
    "evolves (same_core host_keep) n \<Longrightarrow> evolves (same_core host_keep) (hc_provider_wait cfg t' n)" "evolves (same_core host_keep) (hc_wait cfg i)"
  using assms by (simp_all add: cooperative_def)

lemma provider_frames:
  "evolves (same_core host_keep) (load_provider key)" "evolves (same_core host_keep) (modify_provider key f)"
  "evolves (same_core host_keep) (next_behavior key)" "evolves (same_core host_keep) (remember_effect key effect_key outcome)"
proof -
  show 1: "evolves (same_core host_keep) (load_provider key)" "evolves (same_core host_keep) (modify_provider key f)" for f
    unfolding load_provider_def modify_provider_def
    by (intro offside.rules offside_upd; simp add: core_simps)+
  show "evolves (same_core host_keep) (next_behavior key)"
    unfolding next_behavior_def by (intro offside.rules 1) (auto intro: offside.rules 1 split: list.splits)
  show "evolves (same_core host_keep) (remember_effect key effect_key outcome)"
    unfolding remember_effect_def by (intro offside.rules 1)
qed

lemma invoke_once_frame: "evolves (same_core host_keep) (invoke_once tx key model prompt r effect_key)"
  unfolding invoke_once_def Let_def by (intro offside.rules provider_frames)

lemma mock_gateway_frame: "evolves (same_core host_keep) (mock_gateway_invoke r)"
  unfolding mock_gateway_invoke_def
  by (intro offside.rules offside_services offside_upd) (simp_all add: core_simps)

lemma memory_frame: "evolves (same_core host_keep) (store_memory save_record w)"
  unfolding store_memory_def save_record_def Let_def
  by (intro offside.rules offside_services offside_upd) (simp_all add: core_simps)

lemma hello_frame:
  assumes "\<And>r. evolves (same_core host_keep) (invoke r)"
  shows "evolves (same_core host_keep) (hello_execute invoke i)"
  unfolding hello_execute_def by (intro offside.rules assms memory_frame)

lemma structured_frame:
  assumes "\<And>r. evolves (same_core host_keep) (invoke r)"
  shows "evolves (same_core host_keep) (structured_execute tx str_of tc invoke i)"
  unfolding structured_execute_def by (intro offside.rules assms)

locale cooperative_host =
  fixes cfg :: host_config
  assumes cooperative: "cooperative cfg"

sublocale cooperative_host \<subseteq> gateway: gateway_ports "host_gateway cfg" host_keep
  by unfold_locales
    (auto simp: host_gateway_def provider_invoke_def repository_authority_def
      intro!: invoke_once_frame offside.pure cooperativeD [OF cooperative])

context cooperative_host
begin

lemma host_invoke_frame: "evolves (same_core host_keep) (host_invoke cfg r)"
  unfolding host_invoke_def routed_invoke_def
  by (intro offside.branch mock_gateway_frame gateway.invoke_frame)

lemma skill_frame:
  assumes "map_of (host_implementations cfg) reference = Some impl"
  shows "evolves (same_core host_keep) (hc_wait_for cfg t (sk_execute impl i))"
  using assms hello_frame [OF host_invoke_frame] structured_frame [OF host_invoke_frame]
  by (intro cooperativeD [OF cooperative])
    (auto simp: host_implementations_def hello_skill_def structured_skill_def split: if_splits)

end

section \<open>The Skill Runtime\<close>

context evolution
begin

lemma bind_returned:
  assumes "evolves R m" "\<And>x s t. m s = (Inr x, t) \<Longrightarrow> evolves R (f x)"
  shows "evolves R (bnd m f)"
  unfolding evolves_def
proof
  fix s
  obtain q t where m: "m s = (q, t)" by fastforce
  note 1 = evolvesD [OF assms(1) m]
  show "R s (snd (bnd m f s))"
  proof (cases q)
    case (Inr x)
    have "R t (snd (f x t))" using assms(2) m Inr by (auto simp: evolves_def)
    with 1 m Inr show ?thesis by (auto simp: effect_simps intro: trans)
  qed (use 1 m in \<open>simp add: effect_simps\<close>)
qed

end

lemma repository_reads:
  "evolves (same_core p) (owns_ai_dispatch repository_authority w k x)"
  "evolves (same_core p) (authoritative_ai_admission repository_authority v k x)"
  by (auto simp: repository_authority_def intro: offside.pure)

lemma permitted_frame: "evolves (same_core p) (permitted a perm t ws)"
  by (simp add: evolves_def permitted_state)

text \<open>The Runtime's own records are outside the Engine's core.\<close>

abbreviation own_core :: "'z engine_state_scheme \<Rightarrow> 'z engine_state_scheme \<Rightarrow> bool" where
  "own_core \<equiv> same_core (\<lambda>_. ())"

lemma execution_frames:
  "evolves own_core (add_execution r)" "evolves own_core (load_execution x)" "evolves own_core (modify_execution x f)"
  "evolves own_core (begin_execution_command c result err completed)"
  "evolves own_core (complete_execution_command k)"
  unfolding add_execution_def load_execution_def modify_execution_def begin_execution_command_def
    complete_execution_command_def
  by (intro offside.rules offside_upd; simp add: core_def)+

lemma attempt_frames:
  "evolves (same_core p) (attempt_event c ty result err early)" "evolves (same_core p) (observe_attempt c result)"
  "evolves (same_core p) (end_failed c ctx ack e)" "evolves (same_core p) (end_succeeded env c ctx ack output reused)"
  "evolves (same_core p) (reuse_result env c ctx reference)"
  unfolding attempt_event_def observe_attempt_def end_failed_def end_succeeded_def reuse_result_def
    resolve_authoritative_result_def Let_def
  by (intro offside.rules offside_services)+

lemma open_frame: "evolves own_core (open_attempt c ctx)"
  unfolding open_attempt_def by (intro offside.rules offside_services execution_frames attempt_frames)

lemma checks_frame:
  assumes "rt_authority env = Some repository_authority"
  shows "evolves (same_core p) (attempt_checks env c)" "evolves (same_core p) (engine_owned env c)"
proof -
  show "evolves (same_core p) (attempt_checks env c)"
    unfolding attempt_checks_def skill_checks_def assms
    by (intro offside.rules permitted_frame) (simp add: repository_reads)
  show "evolves (same_core p) (engine_owned env c)"
    by (auto simp: engine_owned_def assms repository_reads split: option.splits intro: offside.pure)
qed

lemma skill_checked:
  assumes "skill_checks env c x w step n s = (Inr (Inr ctx), t)"
  shows "\<exists>reference. map_of (rt_implementations env) reference = Some (ac_implementation ctx)"
  using assms unfolding skill_checks_def implementation_checks_def
  by (elim bnd_InrE)
    (auto simp: effect_simps split: option.splits if_splits sum.splits prod.splits elim!: bnd_InrE)

lemma checks_implementation:
  assumes "attempt_checks env c s = (Inr (Inr ctx), t)"
  shows "\<exists>reference. map_of (rt_implementations env) reference = Some (ac_implementation ctx)"
  using assms unfolding attempt_checks_def
  by (auto simp: ret_def split: option.splits if_splits elim!: bnd_InrE intro: skill_checked)

context cooperative_host
begin

lemma outcome_kept:
  assumes "map_of (host_implementations cfg) reference = Some (ac_implementation ctx)"
  shows "evolves (same_core host_keep) (attempt_outcome (host_runtime cfg drained) c ctx ack)"
proof -
  have "evolves (same_core host_keep) (rt_wait_for (host_runtime cfg drained) t (sk_execute (ac_implementation ctx) i))"
    for t i
    using skill_frame [OF assms] by (simp add: host_runtime_def)
  then show ?thesis
    unfolding attempt_outcome_def call_skill_def Let_def
    by (intro offside.rules offside_services attempt_frames)
qed

end

section \<open>The composed tables\<close>

lemma catalogs_composed:
  "prompt_catalog [STRUCTURED_TASK_KIND_PACKAGE] = Inr host_packages"
  "capability_registry reference_capabilities = Inr host_capabilities"
  "skill_registry reference_skills = Inr host_skills"
  by (simp_all add: host_packages_def host_capabilities_def host_skills_def composed_def prompt_catalog_def
      capability_registry_def skill_registry_def reference_capabilities_def reference_skills_def build_catalog_def
      Let_def dict_of_def)

lemma routes_composed:
  "map_of (host_routes cfg dispatch drained) target =
     (if target = manager_name then Some (manager_handle dispatch)
      else if target = engine_name then Some (engine_handle (host_engine cfg dispatch drained))
      else if target = runtime_name then Some (runtime_handle (host_runtime cfg drained)) else None)"
  by (simp add: host_routes_def composed_def register_target_def manager_name_def engine_name_def runtime_name_def)

lemma subscriptions_composed:
  "registrations (host_subscriptions cfg dispatch drained) ty =
     (if ty \<in> {''ExecutionAttemptSucceeded'', ''ExecutionAttemptFailed'', ''ExecutionAttemptTimedOut''}
      then [(''workflow-engine'', engine_consume (host_engine cfg dispatch drained))] else [])"
  by (simp add: host_subscriptions_def composed_def subscribe_def registrations_def)

section \<open>What an order has to accept\<close>

locale host_order = cooperative_host cfg + evolution R
  for cfg and R :: "host_state \<Rightarrow> host_state \<Rightarrow> bool" +
  assumes frame: "core host_keep t = core host_keep s \<Longrightarrow> R s t"
    and records: "evolves R (outbox_record event)"
    and entries: "(\<And>e. ob_event (f e) = ob_event e) \<Longrightarrow> (\<And>e. ob_published e \<Longrightarrow> ob_published (f e)) \<Longrightarrow>
      evolves R (set_entry k f)"
    and receipts: "evolves R (upd (\<lambda>s. s\<lparr>delivered := insert r (delivered s)\<rparr>))"
    and consumes: "(\<And>c. evolves R (en_dispatch env c)) \<Longrightarrow> evolves R (en_drain env) \<Longrightarrow>
      evolves R (engine_consume env event)"
    and handles: "(\<And>c. evolves R (en_dispatch env c)) \<Longrightarrow> evolves R (en_drain env) \<Longrightarrow>
      evolves R (engine_handle env c)"
    and executes: "evolves R drained \<Longrightarrow> evolves R (runtime_handle (host_runtime cfg drained) c)"
    and accepts: "(\<And>c. evolves R (submit c)) \<Longrightarrow> evolves R (manager_handle submit c)"
begin

text \<open>Delivery\<close>

lemma relayed:
  assumes "\<And>ty name k event. (name, k) \<in> set (registrations subs ty) \<Longrightarrow> evolves R (k event)"
  shows "evolves R (drain subs)"
proof -
  have all: "\<forall>(name, k) \<in> set rs. evolves R (k event) \<Longrightarrow> evolves R (deliver_all event rs)" for event rs
    by (induction rs) (auto intro!: rules receipts simp: deliver_once_def)
  have log: "evolves R (upd (\<lambda>s. if b s then s\<lparr>published_log := f s\<rparr> else s))" for b and f :: "host_state \<Rightarrow> _"
    by (rule evolves_upd, rule frame) (simp add: core_simps)
  have "evolves R (publish_event subs event)" for event
    unfolding publish_event_def by (intro rules log all) (use assms in blast)
  then have "evolves R (relay_one subs event)" for event
    unfolding relay_one_def claim_entry_def mark_published_def release_entry_def
    by (intro rules entries) simp_all
  then have "evolves R (relay_all subs events n)" for events n
    by (induction events arbitrary: n) (auto intro!: rules)
  then show ?thesis unfolding drain_def by (intro rules)
qed

text \<open>Dispatcher and drain, at every depth\<close>

lemma ports_evolve: "(\<forall>c. evolves R (host_dispatch cfg n c)) \<and> evolves R (host_drain cfg n)"
proof (induction n)
  case (Suc n)
  let ?env = "host_engine cfg (host_dispatch cfg n) (host_drain cfg n)"
  have env: "evolves R (en_dispatch ?env c)" "evolves R (en_drain ?env)" for c
    using Suc by (simp_all add: host_engine_def)
  have "evolves R (host_dispatch cfg (Suc n) c)" for c
    using Suc env
    by (auto simp: case_prod_beta dispatch_command_def routes_composed split: option.splits if_splits
        intro!: pure accepts handles executes)
  moreover have "evolves R (host_drain cfg (Suc n))"
    using env by (auto simp: case_prod_beta subscriptions_composed intro!: relayed consumes split: if_splits)
  ultimately show ?case by simp
qed (simp add: pure)

end

section \<open>Orders on the Engine's core\<close>

locale core_order = cooperative_host cfg + evolution R
  for cfg and R :: "host_state \<Rightarrow> host_state \<Rightarrow> bool" +
  assumes core_frame: "own_core s t \<Longrightarrow> R s t"
    and core_records: "evolves R (outbox_record event)"
    and core_entries: "(\<And>e. ob_event (f e) = ob_event e) \<Longrightarrow> (\<And>e. ob_published e \<Longrightarrow> ob_published (f e)) \<Longrightarrow>
      evolves R (set_entry k f)"
    and core_receipts: "evolves R (upd (\<lambda>s. s\<lparr>delivered := insert r (delivered s)\<rparr>))"
    and core_consumes: "(\<And>c. evolves R (en_dispatch env c)) \<Longrightarrow> evolves R (en_drain env) \<Longrightarrow>
      evolves R (engine_consume env event)"
    and core_handles: "(\<And>c. evolves R (en_dispatch env c)) \<Longrightarrow> evolves R (en_drain env) \<Longrightarrow>
      evolves R (engine_handle env c)"
begin

lemma own_evolves: "evolves own_core m \<Longrightarrow> evolves R m"
  by (erule evolves_mono) (rule core_frame)

lemma kept_evolves: "evolves (same_core host_keep) m \<Longrightarrow> evolves R m"
  by (erule evolves_mono) (rule core_frame, simp add: core_def)

lemmas own_rules = offside_services execution_frames attempt_frames open_frame permitted_frame

lemmas basic = rules core_records own_rules [THEN own_evolves]

lemma published: "evolves R drained \<Longrightarrow> evolves R (publish_attempt (host_runtime cfg drained) event)"
  unfolding publish_attempt_def by (intro basic) (simp add: host_runtime_def)

lemma rejected:
  assumes "evolves R drained"
  shows "evolves R (runtime_reject (host_runtime cfg drained) c reason)"
  unfolding runtime_reject_def record_rejection_def
  by (intro basic published assms checks_frame [THEN own_evolves]) (simp add: host_runtime_def)

lemma attempt_run:
  assumes "evolves R drained" "map_of (host_implementations cfg) reference = Some (ac_implementation ctx)"
  shows "evolves R (run_attempt (host_runtime cfg drained) c ctx ack)"
  unfolding run_attempt_def finish_attempt_def
  by (intro basic published outcome_kept [OF assms(2), THEN kept_evolves] assms(1))

lemma runtime_handled:
  assumes "evolves R drained"
  shows "evolves R (runtime_handle (host_runtime cfg drained) c)"
proof -
  let ?env = "host_runtime cfg drained"
  have env: "rt_authority ?env = Some repository_authority" "rt_implementations ?env = host_implementations cfg"
    by (simp_all add: host_runtime_def)
  have checked: "evolves R (bnd (attempt_checks ?env c) (\<lambda>checked. case checked of
      Inl reason \<Rightarrow> runtime_reject ?env c reason | Inr ctx \<Rightarrow> go ctx))"
    if "\<And>ctx. (\<And>ack. evolves R (run_attempt ?env c ctx ack)) \<Longrightarrow> evolves R (go ctx)" for go
  proof (intro bind_returned checks_frame [THEN own_evolves] env)
    fix checked s t
    assume checked: "attempt_checks ?env c s = (Inr checked, t)"
    show "evolves R (case checked of Inl reason \<Rightarrow> runtime_reject ?env c reason | Inr ctx \<Rightarrow> go ctx)"
    proof (cases checked)
      case (Inr ctx)
      then obtain reference where "map_of (host_implementations cfg) reference = Some (ac_implementation ctx)"
        using checks_implementation checked env by metis
      from attempt_run [OF assms this] Inr that show ?thesis by simp
    qed (simp add: rejected assms)
  qed
  show ?thesis
    unfolding runtime_handle_def
    by (rule bind [OF pure(3)], intro branch(1,2) pure checked) (auto intro: basic)
qed

text \<open>The Manager\<close>

lemma manager_handled:
  assumes "\<And>c. evolves R (submit c)"
  shows "evolves R (manager_handle submit c)"
proof -
  have writes: "evolves R (upd f)" if "\<And>s. own_core s (f s)" for f :: "host_state \<Rightarrow> host_state"
    using that by (auto intro!: evolves_upd core_frame)
  have "evolves R (manager_reject c code message)" for code message
    unfolding manager_reject_def by (intro basic writes) (simp add: core_def)
  moreover have "evolves R (start_command c message)" for message
    unfolding start_command_def by (intro basic)
  then have "evolves R (handoff submit c message)" for message
    unfolding handoff_def engine_outcome_def Let_def by (intro basic writes assms) (simp_all add: core_def)
  ultimately have "evolves R (manager_accept submit c)"
    unfolding manager_accept_def by (intro basic)
  then show ?thesis unfolding manager_handle_def by (intro basic)
qed

end

sublocale core_order \<subseteq> host_order cfg R
  by unfold_locales
    (auto intro: core_frame core_records core_entries core_receipts core_consumes core_handles runtime_handled
      manager_handled simp: core_def)

section \<open>Terminal outcomes, budgets and the outbox\<close>

definition outbox_le :: "'z messaging_scheme \<Rightarrow> 'z messaging_scheme \<Rightarrow> bool" where
  "outbox_le s t \<longleftrightarrow> outbox_ok s \<longrightarrow> outbox_ok t \<and> extends s t"

lemma grows_evolves: "grows m \<longleftrightarrow> evolves outbox_le m"
  by (simp add: grows_def evolves_def outbox_le_def)

lemma outbox_le_frame: "outbox_entries t = outbox_entries s \<Longrightarrow> delivered t = delivered s \<Longrightarrow> outbox_le s t"
  by (auto simp: outbox_le_def outbox_ok_def extends_def)

interpretation outbox: evolution outbox_le
  by unfold_locales (auto simp: outbox_le_def intro: extends_trans)

text \<open>The Engine's writes to its repository are outside the outbox.\<close>

locale outbox_ports =
  fixes env :: "('z engine_state_scheme) engine_env"
  assumes dispatch_grows: "grows (en_dispatch env c)"
    and drain_grows: "grows (en_drain env)"

lemma repository_outside:
  "evolves outbox_le (modify_instance w f)" "evolves outbox_le (add_instance v)"
  "evolves outbox_le (upd (\<lambda>s. s\<lparr>command_receipts := g s\<rparr>))" "evolves outbox_le (settle_receipts w result err)"
  by (auto simp: evolves_def repository_apply add_instance_def settle_receipts_def effect_simps
      intro!: outbox_le_frame split: option.splits)

lemma outbox_offside: "evolves (same_core id) m \<Longrightarrow> evolves outbox_le m"
  by (erule evolves_mono) (rule outbox_le_frame; simp add: core_def)

lemma attempt_outside: "evolves outbox_le (create_attempt_command env w k)"
  unfolding create_attempt_command_def check_admission_def commit_admission_def attempt_envelope_def Let_def
  by (intro outbox.rules offside_services [THEN outbox_offside] permitted_frame [THEN outbox_offside]
      repository_outside)

sublocale outbox_ports \<subseteq> outbox: engine_order outbox_le UNIV UNIV env
  by unfold_locales
    (auto simp: core_def dispatch_grows [unfolded grows_evolves] drain_grows [unfolded grows_evolves]
      grows_record [unfolded grows_evolves] intro: outbox_le_frame repository_outside attempt_outside)

context outbox_ports
begin

lemma engine_grows: "evolves outbox_le (engine_consume env event)" "evolves outbox_le (engine_handle env c)"
  by (simp_all add: outbox.consumed outbox.handled)

end

context budget_ports
begin

lemma engine_budgeted: "evolves budget_le (engine_consume env event)" "evolves budget_le (engine_handle env c)"
  by (simp_all add: budget.consumed budget.handled)

end

text \<open>Outbox writes as the other two orders see them.\<close>

lemma entry_outside:
  "evolves (engine_le_but X K) (set_entry k f)"
  "evolves (engine_le_but X K) (upd (\<lambda>s. s\<lparr>delivered := g s\<rparr>))"
  by (auto simp: evolves_def set_entry_def effect_simps intro!: engine_le_frame split: option.splits)

lemma budget_outside:
  "evolves budget_le (outbox_record event)" "evolves budget_le (set_entry k f)"
  "evolves budget_le (upd (\<lambda>s. s\<lparr>delivered := g s\<rparr>))"
  by (auto simp: evolves_def outbox_record_def set_entry_def budgeted_def effect_simps split: option.splits)

lemma grows_entry_outside:
  "(\<And>e. ob_event (f e) = ob_event e) \<Longrightarrow> (\<And>e. ob_published e \<Longrightarrow> ob_published (f e)) \<Longrightarrow>
   evolves outbox_le (set_entry k f)"
  by (simp add: grows_evolves [symmetric] grows_set_entry)

sublocale cooperative_host \<subseteq> outcomes: core_order cfg engine_le
  by unfold_locales
    (auto simp: core_def intro: engine_le_frame engine_le_trans outbox_outside entry_outside
      outcome_ports.consume_le outcome_ports.handle_le outcome_ports.intro)

sublocale cooperative_host \<subseteq> budgets: core_order cfg budget_le
proof unfold_locales
  fix s t :: host_state
  assume "own_core s t"
  then show "budget_le s t" by (simp add: core_def budgeted_def)
next
  fix env :: "host_state engine_env" and event c
  assume "\<And>c. evolves budget_le (en_dispatch env c)" "evolves budget_le (en_drain env)"
  then have "budget_ports env" by (intro budget_ports.intro) (simp_all add: keeps_evolves)
  then show "evolves budget_le (engine_consume env event)" "evolves budget_le (engine_handle env c)"
    by (rule budget_ports.engine_budgeted)+
qed (rule budget_outside | blast)+

sublocale cooperative_host \<subseteq> deliveries: core_order cfg outbox_le
  by unfold_locales
    (auto simp: core_def intro: outbox_le_frame grows_entry_outside
      grows_record [unfolded grows_evolves] grows_receipt [unfolded grows_evolves]
      outbox_ports.engine_grows [OF outbox_ports.intro, unfolded grows_evolves])

end
