(* ===== verification/Host_Records.thy ===== *)
theory Host_Records
  imports Host_Invariants
begin

text \<open>
  The records above the Engine are final too: along whatever the composed host does, an execution
  that has its Result keeps Result, state and Error, a completed execution Command keeps its receipt,
  and a Request whose Result is complete keeps it. The order is \<open>records_le\<close>; a handler may write the
  records of the one Command it handles, so it is first respected with that Command exempted.
\<close>

section \<open>The order\<close>

definition same_execution :: "ExecutionRecord \<Rightarrow> ExecutionRecord \<Rightarrow> bool" where
  "same_execution r r' \<longleftrightarrow>
     er_execution_id r' = er_execution_id r \<and> er_workflow_id r' = er_workflow_id r
     \<and> er_workflow_step_id r' = er_workflow_step_id r \<and> er_attempt_number r' = er_attempt_number r
     \<and> er_tenant_id r' = er_tenant_id r \<and> er_workspace_id r' = er_workspace_id r
     \<and> er_acknowledgement r' = er_acknowledgement r \<and> er_start_event r' = er_start_event r"

definition same_ending :: "ExecutionRecord \<Rightarrow> ExecutionRecord \<Rightarrow> bool" where
  "same_ending r r' \<longleftrightarrow> er_result r' = er_result r \<and> er_state r' = er_state r \<and> er_error r' = er_error r"

definition records_le_but :: "string set \<Rightarrow> string set \<Rightarrow> string set \<Rightarrow> host_state \<Rightarrow> host_state \<Rightarrow> bool" where
  "records_le_but E K M s t \<longleftrightarrow>
     (\<forall>x r. map_of (executions s) x = Some r \<longrightarrow>
        (\<exists>r'. map_of (executions t) x = Some r' \<and> same_execution r r'
            \<and> (x \<notin> E \<and> er_result r \<noteq> None \<longrightarrow> same_ending r r')))
     \<and> (\<forall>k r. map_of (execution_receipts s) k = Some r \<and> xr_completed r \<and> k \<notin> K \<longrightarrow>
          map_of (execution_receipts t) k = Some r)
     \<and> (\<forall>k r. map_of (request_results s) k = Some r \<and> res_completed_at r \<noteq> None \<and> k \<notin> M \<longrightarrow>
          map_of (request_results t) k = Some r
          \<and> map_of (request_commands t) k = map_of (request_commands s) k)"

abbreviation records_le :: "host_state \<Rightarrow> host_state \<Rightarrow> bool" where
  "records_le \<equiv> records_le_but {} {} {}"

lemma same_execution_order [simp]:
  "same_execution r r" "same_execution q r \<Longrightarrow> same_execution r u \<Longrightarrow> same_execution q u"
  by (auto simp: same_execution_def)

lemma same_ending_order [simp]:
  "same_ending r r" "same_ending q r \<Longrightarrow> same_ending r u \<Longrightarrow> same_ending q u"
  by (auto simp: same_ending_def)

lemma records_le_frame: "host_part t = host_part s \<Longrightarrow> records_le_but E K M s t"
  by (auto simp: records_le_but_def host_part_def)

lemma records_le_trans:
  assumes "records_le_but E K M s t" "records_le_but E K M t u"
  shows "records_le_but E K M s u"
proof -
  { fix x r
    assume "map_of (executions s) x = Some r"
    with assms(1) obtain r1 where 1: "map_of (executions t) x = Some r1" "same_execution r r1"
      "x \<notin> E \<and> er_result r \<noteq> None \<longrightarrow> same_ending r r1" unfolding records_le_but_def by blast
    with assms(2) obtain r2 where 2: "map_of (executions u) x = Some r2" "same_execution r1 r2"
      "x \<notin> E \<and> er_result r1 \<noteq> None \<longrightarrow> same_ending r1 r2" unfolding records_le_but_def by blast
    from 1 2 have "\<exists>r2. map_of (executions u) x = Some r2 \<and> same_execution r r2
        \<and> (x \<notin> E \<and> er_result r \<noteq> None \<longrightarrow> same_ending r r2)"
      by (metis same_ending_def same_ending_order(2) same_execution_order(2)) }
  moreover have "map_of (request_results u) k = Some r \<and> map_of (request_commands u) k = map_of (request_commands s) k"
    if "map_of (request_results s) k = Some r" "res_completed_at r \<noteq> None" "k \<notin> M" for k r
    using assms that unfolding records_le_but_def by metis
  moreover have "map_of (execution_receipts u) k = Some r"
    if "map_of (execution_receipts s) k = Some r" "xr_completed r" "k \<notin> K" for k r
    using assms that unfolding records_le_but_def by blast
  ultimately show ?thesis unfolding records_le_but_def by blast
qed

interpretation records: evolution "records_le_but E K M" for E K M
  by unfold_locales (simp add: records_le_frame, erule (1) records_le_trans)

lemma records_le_weaken: "records_le s t \<Longrightarrow> records_le_but E K M s t"
  unfolding records_le_but_def by fast

lemma records_le_exempt:
  assumes "records_le_but E K M s t"
    and "\<And>x r. x \<in> E \<Longrightarrow> map_of (executions s) x = Some r \<Longrightarrow> er_result r = None"
    and "\<And>k r. k \<in> K \<Longrightarrow> k \<notin> K' \<Longrightarrow> map_of (execution_receipts s) k = Some r \<Longrightarrow> \<not> xr_completed r"
    and "\<And>k r. k \<in> M \<Longrightarrow> k \<notin> M' \<Longrightarrow> map_of (request_results s) k = Some r \<Longrightarrow> res_completed_at r = None"
  shows "records_le_but {} K' M' s t"
proof -
  have "\<exists>r'. map_of (executions t) x = Some r' \<and> same_execution r r' \<and> (er_result r \<noteq> None \<longrightarrow> same_ending r r')"
    if "map_of (executions s) x = Some r" for x r
    using assms(1) assms(2) [of x r] that unfolding records_le_but_def by metis
  moreover have "map_of (execution_receipts t) k = Some r"
    if "map_of (execution_receipts s) k = Some r" "xr_completed r" "k \<notin> K'" for k r
    using assms(1) assms(3) [of k r] that unfolding records_le_but_def by blast
  moreover have "map_of (request_results t) k = Some r \<and> map_of (request_commands t) k = map_of (request_commands s) k"
    if "map_of (request_results s) k = Some r" "res_completed_at r \<noteq> None" "k \<notin> M'" for k r
    using assms(1) assms(4) [of k r] that unfolding records_le_but_def by blast
  ultimately show ?thesis unfolding records_le_but_def by blast
qed

lemma unless_completed:
  assumes "evolves (records_le_but {} {k} {}) m"
    and "\<And>s r. map_of (execution_receipts s) k = Some r \<Longrightarrow> xr_completed r \<Longrightarrow> records_le s (snd (m s))"
  shows "evolves records_le m"
  unfolding evolves_def
proof
  fix s
  show "records_le s (snd (m s))"
  proof (cases "\<exists>r. map_of (execution_receipts s) k = Some r \<and> xr_completed r")
    case False
    show ?thesis
      by (rule records_le_exempt [where E = "{}" and K = "{k}" and M = "{}"])
        (use assms(1) False in \<open>auto simp: evolves_def\<close>)
  qed (use assms(2) in blast)
qed

lemma unless_answered:
  assumes "evolves (records_le_but {} {} {k}) m"
    and "\<And>s r. map_of (request_results s) k = Some r \<Longrightarrow> res_completed_at r \<noteq> None \<Longrightarrow> records_le s (snd (m s))"
  shows "evolves records_le m"
  unfolding evolves_def
proof
  fix s
  show "records_le s (snd (m s))"
  proof (cases "\<exists>r. map_of (request_results s) k = Some r \<and> res_completed_at r \<noteq> None")
    case False
    show ?thesis
      by (rule records_le_exempt [where E = "{}" and K = "{}" and M = "{k}"])
        (use assms(1) False in \<open>auto simp: evolves_def\<close>)
  qed (use assms(2) in blast)
qed

section \<open>Writes\<close>

lemma records_kept: "evolves (same_core host_keep) m \<Longrightarrow> evolves (records_le_but E K M) m"
  by (erule evolves_mono) (rule records_le_frame, simp add: core_def host_keep_more)

lemmas records_services = offside_services [THEN records_kept] permitted_frame [THEN records_kept]

lemma execution_writes:
  "evolves (records_le_but E K M) (add_execution r)" "evolves (records_le_but E K M) (load_execution x)"
  "evolves (records_le_but E K M) (complete_execution_command k)"
  "cmd_command_id c \<in> K \<Longrightarrow> evolves (records_le_but E K M) (begin_execution_command c result err completed)"
  by (auto simp: evolves_def add_execution_def load_execution_def complete_execution_command_def
      begin_execution_command_def effect_simps records_le_but_def split: option.splits)

lemma execution_modified:
  assumes "\<And>r. same_execution r (f r)" "\<And>r. x \<notin> E \<Longrightarrow> same_ending r (f r)"
  shows "evolves (records_le_but E K M) (modify_execution x f)"
  using assms
  by (auto simp: evolves_def modify_execution_def load_execution_def effect_simps records_le_but_def split: option.splits)

lemma request_writes:
  assumes "\<And>s. executions (f s) = executions s \<and> execution_receipts (f s) = execution_receipts s"
    "\<And>s k. k \<notin> M \<Longrightarrow> map_of (request_results (f s)) k = map_of (request_results s) k
       \<and> map_of (request_commands (f s)) k = map_of (request_commands s) k"
  shows "evolves (records_le_but E K M) (upd f)"
  by (rule evolves_upd) (use assms in \<open>auto simp: records_le_but_def\<close>)

lemma messaging_writes:
  "evolves (records_le_but E K M) (outbox_record event)" "evolves (records_le_but E K M) (set_entry k f)"
  "evolves (records_le_but E K M) (upd (\<lambda>s. s\<lparr>delivered := g s\<rparr>))"
  by (auto simp: evolves_def outbox_record_def set_entry_def effect_simps host_part_def
      intro!: records_le_frame split: option.splits)

section \<open>The Engine does not write these records\<close>

locale record_ports =
  fixes env :: "host_state engine_env"
  assumes dispatch_keeps: "evolves records_le (en_dispatch env c)"
    and drain_keeps: "evolves records_le (en_drain env)"

lemma engine_writes:
  "evolves (records_le_but E K M) (modify_instance w f)" "evolves (records_le_but E K M) (add_instance v)"
  "evolves (records_le_but E K M) (upd (\<lambda>s. s\<lparr>command_receipts := g s\<rparr>))"
  "evolves (records_le_but E K M) (settle_receipts w result err)"
  by (auto simp: evolves_def repository_apply add_instance_def settle_receipts_def effect_simps host_part_def
      intro!: records_le_frame split: option.splits)

lemma attempt_writes: "evolves (records_le_but E K M) (create_attempt_command env w k)"
  unfolding create_attempt_command_def check_admission_def commit_admission_def attempt_envelope_def Let_def
  by (intro records.rules records_services engine_writes)

lemma finest_core: "core id t = core id s \<Longrightarrow> records_le_but E K M s t"
  by (rule records_le_frame) (metis core_def host_keep_more id_apply prod.inject)

sublocale record_ports \<subseteq> recorded: engine_order records_le UNIV UNIV env
  by unfold_locales
    (auto intro: finest_core messaging_writes engine_writes attempt_writes dispatch_keeps drain_keeps)

context record_ports
begin

lemma engine_records: "evolves records_le (engine_consume env event)" "evolves records_le (engine_handle env c)"
  by (simp_all add: recorded.consumed recorded.handled)

end

section \<open>The Skill Runtime\<close>

context evolution
begin

lemma bind_at:
  assumes "R s (snd (m s))" "\<And>x t. m s = (Inr x, t) \<Longrightarrow> R t (snd (f x t))"
  shows "R s (snd (bnd m f s))"
proof (cases "m s")
  case (Pair q t)
  with assms show ?thesis by (cases q) (auto simp: effect_simps intro: trans)
qed

end

context cooperative_host
begin

lemma runtime_publishes:
  "evolves records_le drained \<Longrightarrow> evolves (records_le_but E K M) (publish_attempt (host_runtime cfg drained) event)"
  unfolding publish_attempt_def
  by (intro records.rules messaging_writes) (auto simp: host_runtime_def elim: evolves_mono records_le_weaken)

lemma runtime_rejects:
  assumes "evolves records_le drained"
  shows "evolves (records_le_but {} {cmd_command_id c} {}) (runtime_reject (host_runtime cfg drained) c reason)"
  unfolding runtime_reject_def record_rejection_def
  by (intro records.rules records_services execution_writes execution_modified runtime_publishes assms
      attempt_frames [THEN records_kept] checks_frame [THEN records_kept])
    (simp_all add: host_runtime_def same_execution_def same_ending_def)

lemma runtime_finishes:
  assumes "evolves records_le drained" "\<And>r. map_of (executions s) x = Some r \<Longrightarrow> er_result r = None"
  shows "records_le_but {} K M s (snd (finish_attempt (host_runtime cfg drained) c x ending s))"
proof -
  have "evolves (records_le_but {x} K M) (finish_attempt (host_runtime cfg drained) c x ending)"
    unfolding finish_attempt_def
    by (intro records.rules execution_writes execution_modified runtime_publishes assms(1)
        attempt_frames [THEN records_kept]) (simp_all add: same_execution_def)
  then show ?thesis
    by (intro records_le_exempt [where E = "{x}" and K = K and M = M]) (use assms(2) in \<open>auto simp: evolves_def\<close>)
qed

lemma load_then:
  "bnd (load_execution x) f s = (case map_of (executions s) x of None \<Rightarrow> (Inl (KeyError x), s) | Some r \<Rightarrow> f r s)"
  by (simp add: load_execution_def effect_simps split: option.splits)

lemma runtime_runs:
  assumes "evolves records_le drained" "map_of (host_implementations cfg) reference = Some (ac_implementation ctx)"
  shows "evolves (records_le_but {} K M) (run_attempt (host_runtime cfg drained) c ctx ack)"
proof -
  let ?env = "host_runtime cfg drained" and ?x = "ac_execution_id ctx"
  note publishes = runtime_publishes [OF assms(1)]
  have "records_le_but {} K M s (snd (bnd (load_execution ?x) (\<lambda>r.
      if er_result r \<noteq> None
      then case er_terminal_event r of
             None \<Rightarrow> raise AssertionError
           | Some event \<Rightarrow> bnd (publish_attempt ?env event) (\<lambda>_. complete_execution_command (cmd_command_id c))
      else bnd (attempt_outcome ?env c ctx ack) (finish_attempt ?env c ?x)) s))" (is "?le s (snd (?tail s))") for s
  proof (cases "\<exists>r. map_of (executions s) ?x = Some r \<and> er_result r = None")
    case True
    then obtain r where r: "map_of (executions s) ?x = Some r" "er_result r = None" by blast
    note skill = outcome_kept [OF assms(2), of drained c ack]
    have "records_le_but {} K M s (snd (bnd (attempt_outcome ?env c ctx ack) (finish_attempt ?env c ?x) s))"
    proof (rule records.bind_at)
      show "records_le_but {} K M s (snd (attempt_outcome ?env c ctx ack s))"
        using records_kept [OF skill] by (simp add: evolves_def)
      fix ending t
      assume "attempt_outcome ?env c ctx ack s = (Inr ending, t)"
      from evolvesD [OF skill this] have "executions t = executions s" by (simp add: core_simps)
      with r show "records_le_but {} K M t (snd (finish_attempt ?env c ?x ending t))"
        by (intro runtime_finishes assms(1)) simp
    qed
    with r show ?thesis by (simp add: load_then)
  next
    case False
    have "evolves (records_le_but {} K M) (case er_terminal_event r of None \<Rightarrow> raise AssertionError
        | Some event \<Rightarrow> bnd (publish_attempt ?env event) (\<lambda>_. complete_execution_command (cmd_command_id c)))" for r
      by (intro records.rules publishes execution_writes)
    note replay = this [unfolded evolves_def, rule_format]
    show ?thesis
    proof (cases "map_of (executions s) ?x")
      case (Some a)
      with False have "er_result a \<noteq> None" by simp
      with Some replay [of s a] show ?thesis by (simp only: load_then option.case if_True not_False_eq_True)
    qed (simp add: load_then records_le_frame)
  qed
  then have tail: "evolves (records_le_but {} K M) ?tail" unfolding evolves_def by blast
  show ?thesis
    unfolding run_attempt_def
    by (rule records.bind, rule execution_writes, intro records.branch records.pure, rule records.bind,
        rule publishes, rule tail)
qed

lemma runtime_opens: "cmd_command_id c \<in> K \<Longrightarrow> evolves (records_le_but E K M) (open_attempt c ctx)"
  unfolding open_attempt_def
  by (intro records.rules records_services execution_writes attempt_frames [THEN records_kept])

lemma runtime_records:
  assumes "evolves records_le drained"
  shows "evolves records_le (runtime_handle (host_runtime cfg drained) c)"
proof -
  let ?env = "host_runtime cfg drained" and ?le = "records_le_but {} {cmd_command_id c} {}"
  have env: "rt_authority ?env = Some repository_authority" "rt_implementations ?env = host_implementations cfg"
    by (simp_all add: host_runtime_def)
  have checked: "evolves ?le (bnd (attempt_checks ?env c) (\<lambda>checked. case checked of
      Inl reason \<Rightarrow> runtime_reject ?env c reason | Inr ctx \<Rightarrow> go ctx))"
    if "\<And>ctx. (\<And>ack. evolves ?le (run_attempt ?env c ctx ack)) \<Longrightarrow> evolves ?le (go ctx)" for go
  proof (intro records.bind_returned checks_frame [THEN records_kept] env)
    fix checked s t
    assume checked: "attempt_checks ?env c s = (Inr checked, t)"
    show "evolves ?le (case checked of Inl reason \<Rightarrow> runtime_reject ?env c reason | Inr ctx \<Rightarrow> go ctx)"
    proof (cases checked)
      case (Inr ctx)
      then obtain reference where "map_of (host_implementations cfg) reference = Some (ac_implementation ctx)"
        using checks_implementation checked env by metis
      from runtime_runs [OF assms this] Inr that show ?thesis by simp
    qed (simp add: runtime_rejects assms)
  qed
  have "evolves ?le (runtime_handle ?env c)"
    unfolding runtime_handle_def
    by (rule records.bind [OF records.pure(3)], intro records.branch(1,2) records.pure checked)
      (auto intro: records.bind runtime_opens)
  then show ?thesis
    by (rule unless_completed) (simp add: runtime_handle_def effect_simps records_le_frame)
qed

end

section \<open>The Manager\<close>

lemma manager_records:
  assumes "\<And>c. evolves records_le (submit c)"
  shows "evolves records_le (manager_handle submit c)"
proof -
  let ?le = "records_le_but {} {} {cmd_command_id c}"
  have submits: "evolves ?le (submit start)" for start
    using assms by (rule evolves_mono) (rule records_le_weaken)
  have "evolves ?le (manager_reject c code message)" for code message
    unfolding manager_reject_def by (intro records.rules records_services request_writes) auto
  moreover have "evolves ?le (start_command c message)" for message
    unfolding start_command_def by (intro records.rules records_services)
  then have "evolves ?le (handoff submit c message)" for message
    unfolding handoff_def engine_outcome_def Let_def
    by (intro records.rules records_services submits request_writes) auto
  ultimately have "evolves ?le (manager_accept submit c)"
    unfolding manager_accept_def by (intro records.rules records_services)
  then have "evolves ?le (manager_handle submit c)"
    unfolding manager_handle_def by (intro records.rules)
  then show ?thesis
    by (rule unless_answered) (simp add: manager_handle_def effect_simps records_le_frame split: option.splits)
qed

sublocale cooperative_host \<subseteq> records: host_order cfg records_le
proof unfold_locales
  fix env :: "host_state engine_env" and event c
  assume "\<And>c. evolves records_le (en_dispatch env c)" "evolves records_le (en_drain env)"
  then have "record_ports env" by (rule record_ports.intro)
  then show "evolves records_le (engine_consume env event)" "evolves records_le (engine_handle env c)"
    by (rule record_ports.engine_records)+
qed (auto intro: messaging_writes runtime_records manager_records records_le_frame simp: core_def host_keep_more)

end
