(* ===== verification/Host_Properties.thy ===== *)
theory Host_Properties
  imports Host_Records
begin

text \<open>
  What holds along any run of the composed host. A run is any sequence of the steps the host can
  take (\<open>host_step\<close>): a Command dispatched with any recursion limit, a drain, the recovery of outbox
  claims, the construction of a request Command and the revocation of a policy version, each
  ending normally or with an exception.
\<close>

section \<open>Runs\<close>

inductive host_step :: "host_config \<Rightarrow> host_state \<Rightarrow> host_state \<Rightarrow> bool" for cfg where
  dispatched: "host_dispatch cfg n c s = (r, t) \<Longrightarrow> host_step cfg s t"
| drained: "host_drain cfg n s = (r, t) \<Longrightarrow> host_step cfg s t"
| recovered: "recover_unpublished_claims s = (r, t) \<Longrightarrow> host_step cfg s t"
| requested: "build_request_command cfg m k i n x s = (r, t) \<Longrightarrow> host_step cfg s t"
| classifying: "classify_command cfg st b k s = (r, t) \<Longrightarrow> host_step cfg s t"
| revoked: "revoke a s = (r, t) \<Longrightarrow> host_step cfg s t"

inductive_simps host_step_iff: "host_step cfg s t"

abbreviation host_run :: "host_config \<Rightarrow> host_state \<Rightarrow> host_state \<Rightarrow> bool" where
  "host_run cfg \<equiv> (host_step cfg)\<^sup>*\<^sup>*"

lemma builders_kept:
  "evolves (same_core host_keep) (build_request_command cfg m k i n x)"
  "evolves (same_core host_keep) (classify_command cfg st b k)" "evolves (same_core host_keep) (revoke a)"
proof -
  have command: "evolves (same_core host_keep) (given_or_new k)"
    unfolding given_or_new_def by (auto intro: offside_services offside.pure split: option.splits list.splits)
  show "evolves (same_core host_keep) (build_request_command cfg m k i n x)"
    "evolves (same_core host_keep) (classify_command cfg st b k)"
    unfolding build_request_command_def classify_command_def Let_def
    by (intro offside.rules offside_services command)+
  show "evolves (same_core host_keep) (revoke a)"
    unfolding revoke_def by (rule offside_upd) (simp add: core_simps)
qed

context host_order
begin

lemma step_ordered:
  assumes "host_step cfg s t" "evolves R recover_unpublished_claims"
  shows "R s t"
  using assms(1)
proof cases
  case (recovered r)
  with assms(2) show ?thesis by (rule evolvesD)
qed (use ports_evolve builders_kept [THEN evolves_mono, of R] frame in \<open>blast dest: evolvesD\<close>)+

lemma run_ordered: "host_run cfg s t \<Longrightarrow> evolves R recover_unpublished_claims \<Longrightarrow> R s t"
  by (induction rule: rtranclp_induct) (auto intro: refl trans step_ordered)

end

lemma recovery_orders:
  "evolves engine_le recover_unpublished_claims" "evolves records_le recover_unpublished_claims"
  "evolves budget_le recover_unpublished_claims" "evolves outbox_le recover_unpublished_claims"
proof -
  show "evolves outbox_le (recover_unpublished_claims :: ('z messaging_scheme, unit) eff)"
    unfolding evolves_def outbox_le_def outbox_ok_def extends_def recover_unpublished_claims_def eff_apply
    by (auto simp: map_of_map comp_def case_prod_beta)
qed (auto simp: evolves_def recover_unpublished_claims_def effect_simps engine_le_frame records_le_frame host_part_def
    budgeted_def)

sublocale cooperative_host \<subseteq> bus: event_consumers "host_subscriptions cfg (host_dispatch cfg n) (host_drain cfg n)" for n
proof
  fix name k ty event
  assume "(name, k) \<in> set (registrations (host_subscriptions cfg (host_dispatch cfg n) (host_drain cfg n)) ty)"
  then have "k = engine_consume (host_engine cfg (host_dispatch cfg n) (host_drain cfg n))"
    by (simp add: subscriptions_composed split: if_splits)
  then show "grows (k event)"
    using deliveries.ports_evolve [of n] by (simp add: grows_evolves deliveries.consumes host_engine_def)
qed

text \<open>The Engine of the host sees ports that respect its orders: dispatcher and drain, at any depth.\<close>

sublocale cooperative_host \<subseteq> engine_outcomes: outcome_ports "host_engine cfg (host_dispatch cfg n) (host_drain cfg n)" for n
  by unfold_locales (simp_all add: host_engine_def outcomes.ports_evolve)

sublocale cooperative_host \<subseteq> engine_budgets: budget_ports "host_engine cfg (host_dispatch cfg n) (host_drain cfg n)" for n
  by unfold_locales (use budgets.ports_evolve [of n] in \<open>simp_all add: host_engine_def keeps_evolves [symmetric]\<close>)

sublocale cooperative_host \<subseteq> engine_outbox: outbox_ports "host_engine cfg (host_dispatch cfg n) (host_drain cfg n)" for n
  by unfold_locales (simp_all add: host_engine_def grows_evolves deliveries.ports_evolve)

sublocale cooperative_host \<subseteq> engine_records: record_ports "host_engine cfg (host_dispatch cfg n) (host_drain cfg n)" for n
  by unfold_locales (simp_all add: host_engine_def records.ports_evolve)

context cooperative_host
begin

lemma runs:
  assumes "host_run cfg s t"
  shows "engine_le s t" "records_le s t" "budget_le s t" "outbox_le s t"
  using assms by (rule outcomes.run_ordered records.run_ordered budgets.run_ordered deliveries.run_ordered,
      intro recovery_orders)+

lemmas bus_drain_done = bus.drain_done

end

lemmas runs_ordered = cooperative_host.runs [OF cooperative_host.intro]

lemma init_ok: "outbox_ok (host_init cfg clock ids k)" "budgeted (host_init cfg clock ids k)"
  by (simp_all add: host_init_def gateway_init_def messaging_init_def runtime_state.extend_def engine_state.extend_def
      gateway_state.extend_def messaging.extend_def outbox_ok_def budgeted_def)

section \<open>Properties of every run\<close>

text \<open>C2 (safety). Terminal outcomes are final in the composed system. Along any run of the host, whatever
  Commands are dispatched and however they fail, a Workflow that has reached its terminal outcome keeps its
  state, Result and Error, and its attempt number and transition version never decrease.\<close>

theorem terminal_outcomes_final:
  assumes "cooperative cfg" and "host_run cfg s t"
    and "map_of (instances s) w = Some v" and "terminal_state (wf_state v)" and "wf_outcome v = Some r"
  shows "\<exists>v'. map_of (instances t) w = Some v' \<and> wf_state v' = wf_state v \<and> wf_outcome v' = Some r
    \<and> wf_error v' = wf_error v \<and> wf_attempt_number v \<le> wf_attempt_number v'
    \<and> wf_transition_version v \<le> wf_transition_version v'"
proof -
  obtain v' where "map_of (instances t) w = Some v'" "same_identity v v'" "has_outcome v \<longrightarrow> same_outcome v v'"
    using runs_ordered(1) [OF assms(1,2)] assms(3) unfolding engine_le_but_def by blast
  with assms(4,5) show ?thesis by (auto simp: has_outcome_def same_outcome_def same_identity_def)
qed

text \<open>C3 (invariant). No Workflow ever commits more than its ceiling. It holds when the host is composed, and from any
  state in which it holds, whatever the host does next: the admissions recorded for a Workflow parse,
  and their committed exposures add up to at most the ceiling of the budget envelope it was started with.\<close>

theorem workflow_budget_never_exceeded:
  assumes "cooperative cfg" and "host_run cfg s t"
  shows "budgeted (host_init cfg clock ids k)
    \<and> (budgeted s \<longrightarrow> budgeted t
        \<and> (\<forall>w v. map_of (instances t) w = Some v \<and> wf_ai_admissions v \<noteq> [] \<longrightarrow>
             (\<exists>e n. wf_ai_budget_envelope v = Some e \<and> used_exposure (map snd (wf_ai_admissions v)) = Inr n
                \<and> n \<le> env_ceiling_microusd e)))"
proof -
  have "budgeted s \<Longrightarrow> budgeted t" using runs_ordered(3) [OF assms] by blast
  then show ?thesis using init_ok(2) unfolding budgeted_def within_budget_def by blast
qed

text \<open>C4 (safety). No Event is lost on the way. The outbox is well formed when the host is composed and stays so:
  along any run a recorded Event is still recorded, under its identifier and with the same content, it stays
  published once it is, and delivery receipts are kept.\<close>

theorem host_events_kept:
  assumes "cooperative cfg" and "host_run cfg s t"
  shows "outbox_ok (host_init cfg clock ids k)
    \<and> (outbox_ok s \<longrightarrow> outbox_ok t \<and> delivered s \<subseteq> delivered t
        \<and> (\<forall>i e. map_of (outbox_entries s) i = Some e \<longrightarrow>
             (\<exists>e'. map_of (outbox_entries t) i = Some e' \<and> ob_event e' = ob_event e
                \<and> (ob_published e \<longrightarrow> ob_published e'))))"
  using runs_ordered(4) [OF assms] init_ok(1) by (simp add: outbox_le_def extends_def)

text \<open>C5 (liveness). A drain of the composed host that returns leaves nothing behind: every Event that was
  pending when it began is published, and every terminal Event of an attempt among them has been consumed by
  the Workflow Engine, whatever the Engine, the Runtime and the Skills recorded or drained meanwhile.\<close>

theorem host_drain_delivers:
  assumes "cooperative cfg" and "outbox_ok s" and "host_drain cfg (Suc n) s = (Inr j, t)" and "event \<in> set (pending s)"
  shows "(\<exists>e. map_of (outbox_entries t) (evt_event_id event) = Some e \<and> ob_event e = event \<and> ob_published e)
    \<and> (evt_event_type event \<in> {''ExecutionAttemptSucceeded'', ''ExecutionAttemptFailed'', ''ExecutionAttemptTimedOut''} \<longrightarrow>
        (evt_event_id event, ''workflow-engine'') \<in> delivered t)"
proof -
  have "drain (host_subscriptions cfg (host_dispatch cfg n) (host_drain cfg n)) s = (Inr j, t)"
    using assms(3) by (simp add: case_prod_beta)
  note drained_all = cooperative_host.bus_drain_done [OF cooperative_host.intro [OF assms(1)] assms(2) this]
  with assms(4) show ?thesis by (auto simp: consumer_names_def subscriptions_composed)
qed

text \<open>C6 (safety). An execution that has its Result is never executed over: along any run of the host the
  record of an attempt keeps identity and acknowledgement, and once it has a Result it keeps Result, state
  and Error.\<close>

theorem execution_results_final:
  assumes "cooperative cfg" and "host_run cfg s t"
    and "map_of (executions s) x = Some r" and "er_result r = Some result"
  shows "\<exists>r'. map_of (executions t) x = Some r' \<and> er_result r' = Some result \<and> er_state r' = er_state r
    \<and> er_error r' = er_error r \<and> er_acknowledgement r' = er_acknowledgement r \<and> er_workflow_id r' = er_workflow_id r"
proof -
  obtain r' where "map_of (executions t) x = Some r'" "same_execution r r'" "er_result r \<noteq> None \<longrightarrow> same_ending r r'"
    using runs_ordered(2) [OF assms(1,2)] assms(3) unfolding records_le_but_def by blast
  with assms(4) show ?thesis by (auto simp: same_execution_def same_ending_def)
qed

lemma dispatched_to:
  assumes "command_envelope c = Inr c"
  shows "cmd_target_component c = manager_name \<Longrightarrow> host_dispatch cfg (Suc n) c = manager_handle (host_dispatch cfg n) c"
    "cmd_target_component c = engine_name \<Longrightarrow>
     host_dispatch cfg (Suc n) c = engine_handle (host_engine cfg (host_dispatch cfg n) (host_drain cfg n)) c"
    "cmd_target_component c = runtime_name \<Longrightarrow>
     host_dispatch cfg (Suc n) c = runtime_handle (host_runtime cfg (host_drain cfg n)) c"
  using command_envelope_required [OF assms]
  by (auto simp: case_prod_beta dispatch_command_def routes_composed manager_name_def engine_name_def runtime_name_def)

text \<open>C7 (functional). Requests are idempotent end to end: once the Manager has answered a Request Command with a
  complete Result, dispatching an equal Command at any later point of any run returns that Result and
  changes nothing.\<close>

theorem completed_requests_replay:
  assumes "cooperative cfg" and "host_run cfg s t"
    and "map_of (request_results s) (cmd_command_id c) = Some r" and "res_completed_at r \<noteq> None"
    and "map_of (request_commands s) (cmd_command_id c) = Some old" and "command_eq old c"
    and "command_envelope c = Inr c" and "cmd_target_component c = manager_name"
  shows "host_dispatch cfg (Suc n) c t = (Inr r, t)"
proof -
  have "map_of (request_results t) (cmd_command_id c) = Some r \<and> map_of (request_commands t) (cmd_command_id c) = Some old"
    using runs_ordered(2) [OF assms(1,2)] assms(3-5) unfolding records_le_but_def by fastforce
  with assms(4,6) show ?thesis
    unfolding dispatched_to(1) [OF assms(7,8)] by (auto simp: manager_handle_def effect_simps)
qed

text \<open>C8 (functional). So are the Commands of the Workflow Engine and of the Skill Runtime: a Command whose receipt
  is complete is answered from the receipt, at any later point of any run, and nothing changes.\<close>

theorem completed_commands_replay:
  assumes "cooperative cfg" and "host_run cfg s t" and "command_envelope c = Inr c"
  shows "(\<forall>r. cmd_target_component c = engine_name \<and> map_of (command_receipts s) (cmd_command_id c) = Some r
        \<and> wr_state r = CMD_COMPLETED \<and> command_eq (wr_command r) c
        \<longrightarrow> host_dispatch cfg (Suc n) c t = (Inr (wr_result r), t))
    \<and> (\<forall>x. cmd_target_component c = runtime_name \<and> map_of (execution_receipts s) (cmd_command_id c) = Some x
        \<and> xr_completed x \<and> command_eq (xr_command x) c
        \<longrightarrow> host_dispatch cfg (Suc n) c t = (Inr (xr_acknowledgement x), t))"
proof (intro conjI allI impI; elim conjE)
  fix r
  assume r: "cmd_target_component c = engine_name" "map_of (command_receipts s) (cmd_command_id c) = Some r"
    "wr_state r = CMD_COMPLETED" "command_eq (wr_command r) c"
  then have "map_of (command_receipts t) (cmd_command_id c) = Some r"
    using runs_ordered(1) [OF assms(1,2)] unfolding engine_le_but_def by blast
  with r show "host_dispatch cfg (Suc n) c t = (Inr (wr_result r), t)"
    unfolding dispatched_to(2) [OF assms(3) r(1)] by (simp add: engine_handle_def repository_apply effect_simps)
next
  fix x
  assume x: "cmd_target_component c = runtime_name" "map_of (execution_receipts s) (cmd_command_id c) = Some x"
    "xr_completed x" "command_eq (xr_command x) c"
  then have "map_of (execution_receipts t) (cmd_command_id c) = Some x"
    using runs_ordered(2) [OF assms(1,2)] unfolding records_le_but_def by blast
  with x show "host_dispatch cfg (Suc n) c t = (Inr (xr_acknowledgement x), t)"
    unfolding dispatched_to(3) [OF assms(3) x(1)] by (simp add: runtime_handle_def effect_simps)
qed

section \<open>A concrete host\<close>

text \<open>The event loop that runs what it waits for, at once.\<close>

definition direct_config :: host_config where
  "direct_config =
     \<lparr>hc_tx = sample_tx, hc_str = (\<lambda>_. []), hc_repr_parameters = (\<lambda>_. []), hc_tenant_id = ''tenant'',
      hc_workspace_id = ''workspace'', hc_timeout_seconds = 1, hc_wait_for = (\<lambda>_ m. m),
      hc_provider_wait = (\<lambda>_ m. m), hc_wait = (\<lambda>_. ret ()), hc_lost = (\<lambda>_. False)\<rparr>"

lemma direct_cooperative: "cooperative direct_config"
  by (simp add: cooperative_def direct_config_def offside.pure)

interpretation direct: cooperative_host direct_config
  by unfold_locales (rule direct_cooperative)

definition complete_result :: ResultEnvelope where
  "complete_result = sample_ack\<lparr>res_result_status := SUCCEEDED, res_completed_at := Some (Aware 7)\<rparr>"

definition finished_event :: EventEnvelope where
  "finished_event = (sample_event ''e1'')\<lparr>evt_workflow_id := Some ''wf'', evt_tenant_id := Some ''tenant'',
     evt_workspace_id := Some ''workspace''\<rparr>"

text \<open>A host in which a Workflow, an execution and a Request are complete and an Event is pending.\<close>

definition busy_host :: host_state where
  "busy_host = (host_init direct_config (\<lambda>n. int n) show_nat 0)
     \<lparr>outbox_entries := [(''e1'', \<lparr>ob_event = finished_event, ob_published = False, ob_claimed = False\<rparr>)],
      instances := [(''wf'', sample_instance\<lparr>wf_state := WF_COMPLETED, wf_outcome := Some complete_result\<rparr>)],
      command_receipts := [(''c1'', \<lparr>wr_command = sample_command, wr_result = complete_result, wr_workflow_id = ''wf'',
         wr_error = None, wr_state = CMD_COMPLETED\<rparr>)],
      executions := [(''x'', \<lparr>er_execution_id = ''x'', er_workflow_id = ''wf'', er_workflow_step_id = ''step'',
         er_attempt_number = 1, er_tenant_id = ''tenant'', er_workspace_id = ''workspace'', er_state = EX_SUCCEEDED,
         er_acknowledgement = sample_ack, er_start_event = None, er_terminal_event = None,
         er_result = Some complete_result, er_error = None\<rparr>)],
      request_results := [(''c1'', complete_result)],
      request_commands := [(''c1'', sample_command\<lparr>cmd_target_component := manager_name\<rparr>)]\<rparr>"

lemmas busy_simps = busy_host_def host_init_def gateway_init_def messaging_init_def runtime_state.extend_def
  engine_state.extend_def gateway_state.extend_def messaging.extend_def

text \<open>It takes one step: the cancellation of its Workflow is dispatched.\<close>

definition busy_next :: host_state where
  "busy_next = snd (host_dispatch direct_config 3 (sample_command\<lparr>cmd_command_id := ''c2'',
     cmd_command_type := ''CancelWorkflow'', cmd_workflow_id := Some ''wf''\<rparr>) busy_host)"

lemma busy_run: "host_run direct_config busy_host busy_next"
  unfolding busy_next_def by (intro r_into_rtranclp host_step.dispatched prod_eqI) simp_all

lemma sample_command_ok: "command_envelope sample_command = Inr sample_command" "command_eq sample_command sample_command"
  "command_envelope (sample_command\<lparr>cmd_target_component := manager_name\<rparr>)
     = Inr (sample_command\<lparr>cmd_target_component := manager_name\<rparr>)"
  "command_eq (sample_command\<lparr>cmd_target_component := manager_name\<rparr>)
     (sample_command\<lparr>cmd_target_component := manager_name\<rparr>)"
  by code_simp+

lemma sample_command_target: "cmd_target_component sample_command = engine_name" "cmd_command_id sample_command = ''c1''"
  by (simp_all add: sample_command_def engine_name_def)

theorem terminal_outcomes_final_witness:
  "\<exists>v. map_of (instances busy_next) ''wf'' = Some v \<and> wf_state v = WF_COMPLETED \<and> wf_outcome v = Some complete_result"
proof -
  have "map_of (instances busy_host) ''wf'' = Some (sample_instance\<lparr>wf_state := WF_COMPLETED, wf_outcome := Some complete_result\<rparr>)"
    by (simp add: busy_simps)
  from terminal_outcomes_final [OF direct_cooperative busy_run this] show ?thesis by (auto simp: terminal_state_def)
qed

theorem host_events_kept_witness:
  "outbox_ok busy_next \<and> (\<exists>e. map_of (outbox_entries busy_next) ''e1'' = Some e \<and> ob_event e = finished_event)"
proof -
  have "outbox_ok busy_host" by (simp add: busy_simps outbox_ok_def finished_event_def sample_event_def)
  moreover have "map_of (outbox_entries busy_host) ''e1''
      = Some \<lparr>ob_event = finished_event, ob_published = False, ob_claimed = False\<rparr>"
    by (simp add: busy_simps)
  ultimately show ?thesis using host_events_kept [OF direct_cooperative busy_run] by fastforce
qed

theorem execution_results_final_witness:
  "\<exists>r. map_of (executions busy_next) ''x'' = Some r \<and> er_result r = Some complete_result \<and> er_state r = EX_SUCCEEDED"
proof -
  obtain r where "map_of (executions busy_host) ''x'' = Some r" "er_result r = Some complete_result" "er_state r = EX_SUCCEEDED"
    by (simp add: busy_simps)
  with execution_results_final [OF direct_cooperative busy_run this(1,2)] show ?thesis by auto
qed

theorem completed_requests_replay_witness:
  "host_dispatch direct_config 2 (sample_command\<lparr>cmd_target_component := manager_name\<rparr>) busy_next = (Inr complete_result, busy_next)"
proof -
  let ?c = "sample_command\<lparr>cmd_target_component := manager_name\<rparr>"
  have "map_of (request_results busy_host) (cmd_command_id ?c) = Some complete_result"
    "map_of (request_commands busy_host) (cmd_command_id ?c) = Some ?c" "res_completed_at complete_result \<noteq> None"
    by (simp_all add: busy_simps sample_command_target complete_result_def)
  from completed_requests_replay [OF direct_cooperative busy_run this(1,3,2) sample_command_ok(4,3), of 1]
  show ?thesis by (simp add: numeral_2_eq_2 del: host_ports.simps)
qed

theorem completed_commands_replay_witness:
  "host_dispatch direct_config 2 sample_command busy_next = (Inr complete_result, busy_next)"
proof -
  obtain r where "map_of (command_receipts busy_host) (cmd_command_id sample_command) = Some r" "wr_state r = CMD_COMPLETED"
    "wr_command r = sample_command" "wr_result r = complete_result"
    by (simp add: busy_simps sample_command_target)
  with completed_commands_replay [OF direct_cooperative busy_run sample_command_ok(1), of 1] sample_command_ok(2)
  show ?thesis by (simp add: numeral_2_eq_2 sample_command_target del: host_ports.simps)
qed

theorem host_drain_delivers_witness:
  "\<exists>t. host_drain direct_config 1 busy_host = (Inr 1, t) \<and> (''e1'', ''workflow-engine'') \<in> delivered t"
proof -
  have pending: "pending busy_host = [finished_event]" by (simp add: busy_simps pending_def)
  have ok: "outbox_ok busy_host" by (simp add: busy_simps outbox_ok_def finished_event_def sample_event_def)
  let ?subs = "host_subscriptions direct_config (host_dispatch direct_config 0) (host_drain direct_config 0)"
  have "\<exists>t. relay_one ?subs finished_event busy_host = (Inr (), t)"
    by (simp add: relay_defs effect_simps subscriptions_composed finished_event_def sample_event_def engine_consume_def
        consuming_instance_def process_event_def mark_processed_def repository_apply attempt_events_def
        busy_simps sample_instance_def terminal_state_def del: host_ports.simps)
  then obtain t where t: "host_drain direct_config (Suc 0) busy_host = (Inr 1, t)"
    by (auto simp: case_prod_beta drain_def pending eff_apply)
  from host_drain_delivers [OF direct_cooperative ok t, of finished_event] t show ?thesis
    by (auto simp: pending finished_event_def sample_event_def simp del: host_ports.simps)
qed

text \<open>A Workflow with one committed admission, and the host after another Command.\<close>

definition admitting_host :: host_state where
  "admitting_host = snd (create_attempt_command quiet_env ''wf'' ''cause''
     ((host_init direct_config (\<lambda>n. int n) show_nat 0)\<lparr>instances := [(''wf'', sample_instance)],
        active_policy_versions := None\<rparr>))"

lemma admitting_host_ok: "budgeted admitting_host \<and> (\<exists>v. map_of (instances admitting_host) ''wf'' = Some v \<and> wf_ai_admissions v \<noteq> [])"
proof -
  let ?s = "(host_init direct_config (\<lambda>n. int n) show_nat 0)\<lparr>instances := [(''wf'', sample_instance)],
        active_policy_versions := None\<rparr>"
  have wf: "map_of (instances ?s) ''wf'' = Some sample_instance" by simp
  have "check_admission ''wf'' ?s = (Inr (), ?s)"
  proof -
    have "fst (check_admission ''wf'' ?s) = Inr ()" by code_simp
    then show ?thesis using check_state [of "''wf''" ?s] by (simp add: prod_eq_iff)
  qed
  then obtain c t where c: "create_attempt_command quiet_env ''wf'' ''cause'' ?s = (Inr c, t)"
    using create_returns [OF wf sample_instance_fields(2)]
    by (fastforce simp: sample_instance_def sample_authorization_def)
  have "budgeted ?s" using sample_instance_fields(4) by (simp add: budgeted_def sample_repository_def)
  from keepsD [OF attempt_budgeted this c] have "budgeted t" .
  moreover obtain v where "map_of (instances t) ''wf'' = Some v" "wf_ai_admissions v \<noteq> []"
    by (rule create_inversion [OF c wf sample_instance_fields(2)]) (auto simp: admitted_def Let_def put_admission_state_def sample_instance_def)
  ultimately show ?thesis using c by (simp add: admitting_host_def)
qed

theorem workflow_budget_never_exceeded_witness:
  "budgeted admitting_host \<and> budgeted (snd (host_dispatch direct_config 3 sample_command admitting_host))"
proof -
  have "host_run direct_config admitting_host (snd (host_dispatch direct_config 3 sample_command admitting_host))"
    by (intro r_into_rtranclp host_step.dispatched prod_eqI) simp_all
  from workflow_budget_never_exceeded [OF direct_cooperative this] admitting_host_ok show ?thesis by blast
qed

end
