(* ===== verification/Host_Run.thy ===== *)
theory Host_Run
  imports Host_Properties
begin

text \<open>
  A complete run of the composed host: a reference request handed to \<^verbatim>\<open>ReferenceRuntime.run\<close> travels through the
  dispatcher, the Manager, the Workflow Engine, the Skill Runtime, the reference Skill, the mock Gateway, the memory
  service and the outbox, and comes back with the greeting. The run is computed symbolically, for every message,
  clock and supply of distinct identifiers; the recursion depth of the ports is enough from six on.
\<close>

section \<open>Rules for running the host\<close>

text \<open>An effect is run only once its state is known: the parts of a sequence are not simplified in advance.\<close>

lemma run_in_order: "bnd m f s = bnd m f s" "catch m h s = catch m h s"
  by simp_all

lemma ports_run:
  "fst (host_ports cfg (Suc n)) c s =
     dispatch_command (host_routes cfg (fst (host_ports cfg n)) (snd (host_ports cfg n))) c s"
  "snd (host_ports cfg (Suc n)) s =
     drain (host_subscriptions cfg (fst (host_ports cfg n)) (snd (host_ports cfg n))) s"
  by (simp_all add: case_prod_beta)

lemma wiring_run:
  "rt_tx (host_runtime cfg d) = hc_tx cfg" "rt_authority (host_runtime cfg d) = Some repository_authority"
  "rt_implementations (host_runtime cfg d) = host_implementations cfg" "rt_wait_for (host_runtime cfg d) = hc_wait_for cfg"
  "rt_drain (host_runtime cfg d) = d" "rt_default_timeout (host_runtime cfg d) = hc_timeout_seconds cfg"
  "en_tx (host_engine cfg f d) = hc_tx cfg" "en_dispatch (host_engine cfg f d) = f" "en_drain (host_engine cfg f d) = d"
  "en_str (host_engine cfg f d) = hc_str cfg"
  by (simp_all add: host_runtime_def host_engine_def)

lemma hello_resolved:
  "resolved_skill (host_runtime cfg d) ''hello-aieos-skill-v1'' = Inr (hd reference_skills, hd reference_capabilities)"
  "map_of (host_implementations cfg) ''hello-aieos-local'' = Some (hello_skill (host_invoke cfg))"
  "sk_execute (hello_skill invoke) = hello_execute invoke" "sk_validate_registry_binding (hello_skill invoke) = None"
  by (simp_all add: resolved_skill_def host_runtime_def host_skills_def host_capabilities_def composed_def
      skill_registry_def capability_registry_def reference_skills_def reference_capabilities_def build_catalog_def
      Let_def dict_of_def resolve_skill_def resolve_capability_def host_implementations_def hello_skill_def)

text \<open>Identifiers stay opaque: only their prefix and the draw they come from matter.\<close>

definition minted_id :: "string \<Rightarrow> string \<Rightarrow> string" where
  "minted_id p i = p @ ''_'' @ i"

lemma minted_id_simps:
  "minted_id p i \<noteq> []" "[] \<noteq> minted_id p i" "minted_id p i = minted_id p j \<longleftrightarrow> i = j" "minted_id p i @ x \<noteq> []"
  by (auto simp: minted_id_def)

lemma new_id_run:
  "new_id p s = (Inr (minted_id p (id_feed s (id_draws s))), s\<lparr>id_draws := Suc (id_draws s)\<rparr>)"
  by (simp add: new_id_def effect_simps minted_id_def)

lemma authorization_run:
  "auth_actor_id (reference_authorization t w) = ''reference-user''"
  "auth_tenant_id (reference_authorization t w) = t" "auth_workspace_id (reference_authorization t w) = w"
  "p \<in> auth_permissions (reference_authorization t w) \<longleftrightarrow> p \<in> {''request.accept'', ''workflow.start'', ''workflow.cancel'',
     ''skill.execute'', ''ai.invoke'', ''memory.write'', ''memory.read'', ''result.read''}"
  by (auto simp: reference_authorization_def)

lemmas record_extends =
  messaging.extend_def gateway_state.extend_def engine_state.extend_def runtime_state.extend_def

lemma initial_run:
  "host_init cfg clock ids k =
     \<lparr>clock_feed = clock, clock_reads = 0, id_feed = ids, id_draws = 0,
      active_policy_versions = Some {policy_key (reference_authorization (hc_tenant_id cfg) (hc_workspace_id cfg))},
      revoked_policy_versions = {}, decisions = [], log_records = [], memory_records = [], delivered = {},
      published_log = [], outbox_entries = [], invocations = [], admission = [], reservations = [], cache = [],
      usage_ledger = [], attempts = [], usage_events = [], provider_effects = [], provider_effect_reservations = {},
      terminal_events = [], tenant_limit = Dec 100 0, workspace_limit = Dec 100 0, lifecycle = [], cooldowns = [],
      degraded = {}, instances = [], command_receipts = [], dispatched = None, executions = [],
      execution_receipts = [], mock_failures_remaining = k, mock_invocations = [],
      providers = [(''mock-economy'', new_provider ''Economy''), (''mock-quality'', new_provider ''Quality'')],
      request_results = [], request_errors = [], request_commands = [], workflow_commands = []\<rparr>"
  by (simp add: host_init_def record_extends gateway_init_def messaging_init_def dec_or_def)

text \<open>The operations a request passes through.\<close>

lemmas run_defs =
  terminal_status_def unsuccessful_status_def usage_of_def dec_sum_def dec_or_def suppress_def
  finally_do_def triple_def ebind_def require_def uuid_hex_def dt_leq_def authorization_context_def
  error_envelope_def truthy_str_def result_envelope_def alnum_def opaque_result_id_def command_metadata_def
  governed_dispatch_error_def command_envelope_def event_metadata_defaults_def event_envelope_def
  same_mapping_def command_eq_def event_eq_def observability_context_def revoke_def scope_check_def
  authorize_def accepted_def succeeded_def category_by_status_def unsuccessful_def failure_fields_ok_def
  record_decision_def contains_decision_def record_log_def dict_of_def build_catalog_def
  capability_registry_def resolve_capability_def skill_registry_def resolve_skill_def register_target_def
  dispatch_command_def store_memory_def fetch_memory_def save_record_def get_record_def messaging_init_def
  subscribe_def consumer_names_def deliver_once_def deliver_to_def publish_event_def set_entry_def
  outbox_record_def pending_def claim_entry_def mark_published_def release_entry_def
  recover_unpublished_claims_def relay_one_def drain_def workflow_definition_def add_instance_def
  load_instance_def modify_instance_def receipt_for_command_def put_receipt_def begin_command_def
  modify_receipt_def complete_command_def remember_completed_command_def dispatch_context_def
  admission_live_def instance_admission_def committed_admission_def dispatch_owned_def
  repository_authority_def repository_empty_def engine_name_def approved_identity_def
  definition_identity_def is_approved_reference_workflow_def payload_string_def payload_optional_string_def
  payload_int_def payload_float_def dict_update_def permitted_def instance_scope_def command_scope_def
  str_or_def engine_reject_def engine_observe_def publish_workflow_event_def committed_exposure_def
  needs_admission_def attempt_exposure_def check_admission_def put_admission_state_def requested_entry_def
  pending_entry_def committed_entry_def commit_admission_def authoritative_reference_def attempt_payload_def
  attempt_envelope_def create_attempt_command_def failed_outcome_def set_outcome_def announce_def
  engine_fail_def settle_receipts_def reject_pre_acceptance_attempt_def admission_category_def
  reject_retry_admission_def evidence_missing_def amount_of_def entry_amounts_def gateway_evidence_def
  evidence_matches_def reconciled_entry_def reconcile_ai_admission_def lineage_matches_def task_routes_def
  task_route_def routed_value_def amount_text_def get_or_def budget_evidence_def completion_value_def
  finish_completion_def engine_complete_def attempt_events_def terminal_state_def permits_new_attempt_def
  retryable_def retry_allowed_def record_retry_decision_def owns_attempt_command_def
  pre_acceptance_rejection_workflow_id_def admission_failure_def try_attempt_command_def
  dispatch_attempt_def mark_processed_def retry_attempt_def attempt_unsuccessful_def consuming_instance_def
  process_event_def engine_consume_def start_definition_def envelope_in_scope_def statement_ok_def
  start_checks_def resume_start_def new_instance_def open_workflow_def engine_start_def engine_cancel_def
  handle_command_def engine_handle_def engine_outcome_def runtime_name_def add_execution_def
  load_execution_def modify_execution_def begin_execution_command_def complete_execution_command_def
  find_result_def resolve_authoritative_result_def attempt_binding_ok_def attempt_scope_def lineage_keys_def
  attempt_event_payload_def attempt_event_def publish_attempt_def structured_attempt_def
  structured_attributes_def observe_attempt_def engine_owned_def record_rejection_def runtime_reject_def
  governed_version_def selected_skill_def admission_refusal_def registry_binding_ok_def
  implementation_checks_def skill_checks_def attempt_checks_def skill_input_def statement_digest_def
  reuse_result_def call_skill_def expected_failure_def capability_metadata_def failure_plan_def
  failure_state_def end_failed_def accounting_or_default_def terminal_metadata_def end_succeeded_def
  attempt_outcome_def open_attempt_def finish_attempt_def run_attempt_def runtime_handle_def mock_scope_def
  mock_gateway_invoke_def modify_provider_def load_provider_def next_behavior_def declarative_openers_def
  surface_form_task_kind_def token_count_def default_json_def mock_content_def behavior_failure_def
  remember_effect_def invoke_once_def mock_request_hash_def provider_invoke_def hello_request_def
  hello_failure_def hello_execute_def routed_invoke_def manager_name_def manager_reject_def
  start_command_def handoff_def manager_accept_def manager_handle_def reference_models_def
  reference_capabilities_def reference_skills_def reference_policy_context_def host_invoke_def
  host_task_capability_def new_provider_def metadata_of_def given_or_new_def build_request_command_def
  run_command_def run_execution_command_def run_workflow_command_def run_message_def classify_command_def
  classify_and_route_task_def part_whole_def part_dot_def part_fraction_def whole_ok_def fraction_ok_def
  AMOUNT_def fraction_field_def scale6_def micro_amount_def digit_count_def minted_id_def
  require_opaque_id_def envelope_keys_def envelope_parse_def capability_binding_def
  gateway_idempotency_key_def admission_binding_def validate_binding_def request_defaults_def
  new_invocation_def gateway_init_def estimate_cost_def rates_ok_def all_task_kinds_def task_kind_of_def
  parse_task_input_def accept_result_def canonical_json_def capability_policy_context_def
  STRUCTURED_TASK_KIND_PACKAGE_def validate_registry_binding_def validate_reused_output_def
  require_security_context_def require_policy_context_def gateway_key_def definition_version_def
  structured_request_def dependency_failure_def from_gateway_def usage_field_def complete_ai_path_def
  structured_execute_def matches_def correct_count_def exact_accuracy_def evaluate_predictions_def

section \<open>The request\<close>

text \<open>C10 (termination). A reference request to the composed host comes to its end and to the right one: for every message with a visible
  character, every clock, every supply of distinct identifiers and every recursion depth from six on,
  the run returns a succeeded Result whose value is the greeting of the stripped message.\<close>

theorem hello_request_succeeds:
  assumes "strip message \<noteq> []" "inj ids" "hc_tenant_id cfg \<noteq> []" "hc_workspace_id cfg \<noteq> []"
    and "\<And>t x. hc_wait_for cfg t x = x" and "6 \<le> n"
  shows "\<exists>result t. run_message cfg n message None None 2 None (host_init cfg clock ids 0) = (Inr result, t)
    \<and> res_result_status result = SUCCEEDED
    \<and> res_value_reference result = Some (''Hello from AIEOS: '' @ strip message)"
proof -
  from assms(1) have message: "message \<noteq> []" by (auto simp: strip_def rstrip_by_def)
  from assms(6) obtain k where "n = 6 + k" by (auto simp: le_iff_add)
  then have n: "n = Suc (Suc (Suc (Suc (Suc (Suc k)))))" by simp
  show ?thesis
    unfolding n
    supply bnd_simps [simp del] host_ports.simps [simp del]
    by (simp add: initial_run run_defs new_id_run minted_id_simps authorization_run assms(1-5) message wiring_run
        hello_resolved eff_apply ports_run routes_composed subscriptions_composed clock_now_apply Let_def show_int_def
        od_setdefault_def inj_eq cong: run_in_order)
qed

theorem hello_request_succeeds_witness:
  "\<exists>result t. run_message direct_config 6 '' hi '' None None 2 None (host_init direct_config int show_nat 0) = (Inr result, t)
    \<and> res_value_reference result = Some ''Hello from AIEOS: hi''"
proof -
  have "strip '' hi '' = ''hi''" by (simp add: strip_def rstrip_by_def py_space_def)
  moreover have "inj show_nat" by (metis injI int_of_show_nat)
  moreover have "hc_tenant_id direct_config \<noteq> []" "hc_workspace_id direct_config \<noteq> []" "\<And>t x. hc_wait_for direct_config t x = x"
    by (simp_all add: direct_config_def)
  ultimately show ?thesis
    using hello_request_succeeds [of "'' hi ''" show_nat direct_config 6 int] by auto
qed

end
