(* ===== verification/Host_Refinement.thy ===== *)
theory Host_Refinement
  imports Host_Properties
begin

text \<open>
  The composed host as an implementation of a write-once register.

  The abstract specification forgets instances, attempts, outboxes, receipts and ledgers and keeps what
  the host has decided: the outcome of a Workflow, the outcome of an execution and the answer to a
  Command. Its only step decides a key that is still open (\<open>register_step\<close>), and a Command that is
  decided is answered by looking it up (\<open>reply\<close>). \<open>decided\<close> reads the register off the state of the
  host, and every step of the host is a sequence of steps of the register.
\<close>

section \<open>The register\<close>

datatype register_key = Workflow_Key string | Execution_Key string
  | Request_Key string | Engine_Key string | Runtime_Key string

datatype decision =
    Workflow_Ended WorkflowState ResultEnvelope "ErrorEnvelope option"
  | Execution_Ended ExecutionState ResultEnvelope "ErrorEnvelope option"
  | Answered CommandEnvelope ResultEnvelope

type_synonym register = "register_key \<rightharpoonup> decision"

inductive register_step :: "register \<Rightarrow> register \<Rightarrow> bool" where
  decide: "m k = None \<Longrightarrow> register_step m (m(k \<mapsto> d))"

abbreviation register_run :: "register \<Rightarrow> register \<Rightarrow> bool" where
  "register_run \<equiv> register_step\<^sup>*\<^sup>*"

definition answer_key :: "CommandEnvelope \<Rightarrow> register_key" where
  "answer_key c =
     (if cmd_target_component c = manager_name then Request_Key (cmd_command_id c)
      else if cmd_target_component c = engine_name then Engine_Key (cmd_command_id c)
      else Runtime_Key (cmd_command_id c))"

definition reply :: "register \<Rightarrow> CommandEnvelope \<Rightarrow> ResultEnvelope option" where
  "reply m c = (case m (answer_key c) of
       Some (Answered d r) \<Rightarrow> if command_eq d c then Some r else None
     | _ \<Rightarrow> None)"

lemma register_run_extends: "register_run m m' \<Longrightarrow> m \<subseteq>\<^sub>m m'"
proof (induction rule: rtranclp_induct)
  case (step m1 m2)
  from step.hyps(2) have "m1 \<subseteq>\<^sub>m m2" by cases (auto simp: map_le_def)
  with step.IH show ?case by (rule map_le_trans)
qed simp

text \<open>A finite extension is a run: the keys can be decided one after the other.\<close>

lemma extends_register_run:
  assumes "m \<subseteq>\<^sub>m m'" "finite (dom m')"
  shows "register_run m m'"
proof -
  have "register_run m (m ++ (m' |` D))" if "finite D" "D \<subseteq> dom m' - dom m" for D
    using that
  proof (induction D rule: finite_induct)
    case (insert k D)
    then obtain d where d: "m' k = Some d" "m k = None" by blast
    with insert.hyps have "(m ++ (m' |` D)) k = None" by (simp add: map_add_None restrict_map_def)
    then have "register_step (m ++ (m' |` D)) ((m ++ (m' |` D))(k \<mapsto> d))" by (rule decide)
    moreover from d have "(m ++ (m' |` D))(k \<mapsto> d) = m ++ (m' |` insert k D)"
      by (auto simp: fun_eq_iff map_add_def restrict_map_def split: option.splits)
    ultimately show ?case using insert by simp
  qed simp
  from this [of "dom m' - dom m"] assms(2) have "register_run m (m ++ (m' |` (dom m' - dom m)))" by simp
  moreover from assms(1) have "m ++ (m' |` (dom m' - dom m)) = m'"
    by (fastforce simp: fun_eq_iff map_add_def restrict_map_def map_le_def dom_def split: option.splits)
  ultimately show ?thesis by simp
qed

section \<open>Simulation\<close>

locale simulation =
  fixes step :: "'s \<Rightarrow> 's \<Rightarrow> bool" and spec_step :: "'a \<Rightarrow> 'a \<Rightarrow> bool" and view :: "'s \<Rightarrow> 'a"
  assumes simulates: "step s t \<Longrightarrow> spec_step\<^sup>*\<^sup>* (view s) (view t)"
begin

lemma run_simulates: "step\<^sup>*\<^sup>* s t \<Longrightarrow> spec_step\<^sup>*\<^sup>* (view s) (view t)"
  by (induction rule: rtranclp_induct) (auto dest: simulates intro: rtranclp_trans)

end

definition workflow_decision :: "WorkflowInstance \<Rightarrow> decision option" where
  "workflow_decision v =
     (if terminal_state (wf_state v)
      then map_option (\<lambda>r. Workflow_Ended (wf_state v) r (wf_error v)) (wf_outcome v) else None)"

definition execution_decision :: "ExecutionRecord \<Rightarrow> decision option" where
  "execution_decision x = map_option (\<lambda>r. Execution_Ended (er_state x) r (er_error x)) (er_result x)"

definition request_decision :: "ResultEnvelope option \<Rightarrow> CommandEnvelope option \<Rightarrow> decision option" where
  "request_decision result command = (case (result, command) of
       (Some r, Some c) \<Rightarrow> if res_completed_at r \<noteq> None then Some (Answered c r) else None
     | _ \<Rightarrow> None)"

definition decided :: "host_state \<Rightarrow> register" where
  "decided s key = (case key of
       Workflow_Key w \<Rightarrow> Option.bind (map_of (instances s) w) workflow_decision
     | Execution_Key x \<Rightarrow> Option.bind (map_of (executions s) x) execution_decision
     | Request_Key k \<Rightarrow> request_decision (map_of (request_results s) k) (map_of (request_commands s) k)
     | Engine_Key k \<Rightarrow> Option.bind (map_of (command_receipts s) k)
         (\<lambda>r. if wr_state r = CMD_COMPLETED then Some (Answered (wr_command r) (wr_result r)) else None)
     | Runtime_Key k \<Rightarrow> Option.bind (map_of (execution_receipts s) k)
         (\<lambda>x. if xr_completed x then Some (Answered (xr_command x) (xr_acknowledgement x)) else None))"

lemma decided_keys:
  "dom (decided s) \<subseteq> Workflow_Key ` dom (map_of (instances s)) \<union> Execution_Key ` dom (map_of (executions s))
     \<union> Request_Key ` dom (map_of (request_results s)) \<union> Engine_Key ` dom (map_of (command_receipts s))
     \<union> Runtime_Key ` dom (map_of (execution_receipts s))"
proof
  fix key assume "key \<in> dom (decided s)"
  then show "key \<in> Workflow_Key ` dom (map_of (instances s)) \<union> Execution_Key ` dom (map_of (executions s))
     \<union> Request_Key ` dom (map_of (request_results s)) \<union> Engine_Key ` dom (map_of (command_receipts s))
     \<union> Runtime_Key ` dom (map_of (execution_receipts s))"
    by (cases key) (auto simp: decided_def request_decision_def split: Option.bind_splits option.splits)
qed

lemma decided_finite: "finite (dom (decided s))"
  by (rule finite_subset [OF decided_keys]) (simp add: finite_dom_map_of)

lemma decided_grows:
  assumes "engine_le s t" "records_le s t"
  shows "decided s \<subseteq>\<^sub>m decided t"
  unfolding map_le_def
proof
  fix key assume "key \<in> dom (decided s)"
  then obtain d where d: "decided s key = Some d" by blast
  have "decided t key = Some d"
  proof (cases key)
    case (Workflow_Key w)
    with d obtain v where v: "map_of (instances s) w = Some v" "workflow_decision v = Some d"
      by (auto simp: decided_def split: Option.bind_splits)
    then have "has_outcome v" by (auto simp: workflow_decision_def has_outcome_def split: if_splits)
    with assms(1) v(1) obtain v' where "map_of (instances t) w = Some v'" "same_outcome v v'"
      unfolding engine_le_but_def by blast
    with v(2) Workflow_Key show ?thesis
      by (simp add: decided_def workflow_decision_def same_outcome_def split: if_splits)
  next
    case (Execution_Key x)
    with d obtain r where r: "map_of (executions s) x = Some r" "execution_decision r = Some d"
      by (auto simp: decided_def split: Option.bind_splits)
    then have "er_result r \<noteq> None" by (auto simp: execution_decision_def)
    with assms(2) r(1) obtain r' where "map_of (executions t) x = Some r'" "same_ending r r'"
      unfolding records_le_but_def by blast
    with r(2) Execution_Key show ?thesis by (simp add: decided_def execution_decision_def same_ending_def)
  next
    case (Request_Key k)
    with d obtain r where "map_of (request_results s) k = Some r" "res_completed_at r \<noteq> None"
      by (auto simp: decided_def request_decision_def split: option.splits if_splits)
    with assms(2) have "map_of (request_results t) k = Some r" "map_of (request_commands t) k = map_of (request_commands s) k"
      unfolding records_le_but_def by blast+
    with d Request_Key \<open>map_of (request_results s) k = Some r\<close> show ?thesis by (simp add: decided_def)
  next
    case (Engine_Key k)
    with d obtain r where "map_of (command_receipts s) k = Some r" "wr_state r = CMD_COMPLETED"
      by (auto simp: decided_def split: Option.bind_splits if_splits)
    with assms(1) d Engine_Key show ?thesis unfolding engine_le_but_def by (fastforce simp: decided_def)
  next
    case (Runtime_Key k)
    with d obtain x where "map_of (execution_receipts s) k = Some x" "xr_completed x"
      by (auto simp: decided_def split: Option.bind_splits if_splits)
    with assms(2) d Runtime_Key show ?thesis unfolding records_le_but_def by (fastforce simp: decided_def)
  qed
  with d show "decided s key = decided t key" by simp
qed

sublocale cooperative_host \<subseteq> register: simulation "host_step cfg" register_step decided
  by unfold_locales (blast intro: extends_register_run decided_grows decided_finite runs r_into_rtranclp)

context cooperative_host
begin

lemmas register_runs = register.run_simulates

end

section \<open>Refinement\<close>

lemma decided_init: "decided (host_init cfg clock ids k) = Map.empty"
  by (auto simp: fun_eq_iff decided_def request_decision_def host_init_def gateway_init_def messaging_init_def
      runtime_state.extend_def engine_state.extend_def gateway_state.extend_def messaging.extend_def
      split: register_key.splits)

text \<open>C9 (refinement). The composed host implements the write-once register. A fresh host has decided
  nothing; along any run the decisions of the host develop by register steps only, so that nothing decided
  is ever revised; and a well-formed Command that is already decided is answered as the register answers
  it, with the state left as it is.\<close>

theorem host_refines_register:
  assumes "cooperative cfg" and "host_run cfg s t"
    and "command_envelope c = Inr c" and "cmd_target_component c \<in> {manager_name, engine_name, runtime_name}"
  shows "decided (host_init cfg clock ids k) = Map.empty
    \<and> register_run (decided s) (decided t)
    \<and> (\<forall>r. reply (decided s) c = Some r \<longrightarrow> host_dispatch cfg (Suc n) c t = (Inr r, t))"
proof (intro conjI allI impI)
  have host: "cooperative_host cfg" by (rule cooperative_host.intro) (rule assms(1))
  show run: "register_run (decided s) (decided t)"
    by (rule cooperative_host.register_runs [OF host assms(2)])
  fix r assume "reply (decided s) c = Some r"
  then obtain d where "decided s (answer_key c) = Some (Answered d r)" and same: "command_eq d c"
    by (auto simp: reply_def split: option.splits decision.splits if_splits)
  with register_run_extends [OF run] have "decided t (answer_key c) = Some (Answered d r)"
    by (auto simp: map_le_def dom_def)
  with assms(4) same show "host_dispatch cfg (Suc n) c t = (Inr r, t)"
    by (auto simp: answer_key_def decided_def request_decision_def dispatched_to [OF assms(3)] manager_handle_def
        engine_handle_def runtime_handle_def repository_apply effect_simps simp del: host_ports.simps
        split: if_splits option.splits Option.bind_splits)
qed (rule decided_init)

text \<open>The host of the other examples has decided the Command it holds a completed receipt for.\<close>

theorem host_refines_register_witness:
  "register_run (decided busy_host) (decided busy_next) \<and> reply (decided busy_host) sample_command = Some complete_result
    \<and> host_dispatch direct_config 2 sample_command busy_next = (Inr complete_result, busy_next)"
proof -
  have decided: "reply (decided busy_host) sample_command = Some complete_result"
    using sample_command_ok(2)
    by (simp add: reply_def answer_key_def decided_def sample_command_target engine_name_def manager_name_def busy_simps)
  have target: "cmd_target_component sample_command \<in> {manager_name, engine_name, runtime_name}"
    by (simp add: sample_command_target)
  note run = host_refines_register [OF direct_cooperative busy_run sample_command_ok(1) target, where n = 1]
  from run decided show ?thesis by (simp add: numeral_2_eq_2 del: host_ports.simps)
qed

end
