(* ===== verification/Gateway_Stream.thy ===== *)
theory Gateway_Stream
  imports Gateway_Spending
begin

text \<open>
  \<^verbatim>\<open>ReferenceAIGateway.stream\<close>: the async generator that accepts a request, claims the invocation,
  relays the provider's incremental events as numbered chunks and ends with one terminal chunk.

  The local variables of the generator are the record \<open>stream_frame\<close>, which no other code can
  touch, and the chunks it has yielded are kept there in order; an operation of the Gateway runs on
  the shared state next to the frame (\<open>outer\<close>). A provider's \<^verbatim>\<open>stream\<close> is an effect that opens
  the stream and returns its deliveries, each an effect that ends in one event or raises; the
  deadline's \<^verbatim>\<open>TimeoutError\<close> and a cancellation are raises of a delivery. The code that iterates over the
  generator runs at every \<^verbatim>\<open>yield\<close> (\<open>se_consume\<close>): it resumes the generator, or closes it with
  \<^verbatim>\<open>GeneratorExit\<close>. The heartbeat is the predicate \<open>ge_lost\<close> of the environment.
\<close>

record StreamChunk =
  ch_ai_invocation_id :: string
  ch_sequence :: int
  ch_kind :: string
  ch_content :: "string option"
  ch_usage :: "AIUsage option"
  ch_terminal :: "AIInvocationResponse option"

record ProviderStreamEvent =
  pe_kind :: string
  pe_content :: "string option"
  pe_usage :: "AIUsage option"

type_synonym 's provider_stream =
  "string \<Rightarrow> string \<Rightarrow> string \<Rightarrow> AIInvocationRequest \<Rightarrow> int option
   \<Rightarrow> ('s, ('s, ProviderStreamEvent) eff list) eff"

record 's stream_env =
  se_gateway :: "'s gateway_env"
  se_stream :: "'s provider_stream"
  se_consume :: "StreamChunk \<Rightarrow> ('s, unit) eff"

record stream_frame =
  fr_sequence :: int
  fr_parts :: "string list"
  fr_input_tokens :: int
  fr_usage :: "AIUsage option"
  fr_partial_usage :: "AIUsage option"
  fr_reserved :: bool
  fr_yielded :: "StreamChunk list"

definition empty_frame :: stream_frame where
  "empty_frame = \<lparr>fr_sequence = 0, fr_parts = [], fr_input_tokens = 0, fr_usage = None,
     fr_partial_usage = None, fr_reserved = False, fr_yielded = []\<rparr>"

type_synonym ('s, 'a) gen = "(stream_frame \<times> 's, 'a) eff"

definition outer :: "('s, 'a) eff \<Rightarrow> ('s, 'a) gen" where
  "outer m = (\<lambda>(f, s). case m s of (r, t) \<Rightarrow> (r, f, t))"

definition frame_get :: "(stream_frame \<Rightarrow> 'a) \<Rightarrow> ('s, 'a) gen" where
  "frame_get g = asks (\<lambda>(f, s). g f)"

definition frame_set :: "(stream_frame \<Rightarrow> stream_frame) \<Rightarrow> ('s, unit) gen" where
  "frame_set g = upd (\<lambda>(f, s). (g f, s))"

definition yield_chunk :: "'s stream_env \<Rightarrow> StreamChunk \<Rightarrow> ('s, unit) gen" where
  "yield_chunk env c =
     bnd (frame_set (\<lambda>f. f\<lparr>fr_yielded := fr_yielded f @ [c]\<rparr>)) (\<lambda>_.
     outer (se_consume env c))"

definition stream_chunk :: "string \<Rightarrow> int \<Rightarrow> string \<Rightarrow> StreamChunk" where
  "stream_chunk i n kind =
     \<lparr>ch_ai_invocation_id = i, ch_sequence = n, ch_kind = kind, ch_content = None, ch_usage = None,
      ch_terminal = None\<rparr>"

definition terminal_chunk :: "string \<Rightarrow> int \<Rightarrow> AIInvocationResponse \<Rightarrow> StreamChunk" where
  "terminal_chunk i n response =
     (stream_chunk i n ''terminal'')\<lparr>ch_usage := rsp_usage response, ch_terminal := Some response\<rparr>"

definition yield_terminal :: "'s stream_env \<Rightarrow> string \<Rightarrow> AIInvocationResponse \<Rightarrow> ('s, unit) gen" where
  "yield_terminal env i response =
     bnd (frame_get fr_sequence) (\<lambda>n. yield_chunk env (terminal_chunk i n response))"

section \<open>Provider events\<close>

definition next_sequence :: "('s, unit) gen" where
  "next_sequence = frame_set (\<lambda>f. f\<lparr>fr_sequence := fr_sequence f + 1\<rparr>)"

definition content_event ::
  "('z gateway_state_scheme) stream_env \<Rightarrow> string \<Rightarrow> AIInvocationRequest \<Rightarrow> string \<Rightarrow> int \<Rightarrow> string
   \<Rightarrow> ('z gateway_state_scheme, unit) gen"
where
  "content_event env i r owner generation text =
     bnd (frame_get fr_parts) (\<lambda>parts.
     if rq_max_output_tokens r < estimate (concat (parts @ [text]))
     then raise (ProviderFailure ''AI_OUTPUT_LIMIT_EXCEEDED'' False None) else
     bnd (frame_set (\<lambda>f. f\<lparr>fr_parts := parts @ [text]\<rparr>)) (\<lambda>_.
     bnd (frame_get fr_sequence) (\<lambda>n.
     bnd (outer (modify_invocation i (\<lambda>v. v\<lparr>inv_stream_content := parts @ [text], inv_stream_sequence := n\<rparr>))) (\<lambda>_.
     bnd (outer (fence (se_gateway env) i owner generation)) (\<lambda>_.
     bnd (outer (checkpoint i)) (\<lambda>_.
     bnd (yield_chunk env ((stream_chunk i n ''content_delta'')\<lparr>ch_content := Some text\<rparr>)) (\<lambda>_.
     next_sequence)))))))"

definition usage_regressed :: "AIUsage option \<Rightarrow> AIUsage \<Rightarrow> bool" where
  "usage_regressed current reported = (case current of
       None \<Rightarrow> False
     | Some u \<Rightarrow> input_tokens reported < input_tokens u \<or> output_tokens reported < output_tokens u)"

definition usage_event ::
  "('z gateway_state_scheme) stream_env \<Rightarrow> string \<Rightarrow> string \<Rightarrow> string \<Rightarrow> int \<Rightarrow> AIUsage
   \<Rightarrow> ('z gateway_state_scheme, unit) gen"
where
  "usage_event env i model owner generation reported =
     bnd (frame_get fr_usage) (\<lambda>usage.
     if usage_regressed usage reported
     then raise (ProviderFailure ''AI_NON_MONOTONIC_USAGE'' False usage) else
     bnd (frame_set (\<lambda>f. f\<lparr>fr_usage := Some reported, fr_partial_usage := Some reported\<rparr>)) (\<lambda>_.
     bnd (outer (modify_invocation i (\<lambda>v. v\<lparr>inv_stream_usage := Some reported\<rparr>))) (\<lambda>_.
     bnd (outer (lift (usage_cost (ge_catalog (se_gateway env)) model reported))) (\<lambda>cost.
     bnd (outer (record_usage i reported cost
            (''stream:1:'' @ show_int (input_tokens reported) @ '':'' @ show_int (output_tokens reported))
            ''provider_partial'' False (Some (owner, generation)))) (\<lambda>_.
     bnd (frame_get fr_sequence) (\<lambda>n.
     bnd (outer (modify_invocation i (\<lambda>v. v\<lparr>inv_stream_sequence := n\<rparr>))) (\<lambda>_.
     bnd (outer (fence (se_gateway env) i owner generation)) (\<lambda>_.
     bnd (outer (checkpoint i)) (\<lambda>_.
     bnd (yield_chunk env ((stream_chunk i n ''usage'')\<lparr>ch_usage := Some reported\<rparr>)) (\<lambda>_.
     bnd next_sequence (\<lambda>_.
     outer (observe i ''ai.stream.usage''
       [(''input_tokens'', PInt (input_tokens reported)), (''output_tokens'', PInt (output_tokens reported))]))))))))))))"

definition stream_event ::
  "('z gateway_state_scheme) stream_env \<Rightarrow> string \<Rightarrow> AIInvocationRequest \<Rightarrow> string \<Rightarrow> string \<Rightarrow> int
   \<Rightarrow> ProviderStreamEvent \<Rightarrow> ('z gateway_state_scheme, unit) gen"
where
  "stream_event env i r model owner generation e =
     (case pe_content e of
        Some text \<Rightarrow>
          if pe_kind e = ''content_delta'' \<and> text \<noteq> [] then content_event env i r owner generation text
          else if pe_kind e = ''usage''
          then (case pe_usage e of None \<Rightarrow> ret () | Some u \<Rightarrow> usage_event env i model owner generation u)
          else ret ()
      | None \<Rightarrow>
          if pe_kind e = ''usage''
          then (case pe_usage e of None \<Rightarrow> ret () | Some u \<Rightarrow> usage_event env i model owner generation u)
          else ret ())"

fun stream_events ::
  "('z gateway_state_scheme) stream_env \<Rightarrow> string \<Rightarrow> AIInvocationRequest \<Rightarrow> string \<Rightarrow> string \<Rightarrow> int
   \<Rightarrow> ('z gateway_state_scheme, ProviderStreamEvent) eff list \<Rightarrow> ('z gateway_state_scheme, unit) gen"
where
  "stream_events env i r model owner generation [] = ret ()"
| "stream_events env i r model owner generation (delivery # rest) =
     bnd (outer delivery) (\<lambda>e.
     bnd (stream_event env i r model owner generation e) (\<lambda>_.
     stream_events env i r model owner generation rest))"

section \<open>The stream of a claimed invocation\<close>

text \<open>Preparation up to the durable mark that the stream has started.\<close>

definition stream_prepare ::
  "('z gateway_state_scheme) stream_env \<Rightarrow> string \<Rightarrow> AIInvocationRequest
   \<Rightarrow> ('z gateway_state_scheme, string \<times> int \<times> RouteDecision) gen"
where
  "stream_prepare env i r =
     (let gw = se_gateway env in
      bnd (outer (load_invocation i)) (\<lambda>v.
      if inv_stream_started v
      then bnd (frame_set (\<lambda>f. f\<lparr>fr_partial_usage := inv_stream_usage v, fr_parts := inv_stream_content v\<rparr>)) (\<lambda>_.
           raise (ProviderFailure ''AI_PROVIDER_EFFECT_AMBIGUOUS'' False None)) else
      bnd (outer (transition i INV_POLICY_VALIDATED)) (\<lambda>_.
      bnd (outer (lift (assemble (ge_tx gw) (ge_packages gw) r 0))) (\<lambda>(prompt, tokens, digest).
      bnd (frame_set (\<lambda>f. f\<lparr>fr_input_tokens := tokens\<rparr>)) (\<lambda>_.
      bnd (outer (select_route (ge_tx gw) (ge_catalog gw) r tokens)) (\<lambda>route.
      bnd (outer (modify_invocation i (\<lambda>v. v\<lparr>inv_route := Some route\<rparr>))) (\<lambda>_.
      bnd (outer (transition i INV_PROVIDER_SELECTED)) (\<lambda>_.
      bnd (outer (checkpoint i)) (\<lambda>_.
      bnd (outer clock_now) (\<lambda>now.
      bnd (outer (lift (find_model (ge_catalog gw) (rt_model_key route)))) (\<lambda>_.
      bnd (outer (reserve i (rq_tenant_id r) (rq_workspace_id r) (rq_max_total_cost r) now)) (\<lambda>_.
      bnd (frame_set (\<lambda>f. f\<lparr>fr_reserved := True\<rparr>)) (\<lambda>_.
      bnd (outer (transition i INV_PREPARED)) (\<lambda>_.
      bnd (outer (checkpoint i)) (\<lambda>_.
      bnd (outer (transition i INV_INVOKED)) (\<lambda>_.
      bnd (outer (transition i INV_STREAMING)) (\<lambda>_.
      bnd (frame_get fr_sequence) (\<lambda>n.
      bnd (outer (modify_invocation i (\<lambda>v. v\<lparr>inv_stream_started := True, inv_stream_sequence := n\<rparr>))) (\<lambda>_.
      bnd (outer (checkpoint i)) (\<lambda>_.
      bnd (outer (observe i ''ai.stream.started'' [(''model_key'', PStr (rt_model_key route))])) (\<lambda>_.
      ret (prompt, tokens, route))))))))))))))))))))))"

text \<open>\<^verbatim>\<open>max(0, (deadline - now).total_seconds())\<close>; a naive deadline cannot be subtracted.\<close>

definition stream_timeout :: "AIInvocationRequest \<Rightarrow> ('z gateway_state_scheme, int option) eff" where
  "stream_timeout r = (case rq_deadline r of
       None \<Rightarrow> ret None
     | Some d \<Rightarrow>
         bnd clock_now (\<lambda>now.
         if tz_aware d then ret (Some (max 0 (instant d - now)))
         else raise (TypeError ''can't subtract offset-naive and offset-aware datetimes'')))"

definition stream_relay ::
  "('z gateway_state_scheme) stream_env \<Rightarrow> string \<Rightarrow> AIInvocationRequest \<Rightarrow> string \<Rightarrow> int
   \<Rightarrow> string \<Rightarrow> RouteDecision \<Rightarrow> ('z gateway_state_scheme, unit) gen"
where
  "stream_relay env i r owner generation prompt route =
     bnd (frame_get fr_sequence) (\<lambda>n.
     bnd (yield_chunk env (stream_chunk i n ''stream_start'')) (\<lambda>_.
     bnd next_sequence (\<lambda>_.
     bnd (outer (guard (rt_adapter_key route \<in> ge_adapters (se_gateway env)) (KeyError (rt_adapter_key route)))) (\<lambda>_.
     bnd (outer (stream_timeout r)) (\<lambda>timeout.
     catch
       (bnd (outer (se_stream env (rt_adapter_key route) (rt_model_key route) prompt r timeout)) (\<lambda>deliveries.
        stream_events env i r (rt_model_key route) owner generation deliveries))
       (\<lambda>e. if e = TimeoutError
            then raise (ProviderFailure ''AI_PROVIDER_EFFECT_AMBIGUOUS'' False None) else raise e))))))"

definition stream_settle ::
  "('z gateway_state_scheme) stream_env \<Rightarrow> string \<Rightarrow> AIInvocationRequest \<Rightarrow> string \<Rightarrow> int
   \<Rightarrow> int \<Rightarrow> RouteDecision \<Rightarrow> ('z gateway_state_scheme, AIInvocationResponse) gen"
where
  "stream_settle env i r owner generation tokens route =
     (let gw = se_gateway env; model = rt_model_key route in
      bnd (frame_get (\<lambda>f. concat (fr_parts f))) (\<lambda>content.
      if rq_max_output_tokens r < estimate content
      then raise (ProviderFailure ''AI_OUTPUT_LIMIT_EXCEEDED'' False None) else
      bnd (frame_get (\<lambda>f. case fr_usage f of
             Some u \<Rightarrow> u
           | None \<Rightarrow> (usage_of tokens (estimate content))\<lparr>estimated := True\<rparr>)) (\<lambda>usage.
      bnd (outer (lift (usage_cost (ge_catalog gw) model usage))) (\<lambda>actual.
      if rq_max_total_cost r < actual
      then raise (ProviderFailure ''AI_BUDGET_OVERRUN'' False None) else
      bnd (outer (record_attempt i (1, model, ''completed'', Some usage, actual))) (\<lambda>_.
      bnd (outer (reconcile i actual usage (Some (owner, generation)))) (\<lambda>_.
      outer (success (ge_tx gw) i content usage route False)))))))"

definition stream_produce ::
  "('z gateway_state_scheme) stream_env \<Rightarrow> string \<Rightarrow> AIInvocationRequest \<Rightarrow> string \<Rightarrow> int
   \<Rightarrow> ('z gateway_state_scheme, AIInvocationResponse) gen"
where
  "stream_produce env i r owner generation =
     bnd (stream_prepare env i r) (\<lambda>(prompt, tokens, route).
     bnd (stream_relay env i r owner generation prompt route) (\<lambda>_.
     stream_settle env i r owner generation tokens route))"

section \<open>Failures\<close>

text \<open>What was consumed before the end is charged; a reservation without any is given back.\<close>

definition settle_partial ::
  "('z gateway_state_scheme) stream_env \<Rightarrow> string \<Rightarrow> string \<Rightarrow> int \<Rightarrow> string \<Rightarrow> (stream_frame \<Rightarrow> bool)
   \<Rightarrow> ('z gateway_state_scheme, unit) gen"
where
  "settle_partial env i owner generation state consumed =
     bnd (frame_get id) (\<lambda>f.
     if \<not> fr_reserved f then ret () else
     bnd (outer (load_invocation i)) (\<lambda>v.
     case inv_route v of
       Some route \<Rightarrow>
         if consumed f
         then let partial = (case fr_partial_usage f of
                    Some u \<Rightarrow> u
                  | None \<Rightarrow> (usage_of (fr_input_tokens f) (estimate (concat (fr_parts f))))\<lparr>estimated := True\<rparr>) in
              bnd (frame_set (\<lambda>f. f\<lparr>fr_partial_usage := Some partial\<rparr>)) (\<lambda>_.
              bnd (outer (lift (usage_cost (ge_catalog (se_gateway env)) (rt_model_key route) partial))) (\<lambda>cost.
              bnd (outer (record_attempt i (1, rt_model_key route, state, Some partial, cost))) (\<lambda>_.
              outer (reconcile i cost partial (Some (owner, generation))))))
         else outer (release_reservation i ''released'')
     | None \<Rightarrow> outer (release_reservation i ''released'')))"

definition failed_response ::
  "string \<Rightarrow> string \<Rightarrow> bool \<Rightarrow> ('z gateway_state_scheme, AIInvocationResponse) gen" where
  "failed_response i code retryable =
     bnd (outer (failure i code retryable)) (\<lambda>response.
     bnd (frame_get fr_partial_usage) (\<lambda>partial.
     case partial of
       None \<Rightarrow> ret response
     | Some u \<Rightarrow>
         let response = response\<lparr>rsp_usage := Some u\<rparr> in
         bnd (outer (modify_invocation i (\<lambda>v. v\<lparr>inv_terminal := Some response\<rparr>))) (\<lambda>_.
         ret response)))"

definition stream_failure :: "exn \<Rightarrow> provider_failure" where
  "stream_failure e = (case e of
       ProviderFailure code retryable usage \<Rightarrow> (code, retryable, usage)
     | _ \<Rightarrow> (''AI_STREAM_FAILURE'', False, None))"

text \<open>The handlers: a response to terminalize, or nothing when the generator has returned.\<close>

definition stream_error ::
  "('z gateway_state_scheme) stream_env \<Rightarrow> string \<Rightarrow> string \<Rightarrow> int \<Rightarrow> exn
   \<Rightarrow> ('z gateway_state_scheme, AIInvocationResponse option) gen"
where
  "stream_error env i owner generation e =
     (if e = CancelledError
      then bnd (settle_partial env i owner generation ''cancelled_partial'' (\<lambda>f. fr_parts f \<noteq> [])) (\<lambda>_.
           bnd (failed_response i ''AI_PROVIDER_CANCELLED'' False) (\<lambda>response.
           ret (Some response)))
      else if \<not> is_exception e then raise e
      else case e of
        ExecutionOwnershipLost _ \<Rightarrow>
          bnd (outer (wait_for_terminal (ge_wait (se_gateway env)) i)) (\<lambda>response.
          bnd (yield_terminal env i response) (\<lambda>_.
          ret None))
      | _ \<Rightarrow>
          (let (code, retryable, used) = stream_failure e in
           bnd (if used \<noteq> None then frame_set (\<lambda>f. f\<lparr>fr_partial_usage := used\<rparr>) else ret ()) (\<lambda>_.
           bnd (settle_partial env i owner generation ''failed_partial''
                  (\<lambda>f. fr_parts f \<noteq> [] \<or> fr_partial_usage f \<noteq> None)) (\<lambda>_.
           bnd (failed_response i code retryable) (\<lambda>response.
           ret (Some response))))))"

section \<open>stream\<close>

definition stream_terminalize ::
  "('z gateway_state_scheme) stream_env \<Rightarrow> string \<Rightarrow> string \<Rightarrow> int \<Rightarrow> AIInvocationResponse
   \<Rightarrow> ('z gateway_state_scheme, unit) gen"
where
  "stream_terminalize env i owner generation response =
     bnd (outer (modify_invocation i (\<lambda>v. v\<lparr>inv_terminal_intent := Some response,
            inv_recovery_phase := ''terminalization_pending''\<rparr>))) (\<lambda>_.
     bnd (outer (suppress (bnd (checkpoint_terminal_intent i) (\<lambda>_.
            bnd (fence (se_gateway env) i owner generation) (\<lambda>_. checkpoint i))))) (\<lambda>_.
     bnd (outer (suppress (release_execution i owner generation))) (\<lambda>_.
     yield_terminal env i response)))"

definition stream_claimed ::
  "('z gateway_state_scheme) stream_env \<Rightarrow> string \<Rightarrow> AIInvocationRequest \<Rightarrow> string \<Rightarrow> int
   \<Rightarrow> ('z gateway_state_scheme, unit) gen"
where
  "stream_claimed env i r owner generation =
     bnd (outer (load_invocation i)) (\<lambda>v.
     case inv_terminal_intent v of
       Some response \<Rightarrow>
         bnd (outer (modify_invocation i (\<lambda>v. v\<lparr>inv_terminal := Some response\<rparr>))) (\<lambda>_.
         bnd (outer (suppress (checkpoint i))) (\<lambda>_.
         bnd (outer (suppress (release_execution i owner generation))) (\<lambda>_.
         yield_terminal env i response)))
     | None \<Rightarrow>
         bnd (catch (bnd (stream_produce env i r owner generation) (\<lambda>response. ret (Some response)))
                (stream_error env i owner generation)) (\<lambda>outcome.
         case outcome of
           None \<Rightarrow> ret ()
         | Some response \<Rightarrow> stream_terminalize env i owner generation response))"

definition gateway_stream ::
  "('z gateway_state_scheme) stream_env \<Rightarrow> AIInvocationRequest \<Rightarrow> ('z gateway_state_scheme, unit) gen"
where
  "gateway_stream env request =
     (let gw = se_gateway env in
      bnd (outer (gateway_accept (ge_tx gw) (ge_authority gw) (request\<lparr>rq_response_mode := STREAM\<rparr>))) (\<lambda>accepted.
      let i = acc_ai_invocation_id accepted in
      bnd (outer (load_invocation i)) (\<lambda>invocation.
      bnd (yield_chunk env (stream_chunk i 0 ''acknowledgement'')) (\<lambda>_.
      bnd (frame_set (\<lambda>f. f\<lparr>fr_sequence := 1\<rparr>)) (\<lambda>_.
      bnd (outer (load_invocation i)) (\<lambda>v.
      case inv_terminal v of
        Some response \<Rightarrow> yield_terminal env i response
      | None \<Rightarrow>
          bnd (outer uuid_hex) (\<lambda>u. let owner = ''gateway-stream-worker:'' @ u in
          bnd (outer clock_now) (\<lambda>now.
          bnd (outer (claim_execution i owner now (ge_execution_lease gw))) (\<lambda>claim.
          case claim of
            None \<Rightarrow>
              bnd (outer (wait_for_terminal (ge_wait gw) i)) (\<lambda>response.
              yield_terminal env i response)
          | Some generation \<Rightarrow>
              bnd (outer clock_now) (\<lambda>now.
              bnd (outer (modify_invocation i (\<lambda>v. v\<lparr>inv_execution_owner := Some owner,
                     inv_execution_lease_expires_at := Some (now + ge_execution_lease gw),
                     inv_claim_generation := generation, inv_recovery_phase := ''claimed''\<rparr>))) (\<lambda>_.
              stream_claimed env i (inv_request invocation) owner generation)))))))))))"

end
