(* ===== verification/Stream_Protocol.thy ===== *)
theory Stream_Protocol
  imports Gateway_Stream
begin

text \<open>
  What a reader of \<^verbatim>\<open>ReferenceAIGateway.stream\<close> can rely on, whatever the provider delivers, the other
  workers do and wherever the generator is closed: consecutive numbers from the acknowledgement on,
  usage that never decreases, at most one terminal chunk, and only as the last one. The proofs are
  a small Hoare logic on the frame of the generator with a postcondition for every raise.
\<close>

section \<open>Reasoning about the frame\<close>

definition runs ::
  "(stream_frame \<Rightarrow> bool) \<Rightarrow> ('s, 'a) gen \<Rightarrow> ('a \<Rightarrow> stream_frame \<Rightarrow> bool) \<Rightarrow> (exn \<Rightarrow> stream_frame \<Rightarrow> bool) \<Rightarrow> bool"
where
  "runs P m Q E \<longleftrightarrow> (\<forall>f s. P f \<longrightarrow>
     (case m (f, s) of (Inr x, g, t) \<Rightarrow> Q x g | (Inl e, g, t) \<Rightarrow> E e g))"

lemma runsD: "runs P m Q E \<Longrightarrow> P f \<Longrightarrow> m (f, s) = (Inr x, g, t) \<Longrightarrow> Q x g"
  unfolding runs_def by (metis (no_types, lifting) case_prod_conv sum.case(2))

lemma runs_ret: "(\<And>f. P f \<Longrightarrow> Q x f) \<Longrightarrow> runs P (ret x) Q E"
  by (simp add: runs_def effect_simps)

lemma runs_done: "runs P (ret x) (\<lambda>_. P) E"
  by (simp add: runs_def effect_simps)

lemma runs_raise: "(\<And>f. P f \<Longrightarrow> E e f) \<Longrightarrow> runs P (raise e) Q E"
  by (simp add: runs_def effect_simps)

lemma runs_bnd:
  assumes "runs P m R E" "\<And>x. runs (R x) (h x) Q E"
  shows "runs P (bnd m h) Q E"
  using assms unfolding runs_def bnd_def by (fastforce split: prod.splits sum.splits)

lemma runs_catch:
  assumes "runs P m Q D" "\<And>e. runs (D e) (h e) Q E"
  shows "runs P (catch m h) Q E"
  using assms unfolding runs_def catch_def by (fastforce split: prod.splits sum.splits)

lemma runs_mono:
  assumes "runs P m Q E" "\<And>f. P' f \<Longrightarrow> P f" "\<And>x f. Q x f \<Longrightarrow> Q' x f" "\<And>e f. E e f \<Longrightarrow> E' e f"
  shows "runs P' m Q' E'"
  using assms unfolding runs_def by (fastforce split: prod.splits sum.splits)

lemma runs_outer: "(\<And>e f. P f \<Longrightarrow> E e f) \<Longrightarrow> runs P (outer m) (\<lambda>_. P) E"
  by (auto simp: runs_def outer_def split: prod.splits sum.splits)

lemma runs_frame_get: "runs P (frame_get g) (\<lambda>x f. P f \<and> x = g f) E"
  by (simp add: runs_def frame_get_def effect_simps)

lemma runs_frame_set: "(\<And>f. P f \<Longrightarrow> Q (g f)) \<Longrightarrow> runs P (frame_set g) (\<lambda>_. Q) E"
  by (simp add: runs_def frame_set_def effect_simps)

lemma runs_if: "(b \<Longrightarrow> runs P m Q E) \<Longrightarrow> (\<not> b \<Longrightarrow> runs P n Q E) \<Longrightarrow> runs P (if b then m else n) Q E"
  by simp

lemma runs_option:
  "(x = None \<Longrightarrow> runs P m Q E) \<Longrightarrow> (\<And>y. x = Some y \<Longrightarrow> runs P (h y) Q E) \<Longrightarrow>
   runs P (case x of None \<Rightarrow> m | Some y \<Rightarrow> h y) Q E"
  by (cases x) auto

lemma outer_apply [effect_simps]: "outer m (f, s) = (fst (m s), f, snd (m s))"
  by (simp add: outer_def split: prod.splits)

lemma outer_InrD: "outer m (f, s) = (Inr x, g, t) \<Longrightarrow> g = f \<and> m s = (Inr x, t)"
  by (cases "m s") (simp add: outer_apply)

section \<open>The protocol of the chunks\<close>

definition usage_le :: "AIUsage \<Rightarrow> AIUsage \<Rightarrow> bool" where
  "usage_le u w \<longleftrightarrow> input_tokens u \<le> input_tokens w \<and> output_tokens u \<le> output_tokens w"

definition usages :: "StreamChunk list \<Rightarrow> AIUsage list" where
  "usages ys = map (the \<circ> ch_usage) (filter (\<lambda>c. ch_kind c = ''usage'') ys)"

definition deltas :: "StreamChunk list \<Rightarrow> string list" where
  "deltas ys = map (the \<circ> ch_content) (filter (\<lambda>c. ch_kind c = ''content_delta'') ys)"

definition numbered :: "StreamChunk list \<Rightarrow> bool" where
  "numbered ys \<longleftrightarrow> map ch_sequence ys = map int [0..<length ys]
     \<and> (ys \<noteq> [] \<longrightarrow> ch_kind (hd ys) = ''acknowledgement'') \<and> sorted_wrt usage_le (usages ys)"

definition protocol :: "StreamChunk list \<Rightarrow> bool" where
  "protocol ys \<longleftrightarrow> numbered ys \<and> (\<forall>c\<in>set (butlast ys). ch_kind c \<noteq> ''terminal'')"

definition finished :: "StreamChunk list \<Rightarrow> bool" where
  "finished ys \<longleftrightarrow> protocol ys \<and> ys \<noteq> [] \<and> ch_kind (last ys) = ''terminal'' \<and> ch_terminal (last ys) \<noteq> None"

text \<open>A generator that may go on: the next number is the number of chunks, no terminal chunk has
  been yielded, and the last reported usage is an upper bound of the reported ones.\<close>

definition live :: "stream_frame \<Rightarrow> bool" where
  "live f \<longleftrightarrow> numbered (fr_yielded f) \<and> fr_yielded f \<noteq> [] \<and> fr_sequence f = int (length (fr_yielded f))
     \<and> (\<forall>c\<in>set (fr_yielded f). ch_kind c \<noteq> ''terminal'')
     \<and> (\<forall>u\<in>set (usages (fr_yielded f)). \<exists>w. fr_usage f = Some w \<and> usage_le u w)"

definition flowing :: "stream_frame \<Rightarrow> bool" where
  "flowing f \<longleftrightarrow> live f \<and> fr_parts f = deltas (fr_yielded f)"

definition halted :: "exn \<Rightarrow> stream_frame \<Rightarrow> bool" where
  "halted e f \<longleftrightarrow> (if e = GeneratorExit then protocol (fr_yielded f) else live f)"

definition handled :: "AIInvocationResponse option \<Rightarrow> stream_frame \<Rightarrow> bool" where
  "handled outcome f \<longleftrightarrow> (case outcome of None \<Rightarrow> finished (fr_yielded f) | Some _ \<Rightarrow> live f)"

lemma live_protocol: "live f \<Longrightarrow> protocol (fr_yielded f)"
  by (auto simp: live_def protocol_def dest: in_set_butlastD)

lemma live_halted: "live f \<Longrightarrow> halted e f"
  by (simp add: halted_def live_protocol)

lemma flowing_halted: "flowing f \<Longrightarrow> halted e f"
  by (simp add: flowing_def live_halted)

lemma usages_snoc [simp]: "usages (ys @ [c]) = usages ys @ (if ch_kind c = ''usage'' then [the (ch_usage c)] else [])"
  by (simp add: usages_def)

lemma deltas_snoc [simp]:
  "deltas (ys @ [c]) = deltas ys @ (if ch_kind c = ''content_delta'' then [the (ch_content c)] else [])"
  by (simp add: deltas_def)

lemma numbered_snoc:
  assumes "numbered ys" "ys \<noteq> []" "ch_sequence c = int (length ys)"
    and "ch_kind c = ''usage'' \<Longrightarrow> \<forall>u\<in>set (usages ys). usage_le u (the (ch_usage c))"
  shows "numbered (ys @ [c])"
  using assms by (auto simp: numbered_def sorted_wrt_append)

lemma stream_chunk_simps [simp]:
  "ch_sequence (stream_chunk i n k) = n" "ch_kind (stream_chunk i n k) = k"
  "ch_sequence (terminal_chunk i n response) = n" "ch_kind (terminal_chunk i n response) = ''terminal''"
  "ch_terminal (terminal_chunk i n response) = Some response"
  by (simp_all add: stream_chunk_def terminal_chunk_def)

section \<open>The consumer\<close>

text \<open>Code that iterates over the generator does not throw into it; it can only close it.\<close>

locale stream_reader =
  fixes env :: "('z gateway_state_scheme) stream_env"
  assumes closes: "se_consume env c s = (Inl e, t) \<Longrightarrow> e = GeneratorExit"
begin

lemma runs_yield:
  assumes "\<And>f. P f \<Longrightarrow> Q (f\<lparr>fr_yielded := fr_yielded f @ [c]\<rparr>)"
    and "\<And>f. P f \<Longrightarrow> E GeneratorExit (f\<lparr>fr_yielded := fr_yielded f @ [c]\<rparr>)"
  shows "runs P (yield_chunk env c) (\<lambda>_. Q) E"
  using assms
  by (auto simp: runs_def yield_chunk_def frame_set_def effect_simps outer_def dest: closes
      split: prod.splits sum.splits)

lemma live_yield:
  assumes "\<And>f. P f \<Longrightarrow> live f \<and> fr_sequence f = ch_sequence c" "ch_kind c \<noteq> ''terminal''"
    and "\<And>f. P f \<Longrightarrow> ch_kind c = ''usage'' \<Longrightarrow> \<forall>u\<in>set (usages (fr_yielded f)). usage_le u (the (ch_usage c))"
    and "\<And>f. P f \<Longrightarrow> Q (f\<lparr>fr_yielded := fr_yielded f @ [c]\<rparr>)"
  shows "runs P (yield_chunk env c) (\<lambda>_. Q) halted"
proof (rule runs_yield)
  fix f assume f: "P f"
  then have "numbered (fr_yielded f @ [c])"
    using assms(1) [OF f] assms(3) [OF f] by (intro numbered_snoc) (auto simp: live_def)
  then show "halted GeneratorExit (f\<lparr>fr_yielded := fr_yielded f @ [c]\<rparr>)"
    using assms(1) [OF f] by (auto simp: halted_def protocol_def live_def)
qed (rule assms(4))

lemma terminal_yield: "runs live (yield_terminal env i response) (\<lambda>_ f. finished (fr_yielded f)) halted"
proof -
  have "finished (fr_yielded f @ [terminal_chunk i (fr_sequence f) response])" if "live f" for f
  proof -
    have "numbered (fr_yielded f @ [terminal_chunk i (fr_sequence f) response])"
      using that by (intro numbered_snoc) (auto simp: live_def)
    with that show ?thesis by (auto simp: finished_def protocol_def live_def)
  qed
  then show ?thesis
    unfolding yield_terminal_def
    by (intro runs_bnd [OF runs_frame_get] runs_yield) (auto simp: halted_def finished_def)
qed

lemma outer_then:
  assumes "\<And>f. P f \<Longrightarrow> live f" "\<And>x. runs P (k x) Q halted"
  shows "runs P (bnd (outer m) k) Q halted"
  by (rule runs_bnd [OF runs_outer]) (auto intro: live_halted assms)

lemma advance:
  assumes "\<And>f. P f \<Longrightarrow> live f \<and> fr_sequence f = ch_sequence c" "ch_kind c \<noteq> ''terminal''"
    and "\<And>f. P f \<Longrightarrow> ch_kind c = ''usage'' \<Longrightarrow>
      fr_usage f = ch_usage c \<and> ch_usage c \<noteq> None"
    and "\<And>f. P f \<Longrightarrow> live (f\<lparr>fr_yielded := fr_yielded f @ [c], fr_sequence := fr_sequence f + 1\<rparr>) \<Longrightarrow>
      Q (f\<lparr>fr_yielded := fr_yielded f @ [c], fr_sequence := fr_sequence f + 1\<rparr>)"
  shows "runs P (bnd (yield_chunk env c) (\<lambda>_. next_sequence)) (\<lambda>_. Q) halted"
proof -
  have "runs P (yield_chunk env c) (\<lambda>_ f. Q (f\<lparr>fr_sequence := fr_sequence f + 1\<rparr>)) halted"
  proof (rule live_yield)
    fix f assume f: "P f"
    show u: "\<forall>u\<in>set (usages (fr_yielded f)). usage_le u (the (ch_usage c))" if "ch_kind c = ''usage''"
      using assms(1,3) [OF f] that by (fastforce simp: live_def)
    have "numbered (fr_yielded f @ [c])"
      using assms(1) [OF f] u by (intro numbered_snoc) (auto simp: live_def)
    then have "live (f\<lparr>fr_yielded := fr_yielded f @ [c], fr_sequence := fr_sequence f + 1\<rparr>)"
      using assms(1,3) [OF f] assms(2) by (auto simp: live_def usage_le_def)
    from assms(4) [OF f this]
    show "Q ((f\<lparr>fr_yielded := fr_yielded f @ [c]\<rparr>)\<lparr>fr_sequence :=
        fr_sequence (f\<lparr>fr_yielded := fr_yielded f @ [c]\<rparr>) + 1\<rparr>)" by simp
  qed (use assms in auto)
  then show ?thesis
    unfolding next_sequence_def by (rule runs_bnd) (rule runs_frame_set)
qed

lemma advance_then:
  assumes "runs P (bnd (yield_chunk env c) (\<lambda>_. next_sequence)) (\<lambda>_. Q) halted" "runs Q k R halted"
  shows "runs P (bnd (yield_chunk env c) (\<lambda>_. bnd next_sequence (\<lambda>_. k))) R halted"
  using runs_bnd [OF assms] by simp

lemma content_flows: "runs flowing (content_event env i r owner g text) (\<lambda>_. flowing) halted"
proof -
  let ?Q = "\<lambda>ps f. live f \<and> fr_parts f = ps @ [text] \<and> ps = deltas (fr_yielded f)"
  have tail: "runs (\<lambda>f. ?Q ps f \<and> n = fr_sequence f)
      (bnd (yield_chunk env ((stream_chunk i n ''content_delta'')\<lparr>ch_content := Some text\<rparr>)) (\<lambda>_. next_sequence))
      (\<lambda>_. flowing) halted" for ps n
    by (rule advance) (auto simp: flowing_def)
  have stored: "runs (?Q ps) (bnd (frame_get fr_sequence) (\<lambda>n.
      bnd (outer (modify_invocation i (\<lambda>v. v\<lparr>inv_stream_content := ps @ [text], inv_stream_sequence := n\<rparr>))) (\<lambda>_.
      bnd (outer (fence (se_gateway env) i owner g)) (\<lambda>_.
      bnd (outer (checkpoint i)) (\<lambda>_.
      bnd (yield_chunk env ((stream_chunk i n ''content_delta'')\<lparr>ch_content := Some text\<rparr>)) (\<lambda>_.
      next_sequence)))))) (\<lambda>_. flowing) halted" for ps
    by (intro runs_bnd [OF runs_frame_get] outer_then tail) auto
  have kept: "runs (\<lambda>f. flowing f \<and> ps = fr_parts f) (frame_set (\<lambda>f. f\<lparr>fr_parts := ps @ [text]\<rparr>)) (\<lambda>_. ?Q ps) halted" for ps
    by (rule runs_frame_set) (auto simp: flowing_def live_def)
  show ?thesis
    unfolding content_event_def
    by (intro runs_bnd [OF runs_frame_get] runs_if runs_bnd [OF kept stored] runs_raise)
      (auto simp: flowing_halted)
qed

lemma usage_flows: "runs flowing (usage_event env i model owner g u) (\<lambda>_. flowing) halted"
proof -
  let ?Q = "\<lambda>f. flowing f \<and> fr_usage f = Some u"
  have tail: "runs (\<lambda>f. ?Q f \<and> n = fr_sequence f)
      (bnd (yield_chunk env ((stream_chunk i n ''usage'')\<lparr>ch_usage := Some u\<rparr>)) (\<lambda>_.
       bnd next_sequence (\<lambda>_. outer (observe i operation attrs)))) (\<lambda>_. flowing) halted" for n operation attrs
    by (rule advance_then [OF advance runs_outer]) (auto simp: flowing_def live_halted)
  have kept: "runs (\<lambda>f. flowing f \<and> usage = fr_usage f)
      (frame_set (\<lambda>f. f\<lparr>fr_usage := Some u, fr_partial_usage := Some u\<rparr>)) (\<lambda>_. ?Q) halted"
    if "\<not> usage_regressed usage u" for usage
    using that
    by (intro runs_frame_set) (fastforce simp: flowing_def live_def usage_regressed_def usage_le_def)
  have live: "?Q f \<Longrightarrow> live f" "?Q f \<and> n = fr_sequence f \<Longrightarrow> live f" for f n
    by (simp_all add: flowing_def)
  show ?thesis
    unfolding usage_event_def
    by (intro runs_bnd [OF runs_frame_get] runs_if runs_bnd [OF kept] outer_then live tail runs_raise)
      (auto simp: flowing_halted)
qed

lemma event_flows: "runs flowing (stream_event env i r model owner g e) (\<lambda>_. flowing) halted"
  unfolding stream_event_def
  by (intro runs_option runs_if content_flows usage_flows runs_done)

lemma events_flow: "runs flowing (stream_events env i r model owner g ds) (\<lambda>_. flowing) halted"
proof (induction ds)
  case Nil
  show ?case by (simp add: runs_done)
next
  case (Cons d ds)
  show ?case
    unfolding stream_events.simps
    by (intro outer_then runs_bnd [OF event_flows Cons]) (simp add: flowing_def)
qed

lemma flowing_live: "flowing f \<Longrightarrow> live f"
  by (simp add: flowing_def)

lemma prepare_flows: "runs flowing (stream_prepare env i r) (\<lambda>_. flowing) halted"
proof -
  have set: "runs flowing (frame_set (\<lambda>f. f\<lparr>fr_reserved := b\<rparr>)) (\<lambda>_. flowing) halted"
    "runs flowing (frame_set (\<lambda>f. f\<lparr>fr_input_tokens := k\<rparr>)) (\<lambda>_. flowing) halted"
    "runs flowing (frame_set (\<lambda>f. f\<lparr>fr_partial_usage := u, fr_parts := ps\<rparr>)) (\<lambda>_. live) halted" for b k u ps
    by (auto intro!: runs_frame_set simp: flowing_def live_def)
  have fail: "runs live (raise e) (\<lambda>_. flowing) halted" for e :: exn
    by (rule runs_raise) (rule live_halted)
  have seq: "runs flowing (frame_get fr_sequence) (\<lambda>_. flowing) halted"
    by (rule runs_mono [OF runs_frame_get]) auto
  have split: "(\<And>x y z. runs P (h x y z) Q E) \<Longrightarrow> runs P (case p of (x, y, z) \<Rightarrow> h x y z) Q E"
    for P :: "stream_frame \<Rightarrow> bool" and h and Q :: "string \<times> int \<times> RouteDecision \<Rightarrow> stream_frame \<Rightarrow> bool" and E and p :: "'a \<times> 'b \<times> 'c"
    by (cases p) simp
  show ?thesis
    unfolding stream_prepare_def Let_def
    by (intro outer_then runs_if runs_bnd [OF set(3) fail] split runs_bnd [OF set(1)] runs_bnd [OF set(2)]
        runs_bnd [OF seq] runs_done flowing_live)
qed

lemma relay_flows: "runs flowing (stream_relay env i r owner g prompt route) (\<lambda>_. flowing) halted"
proof -
  have start: "runs (\<lambda>f. flowing f \<and> n = fr_sequence f)
      (bnd (yield_chunk env (stream_chunk i n ''stream_start'')) (\<lambda>_. next_sequence)) (\<lambda>_. flowing) halted" for n
    by (rule advance) (auto simp: flowing_def)
  have handler: "runs (halted e) (if e = TimeoutError
      then raise (ProviderFailure ''AI_PROVIDER_EFFECT_AMBIGUOUS'' False None) else raise e) (\<lambda>_. flowing) halted" for e
    by (auto intro!: runs_raise simp: halted_def)
  show ?thesis
    unfolding stream_relay_def
    by (intro runs_bnd [OF runs_frame_get] advance_then [OF start] outer_then runs_catch [OF _ handler]
        events_flow flowing_live)
qed

lemma settle_flows: "runs flowing (stream_settle env i r owner g tokens route) (\<lambda>_. live) halted"
proof -
  have get: "runs flowing (frame_get h) (\<lambda>_. flowing) halted" for h :: "stream_frame \<Rightarrow> 'c"
    by (rule runs_mono [OF runs_frame_get]) auto
  have fail: "runs flowing (raise e) (\<lambda>_. live) halted" for e :: exn
    by (rule runs_raise) (auto simp: flowing_halted)
  have last: "runs flowing (outer m) (\<lambda>_. live) halted" for m :: "('a gateway_state_scheme, AIInvocationResponse) eff"
    by (rule runs_mono [OF runs_outer [of flowing halted]]) (auto simp: flowing_halted flowing_def)
  show ?thesis
    unfolding stream_settle_def Let_def
    by (intro runs_bnd [OF get] runs_if fail outer_then flowing_live last)
qed

lemma produce_flows: "runs flowing (stream_produce env i r owner g) (\<lambda>_. live) halted"
proof -
  have "runs flowing (case x of (prompt, tokens, route) \<Rightarrow>
      bnd (stream_relay env i r owner g prompt route) (\<lambda>_. stream_settle env i r owner g tokens route)) (\<lambda>_. live) halted" for x
    by (cases x) (auto intro: runs_bnd [OF relay_flows settle_flows])
  then show ?thesis
    unfolding stream_produce_def by (rule runs_bnd [OF prepare_flows])
qed

section \<open>Failures and the terminal chunk\<close>

lemma live_set: "runs live (frame_set (\<lambda>f. f\<lparr>fr_partial_usage := u\<rparr>)) (\<lambda>_. live) halted"
  by (rule runs_frame_set) (simp add: live_def)

lemma live_get: "runs live (frame_get h) (\<lambda>_. live) halted"
  by (rule runs_mono [OF runs_frame_get]) auto

lemma live_outer: "runs live (outer m) (\<lambda>_. live) halted"
  by (rule runs_outer) (rule live_halted)

lemmas live_rules = runs_bnd [OF live_get] runs_bnd [OF live_set] runs_bnd [OF live_outer] live_outer
  runs_if runs_option runs_done

lemma partial_live: "runs live (settle_partial env i owner g state consumed) (\<lambda>_. live) halted"
  unfolding settle_partial_def Let_def by (intro live_rules)

lemma failed_live: "runs live (failed_response i code retryable) (\<lambda>_. live) halted"
  unfolding failed_response_def Let_def by (intro live_rules)

lemma some_handled:
  "runs live m (\<lambda>_. live) halted \<Longrightarrow> runs live (bnd m (\<lambda>response. ret (Some response))) handled halted"
  by (rule runs_bnd, assumption) (rule runs_ret, simp add: handled_def)

lemma lost_handled:
  "runs live (bnd (outer m) (\<lambda>response. bnd (yield_terminal env i response) (\<lambda>_. ret None))) handled halted"
proof -
  have "runs (\<lambda>f. finished (fr_yielded f)) (ret None) handled halted"
    by (simp add: runs_def effect_simps handled_def)
  then show ?thesis by (intro runs_bnd [OF live_outer] runs_bnd [OF terminal_yield])
qed

lemma error_handled: "runs (halted e) (stream_error env i owner g e) handled halted"
proof (cases "e = GeneratorExit")
  case True
  then show ?thesis by (auto simp: stream_error_def intro: runs_raise)
next
  case False
  then have h: "halted e f \<Longrightarrow> live f" for f by (simp add: halted_def)
  have failing: "runs live (bnd (if b then frame_set (\<lambda>f. f\<lparr>fr_partial_usage := u\<rparr>) else ret ()) (\<lambda>_.
      bnd (settle_partial env i owner g state consumed) (\<lambda>_.
      bnd (failed_response i code again) (\<lambda>response. ret (Some response))))) handled halted"
    for b u state consumed code again
    by (rule runs_bnd [OF runs_if [OF live_set runs_done]]) (intro runs_bnd [OF partial_live] some_handled failed_live)
  have failed: "runs live (let (code, again, used) = x in
      bnd (if used \<noteq> None then frame_set (\<lambda>f. f\<lparr>fr_partial_usage := used\<rparr>) else ret ()) (\<lambda>_.
      bnd (settle_partial env i owner g state consumed) (\<lambda>_.
      bnd (failed_response i code again) (\<lambda>response. ret (Some response))))) handled halted"
    for x :: "string \<times> bool \<times> AIUsage option" and state consumed
    by (cases x) (simp only: Let_def prod.case failing)
  have "runs live (stream_error env i owner g e) handled halted"
    unfolding stream_error_def
    by (cases e; simp only: exn.case; intro runs_if runs_bnd [OF partial_live] some_handled failed_live runs_raise
        lost_handled failed live_halted)
  then show ?thesis by (rule runs_mono) (auto intro: h)
qed

lemma terminalize_completes:
  "runs live (stream_terminalize env i owner g response) (\<lambda>_ f. finished (fr_yielded f)) halted"
  unfolding stream_terminalize_def by (intro live_rules terminal_yield)

lemma claimed_completes:
  "runs flowing (stream_claimed env i r owner g) (\<lambda>_ f. finished (fr_yielded f)) halted"
proof -
  have intent: "runs flowing (bnd (outer a) (\<lambda>_. bnd (outer b) (\<lambda>_. bnd (outer c) (\<lambda>_. yield_terminal env i response))))
      (\<lambda>_ f. finished (fr_yielded f)) halted" for a b c :: "('z gateway_state_scheme, unit) eff" and response
    by (rule runs_mono [OF runs_bnd [OF live_outer runs_bnd [OF live_outer runs_bnd [OF live_outer terminal_yield]]]])
      (auto simp: flowing_def)
  have body: "runs flowing (catch (bnd (stream_produce env i r owner g) (\<lambda>response. ret (Some response)))
      (stream_error env i owner g)) handled halted"
    by (rule runs_catch [OF runs_bnd [OF produce_flows] error_handled])
      (rule runs_ret, simp add: handled_def)
  have tail: "runs (handled x) (case x of None \<Rightarrow> ret () | Some response \<Rightarrow> stream_terminalize env i owner g response)
      (\<lambda>_ f. finished (fr_yielded f)) halted" for x
    by (cases x) (auto simp: handled_def [abs_def] runs_done terminalize_completes)
  show ?thesis
    unfolding stream_claimed_def
    by (intro outer_then flowing_live runs_option intent runs_bnd [OF body tail])
qed

lemma acknowledge_then:
  assumes "runs flowing k Q (\<lambda>_ f. protocol (fr_yielded f))"
  shows "runs ((=) empty_frame) (bnd (yield_chunk env (stream_chunk i 0 ''acknowledgement'')) (\<lambda>_.
     bnd (frame_set (\<lambda>f. f\<lparr>fr_sequence := 1\<rparr>)) (\<lambda>_. k))) Q (\<lambda>_ f. protocol (fr_yielded f))"
proof -
  have "runs ((=) empty_frame) (yield_chunk env (stream_chunk i 0 ''acknowledgement''))
      (\<lambda>_ f. flowing (f\<lparr>fr_sequence := 1\<rparr>)) (\<lambda>_ f. protocol (fr_yielded f))"
    by (rule runs_yield)
      (auto simp: empty_frame_def flowing_def live_def protocol_def numbered_def usages_def deltas_def)
  then show ?thesis by (rule runs_bnd) (rule runs_bnd [OF runs_frame_set assms])
qed

lemma unopened: "runs ((=) empty_frame) (outer m) (\<lambda>_. (=) empty_frame) (\<lambda>_ f. protocol (fr_yielded f))"
  by (rule runs_outer) (auto simp: empty_frame_def protocol_def numbered_def usages_def)

lemma halted_protocol: "halted e f \<Longrightarrow> protocol (fr_yielded f)"
  by (auto simp: halted_def live_protocol split: if_splits)

lemma stream_finishes:
  "runs ((=) empty_frame) (gateway_stream env r) (\<lambda>_ f. finished (fr_yielded f)) (\<lambda>_ f. protocol (fr_yielded f))"
proof -
  have relayed: "runs flowing (bnd (outer m) (\<lambda>response. yield_terminal env i response)) (\<lambda>_ f. finished (fr_yielded f)) halted"
    "runs flowing (yield_terminal env i response) (\<lambda>_ f. finished (fr_yielded f)) halted" for m i response
    by (rule runs_mono [OF runs_bnd [OF live_outer terminal_yield]] runs_mono [OF terminal_yield], auto simp: flowing_def)+
  have body: "runs flowing k (\<lambda>_ f. finished (fr_yielded f)) halted \<Longrightarrow>
      runs flowing k (\<lambda>_ f. finished (fr_yielded f)) (\<lambda>_ f. protocol (fr_yielded f))" for k :: "('z gateway_state_scheme, unit) gen"
    by (erule runs_mono) (auto intro: halted_protocol)
  show ?thesis
    unfolding gateway_stream_def Let_def
    by (intro runs_bnd [OF unopened] acknowledge_then) (intro body outer_then flowing_live runs_option relayed claimed_completes)
qed

end

section \<open>The reader of the HTTP host\<close>

text \<open>The loop of \<^verbatim>\<open>events()\<close> in \<^verbatim>\<open>apps/api/.../main.py\<close> renders every chunk and asks for the next one
  until the connection is gone.\<close>

definition http_reader :: "('s \<Rightarrow> bool) \<Rightarrow> StreamChunk \<Rightarrow> ('s, unit) eff" where
  "http_reader gone c = bnd (asks gone) (\<lambda>b. if b then raise GeneratorExit else ret ())"

definition http_env ::
  "('z gateway_state_scheme) gateway_env \<Rightarrow> ('z gateway_state_scheme) provider_stream
   \<Rightarrow> ('z gateway_state_scheme \<Rightarrow> bool) \<Rightarrow> ('z gateway_state_scheme) stream_env"
where
  "http_env gw st gone = \<lparr>se_gateway = gw, se_stream = st, se_consume = http_reader gone\<rparr>"

interpretation http: stream_reader "http_env gw st gone"
  by unfold_locales (auto simp: http_env_def http_reader_def effect_simps split: if_splits)

section \<open>Settlement\<close>

lemma frame_get_InrD: "frame_get h (f, s) = (Inr x, g, t) \<Longrightarrow> x = h f \<and> g = f \<and> t = s"
  by (simp add: frame_get_def)

lemma success_content:
  "success tx i content usage route hit s = (Inr x, t) \<Longrightarrow> rsp_content x = Some content"
  unfolding success_def Let_def by (auto elim!: bnd_InrE)

lemma settle_outcome:
  assumes "stream_settle env i r owner g tokens route (f, s) = (Inr response, f', t)"
  shows "f' = f \<and> rsp_content response = Some (concat (fr_parts f))
    \<and> estimate (concat (fr_parts f)) \<le> rq_max_output_tokens r
    \<and> (\<exists>cost. dval cost \<le> dval (rq_max_total_cost r) \<and> settled_at i cost t)"
proof -
  from assms obtain usage cost s1 s2 s3 where
    "f' = f" "estimate (concat (fr_parts f)) \<le> rq_max_output_tokens r" and
    cost: "dval cost \<le> dval (rq_max_total_cost r)" and
    settled: "reconcile i cost usage (Some (owner, g)) s1 = (Inr (), s2)" and
    answer: "success (ge_tx (se_gateway env)) i (concat (fr_parts f)) usage route False s2 = (Inr response, t)"
    unfolding stream_settle_def Let_def
    by (auto simp: dec_order not_less elim!: bnd_InrE dest!: outer_InrD frame_get_InrD split: if_splits)
  moreover have "settled_at i cost t"
    using reconcile_settles [OF settled] keepsD [OF keeps_success(2) _ answer] by auto
  ultimately show ?thesis using success_content [OF answer] by auto
qed

definition started :: "string \<Rightarrow> 'z gateway_state_scheme \<Rightarrow> bool" where
  "started i s \<longleftrightarrow> (\<exists>v. map_of (invocations s) i = Some v \<and> inv_stream_started v)"

lemma keeps_started: "keeps (started i) (checkpoint j)" "keeps (started i) (observe j operation attrs)"
  by (rule quiet_effects keeps_observe, simp add: stable_def started_def)+

lemma mark_started:
  "modify_invocation i (\<lambda>v. v\<lparr>inv_stream_started := True, inv_stream_sequence := n\<rparr>) s = (Inr u, t) \<Longrightarrow> started i t"
  by (auto simp: modify_invocation_def load_invocation_def started_def effect_simps split: option.splits)

lemmas start_recorded = keepsD [OF keeps_started(2) keepsD [OF keeps_started(1) mark_started]]

section \<open>Properties\<close>

text \<open>C28 (safety). The protocol of a stream, for every request, provider, interleaving and point where the
  reader closes the generator: the chunks are numbered consecutively from 0, the first is the
  acknowledgement, reported usage never decreases, a terminal chunk is never followed by another
  chunk, and a generator that ends normally has yielded its terminal chunk with the response.\<close>

theorem stream_chunks_in_order:
  assumes "\<And>c s e t. se_consume env c s = (Inl e, t) \<Longrightarrow> e = GeneratorExit"
    and "gateway_stream env r (empty_frame, s) = (outcome, f, t)"
  shows "map ch_sequence (fr_yielded f) = map int [0..<length (fr_yielded f)]
    \<and> sorted_wrt usage_le (usages (fr_yielded f))
    \<and> (\<forall>c\<in>set (butlast (fr_yielded f)). ch_kind c \<noteq> ''terminal'')
    \<and> (outcome = Inr () \<longrightarrow> ch_kind (hd (fr_yielded f)) = ''acknowledgement''
        \<and> ch_kind (last (fr_yielded f)) = ''terminal'' \<and> ch_terminal (last (fr_yielded f)) \<noteq> None)"
proof -
  have reader: "stream_reader env" by unfold_locales (rule assms(1))
  from stream_reader.stream_finishes [OF reader, unfolded runs_def, rule_format, OF refl, of r s] assms(2)
  show ?thesis
    by (cases outcome) (auto simp: protocol_def finished_def numbered_def)
qed

text \<open>C30 (functional). What a stream that runs to its end returns: the text of the response is exactly what was
  delivered to the reader, piece by piece and in order, it is within the output limit of the request, and
  the budget reservation is settled at a cost within the request's limit.\<close>

theorem streamed_content_exact:
  assumes "\<And>c s e t. se_consume env c s = (Inl e, t) \<Longrightarrow> e = GeneratorExit"
    and "f = empty_frame\<lparr>fr_sequence := 1, fr_yielded := [stream_chunk i 0 ''acknowledgement'']\<rparr>"
    and "stream_produce env i r owner g (f, s) = (Inr response, f', t)"
  shows "rsp_content response = Some (concat (deltas (fr_yielded f')))
    \<and> estimate (concat (deltas (fr_yielded f'))) \<le> rq_max_output_tokens r
    \<and> (\<exists>cost. dval cost \<le> dval (rq_max_total_cost r) \<and> settled_at i cost t)"
proof -
  have reader: "stream_reader env" by unfold_locales (rule assms(1))
  have f: "flowing f"
    using assms(2) by (simp add: empty_frame_def flowing_def live_def numbered_def usages_def deltas_def)
  from assms(3) obtain prompt tokens route f1 s1 f2 s2 where
    prepared: "stream_prepare env i r (f, s) = (Inr (prompt, tokens, route), f1, s1)" and
    relayed: "stream_relay env i r owner g prompt route (f1, s1) = (Inr (), f2, s2)" and
    settled: "stream_settle env i r owner g tokens route (f2, s2) = (Inr response, f', t)"
    unfolding stream_produce_def by (auto elim!: bnd_InrE)
  have "flowing f1"
    by (rule runsD [OF stream_reader.prepare_flows [OF reader] f prepared])
  then have "flowing f2"
    by (rule runsD [OF stream_reader.relay_flows [OF reader] _ relayed])
  with settle_outcome [OF settled] show ?thesis by (auto simp: flowing_def)
qed

text \<open>The provider is asked for a stream at most once per invocation: when the preparation of a stream
  succeeds, the invocation is marked as started in the store before the provider is called, and a worker
  that claims an invocation marked in this way does not ask a provider again, whatever the provider
  would answer, but fails with the ambiguous effect and leaves the store as it is.\<close>

theorem stream_opened_once:
  "(stream_prepare env i r (f, s) = (Inr x, f', t) \<longrightarrow>
      (\<exists>v. map_of (invocations t) i = Some v \<and> inv_stream_started v))
   \<and> (map_of (invocations s) i = Some v \<and> inv_stream_started v \<longrightarrow>
      (\<exists>f'. stream_produce (env\<lparr>se_stream := provider\<rparr>) i r owner g (f, s) =
         (Inl (ProviderFailure ''AI_PROVIDER_EFFECT_AMBIGUOUS'' False None), f', s)))"
proof
  show "stream_prepare env i r (f, s) = (Inr x, f', t) \<longrightarrow>
      (\<exists>v. map_of (invocations t) i = Some v \<and> inv_stream_started v)"
    unfolding stream_prepare_def Let_def started_def [symmetric]
    by (auto elim!: bnd_InrE dest!: outer_InrD split: if_splits) (rule start_recorded)
  show "map_of (invocations s) i = Some v \<and> inv_stream_started v \<longrightarrow>
      (\<exists>f'. stream_produce (env\<lparr>se_stream := provider\<rparr>) i r owner g (f, s) =
         (Inl (ProviderFailure ''AI_PROVIDER_EFFECT_AMBIGUOUS'' False None), f', s))"
    by (simp add: stream_produce_def stream_prepare_def load_invocation_def frame_set_def Let_def effect_simps)
qed

section \<open>Reported cost\<close>

text \<open>
  \<^verbatim>\<open>stream\<close> never assigns the cumulative cost that \<^verbatim>\<open>_success\<close> prints, so the evidence attached to a
  successful stream has an empty actual cost, whatever its reservation was settled at.
\<close>

lemma success_evidence:
  assumes "success tx i content usage route hit s = (Inr x, t)" "cost_is i c s"
  shows "\<exists>v k. res_metadata (rsp_result x) = accounting_evidence v k \<and> inv_cumulative_cost v = c"
proof -
  from assms(1) obtain u v s1 s2 k where
    moved: "transition i INV_SUCCEEDED s = (Inr u, s1)" and loaded: "load_invocation i s1 = (Inr v, s2)" and
    evidence: "res_metadata (rsp_result x) = accounting_evidence v k"
    unfolding success_def Let_def by (auto elim!: bnd_InrE)
  from keepsD [OF keeps_transition(1) assms(2) moved] loaded have "inv_cumulative_cost v = c"
    by (auto simp: load_invocation_def cost_is_def effect_simps split: option.splits)
  with evidence show ?thesis by blast
qed

theorem streamed_cost_unreported:
  assumes "stream_settle env i r owner g tokens route (f, s) = (Inr response, f', t)" "cost_is i 0 s"
  shows "\<exists>e. pget (res_metadata (rsp_result response)) ''gateway_accounting_evidence'' = PDict e
    \<and> pget e ''status'' = PStr ''settled'' \<and> pget e ''actual_cost'' = PStr []"
proof -
  from assms(1) obtain usage cost row s1 s2 where
    noted: "record_attempt i row s = (Inr (), s1)" and
    settled: "reconcile i cost usage (Some (owner, g)) s1 = (Inr (), s2)" and
    answer: "success (ge_tx (se_gateway env)) i (concat (fr_parts f)) usage route False s2 = (Inr response, t)"
    unfolding stream_settle_def Let_def
    by (auto elim!: bnd_InrE dest!: outer_InrD frame_get_InrD split: if_splits)
  have "cost_is i 0 s2"
    by (rule keepsD [OF keeps_reconcile keepsD [OF quiet_effects(9) [OF stable_outcomes(1)] assms(2) noted] settled])
  with success_evidence [OF answer] obtain v k where
    "res_metadata (rsp_result response) = accounting_evidence v k" "inv_cumulative_cost v = 0" by blast
  moreover have "actual_cost_text 0 = []"
    by (simp add: actual_cost_text_def decimal_fixed_def zero_decimal_def show_int_def show_nat_0 rstrip_by_def)
  ultimately show ?thesis by (simp add: accounting_evidence_def)
qed

section \<open>Concrete streams\<close>

definition sample_deliveries :: "gateway_state provider_stream" where
  "sample_deliveries = (\<lambda>adapter model prompt r timeout. ret
     [ret \<lparr>pe_kind = ''content_delta'', pe_content = Some ''fine'', pe_usage = None\<rparr>,
      ret \<lparr>pe_kind = ''usage'', pe_content = None, pe_usage = Some (usage_of 10 2)\<rparr>])"

definition sample_reader :: "gateway_state stream_env" where
  "sample_reader = http_env sample_env sample_deliveries (\<lambda>_. False)"

definition sample_frame :: stream_frame where
  "sample_frame = empty_frame\<lparr>fr_sequence := 1, fr_yielded := [stream_chunk ''ai1'' 0 ''acknowledgement'']\<rparr>"

text \<open>The sample invocation, accepted and claimed.\<close>

definition stream_ready :: gateway_state where
  "stream_ready = gateway_empty\<lparr>invocations := [(''ai1'', (new_invocation sample_request ''ai1'' sample_ack 0)
     \<lparr>inv_execution_owner := Some ''worker'', inv_claim_generation := 1\<rparr>)], lifecycle := [(''ai1'', [INV_REQUESTED])]\<rparr>"

definition stream_begun :: gateway_state where
  "stream_begun = stream_ready\<lparr>invocations := [(''ai1'', (new_invocation sample_request ''ai1'' sample_ack 0)
     \<lparr>inv_execution_owner := Some ''worker'', inv_claim_generation := 1, inv_stream_started := True\<rparr>)]\<rparr>"

definition sample_stream :: "(exn + unit) \<times> stream_frame \<times> gateway_state" where
  "sample_stream = gateway_stream sample_reader sample_request (empty_frame, gateway_empty)"

lemma sample_reader_closes: "se_consume sample_reader c s = (Inl e, t) \<Longrightarrow> e = GeneratorExit"
  unfolding sample_reader_def by (rule http.closes)

lemma sample_stream_run: "(case sample_stream of (r, f, t) \<Rightarrow> (r, length (fr_yielded f))) = (Inr (), 5)"
  by code_simp

lemma sample_stream_ends: "fst sample_stream = Inr () \<and> length (fr_yielded (fst (snd sample_stream))) = 5"
  using sample_stream_run by (auto simp: split_beta)

theorem stream_chunks_in_order_witness:
  "map ch_sequence (fr_yielded (fst (snd sample_stream))) = [0, 1, 2, 3, 4]
    \<and> ch_kind (last (fr_yielded (fst (snd sample_stream)))) = ''terminal''"
proof -
  have run: "gateway_stream sample_reader sample_request (empty_frame, gateway_empty) =
      (Inr (), fst (snd sample_stream), snd (snd sample_stream))"
    using sample_stream_ends by (metis prod.collapse sample_stream_def)
  show ?thesis
    using stream_chunks_in_order [OF sample_reader_closes run] sample_stream_ends by (simp add: upt_rec)
qed

definition sample_production :: "(exn + AIInvocationResponse) \<times> stream_frame \<times> gateway_state" where
  "sample_production = stream_produce sample_reader ''ai1'' sample_request ''worker'' 1 (sample_frame, stream_ready)"

lemma sample_production_run:
  "(case sample_production of (r, f, t) \<Rightarrow> (case r of Inr x \<Rightarrow> True | Inl e \<Rightarrow> False, deltas (fr_yielded f))) =
     (True, [''fine''])"
  by code_simp

lemma sample_production_succeeds:
  "(case fst sample_production of Inr x \<Rightarrow> True | Inl e \<Rightarrow> False) \<and> deltas (fr_yielded (fst (snd sample_production))) = [''fine'']"
  using sample_production_run by (auto simp: split_beta)

theorem streamed_content_exact_witness:
  "\<exists>response. fst sample_production = Inr response \<and> rsp_content response = Some ''fine''"
proof -
  obtain response where "fst sample_production = Inr response"
    using sample_production_succeeds by (auto split: sum.splits)
  then have run: "stream_produce sample_reader ''ai1'' sample_request ''worker'' 1 (sample_frame, stream_ready) =
      (Inr response, fst (snd sample_production), snd (snd sample_production))"
    by (metis prod.collapse sample_production_def)
  from streamed_content_exact [OF sample_reader_closes sample_frame_def run] sample_production_succeeds
  show ?thesis using \<open>fst sample_production = Inr response\<close> by simp
qed

lemma sample_prepares:
  "case fst (stream_prepare sample_reader ''ai1'' sample_request (sample_frame, stream_ready)) of Inr x \<Rightarrow> True | Inl e \<Rightarrow> False"
  by code_simp

theorem stream_opened_once_witness:
  "(\<exists>x f t v. stream_prepare sample_reader ''ai1'' sample_request (sample_frame, stream_ready) = (Inr x, f, t)
      \<and> map_of (invocations t) ''ai1'' = Some v \<and> inv_stream_started v)
   \<and> (\<exists>f. stream_produce (sample_reader\<lparr>se_stream := sample_deliveries\<rparr>) ''ai1'' sample_request ''worker'' 1
        (sample_frame, stream_begun) = (Inl (ProviderFailure ''AI_PROVIDER_EFFECT_AMBIGUOUS'' False None), f, stream_begun))"
proof
  obtain x f t where run: "stream_prepare sample_reader ''ai1'' sample_request (sample_frame, stream_ready) = (Inr x, f, t)"
    using sample_prepares
    by (cases "stream_prepare sample_reader ''ai1'' sample_request (sample_frame, stream_ready)") (auto split: sum.splits)
  with stream_opened_once [where env = sample_reader and i = "''ai1''" and r = sample_request]
  show "\<exists>x f t v. stream_prepare sample_reader ''ai1'' sample_request (sample_frame, stream_ready) = (Inr x, f, t)
      \<and> map_of (invocations t) ''ai1'' = Some v \<and> inv_stream_started v" by blast
  have "\<exists>v. map_of (invocations stream_begun) ''ai1'' = Some v \<and> inv_stream_started v"
    by (simp add: stream_begun_def)
  with stream_opened_once [where env = sample_reader and i = "''ai1''" and r = sample_request and s = stream_begun]
  show "\<exists>f. stream_produce (sample_reader\<lparr>se_stream := sample_deliveries\<rparr>) ''ai1'' sample_request ''worker'' 1
      (sample_frame, stream_begun) = (Inl (ProviderFailure ''AI_PROVIDER_EFFECT_AMBIGUOUS'' False None), f, stream_begun)"
    by blast
qed

end
