(* ===== verification/Provider_Http.thy ===== *)
theory Provider_Http
  imports Reference_Components Stream_Protocol
begin

text \<open>
  What the two live provider adapters (\<^verbatim>\<open>adapters/ai_provider_openai\<close> and
  \<^verbatim>\<open>adapters/ai_provider_gemini\<close>) share: the HTTP client as they see it, the schemas they send and the
  reading of untyped response bodies.

  The HTTP client is a third-party library and an argument here: a request either raises a transport
  exception or gives a response with the attributes the adapters read, among them whether
  \<^verbatim>\<open>raise_for_status\<close> raises and the value or exception of \<^verbatim>\<open>json()\<close>; a streamed response
  is the list of its lines and the exception, if any, that ends them. Other tasks run whenever a line is
  awaited (\<open>hc_idle\<close>). \<^verbatim>\<open>str\<close> of a value that is not a string is an argument as well.
\<close>

record http_response =
  hr_status :: int
  hr_is_success :: bool
  hr_raises :: bool
  hr_json :: "exn + pyval"
  hr_header :: "string \<Rightarrow> string option"

record http_lines =
  hl_response :: http_response
  hl_lines :: "string list"
  hl_failure :: "exn option"

record 's http_client =
  hc_post :: "string \<Rightarrow> pyval \<Rightarrow> ('s, http_response) eff"
  hc_stream :: "string \<Rightarrow> pyval \<Rightarrow> ('s, http_lines) eff"
  hc_aread :: "http_response \<Rightarrow> ('s, unit) eff"
  hc_idle :: "('s, unit) eff"

record 's adapter_config =
  ad_tx :: text_services
  ad_str :: "pyval \<Rightarrow> string"
  ad_client :: "'s http_client"
  ad_boundary :: "'s effect_boundary option"

record provider_state = gateway_state +
  openai_http_diagnostic :: "pydict option"
  openai_terminal_diagnostic :: "pydict option"
  gemini_diagnostic :: "pydict option"

definition use_effect_boundary :: "'s effect_boundary \<Rightarrow> 's adapter_config \<Rightarrow> 's adapter_config" where
  "use_effect_boundary boundary cfg = cfg\<lparr>ad_boundary := Some boundary\<rparr>"

section \<open>Untyped values\<close>

fun py_true :: "pyval \<Rightarrow> bool" where
  "py_true PNone = False"
| "py_true (PBool b) = b"
| "py_true (PInt i) = (i \<noteq> 0)"
| "py_true (PFloat x) = (x \<noteq> 0)"
| "py_true (PStr s) = (s \<noteq> [])"
| "py_true (PList xs) = (xs \<noteq> [])"
| "py_true (PTuple xs) = (xs \<noteq> [])"
| "py_true (PDict d) = (d \<noteq> [])"

definition py_or :: "pyval \<Rightarrow> pyval \<Rightarrow> pyval" where
  "py_or a b = (if py_true a then a else b)"

definition py_text :: "(pyval \<Rightarrow> string) \<Rightarrow> pyval \<Rightarrow> string" where
  "py_text repr v = (case v of PStr s \<Rightarrow> s | _ \<Rightarrow> repr v)"

fun as_list :: "pyval \<Rightarrow> pyval list option" where
  "as_list (PList xs) = Some xs"
| "as_list _ = None"

text \<open>\<^verbatim>\<open>cast(dict, v) if isinstance(v, dict) else {}\<close>\<close>

definition dict_or_empty :: "pyval \<Rightarrow> pydict" where
  "dict_or_empty v = (case as_map v of None \<Rightarrow> [] | Some d \<Rightarrow> d)"

fun hashable :: "pyval \<Rightarrow> bool" where
  "hashable (PList _) = False"
| "hashable (PDict _) = False"
| "hashable (PTuple xs) = list_all hashable xs"
| "hashable _ = True"

text \<open>\<^verbatim>\<open>_count\<close>: \<^verbatim>\<open>bool\<close> is an \<^verbatim>\<open>int\<close>, so \<^verbatim>\<open>True\<close> counts as one.\<close>

definition token_value :: "pyval \<Rightarrow> int" where
  "token_value v = (case as_int v of None \<Rightarrow> 0 | Some n \<Rightarrow> if 0 \<le> n then n else 0)"

definition reported_usage :: "pyval \<Rightarrow> pyval \<Rightarrow> pyval \<Rightarrow> pyval \<Rightarrow> AIUsage" where
  "reported_usage a b c d =
     \<lparr>input_tokens = token_value a, output_tokens = token_value b,
      cached_tokens = token_value c, reasoning_tokens = token_value d, estimated = False\<rparr>"

text \<open>\<^verbatim>\<open>_latest_usage\<close>, the same in both adapters.\<close>

definition latest_usage :: "AIUsage option \<Rightarrow> AIUsage option \<Rightarrow> exn + AIUsage option" where
  "latest_usage current reported = (case reported of
       None \<Rightarrow> Inr current
     | Some u \<Rightarrow>
         if usage_regressed current u then Inl (ProviderFailure ''AI_NON_MONOTONIC_USAGE'' False current)
         else Inr (Some u))"

definition content_delta :: "string \<Rightarrow> ProviderStreamEvent" where
  "content_delta text = \<lparr>pe_kind = ''content_delta'', pe_content = Some text, pe_usage = None\<rparr>"

definition usage_report :: "AIUsage \<Rightarrow> ProviderStreamEvent" where
  "usage_report u = \<lparr>pe_kind = ''usage'', pe_content = None, pe_usage = Some u\<rparr>"

section \<open>Schemas\<close>

fun provider_json :: "pyval \<Rightarrow> pyval" where
  "provider_json (PDict d) = PDict (map (\<lambda>(k, v). (k, provider_json v)) d)"
| "provider_json (PTuple xs) = PList (map provider_json xs)"
| "provider_json v = v"

definition string_schema :: pyval where
  "string_schema = PDict [(''type'', PStr ''string'')]"

definition answer_schema :: pydict where
  "answer_schema =
     [(''type'', PStr ''object''),
      (''properties'', PDict [(''answer'', string_schema), (''model'', string_schema)]),
      (''required'', PList [PStr ''answer'', PStr ''model'']), (''additionalProperties'', PBool False)]"

definition analysis_schema :: pydict where
  "analysis_schema =
     [(''type'', PStr ''object''),
      (''properties'', PDict [(''result'', PDict
         [(''type'', PStr ''object''),
          (''properties'', PDict
             [(''summary'', string_schema),
              (''items'', PDict [(''type'', PStr ''array''), (''items'', string_schema)])]),
          (''required'', PList [PStr ''summary'', PStr ''items'']), (''additionalProperties'', PBool False)])]),
      (''required'', PList [PStr ''result'']), (''additionalProperties'', PBool False)]"

definition provider_schemas :: "(string, pydict) odict" where
  "provider_schemas =
     [(''answer-v1'', answer_schema), (''reference-answer-v1'', answer_schema), (''analysis-v1'', analysis_schema)]"

text \<open>\<^verbatim>\<open>request.output_schema or _SCHEMAS.get(ref)\<close>: an empty schema is falsy.\<close>

definition requested_schema :: "AIInvocationRequest \<Rightarrow> exn + pydict" where
  "requested_schema r =
     (let named = map_of provider_schemas (case rq_output_schema_ref r of None \<Rightarrow> [] | Some x \<Rightarrow> x) in
      case (case rq_output_schema r of Some d \<Rightarrow> if d \<noteq> [] then Some d else named | None \<Rightarrow> named) of
        None \<Rightarrow> Inl (ProviderFailure ''AI_SCHEMA_NOT_SUPPORTED'' False None)
      | Some d \<Rightarrow> Inr d)"

definition effect_type :: "string \<Rightarrow> string" where
  "effect_type effect_key =
     (if contains '':repair:'' effect_key then ''structured_repair'' else ''provider_invoke'')"

section \<open>Shared facts\<close>

text \<open>The translation of schema material never changes what is sent: a tuple and a list print alike.\<close>

lemma provider_json_dumps: "json_dumps st (provider_json v) = json_dumps st v"
proof (induction v)
  case (PDict d)
  then have "map (\<lambda>(k, v). (k, json_dumps st v)) (map (\<lambda>(k, v). (k, provider_json v)) d) =
      map (\<lambda>(k, v). (k, json_dumps st v)) d"
    by (auto simp: snds.simps)
  then show ?case by (simp only: provider_json.simps json_dumps.simps)
next
  case (PTuple xs)
  then have "map (json_dumps st) (map provider_json xs) = map (json_dumps st) xs" by simp
  then show ?case by (simp only: provider_json.simps json_dumps.simps)
qed simp_all

lemma token_value_nonneg [simp]: "0 \<le> token_value v"
  by (auto simp: token_value_def split: option.splits)

definition usage_ok :: "AIUsage \<Rightarrow> bool" where
  "usage_ok u \<longleftrightarrow> 0 \<le> input_tokens u \<and> 0 \<le> output_tokens u \<and> 0 \<le> cached_tokens u \<and> 0 \<le> reasoning_tokens u"

lemma reported_usage_ok [simp]: "usage_ok (reported_usage a b c d)"
  by (simp add: usage_ok_def reported_usage_def)

lemma latest_usage_grows:
  "latest_usage current reported = Inr latest \<Longrightarrow>
   (case current of None \<Rightarrow> True | Some u \<Rightarrow> \<exists>w. latest = Some w \<and> usage_le u w)"
  by (auto simp: latest_usage_def usage_regressed_def usage_le_def split: option.splits if_splits)

end
