(* ===== verification/Provider_OpenAI.thy ===== *)
theory Provider_OpenAI
  imports Provider_Http
begin

text \<open>
  \<^verbatim>\<open>OpenAIProviderAdapter\<close> (\<^verbatim>\<open>adapters/ai_provider_openai/.../adapter.py\<close>), its catalog and its
  configuration: request payloads, the normalization of responses, HTTP errors and transport errors,
  and the event loop over a streamed response. The loop is a function of the lines: the events it
  yields, the exception that ends it and the diagnostic it leaves.
\<close>

section \<open>Configuration and catalog\<close>

record OpenAIProviderConfig =
  oc_api_key :: string
  oc_base_url :: string
  oc_timeout_seconds :: rat

definition openai_from_environment :: "(string \<Rightarrow> string option) \<Rightarrow> exn + OpenAIProviderConfig" where
  "openai_from_environment env =
     (let provider = (case env ''AIEOS_AI_PROVIDER'' of None \<Rightarrow> ''mock'' | Some x \<Rightarrow> x);
          api_key = (case env ''OPENAI_API_KEY'' of None \<Rightarrow> [] | Some x \<Rightarrow> x) in
      if provider \<noteq> ''openai''
      then Inl (ValueError ''OpenAI live mode requires AIEOS_AI_PROVIDER=openai'')
      else if api_key = []
      then Inl (ValueError ''OPENAI_API_KEY is required for explicit OpenAI live mode'')
      else Inr \<lparr>oc_api_key = api_key, oc_base_url = ''https://api.openai.com/v1'', oc_timeout_seconds = 30\<rparr>)"

definition openai_safe_summary :: "OpenAIProviderConfig \<Rightarrow> pydict" where
  "openai_safe_summary c =
     [(''provider'', PStr ''openai''), (''credential_configured'', PBool (oc_api_key c \<noteq> [])),
      (''timeout_seconds'', PFloat (oc_timeout_seconds c))]"

record OpenAIModelMapping =
  om_model_key :: string
  om_provider_model :: string
  om_catalog :: ModelCatalogEntry
  om_pricing_reference :: string
  om_data_handling :: string
  om_version_policy :: string
  om_minimum_output_tokens :: int
  om_reasoning_effort :: string

definition openai_entry :: ModelCatalogEntry where
  "openai_entry =
     \<lparr>mdl_model_key = ''economy-text-v1'', mdl_adapter_key = ''openai-responses'',
      mdl_capabilities = {''text'', ''structured'', ''stream''}, mdl_context_limit = 400000,
      mdl_max_output = 128000, mdl_quality_tier = 1, mdl_latency_tier = 1,
      mdl_input_cost_per_token = Dec 25 (- 8), mdl_output_cost_per_token = Dec 2 (- 6),
      mdl_pricing_version = ''openai-2026-08-11'', mdl_residencies = {''any''},
      mdl_data_handling = {''internal'', ''zdr-eligible''}, mdl_security_tier = 2,
      mdl_available = True, mdl_healthy = True, mdl_deprecated = False,
      mdl_cached_input_cost_per_token = None, mdl_reasoning_cost_per_token = None\<rparr>"

definition openai_model_catalog :: "OpenAIModelMapping list" where
  "openai_model_catalog =
     [\<lparr>om_model_key = ''economy-text-v1'', om_provider_model = ''gpt-5-mini-2025-08-07'',
       om_catalog = openai_entry,
       om_pricing_reference = ''https://developers.openai.com/api/docs/models/gpt-5-mini'',
       om_data_handling = ''API data controls apply; ZDR eligibility is feature/account dependent'',
       om_version_policy = ''Pinned snapshot; review before deprecation or price/capability change'',
       om_minimum_output_tokens = 16, om_reasoning_effort = ''minimal''\<rparr>]"

definition openai_by_key :: "(string, OpenAIModelMapping) odict" where
  "openai_by_key = map (\<lambda>e. (om_model_key e, e)) openai_model_catalog"

section \<open>Requests\<close>

definition openai_provider_model :: "string \<Rightarrow> exn + string" where
  "openai_provider_model model = (case map_of openai_by_key model of
       None \<Rightarrow> Inl (ProviderFailure ''AI_MODEL_NOT_AVAILABLE'' False None)
     | Some m \<Rightarrow> Inr (om_provider_model m))"

definition underscored :: "string \<Rightarrow> string" where
  "underscored s = map (\<lambda>c. if c = CHR ''-'' then CHR ''_'' else c) s"

definition openai_payload :: "string \<Rightarrow> string \<Rightarrow> AIInvocationRequest \<Rightarrow> exn + pydict" where
  "openai_payload model prompt r =
     (case map_of openai_by_key model of
        None \<Rightarrow> Inl (ProviderFailure ''AI_MODEL_NOT_AVAILABLE'' False None)
      | Some m \<Rightarrow>
          let payload =
            [(''model'', PStr (om_provider_model m)), (''input'', PStr prompt),
             (''max_output_tokens'', PInt (max (rq_max_output_tokens r) (om_minimum_output_tokens m))),
             (''reasoning'', PDict [(''effort'', PStr (om_reasoning_effort m))]), (''store'', PBool False)] in
          if rq_response_mode r = STRUCTURED
          then ebind (requested_schema r) (\<lambda>schema. Inr (payload @
            [(''text'', PDict [(''format'', PDict
               [(''type'', PStr ''json_schema''),
                (''name'', PStr (underscored (case rq_output_schema_ref r of None \<Rightarrow> [] | Some x \<Rightarrow> x))),
                (''strict'', PBool True), (''schema'', provider_json (PDict schema))])])]))
          else Inr payload)"

section \<open>Responses\<close>

definition text_part :: "pyval \<Rightarrow> string" where
  "text_part part = (case as_map part of
       None \<Rightarrow> []
     | Some p \<Rightarrow> if pget p ''type'' = PStr ''output_text''
         then (case as_str (pget p ''text'') of None \<Rightarrow> [] | Some t \<Rightarrow> t) else [])"

definition item_text :: "pyval \<Rightarrow> string" where
  "item_text item = (case as_map item of
       None \<Rightarrow> []
     | Some d \<Rightarrow> (case as_list (pget d ''content'') of
           None \<Rightarrow> [] | Some parts \<Rightarrow> concat (map text_part parts)))"

definition output_text :: "pydict \<Rightarrow> string" where
  "output_text body = (case as_str (pget body ''output_text'') of
       Some direct \<Rightarrow> direct
     | None \<Rightarrow> (case as_list (pget body ''output'') of
           None \<Rightarrow> [] | Some items \<Rightarrow> concat (map item_text items)))"

definition openai_usage :: "pyval \<Rightarrow> AIUsage option" where
  "openai_usage v = (case as_map v of
       None \<Rightarrow> None
     | Some u \<Rightarrow> Some (reported_usage (pget u ''input_tokens'') (pget u ''output_tokens'')
         (pget (dict_or_empty (pget u ''input_tokens_details'')) ''cached_tokens'')
         (pget (dict_or_empty (pget u ''output_tokens_details'')) ''reasoning_tokens'')))"

definition status_codes :: "(string, string) odict" where
  "status_codes =
     [(''incomplete'', ''AI_PROVIDER_INCOMPLETE_RESPONSE''), (''in_progress'', ''AI_PROVIDER_INCOMPLETE_RESPONSE''),
      (''queued'', ''AI_PROVIDER_INCOMPLETE_RESPONSE''), (''failed'', ''AI_PROVIDER_FAILED_RESPONSE''),
      (''cancelled'', ''AI_PROVIDER_CANCELLED''), (''expired'', ''AI_PROVIDER_EXPIRED_RESPONSE'')]"

definition status_failure :: "pyval \<Rightarrow> AIUsage option \<Rightarrow> provider_failure" where
  "status_failure status usage =
     (case (case as_str status of None \<Rightarrow> None | Some s \<Rightarrow> map_of status_codes s) of
        None \<Rightarrow> (''AI_PROVIDER_MALFORMED_RESPONSE'', False, usage)
      | Some code \<Rightarrow> (code, False, usage))"

definition safe_terminal_diagnostic :: "pydict \<Rightarrow> AIUsage option \<Rightarrow> pydict" where
  "safe_terminal_diagnostic body usage =
     (let incomplete = dict_or_empty (pget body ''incomplete_details'');
          status = (case as_str (pget body ''status'') of Some s \<Rightarrow> s | None \<Rightarrow> ''unknown'');
          reason = (case as_str (pget incomplete ''reason'') of Some s \<Rightarrow> s | None \<Rightarrow> []) in
      [(''terminal_status'', PStr status), (''incomplete_reason'', PStr reason),
       (''termination_reason'', PStr (if reason \<noteq> [] then reason else status))] @
      (case usage of
         None \<Rightarrow> []
       | Some u \<Rightarrow> [(''usage'', PDict
           [(''input_tokens'', PInt (input_tokens u)), (''output_tokens'', PInt (output_tokens u)),
            (''cached_tokens'', PInt (cached_tokens u)), (''reasoning_tokens'', PInt (reasoning_tokens u)),
            (''total_tokens'', PInt (input_tokens u + output_tokens u))])]))"

text \<open>\<^verbatim>\<open>_terminal_failure\<close>: nothing for a completed response, else the failure and the diagnostic.\<close>

definition terminal_failure :: "pydict \<Rightarrow> (provider_failure \<times> pydict) option" where
  "terminal_failure body =
     (let status = pget body ''status''; usage = openai_usage (pget body ''usage'') in
      if status = PStr ''completed'' then None
      else Some (status_failure status usage, safe_terminal_diagnostic body usage))"

definition raise_failure :: "provider_failure \<Rightarrow> exn" where
  "raise_failure f = (case f of (code, again, usage) \<Rightarrow> ProviderFailure code again usage)"

section \<open>HTTP errors\<close>

record openai_error =
  oe_code :: string
  oe_type :: string
  oe_param :: string
  oe_message :: string

text \<open>An undecodable body is ignored; a decoded one that is not an object has no \<^verbatim>\<open>get\<close>.\<close>

definition openai_error_body :: "(pyval \<Rightarrow> string) \<Rightarrow> exn + pyval \<Rightarrow> exn + openai_error" where
  "openai_error_body repr body =
     (let none = \<lparr>oe_code = [], oe_type = [], oe_param = [], oe_message = []\<rparr>; text = py_text repr in
      case body of
        Inl e \<Rightarrow> if is_value_error e \<or> e = ResponseNotRead then Inr none else Inl e
      | Inr v \<Rightarrow> (case as_map v of
          None \<Rightarrow> Inl (AttributeError (''object has no attribute '' @ quoted ''get''))
        | Some d \<Rightarrow> (case as_map (case map_of d ''error'' of None \<Rightarrow> PDict [] | Some x \<Rightarrow> x) of
            None \<Rightarrow> Inr none
          | Some e \<Rightarrow>
              let param = text (py_or (pget e ''param'') (PStr [])) in
              Inr \<lparr>oe_code = text (py_or (pget e ''code'') (py_or (pget e ''type'') (PStr []))),
                   oe_type = text (py_or (pget e ''type'') (PStr [])), oe_param = param,
                   oe_message = (if param = ''max_output_tokens''
                     then take 240 (text (py_or (pget e ''message'') (PStr []))) else [])\<rparr>)))"

definition header_or_empty :: "http_response \<Rightarrow> string \<Rightarrow> pyval" where
  "header_or_empty resp name = PStr (case hr_header resp name of None \<Rightarrow> [] | Some v \<Rightarrow> v)"

definition openai_status_failure :: "int \<Rightarrow> openai_error \<Rightarrow> provider_failure" where
  "openai_status_failure status e =
     (if status = 401 then (''AI_PROVIDER_AUTHENTICATION_FAILED'', False, None)
      else if status = 403 then (''AI_PROVIDER_PERMISSION_DENIED'', False, None)
      else if status = 429
      then (''AI_PROVIDER_RATE_LIMITED'',
            \<not> (oe_code e \<in> {''insufficient_quota'', ''billing_hard_limit_reached'', ''credit_balance_exhausted''}
               \<or> oe_type e = ''insufficient_quota''), None)
      else if status = 408 then (''AI_PROVIDER_TIMEOUT'', True, None)
      else if status \<in> {500, 502, 504} then (''AI_PROVIDER_TEMPORARILY_UNAVAILABLE'', True, None)
      else if status = 503 then (''AI_PROVIDER_OVERLOADED'', True, None)
      else if status = 400 \<and> (\<exists>token\<in>{''context'', ''token'', ''length''}. contains token (oe_code e))
      then (''AI_CONTEXT_LIMIT_EXCEEDED'', False, None)
      else if status \<in> {400, 404, 409, 422} then (''AI_PROVIDER_REJECTED'', False, None)
      else (''AI_PROVIDER_UNKNOWN_FAILURE'', 500 \<le> status, None))"

definition openai_http_failure ::
  "(pyval \<Rightarrow> string) \<Rightarrow> http_response \<Rightarrow> ('z provider_state_scheme, exn) eff" where
  "openai_http_failure repr resp =
     bnd (lift (openai_error_body repr (hr_json resp))) (\<lambda>e.
     bnd (upd (\<lambda>s. s\<lparr>openai_http_diagnostic := Some
            [(''status'', PInt (hr_status resp)), (''type'', PStr (oe_type e)), (''code'', PStr (oe_code e)),
             (''param'', PStr (oe_param e)), (''message'', PStr (oe_message e)),
             (''request_id'', header_or_empty resp ''x-request-id''),
             (''retry_after'', header_or_empty resp ''retry-after'')]\<rparr>)) (\<lambda>_.
     ret (raise_failure (openai_status_failure (hr_status resp) e))))"

definition openai_reset :: "('z provider_state_scheme, unit) eff" where
  "openai_reset = upd (\<lambda>s. s\<lparr>openai_http_diagnostic := None, openai_terminal_diagnostic := None\<rparr>)"

definition safe_http_diagnostic :: "'z provider_state_scheme \<Rightarrow> pydict option" where
  "safe_http_diagnostic s = (case openai_terminal_diagnostic s of
       Some d \<Rightarrow> if d \<noteq> [] then Some d else openai_http_diagnostic s
     | None \<Rightarrow> openai_http_diagnostic s)"

section \<open>invoke\<close>

text \<open>Transport exceptions of a plain call: only a failure before dispatch may be repeated.\<close>

definition dispatch_failure :: "exn \<Rightarrow> exn" where
  "dispatch_failure e = (case e of
       Transport ConnectTimeout \<Rightarrow> ProviderFailure ''AI_PROVIDER_TIMEOUT'' True None
     | Transport PoolTimeout \<Rightarrow> ProviderFailure ''AI_PROVIDER_TIMEOUT'' True None
     | Transport _ \<Rightarrow> ProviderFailure ''AI_PROVIDER_EFFECT_AMBIGUOUS'' False None
     | _ \<Rightarrow> e)"

definition malformed :: exn where
  "malformed = ProviderFailure ''AI_PROVIDER_MALFORMED_RESPONSE'' False None"

definition json_object_body :: "exn + pyval \<Rightarrow> exn + pydict" where
  "json_object_body body = (case body of
       Inl e \<Rightarrow> Inl (if is_value_error e then malformed else e)
     | Inr v \<Rightarrow> (case as_map v of None \<Rightarrow> Inl malformed | Some d \<Rightarrow> Inr d))"

definition provider_result :: "string \<Rightarrow> AIUsage option \<Rightarrow> ProviderResult" where
  "provider_result content usage = \<lparr>prv_content = content, prv_usage = usage, prv_confidence = Dec 1 0\<rparr>"

text \<open>What a received response means.\<close>

definition openai_answer ::
  "('z provider_state_scheme) adapter_config \<Rightarrow> http_response \<Rightarrow> ('z provider_state_scheme, ProviderResult) eff"
where
  "openai_answer cfg resp =
     (if hr_raises resp then bnd (openai_http_failure (ad_str cfg) resp) raise
      else bnd (lift (json_object_body (hr_json resp))) (\<lambda>body.
      case terminal_failure body of
        Some (problem, diagnostic) \<Rightarrow>
          bnd (upd (\<lambda>s. s\<lparr>openai_terminal_diagnostic := Some diagnostic\<rparr>)) (\<lambda>_.
          raise (raise_failure problem))
      | None \<Rightarrow>
          if output_text body = [] then raise malformed
          else ret (provider_result (output_text body) (openai_usage (pget body ''usage'')))))"

definition openai_invoke_once ::
  "('z provider_state_scheme) adapter_config \<Rightarrow> string \<Rightarrow> string \<Rightarrow> AIInvocationRequest
   \<Rightarrow> ('z provider_state_scheme, ProviderResult) eff"
where
  "openai_invoke_once cfg model prompt r =
     bnd openai_reset (\<lambda>_.
     bnd (lift (openai_payload model prompt r)) (\<lambda>payload.
     bnd (catch (hc_post (ad_client cfg) ''/responses'' (PDict payload)) (\<lambda>e. raise (dispatch_failure e)))
       (openai_answer cfg)))"

definition openai_invoke ::
  "('z provider_state_scheme) adapter_config \<Rightarrow> string \<Rightarrow> string \<Rightarrow> AIInvocationRequest \<Rightarrow> string option
   \<Rightarrow> ('z provider_state_scheme, ProviderResult) eff"
where
  "openai_invoke cfg model prompt r effect_key =
     (case (effect_key, ad_boundary cfg) of
        (Some k, Some run) \<Rightarrow>
          bnd (lift (openai_payload model prompt r)) (\<lambda>payload.
          run r k (effect_type k)
            (sha256 (ad_tx cfg) (json_dumps (json_sorted (ad_tx cfg)) (PDict payload)))
            (openai_invoke_once cfg model prompt r))
      | _ \<Rightarrow> openai_invoke_once cfg model prompt r)"

section \<open>stream\<close>

text \<open>The exception handlers around the streamed request.\<close>

definition openai_stream_failure :: "AIUsage option \<Rightarrow> exn \<Rightarrow> exn" where
  "openai_stream_failure latest e = (case e of
       Transport RequestError \<Rightarrow> ProviderFailure ''AI_PROVIDER_STREAM_FAILED'' True latest
     | Transport _ \<Rightarrow> ProviderFailure ''AI_PROVIDER_TIMEOUT'' True None
     | JSONDecodeError \<Rightarrow> ProviderFailure ''AI_PROVIDER_STREAM_FAILED'' True latest
     | _ \<Rightarrow> e)"

record stream_end =
  sn_raised :: "exn option"
  sn_diagnostic :: "pydict option"

definition stream_raise :: "string \<Rightarrow> AIUsage option \<Rightarrow> stream_end" where
  "stream_raise code latest =
     \<lparr>sn_raised = Some (ProviderFailure code False latest), sn_diagnostic = None\<rparr>"

definition stream_exn :: "exn \<Rightarrow> stream_end" where
  "stream_exn e = \<lparr>sn_raised = Some e, sn_diagnostic = None\<rparr>"

text \<open>What one decoded event does: it yields at most one event, or it ends the loop.\<close>

datatype line_effect = Continue "ProviderStreamEvent option" bool "AIUsage option" | Stop stream_end

definition completed_event :: "pydict \<Rightarrow> AIUsage option \<Rightarrow> line_effect" where
  "completed_event event latest =
     (case as_map (pget event ''response'') of
        None \<Rightarrow> Stop (stream_raise ''AI_PROVIDER_MALFORMED_RESPONSE'' latest)
      | Some body \<Rightarrow>
          (case latest_usage latest (openai_usage (pget body ''usage'')) of
             Inl e \<Rightarrow> Stop (stream_exn e)
           | Inr latest \<Rightarrow>
               (case terminal_failure body of
                  Some ((code, again, _), diagnostic) \<Rightarrow>
                    Stop \<lparr>sn_raised = Some (ProviderFailure code again latest), sn_diagnostic = Some diagnostic\<rparr>
                | None \<Rightarrow> Continue (map_option usage_report latest) True latest)))"

definition failed_events :: "string list" where
  "failed_events = [''response.failed'', ''response.incomplete'', ''response.cancelled'', ''response.expired'']"

definition failed_event :: "string \<Rightarrow> pydict \<Rightarrow> AIUsage option \<Rightarrow> line_effect" where
  "failed_event event_type event latest =
     (let body = dict_or_empty (pget event ''response'') in
      case latest_usage latest (openai_usage (pget body ''usage'')) of
        Inl e \<Rightarrow> Stop (stream_exn e)
      | Inr latest \<Rightarrow>
          let body = (if ''status'' \<in> set (map fst body) then body
                      else body @ [(''status'', PStr (drop (length ''response.'') event_type))]) in
          (case terminal_failure body of
             Some (problem, diagnostic) \<Rightarrow>
               Stop \<lparr>sn_raised = Some (raise_failure problem), sn_diagnostic = Some diagnostic\<rparr>
           | None \<Rightarrow> Stop (stream_raise ''AI_PROVIDER_MALFORMED_RESPONSE'' latest)))"

definition openai_event :: "pydict \<Rightarrow> AIUsage option \<Rightarrow> line_effect" where
  "openai_event event latest =
     (let event_type = pget event ''type'' in
      if event_type = PStr ''response.output_text.delta''
      then (case as_str (pget event ''delta'') of
              Some delta \<Rightarrow> Continue (if delta \<noteq> [] then Some (content_delta delta) else None) False latest
            | None \<Rightarrow> Continue None False latest)
      else if event_type = PStr ''response.completed'' then completed_event event latest
      else if \<not> hashable event_type then Stop (stream_exn (TypeError ''unhashable type''))
      else case as_str event_type of
        Some t \<Rightarrow> if t \<in> set failed_events then failed_event t event latest else Continue None False latest
      | None \<Rightarrow> Continue None False latest)"

definition openai_line :: "text_services \<Rightarrow> string \<Rightarrow> bool \<Rightarrow> AIUsage option \<Rightarrow> line_effect" where
  "openai_line tx line seen latest =
     (if \<not> starts_with ''data: '' line then Continue None seen latest
      else if line = ''data: [DONE]''
      then (if seen then Continue None seen latest else Stop (stream_raise ''AI_PROVIDER_INCOMPLETE_RESPONSE'' latest))
      else if seen then Stop (stream_raise ''AI_PROVIDER_MALFORMED_RESPONSE'' latest)
      else case json_loads tx (drop 6 line) of
        Inl e \<Rightarrow> Stop (stream_exn (openai_stream_failure latest e))
      | Inr v \<Rightarrow>
          (case as_map v of
             None \<Rightarrow> Stop (stream_raise ''AI_PROVIDER_MALFORMED_RESPONSE'' latest)
           | Some event \<Rightarrow> openai_event event latest))"

fun openai_lines ::
  "text_services \<Rightarrow> exn option \<Rightarrow> string list \<Rightarrow> bool \<Rightarrow> AIUsage option
   \<Rightarrow> ProviderStreamEvent list \<times> stream_end"
where
  "openai_lines tx broken [] seen latest =
     ([], case broken of
        Some e \<Rightarrow> stream_exn (openai_stream_failure latest e)
      | None \<Rightarrow> if seen then \<lparr>sn_raised = None, sn_diagnostic = None\<rparr>
                 else stream_raise ''AI_PROVIDER_INCOMPLETE_RESPONSE'' latest)"
| "openai_lines tx broken (line # rest) seen latest =
     (case openai_line tx line seen latest of
        Stop ended \<Rightarrow> ([], ended)
      | Continue yielded seen latest \<Rightarrow>
          let (events, ended) = openai_lines tx broken rest seen latest in
          (case yielded of None \<Rightarrow> events | Some e \<Rightarrow> e # events, ended))"

definition deliver ::
  "('z provider_state_scheme, unit) eff \<Rightarrow> ProviderStreamEvent list \<times> stream_end
   \<Rightarrow> (pydict \<Rightarrow> ('z provider_state_scheme, unit) eff)
   \<Rightarrow> ('z provider_state_scheme, ProviderStreamEvent) eff list"
where
  "deliver idle run note_diagnostic =
     map (\<lambda>e. bnd idle (\<lambda>_. ret e)) (fst run) @
     (case sn_raised (snd run) of
        None \<Rightarrow> []
      | Some e \<Rightarrow>
          [bnd idle (\<lambda>_.
           bnd (case sn_diagnostic (snd run) of None \<Rightarrow> ret () | Some d \<Rightarrow> note_diagnostic d) (\<lambda>_.
           raise e))])"

definition openai_stream ::
  "('z provider_state_scheme) adapter_config \<Rightarrow> string \<Rightarrow> string \<Rightarrow> AIInvocationRequest
   \<Rightarrow> ('z provider_state_scheme, ('z provider_state_scheme, ProviderStreamEvent) eff list) eff"
where
  "openai_stream cfg model prompt r =
     bnd openai_reset (\<lambda>_.
     bnd (lift (openai_payload model prompt r)) (\<lambda>payload.
     catch
       (bnd (hc_stream (ad_client cfg) ''/responses'' (PDict (payload @ [(''stream'', PBool True)]))) (\<lambda>answer.
        if \<not> hr_is_success (hl_response answer)
        then bnd (hc_aread (ad_client cfg) (hl_response answer)) (\<lambda>_.
             bnd (openai_http_failure (ad_str cfg) (hl_response answer)) raise)
        else ret (deliver (hc_idle (ad_client cfg))
               (openai_lines (ad_tx cfg) (hl_failure answer) (hl_lines answer) False None)
               (\<lambda>d. upd (\<lambda>s. s\<lparr>openai_terminal_diagnostic := Some d\<rparr>)))))
       (\<lambda>e. raise (openai_stream_failure None e))))"

end
