(* ===== verification/Provider_Gemini.thy ===== *)
theory Provider_Gemini
  imports Provider_OpenAI
begin

text \<open>
  \<^verbatim>\<open>GeminiProviderAdapter\<close> (\<^verbatim>\<open>adapters/ai_provider_gemini/.../adapter.py\<close>), its catalog and its
  configuration, on the same HTTP client and response readers.
\<close>

section \<open>Configuration and catalog\<close>

record GeminiProviderConfig =
  gc_api_key :: string
  gc_base_url :: string
  gc_timeout_seconds :: rat

definition gemini_from_environment :: "(string \<Rightarrow> string option) \<Rightarrow> exn + GeminiProviderConfig" where
  "gemini_from_environment env =
     (let provider = (case env ''AIEOS_AI_PROVIDER'' of None \<Rightarrow> ''mock'' | Some x \<Rightarrow> x);
          api_key = (case env ''GEMINI_API_KEY'' of None \<Rightarrow> [] | Some x \<Rightarrow> x) in
      if provider \<noteq> ''gemini''
      then Inl (ValueError ''Gemini live mode requires AIEOS_AI_PROVIDER=gemini'')
      else if api_key = []
      then Inl (ValueError ''GEMINI_API_KEY is required for explicit Gemini live mode'')
      else Inr \<lparr>gc_api_key = api_key, gc_base_url = ''https://generativelanguage.googleapis.com/v1beta'',
                gc_timeout_seconds = 30\<rparr>)"

definition gemini_safe_summary :: "GeminiProviderConfig \<Rightarrow> pydict" where
  "gemini_safe_summary c =
     [(''provider'', PStr ''gemini''), (''credential_configured'', PBool (gc_api_key c \<noteq> [])),
      (''timeout_seconds'', PFloat (gc_timeout_seconds c))]"

record GeminiModelMapping =
  gm_model_key :: string
  gm_provider_model :: string
  gm_catalog :: ModelCatalogEntry
  gm_pricing_reference :: string
  gm_data_handling :: string
  gm_version_policy :: string

definition gemini_entry :: ModelCatalogEntry where
  "gemini_entry =
     \<lparr>mdl_model_key = ''economy-text-gemini-v1'', mdl_adapter_key = ''gemini-generate-content'',
      mdl_capabilities = {''text'', ''structured'', ''stream''}, mdl_context_limit = 1048576,
      mdl_max_output = 65536, mdl_quality_tier = 1, mdl_latency_tier = 1,
      mdl_input_cost_per_token = Dec 30 (- 8), mdl_output_cost_per_token = Dec 250 (- 8),
      mdl_pricing_version = ''gemini-2026-08-12'', mdl_residencies = {''any''},
      mdl_data_handling = {''internal'', ''paid-no-training'', ''zdr-eligible''}, mdl_security_tier = 2,
      mdl_available = True, mdl_healthy = True, mdl_deprecated = False,
      mdl_cached_input_cost_per_token = Some (Dec 3 (- 8)), mdl_reasoning_cost_per_token = Some (Dec 250 (- 8))\<rparr>"

definition gemini_model_catalog :: "GeminiModelMapping list" where
  "gemini_model_catalog =
     [\<lparr>gm_model_key = ''economy-text-gemini-v1'', gm_provider_model = ''gemini-3.5-flash-lite'',
       gm_catalog = gemini_entry,
       gm_pricing_reference = ''https://ai.google.dev/gemini-api/docs/pricing'',
       gm_data_handling = ''Paid service content is not used to improve products; ZDR requires an approved '' @
         ''project and excludes incompatible features'',
       gm_version_policy = ''GA alias; review on model update, retirement, or price/capability change''\<rparr>]"

definition gemini_by_key :: "(string, GeminiModelMapping) odict" where
  "gemini_by_key = map (\<lambda>e. (gm_model_key e, e)) gemini_model_catalog"

section \<open>Requests\<close>

definition model_missing :: exn where
  "model_missing = ProviderFailure ''AI_MODEL_NOT_AVAILABLE'' False None"

definition gemini_path :: "string \<Rightarrow> bool \<Rightarrow> exn + string" where
  "gemini_path model stream = (case map_of gemini_by_key model of
       None \<Rightarrow> Inl model_missing
     | Some m \<Rightarrow> Inr (''/models/'' @ gm_provider_model m @ '':'' @
         (if stream then ''streamGenerateContent?alt=sse'' else ''generateContent'')))"

definition gemini_payload :: "string \<Rightarrow> string \<Rightarrow> AIInvocationRequest \<Rightarrow> exn + pydict" where
  "gemini_payload model prompt r =
     (if map_of gemini_by_key model = None then Inl model_missing else
      let generation = [(''maxOutputTokens'', PInt (rq_max_output_tokens r)), (''temperature'', PInt 0)];
          payload = (\<lambda>g. [(''contents'', PList [PDict
             [(''role'', PStr ''user''), (''parts'', PList [PDict [(''text'', PStr prompt)]])]]),
             (''generationConfig'', PDict g)]) in
      if rq_response_mode r = STRUCTURED
      then ebind (requested_schema r) (\<lambda>schema. Inr (payload (generation @
        [(''responseMimeType'', PStr ''application/json''),
         (''responseJsonSchema'', provider_json (PDict schema))])))
      else Inr (payload generation))"

section \<open>Responses\<close>

definition first_candidate :: "pydict \<Rightarrow> pydict option" where
  "first_candidate body = (case as_list (pget body ''candidates'') of
       Some (c # _) \<Rightarrow> as_map c | _ \<Rightarrow> None)"

definition part_text :: "pyval \<Rightarrow> string" where
  "part_text part = (case as_map part of
       None \<Rightarrow> [] | Some p \<Rightarrow> (case as_str (pget p ''text'') of None \<Rightarrow> [] | Some t \<Rightarrow> t))"

definition gemini_content :: "pydict \<Rightarrow> string" where
  "gemini_content body = (case first_candidate body of
       None \<Rightarrow> []
     | Some candidate \<Rightarrow> (case as_map (pget candidate ''content'') of
         None \<Rightarrow> []
       | Some content \<Rightarrow> (case as_list (pget content ''parts'') of
           None \<Rightarrow> [] | Some parts \<Rightarrow> concat (map part_text parts))))"

definition finish_reason :: "pydict \<Rightarrow> string" where
  "finish_reason body = (case first_candidate body of
       None \<Rightarrow> []
     | Some candidate \<Rightarrow> (case as_str (pget candidate ''finishReason'') of None \<Rightarrow> [] | Some s \<Rightarrow> s))"

definition gemini_usage :: "pyval \<Rightarrow> AIUsage option" where
  "gemini_usage v = (case as_map v of
       None \<Rightarrow> None
     | Some u \<Rightarrow> Some (reported_usage (pget u ''promptTokenCount'') (pget u ''candidatesTokenCount'')
         (pget u ''cachedContentTokenCount'') (pget u ''thoughtsTokenCount'')))"

definition blocked :: "pydict \<Rightarrow> exn option" where
  "blocked body = (case as_map (pget body ''promptFeedback'') of
       None \<Rightarrow> None
     | Some feedback \<Rightarrow>
         if py_true (pget feedback ''blockReason'')
         then Some (ProviderFailure ''AI_PROVIDER_PERMISSION_DENIED'' False None) else None)"

definition finish_codes :: "(string, string) odict" where
  "finish_codes =
     [(''MAX_TOKENS'', ''AI_OUTPUT_LIMIT_EXCEEDED''), (''SAFETY'', ''AI_PROVIDER_PERMISSION_DENIED''),
      (''RECITATION'', ''AI_PROVIDER_PERMISSION_DENIED''), (''BLOCKLIST'', ''AI_PROVIDER_PERMISSION_DENIED''),
      (''PROHIBITED_CONTENT'', ''AI_PROVIDER_PERMISSION_DENIED''), (''SPII'', ''AI_PROVIDER_PERMISSION_DENIED''),
      (''MALFORMED_FUNCTION_CALL'', ''AI_PROVIDER_MALFORMED_RESPONSE''),
      (''UNEXPECTED_TOOL_CALL'', ''AI_PROVIDER_MALFORMED_RESPONSE''),
      (''NO_IMAGE'', ''AI_PROVIDER_INCOMPLETE_RESPONSE'')]"

definition finish_failure :: "string \<Rightarrow> AIUsage option \<Rightarrow> exn" where
  "finish_failure reason usage =
     ProviderFailure (case map_of finish_codes reason of
       None \<Rightarrow> ''AI_PROVIDER_INCOMPLETE_RESPONSE'' | Some code \<Rightarrow> code) False usage"

definition gemini_result :: "pydict \<Rightarrow> exn + ProviderResult" where
  "gemini_result body =
     (case blocked body of
        Some e \<Rightarrow> Inl e
      | None \<Rightarrow>
          let finish = finish_reason body; usage = gemini_usage (pget body ''usageMetadata'') in
          if finish \<noteq> ''STOP'' then Inl (finish_failure finish usage)
          else if gemini_content body = []
          then Inl (ProviderFailure ''AI_PROVIDER_MALFORMED_RESPONSE'' False usage)
          else Inr (provider_result (gemini_content body) usage))"

section \<open>HTTP errors\<close>

text \<open>The provider's status and message of an error body, empty when it has none.\<close>

definition gemini_error_body :: "(pyval \<Rightarrow> string) \<Rightarrow> exn + pyval \<Rightarrow> exn + string \<times> string" where
  "gemini_error_body repr body = (case body of
       Inl e \<Rightarrow> if is_value_error e \<or> e = ResponseNotRead then Inr ([], []) else Inl e
     | Inr v \<Rightarrow> (case as_map v of
         None \<Rightarrow> Inr ([], [])
       | Some d \<Rightarrow> (case as_map (pget d ''error'') of
           None \<Rightarrow> Inr ([], [])
         | Some e \<Rightarrow> Inr (py_text repr (py_or (pget e ''status'') (PStr [])),
             take 240 (py_text repr (py_or (pget e ''message'') (PStr [])))))))"

definition gemini_status_failure :: "int \<Rightarrow> string \<Rightarrow> string \<Rightarrow> provider_failure" where
  "gemini_status_failure status provider_status message =
     (if status = 401 then (''AI_PROVIDER_AUTHENTICATION_FAILED'', False, None)
      else if status = 403 then (''AI_PROVIDER_PERMISSION_DENIED'', False, None)
      else if status = 404 then (''AI_MODEL_NOT_AVAILABLE'', False, None)
      else if status = 408 then (''AI_PROVIDER_TIMEOUT'', True, None)
      else if status = 429
      then (if provider_status = ''RESOURCE_EXHAUSTED'' \<and> contains ''quota'' (to_lower message)
            then ''AI_PROVIDER_QUOTA_EXHAUSTED'' else ''AI_PROVIDER_RATE_LIMITED'', True, None)
      else if status \<in> {500, 502, 504} then (''AI_PROVIDER_TRANSIENT_FAILURE'', True, None)
      else if status = 503 then (''AI_PROVIDER_OVERLOADED'', True, None)
      else if status \<in> {400, 409, 413, 422}
      then (if contains ''token'' (to_lower message) \<or> contains ''context'' (to_lower message)
            then ''AI_CONTEXT_LIMIT_EXCEEDED'' else ''AI_PROVIDER_INVALID_REQUEST'', False, None)
      else (''AI_PROVIDER_UNKNOWN_ERROR'', False, None))"

definition gemini_http_failure ::
  "(pyval \<Rightarrow> string) \<Rightarrow> http_response \<Rightarrow> ('z provider_state_scheme, exn) eff" where
  "gemini_http_failure repr resp =
     bnd (lift (gemini_error_body repr (hr_json resp))) (\<lambda>(provider_status, message).
     bnd (upd (\<lambda>s. s\<lparr>gemini_diagnostic := Some
            [(''status'', PInt (hr_status resp)), (''provider_status'', PStr provider_status),
             (''message'', PStr message), (''request_id'', header_or_empty resp ''x-request-id''),
             (''retry_after'', header_or_empty resp ''retry-after'')]\<rparr>)) (\<lambda>_.
     ret (raise_failure (gemini_status_failure (hr_status resp) provider_status message))))"

definition gemini_reset :: "('z provider_state_scheme, unit) eff" where
  "gemini_reset = upd (\<lambda>s. s\<lparr>gemini_diagnostic := None\<rparr>)"

definition gemini_safe_diagnostic :: "'z provider_state_scheme \<Rightarrow> pydict option" where
  "gemini_safe_diagnostic s = gemini_diagnostic s"

section \<open>invoke\<close>

definition gemini_answer ::
  "('z provider_state_scheme) adapter_config \<Rightarrow> http_response \<Rightarrow> ('z provider_state_scheme, ProviderResult) eff"
where
  "gemini_answer cfg resp =
     (if hr_raises resp then bnd (gemini_http_failure (ad_str cfg) resp) raise
      else lift (ebind (json_object_body (hr_json resp)) gemini_result))"

definition gemini_invoke_once ::
  "('z provider_state_scheme) adapter_config \<Rightarrow> string \<Rightarrow> pydict
   \<Rightarrow> ('z provider_state_scheme, ProviderResult) eff"
where
  "gemini_invoke_once cfg model payload =
     bnd gemini_reset (\<lambda>_.
     bnd (lift (gemini_path model False)) (\<lambda>path.
     bnd (catch (hc_post (ad_client cfg) path (PDict payload)) (\<lambda>e. raise (dispatch_failure e)))
       (gemini_answer cfg)))"

definition gemini_invoke ::
  "('z provider_state_scheme) adapter_config \<Rightarrow> string \<Rightarrow> string \<Rightarrow> AIInvocationRequest \<Rightarrow> string option
   \<Rightarrow> ('z provider_state_scheme, ProviderResult) eff"
where
  "gemini_invoke cfg model prompt r effect_key =
     bnd (lift (gemini_payload model prompt r)) (\<lambda>payload.
     case (effect_key, ad_boundary cfg) of
       (Some k, Some run) \<Rightarrow>
         run r k (effect_type k)
           (sha256 (ad_tx cfg) (json_dumps (compact_sorted (repr_float (ad_tx cfg))) (PDict payload)))
           (gemini_invoke_once cfg model payload)
     | _ \<Rightarrow> gemini_invoke_once cfg model payload)"

section \<open>stream\<close>

definition gemini_stream_failure :: "AIUsage option \<Rightarrow> exn \<Rightarrow> exn" where
  "gemini_stream_failure latest e = (case e of
       Transport ConnectTimeout \<Rightarrow> ProviderFailure ''AI_PROVIDER_TIMEOUT'' True latest
     | Transport PoolTimeout \<Rightarrow> ProviderFailure ''AI_PROVIDER_TIMEOUT'' True latest
     | Transport _ \<Rightarrow> ProviderFailure ''AI_PROVIDER_EFFECT_AMBIGUOUS'' False latest
     | _ \<Rightarrow> e)"

text \<open>One decoded chunk: the events it yields, then the end of the loop or the next state.\<close>

definition gemini_chunk ::
  "pydict \<Rightarrow> bool \<Rightarrow> AIUsage option \<Rightarrow> ProviderStreamEvent list \<times> (exn + bool \<times> AIUsage option)"
where
  "gemini_chunk body seen latest =
     (case blocked body of
        Some e \<Rightarrow> ([], Inl e)
      | None \<Rightarrow>
          (case latest_usage latest (gemini_usage (pget body ''usageMetadata'')) of
             Inl e \<Rightarrow> ([], Inl e)
           | Inr latest \<Rightarrow>
               let content = gemini_content body; finish = finish_reason body;
                   yielded = (if content \<noteq> [] then [content_delta content] else []) in
               if finish = ''STOP''
               then (yielded @ (case latest of None \<Rightarrow> [] | Some u \<Rightarrow> [usage_report u]), Inr (True, latest))
               else if finish \<noteq> [] then (yielded, Inl (finish_failure finish latest))
               else (yielded, Inr (seen, latest))))"

definition gemini_line ::
  "text_services \<Rightarrow> string \<Rightarrow> bool \<Rightarrow> AIUsage option
   \<Rightarrow> ProviderStreamEvent list \<times> (exn + bool \<times> AIUsage option)"
where
  "gemini_line tx line seen latest =
     (if \<not> starts_with ''data: '' line then ([], Inr (seen, latest))
      else case json_loads tx (drop 6 line) of
        Inl e \<Rightarrow> ([], Inl (if e = JSONDecodeError
                   then ProviderFailure ''AI_PROVIDER_MALFORMED_RESPONSE'' False latest else gemini_stream_failure latest e))
      | Inr v \<Rightarrow>
          (case as_map v of
             None \<Rightarrow> ([], Inl (ProviderFailure ''AI_PROVIDER_MALFORMED_RESPONSE'' False latest))
           | Some body \<Rightarrow> gemini_chunk body seen latest))"

fun gemini_lines ::
  "text_services \<Rightarrow> exn option \<Rightarrow> string list \<Rightarrow> bool \<Rightarrow> AIUsage option
   \<Rightarrow> ProviderStreamEvent list \<times> stream_end"
where
  "gemini_lines tx broken [] seen latest =
     ([], case broken of
        Some e \<Rightarrow> stream_exn (gemini_stream_failure latest e)
      | None \<Rightarrow> if seen then \<lparr>sn_raised = None, sn_diagnostic = None\<rparr>
                 else stream_raise ''AI_PROVIDER_INCOMPLETE_RESPONSE'' latest)"
| "gemini_lines tx broken (line # rest) seen latest =
     (case gemini_line tx line seen latest of
        (yielded, Inl e) \<Rightarrow> (yielded, stream_exn e)
      | (yielded, Inr (seen, latest)) \<Rightarrow>
          let (events, ended) = gemini_lines tx broken rest seen latest in (yielded @ events, ended))"

definition gemini_stream ::
  "('z provider_state_scheme) adapter_config \<Rightarrow> string \<Rightarrow> string \<Rightarrow> AIInvocationRequest
   \<Rightarrow> ('z provider_state_scheme, ('z provider_state_scheme, ProviderStreamEvent) eff list) eff"
where
  "gemini_stream cfg model prompt r =
     bnd gemini_reset (\<lambda>_.
     catch
       (bnd (lift (gemini_path model True)) (\<lambda>path.
        bnd (lift (gemini_payload model prompt r)) (\<lambda>payload.
        bnd (hc_stream (ad_client cfg) path (PDict payload)) (\<lambda>answer.
        if \<not> hr_is_success (hl_response answer)
        then bnd (hc_aread (ad_client cfg) (hl_response answer)) (\<lambda>_.
             bnd (gemini_http_failure (ad_str cfg) (hl_response answer)) raise)
        else ret (deliver (hc_idle (ad_client cfg))
               (gemini_lines (ad_tx cfg) (hl_failure answer) (hl_lines answer) False None)
               (\<lambda>d. ret ()))))))
       (\<lambda>e. raise (gemini_stream_failure None e)))"

end
