(* ===== verification/Provider_Streams.thy ===== *)
theory Provider_Streams
  imports Provider_Gemini
begin

text \<open>
  What the provider adapters promise the Gateway. The streams of the OpenAI and Gemini adapters and of
  the deterministic mock report usage that never decreases (locale \<open>metered_stream\<close>), a stream of the
  OpenAI adapter succeeds exactly on one completed response, and only failures that are known not to
  have reached the provider, or that the provider confirmed, are offered for another attempt.
\<close>

section \<open>The stream of the mock provider\<close>

text \<open>\<^verbatim>\<open>str.split()\<close>\<close>

function py_split :: "string \<Rightarrow> string list" where
  "py_split s = (let t = dropWhile py_space s in
     if t = [] then [] else takeWhile (\<lambda>c. \<not> py_space c) t # py_split (dropWhile (\<lambda>c. \<not> py_space c) t))"
  by pat_completeness auto

termination
proof (relation "measure length")
  fix s t :: string
  assume t: "t = dropWhile py_space s" "t \<noteq> []"
  then have "\<not> py_space (hd t)" by (simp add: hd_dropWhile)
  with t(2) have "length (dropWhile (\<lambda>c. \<not> py_space c) t) < length t"
    by (cases t) (simp_all add: le_imp_less_Suc length_dropWhile_le)
  also have "\<dots> \<le> length s" using t(1) by (simp add: length_dropWhile_le)
  finally show "(dropWhile (\<lambda>c. \<not> py_space c) t, s) \<in> measure length" by simp
qed simp

declare py_split.simps [simp del]

fun mock_words :: "bool \<Rightarrow> int \<Rightarrow> nat \<Rightarrow> string list \<Rightarrow> ProviderStreamEvent list \<times> bool" where
  "mock_words breaks tokens n [] = ([], False)"
| "mock_words breaks tokens n (word # rest) =
     (if breaks \<and> n = 1 then ([], True)
      else let (events, broken) = mock_words breaks tokens (Suc n) rest in
        (content_delta (word @ '' '') #
           (if breaks \<and> n = 0 then [usage_report (usage_of tokens (token_count (word @ '' '')))] else []) @ events,
         broken))"

definition mock_events :: "string \<Rightarrow> MockProviderBehavior \<Rightarrow> string \<Rightarrow> string \<Rightarrow> ProviderStreamEvent list \<times> exn option" where
  "mock_events prefix behavior prompt message =
     (let content = prefix @ '': '' @ strip message;
          (events, broken) = mock_words (behavior = MOCK_MID_STREAM_FAILURE) (token_count prompt) 0 (py_split content) in
      if broken then (events, Some (ProviderFailure ''AI_PROVIDER_STREAM_FAILED'' False None))
      else (events @ (if behavior = MOCK_MISSING_USAGE then []
              else [usage_report (usage_of (token_count prompt) (token_count content))]), None))"

definition mock_stream ::
  "string \<Rightarrow> string \<Rightarrow> string \<Rightarrow> AIInvocationRequest
   \<Rightarrow> ('z host_state_scheme, ('z host_state_scheme, ProviderStreamEvent) eff list) eff"
where
  "mock_stream key model prompt r =
     bnd (modify_provider key (\<lambda>p. p\<lparr>mp_calls := mp_calls p + 1, mp_prompts := mp_prompts p @ [prompt]\<rparr>)) (\<lambda>_.
     bnd (next_behavior key) (\<lambda>behavior.
     bnd (load_provider key) (\<lambda>p.
     let (events, ended) = mock_events (mp_prefix p) behavior prompt (rq_prompt r) in
     ret (map ret events @ (case ended of None \<Rightarrow> [] | Some e \<Rightarrow> [raise e])))))"

section \<open>Completion of an OpenAI stream\<close>

definition data_line :: "string \<Rightarrow> bool" where
  "data_line line \<longleftrightarrow> starts_with ''data: '' line \<and> line \<noteq> ''data: [DONE]''"

definition decoded :: "text_services \<Rightarrow> string \<Rightarrow> pydict" where
  "decoded tx line = (if data_line line then (case json_loads tx (drop 6 line) of
       Inl _ \<Rightarrow> [] | Inr v \<Rightarrow> dict_or_empty v) else [])"

definition completed_line :: "text_services \<Rightarrow> string \<Rightarrow> bool" where
  "completed_line tx line \<longleftrightarrow> pget (decoded tx line) ''type'' = PStr ''response.completed''
     \<and> pget (dict_or_empty (pget (decoded tx line) ''response'')) ''status'' = PStr ''completed''"

definition line_text :: "text_services \<Rightarrow> string \<Rightarrow> string" where
  "line_text tx line =
     (if pget (decoded tx line) ''type'' = PStr ''response.output_text.delta''
      then (case as_str (pget (decoded tx line) ''delta'') of None \<Rightarrow> [] | Some t \<Rightarrow> t) else [])"

definition line_usage :: "text_services \<Rightarrow> string \<Rightarrow> AIUsage option" where
  "line_usage tx line = openai_usage (pget (dict_or_empty (pget (decoded tx line) ''response'')) ''usage'')"

lemma after_completion:
  assumes "openai_lines tx broken lines True latest = (events, ended)" "sn_raised ended = None"
  shows "events = [] \<and> (\<forall>l\<in>set lines. \<not> data_line l)"
  using assms
proof (induction lines arbitrary: events ended)
  case (Cons l lines)
  then show ?case
    by (auto simp: openai_line_def data_line_def stream_raise_def split: if_splits prod.splits)
qed (auto simp: stream_exn_def stream_raise_def split: option.splits)

lemma openai_event_progress:
  assumes "openai_event event None = Continue yielded seen latest"
  shows "(\<not> seen \<and> latest = None \<and> pget event ''type'' \<noteq> PStr ''response.completed''
      \<and> yielded = (if pget event ''type'' = PStr ''response.output_text.delta''
           then (case as_str (pget event ''delta'') of
                   Some t \<Rightarrow> if t \<noteq> [] then Some (content_delta t) else None | None \<Rightarrow> None) else None))
    \<or> (seen \<and> pget event ''type'' = PStr ''response.completed''
      \<and> pget (dict_or_empty (pget event ''response'')) ''status'' = PStr ''completed''
      \<and> latest = openai_usage (pget (dict_or_empty (pget event ''response'')) ''usage'')
      \<and> yielded = map_option usage_report latest)"
  using assms
  by (auto simp: openai_event_def completed_event_def failed_event_def terminal_failure_def latest_usage_def
      usage_regressed_def dict_or_empty_def Let_def split: if_splits option.splits prod.splits)
     (metis option.simps(9))

lemma stop_raises: "openai_line tx line seen latest = Stop ended \<Longrightarrow> sn_raised ended \<noteq> None"
  by (auto simp: openai_line_def openai_event_def completed_event_def failed_event_def stream_raise_def stream_exn_def
      Let_def split: if_splits option.splits prod.splits sum.splits)

lemma openai_line_progress:
  assumes "openai_line tx line False None = Continue yielded seen latest"
  shows "(\<not> seen \<and> latest = None \<and> \<not> completed_line tx line
      \<and> yielded = (if line_text tx line \<noteq> [] then Some (content_delta (line_text tx line)) else None))
    \<or> (seen \<and> completed_line tx line \<and> latest = line_usage tx line \<and> yielded = map_option usage_report latest)"
proof (cases "data_line line")
  case False
  then show ?thesis using assms
    by (auto simp: openai_line_def data_line_def completed_line_def line_text_def decoded_def split: if_splits)
next
  case True
  with assms obtain event where event: "json_loads tx (drop 6 line) = Inr (PDict event)"
    and run: "openai_event event None = Continue yielded seen latest"
    by (auto simp: openai_line_def data_line_def split: if_splits sum.splits option.splits)
  have "decoded tx line = event" using True event by (simp add: decoded_def dict_or_empty_def)
  with openai_event_progress [OF run] show ?thesis
    by (auto simp: completed_line_def line_text_def line_usage_def split: if_splits option.splits)
qed

lemma openai_success:
  assumes "openai_lines tx broken lines False None = (events, ended)" "sn_raised ended = None"
  shows "\<exists>before line after. lines = before @ line # after
    \<and> (\<forall>l\<in>set before. \<not> completed_line tx l) \<and> completed_line tx line \<and> (\<forall>l\<in>set after. \<not> data_line l)
    \<and> events = map content_delta (filter (\<lambda>t. t \<noteq> []) (map (line_text tx) before))
        @ (case line_usage tx line of None \<Rightarrow> [] | Some u \<Rightarrow> [usage_report u])"
  using assms
proof (induction lines arbitrary: events ended)
  case Nil
  then show ?case by (auto simp: stream_exn_def stream_raise_def split: option.splits)
next
  case (Cons l lines)
  from Cons.prems obtain yielded seen latest rest where
    step: "openai_line tx l False None = Continue yielded seen latest" and
    rest: "openai_lines tx broken lines seen latest = (rest, ended)" and
    events: "events = (case yielded of None \<Rightarrow> rest | Some e \<Rightarrow> e # rest)"
    by (auto split: line_effect.splits prod.splits dest: stop_raises)
  from openai_line_progress [OF step] show ?case
  proof (elim disjE conjE)
    assume open_: "\<not> seen" "latest = None" "\<not> completed_line tx l"
      "yielded = (if line_text tx l \<noteq> [] then Some (content_delta (line_text tx l)) else None)"
    then obtain before line after where "lines = before @ line # after" "\<forall>l\<in>set before. \<not> completed_line tx l"
      "completed_line tx line" "\<forall>l\<in>set after. \<not> data_line l"
      "rest = map content_delta (filter (\<lambda>t. t \<noteq> []) (map (line_text tx) before))
        @ (case line_usage tx line of None \<Rightarrow> [] | Some u \<Rightarrow> [usage_report u])"
      using Cons.IH [of rest ended] rest Cons.prems(2) by auto
    with open_ events show ?thesis
      by (intro exI [of _ "l # before"] exI [of _ line] exI [of _ after]) auto
  next
    assume done_: "seen" "completed_line tx l" "latest = line_usage tx l" "yielded = map_option usage_report latest"
    with after_completion [of tx broken lines latest rest ended] rest Cons.prems(2) events show ?thesis
      by (intro exI [of _ "[]"] exI [of _ l] exI [of _ lines]) (auto split: option.splits)
  qed
qed

section \<open>Metered streams\<close>

definition event_ok :: "ProviderStreamEvent \<Rightarrow> bool" where
  "event_ok e \<longleftrightarrow> (\<exists>t. t \<noteq> [] \<and> e = content_delta t) \<or> (\<exists>u. usage_ok u \<and> e = usage_report u)"

text \<open>Every event is well formed and, read in order, no usage report is below the one before.\<close>

fun metered :: "AIUsage option \<Rightarrow> ProviderStreamEvent list \<Rightarrow> bool" where
  "metered latest [] \<longleftrightarrow> True"
| "metered latest (e # es) \<longleftrightarrow> event_ok e \<and>
     (case pe_usage e of
        None \<Rightarrow> metered latest es
      | Some u \<Rightarrow> \<not> usage_regressed latest u \<and> metered (Some u) es)"

lemma event_simps [simp]:
  "pe_kind (content_delta t) = ''content_delta''" "pe_content (content_delta t) = Some t" "pe_usage (content_delta t) = None"
  "pe_kind (usage_report u) = ''usage''" "pe_content (usage_report u) = None" "pe_usage (usage_report u) = Some u"
  "event_ok (content_delta t) \<longleftrightarrow> t \<noteq> []" "event_ok (usage_report u) \<longleftrightarrow> usage_ok u"
  by (auto simp: event_ok_def content_delta_def usage_report_def)

lemma metered_weaken:
  "metered (Some w) es \<Longrightarrow> \<not> usage_regressed latest w \<Longrightarrow> metered latest es"
  by (induction es arbitrary: latest)
    (auto simp: usage_regressed_def split: option.splits)

lemma metered_append_report:
  "metered latest es \<Longrightarrow> (\<And>e. e \<in> set es \<Longrightarrow> pe_usage e = None) \<Longrightarrow> usage_ok u \<Longrightarrow> \<not> usage_regressed latest u \<Longrightarrow>
   metered latest (es @ [usage_report u])"
  by (induction es) auto

lemma latest_usage_step:
  assumes "latest_usage latest reported = Inr latest'" "\<forall>u. latest = Some u \<longrightarrow> usage_ok u" "\<forall>u. reported = Some u \<longrightarrow> usage_ok u"
  shows "(\<forall>u. latest' = Some u \<longrightarrow> usage_ok u \<and> \<not> usage_regressed latest u) \<and> (latest' = None \<longrightarrow> latest = None)"
  using assms by (auto simp: latest_usage_def usage_regressed_def split: option.splits if_splits)

lemma reported_ok:
  "openai_usage v = Some u \<Longrightarrow> usage_ok u" "gemini_usage v = Some u \<Longrightarrow> usage_ok u"
  by (auto simp: openai_usage_def gemini_usage_def split: option.splits)

lemma openai_line_metered:
  assumes "openai_line tx line seen latest = Continue yielded seen' latest'" "\<forall>u. latest = Some u \<longrightarrow> usage_ok u"
  shows "(\<forall>u. latest' = Some u \<longrightarrow> usage_ok u \<and> \<not> usage_regressed latest u) \<and> (latest' = None \<longrightarrow> latest = None)
    \<and> (yielded = None \<or> (\<exists>t. t \<noteq> [] \<and> yielded = Some (content_delta t)) \<or> (\<exists>u. latest' = Some u \<and> yielded = Some (usage_report u)))"
  using assms
  by (auto simp: openai_line_def openai_event_def completed_event_def failed_event_def Let_def usage_regressed_def
      dest: latest_usage_step reported_ok split: if_splits option.splits prod.splits sum.splits)

lemma metered_next:
  assumes "metered latest' es" "\<forall>u. latest' = Some u \<longrightarrow> \<not> usage_regressed latest u" "latest' = None \<longrightarrow> latest = None"
  shows "metered latest es"
  using assms by (cases latest') (auto intro: metered_weaken)

lemma metered_latest: "latest_usage latest reported = Inr latest' \<Longrightarrow> metered latest' es \<Longrightarrow> metered latest es"
  by (auto simp: latest_usage_def intro: metered_weaken split: option.splits if_splits)

lemma openai_lines_metered:
  "\<forall>u. latest = Some u \<longrightarrow> usage_ok u \<Longrightarrow> metered latest (fst (openai_lines tx broken lines seen latest))"
proof (induction lines arbitrary: seen latest)
  case (Cons line lines)
  show ?case
  proof (cases "openai_line tx line seen latest")
    case (Continue yielded seen' latest')
    note step = openai_line_metered [OF Continue Cons.prems]
    then have "metered latest' (fst (openai_lines tx broken lines seen' latest'))" by (intro Cons.IH) auto
    with step metered_next [OF this] Continue show ?thesis
      by (auto split: prod.splits option.splits)
  qed simp
qed simp

lemma gemini_line_metered:
  assumes "gemini_line tx line seen latest = (yielded, outcome)" "\<forall>u. latest = Some u \<longrightarrow> usage_ok u"
  shows "metered latest yielded"
    and "outcome = Inr (seen', latest') \<Longrightarrow>
      (\<forall>u. latest' = Some u \<longrightarrow> usage_ok u \<and> \<not> usage_regressed latest u) \<and> (latest' = None \<longrightarrow> latest = None)
      \<and> (metered latest' es \<longrightarrow> metered latest (yielded @ es))"
proof -
  show "metered latest yielded"
    using assms
    by (auto simp: gemini_line_def gemini_chunk_def Let_def dest: latest_usage_step reported_ok
        split: if_splits option.splits sum.splits)
  assume out: "outcome = Inr (seen', latest')"
  show "(\<forall>u. latest' = Some u \<longrightarrow> usage_ok u \<and> \<not> usage_regressed latest u) \<and> (latest' = None \<longrightarrow> latest = None)
      \<and> (metered latest' es \<longrightarrow> metered latest (yielded @ es))"
    using assms out
    by (auto simp: gemini_line_def gemini_chunk_def Let_def usage_regressed_def
        dest: latest_usage_step reported_ok intro: metered_latest split: if_splits option.splits sum.splits)
qed

lemma gemini_lines_metered:
  "\<forall>u. latest = Some u \<longrightarrow> usage_ok u \<Longrightarrow> metered latest (fst (gemini_lines tx broken lines seen latest))"
proof (induction lines arbitrary: seen latest)
  case (Cons line lines)
  obtain yielded outcome where step: "gemini_line tx line seen latest = (yielded, outcome)" by (cases "gemini_line tx line seen latest")
  show ?case
  proof (cases outcome)
    case (Inl e)
    with gemini_line_metered(1) [OF step Cons.prems] step show ?thesis by simp
  next
    case (Inr next_state)
    obtain seen' latest' where n: "next_state = (seen', latest')" by (cases next_state)
    note line = gemini_line_metered(2) [OF step Cons.prems, of seen' latest']
    then have "metered latest' (fst (gemini_lines tx broken lines seen' latest'))"
      using Inr n by (intro Cons.IH) auto
    with line Inr n step show ?thesis by (auto split: prod.splits)
  qed
qed simp

lemma mock_usage_ok: "usage_ok (usage_of (token_count a) (token_count b))"
  by (simp add: usage_ok_def usage_of_def token_count_def max.coboundedI1)

lemma token_count_mono: "utf8_len a \<le> utf8_len b \<Longrightarrow> token_count a \<le> token_count b"
  unfolding token_count_def by (intro max.mono of_nat_mono div_le_mono order_refl)

lemma py_split_word:
  assumes "py_split s = w # ws" "CHR '' '' \<in> set s"
  shows "token_count (w @ '' '') \<le> token_count s"
proof -
  let ?t = "dropWhile py_space s"
  let ?a = "takeWhile py_space s" and ?b = "dropWhile (\<lambda>c. \<not> py_space c) ?t"
  have w: "w = takeWhile (\<lambda>c. \<not> py_space c) ?t"
    using assms(1) by (subst (asm) py_split.simps) (auto simp: Let_def split: if_splits)
  have "?a @ w @ ?b = s" unfolding w by (metis takeWhile_dropWhile_id)
  moreover have "CHR '' '' \<notin> set w"
    unfolding w by (auto dest: set_takeWhileD simp: py_space_def)
  ultimately have "CHR '' '' \<in> set (?a @ ?b)" using assms(2) by (metis Un_iff set_append)
  then have "1 \<le> utf8_len (?a @ ?b)" using utf8_len_ge_length [of "?a @ ?b"]
    by (metis One_nat_def Suc_leI le_trans length_pos_if_in_set)
  moreover have "utf8_len s = utf8_len ?a + utf8_len w + utf8_len ?b"
    using \<open>?a @ w @ ?b = s\<close> by (metis add.assoc utf8_len_simps(3))
  ultimately show ?thesis by (intro token_count_mono) simp
qed

lemma mock_words_plain:
  "\<not> breaks \<or> 1 \<le> n \<Longrightarrow> mock_words breaks tokens n ws = (events, broken) \<Longrightarrow>
   metered latest events \<and> (\<forall>e\<in>set events. pe_usage e = None) \<and> (breaks \<and> n = 1 \<and> ws \<noteq> [] \<longrightarrow> broken \<and> events = [])"
  by (induction breaks tokens n ws arbitrary: events broken rule: mock_words.induct)
    (auto split: if_splits prod.splits)

lemma mock_events_metered: "metered None (fst (mock_events prefix behavior prompt message))"
proof -
  define content where "content = prefix @ '': '' @ strip message"
  define breaks where "breaks = (behavior = MOCK_MID_STREAM_FAILURE)"
  obtain events broken where words: "mock_words breaks (token_count prompt) 0 (py_split content) = (events, broken)"
    by (cases "mock_words breaks (token_count prompt) 0 (py_split content)")
  let ?u = "usage_of (token_count prompt) (token_count content)"
  have space: "CHR '' '' \<in> set content" by (simp add: content_def)
  have "metered None (if broken then events else events @ (if behavior = MOCK_MISSING_USAGE then [] else [usage_report ?u]))"
  proof (cases "breaks \<and> py_split content \<noteq> []")
    case False
    then have "metered None events \<and> (\<forall>e\<in>set events. pe_usage e = None)"
      using mock_words_plain [of breaks 0 "token_count prompt" "py_split content" events broken None] words
      by (cases "py_split content") auto
    then show ?thesis
      by (auto intro: metered_append_report simp: mock_usage_ok usage_regressed_def)
  next
    case True
    then obtain w ws where ws: "py_split content = w # ws" by (cases "py_split content") auto
    let ?v = "usage_of (token_count prompt) (token_count (w @ '' ''))"
    obtain rest where rest: "mock_words breaks (token_count prompt) 1 ws = (rest, broken)"
      and events: "events = content_delta (w @ '' '') # usage_report ?v # rest"
      using words True ws by (auto split: prod.splits)
    have plain: "metered (Some ?v) rest \<and> (\<forall>e\<in>set rest. pe_usage e = None)"
      using mock_words_plain [OF _ rest, of "Some ?v"] by simp
    have "\<not> usage_regressed (Some ?v) ?u"
      using py_split_word [OF ws space] by (simp add: usage_regressed_def usage_of_def)
    with plain have "metered (Some ?v) (rest @ [usage_report ?u])"
      by (intro metered_append_report) (auto simp: mock_usage_ok)
    with plain events show ?thesis by (auto simp: mock_usage_ok usage_regressed_def)
  qed
  then show ?thesis
    using words by (auto simp: mock_events_def content_def breaks_def Let_def split: if_splits)
qed

section \<open>The Gateway's usage check\<close>

text \<open>An effect that never raises the Gateway's failure for decreasing usage.\<close>

definition tame :: "('s, 'a) eff \<Rightarrow> bool" where
  "tame m \<longleftrightarrow> (\<forall>s b u t. m s \<noteq> (Inl (ProviderFailure ''AI_NON_MONOTONIC_USAGE'' b u), t))"

lemma tame_basic: "tame (ret x)" "tame (asks g)" "tame (upd h)" "tame clock_now"
  by (simp_all add: tame_def effect_simps)

lemma tame_raise: "(\<And>b u. e \<noteq> ProviderFailure ''AI_NON_MONOTONIC_USAGE'' b u) \<Longrightarrow> tame (raise e)"
  by (simp add: tame_def effect_simps)

lemma tame_lift: "(\<And>b u. r \<noteq> Inl (ProviderFailure ''AI_NON_MONOTONIC_USAGE'' b u)) \<Longrightarrow> tame (lift r)"
  by (simp add: tame_def effect_simps)

lemma tame_guard: "(\<And>b u. e \<noteq> ProviderFailure ''AI_NON_MONOTONIC_USAGE'' b u) \<Longrightarrow> tame (guard b e)"
  by (simp add: tame_def effect_simps)

lemma tame_bnd: "tame m \<Longrightarrow> (\<And>x. tame (h x)) \<Longrightarrow> tame (bnd m h)"
  unfolding tame_def bnd_def by (auto split: prod.splits sum.splits)

lemma tame_if: "(b \<Longrightarrow> tame m) \<Longrightarrow> (\<not> b \<Longrightarrow> tame n) \<Longrightarrow> tame (if b then m else n)"
  by simp

lemma tame_option: "tame m \<Longrightarrow> (\<And>y. tame (h y)) \<Longrightarrow> tame (case x of None \<Rightarrow> m | Some y \<Rightarrow> h y)"
  by (cases x) auto

lemma tame_case_prod: "(\<And>x y. tame (h x y)) \<Longrightarrow> tame (case p of (x, y) \<Rightarrow> h x y)"
  by (cases p) auto

lemmas tame_rules = tame_basic tame_bnd tame_if tame_option tame_case_prod

lemma tame_store:
  "tame (load_invocation i)" "tame (modify_invocation i h)" "tame (modify_reservation i k)" "tame (checkpoint i)"
  "tame (assert_execution_owner i owner g)" "tame (fence env i owner g)" "tame (fence_option i claim)"
  "tame (record_usage i u cost key kind final claim)"
  unfolding load_invocation_def modify_invocation_def modify_reservation_def checkpoint_def assert_execution_owner_def
    fence_def fence_option_def record_usage_def Let_def
  by (intro tame_rules tame_raise tame_guard; simp)+

lemma tame_observe: "tame (observe i operation attrs)"
  unfolding observe_def record_log_def Let_def
  by (intro tame_rules tame_store tame_lift) (auto simp: observability_context_def tame_def effect_simps)

lemma tame_frame: "tame (frame_get h)" "tame (frame_set k)" "tame next_sequence"
  by (simp_all add: frame_get_def frame_set_def next_sequence_def tame_basic)

lemma tame_outer: "tame m \<Longrightarrow> tame (outer m)"
  by (auto simp: tame_def outer_def split: prod.splits)

lemma tame_usage_cost: "tame (lift (usage_cost catalog model u))"
  by (rule tame_lift) (auto simp: usage_cost_def find_model_def ebind_Inl split: option.splits)

lemma usage_framed: "runs P (outer m) (\<lambda>_. P) (\<lambda>_ _. True)"
  by (rule runs_outer) simp

lemma usage_getting: "runs P (frame_get h) (\<lambda>_. P) (\<lambda>_ _. True)"
  by (rule runs_mono [OF runs_frame_get]) auto

lemma frame_rules:
  "runs (\<lambda>f. fr_usage f = w) (frame_set (\<lambda>f. f\<lparr>fr_parts := ps\<rparr>)) (\<lambda>_ f. fr_usage f = w) (\<lambda>_ _. True)"
  "runs (\<lambda>f. fr_usage f = w) next_sequence (\<lambda>_ f. fr_usage f = w) (\<lambda>_ _. True)"
  "runs (\<lambda>f. fr_usage f = w) (yield_chunk env c) (\<lambda>_ f. fr_usage f = w) (\<lambda>_ _. True)"
  "runs P (frame_set (\<lambda>f. f\<lparr>fr_usage := Some u, fr_partial_usage := x\<rparr>)) (\<lambda>_ f. fr_usage f = Some u) (\<lambda>_ _. True)"
  by (auto simp: runs_def next_sequence_def yield_chunk_def frame_set_def effect_simps outer_def split: prod.splits sum.splits)

lemmas usage_rules = runs_bnd [OF usage_framed] runs_bnd [OF usage_getting] runs_bnd [OF frame_rules(1)]
  runs_bnd [OF frame_rules(2)] runs_bnd [OF frame_rules(3)] runs_bnd [OF frame_rules(4)] runs_if runs_raise frame_rules usage_framed

lemma content_keeps_usage:
  "runs (\<lambda>f. fr_usage f = w) (content_event env i r owner g text) (\<lambda>_ f. fr_usage f = w) (\<lambda>_ _. True)"
  unfolding content_event_def by (intro usage_rules) simp

lemma usage_event_sets:
  "runs (\<lambda>_. True) (usage_event env i model owner g u) (\<lambda>_ f. fr_usage f = Some u) (\<lambda>_ _. True)"
  unfolding usage_event_def by (intro usage_rules) simp

lemma tame_checked:
  assumes "tame k" "\<not> P (h f)"
  shows "bnd (frame_get h) (\<lambda>x. if P x then raise (e x) else k) (f, s) \<noteq>
    (Inl (ProviderFailure ''AI_NON_MONOTONIC_USAGE'' b v), t)"
  using assms by (cases t) (auto simp: frame_get_def effect_simps tame_def)

context stream_reader
begin

lemma tame_yield: "tame (yield_chunk env c)"
  unfolding yield_chunk_def by (intro tame_bnd tame_frame tame_outer) (auto simp: tame_def dest: closes)

lemma tame_content: "tame (content_event env i r owner g text)"
  unfolding content_event_def by (intro tame_rules tame_frame tame_outer tame_store tame_yield tame_raise) simp

lemma usage_accepted:
  assumes "\<not> usage_regressed (fr_usage f) u"
  shows "usage_event env i model owner g u (f, s) \<noteq> (Inl (ProviderFailure ''AI_NON_MONOTONIC_USAGE'' b v), t)"
  unfolding usage_event_def
  by (intro tame_checked tame_bnd tame_frame tame_outer tame_store tame_yield tame_observe tame_usage_cost assms)

lemma events_accepted:
  "metered (fr_usage f) es \<Longrightarrow>
   stream_events env i r model owner g (map ret es) (f, s) \<noteq> (Inl (ProviderFailure ''AI_NON_MONOTONIC_USAGE'' b v), t)"
proof (induction es arbitrary: f s)
  case (Cons e es)
  obtain x f' s' where step: "stream_event env i r model owner g e (f, s) = (x, f', s')"
    by (metis prod_cases3)
  from Cons.prems consider (piece) t where "t \<noteq> []" "e = content_delta t" "metered (fr_usage f) es"
    | (report) u where "e = usage_report u" "\<not> usage_regressed (fr_usage f) u" "metered (Some u) es"
    by (auto simp: event_ok_def)
  then have "x \<noteq> Inl (ProviderFailure ''AI_NON_MONOTONIC_USAGE'' b v) \<and> (\<forall>y. x = Inr y \<longrightarrow> metered (fr_usage f') es)" for b v
  proof cases
    case piece
    then have run: "content_event env i r owner g t (f, s) = (x, f', s')" using step by (simp add: stream_event_def)
    then have "x = Inr y \<Longrightarrow> fr_usage f' = fr_usage f" for y
      using runsD [OF content_keeps_usage [of "fr_usage f"], of f] by blast
    then show ?thesis using tame_content [of i r owner g t] run piece(3) unfolding tame_def by metis
  next
    case report
    then have run: "usage_event env i model owner g u (f, s) = (x, f', s')" using step by (simp add: stream_event_def)
    then have "x = Inr y \<Longrightarrow> fr_usage f' = Some u" for y
      using runsD [OF usage_event_sets] by blast
    then show ?thesis using usage_accepted [OF report(2)] run report(3) by metis
  qed
  with Cons.IH step show ?case
    by (auto simp: bnd_def outer_apply eff_apply split: sum.splits)
qed (simp add: effect_simps)

end

text \<open>The contract between a provider stream and the Gateway, and what the Gateway gets from it.\<close>

locale metered_stream =
  fixes events :: "'x \<Rightarrow> ProviderStreamEvent list"
  assumes metered_events: "metered None (events x)"
begin

lemma gateway_accepts:
  assumes "stream_reader env" "fr_usage f = None"
  shows "stream_events env i r model owner g (map ret (events x)) (f, s) \<noteq>
    (Inl (ProviderFailure ''AI_NON_MONOTONIC_USAGE'' b v), t)"
  using stream_reader.events_accepted [OF assms(1)] metered_events assms(2) by metis

end

interpretation openai: metered_stream "\<lambda>(tx, broken, lines). fst (openai_lines tx broken lines False None)"
  by unfold_locales (auto intro: openai_lines_metered)

interpretation gemini: metered_stream "\<lambda>(tx, broken, lines). fst (gemini_lines tx broken lines False None)"
  by unfold_locales (auto intro: gemini_lines_metered)

interpretation mock: metered_stream "\<lambda>(prefix, behavior, prompt, message). fst (mock_events prefix behavior prompt message)"
  by unfold_locales (auto intro: mock_events_metered)

section \<open>Failures offered for another attempt\<close>

text \<open>What the adapters rely on in the HTTP client: a request fails with a transport exception or is
  cancelled, and decoding a received body fails with a \<^verbatim>\<open>ValueError\<close>.\<close>

definition http_ok :: "'s http_client \<Rightarrow> bool" where
  "http_ok client \<longleftrightarrow>
     (\<forall>path p s e t. hc_post client path p s = (Inl e, t) \<longrightarrow> (\<exists>x. e = Transport x) \<or> e = CancelledError)
     \<and> (\<forall>path p s resp t e. hc_post client path p s = (Inr resp, t) \<longrightarrow> hr_json resp = Inl e \<longrightarrow> is_value_error e)"

definition undispatched :: "exn \<Rightarrow> bool" where
  "undispatched e \<longleftrightarrow> e = Transport ConnectTimeout \<or> e = Transport PoolTimeout"

definition confirmed_retryable :: "http_response \<Rightarrow> bool" where
  "confirmed_retryable resp \<longleftrightarrow> hr_raises resp \<and> (hr_status resp \<in> {408, 429} \<or> 500 \<le> hr_status resp)"

definition safe_to_repeat :: "exn + http_response \<Rightarrow> bool" where
  "safe_to_repeat outcome = (case outcome of Inl e \<Rightarrow> undispatched e | Inr resp \<Rightarrow> confirmed_retryable resp)"

lemma dispatch_failure_retry:
  "dispatch_failure e = ProviderFailure code True u \<Longrightarrow> (\<exists>x. e = Transport x) \<or> e = CancelledError \<Longrightarrow> undispatched e"
  by (auto simp: dispatch_failure_def undispatched_def split: exn.splits TransportError.splits)

lemma status_failures_retry:
  "raise_failure (openai_status_failure n e) = ProviderFailure code True u \<Longrightarrow> n \<in> {408, 429} \<or> 500 \<le> n"
  "raise_failure (gemini_status_failure n ps m) = ProviderFailure code True u \<Longrightarrow> n \<in> {408, 429} \<or> 500 \<le> n"
  by (auto simp: openai_status_failure_def gemini_status_failure_def raise_failure_def split: if_splits)

lemma bnd_InlE:
  assumes "bnd m h s = (Inl e, t)"
  obtains (first) "m s = (Inl e, t)" | (second) x u where "m s = (Inr x, u)" "h x u = (Inl e, t)"
  using assms by (auto simp: bnd_def split: prod.splits sum.splits)

lemma payload_never_retryable:
  "openai_payload model prompt r \<noteq> Inl (ProviderFailure code True u)"
  "gemini_payload model prompt r \<noteq> Inl (ProviderFailure code True u)"
  "gemini_path model stream \<noteq> Inl (ProviderFailure code True u)"
  by (auto simp: openai_payload_def gemini_payload_def gemini_path_def requested_schema_def model_missing_def Let_def ebind_Inl
      split: option.splits if_splits)

lemma body_never_retryable:
  "(\<And>e. body = Inl e \<Longrightarrow> is_value_error e) \<Longrightarrow> json_object_body body \<noteq> Inl (ProviderFailure code True u)"
  "terminal_failure d = Some (f, diagnostic) \<Longrightarrow> raise_failure f \<noteq> ProviderFailure code True u"
  "gemini_result d \<noteq> Inl (ProviderFailure code True u)"
  by (auto simp: json_object_body_def malformed_def terminal_failure_def status_failure_def raise_failure_def gemini_result_def
      blocked_def finish_failure_def Let_def split: sum.splits option.splits if_splits)

lemma http_failure_retry:
  assumes "\<And>e. hr_json resp = Inl e \<Longrightarrow> is_value_error e"
  shows "bnd (openai_http_failure repr resp) raise s = (Inl (ProviderFailure code True u), t) \<Longrightarrow>
      hr_status resp \<in> {408, 429} \<or> 500 \<le> hr_status resp"
    and "bnd (gemini_http_failure repr resp) raise s = (Inl (ProviderFailure code True u), t) \<Longrightarrow>
      hr_status resp \<in> {408, 429} \<or> 500 \<le> hr_status resp"
  using assms
  by (auto simp: openai_http_failure_def gemini_http_failure_def effect_simps openai_error_body_def gemini_error_body_def Let_def
      dest: status_failures_retry split: sum.splits option.splits if_splits prod.splits)

lemma posted:
  assumes ok: "http_ok client"
    and run: "bnd (catch (hc_post client path p) (\<lambda>e. raise (dispatch_failure e))) h s = (Inl (ProviderFailure code True u), t)"
    and answer: "\<And>resp v. hc_post client path p s = (Inr resp, v) \<Longrightarrow> (\<And>e. hr_json resp = Inl e \<Longrightarrow> is_value_error e) \<Longrightarrow>
      h resp v = (Inl (ProviderFailure code True u), t) \<Longrightarrow> confirmed_retryable resp"
  shows "safe_to_repeat (fst (hc_post client path p s))"
proof (cases "hc_post client path p s")
  case (Pair outcome v)
  show ?thesis
  proof (cases outcome)
    case (Inl e)
    with Pair run have "dispatch_failure e = ProviderFailure code True u" by (simp add: effect_simps)
    moreover have "(\<exists>x. e = Transport x) \<or> e = CancelledError" using ok Pair Inl unfolding http_ok_def by blast
    ultimately show ?thesis using Pair Inl by (simp add: safe_to_repeat_def dispatch_failure_retry)
  next
    case (Inr resp)
    with Pair run have "h resp v = (Inl (ProviderFailure code True u), t)" by (simp add: effect_simps)
    moreover have "\<And>e. hr_json resp = Inl e \<Longrightarrow> is_value_error e" using ok Pair Inr unfolding http_ok_def by blast
    ultimately show ?thesis using answer Pair Inr by (simp add: safe_to_repeat_def)
  qed
qed

lemma openai_answer_retry:
  assumes "\<And>e. hr_json resp = Inl e \<Longrightarrow> is_value_error e"
    and "openai_answer cfg resp v = (Inl (ProviderFailure code True u), t)"
  shows "confirmed_retryable resp"
proof (cases "hr_raises resp")
  case True
  with assms(2) http_failure_retry(1) [OF assms(1)] show ?thesis
    by (simp add: openai_answer_def confirmed_retryable_def)
next
  case False
  with assms(2) body_never_retryable(1) [OF assms(1)] show ?thesis
    by (auto simp: openai_answer_def effect_simps malformed_def dest: body_never_retryable(2)
        split: if_splits sum.splits option.splits prod.splits)
qed

lemma gemini_answer_retry:
  assumes "\<And>e. hr_json resp = Inl e \<Longrightarrow> is_value_error e"
    and "gemini_answer cfg resp v = (Inl (ProviderFailure code True u), t)"
  shows "confirmed_retryable resp"
proof (cases "hr_raises resp")
  case True
  with assms(2) http_failure_retry(2) [OF assms(1)] show ?thesis
    by (simp add: gemini_answer_def confirmed_retryable_def)
next
  case False
  with assms(2) body_never_retryable(1) [OF assms(1)] show ?thesis
    by (auto simp: gemini_answer_def effect_simps ebind_Inl body_never_retryable(3))
qed

section \<open>Properties\<close>

text \<open>C32 (functional). A stream of the OpenAI adapter succeeds on exactly one completed response: whatever lines arrive,
  if the loop ends without an exception then one data line reports the response as completed, no line
  before it does and no data line follows it; and the events the adapter yielded are the text pieces
  of the lines before it, in order and without the empty ones, followed by the usage that line reports.\<close>

theorem openai_stream_success_exact:
  assumes "openai_lines tx broken lines False None = (events, ended)" "sn_raised ended = None"
  shows "\<exists>before line after. lines = before @ line # after
    \<and> (\<forall>l\<in>set before. \<not> completed_line tx l) \<and> completed_line tx line \<and> (\<forall>l\<in>set after. \<not> data_line l)
    \<and> events = map content_delta (filter (\<lambda>t. t \<noteq> []) (map (line_text tx) before))
        @ (case line_usage tx line of None \<Rightarrow> [] | Some u \<Rightarrow> [usage_report u])"
  using assms by (rule openai_success)

text \<open>C31 (safety). A plain call of either live adapter fails with a retryable failure only if the request provably never left
  (a connection or pool timeout) or the provider answered it with one of the statuses that invite a
  repetition; a call whose effect is unknown is never offered for another attempt.\<close>

theorem ambiguous_calls_not_retryable:
  assumes "http_ok (ad_client cfg)"
  shows "(openai_invoke_once cfg model prompt r s = (Inl (ProviderFailure code True u), t) \<longrightarrow>
      (\<exists>payload. openai_payload model prompt r = Inr payload \<and>
         safe_to_repeat (fst (hc_post (ad_client cfg) ''/responses'' (PDict payload) (snd (openai_reset s))))))
    \<and> (gemini_invoke_once cfg model payload s = (Inl (ProviderFailure code True u), t) \<longrightarrow>
      (\<exists>path. gemini_path model False = Inr path \<and>
         safe_to_repeat (fst (hc_post (ad_client cfg) path (PDict payload) (snd (gemini_reset s))))))"
proof (intro conjI impI)
  assume "openai_invoke_once cfg model prompt r s = (Inl (ProviderFailure code True u), t)"
  then obtain payload where p: "openai_payload model prompt r = Inr payload" and
    run: "bnd (catch (hc_post (ad_client cfg) ''/responses'' (PDict payload)) (\<lambda>e. raise (dispatch_failure e)))
      (openai_answer cfg) (snd (openai_reset s)) = (Inl (ProviderFailure code True u), t)"
    unfolding openai_invoke_once_def
    by (elim bnd_InlE) (auto simp: payload_never_retryable openai_reset_def eff_apply)
  have "safe_to_repeat (fst (hc_post (ad_client cfg) ''/responses'' (PDict payload) (snd (openai_reset s))))"
    by (rule posted [OF assms run]) (rule openai_answer_retry)
  with p
  show "\<exists>payload. openai_payload model prompt r = Inr payload \<and>
         safe_to_repeat (fst (hc_post (ad_client cfg) ''/responses'' (PDict payload) (snd (openai_reset s))))" by blast
next
  assume "gemini_invoke_once cfg model payload s = (Inl (ProviderFailure code True u), t)"
  then obtain path where p: "gemini_path model False = Inr path" and
    run: "bnd (catch (hc_post (ad_client cfg) path (PDict payload)) (\<lambda>e. raise (dispatch_failure e)))
      (gemini_answer cfg) (snd (gemini_reset s)) = (Inl (ProviderFailure code True u), t)"
    unfolding gemini_invoke_once_def
    by (elim bnd_InlE) (auto simp: payload_never_retryable gemini_reset_def eff_apply)
  have "safe_to_repeat (fst (hc_post (ad_client cfg) path (PDict payload) (snd (gemini_reset s))))"
    by (rule posted [OF assms run]) (rule gemini_answer_retry)
  with p
  show "\<exists>path. gemini_path model False = Inr path \<and>
         safe_to_repeat (fst (hc_post (ad_client cfg) path (PDict payload) (snd (gemini_reset s))))" by blast
qed

text \<open>The usage check of the Gateway never rejects one of its own adapters: the events of an OpenAI or a Gemini stream
  over any lines, and those of the mock provider, pass it in whatever state the store and the reader are.\<close>

theorem adapters_pass_usage_check:
  assumes "\<And>c s e t. se_consume env c s = (Inl e, t) \<Longrightarrow> e = GeneratorExit" and "fr_usage f = None"
    and "events \<in> {fst (openai_lines tx broken lines False None), fst (gemini_lines tx broken lines False None),
      fst (mock_events prefix behavior prompt message)}"
  shows "stream_events env i r model owner g (map ret events) (f, s) \<noteq>
    (Inl (ProviderFailure ''AI_NON_MONOTONIC_USAGE'' b v), t)"
proof -
  have reader: "stream_reader env" by unfold_locales (rule assms(1))
  from assms(3) consider "events = fst (openai_lines tx broken lines False None)"
    | "events = fst (gemini_lines tx broken lines False None)" | "events = fst (mock_events prefix behavior prompt message)"
    by blast
  then show ?thesis
  proof cases
    case 1
    with openai.gateway_accepts [OF reader assms(2), of i r model owner g "(tx, broken, lines)"] show ?thesis by simp
  next
    case 2
    with gemini.gateway_accepts [OF reader assms(2), of i r model owner g "(tx, broken, lines)"] show ?thesis by simp
  next
    case 3
    with mock.gateway_accepts [OF reader assms(2), of i r model owner g "(prefix, behavior, prompt, message)"]
    show ?thesis by simp
  qed
qed

section \<open>Retries of an interrupted stream\<close>

text \<open>
  An interrupted Gemini stream is retryable only when the request was never dispatched. The OpenAI
  adapter offers a stream for another attempt that the provider may already have processed: a read
  timeout after dispatch ends it with a retryable failure, unlike the same timeout of a plain call.
\<close>

lemma gemini_stream_failure_retry:
  "gemini_stream_failure latest e = ProviderFailure code True u \<Longrightarrow> (\<exists>x. e = Transport x) \<or> e = CancelledError \<Longrightarrow>
   undispatched e"
  by (auto simp: gemini_stream_failure_def undispatched_def split: TransportError.splits)

lemma gemini_line_never_retryable:
  assumes "gemini_line tx line seen latest = (es, Inl (ProviderFailure code True u))"
    and "\<And>s e. json_loads tx s = Inl e \<Longrightarrow> e = JSONDecodeError"
  shows False
  using assms
  by (auto simp: gemini_line_def gemini_chunk_def blocked_def latest_usage_def finish_failure_def Let_def
      split: if_splits sum.splits option.splits)

lemma gemini_stream_retry_safe:
  assumes "\<And>s e. json_loads tx s = Inl e \<Longrightarrow> e = JSONDecodeError"
    and "\<And>e. broken = Some e \<Longrightarrow> (\<exists>x. e = Transport x) \<or> e = CancelledError"
  shows "sn_raised (snd (gemini_lines tx broken lines seen latest)) = Some (ProviderFailure code True u) \<Longrightarrow>
    \<exists>e. broken = Some e \<and> undispatched e"
proof (induction lines arbitrary: seen latest)
  case Nil
  then show ?case
    using assms(2) by (auto simp: stream_exn_def stream_raise_def dest: gemini_stream_failure_retry split: option.splits if_splits)
next
  case (Cons line lines)
  obtain es outcome where step: "gemini_line tx line seen latest = (es, outcome)"
    by (cases "gemini_line tx line seen latest")
  show ?case
  proof (cases outcome)
    case (Inl e)
    with Cons.prems step have "e = ProviderFailure code True u" by (simp add: stream_exn_def)
    with step Inl assms(1) show ?thesis by (blast dest: gemini_line_never_retryable)
  next
    case (Inr next_state)
    with Cons step show ?thesis by (cases next_state) (simp add: split_beta)
  qed
qed

theorem openai_stream_retries_ambiguous:
  assumes "\<forall>l\<in>set lines. \<not> starts_with ''data: '' l"
  shows "sn_raised (snd (openai_lines tx (Some (Transport ReadTimeout)) lines False None)) =
      Some (ProviderFailure ''AI_PROVIDER_TIMEOUT'' True None)
    \<and> dispatch_failure (Transport ReadTimeout) = ProviderFailure ''AI_PROVIDER_EFFECT_AMBIGUOUS'' False None
    \<and> gemini_stream_failure latest (Transport ReadTimeout) = ProviderFailure ''AI_PROVIDER_EFFECT_AMBIGUOUS'' False latest"
  using assms
  by (induction lines)
    (auto simp: stream_exn_def openai_stream_failure_def openai_line_def dispatch_failure_def gemini_stream_failure_def
      split: prod.splits)

text \<open>An error response whose body is JSON but not an object makes the OpenAI adapter raise \<^verbatim>\<open>AttributeError\<close>
  instead of the failure its status stands for; the Gemini adapter normalizes it.\<close>

theorem openai_error_body_unnormalized:
  assumes "hr_json resp = Inr v" "as_map v = None" "hr_raises resp"
  shows "(\<exists>m t. openai_answer cfg resp s = (Inl (AttributeError m), t))
    \<and> (\<exists>code again t. gemini_answer cfg resp s = (Inl (ProviderFailure code again None), t))"
  using assms
  by (auto simp: openai_answer_def gemini_answer_def openai_http_failure_def gemini_http_failure_def openai_error_body_def
      gemini_error_body_def gemini_status_failure_def raise_failure_def effect_simps)

section \<open>Concrete responses\<close>

definition sample_delta :: pyval where
  "sample_delta = PDict [(''type'', PStr ''response.output_text.delta''), (''delta'', PStr ''fine'')]"

definition sample_completed :: pyval where
  "sample_completed = PDict [(''type'', PStr ''response.completed''), (''response'', PDict
     [(''status'', PStr ''completed''), (''usage'', PDict [(''input_tokens'', PInt 10), (''output_tokens'', PInt 2)])])]"

text \<open>The decoder on the texts of the sample lines.\<close>

definition decoding_tx :: text_services where
  "decoding_tx = sample_tx\<lparr>json_loads := (\<lambda>s. if s = ''1'' then Inr sample_delta else if s = ''2'' then Inr sample_completed
     else Inl JSONDecodeError)\<rparr>"

definition sample_lines :: "string list" where
  "sample_lines = [''data: 1'', ''data: 2'', ''data: [DONE]'']"

lemma sample_lines_run:
  "openai_lines decoding_tx None sample_lines False None =
     ([content_delta ''fine'', usage_report (reported_usage (PInt 10) (PInt 2) PNone PNone)], \<lparr>sn_raised = None, sn_diagnostic = None\<rparr>)"
  by (simp add: sample_lines_def openai_line_def decoding_tx_def sample_delta_def sample_completed_def openai_event_def
      completed_event_def terminal_failure_def latest_usage_def usage_regressed_def openai_usage_def dict_or_empty_def)

theorem openai_stream_success_exact_witness:
  "\<exists>before line after. sample_lines = before @ line # after \<and> completed_line decoding_tx line"
  using openai_stream_success_exact [OF sample_lines_run] by auto

theorem adapters_pass_usage_check_witness:
  "stream_events sample_reader ''ai1'' sample_request ''small'' ''worker'' 1
     (map ret [content_delta ''fine'', usage_report (reported_usage (PInt 10) (PInt 2) PNone PNone)]) (empty_frame, gateway_empty) \<noteq>
    (Inl (ProviderFailure ''AI_NON_MONOTONIC_USAGE'' False None), empty_frame, gateway_empty)"
  by (rule adapters_pass_usage_check [OF sample_reader_closes, where tx = decoding_tx and broken = None and lines = sample_lines])
    (simp_all add: sample_lines_run empty_frame_def)

definition unreachable_client :: "'s http_client" where
  "unreachable_client = \<lparr>hc_post = (\<lambda>path p. raise (Transport ConnectTimeout)),
     hc_stream = (\<lambda>path p. raise (Transport ConnectTimeout)), hc_aread = (\<lambda>resp. ret ()), hc_idle = ret ()\<rparr>"

definition unreachable_config :: "provider_state adapter_config" where
  "unreachable_config = \<lparr>ad_tx = sample_tx, ad_str = (\<lambda>_. []), ad_client = unreachable_client, ad_boundary = None\<rparr>"

definition fresh_providers :: provider_state where
  "fresh_providers = gateway_state.extend gateway_empty
     \<lparr>openai_http_diagnostic = None, openai_terminal_diagnostic = None, gemini_diagnostic = None\<rparr>"

theorem ambiguous_calls_not_retryable_witness:
  "(\<exists>payload. openai_payload ''economy-text-v1'' ''hello'' sample_request = Inr payload \<and>
      safe_to_repeat (fst (hc_post (ad_client unreachable_config) ''/responses'' (PDict payload) (snd (openai_reset fresh_providers)))))
   \<and> (\<exists>path. gemini_path ''economy-text-gemini-v1'' False = Inr path \<and>
      safe_to_repeat (fst (hc_post (ad_client unreachable_config) path (PDict []) (snd (gemini_reset fresh_providers)))))"
proof -
  have ok: "http_ok (ad_client unreachable_config)"
    by (simp add: http_ok_def unreachable_config_def unreachable_client_def effect_simps)
  have calls: "openai_invoke_once unreachable_config ''economy-text-v1'' ''hello'' sample_request fresh_providers =
      (Inl (ProviderFailure ''AI_PROVIDER_TIMEOUT'' True None), snd (openai_reset fresh_providers))"
    "gemini_invoke_once unreachable_config ''economy-text-gemini-v1'' [] fresh_providers =
      (Inl (ProviderFailure ''AI_PROVIDER_TIMEOUT'' True None), snd (gemini_reset fresh_providers))"
    by (simp_all add: openai_invoke_once_def gemini_invoke_once_def openai_payload_def gemini_path_def openai_by_key_def
        gemini_by_key_def openai_model_catalog_def gemini_model_catalog_def unreachable_config_def unreachable_client_def
        openai_reset_def gemini_reset_def dispatch_failure_def sample_request_def request_defaults_def effect_simps)
  note ambiguous_calls_not_retryable [OF ok, of "''economy-text-v1''" "''hello''" sample_request fresh_providers
      "''AI_PROVIDER_TIMEOUT''" None "snd (openai_reset fresh_providers)"]
    ambiguous_calls_not_retryable [OF ok, of "''economy-text-gemini-v1''" "''hello''" sample_request fresh_providers
      "''AI_PROVIDER_TIMEOUT''" None "snd (gemini_reset fresh_providers)" "[]"]
  with calls show ?thesis by blast
qed

end
