(* ===== verification/Durable_Outbox.thy ===== *)
theory Durable_Outbox
  imports Engine_Orders
begin

text \<open>
  \<^verbatim>\<open>adapters/persistence_postgres/.../outbox.py\<close>: the durable outbox, its polling relay and the
  buffer that producers write to.

  The database is not part of the repository: the operations of a session are arguments
  (\<open>outbox_session\<close>). \<^verbatim>\<open>begin\<close>, \<^verbatim>\<open>commit\<close> and \<^verbatim>\<open>rollback\<close> are those of
  \<^verbatim>\<open>sessions.begin()\<close>; a query is the operation that answers it; a row whose attributes were assigned is
  written by the flush of its table. Any of them may raise, and whatever other workers do while a
  transaction is awaited happens in \<^verbatim>\<open>begin\<close>. The codec of Events is an argument too.
  \<^verbatim>\<open>utc_now\<close> reads the clock.
\<close>

section \<open>Rows and sessions\<close>

record OutboxEventRow =
  oe_tenant_id :: "string option"
  oe_workspace_id :: "string option"
  oe_event_id :: string
  oe_producer :: string
  oe_event_type :: string
  oe_payload :: string
  oe_recorded_at :: int
  oe_available_at :: int
  oe_lease_owner :: "string option"
  oe_lease_expires_at :: "int option"
  oe_delivery_attempts :: int
  oe_required_consumer_count :: int
  oe_last_error :: "string option"
  oe_delivered_at :: "int option"

record DeliveryReceiptRow =
  dr_tenant_id :: "string option"
  dr_workspace_id :: "string option"
  dr_event_id :: string
  dr_consumer_name :: string
  dr_status :: string
  dr_required :: bool
  dr_lease_owner :: "string option"
  dr_lease_expires_at :: "int option"
  dr_delivery_attempts :: int
  dr_last_error :: "string option"
  dr_created_at :: int
  dr_delivered_at :: "int option"

datatype event_key = Event_Key "string option" "string option" string

definition row_key :: "OutboxEventRow \<Rightarrow> event_key" where
  "row_key r = Event_Key (oe_tenant_id r) (oe_workspace_id r) (oe_event_id r)"

definition receipt_key :: "DeliveryReceiptRow \<Rightarrow> event_key \<times> string" where
  "receipt_key r = (Event_Key (dr_tenant_id r) (dr_workspace_id r) (dr_event_id r), dr_consumer_name r)"

definition key_of_event :: "EventEnvelope \<Rightarrow> event_key" where
  "key_of_event e = Event_Key (evt_tenant_id e) (evt_workspace_id e) (evt_event_id e)"

record 's outbox_session =
  sx_begin :: "('s, unit) eff"
  sx_commit :: "('s, unit) eff"
  sx_rollback :: "('s, unit) eff"
  sx_insert_event :: "OutboxEventRow \<Rightarrow> ('s, unit) eff"
  sx_get_event :: "event_key \<Rightarrow> ('s, OutboxEventRow option) eff"
  sx_flush_event :: "OutboxEventRow \<Rightarrow> ('s, unit) eff"
  sx_insert_receipt :: "DeliveryReceiptRow \<Rightarrow> ('s, unit) eff"
  sx_get_receipt :: "event_key \<Rightarrow> string \<Rightarrow> ('s, DeliveryReceiptRow option) eff"
  sx_flush_receipt :: "DeliveryReceiptRow \<Rightarrow> ('s, unit) eff"
  sx_due_events :: "int \<Rightarrow> int \<Rightarrow> ('s, OutboxEventRow list) eff"
  sx_required_consumers :: "event_key \<Rightarrow> ('s, string list) eff"
  sx_count_required :: "event_key \<Rightarrow> ('s, int) eff"
  sx_count_incomplete :: "event_key \<Rightarrow> ('s, int) eff"
  sx_count_pending :: "('s, int) eff"
  sx_count_stale :: "int \<Rightarrow> ('s, int) eff"

definition transaction :: "'s outbox_session \<Rightarrow> ('s, 'a) eff \<Rightarrow> ('s, 'a) eff" where
  "transaction db body =
     bnd (sx_begin db) (\<lambda>_.
     bnd (catch body (\<lambda>e. bnd (sx_rollback db) (\<lambda>_. raise e))) (\<lambda>x.
     bnd (sx_commit db) (\<lambda>_. ret x)))"

record 's outbox_config =
  oc_session :: "'s outbox_session"
  oc_encode :: "EventEnvelope \<Rightarrow> string"
  oc_decode :: "string \<Rightarrow> exn + EventEnvelope"
  oc_required :: "(string, string list) odict"
  oc_subscriptions :: "'s subscriptions"
  oc_owner :: string
  oc_batch_size :: int
  oc_lease :: int
  oc_backoff :: int

text \<open>\<^verbatim>\<open>tuple(sorted(set(consumers)))\<close> for every Event type\<close>

definition required_table :: "(string, string list) odict \<Rightarrow> (string, string list) odict" where
  "required_table given = map (\<lambda>(ty, consumers). (ty, sorted_list_of_set (set consumers))) given"

definition required_of :: "'s outbox_config \<Rightarrow> string \<Rightarrow> string list" where
  "required_of cfg ty = (case map_of (oc_required cfg) ty of None \<Rightarrow> [] | Some cs \<Rightarrow> cs)"

definition instant_or_now :: "int option \<Rightarrow> ('z services_scheme, int) eff" where
  "instant_or_now now = (case now of None \<Rightarrow> clock_now | Some t \<Rightarrow> ret t)"

section \<open>PostgresOutboxStore\<close>

definition new_event_row :: "'s outbox_config \<Rightarrow> EventEnvelope \<Rightarrow> OutboxEventRow" where
  "new_event_row cfg e =
     \<lparr>oe_tenant_id = evt_tenant_id e, oe_workspace_id = evt_workspace_id e, oe_event_id = evt_event_id e,
      oe_producer = evt_producer e, oe_event_type = evt_event_type e, oe_payload = oc_encode cfg e,
      oe_recorded_at = instant (evt_recorded_at e), oe_available_at = instant (evt_recorded_at e),
      oe_lease_owner = None, oe_lease_expires_at = None, oe_delivery_attempts = 0,
      oe_required_consumer_count = int (length (required_of cfg (evt_event_type e))),
      oe_last_error = None, oe_delivered_at = None\<rparr>"

definition new_receipt_row :: "EventEnvelope \<Rightarrow> string \<Rightarrow> DeliveryReceiptRow" where
  "new_receipt_row e name =
     \<lparr>dr_tenant_id = evt_tenant_id e, dr_workspace_id = evt_workspace_id e, dr_event_id = evt_event_id e,
      dr_consumer_name = name, dr_status = ''Pending'', dr_required = True, dr_lease_owner = None,
      dr_lease_expires_at = None, dr_delivery_attempts = 0, dr_last_error = None,
      dr_created_at = instant (evt_recorded_at e), dr_delivered_at = None\<rparr>"

fun insert_receipts :: "'s outbox_session \<Rightarrow> EventEnvelope \<Rightarrow> string list \<Rightarrow> ('s, unit) eff" where
  "insert_receipts db e [] = ret ()"
| "insert_receipts db e (name # names) =
     bnd (sx_insert_receipt db (new_receipt_row e name)) (\<lambda>_. insert_receipts db e names)"

definition record_in_transaction :: "'s outbox_config \<Rightarrow> EventEnvelope \<Rightarrow> ('s, unit) eff" where
  "record_in_transaction cfg e =
     (let db = oc_session cfg; required = required_of cfg (evt_event_type e) in
      bnd (sx_insert_event db (new_event_row cfg e)) (\<lambda>_.
      bnd (sx_get_event db (key_of_event e)) (\<lambda>stored.
      case stored of
        None \<Rightarrow> raise (ValueError ''EventId cannot be reused with changed content'')
      | Some row \<Rightarrow>
          if oe_payload row \<noteq> oc_encode cfg e
          then raise (ValueError ''EventId cannot be reused with changed content'')
          else if oe_required_consumer_count row \<noteq> int (length required)
          then raise (ValueError ''EventId cannot be reused with changed consumer obligations'')
          else insert_receipts db e required)))"

definition durable_record :: "'s outbox_config \<Rightarrow> EventEnvelope \<Rightarrow> ('s, unit) eff" where
  "durable_record cfg e = transaction (oc_session cfg) (record_in_transaction cfg e)"

fun lease_rows :: "'s outbox_session \<Rightarrow> string \<Rightarrow> int \<Rightarrow> OutboxEventRow list \<Rightarrow> ('s, unit) eff" where
  "lease_rows db owner expiry [] = ret ()"
| "lease_rows db owner expiry (row # rows) =
     bnd (sx_flush_event db (row\<lparr>oe_lease_owner := Some owner, oe_lease_expires_at := Some expiry,
            oe_delivery_attempts := oe_delivery_attempts row + 1\<rparr>)) (\<lambda>_.
     lease_rows db owner expiry rows)"

fun decode_rows :: "('a \<Rightarrow> exn + 'b) \<Rightarrow> 'a list \<Rightarrow> exn + 'b list" where
  "decode_rows f [] = Inr []"
| "decode_rows f (x # xs) = ebind (f x) (\<lambda>y. ebind (decode_rows f xs) (\<lambda>ys. Inr (y # ys)))"

definition claim_events ::
  "('z services_scheme) outbox_config \<Rightarrow> string \<Rightarrow> int \<Rightarrow> int \<Rightarrow> int option
   \<Rightarrow> ('z services_scheme, EventEnvelope list) eff"
where
  "claim_events cfg owner batch_size lease now =
     bnd (instant_or_now now) (\<lambda>t.
     transaction (oc_session cfg)
       (bnd (sx_due_events (oc_session cfg) t batch_size) (\<lambda>rows.
        bnd (lease_rows (oc_session cfg) owner (t + lease) rows) (\<lambda>_.
        lift (decode_rows (oc_decode cfg) (map oe_payload rows))))))"

definition lost_event_lease :: "OutboxEventRow \<Rightarrow> string \<Rightarrow> bool" where
  "lost_event_lease r owner \<longleftrightarrow> oe_lease_owner r \<noteq> Some owner \<or> oe_delivered_at r \<noteq> None"

definition mark_delivered ::
  "('z services_scheme) outbox_config \<Rightarrow> event_key \<Rightarrow> string \<Rightarrow> int option \<Rightarrow> ('z services_scheme, bool) eff"
where
  "mark_delivered cfg key owner now =
     transaction (oc_session cfg)
       (bnd (sx_get_event (oc_session cfg) key) (\<lambda>row.
        case row of
          None \<Rightarrow> ret False
        | Some r \<Rightarrow>
            if lost_event_lease r owner then ret False
            else bnd (instant_or_now now) (\<lambda>t.
                 bnd (sx_flush_event (oc_session cfg) (r\<lparr>oe_delivered_at := Some t, oe_lease_owner := None,
                        oe_lease_expires_at := None\<rparr>)) (\<lambda>_.
                 ret True))))"

definition required_receipts :: "'s outbox_config \<Rightarrow> EventEnvelope \<Rightarrow> ('s, string list) eff" where
  "required_receipts cfg e =
     transaction (oc_session cfg) (sx_required_consumers (oc_session cfg) (key_of_event e))"

definition claim_receipt ::
  "('z services_scheme) outbox_config \<Rightarrow> EventEnvelope \<Rightarrow> string \<Rightarrow> string \<Rightarrow> int \<Rightarrow> int option
   \<Rightarrow> ('z services_scheme, bool) eff"
where
  "claim_receipt cfg e name owner lease now =
     bnd (instant_or_now now) (\<lambda>t.
     transaction (oc_session cfg)
       (bnd (sx_get_receipt (oc_session cfg) (key_of_event e) name) (\<lambda>row.
        case row of
          None \<Rightarrow> ret False
        | Some r \<Rightarrow>
            if dr_status r = ''Delivered'' then ret False
            else if (case dr_lease_expires_at r of None \<Rightarrow> False | Some x \<Rightarrow> t \<le> x) then ret False
            else bnd (sx_flush_receipt (oc_session cfg) (r\<lparr>dr_status := ''Claimed'', dr_lease_owner := Some owner,
                        dr_lease_expires_at := Some (t + lease), dr_delivery_attempts := dr_delivery_attempts r + 1\<rparr>)) (\<lambda>_.
                 ret True))))"

definition holds_receipt :: "DeliveryReceiptRow \<Rightarrow> string \<Rightarrow> bool" where
  "holds_receipt r owner \<longleftrightarrow> dr_lease_owner r = Some owner \<and> dr_status r = ''Claimed''"

definition acknowledge_receipt ::
  "('z services_scheme) outbox_config \<Rightarrow> EventEnvelope \<Rightarrow> string \<Rightarrow> string \<Rightarrow> int option
   \<Rightarrow> ('z services_scheme, bool) eff"
where
  "acknowledge_receipt cfg e name owner now =
     transaction (oc_session cfg)
       (bnd (sx_get_receipt (oc_session cfg) (key_of_event e) name) (\<lambda>row.
        case row of
          None \<Rightarrow> ret False
        | Some r \<Rightarrow>
            if \<not> holds_receipt r owner then ret False
            else bnd (instant_or_now now) (\<lambda>t.
                 bnd (sx_flush_receipt (oc_session cfg) (r\<lparr>dr_status := ''Delivered'', dr_delivered_at := Some t,
                        dr_lease_owner := None, dr_lease_expires_at := None, dr_last_error := None\<rparr>)) (\<lambda>_.
                 ret True))))"

definition fail_receipt ::
  "'s outbox_config \<Rightarrow> EventEnvelope \<Rightarrow> string \<Rightarrow> string \<Rightarrow> string \<Rightarrow> ('s, bool) eff"
where
  "fail_receipt cfg e name owner error =
     transaction (oc_session cfg)
       (bnd (sx_get_receipt (oc_session cfg) (key_of_event e) name) (\<lambda>row.
        case row of
          None \<Rightarrow> ret False
        | Some r \<Rightarrow>
            if \<not> holds_receipt r owner then ret False
            else bnd (sx_flush_receipt (oc_session cfg) (r\<lparr>dr_status := ''Failed'', dr_last_error := Some (take 2000 error),
                        dr_lease_owner := None, dr_lease_expires_at := None\<rparr>)) (\<lambda>_.
                 ret True)))"

definition all_required_receipts_delivered :: "'s outbox_config \<Rightarrow> EventEnvelope \<Rightarrow> ('s, bool) eff" where
  "all_required_receipts_delivered cfg e =
     bnd (transaction (oc_session cfg)
       (bnd (sx_get_event (oc_session cfg) (key_of_event e)) (\<lambda>row.
        case row of
          None \<Rightarrow> ret None
        | Some r \<Rightarrow>
            bnd (sx_count_required (oc_session cfg) (key_of_event e)) (\<lambda>required.
            bnd (sx_count_incomplete (oc_session cfg) (key_of_event e)) (\<lambda>incomplete.
            ret (Some (r, required, incomplete))))))) (\<lambda>found.
     ret (case found of
            None \<Rightarrow> False
          | Some (r, required, incomplete) \<Rightarrow> required = oe_required_consumer_count r \<and> incomplete = 0))"

definition release_failed ::
  "('z services_scheme) outbox_config \<Rightarrow> event_key \<Rightarrow> string \<Rightarrow> string \<Rightarrow> int \<Rightarrow> int option
   \<Rightarrow> ('z services_scheme, bool) eff"
where
  "release_failed cfg key owner error backoff now =
     bnd (instant_or_now now) (\<lambda>t.
     transaction (oc_session cfg)
       (bnd (sx_get_event (oc_session cfg) key) (\<lambda>row.
        case row of
          None \<Rightarrow> ret False
        | Some r \<Rightarrow>
            if lost_event_lease r owner then ret False
            else bnd (sx_flush_event (oc_session cfg) (r\<lparr>oe_last_error := Some (take 2000 error),
                        oe_available_at := t + backoff, oe_lease_owner := None, oe_lease_expires_at := None\<rparr>)) (\<lambda>_.
                 ret True))))"

definition outbox_health :: "('z services_scheme) outbox_config \<Rightarrow> int option \<Rightarrow> ('z services_scheme, pydict) eff" where
  "outbox_health cfg now =
     bnd (instant_or_now now) (\<lambda>t.
     transaction (oc_session cfg)
       (bnd (sx_count_pending (oc_session cfg)) (\<lambda>pending.
        bnd (sx_count_stale (oc_session cfg) t) (\<lambda>stale.
        ret [(''healthy'', PBool True), (''pending'', PInt pending), (''stale_leases'', PInt stale)]))))"

section \<open>PostgresOutboxRelay\<close>

text \<open>\<^verbatim>\<open>type(failure).__name__\<close>\<close>

fun exception_name :: "exn \<Rightarrow> string" where
  "exception_name (ValueError _) = ''ValueError''"
| "exception_name JSONDecodeError = ''JSONDecodeError''"
| "exception_name (AuthorizationFailure _) = ''AuthorizationFailure''"
| "exception_name (DuplicateCommandTarget _) = ''DuplicateCommandTarget''"
| "exception_name (KeyError _) = ''KeyError''"
| "exception_name (LookupError _) = ''LookupError''"
| "exception_name (UnknownCommandTarget _) = ''UnknownCommandTarget''"
| "exception_name (PermissionError _) = ''PermissionError''"
| "exception_name (RuntimeError _) = ''RuntimeError''"
| "exception_name (TypeError _) = ''TypeError''"
| "exception_name InvalidOperation = ''InvalidOperation''"
| "exception_name AssertionError = ''AssertionError''"
| "exception_name StopIteration = ''StopIteration''"
| "exception_name TimeoutError = ''TimeoutError''"
| "exception_name CancelledError = ''CancelledError''"
| "exception_name GeneratorExit = ''GeneratorExit''"
| "exception_name (AttributeError _) = ''AttributeError''"
| "exception_name ResponseNotRead = ''ResponseNotRead''"
| "exception_name (Transport ConnectTimeout) = ''ConnectTimeout''"
| "exception_name (Transport PoolTimeout) = ''PoolTimeout''"
| "exception_name (Transport ReadTimeout) = ''ReadTimeout''"
| "exception_name (Transport WriteTimeout) = ''WriteTimeout''"
| "exception_name (Transport RequestError) = ''RequestError''"
| "exception_name (ExecutionOwnershipLost _) = ''ExecutionOwnershipLost''"
| "exception_name (ProviderFailure _ _ _) = ''ProviderFailure''"
| "exception_name (SkillDependencyFailure _) = ''SkillDependencyFailure''"

text \<open>One consumer: whether its delivery failed.\<close>

definition relay_consumer ::
  "('z messaging_scheme) outbox_config \<Rightarrow> EventEnvelope \<Rightarrow> string \<Rightarrow> ('z messaging_scheme, nat) eff"
where
  "relay_consumer cfg e name =
     bnd (claim_receipt cfg e name (oc_owner cfg) (oc_lease cfg) None) (\<lambda>claimed.
     if \<not> claimed then ret 0 else
     bnd (catch (bnd (deliver_to (oc_subscriptions cfg) e name) (\<lambda>_. ret None))
            (\<lambda>x. if is_exception x then ret (Some x) else raise x)) (\<lambda>failed.
     case failed of
       Some x \<Rightarrow>
         bnd (fail_receipt cfg e name (oc_owner cfg) (exception_name x)) (\<lambda>_. ret 1)
     | None \<Rightarrow>
         bnd (acknowledge_receipt cfg e name (oc_owner cfg) None) (\<lambda>_. ret 0)))"

fun relay_consumers ::
  "('z messaging_scheme) outbox_config \<Rightarrow> EventEnvelope \<Rightarrow> string list \<Rightarrow> ('z messaging_scheme, nat) eff"
where
  "relay_consumers cfg e [] = ret 0"
| "relay_consumers cfg e (name # names) =
     bnd (relay_consumer cfg e name) (\<lambda>k. bnd (relay_consumers cfg e names) (\<lambda>n. ret (k + n)))"

definition relay_event :: "('z messaging_scheme) outbox_config \<Rightarrow> EventEnvelope \<Rightarrow> ('z messaging_scheme, nat) eff" where
  "relay_event cfg e =
     bnd (guard (evt_tenant_id e \<noteq> None \<and> evt_workspace_id e \<noteq> None)
            (ValueError ''durable Event delivery requires tenant and workspace scope'')) (\<lambda>_.
     bnd (required_receipts cfg e) (\<lambda>names.
     bnd (relay_consumers cfg e names) (\<lambda>failures.
     bnd (if failures \<noteq> 0 then ret False else all_required_receipts_delivered cfg e) (\<lambda>all_delivered.
     if \<not> all_delivered
     then bnd (release_failed cfg (key_of_event e) (oc_owner cfg) ''consumer_delivery_incomplete'' (oc_backoff cfg) None)
            (\<lambda>_. ret 0)
     else bnd (mark_delivered cfg (key_of_event e) (oc_owner cfg) None) (\<lambda>marked.
          ret (if marked then 1 else 0))))))"

fun relay_events :: "('z messaging_scheme) outbox_config \<Rightarrow> EventEnvelope list \<Rightarrow> ('z messaging_scheme, nat) eff" where
  "relay_events cfg [] = ret 0"
| "relay_events cfg (e # es) =
     bnd (relay_event cfg e) (\<lambda>k. bnd (relay_events cfg es) (\<lambda>n. ret (k + n)))"

definition durable_relay :: "('z messaging_scheme) outbox_config \<Rightarrow> ('z messaging_scheme, nat) eff" where
  "durable_relay cfg =
     bnd (claim_events cfg (oc_owner cfg) (oc_batch_size cfg) (oc_lease cfg) None) (relay_events cfg)"

section \<open>BufferedPostgresOutbox\<close>

record durable_state = messaging +
  buffered :: "(string, EventEnvelope) odict"

type_synonym 's participant = "('s, unit) eff \<times> ('s, unit) eff"

definition buffered_record :: "EventEnvelope \<Rightarrow> ('z durable_state_scheme, unit) eff" where
  "buffered_record e =
     bnd (asks (\<lambda>s. map_of (buffered s) (evt_event_id e))) (\<lambda>existing.
     bnd (guard (case existing of None \<Rightarrow> True | Some f \<Rightarrow> event_eq f e)
            (ValueError ''EventId cannot be reused with changed content'')) (\<lambda>_.
     upd (\<lambda>s. s\<lparr>buffered := od_put (evt_event_id e) e (buffered s)\<rparr>)))"

fun each :: "('a \<Rightarrow> ('s, unit) eff) \<Rightarrow> 'a list \<Rightarrow> ('s, unit) eff" where
  "each f [] = ret ()"
| "each f (x # xs) = bnd (f x) (\<lambda>_. each f xs)"

definition buffered_drain ::
  "('z durable_state_scheme) outbox_config \<Rightarrow> ('z durable_state_scheme) participant list
   \<Rightarrow> ('z durable_state_scheme, nat) eff"
where
  "buffered_drain cfg participants =
     bnd (asks (\<lambda>s. map snd (buffered s))) (\<lambda>events.
     bnd (transaction (oc_session cfg)
            (bnd (each fst participants) (\<lambda>_. each (record_in_transaction cfg) events))) (\<lambda>_.
     bnd (each snd participants) (\<lambda>_.
     bnd (each (\<lambda>e. upd (\<lambda>s. s\<lparr>buffered := AList.delete (evt_event_id e) (buffered s)\<rparr>)) events) (\<lambda>_.
     durable_relay cfg))))"

end
