(* ===== verification/Durable_Delivery.thy ===== *)
theory Durable_Delivery
  imports Durable_Outbox
begin

text \<open>
  What the durable outbox guarantees, for any number of relays and producers on the same tables.

  \<open>session_laws\<close> states what is used of the database: inside a transaction the operations act on the two
  tables as their statements say, a rollback restores them, a commit that returns keeps them. What other
  workers did when a transaction begins is only known to respect the order \<open>durable_le\<close>, and this is exactly what
  every operation here is shown to respect: recorded Events and their obligations stay, a delivered
  receipt stays delivered, an Event is marked delivered only when all its receipts are, and what
  the buffer table_rows is still buffered or in the table.
\<close>

section \<open>Tables\<close>

record outbox_tables =
  tb_events :: "event_key \<Rightarrow> OutboxEventRow option"
  tb_receipts :: "event_key \<times> string \<Rightarrow> DeliveryReceiptRow option"

definition store_event :: "OutboxEventRow \<Rightarrow> outbox_tables \<Rightarrow> outbox_tables" where
  "store_event row T = T\<lparr>tb_events := (tb_events T)(row_key row \<mapsto> row)\<rparr>"

definition add_event :: "OutboxEventRow \<Rightarrow> outbox_tables \<Rightarrow> outbox_tables" where
  "add_event row T = (if tb_events T (row_key row) = None then store_event row T else T)"

definition store_receipt :: "DeliveryReceiptRow \<Rightarrow> outbox_tables \<Rightarrow> outbox_tables" where
  "store_receipt row T = T\<lparr>tb_receipts := (tb_receipts T)(receipt_key row \<mapsto> row)\<rparr>"

definition add_receipt :: "DeliveryReceiptRow \<Rightarrow> outbox_tables \<Rightarrow> outbox_tables" where
  "add_receipt row T = (if tb_receipts T (receipt_key row) = None then store_receipt row T else T)"

text \<open>The tables as the code keeps them.\<close>

definition settled_event :: "event_key \<Rightarrow> outbox_tables \<Rightarrow> bool" where
  "settled_event k T \<longleftrightarrow> (\<forall>c r. tb_receipts T (k, c) = Some r \<longrightarrow> dr_status r = ''Delivered'')"

definition row_ok :: "'s outbox_config \<Rightarrow> event_key \<Rightarrow> OutboxEventRow \<Rightarrow> bool" where
  "row_ok cfg k row \<longleftrightarrow> row_key row = k
     \<and> (\<exists>e. oe_payload row = oc_encode cfg e \<and> oe_event_type row = evt_event_type e \<and> key_of_event e = k)
     \<and> oe_required_consumer_count row = int (length (required_of cfg (oe_event_type row)))"

definition obliged :: "'s outbox_config \<Rightarrow> outbox_tables \<Rightarrow> event_key \<Rightarrow> OutboxEventRow \<Rightarrow> bool" where
  "obliged cfg T k row \<longleftrightarrow>
     (\<forall>c. tb_receipts T (k, c) \<noteq> None \<longleftrightarrow> c \<in> set (required_of cfg (oe_event_type row)))
     \<and> (oe_delivered_at row \<noteq> None \<longrightarrow> settled_event k T)"

definition receipt_ok :: "outbox_tables \<Rightarrow> event_key \<times> string \<Rightarrow> DeliveryReceiptRow \<Rightarrow> bool" where
  "receipt_ok T k r \<longleftrightarrow> receipt_key r = k \<and> dr_required r \<and> tb_events T (fst k) \<noteq> None"

definition tables_ok :: "'s outbox_config \<Rightarrow> outbox_tables \<Rightarrow> bool" where
  "tables_ok cfg T \<longleftrightarrow>
     (\<forall>k row. tb_events T k = Some row \<longrightarrow> row_ok cfg k row \<and> obliged cfg T k row)
     \<and> (\<forall>k r. tb_receipts T k = Some r \<longrightarrow> receipt_ok T k r)"

definition row_le :: "OutboxEventRow \<Rightarrow> OutboxEventRow \<Rightarrow> bool" where
  "row_le row row' \<longleftrightarrow> oe_payload row' = oe_payload row \<and> oe_event_type row' = oe_event_type row
     \<and> (oe_delivered_at row \<noteq> None \<longrightarrow> oe_delivered_at row' = oe_delivered_at row)"

definition receipt_le :: "DeliveryReceiptRow \<Rightarrow> DeliveryReceiptRow \<Rightarrow> bool" where
  "receipt_le r r' \<longleftrightarrow> (dr_status r = ''Delivered'' \<longrightarrow> r' = r)"

definition tables_le :: "outbox_tables \<Rightarrow> outbox_tables \<Rightarrow> bool" where
  "tables_le T T' \<longleftrightarrow>
     (\<forall>k row. tb_events T k = Some row \<longrightarrow> (\<exists>row'. tb_events T' k = Some row' \<and> row_le row row'))
     \<and> (\<forall>k r. tb_receipts T k = Some r \<longrightarrow> (\<exists>r'. tb_receipts T' k = Some r' \<and> receipt_le r r'))"

declare split_paired_All [simp del] split_paired_Ex [simp del]

lemma row_order [simp]:
  "row_le r r" "receipt_le q q" "row_le r s \<Longrightarrow> row_le s t \<Longrightarrow> row_le r t"
  "receipt_le q u \<Longrightarrow> receipt_le u v \<Longrightarrow> receipt_le q v"
  by (auto simp: row_le_def receipt_le_def)

definition outbox_evolves :: "'s outbox_config \<Rightarrow> outbox_tables \<Rightarrow> outbox_tables \<Rightarrow> bool" where
  "outbox_evolves cfg T T' \<longleftrightarrow> (tables_ok cfg T \<longrightarrow> tables_ok cfg T' \<and> tables_le T T')"

lemma tables_le_refl [simp]: "tables_le T T"
  by (auto simp: tables_le_def)

lemma tables_le_trans:
  assumes "tables_le T U" "tables_le U V"
  shows "tables_le T V"
  unfolding tables_le_def
proof (intro conjI allI impI)
  fix k row assume "tb_events T k = Some row"
  with assms(1) obtain row1 where "tb_events U k = Some row1" "row_le row row1" unfolding tables_le_def by blast
  moreover from this assms(2) obtain row2 where "tb_events V k = Some row2" "row_le row1 row2" unfolding tables_le_def by blast
  ultimately show "\<exists>row'. tb_events V k = Some row' \<and> row_le row row'" using row_order(3) by blast
next
  fix k r assume "tb_receipts T k = Some r"
  with assms(1) obtain r1 where "tb_receipts U k = Some r1" "receipt_le r r1" unfolding tables_le_def by blast
  moreover from this assms(2) obtain r2 where "tb_receipts V k = Some r2" "receipt_le r1 r2" unfolding tables_le_def by blast
  ultimately show "\<exists>r'. tb_receipts V k = Some r' \<and> receipt_le r r'" using row_order(4) by blast
qed

lemma outbox_evolves_refl [simp]: "outbox_evolves cfg T T"
  by (simp add: outbox_evolves_def)

lemma outbox_evolves_trans: "outbox_evolves cfg T U \<Longrightarrow> outbox_evolves cfg U V \<Longrightarrow> outbox_evolves cfg T V"
  unfolding outbox_evolves_def using tables_le_trans by blast

lemma settled_stays:
  assumes "tables_ok cfg T" "outbox_evolves cfg T U" "tb_events T k \<noteq> None" "settled_event k T"
  shows "settled_event k U"
  unfolding settled_event_def
proof (intro allI impI)
  fix c r assume r: "tb_receipts U (k, c) = Some r"
  from assms(3) obtain row where row: "tb_events T k = Some row" by blast
  from assms(1,2) have U: "tables_ok cfg U" and le: "tables_le T U" by (auto simp: outbox_evolves_def)
  from le row obtain row' where row': "tb_events U k = Some row'" "oe_event_type row' = oe_event_type row"
    unfolding tables_le_def row_le_def by blast
  from U row' r have "c \<in> set (required_of cfg (oe_event_type row))"
    unfolding tables_ok_def obliged_def by (metis option.distinct(1))
  with assms(1) row obtain r0 where r0: "tb_receipts T (k, c) = Some r0"
    unfolding tables_ok_def obliged_def by blast
  with assms(4) have "dr_status r0 = ''Delivered''" by (simp add: settled_event_def)
  with le r0 r show "dr_status r = ''Delivered''" by (fastforce simp: tables_le_def receipt_le_def)
qed

subsection \<open>Single writes\<close>

text \<open>Leases, attempts, errors and availability of a row do not count.\<close>

lemma store_event_evolves:
  assumes row: "tb_events T (row_key row) = Some row" and key: "row_key new = row_key row"
    and same: "oe_payload new = oe_payload row" "oe_event_type new = oe_event_type row"
      "oe_required_consumer_count new = oe_required_consumer_count row"
    and marked: "oe_delivered_at new = oe_delivered_at row \<or> oe_delivered_at row = None \<and> settled_event (row_key row) T"
  shows "outbox_evolves cfg T (store_event new T)"
  unfolding outbox_evolves_def
proof
  assume ok: "tables_ok cfg T"
  have receipts: "tb_receipts (store_event new T) = tb_receipts T"
    and events: "tb_events (store_event new T) = (tb_events T)(row_key row \<mapsto> new)"
    by (simp_all add: store_event_def key)
  have settled: "settled_event k (store_event new T) = settled_event k T" for k
    by (simp add: settled_event_def receipts)
  have "row_ok cfg (row_key row) row" "obliged cfg T (row_key row) row" using ok row by (auto simp: tables_ok_def)
  then have "row_ok cfg (row_key row) new" "obliged cfg (store_event new T) (row_key row) new"
    using same key marked by (auto simp: row_ok_def obliged_def settled receipts)
  with ok have "tables_ok cfg (store_event new T)"
    by (auto simp: tables_ok_def events obliged_def settled receipts receipt_ok_def)
  moreover have "tables_le T (store_event new T)"
    using row same marked by (auto simp: tables_le_def events receipts row_le_def)
  ultimately show "tables_ok cfg (store_event new T) \<and> tables_le T (store_event new T)" ..
qed

lemma store_receipt_evolves:
  assumes r: "tb_receipts T (receipt_key r) = Some r" and key: "receipt_key new = receipt_key r"
    and same: "dr_required new = dr_required r" and open_receipt: "dr_status r \<noteq> ''Delivered''"
  shows "outbox_evolves cfg T (store_receipt new T)"
  unfolding outbox_evolves_def
proof
  assume ok: "tables_ok cfg T"
  obtain k0 c0 where kc: "receipt_key r = (k0, c0)" by (cases "receipt_key r")
  have events: "tb_events (store_receipt new T) = tb_events T"
    and receipts: "tb_receipts (store_receipt new T) = (tb_receipts T)(receipt_key r \<mapsto> new)"
    by (simp_all add: store_receipt_def key)
  have unsettled: "\<not> settled_event k0 T" using r open_receipt kc by (auto simp: settled_event_def)
  have old: "receipt_ok T (k0, c0) r" using ok r kc by (auto simp: tables_ok_def)
  have "obliged cfg (store_receipt new T) k row" if "obliged cfg T k row" for k row
    using that r unsettled by (cases "k = k0") (auto simp: obliged_def settled_event_def receipts kc)
  moreover have "receipt_ok (store_receipt new T) (k0, c0) new"
    using old same key kc by (simp add: receipt_ok_def events)
  ultimately have "tables_ok cfg (store_receipt new T)"
    using ok by (auto simp: tables_ok_def events receipts kc receipt_ok_def)
  moreover have "tables_le T (store_receipt new T)"
    using r open_receipt by (auto simp: tables_le_def receipt_le_def events receipts)
  ultimately show "tables_ok cfg (store_receipt new T) \<and> tables_le T (store_receipt new T)" ..
qed

text \<open>Recording: the Event with its obligations, in one transaction.\<close>

fun add_receipts :: "EventEnvelope \<Rightarrow> string list \<Rightarrow> outbox_tables \<Rightarrow> outbox_tables" where
  "add_receipts e [] T = T"
| "add_receipts e (c # cs) T = add_receipts e cs (add_receipt (new_receipt_row e c) T)"

lemma new_row_keys [simp]:
  "row_key (new_event_row cfg e) = key_of_event e" "receipt_key (new_receipt_row e c) = (key_of_event e, c)"
  by (simp_all add: row_key_def new_event_row_def key_of_event_def receipt_key_def new_receipt_row_def)

lemma add_receipts_tables:
  "tb_events (add_receipts e cs T) = tb_events T"
  "tb_receipts (add_receipts e cs T) (k, c) =
     (case tb_receipts T (k, c) of
        Some r \<Rightarrow> Some r
      | None \<Rightarrow> if k = key_of_event e \<and> c \<in> set cs then Some (new_receipt_row e c) else None)"
  by (induction cs arbitrary: T) (auto simp: add_receipt_def store_receipt_def split: option.splits if_splits)

lemma record_evolves:
  assumes codec: "\<And>e f. oc_encode cfg e = oc_encode cfg f \<Longrightarrow> evt_event_type e = evt_event_type f"
    and stored: "tb_events (add_event (new_event_row cfg e) T) (key_of_event e) = Some row"
    and content: "oe_payload row = oc_encode cfg e"
  shows "outbox_evolves cfg T (add_receipts e (required_of cfg (evt_event_type e)) (add_event (new_event_row cfg e) T))"
proof (cases "tb_events T (key_of_event e)")
  case None
  let ?U = "add_receipts e (required_of cfg (evt_event_type e)) (add_event (new_event_row cfg e) T)"
  show ?thesis
    unfolding outbox_evolves_def
  proof
    assume ok: "tables_ok cfg T"
    have none: "tb_receipts T (key_of_event e, c) = None" for c
      using ok None unfolding tables_ok_def receipt_ok_def by (metis fst_conv not_None_eq)
    have events: "tb_events ?U = (tb_events T)(key_of_event e \<mapsto> new_event_row cfg e)"
      using None by (simp add: add_receipts_tables add_event_def store_event_def)
    have receipts: "tb_receipts ?U (k, c) =
        (if k = key_of_event e
         then if c \<in> set (required_of cfg (evt_event_type e)) then Some (new_receipt_row e c) else None
         else tb_receipts T (k, c))" for k c
      using None none by (auto simp: add_receipts_tables add_event_def store_event_def split: option.splits)
    have "row_ok cfg (key_of_event e) (new_event_row cfg e)" "obliged cfg ?U (key_of_event e) (new_event_row cfg e)"
      "receipt_ok ?U (key_of_event e, c) (new_receipt_row e c)" for c
      by (auto simp: row_ok_def obliged_def receipt_ok_def receipts events)
        (auto simp: new_event_row_def new_receipt_row_def key_of_event_def)
    moreover have "obliged cfg ?U k row" if "obliged cfg T k row" "k \<noteq> key_of_event e" for k row
      using that by (simp add: obliged_def settled_event_def receipts)
    ultimately have "tables_ok cfg ?U"
      using ok by (fastforce simp: tables_ok_def events receipts receipt_ok_def split: if_splits)
    moreover have "tables_le T ?U"
      using None none by (auto simp: tables_le_def events receipts)
    ultimately show "tables_ok cfg ?U \<and> tables_le T ?U" ..
  qed
next
  case (Some old)
  then have add: "add_event (new_event_row cfg e) T = T" and row: "row = old"
    using stored by (simp_all add: add_event_def)
  show ?thesis
    unfolding outbox_evolves_def
  proof
    assume ok: "tables_ok cfg T"
    with Some obtain f where f: "oe_payload old = oc_encode cfg f" "oe_event_type old = evt_event_type f"
      and obliged: "\<forall>c. tb_receipts T (key_of_event e, c) \<noteq> None \<longleftrightarrow> c \<in> set (required_of cfg (oe_event_type old))"
      unfolding tables_ok_def row_ok_def obliged_def by blast
    have type: "oe_event_type old = evt_event_type e" using f content row codec by metis
    have "tb_receipts (add_receipts e (required_of cfg (evt_event_type e)) T) = tb_receipts T"
      using obliged type by (auto simp: add_receipts_tables fun_eq_iff split: option.splits) (metis option.distinct(1))
    then have "add_receipts e (required_of cfg (evt_event_type e)) T = T"
      by (simp add: add_receipts_tables outbox_tables.equality)
    with ok show "tables_ok cfg (add_receipts e (required_of cfg (evt_event_type e)) (add_event (new_event_row cfg e) T))
        \<and> tables_le T (add_receipts e (required_of cfg (evt_event_type e)) (add_event (new_event_row cfg e) T))"
      by (simp add: add)
  qed
qed

section \<open>The database\<close>

definition stored_id :: "string \<Rightarrow> outbox_tables \<Rightarrow> bool" where
  "stored_id i T \<longleftrightarrow> (\<exists>a b. tb_events T (Event_Key a b i) \<noteq> None)"

definition durable_ok ::
  "('z durable_state_scheme) outbox_config \<Rightarrow> ('z \<Rightarrow> outbox_tables) \<Rightarrow> 'z durable_state_scheme \<Rightarrow> bool" where
  "durable_ok cfg tables s \<longleftrightarrow> tables_ok cfg (tables (durable_state.more s))
     \<and> (\<forall>(i, e) \<in> set (buffered s). evt_event_id e = i) \<and> od_ok (buffered s)"

definition durable_le ::
  "('z durable_state_scheme) outbox_config \<Rightarrow> ('z \<Rightarrow> outbox_tables)
   \<Rightarrow> 'z durable_state_scheme \<Rightarrow> 'z durable_state_scheme \<Rightarrow> bool" where
  "durable_le cfg tables s t \<longleftrightarrow> (durable_ok cfg tables s \<longrightarrow>
     durable_ok cfg tables t \<and> tables_le (tables (durable_state.more s)) (tables (durable_state.more t))
     \<and> (\<forall>i. map_of (buffered s) i \<noteq> None \<longrightarrow>
          map_of (buffered t) i \<noteq> None \<or> stored_id i (tables (durable_state.more t))))"

lemma stored_id_stays: "tables_le T U \<Longrightarrow> stored_id i T \<Longrightarrow> stored_id i U"
  unfolding tables_le_def stored_id_def by blast

lemma durable_le_trans: "durable_le cfg tables s t \<Longrightarrow> durable_le cfg tables t u \<Longrightarrow> durable_le cfg tables s u"
  unfolding durable_le_def using tables_le_trans stored_id_stays by metis

lemma durable_le_tables:
  assumes "outbox_evolves cfg (tables (durable_state.more s)) (tables (durable_state.more t))" "buffered t = buffered s"
  shows "durable_le cfg tables s t"
  using assms by (auto simp: durable_le_def durable_ok_def outbox_evolves_def)

lemma durable_leD:
  assumes "durable_le cfg tables s t" "durable_ok cfg tables s"
  shows "tables_ok cfg (tables (durable_state.more s))" "tables_ok cfg (tables (durable_state.more t))"
    "tables_le (tables (durable_state.more s)) (tables (durable_state.more t))"
    "outbox_evolves cfg (tables (durable_state.more s)) (tables (durable_state.more t))" "durable_ok cfg tables t"
  using assms by (simp_all add: durable_le_def durable_ok_def outbox_evolves_def)

interpretation durable: evolution "durable_le cfg tables" for cfg tables
  by unfold_locales (auto intro: durable_le_tables, erule (1) durable_le_trans)

text \<open>
  \<open>acts\<close>: an operation inside a transaction. It leaves the buffer and the tables to return to alone, and if it
  returns \<open>x\<close> then \<open>Q x\<close> relates the tables before and after.
\<close>

definition acts ::
  "('z \<Rightarrow> outbox_tables) \<Rightarrow> ('z \<Rightarrow> outbox_tables) \<Rightarrow> ('z durable_state_scheme, 'a) eff
   \<Rightarrow> ('a \<Rightarrow> outbox_tables \<Rightarrow> outbox_tables \<Rightarrow> bool) \<Rightarrow> bool" where
  "acts tables base m Q \<longleftrightarrow> (\<forall>s r t. m s = (r, t) \<longrightarrow>
     buffered t = buffered s \<and> base (durable_state.more t) = base (durable_state.more s)
     \<and> (\<forall>x. r = Inr x \<longrightarrow> Q x (tables (durable_state.more s)) (tables (durable_state.more t))))"

lemma actsI:
  assumes "\<And>s r t. m s = (r, t) \<Longrightarrow> buffered t = buffered s \<and> base (durable_state.more t) = base (durable_state.more s)"
    and "\<And>s x t. m s = (Inr x, t) \<Longrightarrow> Q x (tables (durable_state.more s)) (tables (durable_state.more t))"
  shows "acts tables base m Q"
  using assms by (auto simp: acts_def)

lemma acts_mono: "acts tables base m P \<Longrightarrow> (\<And>x T U. P x T U \<Longrightarrow> Q x T U) \<Longrightarrow> acts tables base m Q"
  unfolding acts_def by blast

lemma acts_pure:
  "acts tables base (ret x) (\<lambda>y T U. y = x \<and> U = T)" "acts tables base (raise e) (\<lambda>_ _ _. False)"
  "acts tables base (lift v) (\<lambda>y T U. v = Inr y \<and> U = T)" "acts tables base clock_now (\<lambda>_ T U. U = T)"
  by (auto simp: acts_def effect_simps durable_state.defs split: sum.splits)

lemma acts_bind:
  assumes "acts tables base m P" "\<And>x. acts tables base (f x) (Q x)"
  shows "acts tables base (bnd m f) (\<lambda>y T V. \<exists>x U. P x T U \<and> Q x y U V)"
proof (rule actsI)
  fix s r t assume "bnd m f s = (r, t)"
  with assms show "buffered t = buffered s \<and> base (durable_state.more t) = base (durable_state.more s)"
    unfolding acts_def bnd_def by (auto split: prod.splits sum.splits)
next
  fix s y t assume "bnd m f s = (Inr y, t)"
  then obtain x u where run: "m s = (Inr x, u)" "f x u = (Inr y, t)" by (rule bnd_InrE)
  with assms have "P x (tables (durable_state.more s)) (tables (durable_state.more u))"
    "Q x y (tables (durable_state.more u)) (tables (durable_state.more t))"
    unfolding acts_def by blast+
  then show "\<exists>x U. P x (tables (durable_state.more s)) U \<and> Q x y U (tables (durable_state.more t))" by blast
qed

lemma acts_now: "acts tables base (instant_or_now now) (\<lambda>_ T U. U = T)"
  by (cases now) (auto simp: instant_or_now_def intro: acts_pure acts_mono [OF acts_pure(1)])

text \<open>What is used of the database and of the codec.\<close>

locale session_laws =
  fixes cfg :: "('z durable_state_scheme) outbox_config"
    and tables base :: "'z \<Rightarrow> outbox_tables"
  assumes begins: "sx_begin (oc_session cfg) s = (r, t) \<Longrightarrow>
      durable_le cfg tables s t \<and> (\<forall>u. r = Inr u \<longrightarrow> base (durable_state.more t) = tables (durable_state.more t))"
    and commits: "sx_commit (oc_session cfg) s = (r, t) \<Longrightarrow> buffered t = buffered s
      \<and> (tables (durable_state.more t) = tables (durable_state.more s)
         \<or> (\<exists>e. r = Inl e) \<and> tables (durable_state.more t) = base (durable_state.more s))"
    and rolls_back: "sx_rollback (oc_session cfg) s = (r, t) \<Longrightarrow> buffered t = buffered s
      \<and> tables (durable_state.more t) = base (durable_state.more s)"
    and event_inserts: "acts tables base (sx_insert_event (oc_session cfg) row) (\<lambda>_ T U. U = add_event row T)"
    and event_gets: "acts tables base (sx_get_event (oc_session cfg) k) (\<lambda>x T U. U = T \<and> x = tb_events T k)"
    and event_flushes: "acts tables base (sx_flush_event (oc_session cfg) row) (\<lambda>_ T U. U = store_event row T)"
    and receipt_inserts: "acts tables base (sx_insert_receipt (oc_session cfg) rec) (\<lambda>_ T U. U = add_receipt rec T)"
    and receipt_gets: "acts tables base (sx_get_receipt (oc_session cfg) k c) (\<lambda>x T U. U = T \<and> x = tb_receipts T (k, c))"
    and receipt_flushes: "acts tables base (sx_flush_receipt (oc_session cfg) rec) (\<lambda>_ T U. U = store_receipt rec T)"
    and due_reads: "acts tables base (sx_due_events (oc_session cfg) now n) (\<lambda>rows T U. U = T
      \<and> distinct (map row_key rows) \<and> (\<forall>row \<in> set rows. tb_events T (row_key row) = Some row))"
    and required_reads: "acts tables base (sx_required_consumers (oc_session cfg) k) (\<lambda>_ T U. U = T)"
    and required_counts: "acts tables base (sx_count_required (oc_session cfg) k) (\<lambda>n T U. U = T
      \<and> n = int (card {c. \<exists>r. tb_receipts T (k, c) = Some r \<and> dr_required r}))"
    and incomplete_counts: "acts tables base (sx_count_incomplete (oc_session cfg) k) (\<lambda>n T U. U = T
      \<and> n = int (card {c. \<exists>r. tb_receipts T (k, c) = Some r \<and> dr_required r \<and> dr_status r \<noteq> ''Delivered''}))"
    and encodes: "oc_encode cfg e = oc_encode cfg f \<Longrightarrow> evt_event_type e = evt_event_type f"
begin

lemma transaction_outcome:
  assumes "transaction (oc_session cfg) body s = (r, t)" "acts tables base body Q"
  obtains (unbegun) "durable_le cfg tables s t" "\<And>x. r \<noteq> Inr x"
    | (undone) s1 where "durable_le cfg tables s s1" "buffered t = buffered s1"
        "tables (durable_state.more t) = tables (durable_state.more s1)" "\<And>x. r \<noteq> Inr x"
    | (kept) s1 x where "durable_le cfg tables s s1" "buffered t = buffered s1"
        "Q x (tables (durable_state.more s1)) (tables (durable_state.more t))" "\<And>y. r = Inr y \<Longrightarrow> y = x"
proof -
  obtain r1 s1 where b: "sx_begin (oc_session cfg) s = (r1, s1)" by force
  show thesis
  proof (cases r1)
    case (Inl e)
    with assms(1) b begins [OF b] show thesis by (intro unbegun) (auto simp: transaction_def effect_simps)
  next
    case (Inr u)
    obtain r2 s2 where m: "body s1 = (r2, s2)" by force
    note le = conjunct1 [OF begins [OF b]] and base = begins [OF b, THEN conjunct2, rule_format, OF Inr]
    note acted = assms(2) [unfolded acts_def, rule_format, OF m]
    show thesis
    proof (cases r2)
      case (Inl e)
      obtain r3 s3 where undoing: "sx_rollback (oc_session cfg) s2 = (r3, s3)" by force
      with assms(1) b m Inr Inl have "t = s3" "\<And>x. r \<noteq> Inr x"
        by (auto simp: transaction_def effect_simps split: sum.splits)
      with rolls_back [OF undoing] acted base le show thesis by (intro undone) auto
    next
      case (Inr x)
      obtain r3 s3 where ending: "sx_commit (oc_session cfg) s2 = (r3, s3)" by force
      with assms(1) b m Inr \<open>r1 = Inr u\<close> have t: "t = s3" "r = (case r3 of Inl e \<Rightarrow> Inl e | Inr _ \<Rightarrow> Inr x)"
        by (auto simp: transaction_def effect_simps split: sum.splits)
      from commits [OF ending] consider "tables (durable_state.more s3) = tables (durable_state.more s2)"
        | e where "r3 = Inl e" "tables (durable_state.more s3) = base (durable_state.more s2)" by blast
      then show thesis
      proof cases
        case 1
        with acted le t Inr commits [OF ending] show thesis by (intro kept [of s1 x]) (auto split: sum.splits)
      next
        case 2
        with acted base le t commits [OF ending] show thesis by (intro undone [of s1]) auto
      qed
    qed
  qed
qed

text \<open>A transaction respects the order if its body does, on the tables it finds.\<close>

lemma transaction_le:
  assumes "transaction (oc_session cfg) body s = (r, t)" "acts tables base body Q"
    and "\<And>s1 x U. durable_le cfg tables s s1 \<Longrightarrow> Q x (tables (durable_state.more s1)) U \<Longrightarrow>
      outbox_evolves cfg (tables (durable_state.more s1)) U"
  shows "durable_le cfg tables s t"
  using assms(1,2)
proof (cases rule: transaction_outcome)
  case (undone s1)
  then have "durable_le cfg tables s1 t" by (intro durable_le_tables) simp_all
  with undone(1) show ?thesis by (rule durable_le_trans)
next
  case (kept s1 x)
  from assms(3) [OF kept(1,3)] kept(2) have "durable_le cfg tables s1 t" by (rule durable_le_tables)
  with kept(1) show ?thesis by (rule durable_le_trans)
qed

lemma transaction_evolves:
  assumes "acts tables base body Q" "\<And>x T U. Q x T U \<Longrightarrow> outbox_evolves cfg T U"
  shows "evolves (durable_le cfg tables) (transaction (oc_session cfg) body)"
  unfolding evolves_def using transaction_le [OF _ assms(1)] assms(2) by (metis prod.collapse)

lemmas transaction_kept = transaction_evolves [where Q = "\<lambda>_. outbox_evolves cfg"]

lemma flushed_event:
  assumes "tb_events T k = Some row" "row_key new = row_key row" "oe_payload new = oe_payload row"
    "oe_event_type new = oe_event_type row" "oe_required_consumer_count new = oe_required_consumer_count row"
    and "oe_delivered_at new = oe_delivered_at row \<or> oe_delivered_at row = None \<and> settled_event k T"
  shows "outbox_evolves cfg T (store_event new T)"
proof (cases "tables_ok cfg T")
  case True
  with assms(1) have "row_key row = k" by (simp add: tables_ok_def row_ok_def)
  with assms show ?thesis by (intro store_event_evolves [of T row]) auto
qed (simp add: outbox_evolves_def)

lemma flushed_receipt:
  assumes "tb_receipts T k = Some r" "receipt_key new = receipt_key r" "dr_required new = dr_required r"
    "dr_status r \<noteq> ''Delivered''"
  shows "outbox_evolves cfg T (store_receipt new T)"
proof (cases "tables_ok cfg T")
  case True
  with assms(1) have "receipt_key r = k" by (simp add: tables_ok_def receipt_ok_def)
  with assms show ?thesis by (intro store_receipt_evolves [of T r]) auto
qed (simp add: outbox_evolves_def)

subsection \<open>The store\<close>

lemma acts_receipts:
  "acts tables base (insert_receipts (oc_session cfg) e cs) (\<lambda>_ T U. U = add_receipts e cs T)"
proof (induction cs)
  case Nil
  show ?case by (simp add: acts_mono [OF acts_pure(1)])
next
  case (Cons c cs)
  show ?case unfolding insert_receipts.simps
    by (rule acts_mono [OF acts_bind [OF receipt_inserts Cons]]) auto
qed

lemma acts_record:
  "acts tables base (record_in_transaction cfg e) (\<lambda>_ T U. outbox_evolves cfg T U
     \<and> (\<exists>row. tb_events U (key_of_event e) = Some row \<and> oe_payload row = oc_encode cfg e))"
proof -
  let ?new = "new_event_row cfg e" and ?required = "required_of cfg (evt_event_type e)"
  have rest: "acts tables base (case stored of
        None \<Rightarrow> raise (ValueError ''EventId cannot be reused with changed content'')
      | Some row \<Rightarrow>
          if oe_payload row \<noteq> oc_encode cfg e
          then raise (ValueError ''EventId cannot be reused with changed content'')
          else if oe_required_consumer_count row \<noteq> int (length ?required)
          then raise (ValueError ''EventId cannot be reused with changed consumer obligations'')
          else insert_receipts (oc_session cfg) e ?required)
      (\<lambda>_ T U. U = add_receipts e ?required T \<and> (\<exists>row. stored = Some row \<and> oe_payload row = oc_encode cfg e))" for stored
    by (auto split: option.splits intro: acts_mono [OF acts_pure(2)] acts_mono [OF acts_receipts])
  show ?thesis
    unfolding record_in_transaction_def Let_def
    by (rule acts_mono [OF acts_bind [OF event_inserts acts_bind [OF event_gets rest]]])
      (auto intro: record_evolves encodes simp: add_receipts_tables)
qed

lemma record_evolves_durable: "evolves (durable_le cfg tables) (durable_record cfg e)"
  unfolding durable_record_def by (rule transaction_evolves [OF acts_record]) simp

lemma acts_lease:
  "acts tables base (lease_rows (oc_session cfg) owner x rows) (\<lambda>_ T U.
     distinct (map row_key rows) \<and> (\<forall>row \<in> set rows. tb_events T (row_key row) = Some row) \<longrightarrow> outbox_evolves cfg T U)"
proof (induction rows)
  case Nil
  show ?case by (simp add: acts_mono [OF acts_pure(1)])
next
  case (Cons row rows)
  let ?new = "row\<lparr>oe_lease_owner := Some owner, oe_lease_expires_at := Some x, oe_delivery_attempts := oe_delivery_attempts row + 1\<rparr>"
  have key: "row_key ?new = row_key row" by (simp add: row_key_def)
  show ?case unfolding lease_rows.simps
  proof (rule acts_mono [OF acts_bind [OF event_flushes Cons]], intro impI, elim exE conjE)
    fix T U V
    assume rows: "distinct (map row_key (row # rows))" "\<forall>row \<in> set (row # rows). tb_events T (row_key row) = Some row"
      and U: "U = store_event ?new T"
      and rest: "distinct (map row_key rows) \<and> (\<forall>row \<in> set rows. tb_events U (row_key row) = Some row) \<longrightarrow> outbox_evolves cfg U V"
    have step: "outbox_evolves cfg T U" unfolding U using rows(2) key by (intro flushed_event [of T "row_key row" row]) auto
    have events: "tb_events U = (tb_events T)(row_key row \<mapsto> ?new)" by (simp only: U store_event_def key) simp
    have "tb_events U (row_key r) = Some r" if r: "r \<in> set rows" for r
    proof -
      from rows(1) r have "row_key r \<noteq> row_key row" by (metis distinct.simps(2) image_eqI list.set_map list.simps(9))
      with rows(2) r show ?thesis unfolding events by simp
    qed
    with rest rows(1) have "outbox_evolves cfg U V" by simp
    with step show "outbox_evolves cfg T V" by (rule outbox_evolves_trans)
  qed
qed

lemma now_evolves: "evolves (durable_le cfg tables) (instant_or_now now)"
  by (auto simp: evolves_def instant_or_now_def effect_simps intro!: durable_le_tables split: option.splits)

lemma claim_evolves: "evolves (durable_le cfg tables) (claim_events cfg owner n lease now)"
  unfolding claim_events_def
  by (intro durable.rules now_evolves transaction_evolves [OF acts_bind [OF due_reads acts_bind [OF acts_lease acts_pure(3)]]])
    auto

text \<open>The transactions that read one row and write it back.\<close>

lemma event_transaction:
  assumes "\<And>r. acts tables base (f r) (\<lambda>x T U. tb_events T k = Some r \<longrightarrow> Q x T U)" and "\<And>T. Q d T T"
  shows "acts tables base
    (bnd (sx_get_event (oc_session cfg) k) (\<lambda>row. case row of None \<Rightarrow> ret d | Some r \<Rightarrow> f r)) Q"
proof -
  have "acts tables base (case row of None \<Rightarrow> ret d | Some r \<Rightarrow> f r) (\<lambda>x T U. tb_events T k = row \<longrightarrow> Q x T U)" for row
    using assms by (cases row) (auto intro: acts_mono [OF acts_pure(1)])
  then show ?thesis by (rule acts_mono [OF acts_bind [OF event_gets]]) auto
qed

lemma receipt_transaction:
  assumes "\<And>r. acts tables base (f r) (\<lambda>x T U. tb_receipts T (k, c) = Some r \<longrightarrow> Q x T U)" and "\<And>T. Q d T T"
  shows "acts tables base
    (bnd (sx_get_receipt (oc_session cfg) k c) (\<lambda>row. case row of None \<Rightarrow> ret d | Some r \<Rightarrow> f r)) Q"
proof -
  have "acts tables base (case row of None \<Rightarrow> ret d | Some r \<Rightarrow> f r) (\<lambda>x T U. tb_receipts T (k, c) = row \<longrightarrow> Q x T U)" for row
    using assms by (cases row) (auto intro: acts_mono [OF acts_pure(1)])
  then show ?thesis by (rule acts_mono [OF acts_bind [OF receipt_gets]]) auto
qed

lemma acts_if:
  "(b \<Longrightarrow> acts tables base m Q) \<Longrightarrow> (\<not> b \<Longrightarrow> acts tables base n Q) \<Longrightarrow> acts tables base (if b then m else n) Q"
  by simp

lemma acts_flush:
  "(\<And>T. P T (store_event row T)) \<Longrightarrow> acts tables base (bnd (sx_flush_event (oc_session cfg) row) (\<lambda>_. ret x)) (\<lambda>_ T U. P T U)"
  "(\<And>T. P T (store_receipt r T)) \<Longrightarrow> acts tables base (bnd (sx_flush_receipt (oc_session cfg) r) (\<lambda>_. ret x)) (\<lambda>_ T U. P T U)"
  by (rule acts_mono [OF acts_bind [OF event_flushes acts_pure(1)]], auto)
    (rule acts_mono [OF acts_bind [OF receipt_flushes acts_pure(1)]], auto)

lemma acts_keeps: "(\<And>T. P T T) \<Longrightarrow> acts tables base (ret x) (\<lambda>_ T U. P T U)"
  by (rule acts_mono [OF acts_pure(1)]) auto

lemma acts_timed:
  assumes "\<And>t. acts tables base (f t) (\<lambda>_ T U. P T U)"
  shows "acts tables base (bnd (instant_or_now now) f) (\<lambda>_ T U. P T U)"
  by (rule acts_mono [OF acts_bind [OF acts_now assms]]) auto

lemma receipts_evolve:
  "evolves (durable_le cfg tables) (required_receipts cfg e)"
  "evolves (durable_le cfg tables) (claim_receipt cfg e c owner lease now)"
  "evolves (durable_le cfg tables) (acknowledge_receipt cfg e c owner now)"
  "evolves (durable_le cfg tables) (fail_receipt cfg e c owner error)"
proof -
  show "evolves (durable_le cfg tables) (required_receipts cfg e)"
    unfolding required_receipts_def by (rule transaction_evolves [OF required_reads]) simp
  show "evolves (durable_le cfg tables) (claim_receipt cfg e c owner lease now)"
    unfolding claim_receipt_def
    by (intro durable.rules now_evolves transaction_kept receipt_transaction acts_if acts_keeps acts_flush)
      (auto intro!: flushed_receipt simp: receipt_key_def)
  show "evolves (durable_le cfg tables) (acknowledge_receipt cfg e c owner now)"
    unfolding acknowledge_receipt_def
    by (intro transaction_kept receipt_transaction acts_if acts_keeps acts_timed acts_flush)
      (auto intro!: flushed_receipt simp: receipt_key_def holds_receipt_def)
  show "evolves (durable_le cfg tables) (fail_receipt cfg e c owner error)"
    unfolding fail_receipt_def
    by (intro transaction_kept receipt_transaction acts_if acts_keeps acts_flush)
      (auto intro!: flushed_receipt simp: receipt_key_def holds_receipt_def)
qed

lemma release_evolves: "evolves (durable_le cfg tables) (release_failed cfg k owner error backoff now)"
  unfolding release_failed_def
  by (intro durable.rules now_evolves transaction_kept event_transaction acts_if acts_keeps acts_flush)
    (auto intro!: flushed_event simp: row_key_def)

text \<open>Marking an Event as delivered needs its receipts.\<close>

lemma mark_delivered_le:
  assumes "mark_delivered cfg k owner now s = (r, t)"
    and "tb_events (tables (durable_state.more s)) k \<noteq> None" "settled_event k (tables (durable_state.more s))"
  shows "durable_le cfg tables s t"
proof (cases "durable_ok cfg tables s")
  case True
  show ?thesis
  proof (rule transaction_le [OF assms(1) [unfolded mark_delivered_def],
        where Q = "\<lambda>_ T U. settled_event k T \<longrightarrow> outbox_evolves cfg T U"])
    show "acts tables base
     (bnd (sx_get_event (oc_session cfg) k) (\<lambda>row.
        case row of
          None \<Rightarrow> ret False
        | Some r \<Rightarrow>
            if lost_event_lease r owner then ret False
            else bnd (instant_or_now now) (\<lambda>t.
                 bnd (sx_flush_event (oc_session cfg) (r\<lparr>oe_delivered_at := Some t, oe_lease_owner := None,
                        oe_lease_expires_at := None\<rparr>)) (\<lambda>_.
                 ret True)))) (\<lambda>_ T U. settled_event k T \<longrightarrow> outbox_evolves cfg T U)"
      by (intro event_transaction acts_if acts_keeps acts_timed acts_flush)
        (auto intro!: flushed_event simp: row_key_def lost_event_lease_def)
  next
    fix s1 and x :: bool and U
    assume "durable_le cfg tables s s1" and step: "settled_event k (tables (durable_state.more s1)) \<longrightarrow> outbox_evolves cfg (tables (durable_state.more s1)) U"
    note found = durable_leD [OF this(1) True]
    have "settled_event k (tables (durable_state.more s1))" by (rule settled_stays [OF found(1,4) assms(2,3)])
    with step show "outbox_evolves cfg (tables (durable_state.more s1)) U" by blast
  qed
qed (simp add: durable_le_def)

lemma counted_none:
  assumes "tables_ok cfg T" "tb_events T k = Some row"
    and "card {c. \<exists>r. tb_receipts T (k, c) = Some r \<and> dr_required r \<and> dr_status r \<noteq> ''Delivered''} = 0"
  shows "settled_event k T"
proof -
  have "{c. \<exists>r. tb_receipts T (k, c) = Some r \<and> dr_required r \<and> dr_status r \<noteq> ''Delivered''}
      \<subseteq> set (required_of cfg (oe_event_type row))"
    using assms(1,2) unfolding tables_ok_def obliged_def by blast
  then have "finite {c. \<exists>r. tb_receipts T (k, c) = Some r \<and> dr_required r \<and> dr_status r \<noteq> ''Delivered''}"
    by (rule finite_subset) simp
  with assms(3) have "{c. \<exists>r. tb_receipts T (k, c) = Some r \<and> dr_required r \<and> dr_status r \<noteq> ''Delivered''} = {}" by simp
  moreover have "dr_required r" if "tb_receipts T (k, c) = Some r" for c r
    using assms(1) that unfolding tables_ok_def receipt_ok_def by blast
  ultimately show ?thesis unfolding settled_event_def by blast
qed

lemma check_evolves: "evolves (durable_le cfg tables) (all_required_receipts_delivered cfg e)"
  unfolding all_required_receipts_delivered_def
  by (intro durable.rules transaction_kept event_transaction)
    (auto intro: acts_mono [OF acts_bind [OF required_counts acts_bind [OF incomplete_counts acts_pure(1)]]])

lemma checked:
  assumes "all_required_receipts_delivered cfg e s = (Inr True, t)" "durable_ok cfg tables s"
  shows "tb_events (tables (durable_state.more t)) (key_of_event e) \<noteq> None" "settled_event (key_of_event e) (tables (durable_state.more t))"
proof -
  let ?Q = "\<lambda>x T U. U = T \<and> (\<forall>r required incomplete. x = Some (r, required, incomplete) \<longrightarrow> tb_events T (key_of_event e) = Some r
    \<and> incomplete = int (card {c. \<exists>r. tb_receipts T (key_of_event e, c) = Some r \<and> dr_required r \<and> dr_status r \<noteq> ''Delivered''}))"
  have body: "acts tables base
     (bnd (sx_get_event (oc_session cfg) (key_of_event e)) (\<lambda>row.
        case row of
          None \<Rightarrow> ret None
        | Some r \<Rightarrow>
            bnd (sx_count_required (oc_session cfg) (key_of_event e)) (\<lambda>required.
            bnd (sx_count_incomplete (oc_session cfg) (key_of_event e)) (\<lambda>incomplete.
            ret (Some (r, required, incomplete)))))) ?Q"
    by (rule event_transaction)
      (auto intro: acts_mono [OF acts_bind [OF required_counts acts_bind [OF incomplete_counts acts_pure(1)]]])
  from assms(1) obtain row required where
    run: "transaction (oc_session cfg) (bnd (sx_get_event (oc_session cfg) (key_of_event e)) (\<lambda>row.
        case row of
          None \<Rightarrow> ret None
        | Some r \<Rightarrow>
            bnd (sx_count_required (oc_session cfg) (key_of_event e)) (\<lambda>required.
            bnd (sx_count_incomplete (oc_session cfg) (key_of_event e)) (\<lambda>incomplete.
            ret (Some (r, required, incomplete)))))) s = (Inr (Some (row, required, 0)), t)"
    unfolding all_required_receipts_delivered_def
    by (elim bnd_InrE) (auto simp: effect_simps split: option.splits prod.splits)
  from run body show "tb_events (tables (durable_state.more t)) (key_of_event e) \<noteq> None"
    "settled_event (key_of_event e) (tables (durable_state.more t))"
  proof (atomize (full), cases rule: transaction_outcome)
    case (kept s1 x)
    then have x: "x = Some (row, required, 0)" by blast
    have same: "tables (durable_state.more t) = tables (durable_state.more s1)"
      and row: "tb_events (tables (durable_state.more s1)) (key_of_event e) = Some row"
      and none: "card {c. \<exists>r. tb_receipts (tables (durable_state.more s1)) (key_of_event e, c) = Some r \<and> dr_required r \<and> dr_status r \<noteq> ''Delivered''} = 0"
      using kept(3) unfolding x by auto
    have "settled_event (key_of_event e) (tables (durable_state.more s1))"
      by (rule counted_none [OF durable_leD(2) [OF kept(1) assms(2)] row none])
    with same row show "tb_events (tables (durable_state.more t)) (key_of_event e) \<noteq> None
      \<and> settled_event (key_of_event e) (tables (durable_state.more t))" by simp
  qed auto
qed

end

section \<open>The relay\<close>

text \<open>Consumers are code of the same system: what they record, relay or drain respects the order.\<close>

locale durable_consumers = session_laws cfg tables base
  for cfg :: "('z durable_state_scheme) outbox_config" and tables base :: "'z \<Rightarrow> outbox_tables" +
  assumes consumes: "(name, c) \<in> set (registrations (oc_subscriptions cfg) ty) \<Longrightarrow> evolves (durable_le cfg tables) (c e)"
begin

lemma deliver_evolves: "evolves (durable_le cfg tables) (deliver_to (oc_subscriptions cfg) e name)"
proof (cases "map_of (registrations (oc_subscriptions cfg) (evt_event_type e)) name")
  case None
  then show ?thesis by (simp add: deliver_to_def durable.pure)
next
  case (Some c)
  from consumes [OF map_of_SomeD [OF this]] show ?thesis
    unfolding deliver_to_def Some deliver_once_def option.case
    by (intro durable.rules) (auto simp: evolves_def effect_simps intro: durable_le_tables)
qed

lemma consumers_evolve: "evolves (durable_le cfg tables) (relay_consumers cfg e names)"
proof (induction names)
  case (Cons name names)
  have "evolves (durable_le cfg tables) (relay_consumer cfg e name)"
    unfolding relay_consumer_def by (intro durable.rules receipts_evolve deliver_evolves)
  with Cons show ?case unfolding relay_consumers.simps by (intro durable.rules)
qed (simp add: durable.pure)

lemma relay_ends:
  "evolves (durable_le cfg tables)
     (bnd (if failures \<noteq> 0 then ret False else all_required_receipts_delivered cfg e) (\<lambda>all_delivered.
      if \<not> all_delivered
      then bnd (release_failed cfg (key_of_event e) owner error backoff now) (\<lambda>_. ret (0 :: nat))
      else bnd (mark_delivered cfg (key_of_event e) owner now) (\<lambda>marked. ret (if marked then 1 else 0))))"
  (is "evolves _ (bnd ?check ?end)")
  unfolding evolves_def
proof
  fix s :: "'z durable_state_scheme"
  obtain r s1 where c: "?check s = (r, s1)" by force
  have "evolves (durable_le cfg tables) ?check" by (intro durable.rules check_evolves)
  from this c have le: "durable_le cfg tables s s1" by (rule evolvesD)
  show "durable_le cfg tables s (snd (bnd ?check ?end s))"
  proof (cases "r = Inr True \<and> durable_ok cfg tables s")
    case True
    then have "failures = 0" using c by (auto simp: effect_simps split: if_splits)
    with c True have check: "all_required_receipts_delivered cfg e s = (Inr True, s1)" by simp
    obtain r2 s2 where m: "mark_delivered cfg (key_of_event e) owner now s1 = (r2, s2)" by force
    have "durable_le cfg tables s1 s2"
      by (rule mark_delivered_le [OF m checked [OF check conjunct2 [OF True]]])
    with le have "durable_le cfg tables s s2" by (rule durable_le_trans)
    moreover have "snd (bnd ?check ?end s) = s2"
      unfolding bnd_def c using True m by (auto simp: effect_simps split: sum.splits)
    ultimately show ?thesis by simp
  next
    case False
    have "evolves (durable_le cfg tables) (?end False)" by (simp add: durable.bind durable.pure release_evolves)
    then have ends: "durable_le cfg tables s1 (snd (?end False s1))" by (simp add: evolves_def)
    show ?thesis
    proof (cases "durable_ok cfg tables s")
      case True
      with False consider e' where "r = Inl e'" | "r = Inr False" by (cases r) auto
      then show ?thesis
        by cases (use c le ends durable_le_trans in \<open>auto simp: bnd_def\<close>)
    qed (simp add: durable_le_def)
  qed
qed

lemma relay_evolves: "evolves (durable_le cfg tables) (durable_relay cfg)"
proof -
  have "evolves (durable_le cfg tables) (relay_event cfg e)" for e
    unfolding relay_event_def
    by (intro durable.bind durable.pure receipts_evolve consumers_evolve relay_ends)
  then have "evolves (durable_le cfg tables) (relay_events cfg es)" for es
    by (induction es) (simp_all add: durable.pure durable.bind)
  then show ?thesis unfolding durable_relay_def by (intro durable.bind claim_evolves)
qed

end

section \<open>The buffer\<close>

definition recorded_event :: "'s outbox_config \<Rightarrow> EventEnvelope \<Rightarrow> outbox_tables \<Rightarrow> bool" where
  "recorded_event cfg e T \<longleftrightarrow> (\<exists>row. tb_events T (key_of_event e) = Some row \<and> oe_payload row = oc_encode cfg e)"

lemma recorded_stays: "recorded_event cfg e T \<Longrightarrow> tables_le T U \<Longrightarrow> recorded_event cfg e U"
  unfolding recorded_event_def tables_le_def row_le_def by fastforce

lemma recorded_stored: "recorded_event cfg e T \<Longrightarrow> stored_id (evt_event_id e) T"
  unfolding recorded_event_def stored_id_def key_of_event_def by blast

lemma buffered_record_evolves: "evolves (durable_le cfg tables) (buffered_record e)"
  by (auto simp: evolves_def buffered_record_def effect_simps durable_le_def durable_ok_def
      simp del: map_of_eq_Some_iff dest: set_od_put_subset [THEN subsetD] split: option.splits)

text \<open>Participants write other tables inside the transaction and settle their own state after it.\<close>

locale durable_buffer = durable_consumers cfg tables base
  for cfg :: "('z durable_state_scheme) outbox_config" and tables base :: "'z \<Rightarrow> outbox_tables" +
  fixes participants :: "('z durable_state_scheme) participant list"
  assumes flushes: "p \<in> set participants \<Longrightarrow> acts tables base (fst p) (\<lambda>_ T U. U = T)"
    and completes: "p \<in> set participants \<Longrightarrow> evolves (durable_le cfg tables) (snd p)"
begin

lemma acts_flushes: "set ps \<subseteq> set participants \<Longrightarrow> acts tables base (each fst ps) (\<lambda>_ T U. U = T)"
proof (induction ps)
  case Nil
  show ?case by (simp add: acts_mono [OF acts_pure(1)])
next
  case (Cons p ps)
  then have p: "acts tables base (fst p) (\<lambda>_ T U. U = T)" and ps: "acts tables base (each fst ps) (\<lambda>_ T U. U = T)"
    by (auto intro: flushes)
  show ?case unfolding each.simps by (rule acts_mono [OF acts_bind [OF p ps]]) auto
qed

lemma acts_records:
  "acts tables base (each (record_in_transaction cfg) es) (\<lambda>_ T U. outbox_evolves cfg T U
     \<and> (tables_ok cfg T \<longrightarrow> (\<forall>e \<in> set es. recorded_event cfg e U)))"
proof (induction es)
  case Nil
  show ?case by (simp add: acts_mono [OF acts_pure(1)])
next
  case (Cons e es)
  show ?case unfolding each.simps
  proof (rule acts_mono [OF acts_bind [OF acts_record Cons]], elim exE conjE, intro conjI impI)
    fix T U V row
    assume first: "outbox_evolves cfg T U" and rest: "outbox_evolves cfg U V"
      "tables_ok cfg U \<longrightarrow> (\<forall>e \<in> set es. recorded_event cfg e V)"
      and row: "tb_events U (key_of_event e) = Some row" "oe_payload row = oc_encode cfg e"
    from first rest(1) show "outbox_evolves cfg T V" by (rule outbox_evolves_trans)
    assume "tables_ok cfg T"
    with first rest(1) have U: "tables_ok cfg U" "tables_le U V" by (auto simp: outbox_evolves_def)
    from row have "recorded_event cfg e U" by (simp add: recorded_event_def)
    with U rest(2) show "\<forall>e \<in> set (e # es). recorded_event cfg e V" by (auto intro: recorded_stays)
  qed
qed

lemma popped:
  assumes "each (\<lambda>e. upd (\<lambda>s. s\<lparr>buffered := AList.delete (evt_event_id e) (buffered s)\<rparr>)) es s = (r, t)"
    and "\<forall>e \<in> set es. recorded_event cfg e (tables (durable_state.more s))"
  shows "r = Inr () \<and> durable_le cfg tables s t \<and> tables (durable_state.more t) = tables (durable_state.more s)"
  using assms
proof (induction es arbitrary: s)
  case Nil
  then show ?case by (auto simp: effect_simps durable.refl)
next
  case (Cons e es)
  let ?u = "s\<lparr>buffered := AList.delete (evt_event_id e) (buffered s)\<rparr>"
  have "stored_id (evt_event_id e) (tables (durable_state.more s))" using Cons.prems(2) by (auto intro: recorded_stored)
  moreover have "set (AList.delete (evt_event_id e) (buffered s)) \<subseteq> set (buffered s)" by (auto simp: AList.delete_eq)
  ultimately have "durable_le cfg tables s ?u"
    by (auto simp: durable_le_def durable_ok_def delete_conv' distinct_delete simp del: map_of_eq_Some_iff)
  moreover have "r = Inr () \<and> durable_le cfg tables ?u t \<and> tables (durable_state.more t) = tables (durable_state.more ?u)"
    using Cons.prems by (intro Cons.IH) (auto simp: effect_simps)
  ultimately show ?case by (auto intro: durable_le_trans)
qed

lemma drain_safe:
  assumes run: "buffered_drain cfg participants s = (r, t)" and ok: "durable_ok cfg tables s"
  shows "durable_le cfg tables s t"
    "r = Inr n \<Longrightarrow> \<forall>e \<in> snd ` set (buffered s). recorded_event cfg e (tables (durable_state.more t))"
proof -
  let ?es = "map snd (buffered s)"
  let ?body = "bnd (each fst participants) (\<lambda>_. each (record_in_transaction cfg) ?es)"
  let ?pop = "each (\<lambda>e. upd (\<lambda>s. s\<lparr>buffered := AList.delete (evt_event_id e) (buffered s)\<rparr>)) ?es"
  have body: "acts tables base ?body (\<lambda>_ T U. outbox_evolves cfg T U
     \<and> (tables_ok cfg T \<longrightarrow> (\<forall>e \<in> set ?es. recorded_event cfg e U)))"
    by (rule acts_mono [OF acts_bind [OF acts_flushes [OF subset_refl] acts_records]]) auto
  obtain r1 s1 where tx: "transaction (oc_session cfg) ?body s = (r1, s1)" by force
  have le1: "durable_le cfg tables s s1" by (rule transaction_le [OF tx body]) blast
  have recorded: "\<forall>e \<in> set ?es. recorded_event cfg e (tables (durable_state.more s1))" if "r1 = Inr u" for u
    using tx body
  proof (cases rule: transaction_outcome)
    case (kept s0 x)
    with durable_leD(2) [OF kept(1) ok] show ?thesis by blast
  qed (use that in auto)
  have "durable_le cfg tables s t \<and>
    (r = Inr n \<longrightarrow> (\<forall>e \<in> set ?es. recorded_event cfg e (tables (durable_state.more t))))"
  proof (cases r1)
    case (Inl e)
    with run tx have "t = s1" "r = Inl e" by (auto simp: buffered_drain_def effect_simps)
    with le1 show ?thesis by simp
  next
    case (Inr u)
    obtain r2 s2 where c: "each snd participants s1 = (r2, s2)" by force
    have "evolves (durable_le cfg tables) (each snd ps)" if "set ps \<subseteq> set participants" for ps
      using that by (induction ps) (auto intro: durable.pure durable.bind completes)
    from evolvesD [OF this [OF subset_refl] c] have le2: "durable_le cfg tables s1 s2" .
    note ok1 = durable_leD(5) [OF le1 ok]
    have kept2: "\<forall>e \<in> set ?es. recorded_event cfg e (tables (durable_state.more s2))"
      using recorded [OF Inr] recorded_stays durable_leD(3) [OF le2 ok1] by blast
    show ?thesis
    proof (cases r2)
      case (Inl e)
      with run tx c Inr have "t = s2" "r = Inl e" by (auto simp: buffered_drain_def effect_simps)
      with le1 le2 show ?thesis by (auto intro: durable_le_trans)
    next
      case (Inr v)
      obtain r3 s3 where pop: "?pop s2 = (r3, s3)" by force
      note gone = popped [OF pop kept2]
      from gone have le3: "durable_le cfg tables s2 s3" by blast
      have relay: "durable_relay cfg s3 = (r, t)"
        using run tx c Inr \<open>r1 = Inr u\<close> pop gone by (simp add: buffered_drain_def effect_simps)
      have le4: "durable_le cfg tables s3 t" by (rule evolvesD [OF relay_evolves relay])
      note ok3 = durable_leD(5) [OF le3 durable_leD(5) [OF le2 ok1]]
      have "\<forall>e \<in> set ?es. recorded_event cfg e (tables (durable_state.more t))"
        using kept2 gone recorded_stays durable_leD(3) [OF le4 ok3] by metis
      moreover have "durable_le cfg tables s t" using le1 le2 le3 le4 by (blast intro: durable_le_trans)
      ultimately show ?thesis by blast
    qed
  qed
  then show "durable_le cfg tables s t"
    "r = Inr n \<Longrightarrow> \<forall>e \<in> snd ` set (buffered s). recorded_event cfg e (tables (durable_state.more t))" by auto
qed

end

section \<open>Properties\<close>

text \<open>C11 (safety). The durable outbox delivers at least once. However other workers interleave, whatever the
  consumers do and wherever the database raises: a drain of the buffer keeps the tables consistent, so that an
  Event is marked delivered only when the receipt of every consumer it is owed to is delivered; no Event
  leaves the buffer before it is in the table; and if the drain returns, everything the buffer table_rows is recorded with its exact content.\<close>

theorem durable_drain_safe:
  assumes "durable_buffer cfg tables base participants"
    and "durable_ok cfg tables s" and "buffered_drain cfg participants s = (r, t)"
  shows "durable_ok cfg tables t
    \<and> (\<forall>k row c. tb_events (tables (durable_state.more t)) k = Some row \<and> oe_delivered_at row \<noteq> None
        \<and> c \<in> set (required_of cfg (oe_event_type row)) \<longrightarrow>
          (\<exists>x. tb_receipts (tables (durable_state.more t)) (k, c) = Some x \<and> dr_status x = ''Delivered''))
    \<and> (\<forall>i e. map_of (buffered s) i = Some e \<longrightarrow>
          map_of (buffered t) i \<noteq> None \<or> stored_id i (tables (durable_state.more t)))
    \<and> (\<forall>n i e. r = Inr n \<and> map_of (buffered s) i = Some e \<longrightarrow> recorded_event cfg e (tables (durable_state.more t)))"
proof (intro conjI allI impI; (elim conjE)?)
  note le = durable_buffer.drain_safe(1) [OF assms(1,3,2)]
  show "durable_ok cfg tables t" by (rule durable_leD(5) [OF le assms(2)])
  show "map_of (buffered t) i \<noteq> None \<or> stored_id i (tables (durable_state.more t))"
    if "map_of (buffered s) i = Some e" for i e
    using le assms(2) that by (simp add: durable_le_def)
  show "\<exists>x. tb_receipts (tables (durable_state.more t)) (k, c) = Some x \<and> dr_status x = ''Delivered''"
    if "tb_events (tables (durable_state.more t)) k = Some row" "oe_delivered_at row \<noteq> None"
      "c \<in> set (required_of cfg (oe_event_type row))" for k row c
  proof -
    have "obliged cfg (tables (durable_state.more t)) k row"
      using durable_leD(2) [OF le assms(2)] that(1) by (simp add: tables_ok_def)
    with that(2,3) show ?thesis by (fastforce simp: obliged_def settled_event_def)
  qed
  show "recorded_event cfg e (tables (durable_state.more t))"
    if "r = Inr n" "map_of (buffered s) i = Some e" for n i e
    using durable_buffer.drain_safe(2) [OF assms(1,3,2) that(1)] map_of_SomeD [OF that(2)] by force
qed

section \<open>A database in memory\<close>

text \<open>The laws can be met: two association lists, and a copy of them to return to.\<close>

type_synonym memory_tables = "(event_key, OutboxEventRow) odict \<times> (event_key \<times> string, DeliveryReceiptRow) odict"

type_synonym held_state = "(memory_tables \<times> memory_tables) durable_state_scheme"

definition table_rows :: "held_state \<Rightarrow> memory_tables" where
  "table_rows s = fst (durable_state.more s)"

definition hold :: "(memory_tables \<Rightarrow> memory_tables) \<Rightarrow> (held_state, unit) eff" where
  "hold f = upd (durable_state.more_update (\<lambda>(now, before). (f now, before)))"

definition memory_view :: "memory_tables \<Rightarrow> outbox_tables" where
  "memory_view d = \<lparr>tb_events = map_of (fst d), tb_receipts = map_of (snd d)\<rparr>"

definition due_row :: "int \<Rightarrow> event_key \<times> OutboxEventRow \<Rightarrow> bool" where
  "due_row now = (\<lambda>(k, row). row_key row = k \<and> oe_delivered_at row = None \<and> oe_available_at row \<le> now
     \<and> (case oe_lease_expires_at row of None \<Rightarrow> True | Some x \<Rightarrow> x < now))"

definition owed :: "event_key \<Rightarrow> (DeliveryReceiptRow \<Rightarrow> bool) \<Rightarrow> memory_tables \<Rightarrow> string list" where
  "owed k P d = map (snd \<circ> fst) (filter (\<lambda>((k', c), r). k' = k \<and> dr_required r \<and> P r) (AList.clearjunk (snd d)))"

definition memory_session :: "held_state outbox_session" where
  "memory_session =
     \<lparr>sx_begin = upd (durable_state.more_update (\<lambda>(now, before). (now, now))),
      sx_commit = ret (),
      sx_rollback = upd (durable_state.more_update (\<lambda>(now, before). (before, before))),
      sx_insert_event = (\<lambda>row. hold (\<lambda>(es, rs). (od_setdefault (row_key row) row es, rs))),
      sx_get_event = (\<lambda>k. asks (\<lambda>s. map_of (fst (table_rows s)) k)),
      sx_flush_event = (\<lambda>row. hold (\<lambda>(es, rs). (od_put (row_key row) row es, rs))),
      sx_insert_receipt = (\<lambda>r. hold (\<lambda>(es, rs). (es, od_setdefault (receipt_key r) r rs))),
      sx_get_receipt = (\<lambda>k c. asks (\<lambda>s. map_of (snd (table_rows s)) (k, c))),
      sx_flush_receipt = (\<lambda>r. hold (\<lambda>(es, rs). (es, od_put (receipt_key r) r rs))),
      sx_due_events = (\<lambda>now n. asks (\<lambda>s.
        take (nat n) (map snd (filter (due_row now) (AList.clearjunk (fst (table_rows s))))))),
      sx_required_consumers = (\<lambda>k. asks (\<lambda>s. owed k (\<lambda>_. True) (table_rows s))),
      sx_count_required = (\<lambda>k. asks (\<lambda>s. int (length (owed k (\<lambda>_. True) (table_rows s))))),
      sx_count_incomplete = (\<lambda>k. asks (\<lambda>s. int (length (owed k (\<lambda>r. dr_status r \<noteq> ''Delivered'') (table_rows s))))),
      sx_count_pending = asks (\<lambda>s. int (length (filter (\<lambda>row. oe_delivered_at row = None) (map snd (fst (table_rows s)))))),
      sx_count_stale = (\<lambda>now. asks (\<lambda>s. int (length (filter (\<lambda>row. oe_delivered_at row = None
        \<and> (case oe_lease_expires_at row of None \<Rightarrow> False | Some x \<Rightarrow> x < now)) (map snd (fst (table_rows s)))))))\<rparr>"

definition memory_config ::
  "(string \<Rightarrow> exn + EventEnvelope) \<Rightarrow> (string, string list) odict \<Rightarrow> held_state subscriptions \<Rightarrow> held_state outbox_config" where
  "memory_config decode required subs =
     \<lparr>oc_session = memory_session, oc_encode = evt_event_type, oc_decode = decode,
      oc_required = required_table required, oc_subscriptions = subs, oc_owner = ''relay-1'',
      oc_batch_size = 10, oc_lease = 30, oc_backoff = 5\<rparr>"

lemma owed_count: "int (length (owed k P d)) = int (card {c. \<exists>r. map_of (snd d) (k, c) = Some r \<and> dr_required r \<and> P r})"
proof -
  let ?xs = "filter (\<lambda>((k', c), r). k' = k \<and> dr_required r \<and> P r) (AList.clearjunk (snd d))"
  have junk: "distinct (map fst (AList.clearjunk (snd d)))" by (rule distinct_clearjunk)
  have "distinct (map fst ?xs)" using junk by (rule distinct_map_filter)
  then have keys: "distinct (map (snd \<circ> fst) ?xs)"
    by (auto simp: distinct_map inj_on_def dest: eq_key_imp_eq_value [OF junk])
  have "set (owed k P d) = {c. \<exists>r. map_of (AList.clearjunk (snd d)) (k, c) = Some r \<and> dr_required r \<and> P r}"
    using junk by (force simp: owed_def image_iff intro: map_of_is_SomeI dest: map_of_SomeD)
  with distinct_card [OF keys] show ?thesis by (simp add: owed_def map_of_clearjunk)
qed

lemma acts_hold:
  "(\<And>d. Q () (memory_view d) (memory_view (f d))) \<Longrightarrow> acts (memory_view \<circ> fst) (memory_view \<circ> snd) (hold f) Q"
  by (auto simp: acts_def hold_def effect_simps split_beta)

lemma acts_asks:
  "(\<And>s. Q (g s) (memory_view (table_rows s)) (memory_view (table_rows s))) \<Longrightarrow>
   acts (memory_view \<circ> fst) (memory_view \<circ> snd) (asks g) Q"
  by (auto simp: acts_def table_rows_def effect_simps)

lemma due_rows:
  assumes "rows = take n (map snd (filter (due_row now) (AList.clearjunk es)))"
  shows "distinct (map row_key rows)" "row \<in> set rows \<Longrightarrow> map_of es (row_key row) = Some row"
proof -
  let ?xs = "filter (due_row now) (AList.clearjunk es)"
  have junk: "distinct (map fst (AList.clearjunk es))" by (rule distinct_clearjunk)
  have "map row_key (map snd ?xs) = map fst ?xs" by (auto simp: due_row_def)
  moreover have "distinct (map fst ?xs)" using junk by (rule distinct_map_filter)
  ultimately show "distinct (map row_key rows)" unfolding assms take_map [symmetric] by (metis distinct_take take_map)
  assume "row \<in> set rows"
  then obtain k where "(k, row) \<in> set (AList.clearjunk es)" "row_key row = k"
    using set_take_subset unfolding assms by (fastforce simp: due_row_def)
  with junk show "map_of es (row_key row) = Some row" by (metis map_of_clearjunk map_of_is_SomeI)
qed

interpretation in_memory: session_laws "memory_config decode required subs" "memory_view \<circ> fst" "memory_view \<circ> snd"
  for decode required subs
proof (unfold_locales, goal_cases)
  case (1 s r t)
  then show ?case
    by (auto simp: memory_config_def memory_session_def effect_simps split_beta intro!: durable_le_tables)
next
  case (10 now n)
  show ?case
    unfolding memory_config_def memory_session_def outbox_config.simps outbox_session.simps
    by (rule acts_asks) (auto simp: memory_view_def dest: due_rows(2) [OF refl] intro: due_rows(1) [OF refl])
qed (auto simp: memory_config_def memory_session_def effect_simps split_beta memory_view_def owed_count
    add_event_def store_event_def add_receipt_def store_receipt_def fun_eq_iff table_rows_def
    intro!: acts_hold acts_asks split: option.splits)

text \<open>One Event is buffered and owed to one consumer, which records another Event when it is called.\<close>

definition scoped_event :: "string \<Rightarrow> string \<Rightarrow> EventEnvelope" where
  "scoped_event i ty = (sample_event i)\<lparr>evt_event_type := ty, evt_tenant_id := Some ''t'', evt_workspace_id := Some ''w''\<rparr>"

definition followed_subscriptions :: "held_state subscriptions" where
  "followed_subscriptions = [(''WorkflowStarted'', [(''audit'', \<lambda>_. buffered_record (scoped_event ''e2'' ''WorkflowCompleted''))])]"

abbreviation followed_config :: "held_state outbox_config" where
  "followed_config \<equiv> memory_config
     (\<lambda>p. if p = ''WorkflowStarted'' then Inr (scoped_event ''e1'' ''WorkflowStarted'') else Inl JSONDecodeError)
     [(''WorkflowStarted'', [''audit''])] followed_subscriptions"

definition followed_state :: held_state where
  "followed_state = messaging.extend (messaging_init (\<lambda>n. 10 + int n) show_nat)
     \<lparr>buffered = [(''e1'', scoped_event ''e1'' ''WorkflowStarted'')], \<dots> = (([], []), ([], []))\<rparr>"

interpretation followed: durable_buffer followed_config "memory_view \<circ> fst" "memory_view \<circ> snd" "[]"
  by unfold_locales
    (auto simp: memory_config_def followed_subscriptions_def registrations_def buffered_record_evolves split: if_splits)

lemma followed_ok: "durable_ok followed_config (memory_view \<circ> fst) followed_state"
  by (simp add: durable_ok_def followed_state_def messaging.extend_def tables_ok_def memory_view_def scoped_event_def sample_event_def)

definition followed_drain :: "(exn + nat) \<times> held_state" where
  "followed_drain = buffered_drain followed_config [] followed_state"

lemma followed_run: "fst followed_drain = Inr 1"
  unfolding followed_drain_def by code_simp

theorem durable_drain_safe_witness:
  "fst followed_drain = Inr 1
    \<and> recorded_event followed_config (scoped_event ''e1'' ''WorkflowStarted'') (memory_view (table_rows (snd followed_drain)))
    \<and> durable_ok followed_config (memory_view \<circ> fst) (snd followed_drain)"
proof -
  have run: "buffered_drain followed_config [] followed_state = (Inr 1, snd followed_drain)"
    using followed_run unfolding followed_drain_def by (metis prod.collapse)
  have "map_of (buffered followed_state) ''e1'' = Some (scoped_event ''e1'' ''WorkflowStarted'')"
    by (simp add: followed_state_def messaging.extend_def)
  with durable_drain_safe [OF followed.durable_buffer_axioms followed_ok run] followed_run
  show ?thesis by (simp add: table_rows_def)
qed

end
