(* ===== verification/Durable_Tables.thy ===== *)
theory Durable_Tables
  imports Effects
begin

text \<open>
  \<^verbatim>\<open>adapters/persistence_postgres/.../models.py\<close> and \<^verbatim>\<open>database.py\<close>: the rows of the durable runtime and what
  the repositories use of a database session.

  PostgreSQL and SQLAlchemy are not part of the repository. A table is an argument (\<open>table\<close>) with one operation
  per kind of statement the code issues; \<open>table_laws\<close> states what each statement does to the rows when it
  returns, and \<open>session_frame\<close> what begin, commit and rollback do. Any of them may raise, and a commit that raises may
  or may not have taken effect. Columns only the server fills and nothing reads (\<^verbatim>\<open>updated_at\<close> of a Workflow,
  \<^verbatim>\<open>recorded_at\<close> of a Memory record) are left out.
\<close>

section \<open>Rows\<close>

datatype scoped = Scoped string string string

datatype scoped_part = Scoped_Part string string string string

datatype scoped_number = Scoped_Number string string string int

record WorkflowRow =
  wfr_tenant_id :: string
  wfr_workspace_id :: string
  wfr_workflow_id :: string
  wfr_state :: string
  wfr_version :: int
  wfr_correlation_id :: string
  wfr_payload :: string

record WorkflowStepRow =
  wsr_tenant_id :: string
  wsr_workspace_id :: string
  wsr_workflow_step_id :: string
  wsr_workflow_id :: string
  wsr_state :: string
  wsr_attempt_number :: int
  wsr_payload :: string

record ExecutionRow =
  exr_tenant_id :: string
  exr_workspace_id :: string
  exr_execution_id :: string
  exr_workflow_id :: string
  exr_workflow_step_id :: string
  exr_attempt_number :: int
  exr_previous_execution_id :: "string option"
  exr_causation_id :: string
  exr_state :: string
  exr_payload :: string

record CommandIdempotencyRow =
  cir_tenant_id :: string
  cir_workspace_id :: string
  cir_target_component :: string
  cir_idempotency_key :: string
  cir_command_id :: string
  cir_command_hash :: string
  cir_completed :: bool
  cir_outcome_id :: "string option"
  cir_payload :: string

record OutcomeRow =
  our_tenant_id :: string
  our_workspace_id :: string
  our_outcome_id :: string
  our_owner_component :: string
  our_subject_id :: string
  our_kind :: string
  our_terminal :: bool
  our_payload :: string
  our_recorded_at :: int

record DecisionEvidenceRow =
  der_tenant_id :: string
  der_workspace_id :: string
  der_decision_id :: string
  der_decision_type :: string
  der_component :: string
  der_correlation_id :: string
  der_triggering_id :: "string option"
  der_recorded_at :: int
  der_payload :: string

record MemoryRecordRow =
  mrr_tenant_id :: string
  mrr_workspace_id :: string
  mrr_memory_id :: string
  mrr_version :: int
  mrr_correlation_id :: string
  mrr_provenance :: string
  mrr_content :: string

record AIGatewayInvocationRow =
  gir_tenant_id :: string
  gir_workspace_id :: string
  gir_ai_invocation_id :: string
  gir_idempotency_key :: string
  gir_intent_fingerprint :: string
  gir_state :: string
  gir_request_payload :: string
  gir_acknowledgement_payload :: string
  gir_route_payload :: "string option"
  gir_terminal_payload :: "string option"
  gir_terminal_result_id :: "string option"
  gir_terminal_error_id :: "string option"
  gir_execution_owner :: "string option"
  gir_execution_lease_expires_at :: "int option"
  gir_claim_generation :: int
  gir_recovery_phase :: string
  gir_terminal_intent_payload :: "string option"
  gir_terminal_intent_owner :: "string option"
  gir_terminal_intent_generation :: "int option"
  gir_accepted_at :: int
  gir_updated_at :: int

record AIGatewayBudgetRow =
  gbr_tenant_id :: string
  gbr_workspace_id :: string
  gbr_ai_invocation_id :: string
  gbr_reserved_amount :: decimal
  gbr_actual_amount :: "decimal option"
  gbr_state :: string
  gbr_usage_payload :: "string option"
  gbr_pricing_version :: "string option"
  gbr_pricing_payload :: "string option"
  gbr_allocation_payload :: "string option"
  gbr_expires_at :: int
  gbr_reconciled_at :: "int option"
  gbr_released_at :: "int option"
  gbr_release_reason :: "string option"

record AIGatewayAttemptRow =
  gar_tenant_id :: string
  gar_workspace_id :: string
  gar_ai_invocation_id :: string
  gar_attempt_number :: int
  gar_model_key :: string
  gar_adapter_key :: string
  gar_state :: string
  gar_usage_payload :: "string option"
  gar_cost_amount :: "decimal option"
  gar_effect_reference :: "string option"
  gar_result_payload :: "string option"
  gar_recorded_at :: int

record AIGatewayProviderEffectRow =
  per_tenant_id :: string
  per_workspace_id :: string
  per_effect_key :: string
  per_ai_invocation_id :: string
  per_effect_type :: string
  per_request_hash :: string
  per_claim_generation :: int
  per_state :: string
  per_result_payload :: "string option"
  per_dispatch_count :: int
  per_reserved_at :: int
  per_dispatching_at :: "int option"
  per_completed_at :: "int option"

record AIGatewayCacheRow =
  gcr_tenant_id :: string
  gcr_workspace_id :: string
  gcr_cache_key :: string
  gcr_content :: string
  gcr_metadata_payload :: string
  gcr_provenance_ai_invocation_id :: string
  gcr_expires_at :: int
  gcr_invalidated_at :: "int option"

record AIGatewayUsageLedgerRow =
  gur_tenant_id :: string
  gur_workspace_id :: string
  gur_ai_invocation_id :: string
  gur_usage_event_key :: string
  gur_attempt_number :: "int option"
  gur_kind :: string
  gur_usage_payload :: string
  gur_cost_amount :: decimal
  gur_final :: bool
  gur_observed_at :: int

text \<open>The primary keys.\<close>

definition workflow_key :: "WorkflowRow \<Rightarrow> scoped" where
  "workflow_key r = Scoped (wfr_tenant_id r) (wfr_workspace_id r) (wfr_workflow_id r)"

definition step_key :: "WorkflowStepRow \<Rightarrow> scoped" where
  "step_key r = Scoped (wsr_tenant_id r) (wsr_workspace_id r) (wsr_workflow_step_id r)"

definition execution_key :: "ExecutionRow \<Rightarrow> scoped" where
  "execution_key r = Scoped (exr_tenant_id r) (exr_workspace_id r) (exr_execution_id r)"

definition idempotency_row_key :: "CommandIdempotencyRow \<Rightarrow> scoped_part" where
  "idempotency_row_key r =
     Scoped_Part (cir_tenant_id r) (cir_workspace_id r) (cir_target_component r) (cir_idempotency_key r)"

definition outcome_key :: "OutcomeRow \<Rightarrow> scoped" where
  "outcome_key r = Scoped (our_tenant_id r) (our_workspace_id r) (our_outcome_id r)"

definition decision_key :: "DecisionEvidenceRow \<Rightarrow> scoped" where
  "decision_key r = Scoped (der_tenant_id r) (der_workspace_id r) (der_decision_id r)"

definition memory_key :: "MemoryRecordRow \<Rightarrow> scoped_number" where
  "memory_key r = Scoped_Number (mrr_tenant_id r) (mrr_workspace_id r) (mrr_memory_id r) (mrr_version r)"

definition invocation_key :: "AIGatewayInvocationRow \<Rightarrow> scoped" where
  "invocation_key r = Scoped (gir_tenant_id r) (gir_workspace_id r) (gir_ai_invocation_id r)"

definition budget_key :: "AIGatewayBudgetRow \<Rightarrow> scoped" where
  "budget_key r = Scoped (gbr_tenant_id r) (gbr_workspace_id r) (gbr_ai_invocation_id r)"

definition attempt_key :: "AIGatewayAttemptRow \<Rightarrow> scoped_number" where
  "attempt_key r =
     Scoped_Number (gar_tenant_id r) (gar_workspace_id r) (gar_ai_invocation_id r) (gar_attempt_number r)"

definition effect_row_key :: "AIGatewayProviderEffectRow \<Rightarrow> scoped" where
  "effect_row_key r = Scoped (per_tenant_id r) (per_workspace_id r) (per_effect_key r)"

definition cache_row_key :: "AIGatewayCacheRow \<Rightarrow> scoped" where
  "cache_row_key r = Scoped (gcr_tenant_id r) (gcr_workspace_id r) (gcr_cache_key r)"

definition usage_row_key :: "AIGatewayUsageLedgerRow \<Rightarrow> scoped_part" where
  "usage_row_key r =
     Scoped_Part (gur_tenant_id r) (gur_workspace_id r) (gur_ai_invocation_id r) (gur_usage_event_key r)"

section \<open>Sessions\<close>

text \<open>
  \<open>tbl_get\<close> is \<^verbatim>\<open>session.get\<close>; \<open>tbl_select\<close> a \<^verbatim>\<open>select\<close> with its \<^verbatim>\<open>where\<close>; \<open>tbl_top\<close> one ordered by a column,
  greatest first, limited to one row; \<open>tbl_sum\<close> a \<^verbatim>\<open>coalesce(sum(..), 0)\<close>; \<open>tbl_insert\<close> a plain
  \<^verbatim>\<open>insert\<close>; \<open>tbl_insert_missing\<close> one with \<^verbatim>\<open>on_conflict_do_nothing\<close> on the primary key; \<open>tbl_upsert\<close>
  one with \<^verbatim>\<open>on_conflict_do_update(set_, where)\<close>, which returns the row written, if any; \<open>tbl_update\<close> an
  \<^verbatim>\<open>update ... where ... values ... returning\<close>, whose \<^verbatim>\<open>rowcount\<close> is the length of its result; \<open>tbl_flush\<close>
  writes a row whose attributes were assigned.
\<close>

record ('s, 'k, 'r) "table" =
  tbl_get :: "'k \<Rightarrow> ('s, 'r option) eff"
  tbl_select :: "('r \<Rightarrow> bool) \<Rightarrow> ('s, 'r list) eff"
  tbl_top :: "('r \<Rightarrow> bool) \<Rightarrow> ('r \<Rightarrow> int) \<Rightarrow> ('s, 'r option) eff"
  tbl_sum :: "('r \<Rightarrow> bool) \<Rightarrow> ('r \<Rightarrow> decimal) \<Rightarrow> ('s, decimal option) eff"
  tbl_insert :: "'r \<Rightarrow> ('s, unit) eff"
  tbl_insert_missing :: "'r \<Rightarrow> ('s, unit) eff"
  tbl_upsert :: "'r \<Rightarrow> ('r \<Rightarrow> bool) \<Rightarrow> ('r \<Rightarrow> 'r) \<Rightarrow> ('s, 'r option) eff"
  tbl_update :: "('r \<Rightarrow> bool) \<Rightarrow> ('r \<Rightarrow> 'r) \<Rightarrow> ('s, 'r list) eff"
  tbl_flush :: "'r \<Rightarrow> ('s, unit) eff"

record 's database =
  db_begin :: "('s, unit) eff"
  db_commit :: "('s, unit) eff"
  db_rollback :: "('s, unit) eff"
  db_advisory_lock :: "string \<Rightarrow> ('s, unit) eff"
  db_workflows :: "('s, scoped, WorkflowRow) table"
  db_steps :: "('s, scoped, WorkflowStepRow) table"
  db_executions :: "('s, scoped, ExecutionRow) table"
  db_idempotency :: "('s, scoped_part, CommandIdempotencyRow) table"
  db_outcomes :: "('s, scoped, OutcomeRow) table"
  db_decisions :: "('s, scoped, DecisionEvidenceRow) table"
  db_memory :: "('s, scoped_number, MemoryRecordRow) table"
  db_invocations :: "('s, scoped, AIGatewayInvocationRow) table"
  db_budgets :: "('s, scoped, AIGatewayBudgetRow) table"
  db_attempts :: "('s, scoped_number, AIGatewayAttemptRow) table"
  db_effects :: "('s, scoped, AIGatewayProviderEffectRow) table"
  db_cache :: "('s, scoped, AIGatewayCacheRow) table"
  db_usage :: "('s, scoped_part, AIGatewayUsageLedgerRow) table"

definition db_transaction :: "'s database \<Rightarrow> ('s, 'a) eff \<Rightarrow> ('s, 'a) eff" where
  "db_transaction db body =
     bnd (db_begin db) (\<lambda>_.
     bnd (catch body (\<lambda>e. bnd (db_rollback db) (\<lambda>_. raise e))) (\<lambda>x.
     bnd (db_commit db) (\<lambda>_. ret x)))"

definition command_lock :: "'s database \<Rightarrow> string \<Rightarrow> ('s, 'a) eff \<Rightarrow> ('s, 'a) eff" where
  "command_lock db scope_key body =
     db_transaction db (bnd (db_advisory_lock db scope_key) (\<lambda>_. body))"

text \<open>\<^verbatim>\<open>session.scalar\<close>: the first row, if any.\<close>

definition first_row :: "('s, 'r list) eff \<Rightarrow> ('s, 'r option) eff" where
  "first_row m = bnd m (\<lambda>rows. ret (case rows of [] \<Rightarrow> None | r # _ \<Rightarrow> Some r))"

end
