(* ===== verification/Durable_Sessions.thy ===== *)
theory Durable_Sessions
  imports Durable_Tables "HOL-Library.Multiset"
begin

text \<open>
  What the repositories may rely on of a session: \<open>table_laws\<close> for every table and \<open>session_frame\<close> for
  the transaction around them, collected in \<open>durable_database\<close>, with the Hoare-style rules the component proofs use.
  A database in memory satisfies all of them.

  \<open>acts_on view rest m Q\<close>: whatever \<open>m\<close> does, \<open>rest\<close> of the state is untouched, and if it returns
  \<open>x\<close> then \<open>Q x\<close> relates the view before and after. \<open>wp\<close> is the weakest precondition, on the process memory
  and the tables, of what runs inside a transaction: it must not touch the copy a rollback returns to.
\<close>

section \<open>Statements\<close>

definition acts_on ::
  "('s \<Rightarrow> 'd) \<Rightarrow> ('s \<Rightarrow> 'm) \<Rightarrow> ('s, 'a) eff \<Rightarrow> ('a \<Rightarrow> 'd \<Rightarrow> 'd \<Rightarrow> bool) \<Rightarrow> bool" where
  "acts_on view rest m Q \<longleftrightarrow> (\<forall>s r t. m s = (r, t) \<longrightarrow>
     rest t = rest s \<and> (\<forall>x. r = Inr x \<longrightarrow> Q x (view s) (view t)))"

definition wp ::
  "('s \<Rightarrow> 'm) \<Rightarrow> ('s \<Rightarrow> 'd) \<Rightarrow> ('s \<Rightarrow> 'b) \<Rightarrow> ('s, 'a) eff \<Rightarrow> ('a \<Rightarrow> 'm \<Rightarrow> 'd \<Rightarrow> bool) \<Rightarrow> 'm \<Rightarrow> 'd \<Rightarrow> bool" where
  "wp mem tables saved m Q M D \<longleftrightarrow> (\<forall>s r t. mem s = M \<longrightarrow> tables s = D \<longrightarrow> m s = (r, t) \<longrightarrow>
     saved t = saved s \<and> (\<forall>x. r = Inr x \<longrightarrow> Q x (mem t) (tables t)))"

lemma wpI:
  assumes "\<And>s r t. mem s = M \<Longrightarrow> tables s = D \<Longrightarrow> m s = (r, t) \<Longrightarrow> saved t = saved s"
    and "\<And>s x t. mem s = M \<Longrightarrow> tables s = D \<Longrightarrow> m s = (Inr x, t) \<Longrightarrow> Q x (mem t) (tables t)"
  shows "wp mem tables saved m Q M D"
  using assms by (auto simp: wp_def)

lemma wpD:
  assumes "wp mem tables saved m Q (mem s) (tables s)" "m s = (r, t)"
  shows "saved t = saved s" "r = Inr x \<Longrightarrow> Q x (mem t) (tables t)"
  using assms by (auto simp: wp_def)

named_theorems wp_rules \<open>backward reasoning through a transaction body\<close>

lemma wp_pure [wp_rules]:
  "Q x M D \<Longrightarrow> wp mem tables saved (ret x) Q M D"
  "wp mem tables saved (raise e) Q M D"
  "(\<And>x. v = Inr x \<Longrightarrow> Q x M D) \<Longrightarrow> wp mem tables saved (lift v) Q M D"
  "(b \<Longrightarrow> Q' () M D) \<Longrightarrow> wp mem tables saved (guard b e) Q' M D"
  by (auto simp: wp_def effect_simps)

lemma wp_bnd [wp_rules]:
  assumes "wp mem tables saved m (\<lambda>x M D. wp mem tables saved (f x) Q M D) M D"
  shows "wp mem tables saved (bnd m f) Q M D"
proof (rule wpI)
  fix s r t assume "mem s = M" "tables s = D" "bnd m f s = (r, t)"
  with assms show "saved t = saved s" unfolding wp_def bnd_def by (fastforce split: prod.splits sum.splits)
next
  fix s y t assume s: "mem s = M" "tables s = D" and "bnd m f s = (Inr y, t)"
  then obtain x u where "m s = (Inr x, u)" "f x u = (Inr y, t)" by (auto elim: bnd_InrE)
  with assms s show "Q y (mem t) (tables t)" unfolding wp_def by blast
qed

lemma wp_branch [wp_rules]:
  "(b \<Longrightarrow> wp mem tables saved m Q M D) \<Longrightarrow> (\<not> b \<Longrightarrow> wp mem tables saved n Q M D) \<Longrightarrow>
   wp mem tables saved (if b then m else n) Q M D"
  "(x = None \<Longrightarrow> wp mem tables saved m Q M D) \<Longrightarrow> (\<And>y. x = Some y \<Longrightarrow> wp mem tables saved (g y) Q M D) \<Longrightarrow>
   wp mem tables saved (case x of None \<Rightarrow> m | Some y \<Rightarrow> g y) Q M D"
  "(\<And>a b. z = (a, b) \<Longrightarrow> wp mem tables saved (h a b) Q M D) \<Longrightarrow> wp mem tables saved (case z of (a, b) \<Rightarrow> h a b) Q M D"
  by (auto split: option.splits prod.splits)

lemma wp_mono:
  "wp mem tables saved m P M D \<Longrightarrow> (\<And>x N E. P x N E \<Longrightarrow> Q x N E) \<Longrightarrow> wp mem tables saved m Q M D"
  unfolding wp_def by blast

lemma wp_acts:
  assumes "acts_on tables (\<lambda>s. (mem s, saved s)) m P" "\<And>x E. P x D E \<Longrightarrow> Q x M E"
  shows "wp mem tables saved m Q M D"
proof (rule wpI)
  fix s r t assume s: "mem s = M" "tables s = D" "m s = (r, t)"
  with assms(1) have "(mem t, saved t) = (mem s, saved s)" unfolding acts_on_def by blast
  then show "saved t = saved s" by simp
next
  fix s x t assume s: "mem s = M" "tables s = D" "m s = (Inr x, t)"
  with assms(1) have "(mem t, saved t) = (mem s, saved s)" "P x D (tables t)" unfolding acts_on_def by blast+
  with assms(2) s(1) show "Q x (mem t) (tables t)" by simp
qed

section \<open>Tables\<close>

definition rows :: "('k, 'r) odict \<Rightarrow> 'r list" where
  "rows T = map snd T"

definition rewrite :: "('r \<Rightarrow> bool) \<Rightarrow> ('r \<Rightarrow> 'r) \<Rightarrow> ('k, 'r) odict \<Rightarrow> ('k, 'r) odict" where
  "rewrite p f T = map (\<lambda>(k, r). (k, if p r then f r else r)) T"

lemma map_of_rewrite [simp]: "map_of (rewrite p f T) k = map_option (\<lambda>r. if p r then f r else r) (map_of T k)"
  by (induction T) (auto simp: rewrite_def)

lemma od_keys_rewrite [simp]: "map fst (rewrite p f T) = map fst T"
  by (auto simp: rewrite_def)

text \<open>A table by its primary key.\<close>

definition keyed :: "('r \<Rightarrow> 'k) \<Rightarrow> ('k, 'r) odict \<Rightarrow> bool" where
  "keyed keyof T \<longleftrightarrow> od_ok T \<and> (\<forall>k r. map_of T k = Some r \<longrightarrow> keyof r = k)"

lemma keyed_row: "keyed keyof T \<Longrightarrow> r \<in> set (rows T) \<Longrightarrow> map_of T (keyof r) = Some r"
  unfolding keyed_def rows_def using map_of_mem by fastforce

lemma keyed_put [simp]: "keyed keyof T \<Longrightarrow> keyof r = k \<Longrightarrow> keyed keyof (od_put k r T)"
  by (auto simp: keyed_def)

lemma keyed_setdefault [simp]: "keyed keyof T \<Longrightarrow> keyof r = k \<Longrightarrow> keyed keyof (od_setdefault k r T)"
  by (auto simp: keyed_def split: option.splits if_splits)

lemma keyed_rewrite: "keyed keyof T \<Longrightarrow> (\<And>r. p r \<Longrightarrow> keyof (f r) = keyof r) \<Longrightarrow> keyed keyof (rewrite p f T)"
  by (auto simp: keyed_def)

definition upsert_outcome ::
  "('r \<Rightarrow> 'k) \<Rightarrow> 'r \<Rightarrow> ('r \<Rightarrow> bool) \<Rightarrow> ('r \<Rightarrow> 'r) \<Rightarrow> ('k, 'r) odict \<Rightarrow> 'r option \<times> ('k, 'r) odict" where
  "upsert_outcome keyof r p f T = (case map_of T (keyof r) of
       None \<Rightarrow> (Some r, od_put (keyof r) r T)
     | Some old \<Rightarrow> if p old then (Some (f old), od_put (keyof r) (f old) T) else (None, T))"

lemma rows_mem: "map_of T k = Some r \<Longrightarrow> r \<in> set (rows T)"
  by (force simp: rows_def dest: map_of_SomeD)

locale table_laws =
  fixes mem :: "'s \<Rightarrow> 'm" and tables :: "'s \<Rightarrow> 'd" and saved :: "'s \<Rightarrow> 'b"
    and sel :: "'d \<Rightarrow> ('k, 'r) odict" and put :: "('k, 'r) odict \<Rightarrow> 'd \<Rightarrow> 'd"
    and keyof :: "'r \<Rightarrow> 'k" and T :: "('s, 'k, 'r) table"
  assumes get: "acts_on tables (\<lambda>s. (mem s, saved s)) (tbl_get T k) (\<lambda>x D E. E = D \<and> x = map_of (sel D) k)"
    and select: "acts_on tables (\<lambda>s. (mem s, saved s)) (tbl_select T p)
      (\<lambda>x D E. E = D \<and> mset x = mset (filter p (rows (sel D))))"
    and top: "acts_on tables (\<lambda>s. (mem s, saved s)) (tbl_top T p g)
      (\<lambda>x D E. E = D \<and> (case x of None \<Rightarrow> filter p (rows (sel D)) = []
        | Some r \<Rightarrow> r \<in> set (filter p (rows (sel D))) \<and> (\<forall>q \<in> set (filter p (rows (sel D))). g q \<le> g r)))"
    and total: "acts_on tables (\<lambda>s. (mem s, saved s)) (tbl_sum T p c)
      (\<lambda>x D E. E = D \<and> (\<exists>d. x = Some d \<and> dval d = sum_list (map (dval \<circ> c) (filter p (rows (sel D))))))"
    and inserted: "acts_on tables (\<lambda>s. (mem s, saved s)) (tbl_insert T r)
      (\<lambda>_ D E. map_of (sel D) (keyof r) = None \<and> E = put (od_put (keyof r) r (sel D)) D)"
    and inserted_missing: "acts_on tables (\<lambda>s. (mem s, saved s)) (tbl_insert_missing T r)
      (\<lambda>_ D E. E = put (od_setdefault (keyof r) r (sel D)) D)"
    and upserted: "acts_on tables (\<lambda>s. (mem s, saved s)) (tbl_upsert T r p f)
      (\<lambda>x D E. x = fst (upsert_outcome keyof r p f (sel D)) \<and> E = put (snd (upsert_outcome keyof r p f (sel D))) D)"
    and updated: "acts_on tables (\<lambda>s. (mem s, saved s)) (tbl_update T p f)
      (\<lambda>x D E. mset x = mset (map f (filter p (rows (sel D)))) \<and> E = put (rewrite p f (sel D)) D)"
    and flushed: "acts_on tables (\<lambda>s. (mem s, saved s)) (tbl_flush T r) (\<lambda>_ D E. E = put (od_put (keyof r) r (sel D)) D)"
begin

lemma statements:
  "Q (map_of (sel D) k) M D \<Longrightarrow> wp mem tables saved (tbl_get T k) Q M D"
  "(\<And>x. mset x = mset (filter p (rows (sel D))) \<Longrightarrow> Ql x M D) \<Longrightarrow> wp mem tables saved (tbl_select T p) Ql M D"
  "(filter p (rows (sel D)) = [] \<Longrightarrow> Q None M D) \<Longrightarrow>
   (\<And>r. r \<in> set (rows (sel D)) \<Longrightarrow> p r \<Longrightarrow> (\<forall>q \<in> set (rows (sel D)). p q \<longrightarrow> g q \<le> g r) \<Longrightarrow> Q (Some r) M D) \<Longrightarrow>
   wp mem tables saved (tbl_top T p g) Q M D"
  "(\<And>d. dval d = sum_list (map (dval \<circ> c) (filter p (rows (sel D)))) \<Longrightarrow> Qd (Some d) M D) \<Longrightarrow>
   wp mem tables saved (tbl_sum T p c) Qd M D"
  "(map_of (sel D) (keyof r) = None \<Longrightarrow> Q' () M (put (od_put (keyof r) r (sel D)) D)) \<Longrightarrow>
   wp mem tables saved (tbl_insert T r) Q' M D"
  "Q' () M (put (od_setdefault (keyof r) r (sel D)) D) \<Longrightarrow> wp mem tables saved (tbl_insert_missing T r) Q' M D"
  "(map_of (sel D) (keyof r) = None \<Longrightarrow> Q (Some r) M (put (od_put (keyof r) r (sel D)) D)) \<Longrightarrow>
   (\<And>old. map_of (sel D) (keyof r) = Some old \<Longrightarrow> p old \<Longrightarrow> Q (Some (f old)) M (put (od_put (keyof r) (f old) (sel D)) D)) \<Longrightarrow>
   (\<And>old. map_of (sel D) (keyof r) = Some old \<Longrightarrow> \<not> p old \<Longrightarrow> Q None M (put (sel D) D)) \<Longrightarrow>
   wp mem tables saved (tbl_upsert T r p f) Q M D"
  "(\<And>x. mset x = mset (map f (filter p (rows (sel D)))) \<Longrightarrow> Ql x M (put (rewrite p f (sel D)) D)) \<Longrightarrow>
   wp mem tables saved (tbl_update T p f) Ql M D"
  "Q' () M (put (od_put (keyof r) r (sel D)) D) \<Longrightarrow> wp mem tables saved (tbl_flush T r) Q' M D"
  by (rule wp_acts, rule get select top total inserted inserted_missing upserted updated flushed,
      fastforce simp: upsert_outcome_def split: option.splits if_splits)+

lemma first_statements:
  "(filter p (rows (sel D)) = [] \<Longrightarrow> Q None M D) \<Longrightarrow>
   (\<And>r. r \<in> set (rows (sel D)) \<Longrightarrow> p r \<Longrightarrow> Q (Some r) M D) \<Longrightarrow>
   wp mem tables saved (first_row (tbl_select T p)) Q M D"
  "(filter p (rows (sel D)) = [] \<Longrightarrow> Q None M (put (rewrite p f (sel D)) D)) \<Longrightarrow>
   (\<And>r. r \<in> set (rows (sel D)) \<Longrightarrow> p r \<Longrightarrow> Q (Some (f r)) M (put (rewrite p f (sel D)) D)) \<Longrightarrow>
   wp mem tables saved (first_row (tbl_update T p f)) Q M D"
proof -
  have split: "Q (case x of [] \<Rightarrow> None | r # _ \<Rightarrow> Some r) M E"
    if "mset x = mset ys" "ys = [] \<Longrightarrow> Q None M E" "\<And>r. r \<in> set ys \<Longrightarrow> Q (Some r) M E" for x ys E
    using that mset_eq_setD [OF that(1)] by (cases x) auto
  show "wp mem tables saved (first_row (tbl_select T p)) Q M D"
    if "filter p (rows (sel D)) = [] \<Longrightarrow> Q None M D" "\<And>r. r \<in> set (rows (sel D)) \<Longrightarrow> p r \<Longrightarrow> Q (Some r) M D"
    unfolding first_row_def
    by (rule wp_bnd, rule statements(2), rule wp_pure(1), erule split) (use that in auto)
  show "wp mem tables saved (first_row (tbl_update T p f)) Q M D"
    if "filter p (rows (sel D)) = [] \<Longrightarrow> Q None M (put (rewrite p f (sel D)) D)"
      "\<And>r. r \<in> set (rows (sel D)) \<Longrightarrow> p r \<Longrightarrow> Q (Some (f r)) M (put (rewrite p f (sel D)) D)"
    unfolding first_row_def
    by (rule wp_bnd, rule statements(8), rule wp_pure(1), erule split) (use that in auto)
qed

lemmas step_rules = first_statements statements

end

section \<open>Transactions\<close>

text \<open>An operation that cannot return and leaves the tables alone.\<close>

definition refused :: "('s \<Rightarrow> 'd) \<Rightarrow> ('s, 'a) eff \<Rightarrow> 's \<Rightarrow> bool" where
  "refused tables m s \<longleftrightarrow> (\<forall>x. fst (m s) \<noteq> Inr x) \<and> tables (snd (m s)) = tables s"

lemma refused_bnd: "refused tables m s \<Longrightarrow> refused tables (bnd m f) s"
  by (cases "m s"; cases "fst (m s)") (auto simp: refused_def bnd_def)

lemma refused_raise: "refused tables (raise e) s" "refused tables (lift (Inl e)) s"
  by (simp_all add: refused_def effect_simps)

locale session_frame =
  fixes db :: "'s database" and tables :: "'s \<Rightarrow> 'd" and saved :: "'s \<Rightarrow> 'd" and mem :: "'s \<Rightarrow> 'm"
  assumes begun: "db_begin db s = (r, t) \<Longrightarrow> mem t = mem s \<and> tables t = tables s \<and> (r = Inr () \<longrightarrow> saved t = tables s)"
    and rolled_back: "db_rollback db s = (r, t) \<Longrightarrow> mem t = mem s \<and> tables t = saved s"
    and committed: "db_commit db s = (r, t) \<Longrightarrow>
      mem t = mem s \<and> (r = Inr () \<longrightarrow> tables t = tables s) \<and> (tables t = tables s \<or> tables t = saved s)"
    and locked: "acts_on tables (\<lambda>s. (mem s, saved s)) (db_advisory_lock db k) (\<lambda>_ D E. E = D)"
begin

text \<open>A transaction takes effect as a whole or not at all; only a failed commit leaves it open which.\<close>

lemma transaction:
  assumes body: "wp mem tables saved body Q (mem s) (tables s)" and run: "db_transaction db body s = (r, t)"
  shows "r = Inr x \<Longrightarrow> Q x (mem t) (tables t)" "tables t = tables s \<or> (\<exists>x. Q x (mem t) (tables t))"
proof -
  have "(\<forall>x. r = Inr x \<longrightarrow> Q x (mem t) (tables t)) \<and> (tables t = tables s \<or> (\<exists>x. Q x (mem t) (tables t)))"
  proof (cases "db_begin db s")
    case (Pair r1 u)
    note opened = begun [OF Pair]
    show ?thesis
    proof (cases r1)
      case (Inl e)
      with run Pair opened show ?thesis by (auto simp: db_transaction_def effect_simps)
    next
      case (Inr _)
      obtain r2 v where v: "body u = (r2, v)" by (cases "body u")
      have wp: "wp mem tables saved body Q (mem u) (tables u)" using body opened by simp
      have same: "saved v = tables s" using wpD(1) [OF wp v] opened Inr by auto
      show ?thesis
      proof (cases r2)
        case e: (Inl e)
        obtain r3 w where w: "db_rollback db v = (r3, w)" by (cases "db_rollback db v")
        have "t = w" "\<exists>e. r = Inl e"
          using run Pair Inr v e w by (auto simp: db_transaction_def effect_simps split: sum.splits)
        with rolled_back [OF w] same show ?thesis by auto
      next
        case x: (Inr x)
        obtain r3 w where w: "db_commit db v = (r3, w)" by (cases "db_commit db v")
        have Q: "Q x (mem v) (tables v)" using wpD(2) [OF wp v x] .
        have "t = w" "r = (case r3 of Inl e \<Rightarrow> Inl e | Inr _ \<Rightarrow> Inr x)"
          using run Pair Inr v x w by (auto simp: db_transaction_def effect_simps split: sum.splits)
        with committed [OF w] same Q show ?thesis by (cases r3) auto
      qed
    qed
  qed
  then show "r = Inr x \<Longrightarrow> Q x (mem t) (tables t)" "tables t = tables s \<or> (\<exists>x. Q x (mem t) (tables t))" by auto
qed

lemma refused_transaction:
  assumes "wp mem tables saved body (\<lambda>_ _ _. False) (mem s) (tables s)"
  shows "refused tables (db_transaction db body) s"
proof -
  obtain r t where run: "db_transaction db body s = (r, t)" by (metis surj_pair)
  from transaction [OF assms run] run show ?thesis by (cases r) (auto simp: refused_def)
qed

lemma locking: "Q () M D \<Longrightarrow> wp mem tables saved (db_advisory_lock db k) Q M D"
  by (rule wp_acts [OF locked]) simp

end

section \<open>The whole database\<close>

record database_tables =
  t_workflows :: "(scoped, WorkflowRow) odict"
  t_steps :: "(scoped, WorkflowStepRow) odict"
  t_executions :: "(scoped, ExecutionRow) odict"
  t_idempotency :: "(scoped_part, CommandIdempotencyRow) odict"
  t_outcomes :: "(scoped, OutcomeRow) odict"
  t_decisions :: "(scoped, DecisionEvidenceRow) odict"
  t_memory :: "(scoped_number, MemoryRecordRow) odict"
  t_invocations :: "(scoped, AIGatewayInvocationRow) odict"
  t_budgets :: "(scoped, AIGatewayBudgetRow) odict"
  t_attempts :: "(scoped_number, AIGatewayAttemptRow) odict"
  t_effects :: "(scoped, AIGatewayProviderEffectRow) odict"
  t_cache :: "(scoped, AIGatewayCacheRow) odict"
  t_usage :: "(scoped_part, AIGatewayUsageLedgerRow) odict"

locale durable_database = session_frame db tables saved mem
  + workflow_rows: table_laws mem tables saved t_workflows "\<lambda>x. t_workflows_update (\<lambda>_. x)" workflow_key "db_workflows db"
  + step_rows: table_laws mem tables saved t_steps "\<lambda>x. t_steps_update (\<lambda>_. x)" step_key "db_steps db"
  + execution_rows: table_laws mem tables saved t_executions "\<lambda>x. t_executions_update (\<lambda>_. x)" execution_key "db_executions db"
  + idempotency_rows: table_laws mem tables saved t_idempotency "\<lambda>x. t_idempotency_update (\<lambda>_. x)" idempotency_row_key "db_idempotency db"
  + outcome_rows: table_laws mem tables saved t_outcomes "\<lambda>x. t_outcomes_update (\<lambda>_. x)" outcome_key "db_outcomes db"
  + decision_rows: table_laws mem tables saved t_decisions "\<lambda>x. t_decisions_update (\<lambda>_. x)" decision_key "db_decisions db"
  + memory_rows: table_laws mem tables saved t_memory "\<lambda>x. t_memory_update (\<lambda>_. x)" memory_key "db_memory db"
  + invocation_rows: table_laws mem tables saved t_invocations "\<lambda>x. t_invocations_update (\<lambda>_. x)" invocation_key "db_invocations db"
  + budget_rows: table_laws mem tables saved t_budgets "\<lambda>x. t_budgets_update (\<lambda>_. x)" budget_key "db_budgets db"
  + attempt_rows: table_laws mem tables saved t_attempts "\<lambda>x. t_attempts_update (\<lambda>_. x)" attempt_key "db_attempts db"
  + effect_rows: table_laws mem tables saved t_effects "\<lambda>x. t_effects_update (\<lambda>_. x)" effect_row_key "db_effects db"
  + cache_rows: table_laws mem tables saved t_cache "\<lambda>x. t_cache_update (\<lambda>_. x)" cache_row_key "db_cache db"
  + usage_rows: table_laws mem tables saved t_usage "\<lambda>x. t_usage_update (\<lambda>_. x)" usage_row_key "db_usage db"
  for db :: "'s database" and tables :: "'s \<Rightarrow> database_tables" and saved :: "'s \<Rightarrow> database_tables" and mem :: "'s \<Rightarrow> 'm"

section \<open>A database in memory\<close>

text \<open>
  The laws can be met: the tables, and the copy a rollback returns to, are kept at some place \<open>held\<close>
  of the state, written by \<open>hold\<close>.
\<close>

fun greatest :: "('r \<Rightarrow> int) \<Rightarrow> 'r list \<Rightarrow> 'r option" where
  "greatest g [] = None"
| "greatest g (r # rs) = (case greatest g rs of None \<Rightarrow> Some r | Some q \<Rightarrow> Some (if g r < g q then q else r))"

lemma greatest_None [simp]: "greatest g rs = None \<longleftrightarrow> rs = []"
  by (cases rs) (auto split: option.splits)

lemma greatest_Some: "greatest g rs = Some r \<Longrightarrow> r \<in> set rs \<and> (\<forall>q \<in> set rs. g q \<le> g r)"
  by (induction rs arbitrary: r) (fastforce split: option.splits if_splits)+

definition memory_table ::
  "('s \<Rightarrow> 'd \<times> 'd) \<Rightarrow> (('d \<times> 'd \<Rightarrow> 'd \<times> 'd) \<Rightarrow> 's \<Rightarrow> 's) \<Rightarrow> ('d \<Rightarrow> ('k, 'r) odict)
   \<Rightarrow> (('k, 'r) odict \<Rightarrow> 'd \<Rightarrow> 'd) \<Rightarrow> ('r \<Rightarrow> 'k) \<Rightarrow> ('s, 'k, 'r) table"
where
  "memory_table held hold sel put keyof =
     (let T = \<lambda>s. sel (fst (held s)); store = \<lambda>f. upd (hold (\<lambda>(D, B). (put (f (sel D)) D, B))) in
     \<lparr>tbl_get = (\<lambda>k. asks (\<lambda>s. map_of (T s) k)),
      tbl_select = (\<lambda>p. asks (\<lambda>s. filter p (rows (T s)))),
      tbl_top = (\<lambda>p g. asks (\<lambda>s. greatest g (filter p (rows (T s))))),
      tbl_sum = (\<lambda>p c. asks (\<lambda>s. Some (dec_sum (map c (filter p (rows (T s))))))),
      tbl_insert = (\<lambda>r. bnd (asks (\<lambda>s. map_of (T s) (keyof r))) (\<lambda>old.
         if old = None then store (od_put (keyof r) r) else raise (RuntimeError ''IntegrityError''))),
      tbl_insert_missing = (\<lambda>r. store (od_setdefault (keyof r) r)),
      tbl_upsert = (\<lambda>r p f. bnd (asks (\<lambda>s. fst (upsert_outcome keyof r p f (T s)))) (\<lambda>x.
         bnd (store (\<lambda>t. snd (upsert_outcome keyof r p f t))) (\<lambda>_. ret x))),
      tbl_update = (\<lambda>p f. bnd (asks (\<lambda>s. map f (filter p (rows (T s))))) (\<lambda>x.
         bnd (store (rewrite p f)) (\<lambda>_. ret x))),
      tbl_flush = (\<lambda>r. store (od_put (keyof r) r))\<rparr>)"

definition memory_database ::
  "('s \<Rightarrow> database_tables \<times> database_tables)
   \<Rightarrow> ((database_tables \<times> database_tables \<Rightarrow> database_tables \<times> database_tables) \<Rightarrow> 's \<Rightarrow> 's) \<Rightarrow> 's database"
where
  "memory_database held hold =
     \<lparr>db_begin = upd (hold (\<lambda>(D, B). (D, D))), db_commit = ret (),
      db_rollback = upd (hold (\<lambda>(D, B). (B, B))), db_advisory_lock = (\<lambda>_. ret ()),
      db_workflows = memory_table held hold t_workflows (\<lambda>x. t_workflows_update (\<lambda>_. x)) workflow_key,
      db_steps = memory_table held hold t_steps (\<lambda>x. t_steps_update (\<lambda>_. x)) step_key,
      db_executions = memory_table held hold t_executions (\<lambda>x. t_executions_update (\<lambda>_. x)) execution_key,
      db_idempotency = memory_table held hold t_idempotency (\<lambda>x. t_idempotency_update (\<lambda>_. x)) idempotency_row_key,
      db_outcomes = memory_table held hold t_outcomes (\<lambda>x. t_outcomes_update (\<lambda>_. x)) outcome_key,
      db_decisions = memory_table held hold t_decisions (\<lambda>x. t_decisions_update (\<lambda>_. x)) decision_key,
      db_memory = memory_table held hold t_memory (\<lambda>x. t_memory_update (\<lambda>_. x)) memory_key,
      db_invocations = memory_table held hold t_invocations (\<lambda>x. t_invocations_update (\<lambda>_. x)) invocation_key,
      db_budgets = memory_table held hold t_budgets (\<lambda>x. t_budgets_update (\<lambda>_. x)) budget_key,
      db_attempts = memory_table held hold t_attempts (\<lambda>x. t_attempts_update (\<lambda>_. x)) attempt_key,
      db_effects = memory_table held hold t_effects (\<lambda>x. t_effects_update (\<lambda>_. x)) effect_row_key,
      db_cache = memory_table held hold t_cache (\<lambda>x. t_cache_update (\<lambda>_. x)) cache_row_key,
      db_usage = memory_table held hold t_usage (\<lambda>x. t_usage_update (\<lambda>_. x)) usage_row_key\<rparr>"

locale storage_place =
  fixes held :: "'s \<Rightarrow> 'd \<times> 'd" and hold :: "('d \<times> 'd \<Rightarrow> 'd \<times> 'd) \<Rightarrow> 's \<Rightarrow> 's" and mem :: "'s \<Rightarrow> 'm"
  assumes held_hold [simp]: "held (hold f s) = f (held s)" and mem_hold [simp]: "mem (hold f s) = mem s"
begin

lemma memory_table_laws:
  "table_laws mem (\<lambda>s. fst (held s)) (\<lambda>s. snd (held s)) sel put keyof (memory_table held hold sel put keyof)"
  by unfold_locales
    (auto simp: acts_on_def memory_table_def effect_simps Let_def split_beta comp_def
       split: if_splits option.splits dest: greatest_Some)

end

locale database_place = storage_place held hold mem
  for held :: "'s \<Rightarrow> database_tables \<times> database_tables" and hold and mem :: "'s \<Rightarrow> 'm"
begin

lemma memory_session_frame:
  "session_frame (memory_database held hold) (\<lambda>s. fst (held s)) (\<lambda>s. snd (held s)) mem"
  by unfold_locales (auto simp: memory_database_def acts_on_def effect_simps split_beta)

lemma memory_database_laws:
  "durable_database (memory_database held hold) (\<lambda>s. fst (held s)) (\<lambda>s. snd (held s)) mem"
  by (intro durable_database.intro memory_session_frame)
    (simp_all add: memory_database_def memory_table_laws)

end

definition empty_tables :: database_tables where
  "empty_tables = \<lparr>t_workflows = [], t_steps = [], t_executions = [], t_idempotency = [], t_outcomes = [],
     t_decisions = [], t_memory = [], t_invocations = [], t_budgets = [], t_attempts = [], t_effects = [],
     t_cache = [], t_usage = []\<rparr>"

end
