(* ===== verification/Durable_Effects.thy ===== *)
theory Durable_Effects
  imports Durable_Sessions Gateway_Store
begin

text \<open>
  \<^verbatim>\<open>adapters/persistence_postgres/.../ai_gateway.py\<close>: the durable representation of invocations and
  \<^verbatim>\<open>PostgresProviderEffectBoundary\<close>, which lets a provider operation run at most once per effect key.

  \<open>boundary_step\<close> interleaves any number of callers at the granularity of the boundary's transactions, with
  crashes, failed commits and other work on the database in between.

  The serializers of pydantic are arguments (\<open>gateway_codecs\<close>); \<^verbatim>\<open>datetime.now\<close> reads the clock.
\<close>

section \<open>Serialization\<close>

record gateway_codecs =
  cd_dump_invocation :: "GatewayInvocation \<Rightarrow> string"
  cd_load_invocation :: "string \<Rightarrow> exn + GatewayInvocation"
  cd_dump_result :: "ProviderResult \<Rightarrow> string"
  cd_load_result :: "string \<Rightarrow> exn + ProviderResult"
  cd_dump_usage :: "AIUsage \<Rightarrow> string"
  cd_usage_value :: "AIUsage \<Rightarrow> pyval"
  cd_value_usage :: "pyval \<Rightarrow> exn + AIUsage"
  cd_dump_cache :: "CachedContent \<Rightarrow> string"
  cd_load_cache :: "string \<Rightarrow> exn + CachedContent"
  cd_str :: "pyval \<Rightarrow> string"

fun storage_json :: "pyval \<Rightarrow> pyval" where
  "storage_json (PDict d) = PDict (map (\<lambda>(k, v). (k, storage_json v)) d)"
| "storage_json (PTuple vs) = PList (map storage_json vs)"
| "storage_json (PList vs) = PList (map storage_json vs)"
| "storage_json v = v"

fun governed_json :: "pyval \<Rightarrow> pyval" where
  "governed_json (PDict d) = PDict (map (\<lambda>(k, v). (k, governed_json v)) d)"
| "governed_json (PList vs) = PTuple (map governed_json vs)"
| "governed_json (PTuple vs) = PTuple (map governed_json vs)"
| "governed_json v = v"

text \<open>The sequences of a governed value are tuples, those of a stored one lists. A mapping is a \<open>PDict\<close> on both
  sides: that \<^verbatim>\<open>_governed_json\<close> wraps it in a \<^verbatim>\<open>MappingProxyType\<close>, a read-only view, is not represented.\<close>

fun governed_value :: "pyval \<Rightarrow> bool" where
  "governed_value (PDict d) = list_all (\<lambda>p. governed_value (snd p)) d"
| "governed_value (PTuple vs) = list_all governed_value vs"
| "governed_value (PList vs) = False"
| "governed_value v = True"

fun storage_value :: "pyval \<Rightarrow> bool" where
  "storage_value (PDict d) = list_all (\<lambda>p. storage_value (snd p)) d"
| "storage_value (PList vs) = list_all storage_value vs"
| "storage_value (PTuple vs) = False"
| "storage_value v = True"

definition map_schema :: "(pyval \<Rightarrow> pyval) \<Rightarrow> pydict \<Rightarrow> pydict" where
  "map_schema f d = map (\<lambda>(k, v). (k, f v)) d"

definition dump_invocation :: "gateway_codecs \<Rightarrow> GatewayInvocation \<Rightarrow> string" where
  "dump_invocation cd v = (case rq_output_schema (inv_request v) of
       None \<Rightarrow> cd_dump_invocation cd v
     | Some schema \<Rightarrow> cd_dump_invocation cd
         (v\<lparr>inv_request := (inv_request v)\<lparr>rq_output_schema := Some (map_schema storage_json schema)\<rparr>\<rparr>))"

definition load_payload :: "gateway_codecs \<Rightarrow> string \<Rightarrow> exn + GatewayInvocation" where
  "load_payload cd payload =
     ebind (cd_load_invocation cd payload) (\<lambda>v. Inr
       (case rq_output_schema (inv_request v) of
          None \<Rightarrow> v
        | Some schema \<Rightarrow>
            v\<lparr>inv_request := (inv_request v)\<lparr>rq_output_schema := Some (map_schema governed_json schema)\<rparr>\<rparr>))"

definition governed_schema_of :: "GatewayInvocation \<Rightarrow> bool" where
  "governed_schema_of v \<longleftrightarrow> (case rq_output_schema (inv_request v) of
     None \<Rightarrow> True | Some schema \<Rightarrow> list_all (\<lambda>p. governed_value (snd p)) schema)"

definition stored_form :: "GatewayInvocation \<Rightarrow> GatewayInvocation" where
  "stored_form v = (case rq_output_schema (inv_request v) of
     None \<Rightarrow> v
   | Some schema \<Rightarrow> v\<lparr>inv_request := (inv_request v)\<lparr>rq_output_schema := Some (map_schema storage_json schema)\<rparr>\<rparr>)"

lemma json_forms: "governed_value (governed_json v)" "storage_value (storage_json v)"
  by (induction v) (auto simp: list_all_iff)

lemma governed_storage: "governed_value v \<Longrightarrow> governed_json (storage_json v) = v"
proof (induction v)
  case (PDict d)
  then show ?case by (force simp: list_all_iff intro: map_idI)
qed (auto simp: list_all_iff intro: map_idI)

section \<open>PostgresProviderEffectBoundary\<close>

text \<open>\<^verbatim>\<open>s.rsplit(m, 1)[0]\<close>: what precedes the last occurrence of \<open>m\<close>.\<close>

definition rsplit_head :: "string \<Rightarrow> string \<Rightarrow> string" where
  "rsplit_head m s = (case filter (\<lambda>i. starts_with m (drop i s)) [0..<Suc (length s)] of
       [] \<Rightarrow> s | is \<Rightarrow> take (last is) s)"

definition effect_invocation_id :: "string \<Rightarrow> string \<Rightarrow> string" where
  "effect_invocation_id effect_type effect_key =
     rsplit_head (if effect_type = ''structured_repair'' then '':repair:'' else '':provider:'') effect_key"

definition effect_row ::
  "AIInvocationRequest \<Rightarrow> string \<Rightarrow> string \<Rightarrow> string \<Rightarrow> int \<Rightarrow> int \<Rightarrow> AIGatewayProviderEffectRow" where
  "effect_row r effect_key effect_type request_hash generation now =
     \<lparr>per_tenant_id = rq_tenant_id r, per_workspace_id = rq_workspace_id r, per_effect_key = effect_key,
      per_ai_invocation_id = effect_invocation_id effect_type effect_key, per_effect_type = effect_type,
      per_request_hash = request_hash, per_claim_generation = generation, per_state = ''reserved'',
      per_result_payload = None, per_dispatch_count = 0, per_reserved_at = now, per_dispatching_at = None,
      per_completed_at = None\<rparr>"

definition effect_key_of :: "AIInvocationRequest \<Rightarrow> string \<Rightarrow> scoped" where
  "effect_key_of r effect_key = Scoped (rq_tenant_id r) (rq_workspace_id r) effect_key"

text \<open>The stored failure: \<^verbatim>\<open>json.dumps({"code": ..., "retryable": ..., "usage": ...}, sort_keys=True)\<close> and back.\<close>

definition failure_payload :: "text_services \<Rightarrow> gateway_codecs \<Rightarrow> string \<Rightarrow> bool \<Rightarrow> AIUsage option \<Rightarrow> string" where
  "failure_payload tx cd code retryable usg = json_dumps (json_sorted tx) (PDict
     [(''code'', PStr code), (''retryable'', PBool retryable),
      (''usage'', case usg of None \<Rightarrow> PNone | Some u \<Rightarrow> cd_usage_value cd u)])"

fun py_bool :: "pyval \<Rightarrow> bool" where
  "py_bool PNone = False"
| "py_bool (PBool b) = b"
| "py_bool (PInt i) = (i \<noteq> 0)"
| "py_bool (PFloat q) = (q \<noteq> 0)"
| "py_bool (PStr s) = (s \<noteq> [])"
| "py_bool (PList vs) = (vs \<noteq> [])"
| "py_bool (PTuple vs) = (vs \<noteq> [])"
| "py_bool (PDict d) = (d \<noteq> [])"

definition stored_failure :: "text_services \<Rightarrow> gateway_codecs \<Rightarrow> string \<Rightarrow> exn" where
  "stored_failure tx cd payload = (case json_loads tx payload of
       Inl e \<Rightarrow> e
     | Inr (PDict failure) \<Rightarrow>
         (case (map_of failure ''code'', map_of failure ''retryable'') of
            (None, _) \<Rightarrow> KeyError ''code''
          | (_, None) \<Rightarrow> KeyError ''retryable''
          | (Some code, Some retryable) \<Rightarrow>
              (case pget failure ''usage'' of
                 PNone \<Rightarrow> ProviderFailure (cd_str cd code) (py_bool retryable) None
               | u \<Rightarrow> (case cd_value_usage cd u of
                         Inl e \<Rightarrow> e
                       | Inr usg \<Rightarrow> ProviderFailure (cd_str cd code) (py_bool retryable) (Some usg))))
     | Inr _ \<Rightarrow> AttributeError ''get'')"

definition effect_ambiguous :: exn where
  "effect_ambiguous = ProviderFailure ''AI_PROVIDER_EFFECT_AMBIGUOUS'' False None"

text \<open>The first transaction: \<open>Some\<close> result is returned at once, \<open>None\<close> goes on to the dispatch.\<close>

definition reserve_effect ::
  "'s database \<Rightarrow> text_services \<Rightarrow> gateway_codecs \<Rightarrow> AIInvocationRequest \<Rightarrow> string \<Rightarrow> string \<Rightarrow> string \<Rightarrow> int
   \<Rightarrow> ('s, ProviderResult option) eff"
where
  "reserve_effect db tx cd r effect_key effect_type request_hash now =
     bnd (db_advisory_lock db effect_key) (\<lambda>_.
     bnd (tbl_get (db_effects db) (effect_key_of r effect_key)) (\<lambda>existing.
     case existing of
       Some row \<Rightarrow>
         if per_request_hash row \<noteq> request_hash \<or> per_effect_type row \<noteq> effect_type
         then raise (ValueError ''provider effect key payload conflict'')
         else if per_state row = ''completed'' \<and> per_result_payload row \<noteq> None
         then bnd (lift (cd_load_result cd (the (per_result_payload row)))) (\<lambda>x. ret (Some x))
         else if per_state row = ''failed'' \<and> per_result_payload row \<noteq> None
         then raise (stored_failure tx cd (the (per_result_payload row)))
         else if per_state row \<in> {''dispatching'', ''ambiguous''} then raise effect_ambiguous
         else ret None
     | None \<Rightarrow>
         bnd (first_row (tbl_select (db_invocations db) (\<lambda>row. gir_tenant_id row = rq_tenant_id r
                \<and> gir_workspace_id row = rq_workspace_id r
                \<and> gir_ai_invocation_id row = effect_invocation_id effect_type effect_key))) (\<lambda>found.
         case found of
           None \<Rightarrow> raise (RuntimeError ''provider effect requires a durable invocation'')
         | Some row \<Rightarrow>
             bnd (tbl_insert (db_effects db)
                    (effect_row r effect_key effect_type request_hash (gir_claim_generation row) now)) (\<lambda>_.
             ret None))))"

text \<open>The second transaction, the ambiguity fence: \<open>None\<close> lets the operation run.\<close>

definition this_effect :: "AIInvocationRequest \<Rightarrow> string \<Rightarrow> AIGatewayProviderEffectRow \<Rightarrow> bool" where
  "this_effect r effect_key row \<longleftrightarrow> per_tenant_id row = rq_tenant_id r \<and> per_workspace_id row = rq_workspace_id r
     \<and> per_effect_key row = effect_key"

definition dispatch_effect ::
  "'s database \<Rightarrow> gateway_codecs \<Rightarrow> AIInvocationRequest \<Rightarrow> string \<Rightarrow> int \<Rightarrow> ('s, ProviderResult option) eff" where
  "dispatch_effect db cd r effect_key now =
     bnd (db_advisory_lock db effect_key) (\<lambda>_.
     bnd (first_row (tbl_update (db_effects db) (\<lambda>row. this_effect r effect_key row \<and> per_state row = ''reserved'')
            (\<lambda>row. row\<lparr>per_state := ''dispatching'', per_dispatch_count := 1, per_dispatching_at := Some now\<rparr>))) (\<lambda>dispatched.
     case dispatched of
       Some _ \<Rightarrow> ret None
     | None \<Rightarrow>
         bnd (tbl_get (db_effects db) (effect_key_of r effect_key)) (\<lambda>current.
         case current of
           None \<Rightarrow> raise effect_ambiguous
         | Some row \<Rightarrow>
             if per_state row = ''completed'' \<and> per_result_payload row \<noteq> None
             then bnd (lift (cd_load_result cd (the (per_result_payload row)))) (\<lambda>x. ret (Some x))
             else raise effect_ambiguous)))"

definition fail_effect ::
  "('z services_scheme) database \<Rightarrow> AIInvocationRequest \<Rightarrow> string \<Rightarrow> string \<Rightarrow> ('z services_scheme, unit) eff" where
  "fail_effect db r effect_key payload =
     bnd clock_now (\<lambda>done_at.
     db_transaction db
       (bnd (tbl_update (db_effects db) (\<lambda>row. this_effect r effect_key row \<and> per_state row = ''dispatching'')
         (\<lambda>row. row\<lparr>per_state := ''failed'', per_result_payload := Some payload, per_completed_at := Some done_at\<rparr>)) (\<lambda>_.
       ret ())))"

definition complete_effect ::
  "('z services_scheme) database \<Rightarrow> AIInvocationRequest \<Rightarrow> string \<Rightarrow> string \<Rightarrow> ('z services_scheme, unit) eff" where
  "complete_effect db r effect_key payload =
     bnd clock_now (\<lambda>done_at.
     db_transaction db
       (bnd (tbl_update (db_effects db) (this_effect r effect_key)
         (\<lambda>row. row\<lparr>per_state := ''completed'', per_result_payload := Some payload, per_completed_at := Some done_at\<rparr>)) (\<lambda>_.
       ret ())))"

text \<open>What follows the operation: \<^verbatim>\<open>except ProviderFailure\<close> stores the failure and passes it on.\<close>

definition settle_effect ::
  "('z services_scheme) database \<Rightarrow> text_services \<Rightarrow> gateway_codecs \<Rightarrow> AIInvocationRequest \<Rightarrow> string
   \<Rightarrow> exn + ProviderResult \<Rightarrow> ('z services_scheme, ProviderResult) eff"
where
  "settle_effect db tx cd r effect_key answer = (case answer of
       Inl (ProviderFailure code retryable usg) \<Rightarrow>
         bnd (fail_effect db r effect_key (failure_payload tx cd code retryable usg)) (\<lambda>_.
         raise (ProviderFailure code retryable usg))
     | Inl e \<Rightarrow> raise e
     | Inr result \<Rightarrow>
         bnd (complete_effect db r effect_key (cd_dump_result cd result)) (\<lambda>_. ret result))"

definition effect_execute ::
  "('z services_scheme) database \<Rightarrow> text_services \<Rightarrow> gateway_codecs \<Rightarrow> AIInvocationRequest \<Rightarrow> string \<Rightarrow> string \<Rightarrow> string
   \<Rightarrow> ('z services_scheme, ProviderResult) eff \<Rightarrow> ('z services_scheme, ProviderResult) eff"
where
  "effect_execute db tx cd r effect_key effect_type request_hash operation =
     bnd clock_now (\<lambda>now.
     bnd (db_transaction db (reserve_effect db tx cd r effect_key effect_type request_hash now)) (\<lambda>known.
     case known of
       Some result \<Rightarrow> ret result
     | None \<Rightarrow>
         bnd (db_transaction db (dispatch_effect db cd r effect_key now)) (\<lambda>replayed.
         case replayed of
           Some result \<Rightarrow> ret result
         | None \<Rightarrow>
             bnd (catch (bnd operation (\<lambda>x. ret (Inr x))) (\<lambda>e. ret (Inl e))) (settle_effect db tx cd r effect_key))))"

section \<open>Callers, interleaved\<close>

text \<open>
  A caller is between two of the boundary's transactions, about to run the operation, or has left (returned,
  raised or died). \<open>advance\<close> takes one caller to its next such point.
\<close>

datatype phase = Calling | Reserved int | Dispatched | Answered "exn + ProviderResult" | Finished

record 's effect_call =
  ec_request :: AIInvocationRequest
  ec_key :: string
  ec_type :: string
  ec_hash :: string
  ec_operation :: "('s, ProviderResult) eff"

definition called_key :: "'s effect_call \<Rightarrow> scoped" where
  "called_key c = effect_key_of (ec_request c) (ec_key c)"

type_synonym 's callers = "'s \<times> (nat \<Rightarrow> phase) \<times> scoped list"

fun advance ::
  "('z services_scheme) database \<Rightarrow> text_services \<Rightarrow> gateway_codecs \<Rightarrow> (nat \<Rightarrow> ('z services_scheme) effect_call) \<Rightarrow> nat
   \<Rightarrow> ('z services_scheme) callers \<Rightarrow> ('z services_scheme) callers"
where
  "advance db tx cd calls w (s, ph, runs) = (let c = calls w in case ph w of
       Calling \<Rightarrow>
         (case bnd clock_now (\<lambda>now. bnd (db_transaction db
                 (reserve_effect db tx cd (ec_request c) (ec_key c) (ec_type c) (ec_hash c) now)) (\<lambda>known. ret (now, known))) s of
            (Inr (now, None), t) \<Rightarrow> (t, ph(w := Reserved now), runs)
          | (_, t) \<Rightarrow> (t, ph(w := Finished), runs))
     | Reserved now \<Rightarrow>
         (case db_transaction db (dispatch_effect db cd (ec_request c) (ec_key c) now) s of
            (Inr None, t) \<Rightarrow> (t, ph(w := Dispatched), runs)
          | (_, t) \<Rightarrow> (t, ph(w := Finished), runs))
     | Dispatched \<Rightarrow> (case ec_operation c s of (r, t) \<Rightarrow> (t, ph(w := Answered r), called_key c # runs))
     | Answered r \<Rightarrow> (snd (settle_effect db tx cd (ec_request c) (ec_key c) r s), ph(w := Finished), runs)
     | Finished \<Rightarrow> (s, ph, runs))"

inductive boundary_step ::
  "('z services_scheme) database \<Rightarrow> text_services \<Rightarrow> gateway_codecs \<Rightarrow> ('z services_scheme \<Rightarrow> database_tables)
   \<Rightarrow> (nat \<Rightarrow> ('z services_scheme) effect_call) \<Rightarrow> ('z services_scheme) callers \<Rightarrow> ('z services_scheme) callers \<Rightarrow> bool"
  for db tx cd tables calls
where
  Advance: "boundary_step db tx cd tables calls c (advance db tx cd calls w c)"
| Crash: "boundary_step db tx cd tables calls (s, ph, runs) (s, ph(w := Finished), runs)"
| Elsewhere: "t_effects (tables t) = t_effects (tables s) \<Longrightarrow>
    boundary_step db tx cd tables calls (s, ph, runs) (t, ph, runs)"

inductive_cases boundary_stepE: "boundary_step db tx cd tables calls c d"

text \<open>A caller left alone does what \<open>effect_execute\<close> does.\<close>

lemma execute_advances:
  "fst ((advance db tx cd calls w ^^ 4) (s, ph(w := Calling), runs)) =
   snd (effect_execute db tx cd (ec_request (calls w)) (ec_key (calls w)) (ec_type (calls w)) (ec_hash (calls w))
     (ec_operation (calls w)) s)"
  by (simp add: effect_execute_def effect_simps Let_def numeral_eq_Suc split: prod.splits sum.splits option.splits)

definition sample_codecs :: gateway_codecs where
  "sample_codecs = \<lparr>cd_dump_invocation = inv_invocation_id, cd_load_invocation = (\<lambda>_. Inl JSONDecodeError),
     cd_dump_result = prv_content,
     cd_load_result = (\<lambda>p. Inr \<lparr>prv_content = p, prv_usage = None, prv_confidence = Dec 1 0\<rparr>),
     cd_dump_usage = (\<lambda>_. ''{}''), cd_usage_value = (\<lambda>_. PNone), cd_value_usage = (\<lambda>_. Inl JSONDecodeError),
     cd_dump_cache = cc_content, cd_load_cache = (\<lambda>_. Inl JSONDecodeError), cd_str = (\<lambda>v. case v of PStr s \<Rightarrow> s | _ \<Rightarrow> [])\<rparr>"

section \<open>Durable payloads\<close>

lemma map_schema_forms:
  "list_all (\<lambda>p. governed_value (snd p)) (map_schema governed_json d)"
  "list_all (\<lambda>p. governed_value (snd p)) d \<Longrightarrow> map_schema governed_json (map_schema storage_json d) = d"
proof -
  show "list_all (\<lambda>p. governed_value (snd p)) (map_schema governed_json d)"
    by (auto simp: map_schema_def list_all_iff json_forms)
  show "map_schema governed_json (map_schema storage_json d) = d" if "list_all (\<lambda>p. governed_value (snd p)) d"
    unfolding map_schema_def map_map by (rule map_idI) (use that in \<open>auto simp: list_all_iff governed_storage\<close>)
qed

text \<open>An invocation whose output schema has tuples for sequences is read back exactly as it was written, provided the
  serializer restores what it was given, a plain JSON form of the invocation.\<close>

theorem durable_payload_roundtrip:
  assumes "cd_load_invocation cd (cd_dump_invocation cd (stored_form v)) = Inr (stored_form v)" "governed_schema_of v"
  shows "load_payload cd (dump_invocation cd v) = Inr v"
proof (cases "rq_output_schema (inv_request v)")
  case None
  with assms show ?thesis by (simp add: load_payload_def dump_invocation_def stored_form_def)
next
  case (Some d)
  have "v\<lparr>inv_request := (inv_request v)\<lparr>rq_output_schema := Some d\<rparr>\<rparr> = v"
    unfolding Some [symmetric] by simp
  with assms Some show ?thesis
    by (simp add: load_payload_def dump_invocation_def stored_form_def governed_schema_of_def map_schema_forms)
qed

text \<open>A request with a schema whose \<^verbatim>\<open>required\<close> is a tuple.\<close>

definition schema_invocation :: GatewayInvocation where
  "schema_invocation = new_invocation
     (sample_request\<lparr>rq_output_schema := Some [(''required'', PTuple [PStr ''task_kind''])]\<rparr>) ''ai1'' sample_ack 0"

definition schema_codecs :: gateway_codecs where
  "schema_codecs = sample_codecs\<lparr>cd_load_invocation := (\<lambda>_. Inr (stored_form schema_invocation))\<rparr>"

theorem durable_payload_roundtrip_witness:
  "load_payload schema_codecs (dump_invocation schema_codecs schema_invocation) = Inr schema_invocation"
  by (rule durable_payload_roundtrip)
    (simp_all add: schema_codecs_def governed_schema_of_def schema_invocation_def new_invocation_def)

end
