(* ===== verification/Durable_Gateway.thy ===== *)
theory Durable_Gateway
  imports Durable_Effects Gateway_Execution
begin

text \<open>
  \<^verbatim>\<open>PostgresAIGatewayStore\<close> (\<^verbatim>\<open>adapters/persistence_postgres/.../ai_gateway.py\<close>): the Gateway store over the
  database. The tables are the authority; the fields of the reference store it inherits (\<open>invocations\<close>,
  \<open>reservations\<close>, \<open>usage_ledger\<close>) are this process's copies. An invocation a worker holds is a copy
  too, so the operations that persist it take it as an argument.
\<close>

section \<open>Invocations, claims and fencing\<close>

definition unit_separator :: string where
  "unit_separator = [CHR 0x1F]"

definition pg_scope_key :: "AIInvocationRequest \<Rightarrow> string" where
  "pg_scope_key r = join unit_separator [rq_tenant_id r, rq_workspace_id r, rq_idempotency_key r]"

definition hold_invocation :: "string \<Rightarrow> GatewayInvocation \<Rightarrow> ('z gateway_state_scheme, unit) eff" where
  "hold_invocation i v = upd (\<lambda>s. s\<lparr>invocations := od_put i v (invocations s)\<rparr>)"

definition new_invocation_row ::
  "text_services \<Rightarrow> AIInvocationRequest \<Rightarrow> string \<Rightarrow> string \<Rightarrow> int \<Rightarrow> AIGatewayInvocationRow" where
  "new_invocation_row tx r i payload now =
     \<lparr>gir_tenant_id = rq_tenant_id r, gir_workspace_id = rq_workspace_id r, gir_ai_invocation_id = i,
      gir_idempotency_key = rq_idempotency_key r, gir_intent_fingerprint = request_digest tx r,
      gir_state = ''Requested'', gir_request_payload = payload, gir_acknowledgement_payload = payload,
      gir_route_payload = None, gir_terminal_payload = None, gir_terminal_result_id = None, gir_terminal_error_id = None,
      gir_execution_owner = None, gir_execution_lease_expires_at = None, gir_claim_generation = 0,
      gir_recovery_phase = ''accepted'', gir_terminal_intent_payload = None, gir_terminal_intent_owner = None,
      gir_terminal_intent_generation = None, gir_accepted_at = now, gir_updated_at = now\<rparr>"

definition accept_transaction ::
  "('z gateway_state_scheme) database \<Rightarrow> text_services \<Rightarrow> gateway_codecs \<Rightarrow> AIInvocationRequest \<Rightarrow> AIGatewayInvocationRow
   \<Rightarrow> ('z gateway_state_scheme, Acceptance option) eff"
where
  "accept_transaction db tx cd r candidate =
     bnd (db_advisory_lock db (pg_scope_key r)) (\<lambda>_.
     bnd (first_row (tbl_select (db_invocations db) (\<lambda>row. gir_tenant_id row = rq_tenant_id r
            \<and> gir_workspace_id row = rq_workspace_id r \<and> gir_idempotency_key row = rq_idempotency_key r))) (\<lambda>existing.
     case existing of
       Some row \<Rightarrow>
         if gir_intent_fingerprint row \<noteq> request_digest tx r
         then raise (ValueError ''IdempotencyKey payload conflict'')
         else bnd (lift (load_payload cd (gir_request_payload row))) (\<lambda>recovered.
              bnd (hold_invocation (inv_invocation_id recovered) recovered) (\<lambda>_.
              ret (Some \<lparr>acc_ai_invocation_id = inv_invocation_id recovered,
                         acc_acknowledgement = inv_acknowledgement recovered, acc_replay = True\<rparr>)))
     | None \<Rightarrow> bnd (tbl_insert (db_invocations db) candidate) (\<lambda>_. ret None)))"

definition pg_accept ::
  "('z gateway_state_scheme) database \<Rightarrow> text_services \<Rightarrow> gateway_codecs \<Rightarrow> AIInvocationRequest \<Rightarrow> string \<Rightarrow> ResultEnvelope
   \<Rightarrow> int \<Rightarrow> ('z gateway_state_scheme, Acceptance) eff"
where
  "pg_accept db tx cd r i acknowledgement now =
     (let candidate = new_invocation r i acknowledgement now in
      bnd (db_transaction db
        (accept_transaction db tx cd r (new_invocation_row tx r i (dump_invocation cd candidate) now))) (\<lambda>replayed.
      case replayed of
        Some acceptance \<Rightarrow> ret acceptance
      | None \<Rightarrow>
          bnd (hold_invocation i candidate) (\<lambda>_.
          ret \<lparr>acc_ai_invocation_id = i, acc_acknowledgement = acknowledgement, acc_replay = False\<rparr>)))"

definition restored_invocation :: "gateway_codecs \<Rightarrow> AIGatewayInvocationRow \<Rightarrow> exn + GatewayInvocation" where
  "restored_invocation cd row =
     ebind (load_payload cd (gir_request_payload row)) (\<lambda>v.
     let v = (if gir_terminal_payload row = None then v\<lparr>inv_terminal := None\<rparr> else v) in
     ebind (case gir_terminal_intent_payload row of
              None \<Rightarrow> Inr v
            | Some payload \<Rightarrow>
                ebind (load_payload cd payload) (\<lambda>intended. Inr (v\<lparr>
                  inv_terminal_intent := (case inv_terminal_intent intended of
                     None \<Rightarrow> inv_terminal intended | Some t \<Rightarrow> Some t),
                  inv_recovery_phase := gir_recovery_phase row\<rparr>))) (\<lambda>v.
     Inr (v\<lparr>inv_execution_owner := gir_execution_owner row,
            inv_execution_lease_expires_at := gir_execution_lease_expires_at row,
            inv_claim_generation := gir_claim_generation row\<rparr>)))"

definition pg_load ::
  "('z gateway_state_scheme) database \<Rightarrow> gateway_codecs \<Rightarrow> string \<Rightarrow> ('z gateway_state_scheme, GatewayInvocation) eff" where
  "pg_load db cd i =
     bnd (db_transaction db (first_row (tbl_select (db_invocations db) (\<lambda>row. gir_ai_invocation_id row = i)))) (\<lambda>found.
     case found of
       None \<Rightarrow> raise (KeyError i)
     | Some row \<Rightarrow>
         bnd (lift (restored_invocation cd row)) (\<lambda>v.
         bnd (hold_invocation i v) (\<lambda>_. ret v)))"

definition claimable :: "string \<Rightarrow> string \<Rightarrow> int \<Rightarrow> AIGatewayInvocationRow \<Rightarrow> bool" where
  "claimable i owner now row \<longleftrightarrow> gir_ai_invocation_id row = i \<and> gir_terminal_payload row = None
     \<and> (gir_execution_owner row = None \<or> gir_execution_owner row = Some owner
        \<or> (case gir_execution_lease_expires_at row of None \<Rightarrow> False | Some e \<Rightarrow> e \<le> now))"

definition pg_claim_execution ::
  "('z gateway_state_scheme) database \<Rightarrow> gateway_codecs \<Rightarrow> string \<Rightarrow> string \<Rightarrow> int \<Rightarrow> int
   \<Rightarrow> ('z gateway_state_scheme, int option) eff"
where
  "pg_claim_execution db cd i owner now lease =
     bnd (db_transaction db (first_row (tbl_update (db_invocations db) (claimable i owner now)
            (\<lambda>row. row\<lparr>gir_execution_owner := Some owner, gir_execution_lease_expires_at := Some (now + lease),
                       gir_claim_generation := gir_claim_generation row + 1, gir_recovery_phase := ''claimed'',
                       gir_updated_at := now\<rparr>)))) (\<lambda>claimed.
     case claimed of
       None \<Rightarrow> ret None
     | Some row \<Rightarrow>
         bnd (lift (load_payload cd (gir_request_payload row))) (\<lambda>v.
         bnd (hold_invocation i (v\<lparr>inv_execution_owner := gir_execution_owner row,
                inv_execution_lease_expires_at := gir_execution_lease_expires_at row,
                inv_claim_generation := gir_claim_generation row, inv_recovery_phase := gir_recovery_phase row\<rparr>)) (\<lambda>_.
         ret (Some (gir_claim_generation row)))))"

text \<open>The rows of an invocation that a claim still owns.\<close>

definition owned_row :: "string \<Rightarrow> string \<Rightarrow> int \<Rightarrow> AIGatewayInvocationRow \<Rightarrow> bool" where
  "owned_row i owner generation row \<longleftrightarrow> gir_ai_invocation_id row = i \<and> gir_execution_owner row = Some owner
     \<and> gir_claim_generation row = generation"

definition pg_release_execution ::
  "('z gateway_state_scheme) database \<Rightarrow> string \<Rightarrow> string \<Rightarrow> int \<Rightarrow> ('z gateway_state_scheme, unit) eff" where
  "pg_release_execution db i owner generation =
     db_transaction db (bnd (tbl_update (db_invocations db) (owned_row i owner generation)
       (\<lambda>row. row\<lparr>gir_execution_owner := None, gir_execution_lease_expires_at := None\<rparr>)) (\<lambda>_. ret ()))"

definition pg_renew_execution ::
  "('z gateway_state_scheme) database \<Rightarrow> string \<Rightarrow> string \<Rightarrow> int \<Rightarrow> int \<Rightarrow> int \<Rightarrow> ('z gateway_state_scheme, bool) eff" where
  "pg_renew_execution db i owner generation now lease =
     bnd (db_transaction db (tbl_update (db_invocations db)
            (\<lambda>row. owned_row i owner generation row \<and> gir_terminal_payload row = None)
            (\<lambda>row. row\<lparr>gir_execution_lease_expires_at := Some (now + lease), gir_updated_at := now\<rparr>))) (\<lambda>changed.
     ret (length changed = 1))"

text \<open>The fencing query, in the transaction of the write it protects.\<close>

definition pg_fence :: "'s database \<Rightarrow> string \<Rightarrow> string \<Rightarrow> int \<Rightarrow> string \<Rightarrow> ('s, unit) eff" where
  "pg_fence db i owner generation message =
     bnd (first_row (tbl_select (db_invocations db) (owned_row i owner generation))) (\<lambda>current.
     guard (current \<noteq> None) (ExecutionOwnershipLost message))"

definition pg_fence_option :: "'s database \<Rightarrow> string \<Rightarrow> (string \<times> int) option \<Rightarrow> string \<Rightarrow> ('s, unit) eff" where
  "pg_fence_option db i claim message = (case claim of
       None \<Rightarrow> ret ()
     | Some (owner, generation) \<Rightarrow> pg_fence db i owner generation message)"

definition pg_assert_execution_owner ::
  "('z gateway_state_scheme) database \<Rightarrow> string \<Rightarrow> string \<Rightarrow> int \<Rightarrow> ('z gateway_state_scheme, unit) eff" where
  "pg_assert_execution_owner db i owner generation =
     bnd (db_transaction db (first_row (tbl_select (db_invocations db) (owned_row i owner generation)))) (\<lambda>current.
     guard (current \<noteq> None) (ExecutionOwnershipLost ''AI Gateway execution ownership was lost''))"

text \<open>
  \<^verbatim>\<open>wait_for_terminal\<close> polls: \<open>loop_time\<close> reads the event loop's clock and \<open>pause\<close> is
  \<^verbatim>\<open>asyncio.sleep(0.01)\<close>, during which other tasks run. It returns \<open>None\<close> if it never ends.
\<close>

partial_function (option) pg_poll ::
  "('z gateway_state_scheme) database \<Rightarrow> gateway_codecs \<Rightarrow> ('z gateway_state_scheme, int) eff \<Rightarrow> ('z gateway_state_scheme, unit) eff
   \<Rightarrow> int \<Rightarrow> string \<Rightarrow> 'z gateway_state_scheme \<Rightarrow> ((exn + AIInvocationResponse) \<times> 'z gateway_state_scheme) option"
where
  "pg_poll db cd loop_time pause deadline i s = (case loop_time s of
       (Inl e, t) \<Rightarrow> Some (Inl e, t)
     | (Inr now, t) \<Rightarrow>
         if \<not> now < deadline then Some (Inl (RuntimeError ''execution lease ended without terminal outcome''), t)
         else (case pg_load db cd i t of
             (Inl e, u) \<Rightarrow> Some (Inl e, u)
           | (Inr v, u) \<Rightarrow>
               (case inv_terminal v of
                  Some response \<Rightarrow> Some (Inr response, u)
                | None \<Rightarrow>
                    (case pause u of
                       (Inl e, w) \<Rightarrow> Some (Inl e, w)
                     | (Inr _, w) \<Rightarrow> pg_poll db cd loop_time pause deadline i w))))"

definition pg_wait_for_terminal ::
  "('z gateway_state_scheme) database \<Rightarrow> gateway_codecs \<Rightarrow> ('z gateway_state_scheme, int) eff \<Rightarrow> ('z gateway_state_scheme, unit) eff
   \<Rightarrow> int \<Rightarrow> string \<Rightarrow> 'z gateway_state_scheme \<Rightarrow> ((exn + AIInvocationResponse) \<times> 'z gateway_state_scheme) option"
where
  "pg_wait_for_terminal db cd loop_time pause wait_limit i s = (case loop_time s of
       (Inl e, t) \<Rightarrow> Some (Inl e, t)
     | (Inr now, t) \<Rightarrow> pg_poll db cd loop_time pause (now + wait_limit) i t)"

text \<open>\<^verbatim>\<open>column == None\<close> is \<^verbatim>\<open>IS NULL\<close>, so the owners compare as options.\<close>

definition same_invocation :: "GatewayInvocation \<Rightarrow> AIGatewayInvocationRow \<Rightarrow> bool" where
  "same_invocation v row \<longleftrightarrow> gir_tenant_id row = rq_tenant_id (inv_request v)
     \<and> gir_workspace_id row = rq_workspace_id (inv_request v) \<and> gir_ai_invocation_id row = inv_invocation_id v
     \<and> gir_execution_owner row = inv_execution_owner v \<and> gir_claim_generation row = inv_claim_generation v"

definition checkpointed_row :: "string \<Rightarrow> GatewayInvocation \<Rightarrow> int \<Rightarrow> AIGatewayInvocationRow \<Rightarrow> AIGatewayInvocationRow" where
  "checkpointed_row encoded v now row = row\<lparr>
     gir_state := invocation_state_value (inv_state v), gir_request_payload := encoded,
     gir_route_payload := (if inv_route v \<noteq> None then Some encoded else None),
     gir_terminal_payload := (if inv_terminal v \<noteq> None then Some encoded else None),
     gir_terminal_result_id := map_option (\<lambda>t. res_result_id (rsp_result t)) (inv_terminal v),
     gir_terminal_error_id := (case inv_terminal v of
        None \<Rightarrow> None | Some t \<Rightarrow> map_option err_error_id (rsp_error t)),
     gir_updated_at := now,
     gir_recovery_phase := (if inv_terminal v \<noteq> None then ''terminalized'' else inv_recovery_phase v)\<rparr>"

definition pg_checkpoint ::
  "('z gateway_state_scheme) database \<Rightarrow> gateway_codecs \<Rightarrow> GatewayInvocation \<Rightarrow> ('z gateway_state_scheme, unit) eff" where
  "pg_checkpoint db cd v =
     bnd (db_transaction db
       (bnd clock_now (\<lambda>now.
        bnd (tbl_update (db_invocations db) (same_invocation v) (checkpointed_row (dump_invocation cd v) v now)) (\<lambda>changed.
        guard (length changed = 1) (RuntimeError ''AI Gateway persistence checkpoint failed''))))) (\<lambda>_.
     hold_invocation (inv_invocation_id v) v)"

definition intent_open :: "string \<Rightarrow> GatewayInvocation \<Rightarrow> AIGatewayInvocationRow \<Rightarrow> bool" where
  "intent_open encoded v row \<longleftrightarrow> same_invocation v row \<and> gir_terminal_payload row = None
     \<and> (gir_terminal_intent_payload row = None \<or> gir_terminal_intent_payload row = Some encoded)"

definition pg_checkpoint_terminal_intent ::
  "('z gateway_state_scheme) database \<Rightarrow> gateway_codecs \<Rightarrow> GatewayInvocation \<Rightarrow> ('z gateway_state_scheme, unit) eff" where
  "pg_checkpoint_terminal_intent db cd v =
     (if inv_execution_owner v = None \<or> inv_claim_generation v \<le> 0
      then raise (ExecutionOwnershipLost ''terminal intent requires execution ownership'')
      else let encoded = dump_invocation cd v in
        db_transaction db
          (bnd clock_now (\<lambda>now.
           bnd (tbl_update (db_invocations db) (intent_open encoded v)
                  (\<lambda>row. row\<lparr>gir_request_payload := encoded, gir_terminal_intent_payload := Some encoded,
                     gir_terminal_intent_owner := inv_execution_owner v,
                     gir_terminal_intent_generation := Some (inv_claim_generation v),
                     gir_recovery_phase := ''terminalization_pending'', gir_updated_at := now\<rparr>)) (\<lambda>changed.
           guard (length changed = 1) (ExecutionOwnershipLost ''stale terminal intent was fenced'')))))"

section \<open>Budget rows\<close>

definition held_row :: "AIGatewayBudgetRow \<Rightarrow> bool" where
  "held_row row \<longleftrightarrow> gbr_state row \<in> {''pending'', ''committed'', ''usage_pending''}"

definition budget_lock_key :: "string \<Rightarrow> string \<Rightarrow> string" where
  "budget_lock_key tenant workspace = join unit_separator [tenant, workspace, ''budget'']"

definition allocation_payload :: "decimal \<Rightarrow> decimal \<Rightarrow> string" where
  "allocation_payload tlimit wlimit =
     [CHR ''{'', CHR 0x22] @ ''levels'' @ [CHR 0x22, CHR '':'', CHR ''['', CHR 0x22] @ ''tenant''
     @ [CHR 0x22, CHR '','', CHR 0x22] @ ''workspace'' @ [CHR 0x22, CHR '']'', CHR '','', CHR 0x22] @ ''tenant_limit''
     @ [CHR 0x22, CHR '':'', CHR 0x22] @ decimal_str tlimit @ [CHR 0x22, CHR '','', CHR 0x22] @ ''workspace_limit''
     @ [CHR 0x22, CHR '':'', CHR 0x22] @ decimal_str wlimit @ [CHR 0x22, CHR ''}'']"

text \<open>\<^verbatim>\<open>now.replace(microsecond=0) + timedelta(minutes=5)\<close>\<close>

definition reservation_expiry :: "int \<Rightarrow> int" where
  "reservation_expiry now = now div 1000000 * 1000000 + 300000000"

definition new_budget_row ::
  "string \<Rightarrow> string \<Rightarrow> string \<Rightarrow> decimal \<Rightarrow> string option \<Rightarrow> decimal \<Rightarrow> decimal \<Rightarrow> int \<Rightarrow> AIGatewayBudgetRow" where
  "new_budget_row i tenant workspace amount pricing tlimit wlimit expires =
     \<lparr>gbr_tenant_id = tenant, gbr_workspace_id = workspace, gbr_ai_invocation_id = i, gbr_reserved_amount = amount,
      gbr_actual_amount = None, gbr_state = ''pending'', gbr_usage_payload = None, gbr_pricing_version = pricing,
      gbr_pricing_payload = None, gbr_allocation_payload = Some (allocation_payload tlimit wlimit),
      gbr_expires_at = expires, gbr_reconciled_at = None, gbr_released_at = None, gbr_release_reason = None\<rparr>"

definition within_limits :: "decimal \<Rightarrow> decimal \<Rightarrow> decimal list \<Rightarrow> decimal list \<Rightarrow> decimal \<Rightarrow> exn + unit" where
  "within_limits tlimit wlimit tenant_rows workspace_rows amount =
     (if tlimit < dec_sum tenant_rows + amount then Inl (ValueError ''hard budget exceeded'')
      else if wlimit < dec_sum workspace_rows + amount then Inl (ValueError ''workspace hard budget exceeded'')
      else Inr ())"

definition tenant_held :: "string \<Rightarrow> AIGatewayBudgetRow \<Rightarrow> bool" where
  "tenant_held tenant row \<longleftrightarrow> gbr_tenant_id row = tenant \<and> held_row row"

definition workspace_held :: "string \<Rightarrow> string \<Rightarrow> AIGatewayBudgetRow \<Rightarrow> bool" where
  "workspace_held tenant workspace row \<longleftrightarrow> gbr_tenant_id row = tenant \<and> gbr_workspace_id row = workspace \<and> held_row row"

definition reservation_of_row :: "string \<Rightarrow> AIGatewayBudgetRow \<Rightarrow> GatewayReservation" where
  "reservation_of_row i row =
     \<lparr>rsv_invocation_id = i, rsv_tenant_id = gbr_tenant_id row, rsv_workspace_id = gbr_workspace_id row,
      rsv_amount = gbr_reserved_amount row, rsv_state = gbr_state row, rsv_expires_at = gbr_expires_at row,
      rsv_actual = gbr_actual_amount row\<rparr>"

definition pg_reserve ::
  "('z gateway_state_scheme) database \<Rightarrow> string \<Rightarrow> string \<Rightarrow> string \<Rightarrow> decimal \<Rightarrow> int \<Rightarrow> string option
   \<Rightarrow> ('z gateway_state_scheme, GatewayReservation) eff"
where
  "pg_reserve db i tenant workspace amount now pricing =
     bnd (asks tenant_limit) (\<lambda>tlimit.
     bnd (asks workspace_limit) (\<lambda>wlimit.
     bnd (db_transaction db
       (bnd (db_advisory_lock db (budget_lock_key tenant workspace)) (\<lambda>_.
        bnd (tbl_get (db_budgets db) (Scoped tenant workspace i)) (\<lambda>existing.
        case existing of
          None \<Rightarrow>
            bnd (tbl_select (db_budgets db) (tenant_held tenant)) (\<lambda>tenant_rows.
            bnd (tbl_select (db_budgets db) (workspace_held tenant workspace)) (\<lambda>workspace_rows.
            bnd (lift (within_limits tlimit wlimit (map gbr_reserved_amount tenant_rows)
                   (map gbr_reserved_amount workspace_rows) amount)) (\<lambda>_.
            let row = new_budget_row i tenant workspace amount pricing tlimit wlimit (reservation_expiry now) in
            bnd (tbl_insert (db_budgets db) row) (\<lambda>_. ret row))))
        | Some row \<Rightarrow> ret row)))) (\<lambda>row.
     let reservation = reservation_of_row i (row\<lparr>gbr_tenant_id := tenant, gbr_workspace_id := workspace\<rparr>) in
     bnd (upd (\<lambda>s. s\<lparr>reservations := od_put i reservation (reservations s)\<rparr>)) (\<lambda>_. ret reservation))))"

section \<open>Usage ledger\<close>

definition invocation_budget :: "GatewayInvocation \<Rightarrow> string \<Rightarrow> AIGatewayBudgetRow \<Rightarrow> bool" where
  "invocation_budget v i row \<longleftrightarrow> gbr_tenant_id row = rq_tenant_id (inv_request v)
     \<and> gbr_workspace_id row = rq_workspace_id (inv_request v) \<and> gbr_ai_invocation_id row = i"

definition invocation_usage :: "GatewayInvocation \<Rightarrow> string \<Rightarrow> AIGatewayUsageLedgerRow \<Rightarrow> bool" where
  "invocation_usage v i row \<longleftrightarrow> gur_tenant_id row = rq_tenant_id (inv_request v)
     \<and> gur_workspace_id row = rq_workspace_id (inv_request v) \<and> gur_ai_invocation_id row = i"

definition new_usage_row ::
  "GatewayInvocation \<Rightarrow> string \<Rightarrow> string \<Rightarrow> int option \<Rightarrow> string \<Rightarrow> string \<Rightarrow> decimal \<Rightarrow> bool \<Rightarrow> int \<Rightarrow> AIGatewayUsageLedgerRow" where
  "new_usage_row v i event_key attempt_nr kind payload cost is_final now =
     \<lparr>gur_tenant_id = rq_tenant_id (inv_request v), gur_workspace_id = rq_workspace_id (inv_request v),
      gur_ai_invocation_id = i, gur_usage_event_key = event_key, gur_attempt_number = attempt_nr, gur_kind = kind,
      gur_usage_payload = payload, gur_cost_amount = cost, gur_final = is_final, gur_observed_at = now\<rparr>"

definition settled_budget :: "decimal \<Rightarrow> bool \<Rightarrow> string \<Rightarrow> int \<Rightarrow> AIGatewayBudgetRow \<Rightarrow> AIGatewayBudgetRow" where
  "settled_budget cumulative is_final payload now row = row\<lparr>
     gbr_actual_amount := Some cumulative, gbr_state := (if is_final then ''committed'' else ''usage_pending''),
     gbr_usage_payload := Some payload, gbr_reconciled_at := (if is_final then Some now else None)\<rparr>"

text \<open>The transaction of \<^verbatim>\<open>record_usage\<close>: it returns the cumulative cost.\<close>

definition usage_transaction ::
  "'s database \<Rightarrow> gateway_codecs \<Rightarrow> GatewayInvocation \<Rightarrow> string \<Rightarrow> AIUsage \<Rightarrow> decimal \<Rightarrow> string \<Rightarrow> string \<Rightarrow> bool
   \<Rightarrow> int option \<Rightarrow> (string \<times> int) option \<Rightarrow> int \<Rightarrow> ('s, decimal) eff"
where
  "usage_transaction db cd v i usg cost event_key kind is_final attempt_nr claim now =
     (let charge = \<lambda>cost.
        bnd (tbl_insert_missing (db_usage db) (new_usage_row v i event_key attempt_nr kind (cd_dump_usage cd usg) cost is_final now)) (\<lambda>_.
        bnd (tbl_sum (db_usage db) (invocation_usage v i) gur_cost_amount) (\<lambda>cumulative.
        case cumulative of
          None \<Rightarrow> raise (RuntimeError ''AI Gateway usage reconciliation failed'')
        | Some spent \<Rightarrow>
            bnd (tbl_update (db_budgets db) (invocation_budget v i)
                   (settled_budget spent is_final (cd_dump_usage cd usg) now)) (\<lambda>_. ret spent)))
      in bnd (pg_fence_option db i claim ''stale accounting write was fenced'') (\<lambda>_.
         if kind = ''provider_partial''
         then bnd (tbl_sum (db_usage db) (invocation_usage v i) gur_cost_amount) (\<lambda>recorded.
              charge (dec_max 0 (cost - dec_or recorded 0)))
         else charge cost))"

definition pg_record_usage ::
  "('z gateway_state_scheme) database \<Rightarrow> gateway_codecs \<Rightarrow> string \<Rightarrow> AIUsage \<Rightarrow> decimal \<Rightarrow> string \<Rightarrow> string \<Rightarrow> bool
   \<Rightarrow> int option \<Rightarrow> (string \<times> int) option \<Rightarrow> ('z gateway_state_scheme, unit) eff"
where
  "pg_record_usage db cd i usg cost event_key kind is_final attempt_nr claim =
     bnd (pg_load db cd i) (\<lambda>v.
     bnd clock_now (\<lambda>now.
     bnd (db_transaction db (usage_transaction db cd v i usg cost event_key kind is_final attempt_nr claim now)) (\<lambda>cumulative.
     upd (\<lambda>s. s\<lparr>reservations := (case map_of (reservations s) i of
                   None \<Rightarrow> reservations s
                 | Some r \<Rightarrow> od_put i (r\<lparr>rsv_state := (if is_final then ''committed'' else ''usage_pending''),
                              rsv_actual := Some cumulative\<rparr>) (reservations s)),
                usage_ledger := od_put i usg (usage_ledger s)\<rparr>))))"

definition pg_reconcile ::
  "('z gateway_state_scheme) database \<Rightarrow> gateway_codecs \<Rightarrow> string \<Rightarrow> decimal \<Rightarrow> AIUsage \<Rightarrow> (string \<times> int) option
   \<Rightarrow> ('z gateway_state_scheme, unit) eff"
where
  "pg_reconcile db cd i actual usg claim =
     bnd (pg_load db cd i) (\<lambda>v.
     bnd (db_transaction db (tbl_get (db_budgets db)
            (Scoped (rq_tenant_id (inv_request v)) (rq_workspace_id (inv_request v)) i))) (\<lambda>budget.
     let recorded = (case budget of None \<Rightarrow> Some 0 | Some row \<Rightarrow> gbr_actual_amount row) in
     pg_record_usage db cd i usg (dec_max 0 (actual - dec_or recorded 0)) ''terminal-reconciliation''
       (if \<not> estimated usg then ''actual'' else ''estimated'') True None claim))"

definition pg_pending_reconciliation :: "'s database \<Rightarrow> ('s, string list) eff" where
  "pg_pending_reconciliation db =
     db_transaction db
       (bnd (tbl_select (db_budgets db) (\<lambda>row. gbr_state row \<in> {''pending'', ''usage_pending''})) (\<lambda>found.
        ret (sort (map gbr_ai_invocation_id found))))"

definition pg_release ::
  "('z gateway_state_scheme) database \<Rightarrow> gateway_codecs \<Rightarrow> string \<Rightarrow> string \<Rightarrow> ('z gateway_state_scheme, unit) eff" where
  "pg_release db cd i state =
     bnd (pg_load db cd i) (\<lambda>v.
     bnd (db_transaction db
       (bnd clock_now (\<lambda>now.
        bnd (tbl_update (db_budgets db) (\<lambda>row. invocation_budget v i row \<and> gbr_state row = ''pending'')
          (\<lambda>row. row\<lparr>gbr_state := state, gbr_released_at := Some now, gbr_release_reason := Some state\<rparr>)) (\<lambda>_.
        ret ())))) (\<lambda>_.
     release_reservation i state))"

definition expired_row :: "int \<Rightarrow> AIGatewayBudgetRow \<Rightarrow> bool" where
  "expired_row now row \<longleftrightarrow> gbr_state row = ''pending'' \<and> gbr_expires_at row \<le> now"

fun flush_rows :: "('r \<Rightarrow> ('s, unit) eff) \<Rightarrow> 'r list \<Rightarrow> ('s, unit) eff" where
  "flush_rows f [] = ret ()"
| "flush_rows f (r # rs) = bnd (f r) (\<lambda>_. flush_rows f rs)"

definition expire_local :: "string \<Rightarrow> ('z gateway_state_scheme, unit) eff" where
  "expire_local i = upd (\<lambda>s. s\<lparr>reservations := (case map_of (reservations s) i of
       None \<Rightarrow> reservations s | Some r \<Rightarrow> od_put i (r\<lparr>rsv_state := ''expired''\<rparr>) (reservations s))\<rparr>)"

definition pg_release_expired ::
  "('z gateway_state_scheme) database \<Rightarrow> int \<Rightarrow> ('z gateway_state_scheme, string list) eff" where
  "pg_release_expired db now =
     bnd (db_transaction db
       (bnd (tbl_select (db_budgets db) (expired_row now)) (\<lambda>found.
        bnd (flush_rows (\<lambda>row. tbl_flush (db_budgets db) (row\<lparr>gbr_state := ''expired'', gbr_released_at := Some now,
               gbr_release_reason := Some ''expired''\<rparr>)) found) (\<lambda>_.
        ret found)))) (\<lambda>found.
     bnd (flush_rows (\<lambda>row. expire_local (gbr_ai_invocation_id row)) found) (\<lambda>_.
     ret (map gbr_ai_invocation_id found)))"

section \<open>Attempts and provider effects\<close>

definition new_attempt_row ::
  "GatewayInvocation \<Rightarrow> string \<Rightarrow> int \<Rightarrow> string \<Rightarrow> string \<Rightarrow> string \<Rightarrow> int \<Rightarrow> AIGatewayAttemptRow" where
  "new_attempt_row v i n model adapter state now =
     \<lparr>gar_tenant_id = rq_tenant_id (inv_request v), gar_workspace_id = rq_workspace_id (inv_request v),
      gar_ai_invocation_id = i, gar_attempt_number = n, gar_model_key = model, gar_adapter_key = adapter,
      gar_state = state, gar_usage_payload = None, gar_cost_amount = None, gar_effect_reference = None,
      gar_result_payload = None, gar_recorded_at = now\<rparr>"

definition pg_record_attempt ::
  "('z gateway_state_scheme) database \<Rightarrow> gateway_codecs \<Rightarrow> string \<Rightarrow> int \<Rightarrow> string \<Rightarrow> string \<Rightarrow> AIUsage option \<Rightarrow> decimal
   \<Rightarrow> ('z gateway_state_scheme, unit) eff"
where
  "pg_record_attempt db cd i n model state usg cost =
     bnd (pg_load db cd i) (\<lambda>v.
     let adapter = (case inv_route v of None \<Rightarrow> ''unresolved'' | Some route \<Rightarrow> rt_adapter_key route);
         payload = map_option (cd_dump_usage cd) usg in
     db_transaction db
       (bnd clock_now (\<lambda>now.
        bnd (tbl_upsert (db_attempts db)
               ((new_attempt_row v i n model adapter state now)\<lparr>gar_usage_payload := payload, gar_cost_amount := Some cost\<rparr>)
               (\<lambda>_. True)
               (\<lambda>row. row\<lparr>gar_state := state, gar_usage_payload := payload, gar_cost_amount := Some cost\<rparr>)) (\<lambda>_.
        ret ()))))"

definition pg_load_provider_effect ::
  "('z gateway_state_scheme) database \<Rightarrow> gateway_codecs \<Rightarrow> string \<Rightarrow> string \<Rightarrow> ('z gateway_state_scheme, ProviderResult option) eff" where
  "pg_load_provider_effect db cd i effect_key =
     bnd (pg_load db cd i) (\<lambda>v.
     bnd (db_transaction db (first_row (tbl_select (db_attempts db) (\<lambda>row.
            gar_tenant_id row = rq_tenant_id (inv_request v) \<and> gar_workspace_id row = rq_workspace_id (inv_request v)
            \<and> gar_ai_invocation_id row = i \<and> gar_effect_reference row = Some effect_key
            \<and> gar_result_payload row \<noteq> None)))) (\<lambda>found.
     case found of
       None \<Rightarrow> ret None
     | Some row \<Rightarrow> bnd (lift (cd_load_result cd (the (gar_result_payload row)))) (\<lambda>x. ret (Some x))))"

definition pg_reserve_provider_effect ::
  "('z gateway_state_scheme) database \<Rightarrow> gateway_codecs \<Rightarrow> string \<Rightarrow> string \<Rightarrow> int \<Rightarrow> string \<Rightarrow> string \<Rightarrow> int
   \<Rightarrow> ('z gateway_state_scheme, unit) eff"
where
  "pg_reserve_provider_effect db cd i effect_key n model owner generation =
     bnd (pg_load db cd i) (\<lambda>v.
     case inv_route v of
       None \<Rightarrow> raise (RuntimeError ''provider effect reservation requires a durable route'')
     | Some route \<Rightarrow>
         db_transaction db
           (bnd (pg_fence db i owner generation ''stale provider effect reservation was fenced'') (\<lambda>_.
            bnd clock_now (\<lambda>now.
            tbl_insert_missing (db_attempts db)
              ((new_attempt_row v i n model (rt_adapter_key route) ''effect_reserved'' now)
                 \<lparr>gar_effect_reference := Some effect_key\<rparr>)))))"

text \<open>\<^verbatim>\<open>int(...)\<close> of a text: surrounding space, a sign, digits with single underscores between them.\<close>

definition py_int :: "string \<Rightarrow> exn + int" where
  "py_int text_in =
     (let t = strip text_in;
          negative = (t \<noteq> [] \<and> hd t = CHR ''-'');
          u = (if t \<noteq> [] \<and> (hd t = CHR ''-'' \<or> hd t = CHR ''+'') then tl t else t)
      in if u \<noteq> [] \<and> is_digit (hd u) \<and> is_digit (last u) \<and> list_all (\<lambda>c. is_digit c \<or> c = CHR ''_'') u
            \<and> \<not> contains ''__'' u
         then Inr ((if negative then - 1 else 1) * int (int_of_digits (filter is_digit u)))
         else Inl (ValueError ''invalid literal for int() with base 10''))"

text \<open>\<^verbatim>\<open>int(effect_key.rsplit(":", 1)[1])\<close>\<close>

definition effect_number :: "string \<Rightarrow> exn + int" where
  "effect_number effect_key =
     (if CHR '':'' \<in> set effect_key then py_int (rev (takeWhile (\<lambda>c. c \<noteq> CHR '':'') (rev effect_key)))
      else Inl (LookupError ''list index out of range''))"

definition pg_record_provider_effect ::
  "('z gateway_state_scheme) database \<Rightarrow> gateway_codecs \<Rightarrow> string \<Rightarrow> string \<Rightarrow> ProviderResult \<Rightarrow> (string \<times> int) option
   \<Rightarrow> ('z gateway_state_scheme, unit) eff"
where
  "pg_record_provider_effect db cd i effect_key result claim =
     bnd (pg_load db cd i) (\<lambda>v.
     case inv_route v of
       None \<Rightarrow> raise (RuntimeError ''provider effect requires a durable route'')
     | Some route \<Rightarrow>
         bnd (lift (effect_number effect_key)) (\<lambda>n.
         db_transaction db
           (bnd (pg_fence_option db i claim ''stale provider effect was fenced'') (\<lambda>_.
            bnd clock_now (\<lambda>now.
            bnd (tbl_upsert (db_attempts db)
                   ((new_attempt_row v i n (rt_model_key route) (rt_adapter_key route) ''effect_completed'' now)
                      \<lparr>gar_usage_payload := map_option (cd_dump_usage cd) (prv_usage result),
                       gar_effect_reference := Some effect_key, gar_result_payload := Some (cd_dump_result cd result)\<rparr>)
                   (\<lambda>_. True)
                   (\<lambda>row. row\<lparr>gar_state := ''effect_completed'', gar_effect_reference := Some effect_key,
                      gar_result_payload := Some (cd_dump_result cd result)\<rparr>)) (\<lambda>_.
            ret ()))))))"

section \<open>Cache\<close>

definition pg_cached ::
  "'s database \<Rightarrow> gateway_codecs \<Rightarrow> string \<Rightarrow> string \<Rightarrow> string \<Rightarrow> int \<Rightarrow> ('s, CachedContent option) eff" where
  "pg_cached db cd tenant workspace key now =
     bnd (db_transaction db (tbl_get (db_cache db) (Scoped tenant workspace key))) (\<lambda>found.
     case found of
       None \<Rightarrow> ret None
     | Some row \<Rightarrow>
         if gcr_invalidated_at row \<noteq> None \<or> gcr_expires_at row \<le> now then ret None
         else bnd (lift (cd_load_cache cd (gcr_metadata_payload row))) (\<lambda>c. ret (Some c)))"

definition cache_row :: "gateway_codecs \<Rightarrow> string \<Rightarrow> string \<Rightarrow> string \<Rightarrow> CachedContent \<Rightarrow> AIGatewayCacheRow" where
  "cache_row cd tenant workspace key value =
     \<lparr>gcr_tenant_id = tenant, gcr_workspace_id = workspace, gcr_cache_key = key, gcr_content = cc_content value,
      gcr_metadata_payload = cd_dump_cache cd value, gcr_provenance_ai_invocation_id = cc_provenance value,
      gcr_expires_at = cc_expires_at value, gcr_invalidated_at = None\<rparr>"

definition pg_cache_content ::
  "'s database \<Rightarrow> gateway_codecs \<Rightarrow> string \<Rightarrow> string \<Rightarrow> string \<Rightarrow> CachedContent \<Rightarrow> ('s, unit) eff" where
  "pg_cache_content db cd tenant workspace key value =
     db_transaction db
       (bnd (tbl_upsert (db_cache db) (cache_row cd tenant workspace key value) (\<lambda>_. True)
              (\<lambda>row. row\<lparr>gcr_content := cc_content value, gcr_metadata_payload := cd_dump_cache cd value,
                 gcr_provenance_ai_invocation_id := cc_provenance value, gcr_expires_at := cc_expires_at value,
                 gcr_invalidated_at := None\<rparr>)) (\<lambda>_.
        ret ()))"

definition pg_invalidate_cache ::
  "('z services_scheme) database \<Rightarrow> string \<Rightarrow> string \<Rightarrow> string option \<Rightarrow> ('z services_scheme, nat) eff" where
  "pg_invalidate_cache db tenant workspace key =
     bnd clock_now (\<lambda>now.
     db_transaction db
       (bnd (tbl_update (db_cache db) (\<lambda>row. gcr_tenant_id row = tenant \<and> gcr_workspace_id row = workspace
              \<and> gcr_invalidated_at row = None \<and> (case key of None \<Rightarrow> True | Some k \<Rightarrow> gcr_cache_key row = k))
              (\<lambda>row. row\<lparr>gcr_invalidated_at := Some now\<rparr>)) (\<lambda>changed.
        ret (length changed))))"

end
