(* ===== verification/Durable_Responsive.thy ===== *)
theory Durable_Responsive
  imports Durable_Sessions
begin

text \<open>
  A database that answers: \<open>table_laws\<close> and \<open>session_frame\<close> say what a statement has done when it returns, the
  laws here that it does return. They are what a property needs that promises an answer rather than
  \<^verbatim>\<open>that answer or an exception\<close>: no connection is lost, no statement times out, every commit succeeds.
\<close>

definition responds :: "('s, 'a) eff \<Rightarrow> bool" where
  "responds m \<longleftrightarrow> (\<forall>s. \<exists>x t. m s = (Inr x, t))"

lemma respondsE:
  assumes "responds m" obtains x t where "m s = (Inr x, t)"
  using assms unfolding responds_def by blast

lemma responds_effects:
  "responds (ret x)" "responds (upd f)" "responds (asks g)"
  by (simp_all add: responds_def effect_simps)

definition responsive_transactions :: "'s database \<Rightarrow> bool" where
  "responsive_transactions db \<longleftrightarrow> responds (db_begin db) \<and> responds (db_commit db) \<and> (\<forall>k. responds (db_advisory_lock db k))"

text \<open>A transaction returns when its body does.\<close>

lemma transaction_returns:
  assumes "responsive_transactions db" "db_begin db s = (Inr (), u)" "body u = (Inr x, v)"
  shows "\<exists>t. db_transaction db body s = (Inr x, t)"
proof -
  have "responds (db_commit db)" using assms(1) by (simp add: responsive_transactions_def)
  then obtain y t where "db_commit db v = (Inr y, t)" by (rule respondsE)
  with assms(2,3) show ?thesis by (simp add: db_transaction_def effect_simps)
qed

lemma transaction_begins:
  assumes "responsive_transactions db" obtains u where "db_begin db s = (Inr (), u)"
proof -
  have "responds (db_begin db)" using assms by (simp add: responsive_transactions_def)
  then obtain x u where "db_begin db s = (Inr x, u)" by (rule respondsE)
  with that show thesis by simp
qed

text \<open>A database whose transactions and reads by primary key return.\<close>

locale responsive_database = durable_database db tables saved mem
  for db :: "'s database" and tables :: "'s \<Rightarrow> database_tables" and saved :: "'s \<Rightarrow> database_tables" and mem :: "'s \<Rightarrow> 'm"
  + assumes transactions_return: "responsive_transactions db"
    and effects_answer: "responds (tbl_get (db_effects db) k)"
    and receipts_answer: "responds (tbl_get (db_idempotency db) k')"
    and workflows_answer: "responds (tbl_get (db_workflows db) k'')"
begin

text \<open>What a body that reads and returns makes of its transaction: the value, and the tables as they were.\<close>

lemma reading_transaction:
  assumes body: "wp mem tables saved body (\<lambda>y N E. y = x \<and> N = mem s \<and> E = tables s) (mem s) (tables s)"
    and returns: "\<And>u. tables u = tables s \<Longrightarrow> mem u = mem s \<Longrightarrow> \<exists>y v. body u = (Inr y, v)"
  shows "\<exists>t. db_transaction db body s = (Inr x, t) \<and> tables t = tables s \<and> mem t = mem s"
proof -
  obtain u where u: "db_begin db s = (Inr (), u)" using transaction_begins [OF transactions_return] .
  then have "tables u = tables s" "mem u = mem s" using begun [OF u] by auto
  from returns [OF this] obtain y v where "body u = (Inr y, v)" by blast
  with transactions_return u obtain t where t: "db_transaction db body s = (Inr y, t)"
    using transaction_returns [where body = body and x = y and v = v] by blast
  from transaction(1) [OF body t HOL.refl] t show ?thesis by auto
qed

lemma lock_returns:
  obtains t where "db_advisory_lock db k s = (Inr (), t)" "tables t = tables s" "mem t = mem s"
proof -
  have "responds (db_advisory_lock db k)" using transactions_return by (simp add: responsive_transactions_def)
  then obtain x t where "db_advisory_lock db k s = (Inr x, t)" by (rule respondsE)
  then have t: "db_advisory_lock db k s = (Inr (), t)" by simp
  with locked [of k] show thesis by (auto simp: acts_on_def intro: that)
qed

lemma effect_read:
  obtains t where "tbl_get (db_effects db) k s = (Inr (map_of (t_effects (tables s)) k), t)" "tables t = tables s" "mem t = mem s"
proof -
  obtain x t where t: "tbl_get (db_effects db) k s = (Inr x, t)" using effects_answer [of k] by (rule respondsE)
  with effect_rows.get [of k] show thesis by (auto simp: acts_on_def intro: that)
qed

lemma workflow_read:
  obtains t where "tbl_get (db_workflows db) k s = (Inr (map_of (t_workflows (tables s)) k), t)" "tables t = tables s" "mem t = mem s"
proof -
  obtain x t where t: "tbl_get (db_workflows db) k s = (Inr x, t)" using workflows_answer [of k] by (rule respondsE)
  with workflow_rows.get [of k] show thesis by (auto simp: acts_on_def intro: that)
qed

lemma receipt_read:
  obtains t where "tbl_get (db_idempotency db) k s = (Inr (map_of (t_idempotency (tables s)) k), t)" "tables t = tables s" "mem t = mem s"
proof -
  obtain x t where t: "tbl_get (db_idempotency db) k s = (Inr x, t)" using receipts_answer [of k] by (rule respondsE)
  with idempotency_rows.get [of k] show thesis by (auto simp: acts_on_def intro: that)
qed

end

text \<open>The database in memory answers.\<close>

context database_place
begin

lemma memory_responds:
  "responsive_database (memory_database held hold) (\<lambda>s. fst (held s)) (\<lambda>s. snd (held s)) mem"
  by (intro responsive_database.intro memory_database_laws responsive_database_axioms.intro)
    (simp_all add: memory_database_def memory_table_def responsive_transactions_def responds_effects Let_def)

end

end
