(* ===== verification/Durable_Boundary.thy ===== *)
theory Durable_Boundary
  imports Durable_Effects Durable_Responsive
begin

text \<open>
  The provider effect boundary is safe: however its callers interleave, fail or die, an operation runs at most
  once per effect key, and once a caller has stored its result every later caller of the key is given that result.
\<close>

section \<open>Effect rows\<close>

definition effects_ok :: "database_tables \<Rightarrow> bool" where
  "effects_ok D \<longleftrightarrow> keyed effect_row_key (t_effects D)"

definition dispatched_effect :: "database_tables \<Rightarrow> scoped \<Rightarrow> bool" where
  "dispatched_effect D k \<longleftrightarrow>
     (case map_of (t_effects D) k of None \<Rightarrow> False | Some row \<Rightarrow> per_state row \<noteq> ''reserved'')"

text \<open>What every transaction of the boundary does to the rows.\<close>

definition effects_le :: "database_tables \<Rightarrow> database_tables \<Rightarrow> bool" where
  "effects_le D E \<longleftrightarrow> (effects_ok D \<longrightarrow> effects_ok E \<and> (\<forall>k. dispatched_effect D k \<longrightarrow> dispatched_effect E k))"

lemma effects_le_refl [simp]: "effects_le D D"
  by (simp add: effects_le_def)

lemma effects_le_trans: "effects_le D E \<Longrightarrow> effects_le E F \<Longrightarrow> effects_le D F"
  by (simp add: effects_le_def)

lemma effects_le_same: "t_effects E = t_effects D \<Longrightarrow> effects_le D E"
  by (simp add: effects_le_def effects_ok_def dispatched_effect_def)

text \<open>The row of an effect, for what it was reserved, and the row of a completed one.\<close>

definition reserved_for :: "string \<Rightarrow> string \<Rightarrow> AIGatewayProviderEffectRow \<Rightarrow> bool" where
  "reserved_for ty h row \<longleftrightarrow> per_effect_type row = ty \<and> per_request_hash row = h"

definition stored_effect ::
  "gateway_codecs \<Rightarrow> database_tables \<Rightarrow> scoped \<Rightarrow> string \<Rightarrow> string \<Rightarrow> ProviderResult \<Rightarrow> bool" where
  "stored_effect cd D k ty h x \<longleftrightarrow> (\<exists>row p. map_of (t_effects D) k = Some row \<and> reserved_for ty h row
     \<and> per_state row = ''completed'' \<and> per_result_payload row = Some p \<and> cd_load_result cd p = Inr x)"

text \<open>What every transaction but the one that completes an effect does to the rows: those of other keys stay, and so
  does a finished one.\<close>

definition effect_moves :: "scoped \<Rightarrow> database_tables \<Rightarrow> database_tables \<Rightarrow> bool" where
  "effect_moves k D E \<longleftrightarrow> (effects_ok D \<longrightarrow>
     (\<forall>K row. K \<noteq> k \<longrightarrow> map_of (t_effects D) K = Some row \<longrightarrow> map_of (t_effects E) K = Some row)
     \<and> (\<forall>row. map_of (t_effects D) k = Some row \<longrightarrow> (\<exists>row'. map_of (t_effects E) k = Some row'
          \<and> (\<forall>ty h. reserved_for ty h row' = reserved_for ty h row))))"

lemma effect_moves_refl [simp]: "t_effects E = t_effects D \<Longrightarrow> effect_moves k D E"
  by (simp add: effect_moves_def)

lemma this_effect_key: "this_effect r k row \<longleftrightarrow> effect_row_key row = effect_key_of r k"
  by (auto simp: this_effect_def effect_row_key_def effect_key_of_def)

lemma effect_row_simps [simp]:
  "effect_row_key (effect_row r k ty h g now) = effect_key_of r k" "per_state (effect_row r k ty h g now) = ''reserved''"
  by (simp_all add: effect_row_key_def effect_row_def effect_key_of_def)

lemma effect_row_key_update [simp]:
  "effect_row_key (row\<lparr>per_state := st, per_dispatch_count := n, per_dispatching_at := d\<rparr>) = effect_row_key row"
  "effect_row_key (row\<lparr>per_state := st, per_result_payload := p, per_completed_at := d\<rparr>) = effect_row_key row"
  by (simp_all add: effect_row_key_def)

lemma rewrite_effects_le:
  assumes "\<And>row. p row \<Longrightarrow> effect_row_key (f row) = effect_row_key row \<and> per_state (f row) \<noteq> ''reserved''"
  shows "effects_le D (D\<lparr>t_effects := rewrite p f (t_effects D)\<rparr>)"
proof -
  have "keyed effect_row_key (rewrite p f (t_effects D))" if "keyed effect_row_key (t_effects D)"
    using that assms by (intro keyed_rewrite) auto
  then show ?thesis using assms by (auto simp: effects_le_def effects_ok_def dispatched_effect_def split: option.splits)
qed

lemma reserved_row:
  assumes "row \<in> set (rows (t_effects D))" "this_effect r k row" "effects_ok D"
  shows "map_of (t_effects D) (effect_key_of r k) = Some row"
  using keyed_row [of effect_row_key "t_effects D" row] assms by (simp add: effects_ok_def this_effect_key)

lemma rewrite_moves:
  assumes "\<And>row. p row \<Longrightarrow> effect_row_key row = k" "\<And>row ty h. reserved_for ty h (f row) = reserved_for ty h row"
  shows "effect_moves k D (D\<lparr>t_effects := rewrite p f (t_effects D)\<rparr>)"
proof -
  have "map_option (\<lambda>row. if p row then f row else row) (map_of (t_effects D) K) = map_of (t_effects D) K"
    if "effects_ok D" "K \<noteq> k" for K
    using that assms(1) by (cases "map_of (t_effects D) K") (fastforce simp: effects_ok_def keyed_def)+
  then have "map_of (rewrite p f (t_effects D)) K = map_of (t_effects D) K" if "effects_ok D" "K \<noteq> k" for K
    using that by simp
  with assms(2) show ?thesis by (simp add: effect_moves_def del: map_of_rewrite) (auto simp: map_of_rewrite)
qed

lemma reserved_for_update [simp]:
  "reserved_for ty h (row\<lparr>per_state := st, per_dispatch_count := n, per_dispatching_at := d\<rparr>) = reserved_for ty h row"
  "reserved_for ty h (row\<lparr>per_state := st, per_result_payload := q, per_completed_at := d\<rparr>) = reserved_for ty h row"
  by (simp_all add: reserved_for_def)

section \<open>Transactions of the boundary\<close>

locale effect_store = durable_database db tables saved mem
  for db :: "('z services_scheme) database" and tables :: "'z services_scheme \<Rightarrow> database_tables" and saved
    and mem :: "'z services_scheme \<Rightarrow> 'm"
  + assumes ticking: "tables (s\<lparr>clock_reads := n\<rparr>) = tables s"
begin

abbreviation tx_wp where
  "tx_wp \<equiv> wp mem tables saved"

lemma reserve_wp:
  "tx_wp (reserve_effect db tx cd r k ty h now) (\<lambda>x _ E. effects_le D E
     \<and> (\<forall>K row. map_of (t_effects D) K = Some row \<longrightarrow> map_of (t_effects E) K = Some row)
     \<and> (x = None \<longrightarrow> (\<exists>row. map_of (t_effects E) (effect_key_of r k) = Some row \<and> reserved_for ty h row))) M D"
  unfolding reserve_effect_def
  by (intro wp_rules locking effect_rows.step_rules invocation_rows.step_rules)
    (auto simp: effects_le_def effects_ok_def dispatched_effect_def reserved_for_def effect_row_def effect_row_key_def
      effect_key_of_def split: option.splits)

lemma dispatch_wp:
  "tx_wp (dispatch_effect db cd r k now) (\<lambda>x _ E.
     effects_le D E \<and> effect_moves (effect_key_of r k) D E
     \<and> (\<forall>row. map_of (t_effects D) (effect_key_of r k) = Some row \<longrightarrow> per_state row \<noteq> ''reserved'' \<longrightarrow>
          map_of (t_effects E) (effect_key_of r k) = Some row)
     \<and> (x = None \<longrightarrow> effects_ok D \<longrightarrow>
       \<not> dispatched_effect D (effect_key_of r k) \<and> dispatched_effect E (effect_key_of r k)
       \<and> (\<exists>row. map_of (t_effects E) (effect_key_of r k) = Some row \<and> per_state row = ''dispatching''))) M D"
  unfolding dispatch_effect_def
  by (intro wp_rules locking effect_rows.step_rules)
    (auto simp: dispatched_effect_def this_effect_key split: option.splits
      intro!: rewrite_effects_le rewrite_moves dest: reserved_row [unfolded this_effect_key])

lemma reserve_run:
  assumes "db_transaction db (reserve_effect db tx cd r k ty h now) s = (x, t)"
  shows "effects_le (tables s) (tables t)"
    "map_of (t_effects (tables s)) K = Some row \<Longrightarrow> map_of (t_effects (tables t)) K = Some row"
    "x = Inr None \<Longrightarrow> \<exists>row. map_of (t_effects (tables t)) (effect_key_of r k) = Some row \<and> reserved_for ty h row"
  using transaction [OF reserve_wp assms] by auto

lemma dispatch_run:
  assumes "db_transaction db (dispatch_effect db cd r k now) s = (x, t)"
  shows "effects_le (tables s) (tables t)" "effect_moves (effect_key_of r k) (tables s) (tables t)"
    "map_of (t_effects (tables s)) (effect_key_of r k) = Some row \<Longrightarrow> per_state row \<noteq> ''reserved'' \<Longrightarrow>
       map_of (t_effects (tables t)) (effect_key_of r k) = Some row"
    "x = Inr None \<Longrightarrow> effects_ok (tables s) \<Longrightarrow>
       \<not> dispatched_effect (tables s) (effect_key_of r k) \<and> dispatched_effect (tables t) (effect_key_of r k)
       \<and> (\<exists>row. map_of (t_effects (tables t)) (effect_key_of r k) = Some row \<and> per_state row = ''dispatching'')"
  using transaction [OF dispatch_wp assms] by auto

lemma fail_run:
  assumes "fail_effect db r k p s = (x, t)"
  shows "effects_le (tables s) (tables t)" "effect_moves (effect_key_of r k) (tables s) (tables t)"
proof -
  let ?body = "\<lambda>d. bnd (tbl_update (db_effects db) (\<lambda>row. this_effect r k row \<and> per_state row = ''dispatching'')
    (\<lambda>row. row\<lparr>per_state := ''failed'', per_result_payload := Some p, per_completed_at := Some d\<rparr>)) (\<lambda>_. ret ())"
  have body: "tx_wp (?body d) (\<lambda>_ _ E. effects_le D E \<and> effect_moves (effect_key_of r k) D E) M D" for d D M
    by (intro wp_rules effect_rows.step_rules conjI rewrite_effects_le rewrite_moves) (auto simp: this_effect_key)
  obtain n d where "db_transaction db (?body d) (s\<lparr>clock_reads := n\<rparr>) = (x, t)"
    using assms by (auto simp: fail_effect_def effect_simps)
  from transaction(2) [OF body this]
  show "effects_le (tables s) (tables t)" "effect_moves (effect_key_of r k) (tables s) (tables t)" by (auto simp: ticking)
qed

lemma complete_run:
  assumes "complete_effect db r k p s = (x, t)"
  shows "effects_le (tables s) (tables t)" "effect_moves (effect_key_of r k) (tables s) (tables t)"
    "x = Inr () \<Longrightarrow> map_of (t_effects (tables s)) (effect_key_of r k) = Some row \<Longrightarrow> effects_ok (tables s) \<Longrightarrow>
     reserved_for ty h row \<Longrightarrow> cd_load_result cd p = Inr v \<Longrightarrow> stored_effect cd (tables t) (effect_key_of r k) ty h v"
proof -
  let ?body = "\<lambda>d. bnd (tbl_update (db_effects db) (this_effect r k)
    (\<lambda>row. row\<lparr>per_state := ''completed'', per_result_payload := Some p, per_completed_at := Some d\<rparr>)) (\<lambda>_. ret ())"
  have stored: "stored_effect cd (D\<lparr>t_effects := rewrite (this_effect r k)
        (\<lambda>row. row\<lparr>per_state := ''completed'', per_result_payload := Some p, per_completed_at := Some d\<rparr>) (t_effects D)\<rparr>)
      (effect_key_of r k) ty h v"
    if "map_of (t_effects D) (effect_key_of r k) = Some row" "effects_ok D" "reserved_for ty h row" "cd_load_result cd p = Inr v"
    for D d
  proof -
    have "this_effect r k row" using that(1,2) by (auto simp: effects_ok_def keyed_def this_effect_key)
    with that show ?thesis by (simp add: stored_effect_def)
  qed
  have body: "tx_wp (?body d) (\<lambda>_ _ E. effects_le D E \<and> effect_moves (effect_key_of r k) D E
      \<and> (map_of (t_effects D) (effect_key_of r k) = Some row \<longrightarrow> effects_ok D \<longrightarrow> reserved_for ty h row \<longrightarrow>
        cd_load_result cd p = Inr v \<longrightarrow> stored_effect cd E (effect_key_of r k) ty h v)) M D" for d D M
    by (intro wp_rules effect_rows.step_rules conjI rewrite_effects_le rewrite_moves impI stored) (auto simp: this_effect_key)
  obtain n d where run: "db_transaction db (?body d) (s\<lparr>clock_reads := n\<rparr>) = (x, t)"
    using assms by (auto simp: complete_effect_def effect_simps)
  show "effects_le (tables s) (tables t)" "effect_moves (effect_key_of r k) (tables s) (tables t)"
    using transaction(2) [OF body run] by (auto simp: ticking)
  show "stored_effect cd (tables t) (effect_key_of r k) ty h v"
    if "x = Inr ()" "map_of (t_effects (tables s)) (effect_key_of r k) = Some row" "effects_ok (tables s)"
      "reserved_for ty h row" "cd_load_result cd p = Inr v"
    using transaction(1) [OF body run that(1)] that by (simp add: ticking)
qed

lemma settle_run:
  assumes "settle_effect db tx cd r k a s = (x, t)"
  shows "effects_le (tables s) (tables t)" "effect_moves (effect_key_of r k) (tables s) (tables t)"
proof -
  have "effects_le (tables s) (tables t) \<and> effect_moves (effect_key_of r k) (tables s) (tables t)"
  proof (cases a)
    case (Inl e)
    show ?thesis
    proof (cases e)
      case (ProviderFailure c b u)
      obtain y where "fail_effect db r k (failure_payload tx cd c b u) s = (y, t)"
        using assms Inl ProviderFailure by (auto simp: settle_effect_def effect_simps split: prod.splits sum.splits)
      from fail_run [OF this] show ?thesis by simp
    qed (use assms Inl in \<open>auto simp: settle_effect_def effect_simps\<close>)
  next
    case (Inr v)
    obtain y where "complete_effect db r k (cd_dump_result cd v) s = (y, t)"
      using assms Inr by (auto simp: settle_effect_def effect_simps split: prod.splits sum.splits)
    from complete_run(1,2) [OF this] show ?thesis by simp
  qed
  then show "effects_le (tables s) (tables t)" "effect_moves (effect_key_of r k) (tables s) (tables t)" by simp_all
qed

end

section \<open>At most once\<close>

definition callers_ok ::
  "('s \<Rightarrow> database_tables) \<Rightarrow> (nat \<Rightarrow> 's effect_call) \<Rightarrow> 's callers \<Rightarrow> bool" where
  "callers_ok tables calls = (\<lambda>(s, ph, runs). effects_ok (tables s) \<and> distinct runs
     \<and> (\<forall>w. ph w = Dispatched \<longrightarrow> dispatched_effect (tables s) (called_key (calls w)) \<and> called_key (calls w) \<notin> set runs)
     \<and> (\<forall>w v. ph w = Dispatched \<longrightarrow> ph v = Dispatched \<longrightarrow> called_key (calls w) = called_key (calls v) \<longrightarrow> w = v)
     \<and> (\<forall>k \<in> set runs. dispatched_effect (tables s) k))"

lemma callers_ok_le:
  assumes "callers_ok tables calls (s, ph, runs)" "effects_le (tables s) (tables t)"
    and "\<And>v. ph' v = Dispatched \<Longrightarrow> ph v = Dispatched"
  shows "callers_ok tables calls (t, ph', runs)"
  using assms by (auto simp: callers_ok_def effects_le_def)

lemma callers_ok_leave:
  assumes "callers_ok tables calls (s, ph, runs)" "effects_le (tables s) (tables t)" "p \<noteq> Dispatched"
  shows "callers_ok tables calls (t, ph(w := p), runs)"
  by (rule callers_ok_le [OF assms(1,2)]) (use assms(3) in \<open>auto split: if_splits\<close>)

context effect_store
begin

lemma advance_ok:
  assumes ok: "callers_ok tables calls (s, ph, runs)"
    and op: "\<And>w s r t. ec_operation (calls w) s = (r, t) \<Longrightarrow> t_effects (tables t) = t_effects (tables s)"
  shows "callers_ok tables calls (advance db tx cd calls w (s, ph, runs))"
proof (cases "ph w")
  case Calling
  let ?c = "calls w" and ?u = "s\<lparr>clock_reads := Suc (clock_reads s)\<rparr>"
  obtain x t where run: "db_transaction db (reserve_effect db tx cd (ec_request ?c) (ec_key ?c) (ec_type ?c) (ec_hash ?c)
      (clock_feed s (clock_reads s))) ?u = (x, t)"
    by (metis surj_pair)
  have "effects_le (tables s) (tables t)" using reserve_run(1) [OF run] by (simp add: ticking)
  then have "callers_ok tables calls (t, ph(w := p), runs)" if "p \<noteq> Dispatched" for p
    using callers_ok_leave [OF ok] that by blast
  with Calling run show ?thesis by (auto simp: effect_simps Let_def split: sum.splits option.splits)
next
  case (Reserved now)
  let ?c = "calls w"
  obtain x t where run: "db_transaction db (dispatch_effect db cd (ec_request ?c) (ec_key ?c) now) s = (x, t)"
    by (metis surj_pair)
  note le = dispatch_run(1) [OF run]
  have finished: "callers_ok tables calls (t, ph(w := Finished), runs)"
    using callers_ok_leave [OF ok le] by simp
  have "callers_ok tables calls (t, ph(w := Dispatched), runs)" if "x = Inr None"
  proof -
    have s: "effects_ok (tables s)" using ok by (simp add: callers_ok_def)
    have "\<not> dispatched_effect (tables s) (called_key ?c)" "dispatched_effect (tables t) (called_key ?c)"
      using dispatch_run(4) [OF run that s] by (simp_all add: called_key_def)
    with ok le show ?thesis by (auto simp: callers_ok_def effects_le_def)
  qed
  with finished Reserved run show ?thesis by (auto simp: Let_def split: sum.splits option.splits)
next
  case Dispatched
  obtain r t where run: "ec_operation (calls w) s = (r, t)" by (metis surj_pair)
  have "effects_le (tables s) (tables t)" using op [OF run] by (rule effects_le_same)
  with ok Dispatched have "callers_ok tables calls (t, ph(w := Answered r), called_key (calls w) # runs)"
    by (auto simp: callers_ok_def effects_le_def)
  with Dispatched run show ?thesis by (simp add: Let_def)
next
  case (Answered r)
  let ?c = "calls w"
  obtain x t where run: "settle_effect db tx cd (ec_request ?c) (ec_key ?c) r s = (x, t)" by (metis surj_pair)
  have "callers_ok tables calls (t, ph(w := Finished), runs)"
    using callers_ok_leave [OF ok settle_run(1) [OF run]] by simp
  with Answered run show ?thesis by (simp add: Let_def)
next
  case Finished
  with ok show ?thesis by (simp add: Let_def)
qed

lemma boundary_ok:
  assumes "boundary_step db tx cd tables calls c d" "callers_ok tables calls c"
    and "\<And>w s r t. ec_operation (calls w) s = (r, t) \<Longrightarrow> t_effects (tables t) = t_effects (tables s)"
  shows "callers_ok tables calls d"
  using assms
proof (induction rule: boundary_step.induct)
  case (Advance c w)
  then show ?case by (cases c) (auto simp del: advance.simps intro: advance_ok)
next
  case (Crash s ph runs w)
  then show ?case by (simp add: callers_ok_leave)
next
  case (Elsewhere t s ph runs)
  show ?case by (rule callers_ok_le [OF Elsewhere.prems(1) effects_le_same [OF Elsewhere.hyps]])
qed

end

text \<open>C12 (safety). Callers of the durable provider effect boundary, any number of them, interleave transaction by
  transaction, die at any point, fail to commit or see other work on the database. The provider operation of
  an effect key runs at most once in all of this, and never for a key already dispatched before: starting from runs
  \<open>earlier\<close> whose keys are dispatched, the runs at any later time are distinct and their keys are dispatched.\<close>

theorem effect_at_most_once:
  assumes "effect_store db tables saved mem"
    and "\<And>w s r t. ec_operation (calls w) s = (r, t) \<Longrightarrow> t_effects (tables t) = t_effects (tables s)"
    and "effects_ok (tables s\<^sub>0)" "distinct earlier" "\<forall>k \<in> set earlier. dispatched_effect (tables s\<^sub>0) k"
    and "(boundary_step db tx cd tables calls)\<^sup>*\<^sup>* (s\<^sub>0, \<lambda>_. Calling, earlier) (s, ph, runs)"
  shows "distinct runs \<and> (\<forall>k \<in> set runs. dispatched_effect (tables s) k)"
proof -
  have "callers_ok tables calls (s, ph, runs)"
    using assms(6)
  proof (induction rule: rtranclp_induct)
    case base
    show ?case using assms(3-5) by (simp add: callers_ok_def)
  next
    case (step c d)
    then show ?case using effect_store.boundary_ok [OF assms(1)] assms(2) by blast
  qed
  then show ?thesis by (simp add: callers_ok_def)
qed

section \<open>Results kept\<close>

text \<open>A caller past its first transaction has a row of its type and hash; one that may still complete the effect, alone
  of its key, has a row that is being dispatched.\<close>

definition unsettled :: "phase \<Rightarrow> bool" where
  "unsettled p \<longleftrightarrow> p = Dispatched \<or> (\<exists>r. p = Answered r)"

definition reserved_by :: "database_tables \<Rightarrow> 's effect_call \<Rightarrow> bool" where
  "reserved_by D c \<longleftrightarrow> (\<exists>row. map_of (t_effects D) (called_key c) = Some row \<and> reserved_for (ec_type c) (ec_hash c) row)"

definition dispatching_row :: "database_tables \<Rightarrow> scoped \<Rightarrow> bool" where
  "dispatching_row D k \<longleftrightarrow> (\<exists>row. map_of (t_effects D) k = Some row \<and> per_state row = ''dispatching'')"

definition reservations_ok ::
  "('s \<Rightarrow> database_tables) \<Rightarrow> (nat \<Rightarrow> 's effect_call) \<Rightarrow> 's callers \<Rightarrow> bool" where
  "reservations_ok tables calls = (\<lambda>(s, ph, runs). effects_ok (tables s)
     \<and> (\<forall>w. ph w \<noteq> Calling \<longrightarrow> ph w \<noteq> Finished \<longrightarrow> reserved_by (tables s) (calls w))
     \<and> (\<forall>w. unsettled (ph w) \<longrightarrow> dispatching_row (tables s) (called_key (calls w)))
     \<and> (\<forall>w v. unsettled (ph w) \<longrightarrow> unsettled (ph v) \<longrightarrow> called_key (calls w) = called_key (calls v) \<longrightarrow> w = v))"

definition completed_kept :: "database_tables \<Rightarrow> database_tables \<Rightarrow> bool" where
  "completed_kept D E \<longleftrightarrow> (\<forall>k row. map_of (t_effects D) k = Some row \<longrightarrow> per_state row = ''completed'' \<longrightarrow>
     map_of (t_effects E) k = Some row)"

lemma completed_kept_same [simp]: "t_effects E = t_effects D \<Longrightarrow> completed_kept D E"
  by (simp add: completed_kept_def)

lemma stored_kept: "stored_effect cd D k ty h x \<Longrightarrow> completed_kept D E \<Longrightarrow> stored_effect cd E k ty h x"
  by (fastforce simp: stored_effect_def completed_kept_def)

lemma same_effects:
  assumes "t_effects E = t_effects D"
  shows "effects_ok E = effects_ok D" "reserved_by E c = reserved_by D c" "dispatching_row E k = dispatching_row D k"
  using assms by (simp_all add: effects_ok_def reserved_by_def dispatching_row_def)

lemma reserved_by_moves:
  "reserved_by D c \<Longrightarrow> effects_ok D \<Longrightarrow> effect_moves k D E \<Longrightarrow> reserved_by E c"
  unfolding reserved_by_def effect_moves_def by (cases "called_key c = k") (metis, blast)

text \<open>One caller moves, and the rows move with it.\<close>

lemma reservations_move:
  assumes ok: "reservations_ok tables calls (s, ph, runs)" and le: "effects_le (tables s) (tables t)"
    and moves: "effect_moves (called_key (calls w)) (tables s) (tables t)"
    and own: "p = Finished \<or> reserved_by (tables t) (calls w)"
    and others: "\<And>v row. v \<noteq> w \<Longrightarrow> unsettled (ph v) \<Longrightarrow> called_key (calls v) = called_key (calls w) \<Longrightarrow>
      map_of (t_effects (tables s)) (called_key (calls w)) = Some row \<Longrightarrow>
      map_of (t_effects (tables t)) (called_key (calls w)) = Some row"
    and alone: "unsettled p \<Longrightarrow> dispatching_row (tables t) (called_key (calls w))
      \<and> (\<forall>v. v \<noteq> w \<longrightarrow> unsettled (ph v) \<longrightarrow> called_key (calls v) \<noteq> called_key (calls w))"
  shows "reservations_ok tables calls (t, ph(w := p), runs')"
proof -
  have D: "effects_ok (tables s)" using ok by (simp add: reservations_ok_def)
  have rows: "dispatching_row (tables t) (called_key (calls v))" if v: "v \<noteq> w" "unsettled (ph v)" for v
  proof -
    obtain row where row: "map_of (t_effects (tables s)) (called_key (calls v)) = Some row" "per_state row = ''dispatching''"
      using ok v(2) by (auto simp: reservations_ok_def dispatching_row_def)
    have "map_of (t_effects (tables t)) (called_key (calls v)) = Some row"
    proof (cases "called_key (calls v) = called_key (calls w)")
      case True
      with others [OF v True] row(1) show ?thesis by simp
    next
      case False
      with moves D row(1) show ?thesis by (simp add: effect_moves_def)
    qed
    with row(2) show ?thesis by (simp add: dispatching_row_def)
  qed
  have "reserved_by (tables t) (calls v)" if "v \<noteq> w" "ph v \<noteq> Calling" "ph v \<noteq> Finished" for v
    using ok that reserved_by_moves [OF _ D moves, of "calls v"] by (simp add: reservations_ok_def)
  moreover have "effects_ok (tables t)" using le D by (simp add: effects_le_def)
  ultimately show ?thesis using ok own alone rows by (auto simp: reservations_ok_def)
qed

context effect_store
begin

text \<open>Each step of a caller keeps the reservations in order and every completed row as it is.\<close>

lemma calling_keeps:
  assumes ok: "reservations_ok tables calls (s, ph, runs)"
    and run: "db_transaction db (reserve_effect db tx cd (ec_request (calls w)) (ec_key (calls w)) (ec_type (calls w))
        (ec_hash (calls w)) now) (s\<lparr>clock_reads := n\<rparr>) = (x, t)"
    and p: "p = Finished \<or> x = Inr None \<and> p = Reserved now"
  shows "reservations_ok tables calls (t, ph(w := p), runs)" "completed_kept (tables s) (tables t)"
proof -
  note kept = reserve_run(2) [OF run, unfolded ticking]
  then show "completed_kept (tables s) (tables t)" by (simp add: completed_kept_def)
  have "effect_moves (called_key (calls w)) (tables s) (tables t)" using kept by (auto simp: effect_moves_def)
  moreover have "effects_le (tables s) (tables t)" using reserve_run(1) [OF run] by (simp add: ticking)
  moreover have "p = Finished \<or> reserved_by (tables t) (calls w)"
    using p reserve_run(3) [OF run] by (auto simp: reserved_by_def called_key_def)
  ultimately show "reservations_ok tables calls (t, ph(w := p), runs)"
    using p kept by (intro reservations_move [OF ok]) (auto simp: unsettled_def)
qed

lemma dispatch_keeps:
  assumes ok: "reservations_ok tables calls (s, ph, runs)" and w: "ph w = Reserved now"
    and run: "db_transaction db (dispatch_effect db cd (ec_request (calls w)) (ec_key (calls w)) now) s = (x, t)"
    and p: "p = Finished \<or> x = Inr None \<and> p = Dispatched"
  shows "reservations_ok tables calls (t, ph(w := p), runs)" "completed_kept (tables s) (tables t)"
proof -
  have D: "effects_ok (tables s)" using ok by (simp add: reservations_ok_def)
  note le = dispatch_run(1) [OF run] and moves = dispatch_run(2) [OF run, folded called_key_def]
  note busy = dispatch_run(3) [OF run, folded called_key_def]
  note kept = moves [unfolded effect_moves_def, rule_format, OF D]
  show "completed_kept (tables s) (tables t)"
    unfolding completed_kept_def
  proof (intro allI impI)
    fix k row assume "map_of (t_effects (tables s)) k = Some row" "per_state row = ''completed''"
    then show "map_of (t_effects (tables t)) k = Some row"
      using busy moves D by (cases "k = called_key (calls w)") (auto simp: effect_moves_def)
  qed
  have own: "reserved_by (tables t) (calls w)"
    using ok w reserved_by_moves [OF _ D moves, of "calls w"] by (simp add: reservations_ok_def)
  have dispatching: "dispatching_row (tables s) (called_key (calls w))"
    if "unsettled (ph v)" "called_key (calls v) = called_key (calls w)" for v
    using ok that by (auto simp: reservations_ok_def)
  have "dispatching_row (tables t) (called_key (calls w)) \<and> \<not> dispatching_row (tables s) (called_key (calls w))"
    if "x = Inr None"
    using dispatch_run(4) [OF run that D, folded called_key_def]
    by (auto simp: dispatching_row_def dispatched_effect_def)
  with own p dispatching show "reservations_ok tables calls (t, ph(w := p), runs)"
    by (intro reservations_move [OF ok le moves] busy) (auto simp: unsettled_def dispatching_row_def)
qed

lemma answer_keeps:
  assumes ok: "reservations_ok tables calls (s, ph, runs)" and w: "ph w = Dispatched"
    and same: "t_effects (tables t) = t_effects (tables s)"
  shows "reservations_ok tables calls (t, ph(w := Answered r), runs')"
proof (rule reservations_move [OF ok effects_le_same [OF same] effect_moves_refl [OF same]])
  show "Answered r = Finished \<or> reserved_by (tables t) (calls w)"
    using ok w by (simp add: reservations_ok_def same_effects [OF same])
  show "dispatching_row (tables t) (called_key (calls w))
      \<and> (\<forall>v. v \<noteq> w \<longrightarrow> unsettled (ph v) \<longrightarrow> called_key (calls v) \<noteq> called_key (calls w))"
    using ok w by (auto simp: reservations_ok_def same_effects [OF same] unsettled_def)
qed (simp add: same)

lemma settle_keeps:
  assumes ok: "reservations_ok tables calls (s, ph, runs)" and w: "ph w = Answered r"
    and run: "settle_effect db tx cd (ec_request (calls w)) (ec_key (calls w)) r s = (x, t)"
  shows "reservations_ok tables calls (t, ph(w := Finished), runs)" "completed_kept (tables s) (tables t)"
proof -
  note moves = settle_run(2) [OF run, folded called_key_def]
  have w: "unsettled (ph w)" using w by (simp add: unsettled_def)
  show "reservations_ok tables calls (t, ph(w := Finished), runs)"
    using ok w by (intro reservations_move [OF ok settle_run(1) [OF run] moves])
      (auto simp: reservations_ok_def unsettled_def)
  have "effects_ok (tables s)" "dispatching_row (tables s) (called_key (calls w))"
    using ok w by (simp_all add: reservations_ok_def)
  then obtain row where D: "effects_ok (tables s)" "map_of (t_effects (tables s)) (called_key (calls w)) = Some row"
    "per_state row = ''dispatching''"
    by (auto simp: dispatching_row_def)
  show "completed_kept (tables s) (tables t)"
    unfolding completed_kept_def
  proof (intro allI impI)
    fix k q assume "map_of (t_effects (tables s)) k = Some q" "per_state q = ''completed''"
    then show "map_of (t_effects (tables t)) k = Some q"
      using D moves by (cases "k = called_key (calls w)") (auto simp: effect_moves_def)
  qed
qed

lemma advance_keeps:
  assumes ok: "reservations_ok tables calls (s, ph, runs)"
    and op: "\<And>w s r t. ec_operation (calls w) s = (r, t) \<Longrightarrow> t_effects (tables t) = t_effects (tables s)"
    and d: "d = advance db tx cd calls w (s, ph, runs)"
  shows "reservations_ok tables calls d \<and> completed_kept (tables s) (tables (fst d))"
proof (cases "ph w")
  case Calling
  let ?c = "calls w"
  obtain x t where run: "db_transaction db (reserve_effect db tx cd (ec_request ?c) (ec_key ?c) (ec_type ?c) (ec_hash ?c)
      (clock_feed s (clock_reads s))) (s\<lparr>clock_reads := Suc (clock_reads s)\<rparr>) = (x, t)"
    by (metis surj_pair)
  note keeps = calling_keeps(1) [OF ok run] calling_keeps(2) [OF ok run disjI1 [OF HOL.refl]]
  show ?thesis
  proof (cases "x = Inr None")
    case True
    then have "d = (t, ph(w := Reserved (clock_feed s (clock_reads s))), runs)"
      using d Calling run by (simp add: effect_simps Let_def)
    with keeps True show ?thesis by simp
  next
    case False
    then have "d = (t, ph(w := Finished), runs)"
      using d Calling run by (auto simp: effect_simps Let_def split: sum.splits option.splits)
    with keeps show ?thesis by simp
  qed
next
  case (Reserved now)
  let ?c = "calls w"
  obtain x t where run: "db_transaction db (dispatch_effect db cd (ec_request ?c) (ec_key ?c) now) s = (x, t)"
    by (metis surj_pair)
  note keeps = dispatch_keeps(1) [OF ok Reserved run] dispatch_keeps(2) [OF ok Reserved run disjI1 [OF HOL.refl]]
  show ?thesis
  proof (cases "x = Inr None")
    case True
    with d Reserved run have "d = (t, ph(w := Dispatched), runs)" by (simp add: Let_def)
    with keeps True show ?thesis by simp
  next
    case False
    then have "d = (t, ph(w := Finished), runs)"
      using d Reserved run by (auto simp: Let_def split: sum.splits option.splits)
    with keeps show ?thesis by simp
  qed
next
  case Dispatched
  obtain r t where run: "ec_operation (calls w) s = (r, t)" by (metis surj_pair)
  with d Dispatched have "d = (t, ph(w := Answered r), called_key (calls w) # runs)" by (simp add: Let_def)
  with answer_keeps [OF ok Dispatched op [OF run]] op [OF run] show ?thesis by simp
next
  case (Answered r)
  let ?c = "calls w"
  obtain x t where run: "settle_effect db tx cd (ec_request ?c) (ec_key ?c) r s = (x, t)" by (metis surj_pair)
  with d Answered have "d = (t, ph(w := Finished), runs)" by (simp add: Let_def)
  with settle_keeps [OF ok Answered run] show ?thesis by simp
next
  case Finished
  with ok d show ?thesis by (simp add: Let_def)
qed

lemma boundary_keeps:
  assumes "(boundary_step db tx cd tables calls)\<^sup>*\<^sup>* c d" "reservations_ok tables calls c"
    and op: "\<And>w s r t. ec_operation (calls w) s = (r, t) \<Longrightarrow> t_effects (tables t) = t_effects (tables s)"
  shows "reservations_ok tables calls d \<and> completed_kept (tables (fst c)) (tables (fst d))"
  using assms(1,2)
proof (induction rule: rtranclp_induct)
  case (step d e)
  then have d: "reservations_ok tables calls d" "completed_kept (tables (fst c)) (tables (fst d))" by auto
  have "reservations_ok tables calls e \<and> completed_kept (tables (fst d)) (tables (fst e))"
    using step.hyps(2) d(1)
  proof (induction rule: boundary_step.induct)
    case (Advance c w)
    obtain s ph runs where c: "c = (s, ph, runs)" by (cases c)
    from advance_keeps [OF Advance [unfolded c] op HOL.refl] show ?case by (simp add: c)
  next
    case (Crash s ph runs w)
    then show ?case by (auto simp: reservations_ok_def unsettled_def)
  next
    case (Elsewhere t s ph runs)
    then show ?case by (simp add: reservations_ok_def same_effects [OF Elsewhere.hyps])
  qed
  with d show ?case by (auto simp: completed_kept_def)
qed simp

lemma settle_stores:
  assumes ok: "reservations_ok tables calls (s, ph, runs)" and w: "ph w = Answered (Inr x)"
    and codec: "cd_load_result cd (cd_dump_result cd x) = Inr x"
    and run: "settle_effect db tx cd (ec_request (calls w)) (ec_key (calls w)) (Inr x) s = (Inr y, t)"
  shows "stored_effect cd (tables t) (called_key (calls w)) (ec_type (calls w)) (ec_hash (calls w)) x"
proof -
  have "effects_ok (tables s)" "reserved_by (tables s) (calls w)"
    using ok w by (simp_all add: reservations_ok_def)
  then obtain row where row: "map_of (t_effects (tables s)) (called_key (calls w)) = Some row"
    "reserved_for (ec_type (calls w)) (ec_hash (calls w)) row" "effects_ok (tables s)"
    by (auto simp: reserved_by_def)
  have "complete_effect db (ec_request (calls w)) (ec_key (calls w)) (cd_dump_result cd x) s = (Inr (), t)"
    using run by (auto simp: settle_effect_def effect_simps split: prod.splits sum.splits)
  from complete_run(3) [OF this HOL.refl row(1) [unfolded called_key_def] row(3,2) codec]
  show ?thesis by (simp add: called_key_def)
qed

end

text \<open>Over a database that answers, a caller that finds a completed row of its type and hash returns its result.\<close>

locale responsive_effects = effect_store db tables saved mem + responsive_database db tables saved mem
  for db :: "('z services_scheme) database" and tables :: "'z services_scheme \<Rightarrow> database_tables" and saved
    and mem :: "'z services_scheme \<Rightarrow> 'm"
begin

lemma stored_replays:
  assumes "stored_effect cd (tables u) (effect_key_of r k) ty h x"
  shows "\<exists>v. tables v = tables u \<and> (\<forall>operation. effect_execute db tx cd r k ty h operation u = (Inr x, v))"
proof -
  let ?now = "clock_feed u (clock_reads u)" and ?s = "u\<lparr>clock_reads := Suc (clock_reads u)\<rparr>"
  let ?body = "reserve_effect db tx cd r k ty h ?now"
  obtain row p where row: "map_of (t_effects (tables u)) (effect_key_of r k) = Some row" "reserved_for ty h row"
    "per_state row = ''completed''" "per_result_payload row = Some p" "cd_load_result cd p = Inr x"
    using assms by (auto simp: stored_effect_def)
  have wp: "tx_wp ?body (\<lambda>y N E. y = Some x \<and> N = mem ?s \<and> E = tables ?s) (mem ?s) (tables ?s)"
    unfolding reserve_effect_def
    by (intro wp_rules locking effect_rows.step_rules) (use row in \<open>auto simp: ticking reserved_for_def\<close>)
  have returns: "\<exists>y v. ?body v0 = (Inr y, v)" if "tables v0 = tables ?s" for v0
  proof -
    obtain v1 where v1: "db_advisory_lock db k v0 = (Inr (), v1)" "tables v1 = tables v0" using lock_returns .
    obtain v2 where v2: "tbl_get (db_effects db) (effect_key_of r k) v1
        = (Inr (map_of (t_effects (tables v1)) (effect_key_of r k)), v2)" using effect_read .
    have "map_of (t_effects (tables v1)) (effect_key_of r k) = Some row" using row(1) v1(2) that by (simp add: ticking)
    with v1(1) v2 row show ?thesis by (simp add: reserve_effect_def effect_simps reserved_for_def)
  qed
  from reading_transaction [OF wp returns] obtain v where "db_transaction db ?body ?s = (Inr (Some x), v)" "tables v = tables ?s"
    by blast
  then show ?thesis by (intro exI [of _ v]) (simp add: effect_execute_def effect_simps ticking)
qed


end

text \<open>C21 (functional). Once a caller of the boundary has settled its result, every later caller of that effect key,
  type and request hash is given that result: its call returns exactly it, whatever its own operation is, which is not
  run, and changes no row. The callers before and in between, any number of them, interleave transaction by
  transaction, die, fail to commit or complete effects of their own; the later caller finds a database that answers.\<close>

theorem effect_replayed:
  assumes "effect_store db tables saved mem" "responsive_database db tables saved mem"
    and op: "\<And>w s r t. ec_operation (calls w) s = (r, t) \<Longrightarrow> t_effects (tables t) = t_effects (tables s)"
    and codec: "cd_load_result cd (cd_dump_result cd x) = Inr x"
    and "effects_ok (tables s\<^sub>0)" "(boundary_step db tx cd tables calls)\<^sup>*\<^sup>* (s\<^sub>0, \<lambda>_. Calling, []) (s, ph, runs)"
    and answered: "ph w = Answered (Inr x)"
    and settled: "settle_effect db tx cd (ec_request (calls w)) (ec_key (calls w)) (Inr x) s = (Inr x, t)"
    and later: "(boundary_step db tx cd tables calls)\<^sup>*\<^sup>* (t, ph(w := Finished), runs) (u, ph', runs')"
  shows "\<exists>v. tables v = tables u \<and> (\<forall>operation. effect_execute db tx cd (ec_request (calls w)) (ec_key (calls w))
    (ec_type (calls w)) (ec_hash (calls w)) operation u = (Inr x, v))"
proof -
  have "reservations_ok tables calls (s\<^sub>0, \<lambda>_. Calling, [])" using assms(5) by (simp add: reservations_ok_def unsettled_def)
  then have ok: "reservations_ok tables calls (s, ph, runs)"
    using effect_store.boundary_keeps [OF assms(1,6) _ op] by simp
  note stored = effect_store.settle_stores [OF assms(1) ok answered codec settled]
  have "reservations_ok tables calls (t, ph(w := Finished), runs)"
    using effect_store.settle_keeps(1) [OF assms(1) ok answered settled] .
  then have "completed_kept (tables t) (tables u)"
    using effect_store.boundary_keeps [OF assms(1) later _ op] by simp
  from stored_kept [OF stored this] show ?thesis
    using responsive_effects.stored_replays [OF responsive_effects.intro [OF assms(1,2)]]
    by (simp add: called_key_def)
qed

section \<open>Two callers of one key\<close>

type_synonym held_services = "(database_tables \<times> database_tables) services_scheme"

abbreviation held_db :: "held_services database" where
  "held_db \<equiv> memory_database services.more services.more_update"

interpretation services_place: database_place services.more services.more_update services.truncate
  by unfold_locales (simp_all add: services.truncate_def)

interpretation services_effects:
  effect_store held_db "\<lambda>s. fst (services.more s)" "\<lambda>s. snd (services.more s)" services.truncate
  by (intro effect_store.intro services_place.memory_database_laws effect_store_axioms.intro) simp

definition sample_invocation_row :: AIGatewayInvocationRow where
  "sample_invocation_row =
     \<lparr>gir_tenant_id = ''t'', gir_workspace_id = ''w'', gir_ai_invocation_id = ''ai1'', gir_idempotency_key = ''i'',
      gir_intent_fingerprint = ''f'', gir_state = ''Requested'', gir_request_payload = ''ai1'',
      gir_acknowledgement_payload = ''ai1'', gir_route_payload = None, gir_terminal_payload = None,
      gir_terminal_result_id = None, gir_terminal_error_id = None, gir_execution_owner = Some ''worker'',
      gir_execution_lease_expires_at = Some 100, gir_claim_generation = 1, gir_recovery_phase = ''claimed'',
      gir_terminal_intent_payload = None, gir_terminal_intent_owner = None, gir_terminal_intent_generation = None,
      gir_accepted_at = 0, gir_updated_at = 0\<rparr>"

definition sample_tables :: database_tables where
  "sample_tables = empty_tables\<lparr>t_invocations := [(Scoped ''t'' ''w'' ''ai1'', sample_invocation_row)]\<rparr>"

definition sample_services :: held_services where
  "sample_services = \<lparr>clock_feed = int, clock_reads = 0, id_feed = show_nat, id_draws = 0, \<dots> = (sample_tables, sample_tables)\<rparr>"

definition sample_answer :: ProviderResult where
  "sample_answer = \<lparr>prv_content = ''hello'', prv_usage = None, prv_confidence = Dec 1 0\<rparr>"

definition sample_call :: "nat \<Rightarrow> held_services effect_call" where
  "sample_call w = \<lparr>ec_request = sample_request, ec_key = ''ai1:provider:1'', ec_type = ''provider_invoke'', ec_hash = ''h'',
     ec_operation = ret sample_answer\<rparr>"

definition advanced :: "held_services callers \<Rightarrow> nat list \<Rightarrow> held_services callers" where
  "advanced c ws = foldl (\<lambda>c w. advance held_db sample_tx sample_codecs sample_call w c) c ws"

definition scheduled :: "nat list \<Rightarrow> held_services callers" where
  "scheduled ws = advanced (sample_services, \<lambda>_. Calling, []) ws"

lemma advanced_steps:
  "(boundary_step held_db sample_tx sample_codecs (\<lambda>s. fst (services.more s)) sample_call)\<^sup>*\<^sup>* c (advanced c ws)"
  unfolding advanced_def
  by (induction ws rule: rev_induct) (auto simp del: advance.simps intro: rtranclp.rtrancl_into_rtrancl Advance)

lemmas scheduled_steps = advanced_steps [of "(sample_services, \<lambda>_. Calling, [])", folded scheduled_def]

lemma scheduled_runs: "snd (snd (scheduled [0, 1, 0, 1, 0, 0])) = [Scoped ''t'' ''w'' ''ai1:provider:1'']"
  by code_simp

lemma sample_effects_ok: "effects_ok (fst (services.more sample_services))"
  by (simp add: sample_services_def sample_tables_def empty_tables_def effects_ok_def keyed_def)

theorem effect_at_most_once_witness:
  "snd (snd (scheduled [0, 1, 0, 1, 0, 0])) = [Scoped ''t'' ''w'' ''ai1:provider:1'']
   \<and> dispatched_effect (fst (services.more (fst (scheduled [0, 1, 0, 1, 0, 0])))) (Scoped ''t'' ''w'' ''ai1:provider:1'')
   \<and> distinct (snd (snd (scheduled [0, 1, 0, 1, 0, 0, 2, 3, 2, 4])))"
proof -
  have op: "ec_operation (sample_call w) s = (r, t) \<Longrightarrow> t_effects (fst (services.more t)) = t_effects (fst (services.more s))"
    for w s r t by (simp add: sample_call_def effect_simps)
  have once: "distinct (snd (snd (scheduled ws)))
      \<and> (\<forall>k \<in> set (snd (snd (scheduled ws))). dispatched_effect (fst (services.more (fst (scheduled ws)))) k)" for ws
  proof -
    obtain s ph runs where c: "scheduled ws = (s, ph, runs)" by (metis prod_cases3)
    have steps: "(boundary_step held_db sample_tx sample_codecs (\<lambda>s. fst (services.more s)) sample_call)\<^sup>*\<^sup>*
        (sample_services, \<lambda>_. Calling, []) (s, ph, runs)"
      using scheduled_steps [of ws] c by simp
    show ?thesis
      using effect_at_most_once [where calls = sample_call, OF services_effects.effect_store_axioms _ sample_effects_ok _ _ steps] op c by simp
  qed
  show ?thesis using scheduled_runs once [of "[0, 1, 0, 1, 0, 0]"] once [of "[0, 1, 0, 1, 0, 0, 2, 3, 2, 4]"] by simp
qed

text \<open>Caller 0 has its answer while caller 1 is fenced off; others call in between.\<close>

definition answered_call :: "held_services callers" where
  "answered_call = scheduled [0, 1, 0, 1, 0]"

definition settled_call :: "(exn + ProviderResult) \<times> held_services" where
  "settled_call = settle_effect held_db sample_tx sample_codecs sample_request ''ai1:provider:1'' (Inr sample_answer)
     (fst answered_call)"

definition later_callers :: "held_services callers" where
  "later_callers = advanced (snd settled_call, (fst (snd answered_call))(0 := Finished), snd (snd answered_call)) [2, 3, 2, 4]"

lemma settled_call_runs:
  "(case fst (snd answered_call) 0 of Answered (Inr x) \<Rightarrow> x = sample_answer | _ \<Rightarrow> False)" "fst settled_call = Inr sample_answer"
  by code_simp+

lemma responsive_services:
  "responsive_database held_db (\<lambda>s. fst (services.more s)) (\<lambda>s. snd (services.more s)) services.truncate"
  by (rule services_place.memory_responds)

theorem effect_replayed_witness:
  "\<exists>v. fst (services.more v) = fst (services.more (fst later_callers))
     \<and> effect_execute held_db sample_tx sample_codecs sample_request ''ai1:provider:1'' ''provider_invoke'' ''h''
          (raise TimeoutError) (fst later_callers) = (Inr sample_answer, v)
     \<and> effect_execute held_db sample_tx sample_codecs sample_request ''ai1:provider:1'' ''provider_invoke'' ''h''
          (ret (sample_answer\<lparr>prv_content := ''other''\<rparr>)) (fst later_callers) = (Inr sample_answer, v)"
proof -
  have op: "ec_operation (sample_call w) s = (r, t) \<Longrightarrow> t_effects (fst (services.more t)) = t_effects (fst (services.more s))"
    for w s r t by (simp add: sample_call_def effect_simps)
  have codec: "cd_load_result sample_codecs (cd_dump_result sample_codecs sample_answer) = Inr sample_answer"
    by (simp add: sample_codecs_def sample_answer_def)
  obtain s ph runs where c: "answered_call = (s, ph, runs)" by (metis prod_cases3)
  have before: "(boundary_step held_db sample_tx sample_codecs (\<lambda>s. fst (services.more s)) sample_call)\<^sup>*\<^sup>*
      (sample_services, \<lambda>_. Calling, []) (s, ph, runs)"
    using scheduled_steps [of "[0, 1, 0, 1, 0]"] c by (simp add: answered_call_def)
  have ph: "ph 0 = Answered (Inr sample_answer)"
    using settled_call_runs(1) unfolding c by (auto split: phase.splits sum.splits)
  have settled: "settle_effect held_db sample_tx sample_codecs (ec_request (sample_call 0)) (ec_key (sample_call 0))
      (Inr sample_answer) s = (Inr sample_answer, snd settled_call)"
    using settled_call_runs(2) c by (simp add: settled_call_def sample_call_def prod_eq_iff)
  obtain u ph' runs' where u: "later_callers = (u, ph', runs')" by (metis prod_cases3)
  have later: "(boundary_step held_db sample_tx sample_codecs (\<lambda>s. fst (services.more s)) sample_call)\<^sup>*\<^sup>*
      (snd settled_call, ph(0 := Finished), runs) (u, ph', runs')"
    using advanced_steps [of "(snd settled_call, ph(0 := Finished), runs)" "[2, 3, 2, 4]"] u [unfolded later_callers_def c]
    by simp
  have "\<exists>v. fst (services.more v) = fst (services.more u) \<and> (\<forall>operation. effect_execute held_db sample_tx sample_codecs
      (ec_request (sample_call 0)) (ec_key (sample_call 0)) (ec_type (sample_call 0)) (ec_hash (sample_call 0))
      operation u = (Inr sample_answer, v))"
    by (rule effect_replayed [OF services_effects.effect_store_axioms responsive_services _ codec sample_effects_ok before ph
        settled later]) (rule op)
  then show ?thesis by (simp add: u sample_call_def) blast
qed

end
