(* ===== verification/Durable_Accounting.thy ===== *)
theory Durable_Accounting
  imports Durable_Gateway Durable_Boundary Engine_Orders
begin

text \<open>
  What the durable Gateway store guarantees along any run of whole operations by any number of processes:
  a usage event is charged once and the budget row of an invocation carries the sum of its ledger, and once a claim
  has been granted its generation is not taken back, so that the operations with a fence refuse an earlier one.

  \<open>gateway_le\<close> is the order every operation respects. \<open>store_step\<close> is one whole operation of one process, or a
  switch to another process: the tables are shared, the rest of the state is its own. Operations that overlap at
  PostgreSQL's default isolation level are the subject of \<open>Durable_Interleaving\<close>.
\<close>

section \<open>Tables of the store\<close>

definition same_scope :: "AIGatewayBudgetRow \<Rightarrow> AIGatewayUsageLedgerRow \<Rightarrow> bool" where
  "same_scope b u \<longleftrightarrow> gur_tenant_id u = gbr_tenant_id b \<and> gur_workspace_id u = gbr_workspace_id b
     \<and> gur_ai_invocation_id u = gbr_ai_invocation_id b"

definition ledger_total :: "database_tables \<Rightarrow> (AIGatewayUsageLedgerRow \<Rightarrow> bool) \<Rightarrow> rat" where
  "ledger_total D p = sum_list (map (dval \<circ> gur_cost_amount) (filter p (rows (t_usage D))))"

definition ledger_ok :: "database_tables \<Rightarrow> bool" where
  "ledger_ok D \<longleftrightarrow> keyed budget_key (t_budgets D) \<and> keyed usage_row_key (t_usage D)
     \<and> (\<forall>b \<in> set (rows (t_budgets D)). \<forall>a. gbr_actual_amount b = Some a \<longrightarrow> dval a = ledger_total D (same_scope b))"

definition claims_ok :: "database_tables \<Rightarrow> bool" where
  "claims_ok D \<longleftrightarrow> keyed invocation_key (t_invocations D) \<and> distinct (map gir_ai_invocation_id (rows (t_invocations D)))"

definition claimed_at :: "database_tables \<Rightarrow> string \<Rightarrow> int \<Rightarrow> bool" where
  "claimed_at D i g \<longleftrightarrow> (\<exists>row \<in> set (rows (t_invocations D)). gir_ai_invocation_id row = i \<and> g \<le> gir_claim_generation row)"

definition gateway_rows_ok :: "database_tables \<Rightarrow> bool" where
  "gateway_rows_ok D \<longleftrightarrow> claims_ok D \<and> ledger_ok D"

definition gateway_le :: "database_tables \<Rightarrow> database_tables \<Rightarrow> bool" where
  "gateway_le D E \<longleftrightarrow> (gateway_rows_ok D \<longrightarrow> gateway_rows_ok E \<and> (\<forall>i g. claimed_at D i g \<longrightarrow> claimed_at E i g)
     \<and> (\<forall>k row. map_of (t_usage D) k = Some row \<longrightarrow> map_of (t_usage E) k = Some row))"

lemma gateway_le_refl [simp]: "gateway_le D D"
  by (simp add: gateway_le_def)

lemma gateway_le_trans: "gateway_le D E \<Longrightarrow> gateway_le E F \<Longrightarrow> gateway_le D F"
  unfolding gateway_le_def by blast

lemma gateway_le_same:
  "t_invocations E = t_invocations D \<Longrightarrow> t_budgets E = t_budgets D \<Longrightarrow> t_usage E = t_usage D \<Longrightarrow> gateway_le D E"
  by (simp add: gateway_le_def gateway_rows_ok_def claims_ok_def ledger_ok_def ledger_total_def claimed_at_def)

lemma rows_rewrite [simp]: "rows (rewrite p f T) = map (\<lambda>r. if p r then f r else r) (rows T)"
  by (induction T) (auto simp: rows_def rewrite_def)

lemma rows_put_new: "map_of T k = None \<Longrightarrow> rows (od_put k r T) = rows T @ [r]"
  by (simp add: rows_def od_put_new)

lemma set_rows_put: "r' \<in> set (rows (od_put k r T)) \<Longrightarrow> r' = r \<or> r' \<in> set (rows T)"
  using set_od_put_subset [of k r T] by (auto simp: rows_def)

subsection \<open>Single writes\<close>

text \<open>Writes to an invocation row keep its identity and never lower its generation.\<close>

lemma invocation_rewrite:
  assumes "\<And>r. p r \<Longrightarrow> invocation_key (f r) = invocation_key r \<and> gir_ai_invocation_id (f r) = gir_ai_invocation_id r
     \<and> gir_claim_generation r \<le> gir_claim_generation (f r)"
  shows "gateway_le D (D\<lparr>t_invocations := rewrite p f (t_invocations D)\<rparr>)"
  unfolding gateway_le_def
proof
  assume ok: "gateway_rows_ok D"
  let ?E = "D\<lparr>t_invocations := rewrite p f (t_invocations D)\<rparr>"
  have ids: "(\<lambda>r. gir_ai_invocation_id (if p r then f r else r)) = gir_ai_invocation_id"
    using assms by (auto simp: fun_eq_iff)
  have "keyed invocation_key (rewrite p f (t_invocations D))"
    by (rule keyed_rewrite) (use ok assms in \<open>auto simp: gateway_rows_ok_def claims_ok_def\<close>)
  with ok ids have "gateway_rows_ok ?E" by (simp add: gateway_rows_ok_def claims_ok_def ledger_ok_def ledger_total_def comp_def)
  moreover have "claimed_at ?E i g" if claimed: "claimed_at D i g" for i g
  proof -
    from claimed obtain r where r: "r \<in> set (rows (t_invocations D))" "gir_ai_invocation_id r = i" "g \<le> gir_claim_generation r"
      by (auto simp: claimed_at_def)
    let ?r = "if p r then f r else r"
    have "?r \<in> set (rows (t_invocations ?E))" using r(1) by auto
    moreover have "gir_ai_invocation_id ?r = i" "g \<le> gir_claim_generation ?r" using assms [of r] r by auto
    ultimately show ?thesis unfolding claimed_at_def by blast
  qed
  ultimately show "gateway_rows_ok ?E \<and> (\<forall>i g. claimed_at D i g \<longrightarrow> claimed_at ?E i g)
      \<and> (\<forall>k row. map_of (t_usage D) k = Some row \<longrightarrow> map_of (t_usage ?E) k = Some row)" by simp
qed

lemma invocation_insert:
  assumes "map_of (t_invocations D) (invocation_key r) = None" "gir_ai_invocation_id r \<notin> gir_ai_invocation_id ` set (rows (t_invocations D))"
  shows "gateway_le D (D\<lparr>t_invocations := od_put (invocation_key r) r (t_invocations D)\<rparr>)"
  using assms
  by (auto simp: gateway_le_def gateway_rows_ok_def claims_ok_def ledger_ok_def ledger_total_def claimed_at_def rows_put_new)

text \<open>Writes to a budget row keep its scope and its actual amount.\<close>

lemma budget_put:
  assumes "\<And>a. gbr_actual_amount r = Some a \<Longrightarrow> gateway_rows_ok D \<Longrightarrow> dval a = ledger_total D (same_scope r)"
    and "budget_key r = k"
  shows "gateway_le D (D\<lparr>t_budgets := od_put k r (t_budgets D)\<rparr>)"
  using assms
  by (auto simp: gateway_le_def gateway_rows_ok_def claims_ok_def ledger_ok_def ledger_total_def claimed_at_def dest: set_rows_put)

lemma budget_rewrite:
  assumes "\<And>r. p r \<Longrightarrow> budget_key (f r) = budget_key r \<and> gbr_actual_amount (f r) = gbr_actual_amount r"
  shows "gateway_le D (D\<lparr>t_budgets := rewrite p f (t_budgets D)\<rparr>)"
  unfolding gateway_le_def
proof
  assume ok: "gateway_rows_ok D"
  let ?E = "D\<lparr>t_budgets := rewrite p f (t_budgets D)\<rparr>"
  have scope: "same_scope (f r) = same_scope r" if "p r" for r
    using assms [OF that] by (auto simp: same_scope_def budget_key_def fun_eq_iff)
  have "keyed budget_key (rewrite p f (t_budgets D))"
    by (rule keyed_rewrite) (use ok assms in \<open>auto simp: gateway_rows_ok_def ledger_ok_def\<close>)
  with ok assms scope have "gateway_rows_ok ?E" by (auto simp: gateway_rows_ok_def claims_ok_def ledger_ok_def ledger_total_def)
  then show "gateway_rows_ok ?E \<and> (\<forall>i g. claimed_at D i g \<longrightarrow> claimed_at ?E i g)
      \<and> (\<forall>k row. map_of (t_usage D) k = Some row \<longrightarrow> map_of (t_usage ?E) k = Some row)" by (simp add: claimed_at_def)
qed

lemma new_budget_row_simps [simp]:
  "budget_key (new_budget_row i tenant workspace amount pricing tlim wlim e) = Scoped tenant workspace i"
  "gbr_actual_amount (new_budget_row i tenant workspace amount pricing tlim wlim e) = None"
  by (simp_all add: budget_key_def new_budget_row_def)

text \<open>Charging: the event enters the ledger and the total of the ledger goes to the budget row.\<close>

lemma usage_charge:
  assumes total: "dval d = ledger_total (D\<lparr>t_usage := od_setdefault (usage_row_key u) u (t_usage D)\<rparr>) (invocation_usage v i)"
    and scope: "\<And>b. invocation_budget v i b \<Longrightarrow> same_scope b = invocation_usage v i"
    and other: "\<And>b. \<not> invocation_budget v i b \<Longrightarrow> \<not> same_scope b u"
    and amount: "\<And>b. budget_key (f b) = budget_key b" "\<And>b. gbr_actual_amount (f b) = Some d"
  shows "gateway_le D (D\<lparr>t_usage := od_setdefault (usage_row_key u) u (t_usage D),
     t_budgets := rewrite (invocation_budget v i) f (t_budgets D)\<rparr>)"
  unfolding gateway_le_def
proof
  assume ok: "gateway_rows_ok D"
  let ?U = "od_setdefault (usage_row_key u) u (t_usage D)"
  let ?E = "D\<lparr>t_usage := ?U, t_budgets := rewrite (invocation_budget v i) f (t_budgets D)\<rparr>"
  have rows: "rows ?U = rows (t_usage D) \<or> rows ?U = rows (t_usage D) @ [u]"
    by (auto simp: od_setdefault_def rows_def split: option.splits)
  have same: "same_scope (f b) = same_scope b" for b
    using amount(1) [of b] by (auto simp: same_scope_def budget_key_def fun_eq_iff)
  have keyed: "keyed budget_key (rewrite (invocation_budget v i) f (t_budgets D))" "keyed usage_row_key ?U"
    using ok amount(1) by (auto simp: gateway_rows_ok_def ledger_ok_def intro: keyed_rewrite)
  have "dval a = ledger_total ?E (same_scope b')"
    if b': "b' \<in> set (rows (t_budgets ?E))" and a: "gbr_actual_amount b' = Some a" for b' a
  proof -
    from b' obtain b where b: "b \<in> set (rows (t_budgets D))" "b' = (if invocation_budget v i b then f b else b)" by auto
    show ?thesis
    proof (cases "invocation_budget v i b")
      case True
      with a b amount(2) [of b] same [of b] scope [OF True] total show ?thesis by (simp add: ledger_total_def)
    next
      case False
      have "dval a = ledger_total D (same_scope b)" using ok a b False by (simp add: gateway_rows_ok_def ledger_ok_def)
      with rows other [OF False] b False show ?thesis by (auto simp: ledger_total_def)
    qed
  qed
  with keyed ok have "gateway_rows_ok ?E" by (auto simp: gateway_rows_ok_def claims_ok_def ledger_ok_def)
  then show "gateway_rows_ok ?E \<and> (\<forall>i g. claimed_at D i g \<longrightarrow> claimed_at ?E i g)
      \<and> (\<forall>k row. map_of (t_usage D) k = Some row \<longrightarrow> map_of (t_usage ?E) k = Some row)" by (simp add: claimed_at_def)
qed

section \<open>Operations\<close>

locale gateway_db =
  durable_database db "\<lambda>s. tb (gateway_state.more s)" "\<lambda>s. bk (gateway_state.more s)" gateway_state.truncate
  for db :: "('z gateway_state_scheme) database" and tb :: "'z \<Rightarrow> database_tables" and bk :: "'z \<Rightarrow> database_tables"
begin

abbreviation tables_of where
  "tables_of s \<equiv> tb (gateway_state.more s)"

abbreviation tx_wp where
  "tx_wp \<equiv> wp gateway_state.truncate (\<lambda>s. tb (gateway_state.more s)) (\<lambda>s. bk (gateway_state.more s))"

abbreviation keeps_store where
  "keeps_store m \<equiv> evolves (\<lambda>s t. gateway_le (tables_of s) (tables_of t)) m"

lemma clock_wp: "(\<And>x n. Q x (M\<lparr>clock_reads := n\<rparr>) D) \<Longrightarrow> tx_wp clock_now Q M D"
  by (auto simp: wp_def effect_simps gateway_state.truncate_def)

lemma hold_wp: "Q () (M\<lparr>invocations := od_put i v (invocations M)\<rparr>) D \<Longrightarrow> tx_wp (hold_invocation i v) Q M D"
  by (auto simp: wp_def hold_invocation_def effect_simps gateway_state.truncate_def)

lemmas gateway_rules = wp_rules locking clock_wp hold_wp invocation_rows.step_rules budget_rows.step_rules
  usage_rows.step_rules attempt_rows.step_rules cache_rows.step_rules

lemma memory_only:
  "keeps_store clock_now" "keeps_store (hold_invocation i v)" "keeps_store (release_reservation i st)" "keeps_store (expire_local i)"
  "(\<And>s. gateway_state.more (f s) = gateway_state.more s) \<Longrightarrow> keeps_store (upd f)"
  by (auto simp: evolves_def effect_simps hold_invocation_def release_reservation_def expire_local_def split: option.splits)

lemma transaction_respects:
  assumes "\<And>M D. tx_wp body (\<lambda>_ _ E. gateway_le D E) M D"
  shows "keeps_store (db_transaction db body)"
  unfolding evolves_def
proof
  fix s
  obtain r t where "db_transaction db body s = (r, t)" by (metis surj_pair)
  from transaction(2) [OF assms this] this show "gateway_le (tables_of s) (tables_of (snd (db_transaction db body s)))" by auto
qed

end

sublocale gateway_db \<subseteq> store_order: evolution "\<lambda>s t. gateway_le (tb (gateway_state.more s)) (tb (gateway_state.more t))"
  by unfold_locales (auto intro: gateway_le_trans)

context gateway_db
begin

lemma load_respects: "keeps_store (pg_load db cd i)"
  unfolding pg_load_def
  by (intro store_order.rules transaction_respects memory_only gateway_rules) auto

lemma invocation_updates:
  "keeps_store (pg_claim_execution db cd i owner now lease)" "keeps_store (pg_release_execution db i owner g)"
  "keeps_store (pg_renew_execution db i owner g now lease)" "keeps_store (pg_checkpoint db cd v)"
  "keeps_store (pg_checkpoint_terminal_intent db cd v)" "keeps_store (pg_assert_execution_owner db i owner g)"
  unfolding pg_claim_execution_def pg_release_execution_def pg_renew_execution_def pg_checkpoint_def
    pg_checkpoint_terminal_intent_def pg_assert_execution_owner_def Let_def
  by (intro store_order.rules transaction_respects memory_only gateway_rules;
      auto simp: invocation_key_def checkpointed_row_def intro!: invocation_rewrite)+

lemma flush_expired_wp:
  "tx_wp (flush_rows (\<lambda>row. tbl_flush (db_budgets db) (row\<lparr>gbr_state := st, gbr_released_at := dt,
      gbr_release_reason := why\<rparr>)) found)
    (\<lambda>_ _ E. (\<forall>row \<in> set found. \<forall>a. gbr_actual_amount row = Some a \<longrightarrow> dval a = ledger_total D (same_scope row))
       \<longrightarrow> gateway_le D E) M D"
proof (induction found arbitrary: M D)
  case Nil
  show ?case by (simp add: wp_pure)
next
  case (Cons row found)
  let ?new = "row\<lparr>gbr_state := st, gbr_released_at := dt, gbr_release_reason := why\<rparr>"
  let ?D = "D\<lparr>t_budgets := od_put (budget_key ?new) ?new (t_budgets D)\<rparr>"
  have scope: "same_scope ?new = same_scope row" by (auto simp: same_scope_def fun_eq_iff)
  have le: "gateway_le D ?D" if "\<forall>a. gbr_actual_amount row = Some a \<longrightarrow> dval a = ledger_total D (same_scope row)"
    by (rule budget_put) (use that scope in simp_all)
  have total: "ledger_total ?D p = ledger_total D p" for p by (simp add: ledger_total_def)
  show ?case
    unfolding flush_rows.simps
    by (intro wp_bnd budget_rows.step_rules wp_mono [OF Cons.IH]) (auto simp: total intro: gateway_le_trans [OF le])
qed

lemma reserve_respects: "keeps_store (pg_reserve db i tenant workspace amount now pricing)"
  unfolding pg_reserve_def Let_def
  by (intro store_order.rules transaction_respects memory_only gateway_rules) (auto intro!: budget_put)

lemma budget_updates: "keeps_store (pg_release db cd i st)" "keeps_store (pg_pending_reconciliation db)"
  unfolding pg_release_def pg_pending_reconciliation_def
  by (intro store_order.rules transaction_respects memory_only gateway_rules load_respects;
      auto simp: budget_key_def intro!: budget_rewrite)+

lemma expired_respects: "keeps_store (pg_release_expired db now)"
proof -
  have "keeps_store (flush_rows (\<lambda>row. expire_local (gbr_ai_invocation_id row)) found)" for found
    by (induction found) (auto intro: store_order.rules memory_only)
  moreover have "tx_wp (bnd (tbl_select (db_budgets db) (expired_row now)) (\<lambda>found.
        bnd (flush_rows (\<lambda>row. tbl_flush (db_budgets db) (row\<lparr>gbr_state := ''expired'', gbr_released_at := Some now,
               gbr_release_reason := Some ''expired''\<rparr>)) found) (\<lambda>_. ret found))) (\<lambda>_ _ E. gateway_le D E) M D" for M D
  proof (intro gateway_rules wp_mono [OF flush_expired_wp])
    fix found E
    assume found: "mset found = mset (filter (expired_row now) (rows (t_budgets D)))"
      and le: "(\<forall>row \<in> set found. \<forall>a. gbr_actual_amount row = Some a \<longrightarrow> dval a = ledger_total D (same_scope row))
        \<longrightarrow> gateway_le D E"
    have "set found \<subseteq> set (rows (t_budgets D))" using mset_eq_setD [OF found] by auto
    with le show "gateway_le D E" by (cases "gateway_rows_ok D") (auto simp: gateway_rows_ok_def ledger_ok_def gateway_le_def)
  qed
  ultimately show ?thesis
    unfolding pg_release_expired_def by (intro store_order.rules transaction_respects)
qed

lemma usage_wp: "tx_wp (usage_transaction db cd v i u cost k kind fin n claim now) (\<lambda>_ _ E. gateway_le D E) M D"
proof -
  have scope: "invocation_budget v i b \<Longrightarrow> same_scope b = invocation_usage v i" for b
    by (auto simp: invocation_budget_def same_scope_def invocation_usage_def fun_eq_iff)
  have other: "\<not> invocation_budget v i b \<Longrightarrow> \<not> same_scope b (new_usage_row v i k n kind p c fin now)" for b kind p c
    by (auto simp: invocation_budget_def same_scope_def new_usage_row_def)
  show ?thesis
    unfolding usage_transaction_def Let_def pg_fence_option_def pg_fence_def
    by (intro gateway_rules) (auto simp: ledger_total_def scope other budget_key_def settled_budget_def intro!: usage_charge)
qed

lemma usage_respects:
  "keeps_store (pg_record_usage db cd i u cost k kind fin n claim)" "keeps_store (pg_reconcile db cd i actual u claim)"
proof -
  show "keeps_store (pg_record_usage db cd i u cost k kind fin n claim)" for u cost k kind fin n claim
    unfolding pg_record_usage_def
    by (intro store_order.rules transaction_respects usage_wp load_respects memory_only) simp
  then show "keeps_store (pg_reconcile db cd i actual u claim)"
    unfolding pg_reconcile_def Let_def
    by (intro store_order.rules transaction_respects load_respects gateway_rules) simp
qed

lemma other_updates:
  "keeps_store (pg_record_attempt db cd i n model st u cost)" "keeps_store (pg_load_provider_effect db cd i k)"
  "keeps_store (pg_reserve_provider_effect db cd i k n model owner g)" "keeps_store (pg_record_provider_effect db cd i k x claim)"
  "keeps_store (pg_cached db cd tenant workspace key now)" "keeps_store (pg_cache_content db cd tenant workspace key c)"
  "keeps_store (pg_invalidate_cache db tenant workspace key')"
  unfolding pg_record_attempt_def pg_load_provider_effect_def pg_reserve_provider_effect_def pg_record_provider_effect_def
    pg_cached_def pg_cache_content_def pg_invalidate_cache_def Let_def pg_fence_option_def pg_fence_def
  by (intro store_order.rules transaction_respects memory_only gateway_rules load_respects; auto intro!: gateway_le_same)+

lemma accept_respects:
  assumes fresh: "i \<notin> gir_ai_invocation_id ` set (rows (t_invocations (tables_of s)))"
    and run: "pg_accept db tx cd r i ack now s = (x, t)"
  shows "gateway_le (tables_of s) (tables_of t)"
proof -
  let ?D = "tables_of s"
  let ?body = "accept_transaction db tx cd r (new_invocation_row tx r i (dump_invocation cd (new_invocation r i ack now)) now)"
  have row: "invocation_key (new_invocation_row tx r i p now) = Scoped (rq_tenant_id r) (rq_workspace_id r) i"
      "gir_ai_invocation_id (new_invocation_row tx r i p now) = i" for p
    by (simp_all add: invocation_key_def new_invocation_row_def)
  have insert: "gateway_le ?D (?D\<lparr>t_invocations := od_put (Scoped (rq_tenant_id r) (rq_workspace_id r) i)
      (new_invocation_row tx r i p now) (t_invocations ?D)\<rparr>)"
    if "map_of (t_invocations ?D) (Scoped (rq_tenant_id r) (rq_workspace_id r) i) = None" for p
    using invocation_insert [of ?D "new_invocation_row tx r i p now"] that fresh by (simp add: row)
  have body: "tx_wp ?body (\<lambda>_ _ E. gateway_le ?D E) (gateway_state.truncate s) ?D"
    unfolding accept_transaction_def by (intro gateway_rules) (auto simp: row insert)
  obtain y u where u: "db_transaction db ?body s = (y, u)" by (metis surj_pair)
  have "tables_of t = tables_of u"
    using run by (cases y) (auto simp: pg_accept_def Let_def hold_invocation_def effect_simps u split: option.splits)
  with transaction(2) [OF body u] show ?thesis by auto
qed

end

section \<open>Runs of the store\<close>

text \<open>One operation of one process, taking effect as a whole, or a switch to another one, which sees the same tables.
  Fresh identifiers are what \<^verbatim>\<open>IdentifierFactory\<close> promises. The statements of two operations do not interleave here:
  what that hides of the fences and of the total of the ledger is in \<open>Durable_Interleaving\<close>.\<close>

inductive store_step ::
  "('z gateway_state_scheme) database \<Rightarrow> text_services \<Rightarrow> gateway_codecs \<Rightarrow> ('z \<Rightarrow> database_tables)
   \<Rightarrow> 'z gateway_state_scheme \<Rightarrow> 'z gateway_state_scheme \<Rightarrow> bool"
  for db tx cd tb
where
  Accept: "i \<notin> gir_ai_invocation_id ` set (rows (t_invocations (tb (gateway_state.more s)))) \<Longrightarrow>
    pg_accept db tx cd r i ack now s = (x1, t) \<Longrightarrow> store_step db tx cd tb s t"
| Load: "pg_load db cd i s = (x2, t) \<Longrightarrow> store_step db tx cd tb s t"
| Claim: "pg_claim_execution db cd i owner now lease s = (x3, t) \<Longrightarrow> store_step db tx cd tb s t"
| Release_Claim: "pg_release_execution db i owner g s = (x4, t) \<Longrightarrow> store_step db tx cd tb s t"
| Renew: "pg_renew_execution db i owner g now lease s = (x5, t) \<Longrightarrow> store_step db tx cd tb s t"
| Assert: "pg_assert_execution_owner db i owner g s = (x6, t) \<Longrightarrow> store_step db tx cd tb s t"
| Checkpoint: "pg_checkpoint db cd v s = (x7, t) \<Longrightarrow> store_step db tx cd tb s t"
| Intent: "pg_checkpoint_terminal_intent db cd v s = (x8, t) \<Longrightarrow> store_step db tx cd tb s t"
| Reserve: "pg_reserve db i tenant workspace amount now pricing s = (x9, t) \<Longrightarrow> store_step db tx cd tb s t"
| Reconcile: "pg_reconcile db cd i actual usg claim s = (x10, t) \<Longrightarrow> store_step db tx cd tb s t"
| Record_Usage: "pg_record_usage db cd i usg cost k kind fin n claim s = (x11, t) \<Longrightarrow> store_step db tx cd tb s t"
| Pending: "pg_pending_reconciliation db s = (x12, t) \<Longrightarrow> store_step db tx cd tb s t"
| Release: "pg_release db cd i st s = (x13, t) \<Longrightarrow> store_step db tx cd tb s t"
| Expire: "pg_release_expired db now s = (x14, t) \<Longrightarrow> store_step db tx cd tb s t"
| Record_Attempt: "pg_record_attempt db cd i m model st u cost s = (x15, t) \<Longrightarrow> store_step db tx cd tb s t"
| Load_Effect: "pg_load_provider_effect db cd i k s = (x16, t) \<Longrightarrow> store_step db tx cd tb s t"
| Reserve_Effect: "pg_reserve_provider_effect db cd i k m model owner g s = (x17, t) \<Longrightarrow> store_step db tx cd tb s t"
| Record_Effect: "pg_record_provider_effect db cd i k result claim s = (x18, t) \<Longrightarrow> store_step db tx cd tb s t"
| Cached: "pg_cached db cd tenant workspace key now s = (x19, t) \<Longrightarrow> store_step db tx cd tb s t"
| Cache: "pg_cache_content db cd tenant workspace key c s = (x20, t) \<Longrightarrow> store_step db tx cd tb s t"
| Invalidate: "pg_invalidate_cache db tenant workspace key' s = (x21, t) \<Longrightarrow> store_step db tx cd tb s t"
| Switch: "tb (gateway_state.more t) = tb (gateway_state.more s) \<Longrightarrow> store_step db tx cd tb s t"

context gateway_db
begin

lemma step_le: "store_step db tx cd tb s t \<Longrightarrow> gateway_le (tables_of s) (tables_of t)"
  by (induction rule: store_step.induct)
    (fastforce dest: accept_respects evolvesD [OF load_respects] evolvesD [OF invocation_updates(1)] evolvesD [OF invocation_updates(2)]
      evolvesD [OF invocation_updates(3)] evolvesD [OF invocation_updates(4)] evolvesD [OF invocation_updates(5)]
      evolvesD [OF invocation_updates(6)] evolvesD [OF reserve_respects] evolvesD [OF usage_respects(1)]
      evolvesD [OF usage_respects(2)] evolvesD [OF budget_updates(1)] evolvesD [OF budget_updates(2)]
      evolvesD [OF expired_respects] evolvesD [OF other_updates(1)] evolvesD [OF other_updates(2)]
      evolvesD [OF other_updates(3)] evolvesD [OF other_updates(4)] evolvesD [OF other_updates(5)]
      evolvesD [OF other_updates(6)] evolvesD [OF other_updates(7)])+

lemma run_le: "(store_step db tx cd tb)\<^sup>*\<^sup>* s t \<Longrightarrow> gateway_le (tables_of s) (tables_of t)"
  by (induction rule: rtranclp_induct) (auto intro: gateway_le_trans step_le)

end

text \<open>Along any run of whole operations a recorded usage event is never changed or charged again, and the budget row of
  every invocation that has been charged carries exactly the sum of its ledger.\<close>

theorem ledger_charged_once:
  assumes "gateway_db db tb bk" "gateway_rows_ok (tb (gateway_state.more s))" "(store_step db tx cd tb)\<^sup>*\<^sup>* s t"
  shows "(\<forall>k row. map_of (t_usage (tb (gateway_state.more s))) k = Some row \<longrightarrow>
      map_of (t_usage (tb (gateway_state.more t))) k = Some row)
    \<and> (\<forall>b \<in> set (rows (t_budgets (tb (gateway_state.more t)))). \<forall>a. gbr_actual_amount b = Some a \<longrightarrow>
      dval a = ledger_total (tb (gateway_state.more t)) (same_scope b))"
  using gateway_db.run_le [OF assms(1,3)] assms(2)
  by (simp_all add: gateway_le_def gateway_rows_ok_def ledger_ok_def)

section \<open>Superseded claims\<close>

definition superseded :: "database_tables \<Rightarrow> string \<Rightarrow> int \<Rightarrow> bool" where
  "superseded D i g \<longleftrightarrow> (\<forall>row \<in> set (rows (t_invocations D)). gir_ai_invocation_id row = i \<longrightarrow> g < gir_claim_generation row)"

lemma claimed_superseded:
  assumes "claims_ok D" "claimed_at D i g'" "g < g'"
  shows "superseded D i g"
  unfolding superseded_def
proof (intro ballI impI)
  fix row assume row: "row \<in> set (rows (t_invocations D))" "gir_ai_invocation_id row = i"
  from assms(2) obtain q where q: "q \<in> set (rows (t_invocations D))" "gir_ai_invocation_id q = i" "g' \<le> gir_claim_generation q"
    by (auto simp: claimed_at_def)
  have "inj_on gir_ai_invocation_id (set (rows (t_invocations D)))"
    using assms(1) by (simp add: claims_ok_def distinct_map)
  with row q have "row = q" by (auto dest: inj_onD)
  with q(3) assms(3) show "g < gir_claim_generation row" by simp
qed

lemma refused_after:
  assumes "evolves (\<lambda>s t. tables t = tables s) m" "\<And>x t. tables t = tables s \<Longrightarrow> refused tables (f x) t"
  shows "refused tables (bnd m f) s"
proof (cases "m s")
  case (Pair r t)
  with evolvesD [OF assms(1) Pair] assms(2) show ?thesis by (cases r) (auto simp: refused_def bnd_def)
qed

context gateway_db
begin

abbreviation no_write where
  "no_write m \<equiv> evolves (\<lambda>s t. tables_of t = tables_of s) m"

lemma reading:
  assumes "\<And>M D. tx_wp body (\<lambda>_ _ E. E = D) M D"
  shows "no_write (db_transaction db body)"
  unfolding evolves_def
proof
  fix s
  obtain r t where "db_transaction db body s = (r, t)" by (metis surj_pair)
  from transaction(2) [OF assms this] this show "tables_of (snd (db_transaction db body s)) = tables_of s" by auto
qed

lemma load_reads: "no_write (pg_load db cd i)" "no_write clock_now"
proof -
  show "no_write clock_now" by (auto simp: evolves_def effect_simps)
  have "no_write (db_transaction db (first_row (tbl_select (db_invocations db) (\<lambda>row. gir_ai_invocation_id row = i))))"
    by (intro reading gateway_rules) auto
  then show "no_write (pg_load db cd i)"
    unfolding pg_load_def evolves_def bnd_def
    by (auto simp: effect_simps hold_invocation_def split: prod.splits sum.splits option.splits) (metis snd_conv)+
qed

lemma claim_sets:
  assumes "pg_claim_execution db cd i owner now lease s = (Inr (Some g), t)"
  shows "claimed_at (tables_of t) i g"
proof -
  let ?f = "\<lambda>row. row\<lparr>gir_execution_owner := Some owner, gir_execution_lease_expires_at := Some (now + lease),
     gir_claim_generation := gir_claim_generation row + 1, gir_recovery_phase := ''claimed'', gir_updated_at := now\<rparr>"
  let ?m = "first_row (tbl_update (db_invocations db) (claimable i owner now) ?f)"
  have wp: "tx_wp ?m (\<lambda>x _ E. \<forall>row. x = Some row \<longrightarrow> row \<in> set (rows (t_invocations E)) \<and> gir_ai_invocation_id row = i) M D" for M D
    by (intro gateway_rules) (auto simp: claimable_def)
  obtain row u where "db_transaction db ?m s = (Inr (Some row), u)" "g = gir_claim_generation row" "tables_of t = tables_of u"
    using assms by (auto simp: pg_claim_execution_def hold_invocation_def elim!: bnd_InrE split: option.splits)
  with transaction(1) [OF wp this(1) refl] show ?thesis by (auto simp: claimed_at_def)
qed

lemma superseded_fence: "superseded D i g \<Longrightarrow> tx_wp (pg_fence db i owner g msg) (\<lambda>_ _ _. False) M D"
  unfolding pg_fence_def by (intro gateway_rules) (auto simp: superseded_def owned_row_def)

lemma superseded_owner:
  assumes "superseded (tables_of s) i g"
  shows "refused tables_of (pg_assert_execution_owner db i owner g) s"
proof -
  let ?m = "first_row (tbl_select (db_invocations db) (owned_row i owner g))"
  have wp: "tx_wp ?m (\<lambda>x _ E. E = tables_of s \<and> x = None) (gateway_state.truncate s) (tables_of s)"
    using assms by (intro gateway_rules) (auto simp: superseded_def owned_row_def)
  obtain r t where run: "db_transaction db ?m s = (r, t)" by (metis surj_pair)
  from transaction [OF wp run] run show ?thesis
    by (cases r) (auto simp: pg_assert_execution_owner_def refused_def effect_simps)
qed

lemma superseded_checkpoints:
  assumes "superseded (tables_of s) (inv_invocation_id v) (inv_claim_generation v)"
  shows "refused tables_of (pg_checkpoint db cd v) s" "refused tables_of (pg_checkpoint_terminal_intent db cd v) s"
proof -
  have none: "filter (\<lambda>row. P row \<and> same_invocation v row) (rows (t_invocations (tables_of s))) = []"
    "filter (same_invocation v) (rows (t_invocations (tables_of s))) = []" for P
    using assms by (auto simp: superseded_def same_invocation_def filter_empty_conv)
  show "refused tables_of (pg_checkpoint db cd v) s"
    unfolding pg_checkpoint_def by (intro refused_bnd refused_transaction gateway_rules) (auto simp: none)
  have "filter (intent_open e v) (rows (t_invocations (tables_of s))) = []" for e
    using none(2) by (auto simp: intent_open_def filter_empty_conv)
  then show "refused tables_of (pg_checkpoint_terminal_intent db cd v) s"
    unfolding pg_checkpoint_terminal_intent_def Let_def
    by (auto intro!: refused_raise refused_transaction gateway_rules)
qed

lemma superseded_writes:
  assumes "superseded (tables_of s) i g"
  shows "refused tables_of (pg_record_usage db cd i u cost k kind fin n (Some (owner, g))) s"
    "refused tables_of (pg_reserve_provider_effect db cd i k m model owner g) s"
    "refused tables_of (pg_record_provider_effect db cd i k result (Some (owner, g))) s"
proof -
  have fence: "tx_wp (bnd (pg_fence db i owner g msg) f) (\<lambda>_ _ _. False) M (tables_of t)"
    if "tables_of t = tables_of s" for msg f M t
    by (intro wp_bnd wp_mono [OF superseded_fence]) (use assms that in simp_all)
  have stop: "refused tables_of (db_transaction db (bnd (pg_fence db i owner g msg) f)) t"
    if "tables_of t = tables_of s" for msg f t
    by (intro refused_transaction fence that)
  show "refused tables_of (pg_record_usage db cd i u cost k kind fin n (Some (owner, g))) s"
    unfolding pg_record_usage_def usage_transaction_def Let_def pg_fence_option_def option.case prod.case
    by (intro refused_after load_reads refused_bnd stop) simp
  show "refused tables_of (pg_reserve_provider_effect db cd i k m model owner g) s"
    unfolding pg_reserve_provider_effect_def
    by (intro refused_after load_reads) (auto split: option.splits intro: refused_raise stop)
  show "refused tables_of (pg_record_provider_effect db cd i k result (Some (owner, g))) s"
    unfolding pg_record_provider_effect_def pg_fence_option_def option.case prod.case
    by (intro refused_after load_reads)
      (auto split: option.splits intro!: refused_raise(1) refused_after stop simp: evolves_def effect_simps)
qed

end

text \<open>A claim that was granted supersedes the earlier ones for good.\<close>

lemma superseded_after:
  assumes "gateway_db db tb bk" "gateway_rows_ok (tb (gateway_state.more s))"
    and "pg_claim_execution db cd i owner now lease s = (Inr (Some g), t)"
    and "(store_step db tx cd tb)\<^sup>*\<^sup>* t u" "old < g"
  shows "claims_ok (tb (gateway_state.more u))" "claimed_at (tb (gateway_state.more u)) i g"
    "superseded (tb (gateway_state.more u)) i old"
proof -
  have claim: "store_step db tx cd tb s t" using assms(3) by (rule Claim)
  have le: "gateway_le (tb (gateway_state.more s)) (tb (gateway_state.more t))"
    "gateway_le (tb (gateway_state.more t)) (tb (gateway_state.more u))"
    using gateway_db.step_le [OF assms(1) claim] gateway_db.run_le [OF assms(1,4)] by blast+
  then show "claims_ok (tb (gateway_state.more u))" "claimed_at (tb (gateway_state.more u)) i g"
    using gateway_db.claim_sets [OF assms(1,3)] assms(2) by (auto simp: gateway_le_def gateway_rows_ok_def)
  from claimed_superseded [OF this assms(5)] show "superseded (tb (gateway_state.more u)) i old" .
qed

section \<open>A takeover\<close>

type_synonym held_gateway = "(database_tables \<times> database_tables) gateway_state_scheme"

abbreviation gateway_held :: "held_gateway database" where
  "gateway_held \<equiv> memory_database gateway_state.more gateway_state.more_update"

interpretation gateway_place: database_place gateway_state.more gateway_state.more_update gateway_state.truncate
  by unfold_locales (simp_all add: gateway_state.truncate_def)

interpretation held_gateway: gateway_db gateway_held fst snd
  by (intro gateway_db.intro gateway_place.memory_database_laws)

definition takeover_codecs :: gateway_codecs where
  "takeover_codecs = sample_codecs\<lparr>cd_load_invocation := (\<lambda>_. Inr (new_invocation sample_request ''ai1'' sample_ack 0))\<rparr>"

definition takeover_start :: held_gateway where
  "takeover_start = gateway_state.extend (gateway_init (messaging_init int show_nat) (Dec 100 0) None) (sample_tables, sample_tables)"

text \<open>A second worker takes the invocation over; it reports the same usage event twice.\<close>

definition takeover_claimed :: "(exn + int option) \<times> held_gateway" where
  "takeover_claimed = pg_claim_execution gateway_held takeover_codecs ''ai1'' ''second'' 140 30
     (snd (pg_reserve gateway_held ''ai1'' ''t'' ''w'' (Dec 5 0) 0 None takeover_start))"

definition takeover_usage :: "decimal \<Rightarrow> held_gateway \<Rightarrow> held_gateway" where
  "takeover_usage cost s = snd (pg_record_usage gateway_held takeover_codecs ''ai1'' (usage_of 10 5) cost ''attempt-1'' ''actual''
     False (Some 1) (Some (''second'', 2)) s)"

definition takeover_end :: held_gateway where
  "takeover_end = takeover_usage (Dec 9 0) (takeover_usage (Dec 3 (- 2)) (snd takeover_claimed))"

lemma takeover_claim: "fst takeover_claimed = Inr (Some 2)"
  by code_simp

lemma takeover_charge:
  "map gbr_actual_amount (rows (t_budgets (fst (gateway_state.more takeover_end)))) = [Some (Dec 3 (- 2))]"
  by code_simp

lemma takeover_rows_ok: "gateway_rows_ok (fst (gateway_state.more takeover_start))"
  by (simp add: takeover_start_def gateway_state.extend_def sample_tables_def empty_tables_def gateway_rows_ok_def
      claims_ok_def ledger_ok_def keyed_def rows_def sample_invocation_row_def invocation_key_def)

abbreviation takeover_steps :: "held_gateway \<Rightarrow> held_gateway \<Rightarrow> bool" where
  "takeover_steps \<equiv> (store_step gateway_held sample_tx takeover_codecs fst)\<^sup>*\<^sup>*"

lemma takeover_runs: "takeover_steps takeover_start (snd takeover_claimed)" "takeover_steps (snd takeover_claimed) takeover_end"
proof -
  have usage: "store_step gateway_held sample_tx takeover_codecs fst s (takeover_usage cost s)" for s cost
    unfolding takeover_usage_def by (rule Record_Usage) (rule prod.collapse [symmetric])
  then show "takeover_steps (snd takeover_claimed) takeover_end"
    unfolding takeover_end_def by (meson converse_rtranclp_into_rtranclp rtranclp.rtrancl_refl)
  have "store_step gateway_held sample_tx takeover_codecs fst takeover_start
      (snd (pg_reserve gateway_held ''ai1'' ''t'' ''w'' (Dec 5 0) 0 None takeover_start))"
    by (rule Reserve) (rule prod.collapse [symmetric])
  moreover have "store_step gateway_held sample_tx takeover_codecs fst
      (snd (pg_reserve gateway_held ''ai1'' ''t'' ''w'' (Dec 5 0) 0 None takeover_start)) (snd takeover_claimed)"
    unfolding takeover_claimed_def by (rule Claim) (rule prod.collapse [symmetric])
  ultimately show "takeover_steps takeover_start (snd takeover_claimed)"
    by (meson converse_rtranclp_into_rtranclp rtranclp.rtrancl_refl)
qed

theorem ledger_charged_once_witness:
  "\<exists>b. rows (t_budgets (fst (gateway_state.more takeover_end))) = [b] \<and> gbr_actual_amount b = Some (Dec 3 (- 2))
     \<and> dval (Dec 3 (- 2)) = ledger_total (fst (gateway_state.more takeover_end)) (same_scope b)"
  using takeover_charge ledger_charged_once [OF held_gateway.gateway_db_axioms takeover_rows_ok
      rtranclp_trans [OF takeover_runs]] by (auto simp: map_eq_Cons_conv)

end
