(* ===== verification/Durable_Reservations.thy ===== *)
theory Durable_Reservations
  imports Durable_Accounting
begin

text \<open>
  Concurrent reservations of the durable Gateway store. \<open>reserve_step\<close> takes the transaction of \<open>pg_reserve\<close>
  statement by statement, for any number of workers, as PostgreSQL runs it at its default isolation level: every
  statement sees the rows committed when it starts, and an advisory lock is held until its transaction ends. The
  decisions and the rows are those of \<open>pg_reserve\<close>.

  The lock is one per workspace. The limit of a workspace therefore holds in every interleaving; the limit of
  the tenant, which sums over its workspaces, does not.
\<close>

record reserve_request =
  rr_invocation_id :: string
  rr_tenant :: string
  rr_workspace :: string
  rr_amount :: decimal
  rr_now :: int
  rr_pricing :: "string option"

datatype reserve_phase =
    Waiting
  | Locked
  | Tenant_Read "decimal list"
  | Both_Read "decimal list" "decimal list"
  | Inserted AIGatewayBudgetRow
  | Ended

type_synonym budget_rows = "(scoped, AIGatewayBudgetRow) odict"

definition request_key :: "reserve_request \<Rightarrow> scoped" where
  "request_key q = Scoped (rr_tenant q) (rr_workspace q) (rr_invocation_id q)"

definition request_lock :: "reserve_request \<Rightarrow> string" where
  "request_lock q = budget_lock_key (rr_tenant q) (rr_workspace q)"

definition request_row :: "decimal \<Rightarrow> decimal \<Rightarrow> reserve_request \<Rightarrow> AIGatewayBudgetRow" where
  "request_row tlimit wlimit q =
     new_budget_row (rr_invocation_id q) (rr_tenant q) (rr_workspace q) (rr_amount q) (rr_pricing q) tlimit wlimit
       (reservation_expiry (rr_now q))"

definition amounts :: "(AIGatewayBudgetRow \<Rightarrow> bool) \<Rightarrow> budget_rows \<Rightarrow> decimal list" where
  "amounts p B = map gbr_reserved_amount (filter p (rows B))"

text \<open>
  One statement of worker \<open>w\<close>; a lock that is taken leaves it waiting. \<open>Settle\<close> is any update of budget rows that keeps
  their key and reserved amount and makes no row held that was not: reconciliations of held reservations, releases and
  expiries. It excludes the late settlement of a reservation that has already expired or been released, which
  \<open>settled_budget\<close> allows: that sets the row to committed, or to pending, without looking at the limits.
\<close>

definition lock_free :: "(nat \<Rightarrow> reserve_request) \<Rightarrow> (nat \<Rightarrow> reserve_phase) \<Rightarrow> nat \<Rightarrow> bool" where
  "lock_free req ph w \<longleftrightarrow>
     (\<forall>v. ph v \<noteq> Waiting \<longrightarrow> ph v \<noteq> Ended \<longrightarrow> request_lock (req v) \<noteq> request_lock (req w))"

inductive reserve_step ::
  "decimal \<Rightarrow> decimal \<Rightarrow> (nat \<Rightarrow> reserve_request) \<Rightarrow> budget_rows \<times> (nat \<Rightarrow> reserve_phase)
   \<Rightarrow> budget_rows \<times> (nat \<Rightarrow> reserve_phase) \<Rightarrow> bool"
  for tlimit wlimit req
where
  Lock: "ph w = Waiting \<Longrightarrow> lock_free req ph w \<Longrightarrow> reserve_step tlimit wlimit req (B, ph) (B, ph(w := Locked))"
| Known: "ph w = Locked \<Longrightarrow> map_of B (request_key (req w)) = Some row \<Longrightarrow>
    reserve_step tlimit wlimit req (B, ph) (B, ph(w := Ended))"
| Read_Tenant: "ph w = Locked \<Longrightarrow> map_of B (request_key (req w)) = None \<Longrightarrow>
    reserve_step tlimit wlimit req (B, ph) (B, ph(w := Tenant_Read (amounts (tenant_held (rr_tenant (req w))) B)))"
| Read_Workspace: "ph w = Tenant_Read ts \<Longrightarrow>
    reserve_step tlimit wlimit req (B, ph)
      (B, ph(w := Both_Read ts (amounts (workspace_held (rr_tenant (req w)) (rr_workspace (req w))) B)))"
| Refuse: "ph w = Both_Read ts ws \<Longrightarrow> within_limits tlimit wlimit ts ws (rr_amount (req w)) = Inl e \<Longrightarrow>
    reserve_step tlimit wlimit req (B, ph) (B, ph(w := Ended))"
| Insert: "ph w = Both_Read ts ws \<Longrightarrow> within_limits tlimit wlimit ts ws (rr_amount (req w)) = Inr () \<Longrightarrow>
    map_of B (request_key (req w)) = None \<Longrightarrow>
    reserve_step tlimit wlimit req (B, ph) (B, ph(w := Inserted (request_row tlimit wlimit (req w))))"
| Commit: "ph w = Inserted row \<Longrightarrow>
    reserve_step tlimit wlimit req (B, ph) (od_put (budget_key row) row B, ph(w := Ended))"
| Abort: "reserve_step tlimit wlimit req (B, ph) (B, ph(w := Ended))"
| Settle: "(\<And>r. p r \<Longrightarrow> budget_key (f r) = budget_key r \<and> gbr_reserved_amount (f r) = gbr_reserved_amount r
       \<and> (held_row (f r) \<longrightarrow> held_row r)) \<Longrightarrow>
    reserve_step tlimit wlimit req (B, ph) (rewrite p f B, ph)"

section \<open>The workspace limit holds\<close>

definition workspace_total :: "string \<Rightarrow> string \<Rightarrow> budget_rows \<Rightarrow> rat" where
  "workspace_total t w B = dval (dec_sum (amounts (workspace_held t w) B))"

definition nonneg :: "budget_rows \<Rightarrow> bool" where
  "nonneg B \<longleftrightarrow> (\<forall>r \<in> set (rows B). 0 \<le> dval (gbr_reserved_amount r))"

text \<open>What a worker in the critical section knows of its workspace.\<close>

fun phase_ok :: "decimal \<Rightarrow> decimal \<Rightarrow> reserve_request \<Rightarrow> budget_rows \<Rightarrow> reserve_phase \<Rightarrow> bool" where
  "phase_ok tlimit wlimit q B (Both_Read ts ws) \<longleftrightarrow>
     workspace_total (rr_tenant q) (rr_workspace q) B \<le> dval (dec_sum ws)"
| "phase_ok tlimit wlimit q B (Inserted row) \<longleftrightarrow> row = request_row tlimit wlimit q \<and> map_of B (request_key q) = None
     \<and> workspace_total (rr_tenant q) (rr_workspace q) B + dval (rr_amount q) \<le> dval wlimit"
| "phase_ok tlimit wlimit q B _ \<longleftrightarrow> True"

definition workspaces_ok ::
  "decimal \<Rightarrow> decimal \<Rightarrow> (nat \<Rightarrow> reserve_request) \<Rightarrow> budget_rows \<times> (nat \<Rightarrow> reserve_phase) \<Rightarrow> bool" where
  "workspaces_ok tlimit wlimit req = (\<lambda>(B, ph). keyed budget_key B \<and> nonneg B
     \<and> (\<forall>t w. workspace_total t w B \<le> dval wlimit)
     \<and> (\<forall>v. phase_ok tlimit wlimit (req v) B (ph v))
     \<and> (\<forall>v u. ph v \<notin> {Waiting, Ended} \<longrightarrow> ph u \<notin> {Waiting, Ended} \<longrightarrow> request_lock (req v) = request_lock (req u) \<longrightarrow> v = u))"

lemma workspace_total_put_new:
  assumes "map_of B (budget_key row) = None"
  shows "workspace_total t w (od_put (budget_key row) row B) =
     workspace_total t w B + (if workspace_held t w row then dval (gbr_reserved_amount row) else 0)"
  using assms by (simp add: workspace_total_def amounts_def rows_put_new)

lemma request_row_simps [simp]:
  "budget_key (request_row tlim wlim q) = request_key q" "gbr_reserved_amount (request_row tlim wlim q) = rr_amount q"
  "workspace_held t w (request_row tlim wlim q) \<longleftrightarrow> t = rr_tenant q \<and> w = rr_workspace q"
  by (auto simp: request_row_def new_budget_row_def budget_key_def request_key_def workspace_held_def held_row_def)

lemma workspace_total_settle:
  assumes "nonneg B"
    and "\<And>r. p r \<Longrightarrow> budget_key (f r) = budget_key r \<and> gbr_reserved_amount (f r) = gbr_reserved_amount r
       \<and> (held_row (f r) \<longrightarrow> held_row r)"
  shows "workspace_total t w (rewrite p f B) \<le> workspace_total t w B"
proof -
  have "sum_list (map (dval \<circ> gbr_reserved_amount) (filter (workspace_held t w) (map (\<lambda>r. if p r then f r else r) rs)))
      \<le> sum_list (map (dval \<circ> gbr_reserved_amount) (filter (workspace_held t w) rs))"
    if "\<forall>r \<in> set rs. 0 \<le> dval (gbr_reserved_amount r)" for rs
    using that assms(2) by (induction rs) (auto simp: workspace_held_def budget_key_def intro: add_increasing)
  with assms(1) show ?thesis by (simp add: workspace_total_def amounts_def nonneg_def)
qed

lemma reserve_step_ok:
  assumes "reserve_step tlimit wlimit req c d" "workspaces_ok tlimit wlimit req c" "\<And>v. 0 \<le> dval (rr_amount (req v))"
  shows "workspaces_ok tlimit wlimit req d"
  using assms
proof (induction rule: reserve_step.induct)
  case (Lock ph w B)
  then show ?case by (fastforce simp: workspaces_ok_def lock_free_def)
next
  case (Insert ph w ts ws B)
  let ?q = "req w"
  have "phase_ok tlimit wlimit ?q B (ph w)" using Insert(4) unfolding workspaces_ok_def by blast
  moreover have "dval (dec_sum ws) + dval (rr_amount ?q) \<le> dval wlimit"
    using Insert(2) by (simp add: within_limits_def less_decimal_def split: if_splits)
  ultimately have "phase_ok tlimit wlimit ?q B (Inserted (request_row tlimit wlimit ?q))" using Insert(1,3) by simp
  moreover have "ph w \<notin> {Waiting, Ended}" using Insert(1) by simp
  ultimately show ?case using Insert by (auto simp: workspaces_ok_def)
next
  case (Commit ph w row B)
  let ?q = "req w" and ?B = "od_put (budget_key row) row B"
  have "phase_ok tlimit wlimit ?q B (Inserted row)"
    using Commit(1,2) unfolding workspaces_ok_def by (metis (mono_tags, lifting) case_prodD)
  then have row: "row = request_row tlimit wlimit ?q" "map_of B (budget_key row) = None"
    and room: "workspace_total (rr_tenant ?q) (rr_workspace ?q) B + dval (rr_amount ?q) \<le> dval wlimit" by auto
  have total: "workspace_total t v ?B = workspace_total t v B
      + (if t = rr_tenant ?q \<and> v = rr_workspace ?q then dval (rr_amount ?q) else 0)" for t v
    using workspace_total_put_new [OF row(2), of t v] row(1) by simp
  have other: "phase_ok tlimit wlimit (req v) ?B (ph v)" if "v \<noteq> w" for v
  proof (cases "ph v \<in> {Waiting, Ended}")
    case False
    then have "request_lock (req v) \<noteq> request_lock ?q" using Commit(1,2) that by (auto simp: workspaces_ok_def)
    then have apart: "\<not> (rr_tenant (req v) = rr_tenant ?q \<and> rr_workspace (req v) = rr_workspace ?q)"
      by (auto simp: request_lock_def)
    then have "budget_key row \<noteq> request_key (req v)" using row(1) by (auto simp: request_key_def)
    then have key: "map_of ?B (request_key (req v)) = map_of B (request_key (req v))" by simp
    have same: "workspace_total (rr_tenant (req v)) (rr_workspace (req v)) ?B
        = workspace_total (rr_tenant (req v)) (rr_workspace (req v)) B" using apart by (auto simp: total)
    have "phase_ok tlimit wlimit (req v) B (ph v)" using Commit(2) unfolding workspaces_ok_def by blast
    then show ?thesis by (cases "ph v") (simp_all only: phase_ok.simps same key)
  qed auto
  have "0 \<le> dval (gbr_reserved_amount row)" using Commit(3) row(1) by simp
  then have "nonneg ?B" using Commit(2) by (auto simp: workspaces_ok_def nonneg_def dest!: set_rows_put)
  moreover have "workspace_total t v ?B \<le> dval wlimit" for t v
    using Commit(2) room by (auto simp: total workspaces_ok_def)
  moreover have "keyed budget_key ?B" using Commit(2) by (simp add: workspaces_ok_def)
  ultimately show ?case using Commit(2) other by (auto simp: workspaces_ok_def)
next
  case (Settle p f B ph)
  have "nonneg B" using Settle.prems by (simp add: workspaces_ok_def)
  then have le: "workspace_total t w (rewrite p f B) \<le> workspace_total t w B" for t w
    by (rule workspace_total_settle) (rule Settle.hyps)
  have "phase_ok tlimit wlimit (req v) (rewrite p f B) (ph v)" for v
  proof -
    have "phase_ok tlimit wlimit (req v) B (ph v)" using Settle.prems(1) unfolding workspaces_ok_def by blast
    with le [of "rr_tenant (req v)" "rr_workspace (req v)"] show ?thesis by (cases "ph v") auto
  qed
  moreover have "workspace_total t w (rewrite p f B) \<le> dval wlimit" for t w
    using le [of t w] Settle.prems by (auto simp: workspaces_ok_def intro: order_trans)
  ultimately show ?case
    using Settle by (auto simp: workspaces_ok_def nonneg_def intro: keyed_rewrite)
qed (fastforce simp: workspaces_ok_def workspace_total_def)+

text \<open>C15 (safety). However concurrent reservations of the durable Gateway store interleave, statement by statement and with
  crashes, expiries and settlements of held rows in between, the amounts held in a workspace never exceed its hard limit.\<close>

theorem workspace_limit_concurrent:
  assumes "keyed budget_key B\<^sub>0" "nonneg B\<^sub>0" "\<And>v. 0 \<le> dval (rr_amount (req v))"
    and "\<And>t w. workspace_total t w B\<^sub>0 \<le> dval wlimit"
    and "(reserve_step tlimit wlimit req)\<^sup>*\<^sup>* (B\<^sub>0, \<lambda>_. Waiting) (B, ph)"
  shows "workspace_total t w B \<le> dval wlimit"
proof -
  have "workspaces_ok tlimit wlimit req (B, ph)"
    using assms(5)
  proof (induction rule: rtranclp_induct)
    case base
    show ?case using assms by (simp add: workspaces_ok_def)
  next
    case (step c d)
    then show ?case using reserve_step_ok assms(3) by blast
  qed
  then show ?thesis by (simp add: workspaces_ok_def)
qed

section \<open>The tenant limit does not\<close>

definition tenant_total :: "string \<Rightarrow> budget_rows \<Rightarrow> rat" where
  "tenant_total t B = dval (dec_sum (amounts (tenant_held t) B))"

definition race_request :: "nat \<Rightarrow> reserve_request" where
  "race_request n = \<lparr>rr_invocation_id = (if n = 0 then ''ai1'' else ''ai2''), rr_tenant = ''t'',
     rr_workspace = (if n = 0 then ''w1'' else ''w2''), rr_amount = Dec 8 0, rr_now = 0, rr_pricing = None\<rparr>"

definition race_row :: "nat \<Rightarrow> AIGatewayBudgetRow" where
  "race_row n = request_row (Dec 10 0) (Dec 10 0) (race_request n)"

definition raced_rows :: budget_rows where
  "raced_rows = [(Scoped ''t'' ''w1'' ''ai1'', race_row 0), (Scoped ''t'' ''w2'' ''ai2'', race_row 1)]"

lemma race_run:
  "\<exists>ph. (reserve_step (Dec 10 0) (Dec 10 0) race_request)\<^sup>*\<^sup>* ([], \<lambda>_. Waiting) (raced_rows, ph)"
proof -
  let ?step = "reserve_step (Dec 10 0) (Dec 10 0) race_request"
  have lock: "request_lock (race_request (Suc 0)) \<noteq> request_lock (race_request 0)"
    by (simp add: request_lock_def race_request_def budget_lock_key_def unit_separator_def)
  have rows: "raced_rows = od_put (budget_key (race_row 1)) (race_row 1) (od_put (budget_key (race_row 0)) (race_row 0) [])"
    by (simp add: raced_rows_def race_row_def race_request_def request_key_def)
  have free: "within_limits (Dec 10 0) (Dec 10 0) [] [] (rr_amount (race_request n)) = Inr ()" for n
    by (simp add: within_limits_def dec_order race_request_def dec_sum_def)
  have none: "amounts p [] = []" for p by (simp add: amounts_def rows_def)
  let ?go = "\<lambda>a b. ([], (\<lambda>_. Waiting)(0 := a, Suc 0 := b)) :: budget_rows \<times> (nat \<Rightarrow> reserve_phase)"
  have "?step ([], \<lambda>_. Waiting) (?go Locked Waiting)"
    using Lock [of "\<lambda>_. Waiting" 0 race_request "Dec 10 0" "Dec 10 0" "[]"] by (simp add: lock_free_def fun_upd_idem)
  moreover have "?step (?go Locked Waiting) (?go Locked Locked)"
    using Lock [of "snd (?go Locked Waiting)" "Suc 0" race_request "Dec 10 0" "Dec 10 0" "[]"] lock
    by (simp add: lock_free_def)
  moreover have "?step (?go Locked Locked) (?go (Tenant_Read []) Locked)"
    using Read_Tenant [of "snd (?go Locked Locked)" 0 "[]" race_request "Dec 10 0" "Dec 10 0"] by (simp add: none fun_upd_twist)
  moreover have "?step (?go (Tenant_Read []) Locked) (?go (Tenant_Read []) (Tenant_Read []))"
    using Read_Tenant [of "snd (?go (Tenant_Read []) Locked)" "Suc 0" "[]" race_request "Dec 10 0" "Dec 10 0"] by (simp add: none)
  moreover have "?step (?go (Tenant_Read []) (Tenant_Read [])) (?go (Both_Read [] []) (Tenant_Read []))"
    using Read_Workspace [of "snd (?go (Tenant_Read []) (Tenant_Read []))" 0 "[]" "Dec 10 0" "Dec 10 0" race_request "[]"]
    by (simp add: none fun_upd_twist)
  moreover have "?step (?go (Both_Read [] []) (Tenant_Read [])) (?go (Both_Read [] []) (Both_Read [] []))"
    using Read_Workspace [of "snd (?go (Both_Read [] []) (Tenant_Read []))" "Suc 0" "[]" "Dec 10 0" "Dec 10 0" race_request "[]"]
    by (simp add: none)
  moreover have "?step (?go (Both_Read [] []) (Both_Read [] [])) (?go (Inserted (race_row 0)) (Both_Read [] []))"
    using Insert [of "snd (?go (Both_Read [] []) (Both_Read [] []))" 0 "[]" "[]" "Dec 10 0" "Dec 10 0" race_request "[]"]
    by (simp add: free race_row_def fun_upd_twist)
  moreover have "?step (?go (Inserted (race_row 0)) (Both_Read [] [])) (?go (Inserted (race_row 0)) (Inserted (race_row 1)))"
    using Insert [of "snd (?go (Inserted (race_row 0)) (Both_Read [] []))" "Suc 0" "[]" "[]" "Dec 10 0" "Dec 10 0" race_request "[]"]
    by (simp add: free race_row_def)
  moreover obtain ph where "?step (?go (Inserted (race_row 0)) (Inserted (race_row 1)))
      (od_put (budget_key (race_row 0)) (race_row 0) [], ph)" "ph (Suc 0) = Inserted (race_row 1)"
    using Commit [of "snd (?go (Inserted (race_row 0)) (Inserted (race_row 1)))" 0 "race_row 0" "Dec 10 0" "Dec 10 0" race_request "[]"]
    by (fastforce)
  moreover from this(2) have "\<exists>ph'. ?step (od_put (budget_key (race_row 0)) (race_row 0) [], ph) (raced_rows, ph')"
    unfolding rows using Commit [of ph "Suc 0" "race_row 1"] by blast
  ultimately show ?thesis
    by (meson converse_rtranclp_into_rtranclp rtranclp.rtrancl_refl)
qed

lemma race_totals: "tenant_total ''t'' raced_rows = 16" "workspace_total ''t'' ''w1'' raced_rows = 8"
  by (simp_all add: tenant_total_def workspace_total_def amounts_def raced_rows_def rows_def race_row_def request_row_def
      new_budget_row_def race_request_def tenant_held_def workspace_held_def held_row_def)

theorem workspace_limit_concurrent_witness:
  "workspace_total ''t'' ''w1'' raced_rows = 8 \<and> workspace_total ''t'' ''w1'' raced_rows \<le> dval (Dec 10 0)"
proof -
  obtain ph where "(reserve_step (Dec 10 0) (Dec 10 0) race_request)\<^sup>*\<^sup>* ([], \<lambda>_. Waiting) (raced_rows, ph)"
    using race_run by blast
  from workspace_limit_concurrent [OF _ _ _ _ this]
  have "workspace_total ''t'' ''w1'' raced_rows \<le> dval (Dec 10 0)"
    by (simp add: keyed_def nonneg_def rows_def race_request_def workspace_total_def amounts_def)
  then show ?thesis using race_totals by simp
qed

text \<open>C23 (error). Two concurrent reservations of 8 in two workspaces of one tenant, with a hard limit of 10, are both
  granted: the advisory lock is the workspace's, so each sums the tenant's rows before the other's row is committed,
  and the tenant ends with 16 held.\<close>

theorem tenant_limit_race:
  "(\<exists>ph. (reserve_step (Dec 10 0) (Dec 10 0) race_request)\<^sup>*\<^sup>* ([], \<lambda>_. Waiting) (raced_rows, ph))
   \<and> tenant_total ''t'' raced_rows = 16 \<and> dval (Dec 10 0) < tenant_total ''t'' raced_rows"
  using race_run race_totals by simp

end
