(* ===== verification/Durable_Interleaving.thy ===== *)
theory Durable_Interleaving
  imports Durable_Accounting
begin

text \<open>
  Concurrent accounting of the durable Gateway store. \<open>usage_step\<close> takes the transaction of
  \<open>pg_record_usage\<close> statement by statement, for any number of workers, as PostgreSQL runs it at its default isolation
  level: every statement sees the rows committed when it starts and the worker's own, an insert under a key that
  another transaction has inserted waits for it, and the row of a budget is locked from its update to the commit, so
  that both are one step. The rows and the decisions are those of \<open>usage_transaction\<close>: a worker left alone does what it
  does (\<open>statements_alone\<close>).

  What survives every interleaving is that a usage event is charged once and that the amount recorded of an
  invocation never exceeds its ledger; that it is the sum of the ledger holds while the transactions of the
  invocation do not overlap. The fence is a read of its own: it stops a worker whose claim was superseded before its
  transaction began, not one that is taken over between the fence and the commit.
\<close>

section \<open>Statements\<close>

record usage_call =
  uc_invocation :: GatewayInvocation
  uc_id :: string
  uc_usage :: AIUsage
  uc_cost :: decimal
  uc_event_key :: string
  uc_kind :: string
  uc_final :: bool
  uc_attempt :: "int option"
  uc_claim :: "(string \<times> int) option"
  uc_now :: int

datatype usage_phase =
    Opening
  | Past_Fence
  | Priced decimal
  | Charged "AIGatewayUsageLedgerRow option"
  | Totalled "AIGatewayUsageLedgerRow option" decimal
  | Closed

definition passes_fence :: "database_tables \<Rightarrow> usage_call \<Rightarrow> bool" where
  "passes_fence D c \<longleftrightarrow> (case uc_claim c of
       None \<Rightarrow> True
     | Some (owner, generation) \<Rightarrow> list_ex (owned_row (uc_id c) owner generation) (rows (t_invocations D)))"

definition ledger_amounts :: "database_tables \<Rightarrow> usage_call \<Rightarrow> decimal list" where
  "ledger_amounts D c = map gur_cost_amount (filter (invocation_usage (uc_invocation c) (uc_id c)) (rows (t_usage D)))"

definition charge_row :: "gateway_codecs \<Rightarrow> usage_call \<Rightarrow> decimal \<Rightarrow> AIGatewayUsageLedgerRow" where
  "charge_row cd c cost = new_usage_row (uc_invocation c) (uc_id c) (uc_event_key c) (uc_attempt c) (uc_kind c)
     (cd_dump_usage cd (uc_usage c)) cost (uc_final c) (uc_now c)"

fun usage_statement ::
  "gateway_codecs \<Rightarrow> usage_call \<Rightarrow> database_tables \<Rightarrow> usage_phase \<Rightarrow> database_tables \<times> usage_phase"
where
  "usage_statement cd c D Opening = (D, if passes_fence D c then Past_Fence else Closed)"
| "usage_statement cd c D Past_Fence = (D, Priced
     (if uc_kind c = ''provider_partial''
      then dec_max 0 (uc_cost c - dec_or (Some (dec_sum (ledger_amounts D c))) 0) else uc_cost c))"
| "usage_statement cd c D (Priced cost) = (let row = charge_row cd c cost in
     (D, Charged (if map_of (t_usage D) (usage_row_key row) = None then Some row else None)))"
| "usage_statement cd c D (Charged new) = (D, Totalled new (dec_sum (ledger_amounts D c @
     (case new of None \<Rightarrow> [] | Some row \<Rightarrow> [gur_cost_amount row]))))"
| "usage_statement cd c D (Totalled new spent) =
     (D\<lparr>t_usage := (case new of None \<Rightarrow> t_usage D | Some row \<Rightarrow> od_put (usage_row_key row) row (t_usage D)),
        t_budgets := rewrite (invocation_budget (uc_invocation c) (uc_id c))
          (settled_budget spent (uc_final c) (cd_dump_usage cd (uc_usage c)) (uc_now c)) (t_budgets D)\<rparr>, Closed)"
| "usage_statement cd c D Closed = (D, Closed)"

text \<open>The row a transaction has inserted and not yet committed.\<close>

fun inserted_row :: "usage_phase \<Rightarrow> AIGatewayUsageLedgerRow option" where
  "inserted_row (Charged new) = new"
| "inserted_row (Totalled new _) = new"
| "inserted_row _ = None"

text \<open>What other transactions do meanwhile: the ledger is only written by \<open>pg_record_usage\<close>, no claim is taken back, and a
  budget row keeps its recorded amount or is new and has none.\<close>

definition elsewhere :: "database_tables \<Rightarrow> database_tables \<Rightarrow> bool" where
  "elsewhere D E \<longleftrightarrow> t_usage E = t_usage D
     \<and> (claims_ok D \<longrightarrow> claims_ok E \<and> (\<forall>i g. claimed_at D i g \<longrightarrow> claimed_at E i g))
     \<and> (\<forall>b \<in> set (rows (t_budgets E)). \<forall>a. gbr_actual_amount b = Some a \<longrightarrow>
          (\<exists>b' \<in> set (rows (t_budgets D)). budget_key b' = budget_key b \<and> gbr_actual_amount b' = Some a))"

inductive usage_step ::
  "gateway_codecs \<Rightarrow> (nat \<Rightarrow> usage_call) \<Rightarrow> database_tables \<times> (nat \<Rightarrow> usage_phase)
   \<Rightarrow> database_tables \<times> (nat \<Rightarrow> usage_phase) \<Rightarrow> bool"
  for cd calls
where
  Statement: "(\<And>cost v row. ph w = Priced cost \<Longrightarrow> v \<noteq> w \<Longrightarrow> inserted_row (ph v) = Some row \<Longrightarrow>
       usage_row_key row \<noteq> usage_row_key (charge_row cd (calls w) cost)) \<Longrightarrow>
    usage_statement cd (calls w) D (ph w) = (E, p) \<Longrightarrow> usage_step cd calls (D, ph) (E, ph(w := p))"
| Abort: "usage_step cd calls (D, ph) (D, ph(w := Closed))"
| Others: "elsewhere D E \<Longrightarrow> usage_step cd calls (D, ph) (E, ph)"

text \<open>A worker left alone does what \<open>usage_transaction\<close> does.\<close>

fun statements :: "gateway_codecs \<Rightarrow> usage_call \<Rightarrow> nat \<Rightarrow> database_tables \<times> usage_phase \<Rightarrow> database_tables \<times> usage_phase" where
  "statements cd c 0 s = s"
| "statements cd c (Suc n) (D, p) = statements cd c n (usage_statement cd c D p)"

lemma rows_setdefault: "rows (od_setdefault k r T) = rows T @ (if map_of T k = None then [r] else [])"
  by (auto simp: od_setdefault_def od_put_new rows_def split: option.split)

lemma setdefault_put: "od_setdefault k r T = (if map_of T k = None then od_put k r T else T)"
proof (cases "map_of T k")
  case None
  then show ?thesis unfolding od_setdefault_def od_put_new [OF None] None by simp
qed (simp add: od_setdefault_def)

lemma first_owned: "(case filter p rs of [] \<Rightarrow> None | r # _ \<Rightarrow> Some r) = Some y \<Longrightarrow> list_ex p rs"
  by (induction rs) (auto split: if_splits)

lemma new_row_usage: "invocation_usage v i (new_usage_row v i k n kind p c fin now)"
  by (simp add: invocation_usage_def new_usage_row_def)

lemma statements_alone:
  assumes "usage_transaction gateway_held cd (uc_invocation c) (uc_id c) (uc_usage c) (uc_cost c) (uc_event_key c) (uc_kind c)
      (uc_final c) (uc_attempt c) (uc_claim c) (uc_now c) s = (Inr spent, t)"
  shows "statements cd c 5 (fst (gateway_state.more s), Opening) = (fst (gateway_state.more t), Closed)"
proof -
  obtain D B where s: "gateway_state.more s = (D, B)" by fastforce
  let ?cost = "if uc_kind c = ''provider_partial''
      then dec_max 0 (uc_cost c - dec_or (Some (dec_sum (ledger_amounts D c))) 0) else uc_cost c"
  let ?row = "charge_row cd c ?cost"
  let ?E = "D\<lparr>t_usage := od_setdefault (usage_row_key ?row) ?row (t_usage D)\<rparr>"
  have pass: "passes_fence D c"
    using assms s by (auto simp: usage_transaction_def pg_fence_option_def pg_fence_def first_row_def memory_database_def
        memory_table_def effect_simps Let_def passes_fence_def split: option.splits if_splits dest!: first_owned)
  show ?thesis
    using assms pass s
    by (cases "map_of (t_usage D) (usage_row_key ?row)"; cases "uc_kind c = ''provider_partial''"; cases "uc_claim c")
     (auto simp: usage_transaction_def pg_fence_option_def pg_fence_def first_row_def memory_database_def memory_table_def
        effect_simps Let_def charge_row_def ledger_amounts_def numeral_eq_Suc rows_setdefault setdefault_put rows_put_new new_row_usage split: if_splits)
qed

section \<open>The other operations\<close>

text \<open>Every operation of the store but \<open>pg_record_usage\<close> and \<open>pg_reconcile\<close>, which calls it, is one of the \<open>Others\<close>.\<close>

lemma elsewhere_refl: "elsewhere D D"
  by (auto simp: elsewhere_def)

lemma elsewhere_trans: "elsewhere D E \<Longrightarrow> elsewhere E F \<Longrightarrow> elsewhere D F"
  unfolding elsewhere_def by (metis (no_types, lifting))

lemma elsewhere_same:
  "t_invocations E = t_invocations D \<Longrightarrow> t_usage E = t_usage D \<Longrightarrow> t_budgets E = t_budgets D \<Longrightarrow> elsewhere D E"
  by (auto simp: elsewhere_def claims_ok_def claimed_at_def)

lemma elsewhere_claims:
  assumes "gateway_le (D\<lparr>t_usage := [], t_budgets := []\<rparr>) (D\<lparr>t_usage := [], t_budgets := [], t_invocations := I\<rparr>)"
  shows "elsewhere D (D\<lparr>t_invocations := I\<rparr>)"
proof -
  have "gateway_rows_ok (D\<lparr>t_usage := [], t_budgets := []\<rparr>)" if "claims_ok D"
    using that by (simp add: gateway_rows_ok_def claims_ok_def ledger_ok_def keyed_def rows_def)
  with assms show ?thesis
    unfolding elsewhere_def gateway_le_def gateway_rows_ok_def by (fastforce simp: claims_ok_def claimed_at_def)
qed

lemma elsewhere_invocation_rewrite:
  assumes "\<And>r. p r \<Longrightarrow> invocation_key (f r) = invocation_key r \<and> gir_ai_invocation_id (f r) = gir_ai_invocation_id r
     \<and> gir_claim_generation r \<le> gir_claim_generation (f r)"
  shows "elsewhere D (D\<lparr>t_invocations := rewrite p f (t_invocations D)\<rparr>)"
  using invocation_rewrite [OF assms, where D = "D\<lparr>t_usage := [], t_budgets := []\<rparr>"]
  by (intro elsewhere_claims) simp

lemma elsewhere_invocation_insert:
  assumes "map_of (t_invocations D) (invocation_key r) = None" "gir_ai_invocation_id r \<notin> gir_ai_invocation_id ` set (rows (t_invocations D))"
  shows "elsewhere D (D\<lparr>t_invocations := od_put (invocation_key r) r (t_invocations D)\<rparr>)"
  using invocation_insert [of "D\<lparr>t_usage := [], t_budgets := []\<rparr>" r] assms
  by (intro elsewhere_claims) simp

lemma elsewhere_budget_put:
  assumes "elsewhere D E" "budget_key r = k"
    and "\<And>a. gbr_actual_amount r = Some a \<Longrightarrow> \<exists>b' \<in> set (rows (t_budgets D)). budget_key b' = k \<and> gbr_actual_amount b' = Some a"
  shows "elsewhere D (E\<lparr>t_budgets := od_put k r (t_budgets E)\<rparr>)"
  using assms unfolding elsewhere_def claims_ok_def claimed_at_def by (auto dest: set_rows_put)

lemma elsewhere_budget_rewrite:
  assumes "\<And>r. p r \<Longrightarrow> budget_key (f r) = budget_key r \<and> gbr_actual_amount (f r) = gbr_actual_amount r"
  shows "elsewhere D (D\<lparr>t_budgets := rewrite p f (t_budgets D)\<rparr>)"
  using assms unfolding elsewhere_def claims_ok_def claimed_at_def by (auto split: if_splits)

sublocale gateway_db \<subseteq> aside: evolution "\<lambda>s t. elsewhere (tb (gateway_state.more s)) (tb (gateway_state.more t))"
  by unfold_locales (auto intro: elsewhere_refl elsewhere_trans)

context gateway_db
begin

abbreviation keeps_aside where
  "keeps_aside m \<equiv> evolves (\<lambda>s t. elsewhere (tables_of s) (tables_of t)) m"

lemma aside_memory:
  "keeps_aside clock_now" "keeps_aside (hold_invocation i v)" "keeps_aside (release_reservation i st)" "keeps_aside (expire_local i)"
  "(\<And>s. gateway_state.more (f s) = gateway_state.more s) \<Longrightarrow> keeps_aside (upd f)"
  by (auto simp: evolves_def effect_simps hold_invocation_def release_reservation_def expire_local_def elsewhere_refl split: option.splits)

lemma aside_transaction:
  assumes "\<And>M D. tx_wp body (\<lambda>_ _ E. elsewhere D E) M D"
  shows "keeps_aside (db_transaction db body)"
  unfolding evolves_def
proof
  fix s
  obtain r t where "db_transaction db body s = (r, t)" by (metis surj_pair)
  from transaction(2) [OF assms this] this
  show "elsewhere (tables_of s) (tables_of (snd (db_transaction db body s)))" by (auto intro: elsewhere_refl)
qed

lemma aside_load: "keeps_aside (pg_load db cd i)"
  unfolding pg_load_def
  by (intro aside.rules aside_transaction aside_memory gateway_rules) (auto intro: elsewhere_refl)

lemma aside_claims:
  "keeps_aside (pg_claim_execution db cd i owner now lease)" "keeps_aside (pg_release_execution db i owner g)"
  "keeps_aside (pg_renew_execution db i owner g now lease)" "keeps_aside (pg_checkpoint db cd v)"
  "keeps_aside (pg_checkpoint_terminal_intent db cd v)" "keeps_aside (pg_assert_execution_owner db i owner g)"
  unfolding pg_claim_execution_def pg_release_execution_def pg_renew_execution_def pg_checkpoint_def
    pg_checkpoint_terminal_intent_def pg_assert_execution_owner_def Let_def
  by (intro aside.rules aside_transaction aside_memory gateway_rules;
      auto simp: invocation_key_def checkpointed_row_def intro!: elsewhere_invocation_rewrite elsewhere_refl)+

lemma aside_budgets:
  "keeps_aside (pg_reserve db i tenant workspace amount now pricing)"
  "keeps_aside (pg_release db cd i st)" "keeps_aside (pg_pending_reconciliation db)"
proof -
  show "keeps_aside (pg_reserve db i tenant workspace amount now pricing)"
    unfolding pg_reserve_def Let_def
    by (intro aside.rules aside_transaction aside_memory gateway_rules)
      (auto intro!: elsewhere_budget_put elsewhere_refl)
  show "keeps_aside (pg_release db cd i st)" "keeps_aside (pg_pending_reconciliation db)"
    unfolding pg_release_def pg_pending_reconciliation_def
    by (intro aside.rules aside_transaction aside_memory gateway_rules aside_load;
        auto simp: budget_key_def intro!: elsewhere_budget_rewrite elsewhere_refl)+
qed

lemma aside_flush:
  assumes "elsewhere D E" "set found \<subseteq> set (rows (t_budgets D))"
  shows "tx_wp (flush_rows (\<lambda>row. tbl_flush (db_budgets db) (row\<lparr>gbr_state := st, gbr_released_at := dt,
      gbr_release_reason := why\<rparr>)) found) (\<lambda>_ _ F. elsewhere D F) M E"
  using assms
proof (induction found arbitrary: M E)
  case Nil
  then show ?case by (simp add: wp_pure)
next
  case (Cons row found)
  let ?new = "row\<lparr>gbr_state := st, gbr_released_at := dt, gbr_release_reason := why\<rparr>"
  have "elsewhere D (E\<lparr>t_budgets := od_put (budget_key ?new) ?new (t_budgets E)\<rparr>)"
    by (rule elsewhere_budget_put) (use Cons.prems in \<open>auto simp: budget_key_def\<close>)
  with Cons show ?case
    unfolding flush_rows.simps by (intro wp_bnd budget_rows.step_rules Cons.IH) auto
qed

lemma aside_expired: "keeps_aside (pg_release_expired db now)"
proof -
  have "keeps_aside (flush_rows (\<lambda>row. expire_local (gbr_ai_invocation_id row)) found)" for found
    by (induction found) (auto intro: aside.rules aside_memory)
  moreover have "tx_wp (bnd (tbl_select (db_budgets db) (expired_row now)) (\<lambda>found.
        bnd (flush_rows (\<lambda>row. tbl_flush (db_budgets db) (row\<lparr>gbr_state := ''expired'', gbr_released_at := Some now,
               gbr_release_reason := Some ''expired''\<rparr>)) found) (\<lambda>_. ret found))) (\<lambda>_ _ E. elsewhere D E) M D" for M D
  proof (intro gateway_rules wp_mono [OF aside_flush])
    fix found assume "mset found = mset (filter (expired_row now) (rows (t_budgets D)))"
    from mset_eq_setD [OF this] show "set found \<subseteq> set (rows (t_budgets D))" by auto
  qed (auto intro: elsewhere_refl)
  ultimately show ?thesis
    unfolding pg_release_expired_def by (intro aside.rules aside_transaction)
qed

lemma aside_others:
  "keeps_aside (pg_record_attempt db cd i n model st u cost)" "keeps_aside (pg_load_provider_effect db cd i k)"
  "keeps_aside (pg_reserve_provider_effect db cd i k n model owner g)" "keeps_aside (pg_record_provider_effect db cd i k x claim)"
  "keeps_aside (pg_cached db cd tenant workspace key now)" "keeps_aside (pg_cache_content db cd tenant workspace key c)"
  "keeps_aside (pg_invalidate_cache db tenant workspace key')"
  unfolding pg_record_attempt_def pg_load_provider_effect_def pg_reserve_provider_effect_def pg_record_provider_effect_def
    pg_cached_def pg_cache_content_def pg_invalidate_cache_def Let_def pg_fence_option_def pg_fence_def
  by (intro aside.rules aside_transaction aside_memory gateway_rules aside_load; auto intro!: elsewhere_same)+

lemma aside_accept:
  assumes fresh: "i \<notin> gir_ai_invocation_id ` set (rows (t_invocations (tables_of s)))"
    and run: "pg_accept db tx cd r i ack now s = (x, t)"
  shows "elsewhere (tables_of s) (tables_of t)"
proof -
  let ?D = "tables_of s"
  let ?body = "accept_transaction db tx cd r (new_invocation_row tx r i (dump_invocation cd (new_invocation r i ack now)) now)"
  have row: "invocation_key (new_invocation_row tx r i p now) = Scoped (rq_tenant_id r) (rq_workspace_id r) i"
      "gir_ai_invocation_id (new_invocation_row tx r i p now) = i" for p
    by (simp_all add: invocation_key_def new_invocation_row_def)
  have insert: "elsewhere ?D (?D\<lparr>t_invocations := od_put (Scoped (rq_tenant_id r) (rq_workspace_id r) i)
      (new_invocation_row tx r i p now) (t_invocations ?D)\<rparr>)"
    if "map_of (t_invocations ?D) (Scoped (rq_tenant_id r) (rq_workspace_id r) i) = None" for p
    using elsewhere_invocation_insert [of ?D "new_invocation_row tx r i p now"] that fresh by (simp add: row)
  have body: "tx_wp ?body (\<lambda>_ _ E. elsewhere ?D E) (gateway_state.truncate s) ?D"
    unfolding accept_transaction_def by (intro gateway_rules) (auto simp: row insert elsewhere_refl)
  obtain y u where u: "db_transaction db ?body s = (y, u)" by (metis surj_pair)
  have "tables_of t = tables_of u"
    using run by (cases y) (auto simp: pg_accept_def Let_def hold_invocation_def effect_simps u split: option.splits)
  with transaction(2) [OF body u] show ?thesis by (auto intro: elsewhere_refl)
qed

end

section \<open>What survives every interleaving\<close>

abbreviation call_usage :: "usage_call \<Rightarrow> AIGatewayUsageLedgerRow \<Rightarrow> bool" where
  "call_usage c \<equiv> invocation_usage (uc_invocation c) (uc_id c)"

definition own_amount :: "AIGatewayUsageLedgerRow option \<Rightarrow> rat" where
  "own_amount new = (case new of None \<Rightarrow> 0 | Some row \<Rightarrow> dval (gur_cost_amount row))"

text \<open>A row that waits for its commit.\<close>

definition fresh_charge :: "database_tables \<Rightarrow> usage_call \<Rightarrow> AIGatewayUsageLedgerRow option \<Rightarrow> bool" where
  "fresh_charge D c new \<longleftrightarrow> (\<forall>row. new = Some row \<longrightarrow> call_usage c row \<and> 0 \<le> dval (gur_cost_amount row)
     \<and> map_of (t_usage D) (usage_row_key row) = None)"

text \<open>\<open>rel\<close> relates an amount read or recorded with the ledger: \<open>(\<le>)\<close> in general, \<open>(=)\<close> when nobody overlaps.\<close>

fun phase_true ::
  "(rat \<Rightarrow> rat \<Rightarrow> bool) \<Rightarrow> database_tables \<Rightarrow> usage_call \<Rightarrow> usage_phase \<Rightarrow> bool" where
  "phase_true rel D c (Priced cost) \<longleftrightarrow> 0 \<le> dval cost"
| "phase_true rel D c (Charged new) \<longleftrightarrow> fresh_charge D c new"
| "phase_true rel D c (Totalled new spent) \<longleftrightarrow> fresh_charge D c new
     \<and> rel (dval spent) (ledger_total D (call_usage c) + own_amount new)"
| "phase_true rel D c _ \<longleftrightarrow> True"

definition amounts_ok :: "(rat \<Rightarrow> rat \<Rightarrow> bool) \<Rightarrow> database_tables \<Rightarrow> bool" where
  "amounts_ok rel D \<longleftrightarrow> (\<forall>b \<in> set (rows (t_budgets D)). \<forall>a. gbr_actual_amount b = Some a \<longrightarrow>
     rel (dval a) (ledger_total D (same_scope b)))"

definition charges_ok ::
  "(rat \<Rightarrow> rat \<Rightarrow> bool) \<Rightarrow> (nat \<Rightarrow> usage_call) \<Rightarrow> database_tables \<times> (nat \<Rightarrow> usage_phase) \<Rightarrow> bool" where
  "charges_ok rel calls = (\<lambda>(D, ph). keyed usage_row_key (t_usage D) \<and> amounts_ok rel D
     \<and> (\<forall>w. phase_true rel D (calls w) (ph w))
     \<and> (\<forall>w v p q. inserted_row (ph w) = Some p \<longrightarrow> inserted_row (ph v) = Some q \<longrightarrow>
          usage_row_key p = usage_row_key q \<longrightarrow> w = v))"

text \<open>No two transactions of one invocation are between the insertion and the commit.\<close>

definition in_flight :: "usage_phase \<Rightarrow> bool" where
  "in_flight p \<longleftrightarrow> (case p of Charged _ \<Rightarrow> True | Totalled _ _ \<Rightarrow> True | _ \<Rightarrow> False)"

definition apart :: "(nat \<Rightarrow> usage_call) \<Rightarrow> database_tables \<times> (nat \<Rightarrow> usage_phase) \<Rightarrow> bool" where
  "apart calls = (\<lambda>(D, ph). \<forall>w v. in_flight (ph w) \<longrightarrow> in_flight (ph v) \<longrightarrow>
     call_usage (calls w) = call_usage (calls v) \<longrightarrow> w = v)"

definition related :: "(rat \<Rightarrow> rat \<Rightarrow> bool) \<Rightarrow> (nat \<Rightarrow> usage_call) \<Rightarrow> database_tables \<times> (nat \<Rightarrow> usage_phase) \<Rightarrow> bool" where
  "related rel calls c \<longleftrightarrow> rel = (\<le>) \<or> rel = (=) \<and> apart calls c"

lemma related_refl: "related rel calls c \<Longrightarrow> rel x x"
  by (auto simp: related_def)

lemma call_usage_same: "call_usage c row \<Longrightarrow> call_usage d row \<Longrightarrow> call_usage c = call_usage d"
  by (auto simp: invocation_usage_def fun_eq_iff)

lemma budget_scope:
  "invocation_budget v i b \<Longrightarrow> same_scope b = invocation_usage v i"
  "invocation_usage v i row \<Longrightarrow> same_scope b row \<Longrightarrow> invocation_budget v i b"
  "same_scope (settled_budget spent fin p now b) = same_scope b"
  by (auto simp: invocation_budget_def same_scope_def invocation_usage_def settled_budget_def fun_eq_iff)

lemma ledger_total_same [simp]: "ledger_total (D\<lparr>t_budgets := B\<rparr>) p = ledger_total D p"
  by (simp add: ledger_total_def)

lemma ledger_total_put:
  assumes "map_of (t_usage D) k = None"
  shows "ledger_total (D\<lparr>t_usage := od_put k row (t_usage D)\<rparr>) p = ledger_total D p + (if p row then dval (gur_cost_amount row) else 0)"
  using assms by (simp add: ledger_total_def rows_put_new)

lemma ledger_read: "sum_list (map dval (ledger_amounts D c)) = ledger_total D (call_usage c)"
  by (simp add: ledger_amounts_def ledger_total_def comp_def)

lemma keyed_distinct:
  assumes "keyed keyof T"
  shows "distinct (map keyof (rows T))"
proof -
  have "map keyof (rows T) = map fst T"
    using assms by (auto simp: keyed_def rows_def)
  with assms show ?thesis by (simp add: keyed_def)
qed

text \<open>Committing a charge: what it adds to the totals.\<close>

definition with_charge :: "AIGatewayUsageLedgerRow option \<Rightarrow> database_tables \<Rightarrow> database_tables" where
  "with_charge new D = D\<lparr>t_usage := (case new of None \<Rightarrow> t_usage D | Some row \<Rightarrow> od_put (usage_row_key row) row (t_usage D))\<rparr>"

lemma with_charge_total:
  assumes "fresh_charge D c new"
  shows "ledger_total (with_charge new D) (call_usage c) = ledger_total D (call_usage c) + own_amount new"
    "call_usage d \<noteq> call_usage c \<Longrightarrow> ledger_total (with_charge new D) (call_usage d) = ledger_total D (call_usage d)"
    "ledger_total D p \<le> ledger_total (with_charge new D) p"
    "\<not> invocation_budget (uc_invocation c) (uc_id c) b \<Longrightarrow>
       ledger_total (with_charge new D) (same_scope b) = ledger_total D (same_scope b)"
    "map_of (t_usage D) k = Some row \<Longrightarrow> map_of (t_usage (with_charge new D)) k = Some row"
    "keyed usage_row_key (t_usage D) \<Longrightarrow> keyed usage_row_key (t_usage (with_charge new D))"
  using assms
  by (cases new; auto simp: fresh_charge_def with_charge_def own_amount_def ledger_total_put dest: call_usage_same budget_scope(2))+

text \<open>What a worker in flight knows survives the commits of the others.\<close>

lemma phase_true_kept:
  assumes "phase_true rel D c p" "ledger_total D (call_usage c) = ledger_total E (call_usage c) \<or> rel = (\<le>)"
    and "ledger_total D (call_usage c) \<le> ledger_total E (call_usage c)"
    and "\<And>row. inserted_row p = Some row \<Longrightarrow> map_of (t_usage D) (usage_row_key row) = None \<Longrightarrow>
      map_of (t_usage E) (usage_row_key row) = None"
  shows "phase_true rel E c p"
  using assms by (cases p) (auto simp: fresh_charge_def split: option.splits)

lemma phase_true_same: "t_usage E = t_usage D \<Longrightarrow> phase_true rel E c p = phase_true rel D c p"
  by (cases p) (simp_all add: fresh_charge_def ledger_total_def)

lemma commit_ok:
  assumes ok: "charges_ok rel calls (D, ph)" and rel: "related rel calls (D, ph)" and w: "ph w = Totalled new spent"
    and E: "E = (with_charge new D)\<lparr>t_budgets := rewrite (invocation_budget (uc_invocation (calls w)) (uc_id (calls w)))
       (settled_budget spent (uc_final (calls w)) payload now) (t_budgets D)\<rparr>"
  shows "charges_ok rel calls (E, ph(w := Closed))"
proof -
  let ?c = "calls w"
  have phase: "phase_true rel D (calls v) (ph v)" for v using ok by (simp add: charges_ok_def)
  have new: "fresh_charge D ?c new" "rel (dval spent) (ledger_total D (call_usage ?c) + own_amount new)"
    using phase [of w] w by simp_all
  note total = with_charge_total [OF new(1)]
  have amounts: "amounts_ok rel E"
    unfolding amounts_ok_def
  proof (intro ballI allI impI)
    fix b a assume b: "b \<in> set (rows (t_budgets E))" "gbr_actual_amount b = Some a"
    then obtain q where q: "q \<in> set (rows (t_budgets D))"
      "b = (if invocation_budget (uc_invocation ?c) (uc_id ?c) q
            then settled_budget spent (uc_final ?c) payload now q else q)"
      by (auto simp: E)
    show "rel (dval a) (ledger_total E (same_scope b))"
    proof (cases "invocation_budget (uc_invocation ?c) (uc_id ?c) q")
      case True
      then have "a = spent" "same_scope b = call_usage ?c"
        using q(2) b(2) by (auto simp: budget_scope(3) budget_scope(1) [OF True]) (simp add: settled_budget_def)
      with new(2) total(1) show ?thesis by (simp add: E)
    next
      case False
      then have "rel (dval a) (ledger_total D (same_scope b))"
        using q b(2) ok by (auto simp: charges_ok_def amounts_ok_def)
      with False q(2) total(4) show ?thesis by (simp add: E)
    qed
  qed
  have others: "phase_true rel E (calls v) (ph v)" if v: "v \<noteq> w" for v
  proof -
    have same: "ledger_total D (call_usage (calls v)) = ledger_total (with_charge new D) (call_usage (calls v)) \<or> rel = (\<le>)"
      if "in_flight (ph v)"
    proof (cases "rel = (\<le>)")
      case False
      then have "call_usage (calls v) \<noteq> call_usage ?c"
        using rel that w v by (auto simp: related_def apart_def in_flight_def)
      with total(2) show ?thesis by simp
    qed simp
    have "map_of (t_usage (with_charge new D)) (usage_row_key row) = None"
      if "inserted_row (ph v) = Some row" "map_of (t_usage D) (usage_row_key row) = None" for row
    proof (cases new)
      case (Some own)
      then have "usage_row_key own \<noteq> usage_row_key row"
        using ok v w that(1) unfolding charges_ok_def by fastforce
      with Some that(2) show ?thesis by (simp add: with_charge_def)
    qed (use that(2) in \<open>simp add: with_charge_def\<close>)
    then have "phase_true rel (with_charge new D) (calls v) (ph v)" if "in_flight (ph v)"
      using phase_true_kept [OF phase [of v] _ total(3)] same [OF that] by blast
    moreover have "phase_true rel (with_charge new D) (calls v) (ph v)" if "\<not> in_flight (ph v)"
      using phase [of v] that by (cases "ph v") (simp_all add: in_flight_def)
    ultimately have "phase_true rel (with_charge new D) (calls v) (ph v)" by blast
    then show ?thesis using phase_true_same [of E "with_charge new D"] by (simp add: E)
  qed
  have "keyed usage_row_key (t_usage E)" using ok total(6) by (simp add: charges_ok_def E)
  moreover have "phase_true rel E (calls v) ((ph(w := Closed)) v)" for v using others by simp
  moreover have "inserted_row ((ph(w := Closed)) v) = Some q \<Longrightarrow> inserted_row (ph v) = Some q" for v q by (simp split: if_splits)
  then have "u = v" if "inserted_row ((ph(w := Closed)) u) = Some q" "inserted_row ((ph(w := Closed)) v) = Some q'"
      "usage_row_key q = usage_row_key q'" for u v q q'
    using ok that unfolding charges_ok_def by blast
  ultimately show ?thesis using amounts unfolding charges_ok_def by blast
qed

lemma phase_read:
  assumes ok: "charges_ok rel calls (D, ph)" and phase: "phase_true rel D (calls w) p"
    and keys: "\<And>q v row. inserted_row p = Some q \<Longrightarrow> inserted_row (ph w) \<noteq> Some q \<Longrightarrow> v \<noteq> w \<Longrightarrow>
      inserted_row (ph v) = Some row \<Longrightarrow> usage_row_key row \<noteq> usage_row_key q"
  shows "charges_ok rel calls (D, ph(w := p))"
proof -
  have own: "v = w" if "inserted_row p = Some q" "inserted_row (ph v) = Some row" "usage_row_key row = usage_row_key q" for q v row
  proof (cases "inserted_row (ph w) = Some q")
    case True
    with ok that(2,3) show ?thesis unfolding charges_ok_def by blast
  next
    case False
    with keys that show ?thesis by blast
  qed
  have "u = v" if u: "inserted_row ((ph(w := p)) u) = Some q" and v: "inserted_row ((ph(w := p)) v) = Some q'"
    and k: "usage_row_key q = usage_row_key q'" for u v q q'
  proof (cases "u = w \<or> v = w")
    case True
    then show ?thesis using own [of q v q'] own [of q' u q] u v k by (auto split: if_splits)
  next
    case False
    then have "inserted_row (ph u) = Some q" "inserted_row (ph v) = Some q'" using u v by simp_all
    with ok k show ?thesis unfolding charges_ok_def by blast
  qed
  moreover have "phase_true rel D (calls v) ((ph(w := p)) v)" for v using ok phase by (simp add: charges_ok_def)
  ultimately show ?thesis using ok unfolding charges_ok_def by blast
qed

lemma statement_ok:
  assumes ok: "charges_ok rel calls (D, ph)" and rel: "related rel calls (D, ph)" and cost: "0 \<le> dval (uc_cost (calls w))"
    and key: "\<And>cost v row. ph w = Priced cost \<Longrightarrow> v \<noteq> w \<Longrightarrow> inserted_row (ph v) = Some row \<Longrightarrow>
       usage_row_key row \<noteq> usage_row_key (charge_row cd (calls w) cost)"
    and run: "usage_statement cd (calls w) D (ph w) = (E, p)"
  shows "charges_ok rel calls (E, ph(w := p))"
proof -
  have phase: "phase_true rel D (calls w) (ph w)" using ok by (simp add: charges_ok_def)
  show ?thesis
  proof (cases "ph w")
    case Opening
    with run have "E = D" "phase_true rel D (calls w) p" "inserted_row p = None" by auto
    then show ?thesis using phase_read [OF ok, of w p] by simp
  next
    case Closed
    with run have "E = D" "p = Closed" by auto
    then show ?thesis using phase_read [OF ok, of w Closed] by simp
  next
    case Past_Fence
    with run have "E = D" "p = Priced (if uc_kind (calls w) = ''provider_partial''
        then dec_max 0 (uc_cost (calls w) - dec_or (Some (dec_sum (ledger_amounts D (calls w)))) 0) else uc_cost (calls w))"
      by auto
    then show ?thesis using cost by (auto intro!: phase_read [OF ok] simp: dec_max_def less_decimal_def)
  next
    case (Priced c)
    let ?row = "charge_row cd (calls w) c"
    have "call_usage (calls w) ?row" "gur_cost_amount ?row = c"
      by (simp_all add: charge_row_def new_row_usage) (simp add: new_usage_row_def)
    moreover have "usage_row_key row \<noteq> usage_row_key ?row" if "v \<noteq> w" "inserted_row (ph v) = Some row" for v row
      using key [OF Priced that] .
    moreover have "E = D" "p = Charged (if map_of (t_usage D) (usage_row_key ?row) = None then Some ?row else None)"
      using run unfolding Priced usage_statement.simps Let_def by blast+
    ultimately show ?thesis using Priced phase
      by (cases "map_of (t_usage D) (usage_row_key ?row)") (auto intro!: phase_read [OF ok] simp: fresh_charge_def)
  next
    case (Charged new)
    with run have "E = D" "p = Totalled new (dec_sum (ledger_amounts D (calls w) @
        (case new of None \<Rightarrow> [] | Some row \<Rightarrow> [gur_cost_amount row])))" by auto
    moreover have "rel x x" for x using related_refl [OF rel] .
    ultimately show ?thesis
      using Charged phase by (cases new) (auto intro!: phase_read [OF ok] simp: ledger_read own_amount_def)
  next
    case (Totalled new spent)
    with run have p: "p = Closed" and E: "E = (with_charge new D)\<lparr>t_budgets := rewrite
        (invocation_budget (uc_invocation (calls w)) (uc_id (calls w)))
        (settled_budget spent (uc_final (calls w)) (cd_dump_usage cd (uc_usage (calls w))) (uc_now (calls w))) (t_budgets D)\<rparr>"
      by (auto simp: with_charge_def)
    show ?thesis unfolding p by (rule commit_ok [OF ok rel Totalled E])
  qed
qed

lemma elsewhere_ok:
  assumes "charges_ok rel calls (D, ph)" "elsewhere D E"
  shows "charges_ok rel calls (E, ph)"
proof -
  have usage: "t_usage E = t_usage D" using assms(2) by (simp add: elsewhere_def)
  have "amounts_ok rel E"
    unfolding amounts_ok_def
  proof (intro ballI allI impI)
    fix b a assume "b \<in> set (rows (t_budgets E))" "gbr_actual_amount b = Some a"
    then obtain q where q: "q \<in> set (rows (t_budgets D))" "budget_key q = budget_key b" "gbr_actual_amount q = Some a"
      using assms(2) unfolding elsewhere_def by blast
    have "same_scope b = same_scope q" using q(2) by (auto simp: same_scope_def budget_key_def fun_eq_iff)
    with q assms(1) usage show "rel (dval a) (ledger_total E (same_scope b))"
      by (auto simp: charges_ok_def amounts_ok_def ledger_total_def)
  qed
  with assms(1) usage show ?thesis by (simp add: charges_ok_def phase_true_same [OF usage])
qed

lemma usage_step_ok:
  assumes "usage_step cd calls c d" "charges_ok rel calls c" "related rel calls c" "\<And>w. 0 \<le> dval (uc_cost (calls w))"
  shows "charges_ok rel calls d"
  using assms
proof (induction rule: usage_step.induct)
  case (Statement ph w D E p)
  show ?case by (rule statement_ok [OF Statement(3,4,5) Statement(1) Statement(2)])
next
  case (Abort D ph w)
  then show ?case by (auto simp: charges_ok_def split: if_splits)
next
  case (Others D E ph)
  then show ?case by (blast intro: elsewhere_ok)
qed

lemma usage_step_rows:
  assumes "usage_step cd calls (D, ph) (E, ph')" "charges_ok (\<le>) calls (D, ph)"
    and "map_of (t_usage D) k = Some row"
  shows "map_of (t_usage E) k = Some row"
  using assms(1)
proof (cases rule: usage_step.cases)
  case (Statement w p)
  show ?thesis
  proof (cases "ph w")
    case (Totalled new spent)
    then have "fresh_charge D (calls w) new"
      using assms(2) by (auto simp: charges_ok_def) (metis phase_true.simps(3))
    moreover have "t_usage E = t_usage (with_charge new D)" using Statement(3) Totalled by (auto simp: with_charge_def)
    ultimately show ?thesis using with_charge_total(5) assms(3) by metis
  qed (use Statement(3) assms(3) in \<open>auto simp: Let_def\<close>)
qed (use assms(3) in \<open>auto simp: elsewhere_def\<close>)

lemma usage_run_ok:
  assumes "(usage_step cd calls)\<^sup>*\<^sup>* c d" "charges_ok (\<le>) calls c" "\<And>w. 0 \<le> dval (uc_cost (calls w))"
  shows "charges_ok (\<le>) calls d \<and> (\<forall>k row. map_of (t_usage (fst c)) k = Some row \<longrightarrow> map_of (t_usage (fst d)) k = Some row)"
  using assms(1,2)
proof (induction rule: rtranclp_induct)
  case (step d e)
  obtain D ph E ph' where de: "d = (D, ph)" "e = (E, ph')" by (cases d, cases e)
  from step have d: "charges_ok (\<le>) calls d" by blast
  from usage_step_ok [OF step.hyps(2) d _ assms(3)] have "charges_ok (\<le>) calls e" by (simp add: related_def)
  moreover have "map_of (t_usage (fst e)) k = Some row" if "map_of (t_usage (fst d)) k = Some row" for k row
    using usage_step_rows [OF step.hyps(2) [unfolded de] d [unfolded de]] that by (simp add: de)
  ultimately show ?case using step by blast
qed simp

lemma serial_run_ok:
  assumes "(\<lambda>c d. usage_step cd calls c d \<and> apart calls d)\<^sup>*\<^sup>* c d" "charges_ok (=) calls c" "apart calls c"
    and "\<And>w. 0 \<le> dval (uc_cost (calls w))"
  shows "charges_ok (=) calls d \<and> apart calls d"
  using assms(1-3)
proof (induction rule: rtranclp_induct)
  case (step d e)
  then show ?case using usage_step_ok [where rel = "(=)" and c = d and d = e] assms(4) by (auto simp: related_def)
qed simp

lemma opening_ok:
  assumes "ledger_ok D" "rel = (\<le>) \<or> rel = (=)"
  shows "charges_ok rel calls (D, \<lambda>_. Opening)" "apart calls (D, \<lambda>_. Opening)"
  using assms by (auto simp: charges_ok_def ledger_ok_def amounts_ok_def apart_def in_flight_def)

text \<open>C14 (invariant). Whatever concurrent accounting transactions of the durable Gateway store do, interleaved statement by
  statement at READ COMMITTED, aborting anywhere and with any other operations in between: a usage event that is in
  the ledger stays there unchanged and is not charged a second time, and the amount recorded for an invocation never
  exceeds the sum of its ledger. It is that sum exactly in every run in which no two transactions of one invocation
  overlap between their insertion and their commit.\<close>

theorem usage_charged_once:
  assumes "ledger_ok D\<^sub>0" "\<And>w. 0 \<le> dval (uc_cost (calls w))"
    and "(usage_step cd calls)\<^sup>*\<^sup>* (D\<^sub>0, \<lambda>_. Opening) (D, ph)" "(usage_step cd calls)\<^sup>*\<^sup>* (D, ph) (E, ph')"
  shows "(\<forall>k row. map_of (t_usage D) k = Some row \<longrightarrow> map_of (t_usage E) k = Some row)
    \<and> distinct (map usage_row_key (rows (t_usage E)))
    \<and> (\<forall>b \<in> set (rows (t_budgets E)). \<forall>a. gbr_actual_amount b = Some a \<longrightarrow> dval a \<le> ledger_total E (same_scope b))
    \<and> ((\<lambda>c d. usage_step cd calls c d \<and> apart calls d)\<^sup>*\<^sup>* (D\<^sub>0, \<lambda>_. Opening) (E, ph') \<longrightarrow>
        (\<forall>b \<in> set (rows (t_budgets E)). \<forall>a. gbr_actual_amount b = Some a \<longrightarrow> dval a = ledger_total E (same_scope b)))"
proof -
  have D: "charges_ok (\<le>) calls (D, ph)"
    using usage_run_ok [OF assms(3) opening_ok(1) [OF assms(1)] assms(2)] by simp
  note E = usage_run_ok [OF assms(4) D assms(2)]
  have "keyed usage_row_key (t_usage E)" using E by (simp add: charges_ok_def)
  then have "distinct (map usage_row_key (rows (t_usage E)))" by (rule keyed_distinct)
  moreover have "amounts_ok (=) E" if "(\<lambda>c d. usage_step cd calls c d \<and> apart calls d)\<^sup>*\<^sup>* (D\<^sub>0, \<lambda>_. Opening) (E, ph')"
    using serial_run_ok [OF that opening_ok(1) [OF assms(1), of "(=)"] opening_ok(2) [OF assms(1), of "(=)"] assms(2)]
    by (simp add: charges_ok_def)
  ultimately show ?thesis using E by (simp add: charges_ok_def amounts_ok_def)
qed

section \<open>Superseded workers\<close>

text \<open>Between the fence and the commit a claim may change hands; before the fence it may not.\<close>

definition not_started :: "string \<Rightarrow> int \<Rightarrow> nat \<Rightarrow> database_tables \<times> (nat \<Rightarrow> usage_phase) \<Rightarrow> bool" where
  "not_started i g w = (\<lambda>(D, ph). claims_ok D \<and> claimed_at D i g \<and> ph w \<in> {Opening, Closed})"

lemma superseded_passes_not:
  assumes "claims_ok D" "claimed_at D i g'" "g < g'" "uc_id c = i" "uc_claim c = Some (worker, g)"
  shows "\<not> passes_fence D c"
  using claimed_superseded [OF assms(1-3)] assms(4,5)
  by (auto simp: passes_fence_def superseded_def owned_row_def list_ex_iff)

lemma statement_invocations: "usage_statement cd c D p = (E, q) \<Longrightarrow> t_invocations E = t_invocations D"
  by (cases p) (auto simp: Let_def)

lemma not_started_step:
  assumes "usage_step cd calls c d" "not_started i g' w c" "g < g'" "uc_id (calls w) = i"
    "uc_claim (calls w) = Some (worker, g)"
  shows "not_started i g' w d"
  using assms
proof (induction rule: usage_step.induct)
  case (Statement ph v D E p)
  have "claims_ok E \<and> claimed_at E i g'"
    using Statement(3) statement_invocations [OF Statement(2)] by (simp add: not_started_def claims_ok_def claimed_at_def)
  moreover have "(ph(v := p)) w \<in> {Opening, Closed}"
    using Statement(2-6) superseded_passes_not [of D i g' g "calls w" worker]
    by (auto simp: not_started_def)
  ultimately show ?case by (simp add: not_started_def)
qed (auto simp: not_started_def elsewhere_def)

text \<open>C13 (safety). Once a claim of an invocation has been granted, a worker that holds an earlier generation is refused by
  every operation that has a fence, started after that: its ownership check, its two checkpoints, its usage and its two
  provider effect records raise and change no row. For usage, whose fence is a read of its own, this holds statement by
  statement: whatever other transactions do in between, its transaction never gets past the fence. The operations
  without a fence (\<^verbatim>\<open>record_attempt\<close>, \<^verbatim>\<open>release\<close>, the cache) are not refused, and neither is a transaction that was
  past its fence when the claim was granted.\<close>

theorem superseded_worker_fenced:
  assumes "gateway_db db tb bk" "gateway_rows_ok (tb (gateway_state.more s))"
    and "pg_claim_execution db cd i owner now lease s = (Inr (Some g), t)"
    and "(store_step db tx cd tb)\<^sup>*\<^sup>* t u" "old < g" "inv_invocation_id v = i" "inv_claim_generation v = old"
    and "uc_id (calls w) = i" "uc_claim (calls w) = Some (worker, old)" "ph w = Opening"
    and "(usage_step cd calls)\<^sup>*\<^sup>* (tb (gateway_state.more u), ph) (E, ph')"
  shows "(\<forall>m \<in> {pg_assert_execution_owner db i worker old, pg_checkpoint db cd v, pg_checkpoint_terminal_intent db cd v,
       pg_record_usage db cd i usg cost event_key kind fin n (Some (worker, old)),
       pg_reserve_provider_effect db cd i effect_key k model worker old,
       pg_record_provider_effect db cd i effect_key result (Some (worker, old))}.
     refused (\<lambda>s. tb (gateway_state.more s)) m u)
    \<and> ph' w \<in> {Opening, Closed}"
proof -
  note claim = superseded_after [OF assms(1-5)]
  have "not_started i g w (E, ph')"
    using assms(11)
  proof (induction rule: rtranclp_induct)
    case base
    show ?case using claim assms(10) by (simp add: not_started_def)
  next
    case (step c d)
    show ?case by (rule not_started_step [OF step.hyps(2) step.IH assms(5,8,9)])
  qed
  then show ?thesis
    using gateway_db.superseded_owner [OF assms(1) claim(3)] gateway_db.superseded_checkpoints [OF assms(1)]
      gateway_db.superseded_writes [OF assms(1) claim(3)] claim(3) assms(6,7)
    by (auto simp: not_started_def)
qed

section \<open>Two workers of one invocation\<close>

definition turn ::
  "gateway_codecs \<Rightarrow> (nat \<Rightarrow> usage_call) \<Rightarrow> nat \<Rightarrow> database_tables \<times> (nat \<Rightarrow> usage_phase)
   \<Rightarrow> database_tables \<times> (nat \<Rightarrow> usage_phase)"
where
  "turn cd calls w = (\<lambda>(D, ph). (case usage_statement cd (calls w) D (ph w) of (E, p) \<Rightarrow> (E, ph(w := p))))"

definition turns ::
  "gateway_codecs \<Rightarrow> (nat \<Rightarrow> usage_call) \<Rightarrow> nat list \<Rightarrow> database_tables \<times> (nat \<Rightarrow> usage_phase)
   \<Rightarrow> database_tables \<times> (nat \<Rightarrow> usage_phase)"
where
  "turns cd calls ws s = foldl (\<lambda>s w. turn cd calls w s) s ws"

lemma turn_step:
  assumes "\<And>cost v row. ph w = Priced cost \<Longrightarrow> v \<noteq> w \<Longrightarrow> inserted_row (ph v) = Some row \<Longrightarrow>
       usage_row_key row \<noteq> usage_row_key (charge_row cd (calls w) cost)"
  shows "usage_step cd calls (D, ph) (turn cd calls w (D, ph))"
proof -
  obtain E p where t: "usage_statement cd (calls w) D (ph w) = (E, p)" by fastforce
  have "usage_step cd calls (D, ph) (E, ph(w := p))" 
    using Statement [where ph = ph and w = w and D = D and E = E and p = p] assms t by blast
  then show ?thesis by (simp add: turn_def t)
qed

lemma turns_snoc: "turns cd calls (ws @ [w]) s = turn cd calls w (turns cd calls ws s)"
  by (simp add: turns_def)

lemma not_in_flight: "\<not> in_flight p \<Longrightarrow> inserted_row p = None"
  by (cases p) (simp_all add: in_flight_def)

text \<open>Turns of one worker while no other is in flight do not overlap with anything.\<close>

lemma alone_turns:
  assumes "\<forall>v. v \<noteq> w \<longrightarrow> \<not> in_flight (ph v)"
  shows "(\<lambda>c d. usage_step cd calls c d \<and> apart calls d)\<^sup>*\<^sup>* (D, ph) (turns cd calls (replicate n w) (D, ph))
    \<and> (\<forall>v. v \<noteq> w \<longrightarrow> snd (turns cd calls (replicate n w) (D, ph)) v = ph v)"
proof (induction n)
  case (Suc n)
  obtain E qh where s: "turns cd calls (replicate n w) (D, ph) = (E, qh)" by fastforce
  have quiet: "\<not> in_flight (qh v)" if "v \<noteq> w" for v using Suc s assms that by simp
  have next_turn: "turns cd calls (replicate (Suc n) w) (D, ph) = turn cd calls w (E, qh)"
    unfolding replicate_Suc replicate_append_same [symmetric] turns_snoc s ..
  obtain F p where t: "turn cd calls w (E, qh) = (F, qh(w := p))"
    by (cases "usage_statement cd (calls w) E (qh w)") (simp add: turn_def)
  have "usage_step cd calls (E, qh) (F, qh(w := p))"
    using turn_step [of qh w cd calls E] quiet not_in_flight t by fastforce
  moreover have "apart calls (F, qh(w := p))" using quiet by (auto simp: apart_def)
  ultimately show ?case using Suc s t next_turn by (auto intro: rtranclp.rtrancl_into_rtrancl)
qed (simp add: turns_def)

text \<open>Worker 0 holds generation 1 of the invocation, worker 1 takes it over; each reports a usage event of its own.\<close>

definition takeover_call :: "nat \<Rightarrow> usage_call" where
  "takeover_call n = \<lparr>uc_invocation = new_invocation sample_request ''ai1'' sample_ack 0, uc_id = ''ai1'',
     uc_usage = usage_of 10 5, uc_cost = (if n = 0 then Dec 3 0 else Dec 4 0),
     uc_event_key = (if n = 0 then ''attempt-1'' else ''attempt-2''), uc_kind = ''actual'', uc_final = False,
     uc_attempt = Some 1, uc_claim = Some (if n = 0 then (''worker'', 1) else (''second'', 2)), uc_now = 0\<rparr>"

definition reserved_tables :: database_tables where
  "reserved_tables = fst (gateway_state.more (snd (pg_reserve gateway_held ''ai1'' ''t'' ''w'' (Dec 5 0) 0 None takeover_start)))"

definition claimed_tables :: database_tables where
  "claimed_tables = fst (gateway_state.more (snd takeover_claimed))"

definition fenced_worker :: "database_tables \<times> (nat \<Rightarrow> usage_phase)" where
  "fenced_worker = turn takeover_codecs takeover_call 0 (reserved_tables, \<lambda>_. Opening)"

definition raced :: "database_tables \<times> (nat \<Rightarrow> usage_phase)" where
  "raced = turns takeover_codecs takeover_call [0, 1, 1, 0, 1, 0, 1, 0, 1] (claimed_tables, snd fenced_worker)"

lemma takeover_fences:
  "passes_fence reserved_tables (takeover_call 0)" "\<not> passes_fence claimed_tables (takeover_call 0)"
  by code_simp+

lemma takeover_tables:
  "t_usage reserved_tables = []" "t_usage claimed_tables = []" "t_budgets claimed_tables = t_budgets reserved_tables"
  by code_simp+

lemma raced_ledger:
  "map (\<lambda>u. (gur_usage_event_key u, gur_cost_amount u)) (rows (t_usage (fst raced))) = [(''attempt-1'', Dec 3 0), (''attempt-2'', Dec 4 0)]"
  by code_simp

lemma raced_budget:
  "map gbr_actual_amount (rows (t_budgets (fst raced))) = [Some (Dec 4 0)]"
  by code_simp

lemma raced_scope: "list_all (\<lambda>b. list_all (same_scope b) (rows (t_usage (fst raced)))) (rows (t_budgets (fst raced)))"
  by code_simp

lemma fenced_worker_waits:
  "fst fenced_worker = reserved_tables" "snd fenced_worker = (\<lambda>_. Opening)(0 := Past_Fence)"
  using takeover_fences(1) by (simp_all add: fenced_worker_def turn_def)

text \<open>While only the two are in flight no insertion waits: their events differ.\<close>

definition two_workers :: "(nat \<Rightarrow> usage_phase) \<Rightarrow> bool" where
  "two_workers ph \<longleftrightarrow> (\<forall>v. v \<noteq> 0 \<longrightarrow> v \<noteq> 1 \<longrightarrow> inserted_row (ph v) = None)
     \<and> (\<forall>v row. inserted_row (ph v) = Some row \<longrightarrow> gur_usage_event_key row = uc_event_key (takeover_call v))"

lemma charge_event: "gur_usage_event_key (charge_row cd c cost) = uc_event_key c"
  by (simp add: charge_row_def new_usage_row_def)

lemma statement_inserts:
  "usage_statement cd c D p = (E, q) \<Longrightarrow> inserted_row q = Some row \<Longrightarrow>
     inserted_row p = Some row \<or> (\<exists>cost. row = charge_row cd c cost)"
  by (cases p) (auto simp: Let_def split: if_splits)

lemma two_workers_turn:
  assumes "two_workers ph" "w = 0 \<or> w = 1"
  shows "usage_step cd takeover_call (D, ph) (turn cd takeover_call w (D, ph))"
    "two_workers (snd (turn cd takeover_call w (D, ph)))"
proof -
  show "usage_step cd takeover_call (D, ph) (turn cd takeover_call w (D, ph))"
  proof (rule turn_step)
    fix cost v row assume v: "v \<noteq> w" "inserted_row (ph v) = Some row"
    then have "v = 0 \<or> v = 1" "gur_usage_event_key row = uc_event_key (takeover_call v)"
      using assms(1) by (auto simp: two_workers_def)
    then have "gur_usage_event_key row \<noteq> gur_usage_event_key (charge_row cd (takeover_call w) cost)"
      using v(1) assms(2) by (auto simp: charge_event takeover_call_def)
    then show "usage_row_key row \<noteq> usage_row_key (charge_row cd (takeover_call w) cost)"
      by (auto simp: usage_row_key_def)
  qed
  obtain E p where t: "usage_statement cd (takeover_call w) D (ph w) = (E, p)" by fastforce
  show "two_workers (snd (turn cd takeover_call w (D, ph)))"
    using assms statement_inserts [OF t] by (auto simp: two_workers_def turn_def t charge_event)
qed

lemma two_workers_turns:
  assumes "two_workers ph" "set ws \<subseteq> {0, 1}"
  shows "(usage_step cd takeover_call)\<^sup>*\<^sup>* (D, ph) (turns cd takeover_call ws (D, ph))
    \<and> two_workers (snd (turns cd takeover_call ws (D, ph)))"
  using assms(2)
proof (induction ws rule: rev_induct)
  case (snoc w ws)
  obtain E qh where s: "turns cd takeover_call ws (D, ph) = (E, qh)" by fastforce
  then have q: "two_workers qh" "w = 0 \<or> w = 1" using snoc by auto
  show ?case
    using snoc s two_workers_turn [OF q, of cd E] by (auto simp: turns_snoc intro: rtranclp.rtrancl_into_rtrancl)
qed (use assms(1) in \<open>simp add: turns_def\<close>)

lemma takeover_elsewhere: "elsewhere reserved_tables claimed_tables"
proof -
  let ?s = "snd (pg_reserve gateway_held ''ai1'' ''t'' ''w'' (Dec 5 0) 0 None takeover_start)"
  have "store_step gateway_held sample_tx takeover_codecs fst ?s (snd takeover_claimed)"
    unfolding takeover_claimed_def by (rule Claim) (rule prod.collapse [symmetric])
  from held_gateway.step_le [OF this] have le: "gateway_le reserved_tables claimed_tables"
    by (simp add: reserved_tables_def claimed_tables_def)
  have "gateway_rows_ok reserved_tables"
    using held_gateway.step_le [OF Reserve [OF prod.collapse [symmetric]]] takeover_rows_ok by (simp add: gateway_le_def reserved_tables_def)
  with le show ?thesis using takeover_tables by (auto simp: elsewhere_def gateway_le_def gateway_rows_ok_def)
qed

text \<open>C22 (error). Two concurrent accounting transactions of one invocation, of 3 and of 4: worker 0 has passed its fence
  when worker 1 takes the invocation over, and charges it afterwards although it does not own it any more; and as each
  sums the ledger before the other's row is committed, the budget row ends with 4 recorded for a ledger of 7.\<close>

theorem usage_race:
  "(usage_step takeover_codecs takeover_call)\<^sup>*\<^sup>* (reserved_tables, \<lambda>_. Opening) (claimed_tables, snd fenced_worker)
   \<and> t_usage claimed_tables = [] \<and> \<not> passes_fence claimed_tables (takeover_call 0)
   \<and> (usage_step takeover_codecs takeover_call)\<^sup>*\<^sup>* (claimed_tables, snd fenced_worker) raced
   \<and> map (\<lambda>u. (gur_usage_event_key u, gur_cost_amount u)) (rows (t_usage (fst raced))) = [(''attempt-1'', Dec 3 0), (''attempt-2'', Dec 4 0)]
   \<and> (\<exists>b. rows (t_budgets (fst raced)) = [b] \<and> gbr_actual_amount b = Some (Dec 4 0)
        \<and> ledger_total (fst raced) (same_scope b) = 7)"
proof -
  have start: "two_workers (\<lambda>_. Opening)" by (simp add: two_workers_def)
  have fenced: "usage_step takeover_codecs takeover_call (reserved_tables, \<lambda>_. Opening) fenced_worker" "two_workers (snd fenced_worker)"
    unfolding fenced_worker_def using two_workers_turn [OF start, of 0] by simp_all
  have "usage_step takeover_codecs takeover_call fenced_worker (claimed_tables, snd fenced_worker)"
    using Others [OF takeover_elsewhere] fenced_worker_waits(1) by (metis prod.collapse)
  with fenced(1) have before: "(usage_step takeover_codecs takeover_call)\<^sup>*\<^sup>* (reserved_tables, \<lambda>_. Opening) (claimed_tables, snd fenced_worker)"
    by (meson converse_rtranclp_into_rtranclp rtranclp.rtrancl_refl)
  have after: "(usage_step takeover_codecs takeover_call)\<^sup>*\<^sup>* (claimed_tables, snd fenced_worker) raced"
    unfolding raced_def using two_workers_turns [OF fenced(2)] by simp
  obtain b where b: "rows (t_budgets (fst raced)) = [b]" "gbr_actual_amount b = Some (Dec 4 0)"
    using raced_budget by (auto simp: map_eq_Cons_conv)
  have "list_all (same_scope b) (rows (t_usage (fst raced)))" using raced_scope b(1) by simp
  then have "filter (same_scope b) (rows (t_usage (fst raced))) = rows (t_usage (fst raced))"
    by (simp add: list_all_iff)
  moreover have "map gur_cost_amount (rows (t_usage (fst raced))) = [Dec 3 0, Dec 4 0]"
    using arg_cong [OF raced_ledger, of "map snd"] by (simp add: comp_def)
  from arg_cong [OF this, of "map dval"]
  have "map (dval \<circ> gur_cost_amount) (rows (t_usage (fst raced))) = [3, 4]" by (simp add: dval_Dec)
  ultimately have "ledger_total (fst raced) (same_scope b) = 7" by (simp add: ledger_total_def)
  with b show ?thesis using before after takeover_tables(2) takeover_fences(2) raced_ledger by blast
qed

lemma in_flight_simps: "\<not> in_flight Opening" "\<not> in_flight Closed"
  by (simp_all add: in_flight_def)

text \<open>Two reconciliations, one after the other, are added up.\<close>

definition serial_call :: "nat \<Rightarrow> usage_call" where
  "serial_call n = (takeover_call n)\<lparr>uc_claim := None\<rparr>"

definition first_charged :: "database_tables \<times> (nat \<Rightarrow> usage_phase)" where
  "first_charged = turns takeover_codecs serial_call (replicate 5 0) (reserved_tables, \<lambda>_. Opening)"

definition both_charged :: "database_tables \<times> (nat \<Rightarrow> usage_phase)" where
  "both_charged = turns takeover_codecs serial_call (replicate 5 1) first_charged"

lemma charged_rows:
  "snd first_charged 0 = Closed" "map gur_cost_amount (rows (t_usage (fst first_charged))) = [Dec 3 0]"
  "map gbr_actual_amount (rows (t_budgets (fst both_charged))) = [Some (Dec 7 0)]"
  by code_simp+

theorem usage_charged_once_witness:
  "\<exists>b. rows (t_budgets (fst both_charged)) = [b] \<and> gbr_actual_amount b = Some (Dec 7 0)
     \<and> dval (Dec 7 0) = ledger_total (fst both_charged) (same_scope b)
     \<and> (\<exists>row. row \<in> set (rows (t_usage (fst both_charged))) \<and> gur_cost_amount row = Dec 3 0)"
proof -
  let ?serial = "\<lambda>c d. usage_step takeover_codecs serial_call c d \<and> apart serial_call d"
  have ok: "ledger_ok reserved_tables"
  proof -
    have "gateway_rows_ok reserved_tables"
      using held_gateway.step_le [OF Reserve [OF prod.collapse [symmetric]]] takeover_rows_ok
      by (simp add: gateway_le_def reserved_tables_def)
    then show ?thesis by (simp add: gateway_rows_ok_def)
  qed
  have cost: "0 \<le> dval (uc_cost (serial_call w))" for w by (simp add: serial_call_def takeover_call_def)
  obtain D ph where d: "first_charged = (D, ph)" by fastforce
  obtain E qh where e: "both_charged = (E, qh)" by fastforce
  have first: "?serial\<^sup>*\<^sup>* (reserved_tables, \<lambda>_. Opening) (D, ph)" "\<forall>v. v \<noteq> 0 \<longrightarrow> ph v = Opening"
    using alone_turns [of 0 "\<lambda>_. Opening" takeover_codecs serial_call reserved_tables 5] d
    by (auto simp: first_charged_def in_flight_def)
  have quiet: "\<forall>v. v \<noteq> 1 \<longrightarrow> \<not> in_flight (ph v)"
    using first(2) charged_rows(1) d by (metis in_flight_simps(1,2) snd_conv)
  then have second: "?serial\<^sup>*\<^sup>* (D, ph) (E, qh)"
    using alone_turns [of 1 ph takeover_codecs serial_call D 5] d e by (auto simp: both_charged_def)
  have runs: "(usage_step takeover_codecs serial_call)\<^sup>*\<^sup>* c c'" if "?serial\<^sup>*\<^sup>* c c'" for c c'
    using that by (rule rtranclp_mono [THEN predicate2D, rotated]) auto
  note once = usage_charged_once [OF ok cost runs [OF first(1)] runs [OF second]]
  obtain b where b: "rows (t_budgets E) = [b]" "gbr_actual_amount b = Some (Dec 7 0)"
    using charged_rows(3) unfolding e by (auto simp: map_eq_Cons_conv)
  obtain k row where "t_usage D = [(k, row)]" "gur_cost_amount row = Dec 3 0"
    using charged_rows(2) unfolding d by (auto simp: rows_def map_eq_Cons_conv)
  then have row: "map_of (t_usage D) k = Some row" "gur_cost_amount row = Dec 3 0" by simp_all
  have "row \<in> set (rows (t_usage E))" using once row(1) by (blast intro: rows_mem)
  moreover have "dval (Dec 7 0) = ledger_total E (same_scope b)"
    using once rtranclp_trans [OF first(1) second] b by simp
  ultimately show ?thesis using b row(2) unfolding e fst_conv by blast
qed

text \<open>The worker that was taken over opens its transaction after that.\<close>

theorem superseded_worker_fenced_witness:
  "refused (\<lambda>s. fst (gateway_state.more s)) (pg_assert_execution_owner gateway_held ''ai1'' ''worker'' 1) takeover_end
   \<and> refused (\<lambda>s. fst (gateway_state.more s)) (pg_record_usage gateway_held takeover_codecs ''ai1'' (usage_of 1 1) (Dec 1 0)
        ''late'' ''actual'' True None (Some (''worker'', 1))) takeover_end
   \<and> snd (turn takeover_codecs takeover_call 0 (fst (gateway_state.more takeover_end), \<lambda>_. Opening)) 0 \<in> {Opening, Closed}"
proof -
  let ?v = "(new_invocation sample_request ''ai1'' sample_ack 0)\<lparr>inv_claim_generation := 1\<rparr>"
  let ?s = "snd (pg_reserve gateway_held ''ai1'' ''t'' ''w'' (Dec 5 0) 0 None takeover_start)"
  let ?c = "(fst (gateway_state.more takeover_end), \<lambda>_. Opening)"
  have reserve: "store_step gateway_held sample_tx takeover_codecs fst takeover_start ?s"
    by (rule Reserve) (rule prod.collapse [symmetric])
  have "gateway_rows_ok (fst (gateway_state.more ?s))"
    using held_gateway.step_le [OF reserve] takeover_rows_ok by (simp add: gateway_le_def)
  moreover have "pg_claim_execution gateway_held takeover_codecs ''ai1'' ''second'' 140 30 ?s = (Inr (Some 2), snd takeover_claimed)"
    using takeover_claim unfolding takeover_claimed_def by (metis prod.collapse)
  moreover obtain E qh where e: "turn takeover_codecs takeover_call 0 ?c = (E, qh)" by fastforce
  have "usage_step takeover_codecs takeover_call ?c (E, qh)"
    using turn_step [of "\<lambda>_. Opening" 0 takeover_codecs takeover_call] e by (metis inserted_row.simps(3) option.distinct(1))
  then have "(usage_step takeover_codecs takeover_call)\<^sup>*\<^sup>* ?c (E, qh)" by blast
  moreover have "uc_id (takeover_call 0) = ''ai1''" "uc_claim (takeover_call 0) = Some (''worker'', 1)"
    by (simp_all add: takeover_call_def)
  ultimately show ?thesis
    using superseded_worker_fenced [OF held_gateway.gateway_db_axioms _ _ takeover_runs(2), where s = ?s and i = "''ai1''"
        and owner = "''second''" and now = 140 and lease = 30 and g = 2 and old = 1 and v = ?v and calls = takeover_call and w = 0
        and worker = "''worker''" and ph = "\<lambda>_. Opening" and E = E and ph' = qh
        and usg = "usage_of 1 1" and cost = "Dec 1 0" and event_key = "''late''" and kind = "''actual''" and fin = True and n = None] e
    by (simp add: new_invocation_def)
qed

end
