(* ===== verification/Durable_Runtime.thy ===== *)
theory Durable_Runtime
  imports Durable_Effects Reference_Components
begin

text \<open>
  \<^verbatim>\<open>adapters/persistence_postgres/.../runtime.py\<close> and \<^verbatim>\<open>memory.py\<close>: the durable repositories of the Workflow
  Engine, the Skill Runtime, the Manager, the decision evidence and the Memory service, and the checkpoint that writes
  them in one transaction.

  Each repository is the in-memory one, whose fields are those of the host's state, together with what it
  remembers of the database (\<open>durable_host\<close>). The serializers of pydantic are arguments (\<open>runtime_codecs\<close>).
\<close>

record runtime_codecs =
  rc_dump_result :: "ResultEnvelope \<Rightarrow> string"
  rc_dump_error :: "ErrorEnvelope \<Rightarrow> string"
  rc_dump_workflow :: "WorkflowInstance \<Rightarrow> string"
  rc_load_workflow :: "string \<Rightarrow> exn + WorkflowInstance"
  rc_dump_workflow_receipt :: "WorkflowCommandReceipt \<Rightarrow> string"
  rc_load_workflow_receipt :: "string \<Rightarrow> exn + WorkflowCommandReceipt"
  rc_dump_execution :: "ExecutionRecord \<Rightarrow> string"
  rc_load_execution :: "string \<Rightarrow> exn + ExecutionRecord"
  rc_dump_execution_receipt :: "ExecutionCommandReceipt \<Rightarrow> string"
  rc_load_execution_receipt :: "string \<Rightarrow> exn + ExecutionCommandReceipt"
  rc_dump_decision :: "DecisionEvidence \<Rightarrow> string"
  rc_load_decision :: "string \<Rightarrow> exn + DecisionEvidence"

record ManagerReceipt =
  mgr_command :: CommandEnvelope
  mgr_workflow_command :: "CommandEnvelope option"
  mgr_result :: "ResultEnvelope option"
  mgr_error :: "ErrorEnvelope option"

record durable_host = host_state +
  workflow_prepared :: bool
  execution_prepared :: bool
  request_prepared :: bool
  decision_prepared :: bool
  workflow_versions :: "(string, int) odict"
  workflow_baseline :: "(string, string) odict"
  receipt_baseline :: "(string, string) odict"
  flushed_workflows :: "(string, int \<times> string) odict"
  flushed_receipts :: "(string, string) odict"
  pending_memory :: "(scoped_number, MemoryRecord) odict"
  held_workflow_locks :: "string list"

record 's runtime_config =
  rn_db :: "'s database"
  rn_text :: text_services
  rn_codecs :: runtime_codecs
  rn_dump_manager :: "ManagerReceipt \<Rightarrow> string"
  rn_load_manager :: "string \<Rightarrow> exn + ManagerReceipt"
  rn_tenant :: string
  rn_workspace :: string

section \<open>Intent and locks\<close>

definition normalize_result :: "ResultEnvelope \<Rightarrow> ResultEnvelope" where
  "normalize_result r = (case map_of (res_metadata r) ''execution_ids'' of
       Some (PList ids) \<Rightarrow> r\<lparr>res_metadata := od_put ''execution_ids'' (PTuple ids) (res_metadata r)\<rparr>
     | _ \<Rightarrow> r)"

definition intent_document :: "CommandEnvelope \<Rightarrow> pyval" where
  "intent_document c = (let a = cmeta_authorization (cmd_metadata c) in PDict
     [(''command_type'', PStr (cmd_command_type c)), (''command_version'', PStr (cmd_command_version c)),
      (''target_component'', PStr (cmd_target_component c)), (''initiator'', PStr (cmd_initiator c)),
      (''tenant_id'', PStr (cmd_tenant_id c)), (''workspace_id'', PStr (cmd_workspace_id c)),
      (''payload'', PDict (cmd_payload c)), (''workflow_id'', opt_str (cmd_workflow_id c)),
      (''workflow_step_id'', opt_str (cmd_workflow_step_id c)), (''execution_id'', opt_str (cmd_execution_id c)),
      (''attempt_number'', case cmeta_attempt_number (cmd_metadata c) of None \<Rightarrow> PNone | Some n \<Rightarrow> PInt n),
      (''authorization'', PDict
         [(''actor_id'', PStr (auth_actor_id a)), (''permissions'', py_strs (auth_permissions a)),
          (''tenant_id'', PStr (auth_tenant_id a)), (''workspace_id'', PStr (auth_workspace_id a)),
          (''policy_id'', PStr (auth_policy_id a)), (''policy_version_id'', PStr (auth_policy_version_id a))])])"

definition command_intent_hash :: "text_services \<Rightarrow> CommandEnvelope \<Rightarrow> string" where
  "command_intent_hash tx c = sha256 tx (json_dumps (compact_sorted (repr_float tx)) (intent_document c))"

definition record_separator :: string where
  "record_separator = [CHR 0x1F]"

definition scoped_idempotency_lock_key :: "CommandEnvelope \<Rightarrow> string" where
  "scoped_idempotency_lock_key c = join record_separator
     [cmd_tenant_id c, cmd_workspace_id c, cmd_target_component c, cmeta_idempotency_key (cmd_metadata c)]"

definition workflow_lock_key :: "string \<Rightarrow> string \<Rightarrow> string \<Rightarrow> string" where
  "workflow_lock_key tenant workspace w = join record_separator [''WorkflowAdmission'', tenant, workspace, w]"

definition scoped_workflow_lock_key :: "CommandEnvelope \<Rightarrow> string option" where
  "scoped_workflow_lock_key c =
     map_option (workflow_lock_key (cmd_tenant_id c) (cmd_workspace_id c)) (cmd_workflow_id c)"

section \<open>Immutable rows\<close>

definition outcome_row :: "runtime_codecs \<Rightarrow> ResultEnvelope \<Rightarrow> string \<Rightarrow> int \<Rightarrow> OutcomeRow" where
  "outcome_row rc r owner recorded =
     \<lparr>our_tenant_id = res_tenant_id r, our_workspace_id = res_workspace_id r, our_outcome_id = res_result_id r,
      our_owner_component = owner, our_subject_id = res_subject_reference r, our_kind = ''Result'',
      our_terminal = (res_completed_at r \<noteq> None), our_payload = rc_dump_result rc r, our_recorded_at = recorded\<rparr>"

definition error_row :: "runtime_codecs \<Rightarrow> ErrorEnvelope \<Rightarrow> string \<Rightarrow> OutcomeRow" where
  "error_row rc e owner =
     \<lparr>our_tenant_id = err_tenant_id e, our_workspace_id = err_workspace_id e, our_outcome_id = err_error_id e,
      our_owner_component = owner, our_subject_id = err_affected_subject e, our_kind = ''Error'',
      our_terminal = False, our_payload = rc_dump_error rc e, our_recorded_at = instant (err_occurred_at e)\<rparr>"

definition keep_outcome :: "'s database \<Rightarrow> OutcomeRow \<Rightarrow> string \<Rightarrow> ('s, unit) eff" where
  "keep_outcome db row message =
     bnd (tbl_insert_missing (db_outcomes db) row) (\<lambda>_.
     bnd (tbl_get (db_outcomes db) (outcome_key row)) (\<lambda>stored.
     guard (case stored of None \<Rightarrow> False | Some old \<Rightarrow> our_payload old = our_payload row) (ValueError message)))"

definition immutable_outcome ::
  "('z services_scheme) runtime_config \<Rightarrow> ResultEnvelope \<Rightarrow> string \<Rightarrow> ('z services_scheme, unit) eff" where
  "immutable_outcome cfg r owner =
     bnd (case (res_completed_at r, res_started_at r) of
            (Some t, _) \<Rightarrow> ret (instant t)
          | (None, Some t) \<Rightarrow> ret (instant t)
          | (None, None) \<Rightarrow> clock_now) (\<lambda>recorded.
     keep_outcome (rn_db cfg) (outcome_row (rn_codecs cfg) r owner recorded)
       ''ResultId cannot be reused with changed immutable content'')"

definition immutable_error :: "'s runtime_config \<Rightarrow> ErrorEnvelope \<Rightarrow> string \<Rightarrow> ('s, unit) eff" where
  "immutable_error cfg e owner =
     keep_outcome (rn_db cfg) (error_row (rn_codecs cfg) e owner) ''ErrorId cannot be reused with changed immutable content''"

definition idempotency_row ::
  "text_services \<Rightarrow> string \<Rightarrow> CommandEnvelope \<Rightarrow> bool \<Rightarrow> string option \<Rightarrow> string \<Rightarrow> CommandIdempotencyRow" where
  "idempotency_row tx target c completed outcome payload =
     \<lparr>cir_tenant_id = cmd_tenant_id c, cir_workspace_id = cmd_workspace_id c, cir_target_component = target,
      cir_idempotency_key = cmeta_idempotency_key (cmd_metadata c), cir_command_id = cmd_command_id c,
      cir_command_hash = command_intent_hash tx c, cir_completed = completed, cir_outcome_id = outcome,
      cir_payload = payload\<rparr>"

definition idempotency ::
  "'s runtime_config \<Rightarrow> string \<Rightarrow> CommandEnvelope \<Rightarrow> bool \<Rightarrow> string option \<Rightarrow> string \<Rightarrow> ('s, unit) eff" where
  "idempotency cfg target c completed outcome payload =
     (let row = idempotency_row (rn_text cfg) target c completed outcome payload in
      bnd (tbl_upsert (db_idempotency (rn_db cfg)) row
             (\<lambda>old. cir_command_hash old = cir_command_hash row \<and> (\<not> cir_completed old \<or> completed))
             (\<lambda>old. old\<lparr>cir_completed := completed, cir_outcome_id := outcome, cir_payload := payload\<rparr>)) (\<lambda>_.
      bnd (tbl_get (db_idempotency (rn_db cfg)) (idempotency_row_key row)) (\<lambda>stored.
      guard (case stored of None \<Rightarrow> False | Some old \<Rightarrow> cir_command_hash old = cir_command_hash row)
        (ValueError ''IdempotencyKey cannot be reused with changed immutable intent''))))"

text \<open>\<^verbatim>\<open>_Prepared.prepare\<close>: the first call loads.\<close>

definition prepare_once :: "('s \<Rightarrow> bool) \<Rightarrow> ('s \<Rightarrow> 's) \<Rightarrow> ('s, unit) eff \<Rightarrow> ('s, unit) eff" where
  "prepare_once prepared mark load =
     bnd (asks prepared) (\<lambda>done_before. if done_before then ret () else bnd load (\<lambda>_. upd mark))"

fun for_each :: "('a \<Rightarrow> ('s, unit) eff) \<Rightarrow> 'a list \<Rightarrow> ('s, unit) eff" where
  "for_each f [] = ret ()"
| "for_each f (x # xs) = bnd (f x) (\<lambda>_. for_each f xs)"

section \<open>PostgresWorkflowRepository\<close>

definition restored_workflow :: "runtime_codecs \<Rightarrow> string \<Rightarrow> exn + WorkflowInstance" where
  "restored_workflow rc payload =
     ebind (rc_load_workflow rc payload) (\<lambda>v. Inr (v\<lparr>wf_outcome := map_option normalize_result (wf_outcome v)\<rparr>))"

definition cache_workflow ::
  "('z durable_host_scheme) runtime_config \<Rightarrow> WorkflowInstance \<Rightarrow> int \<Rightarrow> ('z durable_host_scheme, unit) eff" where
  "cache_workflow cfg v version = upd (\<lambda>s. s\<lparr>
     instances := od_put (wf_workflow_id v) v (instances s),
     workflow_versions := od_put (wf_workflow_id v) version (workflow_versions s),
     workflow_baseline := od_put (wf_workflow_id v) (rc_dump_workflow (rn_codecs cfg) v) (workflow_baseline s)\<rparr>)"

definition load_workflow_row ::
  "('z durable_host_scheme) runtime_config \<Rightarrow> WorkflowRow \<Rightarrow> ('z durable_host_scheme, unit) eff" where
  "load_workflow_row cfg row =
     bnd (lift (restored_workflow (rn_codecs cfg) (wfr_payload row))) (\<lambda>v. cache_workflow cfg v (wfr_version row))"

definition load_workflow_receipt ::
  "('z durable_host_scheme) runtime_config \<Rightarrow> CommandIdempotencyRow \<Rightarrow> ('z durable_host_scheme, unit) eff" where
  "load_workflow_receipt cfg row =
     bnd (lift (rc_load_workflow_receipt (rn_codecs cfg) (cir_payload row))) (\<lambda>r.
     let receipt = r\<lparr>wr_result := normalize_result (wr_result r)\<rparr>; k = cmd_command_id (wr_command receipt) in
     upd (\<lambda>s. s\<lparr>command_receipts := od_put k receipt (command_receipts s),
                receipt_baseline := od_put k (rc_dump_workflow_receipt (rn_codecs cfg) receipt) (receipt_baseline s)\<rparr>))"

definition receipts_of :: "'s runtime_config \<Rightarrow> string \<Rightarrow> ('s, CommandIdempotencyRow list) eff" where
  "receipts_of cfg target = tbl_select (db_idempotency (rn_db cfg))
     (\<lambda>row. cir_tenant_id row = rn_tenant cfg \<and> cir_workspace_id row = rn_workspace cfg \<and> cir_target_component row = target)"

definition load_workflows :: "('z durable_host_scheme) runtime_config \<Rightarrow> ('z durable_host_scheme, unit) eff" where
  "load_workflows cfg = db_transaction (rn_db cfg)
     (bnd (tbl_select (db_workflows (rn_db cfg))
             (\<lambda>row. wfr_tenant_id row = rn_tenant cfg \<and> wfr_workspace_id row = rn_workspace cfg)) (\<lambda>found.
      bnd (for_each (load_workflow_row cfg) found) (\<lambda>_.
      bnd (receipts_of cfg ''Workflow Engine'') (\<lambda>receipts.
      for_each (load_workflow_receipt cfg) receipts))))"

definition workflow_prepare :: "('z durable_host_scheme) runtime_config \<Rightarrow> ('z durable_host_scheme, unit) eff" where
  "workflow_prepare cfg = prepare_once workflow_prepared (\<lambda>s. s\<lparr>workflow_prepared := True\<rparr>) (load_workflows cfg)"

definition refresh_workflow ::
  "('z durable_host_scheme) runtime_config \<Rightarrow> string \<Rightarrow> ('z durable_host_scheme, WorkflowInstance option) eff" where
  "refresh_workflow cfg w =
     bnd (db_transaction (rn_db cfg) (tbl_get (db_workflows (rn_db cfg)) (Scoped (rn_tenant cfg) (rn_workspace cfg) w))) (\<lambda>found.
     case found of
       None \<Rightarrow> bnd (upd (\<lambda>s. s\<lparr>instances := AList.delete w (instances s)\<rparr>)) (\<lambda>_. ret None)
     | Some row \<Rightarrow>
         bnd (lift (restored_workflow (rn_codecs cfg) (wfr_payload row))) (\<lambda>v.
         bnd (upd (\<lambda>s. s\<lparr>instances := od_put w v (instances s),
                workflow_versions := od_put w (wfr_version row) (workflow_versions s),
                workflow_baseline := od_put w (rc_dump_workflow (rn_codecs cfg) v) (workflow_baseline s)\<rparr>)) (\<lambda>_.
         ret (Some v))))"

definition stored_command ::
  "'s runtime_config \<Rightarrow> string \<Rightarrow> CommandEnvelope \<Rightarrow> ('s, CommandIdempotencyRow option) eff" where
  "stored_command cfg target c =
     bnd (tbl_get (db_idempotency (rn_db cfg))
            (Scoped_Part (cmd_tenant_id c) (cmd_workspace_id c) target (cmeta_idempotency_key (cmd_metadata c)))) (\<lambda>found.
     case found of
       None \<Rightarrow> ret None
     | Some row \<Rightarrow>
         bnd (guard (cir_command_hash row = command_intent_hash (rn_text cfg) c)
                (ValueError ''IdempotencyKey cannot be reused with changed immutable intent'')) (\<lambda>_.
         ret (Some row)))"

definition workflow_replay_command ::
  "('z durable_host_scheme) runtime_config \<Rightarrow> CommandEnvelope
   \<Rightarrow> ('z durable_host_scheme, (CommandEnvelope \<times> ResultEnvelope option) option) eff"
where
  "workflow_replay_command cfg c =
     bnd (db_transaction (rn_db cfg)
       (bnd (stored_command cfg ''Workflow Engine'' c) (\<lambda>found.
        case found of
          None \<Rightarrow> ret None
        | Some row \<Rightarrow>
            bnd (lift (rc_load_workflow_receipt (rn_codecs cfg) (cir_payload row))) (\<lambda>r. ret (Some (r, cir_completed row)))))) (\<lambda>known.
     case known of
       None \<Rightarrow> ret None
     | Some (r, completed) \<Rightarrow>
         let receipt = r\<lparr>wr_result := normalize_result (wr_result r)\<rparr> in
         bnd (refresh_workflow cfg (wr_workflow_id receipt)) (\<lambda>_.
         bnd (upd (\<lambda>s. s\<lparr>command_receipts := od_put (cmd_command_id (wr_command receipt)) receipt (command_receipts s)\<rparr>)) (\<lambda>_.
         ret (Some (wr_command receipt, if completed then Some (wr_result receipt) else None)))))"

text \<open>The Gateway's authority, on fresh durable state.\<close>

definition durable_ai_admission ::
  "('z durable_host_scheme) runtime_config \<Rightarrow> string \<Rightarrow> string \<Rightarrow> string \<Rightarrow> ('z durable_host_scheme, pydict option) eff" where
  "durable_ai_admission cfg w c e =
     bnd (refresh_workflow cfg w) (\<lambda>fresh.
     if fresh = None then ret None else asks (\<lambda>s. committed_admission s w c e))"

definition durable_owns_ai_dispatch ::
  "('z durable_host_scheme) runtime_config \<Rightarrow> string option \<Rightarrow> string \<Rightarrow> string \<Rightarrow> ('z durable_host_scheme, bool) eff" where
  "durable_owns_ai_dispatch cfg w c e =
     bnd (asks dispatched) (\<lambda>context.
     if context \<noteq> None then ret True else
     case w of
       None \<Rightarrow> ret False
     | Some w \<Rightarrow>
         bnd (db_transaction (rn_db cfg) (tbl_get (db_workflows (rn_db cfg)) (Scoped (rn_tenant cfg) (rn_workspace cfg) w))) (\<lambda>found.
         case found of
           None \<Rightarrow> ret False
         | Some row \<Rightarrow>
             bnd (lift (rc_load_workflow (rn_codecs cfg) (wfr_payload row))) (\<lambda>v.
             ret (map_of (wf_ai_admissions v) c \<noteq> None \<or> map_of (wf_ai_admission_states v) c \<noteq> None))))"

definition durable_authority :: "('z durable_host_scheme) runtime_config \<Rightarrow> ('z durable_host_scheme) authority" where
  "durable_authority cfg =
     \<lparr>authoritative_ai_admission = durable_ai_admission cfg, owns_ai_dispatch = durable_owns_ai_dispatch cfg\<rparr>"

definition workflow_row :: "WorkflowInstance \<Rightarrow> int \<Rightarrow> string \<Rightarrow> WorkflowRow" where
  "workflow_row v version payload =
     \<lparr>wfr_tenant_id = wf_tenant_id v, wfr_workspace_id = wf_workspace_id v, wfr_workflow_id = wf_workflow_id v,
      wfr_state = workflow_state_value (wf_state v), wfr_version = version, wfr_correlation_id = wf_correlation_id v,
      wfr_payload = payload\<rparr>"

definition workflow_step_row :: "WorkflowInstance \<Rightarrow> string \<Rightarrow> WorkflowStepRow" where
  "workflow_step_row v payload =
     \<lparr>wsr_tenant_id = wf_tenant_id v, wsr_workspace_id = wf_workspace_id v, wsr_workflow_step_id = wf_workflow_step_id v,
      wsr_workflow_id = wf_workflow_id v, wsr_state = workflow_state_value (wf_state v),
      wsr_attempt_number = wf_attempt_number v, wsr_payload = payload\<rparr>"

definition put_workflow_row :: "'s database \<Rightarrow> WorkflowInstance \<Rightarrow> int \<Rightarrow> string \<Rightarrow> ('s, unit) eff" where
  "put_workflow_row db v expected payload =
     bnd (tbl_upsert (db_workflows db) (workflow_row v (expected + 1) payload)
            (\<lambda>old. wfr_version old = expected)
            (\<lambda>old. old\<lparr>wfr_state := workflow_state_value (wf_state v), wfr_version := expected + 1, wfr_payload := payload\<rparr>)) (\<lambda>written.
     guard (map_option wfr_version written = Some (expected + 1))
       (RuntimeError ''stale Workflow snapshot rejected by durable version fence''))"

definition optional :: "'a option \<Rightarrow> ('a \<Rightarrow> ('s, unit) eff) \<Rightarrow> ('s, unit) eff" where
  "optional x f = (case x of None \<Rightarrow> ret () | Some y \<Rightarrow> f y)"

definition flush_workflow ::
  "('z durable_host_scheme) runtime_config \<Rightarrow> WorkflowInstance \<Rightarrow> ('z durable_host_scheme, unit) eff" where
  "flush_workflow cfg v =
     (let payload = rc_dump_workflow (rn_codecs cfg) v; w = wf_workflow_id v; db = rn_db cfg in
      bnd (asks (\<lambda>s. map_of (workflow_baseline s) w)) (\<lambda>baseline.
      if baseline = Some payload then ret () else
      bnd (asks (\<lambda>s. case map_of (workflow_versions s) w of None \<Rightarrow> 0 | Some n \<Rightarrow> n)) (\<lambda>expected.
      bnd (put_workflow_row db v expected payload) (\<lambda>_.
      bnd (tbl_upsert (db_steps db) (workflow_step_row v payload) (\<lambda>_. True)
             (\<lambda>old. old\<lparr>wsr_state := workflow_state_value (wf_state v), wsr_attempt_number := wf_attempt_number v,
                wsr_payload := payload\<rparr>)) (\<lambda>_.
      bnd (optional (wf_outcome v) (\<lambda>r. immutable_outcome cfg r ''Workflow Engine'')) (\<lambda>_.
      bnd (optional (wf_error v) (\<lambda>e. immutable_error cfg e ''Workflow Engine'')) (\<lambda>_.
      upd (\<lambda>s. s\<lparr>flushed_workflows := od_put w (expected + 1, payload) (flushed_workflows s)\<rparr>))))))))"

definition flush_workflow_receipt ::
  "('z durable_host_scheme) runtime_config \<Rightarrow> WorkflowCommandReceipt \<Rightarrow> ('z durable_host_scheme, unit) eff" where
  "flush_workflow_receipt cfg r =
     (let payload = rc_dump_workflow_receipt (rn_codecs cfg) r; k = cmd_command_id (wr_command r) in
      bnd (asks (\<lambda>s. map_of (receipt_baseline s) k)) (\<lambda>baseline.
      if baseline = Some payload then ret () else
      bnd (idempotency cfg ''Workflow Engine'' (wr_command r) (wr_state r = CMD_COMPLETED) (Some (res_result_id (wr_result r))) payload) (\<lambda>_.
      bnd (immutable_outcome cfg (wr_result r) ''Workflow Engine'') (\<lambda>_.
      bnd (optional (wr_error r) (\<lambda>e. immutable_error cfg e ''Workflow Engine'')) (\<lambda>_.
      upd (\<lambda>s. s\<lparr>flushed_receipts := od_put k payload (flushed_receipts s)\<rparr>))))))"

definition workflow_flush :: "('z durable_host_scheme) runtime_config \<Rightarrow> ('z durable_host_scheme, unit) eff" where
  "workflow_flush cfg =
     bnd (asks (\<lambda>s. map snd (instances s))) (\<lambda>vs.
     bnd (for_each (flush_workflow cfg) vs) (\<lambda>_.
     bnd (asks (\<lambda>s. map snd (command_receipts s))) (\<lambda>rs.
     for_each (flush_workflow_receipt cfg) rs)))"

definition put_all :: "('k, 'v) odict \<Rightarrow> ('k, 'v) odict \<Rightarrow> ('k, 'v) odict" where
  "put_all new d = foldl (\<lambda>d (k, v). od_put k v d) d new"

definition workflow_checkpoint_completed :: "('z durable_host_scheme, unit) eff" where
  "workflow_checkpoint_completed = upd (\<lambda>s. s\<lparr>
     workflow_versions := put_all (map (\<lambda>(w, n, _). (w, n)) (flushed_workflows s)) (workflow_versions s),
     workflow_baseline := put_all (map (\<lambda>(w, _, p). (w, p)) (flushed_workflows s)) (workflow_baseline s),
     receipt_baseline := put_all (flushed_receipts s) (receipt_baseline s),
     flushed_workflows := [], flushed_receipts := []\<rparr>)"

definition interrupted :: "'z durable_host_scheme \<Rightarrow> WorkflowInstance list" where
  "interrupted s = filter (\<lambda>v. wf_outcome v = None) (map snd (instances s))"

end
