(* ===== verification/Durable_Repositories.thy ===== *)
theory Durable_Repositories
  imports Durable_Runtime
begin

text \<open>
  The remaining participants of a durable checkpoint: \<^verbatim>\<open>PostgresExecutionRepository\<close>,
  \<^verbatim>\<open>PostgresRequestRepository\<close> and \<^verbatim>\<open>PostgresDecisionEvidenceRepository\<close> of
  \<^verbatim>\<open>adapters/persistence_postgres/.../runtime.py\<close>, \<^verbatim>\<open>PostgresMemoryRepository\<close> of \<^verbatim>\<open>memory.py\<close>, and
  \<^verbatim>\<open>checkpoint\<close>, which flushes all of them in one transaction.
\<close>

section \<open>PostgresExecutionRepository\<close>

fun execution_state_value :: "ExecutionState \<Rightarrow> string" where
  "execution_state_value EX_REQUESTED = ''Requested''"
| "execution_state_value EX_EXECUTING = ''Executing''"
| "execution_state_value EX_SUCCEEDED = ''Succeeded''"
| "execution_state_value EX_FAILED = ''Failed''"
| "execution_state_value EX_TIMED_OUT = ''TimedOut''"
| "execution_state_value EX_CANCELLED = ''Cancelled''"

definition load_execution_row ::
  "('z durable_host_scheme) runtime_config \<Rightarrow> ExecutionRow \<Rightarrow> ('z durable_host_scheme, unit) eff" where
  "load_execution_row cfg row =
     bnd (lift (rc_load_execution (rn_codecs cfg) (exr_payload row))) (\<lambda>r.
     let record = r\<lparr>er_acknowledgement := normalize_result (er_acknowledgement r),
                    er_result := map_option normalize_result (er_result r)\<rparr> in
     upd (\<lambda>s. s\<lparr>executions := od_setdefault (er_execution_id record) record (executions s)\<rparr>))"

definition load_execution_receipt ::
  "('z durable_host_scheme) runtime_config \<Rightarrow> CommandIdempotencyRow \<Rightarrow> ('z durable_host_scheme, unit) eff" where
  "load_execution_receipt cfg row =
     bnd (lift (rc_load_execution_receipt (rn_codecs cfg) (cir_payload row))) (\<lambda>r.
     let receipt = r\<lparr>xr_acknowledgement := normalize_result (xr_acknowledgement r)\<rparr> in
     upd (\<lambda>s. s\<lparr>execution_receipts :=
       od_setdefault (cmd_command_id (xr_command receipt)) receipt (execution_receipts s)\<rparr>))"

definition load_executions :: "('z durable_host_scheme) runtime_config \<Rightarrow> ('z durable_host_scheme, unit) eff" where
  "load_executions cfg = db_transaction (rn_db cfg)
     (bnd (tbl_select (db_executions (rn_db cfg))
             (\<lambda>row. exr_tenant_id row = rn_tenant cfg \<and> exr_workspace_id row = rn_workspace cfg)) (\<lambda>found.
      bnd (for_each (load_execution_row cfg) found) (\<lambda>_.
      bnd (receipts_of cfg ''Skill Runtime'') (\<lambda>receipts.
      for_each (load_execution_receipt cfg) receipts))))"

definition execution_prepare :: "('z durable_host_scheme) runtime_config \<Rightarrow> ('z durable_host_scheme, unit) eff" where
  "execution_prepare cfg = prepare_once execution_prepared (\<lambda>s. s\<lparr>execution_prepared := True\<rparr>) (load_executions cfg)"

definition execution_command :: "ExecutionRecord \<Rightarrow> ExecutionCommandReceipt list \<Rightarrow> CommandEnvelope option" where
  "execution_command r receipts =
     map_option xr_command (List.find (\<lambda>x. cmd_execution_id (xr_command x) = Some (er_execution_id r)) receipts)"

definition execution_row :: "ExecutionRecord \<Rightarrow> string option \<Rightarrow> string \<Rightarrow> string \<Rightarrow> ExecutionRow" where
  "execution_row r previous causation payload =
     \<lparr>exr_tenant_id = er_tenant_id r, exr_workspace_id = er_workspace_id r, exr_execution_id = er_execution_id r,
      exr_workflow_id = er_workflow_id r, exr_workflow_step_id = er_workflow_step_id r,
      exr_attempt_number = er_attempt_number r, exr_previous_execution_id = previous, exr_causation_id = causation,
      exr_state = execution_state_value (er_state r), exr_payload = payload\<rparr>"

text \<open>The records in the order of their attempts; \<open>previous\<close> is \<^verbatim>\<open>previous_by_step\<close>.\<close>

fun flush_executions ::
  "('z durable_host_scheme) runtime_config \<Rightarrow> (string, string) odict \<Rightarrow> ExecutionRecord list \<Rightarrow> ('z durable_host_scheme, unit) eff"
where
  "flush_executions cfg previous [] = ret ()"
| "flush_executions cfg previous (r # rs) =
     bnd (asks (\<lambda>s. execution_command r (map snd (execution_receipts s)))) (\<lambda>command.
     let payload = rc_dump_execution (rn_codecs cfg) r;
         causation = (case command of None \<Rightarrow> er_execution_id r | Some c \<Rightarrow> cmd_causation_id c) in
     bnd (tbl_upsert (db_executions (rn_db cfg))
            (execution_row r (map_of previous (er_workflow_step_id r)) causation payload) (\<lambda>_. True)
            (\<lambda>old. old\<lparr>exr_state := execution_state_value (er_state r), exr_payload := payload\<rparr>)) (\<lambda>_.
     bnd (optional (er_result r) (\<lambda>x. immutable_outcome cfg x ''Skill Runtime'')) (\<lambda>_.
     bnd (optional (er_error r) (\<lambda>e. immutable_error cfg e ''Skill Runtime'')) (\<lambda>_.
     flush_executions cfg (od_put (er_workflow_step_id r) (er_execution_id r) previous) rs))))"

definition flush_execution_receipt ::
  "('z durable_host_scheme) runtime_config \<Rightarrow> ExecutionCommandReceipt \<Rightarrow> ('z durable_host_scheme, unit) eff" where
  "flush_execution_receipt cfg r =
     bnd (idempotency cfg ''Skill Runtime'' (xr_command r) (xr_completed r) (Some (res_result_id (xr_acknowledgement r)))
            (rc_dump_execution_receipt (rn_codecs cfg) r)) (\<lambda>_.
     bnd (immutable_outcome cfg (xr_acknowledgement r) ''Skill Runtime'') (\<lambda>_.
     optional (xr_error r) (\<lambda>e. immutable_error cfg e ''Skill Runtime'')))"

definition execution_flush :: "('z durable_host_scheme) runtime_config \<Rightarrow> ('z durable_host_scheme, unit) eff" where
  "execution_flush cfg =
     bnd (asks (\<lambda>s. sort_key er_attempt_number (map snd (executions s)))) (\<lambda>ordered.
     bnd (flush_executions cfg [] ordered) (\<lambda>_.
     bnd (asks (\<lambda>s. map snd (execution_receipts s))) (\<lambda>receipts.
     for_each (flush_execution_receipt cfg) receipts)))"

section \<open>PostgresRequestRepository\<close>

definition remember_request :: "ManagerReceipt \<Rightarrow> 'z durable_host_scheme \<Rightarrow> 'z durable_host_scheme" where
  "remember_request r s = (let k = cmd_command_id (mgr_command r) in s\<lparr>
     request_commands := od_setdefault k (mgr_command r) (request_commands s),
     workflow_commands := (case mgr_workflow_command r of
        None \<Rightarrow> workflow_commands s | Some c \<Rightarrow> od_setdefault k c (workflow_commands s)),
     request_results := (case mgr_result r of
        None \<Rightarrow> request_results s | Some x \<Rightarrow> od_setdefault k x (request_results s)),
     request_errors := (case mgr_error r of
        None \<Rightarrow> request_errors s | Some e \<Rightarrow> od_setdefault k e (request_errors s))\<rparr>)"

definition load_request ::
  "('z durable_host_scheme) runtime_config \<Rightarrow> CommandIdempotencyRow \<Rightarrow> ('z durable_host_scheme, unit) eff" where
  "load_request cfg row =
     bnd (lift (rn_load_manager cfg (cir_payload row))) (\<lambda>r.
     upd (remember_request (r\<lparr>mgr_result := map_option normalize_result (mgr_result r)\<rparr>)))"

definition request_prepare :: "('z durable_host_scheme) runtime_config \<Rightarrow> ('z durable_host_scheme, unit) eff" where
  "request_prepare cfg = prepare_once request_prepared (\<lambda>s. s\<lparr>request_prepared := True\<rparr>)
     (db_transaction (rn_db cfg) (bnd (receipts_of cfg ''Manager'') (for_each (load_request cfg))))"

definition request_replay_command ::
  "'s runtime_config \<Rightarrow> CommandEnvelope \<Rightarrow> ('s, (CommandEnvelope \<times> ResultEnvelope option) option) eff" where
  "request_replay_command cfg c = db_transaction (rn_db cfg)
     (bnd (stored_command cfg ''Manager'' c) (\<lambda>found.
      case found of
        None \<Rightarrow> ret None
      | Some row \<Rightarrow>
          bnd (lift (rn_load_manager cfg (cir_payload row))) (\<lambda>r.
          ret (Some (mgr_command r,
            if cir_completed row then map_option normalize_result (mgr_result r) else None)))))"

definition flush_request ::
  "('z durable_host_scheme) runtime_config \<Rightarrow> string \<times> CommandEnvelope \<Rightarrow> ('z durable_host_scheme, unit) eff" where
  "flush_request cfg entry = (let (k, command) = entry in
     bnd (asks (\<lambda>s. \<lparr>mgr_command = command, mgr_workflow_command = map_of (workflow_commands s) k,
                     mgr_result = map_of (request_results s) k, mgr_error = map_of (request_errors s) k\<rparr>)) (\<lambda>receipt.
     bnd (idempotency cfg ''Manager'' command
            (case mgr_result receipt of None \<Rightarrow> False | Some r \<Rightarrow> res_completed_at r \<noteq> None)
            (map_option res_result_id (mgr_result receipt)) (rn_dump_manager cfg receipt)) (\<lambda>_.
     bnd (optional (mgr_result receipt) (\<lambda>r. immutable_outcome cfg r ''Manager'')) (\<lambda>_.
     optional (mgr_error receipt) (\<lambda>e. immutable_error cfg e ''Manager'')))))"

definition request_flush :: "('z durable_host_scheme) runtime_config \<Rightarrow> ('z durable_host_scheme, unit) eff" where
  "request_flush cfg = bnd (asks request_commands) (for_each (flush_request cfg))"

section \<open>PostgresDecisionEvidenceRepository\<close>

definition load_decision ::
  "('z durable_host_scheme) runtime_config \<Rightarrow> DecisionEvidenceRow \<Rightarrow> ('z durable_host_scheme, unit) eff" where
  "load_decision cfg row =
     bnd (lift (rc_load_decision (rn_codecs cfg) (der_payload row))) (\<lambda>d.
     upd (\<lambda>s. s\<lparr>decisions := od_setdefault (dec_decision_id d) d (decisions s)\<rparr>))"

definition keep_pending :: "string \<times> DecisionEvidence \<Rightarrow> ('z durable_host_scheme, unit) eff" where
  "keep_pending entry = (let (k, d) = entry in
     bnd (asks (\<lambda>s. map_of (decisions s) k)) (\<lambda>existing.
     bnd (guard (existing = None \<or> existing = Some d) (ValueError ''DecisionId cannot be reused with changed evidence'')) (\<lambda>_.
     upd (\<lambda>s. s\<lparr>decisions := od_put k d (decisions s)\<rparr>))))"

definition load_decisions :: "('z durable_host_scheme) runtime_config \<Rightarrow> ('z durable_host_scheme, unit) eff" where
  "load_decisions cfg =
     bnd (asks decisions) (\<lambda>pending.
     bnd (db_transaction (rn_db cfg)
       (bnd (tbl_select (db_decisions (rn_db cfg))
               (\<lambda>row. der_tenant_id row = rn_tenant cfg \<and> der_workspace_id row = rn_workspace cfg))
          (for_each (load_decision cfg)))) (\<lambda>_.
     for_each keep_pending pending))"

definition decision_prepare :: "('z durable_host_scheme) runtime_config \<Rightarrow> ('z durable_host_scheme, unit) eff" where
  "decision_prepare cfg = prepare_once decision_prepared (\<lambda>s. s\<lparr>decision_prepared := True\<rparr>) (load_decisions cfg)"

definition decision_row :: "DecisionEvidence \<Rightarrow> string \<Rightarrow> DecisionEvidenceRow" where
  "decision_row d payload =
     \<lparr>der_tenant_id = dec_tenant_id d, der_workspace_id = dec_workspace_id d, der_decision_id = dec_decision_id d,
      der_decision_type = dec_decision_type d, der_component = dec_component d,
      der_correlation_id = dec_correlation_id d, der_triggering_id = dec_triggering_id d,
      der_recorded_at = instant (dec_recorded_at d), der_payload = payload\<rparr>"

definition flush_decision :: "'s runtime_config \<Rightarrow> DecisionEvidence \<Rightarrow> ('s, unit) eff" where
  "flush_decision cfg d = (let row = decision_row d (rc_dump_decision (rn_codecs cfg) d) in
     bnd (tbl_insert_missing (db_decisions (rn_db cfg)) row) (\<lambda>_.
     bnd (tbl_get (db_decisions (rn_db cfg)) (decision_key row)) (\<lambda>stored.
     guard (case stored of None \<Rightarrow> False | Some old \<Rightarrow> der_payload old = der_payload row)
       (ValueError ''DecisionId cannot be reused with changed evidence''))))"

definition decision_flush :: "('z durable_host_scheme) runtime_config \<Rightarrow> ('z durable_host_scheme, unit) eff" where
  "decision_flush cfg = bnd (asks (\<lambda>s. map snd (decisions s))) (for_each (flush_decision cfg))"

section \<open>PostgresMemoryRepository\<close>

definition durable_save :: "MemoryRecord \<Rightarrow> int \<Rightarrow> ('z durable_host_scheme, unit) eff" where
  "durable_save r version =
     (let k = Scoped_Number (mr_tenant_id r) (mr_workspace_id r) (mr_memory_id r) version in
      bnd (asks (\<lambda>s. map_of (pending_memory s) k)) (\<lambda>existing.
      bnd (guard (existing = None \<or> existing = Some r)
             (ValueError ''MemoryId and version cannot be reused with changed content'')) (\<lambda>_.
      upd (\<lambda>s. s\<lparr>pending_memory := od_put k r (pending_memory s)\<rparr>))))"

fun memory_row :: "scoped_number \<Rightarrow> MemoryRecord \<Rightarrow> MemoryRecordRow" where
  "memory_row (Scoped_Number tenant workspace i version) r =
     \<lparr>mrr_tenant_id = tenant, mrr_workspace_id = workspace, mrr_memory_id = i, mrr_version = version,
      mrr_correlation_id = mr_correlation_id r, mrr_provenance = mr_provenance r, mrr_content = mr_content r\<rparr>"

definition flush_memory :: "'s runtime_config \<Rightarrow> scoped_number \<times> MemoryRecord \<Rightarrow> ('s, unit) eff" where
  "flush_memory cfg entry = (let row = memory_row (fst entry) (snd entry) in
     bnd (tbl_insert_missing (db_memory (rn_db cfg)) row) (\<lambda>_.
     bnd (tbl_get (db_memory (rn_db cfg)) (fst entry)) (\<lambda>stored.
     guard (case stored of None \<Rightarrow> False | Some old \<Rightarrow> mrr_correlation_id old = mrr_correlation_id row
               \<and> mrr_provenance old = mrr_provenance row \<and> mrr_content old = mrr_content row)
       (ValueError ''MemoryId and version cannot be reused with changed content''))))"

definition memory_flush :: "('z durable_host_scheme) runtime_config \<Rightarrow> ('z durable_host_scheme, unit) eff" where
  "memory_flush cfg = bnd (asks pending_memory) (for_each (flush_memory cfg))"

fun pending_version :: "string \<Rightarrow> string \<Rightarrow> string \<Rightarrow> scoped_number \<times> MemoryRecord \<Rightarrow> (int \<times> MemoryRecord) option" where
  "pending_version tenant workspace i (Scoped_Number t w m version, r) =
     (if t = tenant \<and> w = workspace \<and> m = i then Some (version, r) else None)"

definition record_of_row :: "MemoryRecordRow \<Rightarrow> MemoryRecord" where
  "record_of_row row =
     \<lparr>mr_memory_id = mrr_memory_id row, mr_content = mrr_content row, mr_tenant_id = mrr_tenant_id row,
      mr_workspace_id = mrr_workspace_id row, mr_correlation_id = mrr_correlation_id row,
      mr_provenance = mrr_provenance row\<rparr>"

definition durable_get ::
  "('z durable_host_scheme) runtime_config \<Rightarrow> string \<Rightarrow> string \<Rightarrow> string \<Rightarrow> ('z durable_host_scheme, MemoryRecord option) eff"
where
  "durable_get cfg i tenant workspace =
     bnd (asks (\<lambda>s. List.map_filter (pending_version tenant workspace i) (pending_memory s))) (\<lambda>pending.
     case greatest fst pending of
       Some (_, r) \<Rightarrow> ret (Some r)
     | None \<Rightarrow>
         bnd (db_transaction (rn_db cfg) (tbl_top (db_memory (rn_db cfg))
                (\<lambda>row. mrr_memory_id row = i \<and> mrr_tenant_id row = tenant \<and> mrr_workspace_id row = workspace)
                mrr_version)) (\<lambda>found.
         ret (map_option record_of_row found)))"

section \<open>Checkpoint\<close>

record 's TransactionParticipant =
  pt_prepare :: "('s, unit) eff"
  pt_flush :: "('s, unit) eff"
  pt_completed :: "('s, unit) eff option"

definition checkpoint_with :: "'s database \<Rightarrow> 's TransactionParticipant list \<Rightarrow> ('s, unit) eff" where
  "checkpoint_with db participants =
     bnd (db_transaction db (for_each pt_flush participants)) (\<lambda>_.
     for_each (\<lambda>p. optional (pt_completed p) (\<lambda>m. m)) participants)"

text \<open>The participants of \<^verbatim>\<open>compose\<close>, in its order.\<close>

definition durable_participants ::
  "('z durable_host_scheme) runtime_config \<Rightarrow> ('z durable_host_scheme) TransactionParticipant list" where
  "durable_participants cfg =
     [\<lparr>pt_prepare = ret (), pt_flush = memory_flush cfg, pt_completed = None\<rparr>,
      \<lparr>pt_prepare = workflow_prepare cfg, pt_flush = workflow_flush cfg, pt_completed = Some workflow_checkpoint_completed\<rparr>,
      \<lparr>pt_prepare = execution_prepare cfg, pt_flush = execution_flush cfg, pt_completed = None\<rparr>,
      \<lparr>pt_prepare = request_prepare cfg, pt_flush = request_flush cfg, pt_completed = None\<rparr>,
      \<lparr>pt_prepare = decision_prepare cfg, pt_flush = decision_flush cfg, pt_completed = None\<rparr>]"

definition durable_checkpoint :: "('z durable_host_scheme) runtime_config \<Rightarrow> ('z durable_host_scheme, unit) eff" where
  "durable_checkpoint cfg = checkpoint_with (rn_db cfg) (durable_participants cfg)"

definition prepare_participants :: "('z durable_host_scheme) runtime_config \<Rightarrow> ('z durable_host_scheme, unit) eff" where
  "prepare_participants cfg = for_each pt_prepare (durable_participants cfg)"

end
