(* ===== verification/Durable_Flush.thy ===== *)
theory Durable_Flush
  imports Durable_Repositories Engine_Orders
begin

text \<open>
  The transaction that writes the repositories, statement by statement.

  \<open>immutable_order\<close> lists what a preorder on process memory and tables must accept for the writes of rows that are
  never changed to respect it, \<open>flush_order\<close> for every participant but the Workflow repository, \<open>checkpoint_order\<close> adds that one. The order of the histories of rows
  (\<open>rows_le\<close>) is one instance; that the Workflow rows and a worker's view of them stay as they are is another.
\<close>

section \<open>Statements of a participant\<close>

lemma wp_asks:
  "(\<And>s. mem s = M \<Longrightarrow> tables s = D \<Longrightarrow> Q (f s) M D) \<Longrightarrow> wp mem tables saved (asks f) Q M D"
  by (auto simp: wp_def effect_simps)

lemma wp_upd:
  assumes "\<And>s. mem s = M \<Longrightarrow> tables s = D \<Longrightarrow> tables (f s) = D \<and> saved (f s) = saved s \<and> Q () (mem (f s)) D"
  shows "wp mem tables saved (upd f) Q M D"
  using assms by (auto simp: wp_def effect_simps)

text \<open>A body that moves along a relation: whatever it does, memory and tables before and after are related.\<close>

definition moves ::
  "('s \<Rightarrow> 'm) \<Rightarrow> ('s \<Rightarrow> 'd) \<Rightarrow> ('s \<Rightarrow> 'b) \<Rightarrow> ('m \<Rightarrow> 'd \<Rightarrow> 'm \<Rightarrow> 'd \<Rightarrow> bool) \<Rightarrow> ('s, 'a) eff \<Rightarrow> bool" where
  "moves mem tables saved R m \<longleftrightarrow> (\<forall>M D. wp mem tables saved m (\<lambda>_ N E. R M D N E) M D)"

lemma movesI: "(\<And>M D. wp mem tables saved m (\<lambda>_ N E. R M D N E) M D) \<Longrightarrow> moves mem tables saved R m"
  by (simp add: moves_def)

lemma moves_wp: "moves mem tables saved R m \<Longrightarrow> wp mem tables saved m (\<lambda>_ N E. R M D N E) M D"
  by (simp add: moves_def)

locale wp_order =
  fixes mem :: "'s \<Rightarrow> 'm" and tables :: "'s \<Rightarrow> 'd" and saved :: "'s \<Rightarrow> 'b" and R :: "'m \<Rightarrow> 'd \<Rightarrow> 'm \<Rightarrow> 'd \<Rightarrow> bool"
  assumes refl: "R M D M D" and trans: "R M D N E \<Longrightarrow> R N E N' E' \<Longrightarrow> R M D N' E'"
begin

abbreviation keeps where
  "keeps m \<equiv> moves mem tables saved R m"

lemma pure: "keeps (ret x)" "keeps (raise e)" "keeps (asks g)" "keeps (lift v)" "keeps (guard b e)"
  by (intro movesI wp_pure wp_asks refl)+

lemma bind: "keeps m \<Longrightarrow> (\<And>x. keeps (f x)) \<Longrightarrow> keeps (bnd m f)"
  unfolding moves_def by (blast intro: wp_bnd wp_mono trans)

lemma branch:
  "(b \<Longrightarrow> keeps m) \<Longrightarrow> (\<not> b \<Longrightarrow> keeps n) \<Longrightarrow> keeps (if b then m else n)"
  "(x = None \<Longrightarrow> keeps m) \<Longrightarrow> (\<And>y. x = Some y \<Longrightarrow> keeps (g y)) \<Longrightarrow> keeps (case x of None \<Rightarrow> m | Some y \<Rightarrow> g y)"
  "(\<And>a b. z = (a, b) \<Longrightarrow> keeps (h a b)) \<Longrightarrow> keeps (case z of (a, b) \<Rightarrow> h a b)"
  by (auto split: option.splits prod.splits)

lemma each: "(\<And>x. x \<in> set xs \<Longrightarrow> keeps (f x)) \<Longrightarrow> keeps (for_each f xs)"
  by (induction xs) (auto intro: pure bind)

lemma given: "(\<And>y. x = Some y \<Longrightarrow> keeps (f y)) \<Longrightarrow> keeps (optional x f)"
  by (auto simp: optional_def split: option.splits intro: pure)

lemmas rules = bind branch each given pure

end

text \<open>Every step of a loop keeps \<open>I\<close>, and one of them cannot complete from it.\<close>

lemma wp_for_each_stops:
  assumes "x \<in> set xs" "I M D"
    and keep: "\<And>y M D. y \<in> set xs \<Longrightarrow> I M D \<Longrightarrow> y \<noteq> x \<Longrightarrow> wp mem tables saved (f y) (\<lambda>_. I) M D"
    and stop: "\<And>M D. I M D \<Longrightarrow> wp mem tables saved (f x) (\<lambda>_ _ _. False) M D"
  shows "wp mem tables saved (for_each f xs) Q M D"
  using assms(1,2) keep
proof (induction xs arbitrary: M D)
  case (Cons y ys)
  show ?case
  proof (cases "y = x")
    case True
    then show ?thesis using stop [OF Cons.prems(2)] by (auto intro: wp_bnd wp_mono)
  next
    case False
    have "wp mem tables saved (f y) (\<lambda>_. I) M D" using Cons.prems False by simp
    then show ?thesis
      using Cons.prems(1,3) False by (auto intro!: wp_bnd elim!: wp_mono intro: Cons.IH)
  qed
qed simp

text \<open>One step of a loop brings about \<open>J\<close>, and the others keep what holds.\<close>

lemma wp_for_each_attains:
  assumes "x \<in> set xs" "I M D"
    and keep: "\<And>y M D. y \<in> set xs \<Longrightarrow> I M D \<Longrightarrow> y \<noteq> x \<Longrightarrow> wp mem tables saved (f y) (\<lambda>_. I) M D"
    and attain: "\<And>M D. I M D \<Longrightarrow> wp mem tables saved (f x) (\<lambda>_. J) M D"
    and after: "\<And>y M D. y \<in> set xs \<Longrightarrow> J M D \<Longrightarrow> wp mem tables saved (f y) (\<lambda>_. J) M D"
  shows "wp mem tables saved (for_each f xs) (\<lambda>_. J) M D"
proof -
  have rest: "wp mem tables saved (for_each f ys) (\<lambda>_. J) M D" if "set ys \<subseteq> set xs" "J M D" for ys M D
    using that by (induction ys arbitrary: M D) (auto intro!: wp_pure wp_bnd elim!: wp_mono intro: after [THEN wp_mono])
  have "wp mem tables saved (for_each f ys) (\<lambda>_. J) M D" if "x \<in> set ys" "set ys \<subseteq> set xs" "I M D" for ys M D
    using that
  proof (induction ys arbitrary: M D)
    case (Cons y ys)
    show ?case
    proof (cases "y = x")
      case True
      then show ?thesis using Cons.prems by (auto intro!: wp_bnd attain [THEN wp_mono] rest)
    next
      case False
      have "wp mem tables saved (f y) (\<lambda>_. I) M D" using Cons.prems False keep by simp
      then show ?thesis using Cons.prems False by (auto intro!: wp_bnd elim!: wp_mono intro: Cons.IH)
    qed
  qed simp
  then show ?thesis using assms(1,2) by blast
qed

section \<open>The repositories over a database\<close>

lemma truncate_flushed:
  "durable_host.truncate (s\<lparr>flushed_workflows := fw\<rparr>) = (durable_host.truncate s)\<lparr>flushed_workflows := fw\<rparr>"
  "durable_host.truncate (s\<lparr>flushed_receipts := fr\<rparr>) = (durable_host.truncate s)\<lparr>flushed_receipts := fr\<rparr>"
  by (simp_all add: durable_host.truncate_def)

locale runtime_db =
  durable_database "rn_db cfg" "\<lambda>s. tb (durable_host.more s)" "\<lambda>s. bk (durable_host.more s)" durable_host.truncate
  for cfg :: "('z durable_host_scheme) runtime_config" and tb :: "'z \<Rightarrow> database_tables" and bk :: "'z \<Rightarrow> database_tables"
begin

abbreviation tables_of where
  "tables_of s \<equiv> tb (durable_host.more s)"

abbreviation tx_wp where
  "tx_wp \<equiv> wp durable_host.truncate (\<lambda>s. tb (durable_host.more s)) (\<lambda>s. bk (durable_host.more s))"

abbreviation tx_keeps where
  "tx_keeps \<equiv> moves durable_host.truncate (\<lambda>s. tb (durable_host.more s)) (\<lambda>s. bk (durable_host.more s))"

lemma clock_wp: "(\<And>x n. Q x (M\<lparr>clock_reads := n\<rparr>) D) \<Longrightarrow> tx_wp clock_now Q M D"
  by (auto simp: wp_def effect_simps durable_host.truncate_def)

lemma upd_wp:
  assumes "\<And>s. durable_host.more (f s) = durable_host.more s"
    and "\<And>s. durable_host.truncate s = M \<Longrightarrow> Q () (durable_host.truncate (f s)) D"
  shows "tx_wp (upd f) Q M D"
  by (rule wp_upd) (use assms in auto)

lemmas runtime_rules = wp_rules wp_asks clock_wp locking workflow_rows.step_rules step_rows.step_rules execution_rows.step_rules
  idempotency_rows.step_rules outcome_rows.step_rules decision_rows.step_rules memory_rows.step_rules

text \<open>A row kept if it is there already, and then compared.\<close>

lemma keep_outcome_wp:
  assumes "\<And>E. E = D\<lparr>t_outcomes := od_setdefault (outcome_key row) row (t_outcomes D)\<rparr> \<Longrightarrow>
     map_option our_payload (map_of (t_outcomes E) (outcome_key row)) = Some (our_payload row) \<Longrightarrow> Q () M E"
  shows "tx_wp (keep_outcome (rn_db cfg) row msg) Q M D"
  unfolding keep_outcome_def
  by (intro runtime_rules assms) (auto split: option.splits)

lemma idempotency_wp:
  assumes "\<And>E old. map_of (t_idempotency D) (idempotency_row_key row) = None \<Longrightarrow>
      Q () M (D\<lparr>t_idempotency := od_put (idempotency_row_key row) row (t_idempotency D)\<rparr>)"
    and "\<And>old. map_of (t_idempotency D) (idempotency_row_key row) = Some old \<Longrightarrow> cir_command_hash old = cir_command_hash row \<Longrightarrow>
      \<not> cir_completed old \<or> completed \<Longrightarrow> Q () M (D\<lparr>t_idempotency := od_put (idempotency_row_key row)
        (old\<lparr>cir_completed := completed, cir_outcome_id := outcome, cir_payload := payload\<rparr>) (t_idempotency D)\<rparr>)"
    and "\<And>old. map_of (t_idempotency D) (idempotency_row_key row) = Some old \<Longrightarrow> cir_command_hash old = cir_command_hash row \<Longrightarrow>
      cir_completed old \<Longrightarrow> \<not> completed \<Longrightarrow> Q () M D"
    and row: "row = idempotency_row (rn_text cfg) target c completed outcome payload"
  shows "tx_wp (idempotency cfg target c completed outcome payload) Q M D"
  unfolding idempotency_def Let_def row [symmetric]
  by (intro runtime_rules) (use assms(1-3) in \<open>auto split: option.splits\<close>)

end

section \<open>Participants along an order\<close>

locale immutable_order = runtime_db cfg tb bk
  + wp_order durable_host.truncate "\<lambda>s. tb (durable_host.more s)" "\<lambda>s. bk (durable_host.more s)" R
  for cfg :: "('z durable_host_scheme) runtime_config" and tb :: "'z \<Rightarrow> database_tables" and bk :: "'z \<Rightarrow> database_tables"
    and R :: "durable_host \<Rightarrow> database_tables \<Rightarrow> durable_host \<Rightarrow> database_tables \<Rightarrow> bool"
  + assumes clock: "R M D (M\<lparr>clock_reads := n\<rparr>) D"
    and outcome: "R M D M (D\<lparr>t_outcomes := od_setdefault (outcome_key row) row (t_outcomes D)\<rparr>)"
    and evidence: "R M D M (D\<lparr>t_decisions := od_setdefault (decision_key dec) dec (t_decisions D)\<rparr>)"
    and memory: "R M D M (D\<lparr>t_memory := od_setdefault (memory_key mm) mm (t_memory D)\<rparr>)"
begin

lemma outcomes_kept: "tx_keeps R (immutable_outcome cfg r owner)" "tx_keeps R (immutable_error cfg e owner)"
proof -
  have keep: "tx_keeps R (keep_outcome (rn_db cfg) row msg)" for row msg
    by (intro movesI keep_outcome_wp) (simp add: outcome)
  then show "tx_keeps R (immutable_error cfg e owner)" by (simp add: immutable_error_def)
  have "tx_keeps R clock_now" by (intro movesI clock_wp clock)
  with keep show "tx_keeps R (immutable_outcome cfg r owner)"
    unfolding immutable_outcome_def by (intro bind) (auto split: prod.splits option.splits intro: pure bind)
qed

lemma decisions_kept: "tx_keeps R (decision_flush cfg)"
proof -
  have "tx_keeps R (flush_decision cfg d)" for d
    unfolding flush_decision_def Let_def by (intro movesI runtime_rules evidence)
  then show ?thesis unfolding decision_flush_def by (intro rules)
qed

lemma memory_kept: "tx_keeps R (memory_flush cfg)"
proof -
  have "tx_keeps R (flush_memory cfg m)" for m
    unfolding flush_memory_def Let_def by (intro movesI runtime_rules memory)
  then show ?thesis unfolding memory_flush_def by (intro rules)
qed

end

locale flush_order = immutable_order cfg tb bk R
  for cfg :: "('z durable_host_scheme) runtime_config" and tb :: "'z \<Rightarrow> database_tables" and bk :: "'z \<Rightarrow> database_tables"
    and R :: "durable_host \<Rightarrow> database_tables \<Rightarrow> durable_host \<Rightarrow> database_tables \<Rightarrow> bool"
  + assumes new_command: "map_of (t_idempotency D) k = None \<Longrightarrow> R M D M (D\<lparr>t_idempotency := od_put k cmd (t_idempotency D)\<rparr>)"
    and old_command: "map_of (t_idempotency D) k = Some cmd \<Longrightarrow> \<not> cir_completed cmd \<or> completed \<Longrightarrow>
      R M D M (D\<lparr>t_idempotency := od_put k (cmd\<lparr>cir_completed := completed, cir_outcome_id := out, cir_payload := p\<rparr>) (t_idempotency D)\<rparr>)"
    and new_execution: "map_of (t_executions D) x = None \<Longrightarrow> R M D M (D\<lparr>t_executions := od_put x exec (t_executions D)\<rparr>)"
    and old_execution: "map_of (t_executions D) x = Some exec \<Longrightarrow>
      R M D M (D\<lparr>t_executions := od_put x (exec\<lparr>exr_state := st, exr_payload := p\<rparr>) (t_executions D)\<rparr>)"
begin

lemma command_kept: "tx_keeps R (idempotency cfg target c completed out p)"
  by (intro movesI idempotency_wp [OF _ _ _ HOL.refl]) (auto intro: new_command old_command refl)

lemma executions_kept: "tx_keeps R (execution_flush cfg)"
proof -
  have row: "tx_keeps R (tbl_upsert (db_executions (rn_db cfg)) row (\<lambda>_. True)
      (\<lambda>old. old\<lparr>exr_state := st, exr_payload := p\<rparr>))" for row st p
    by (intro movesI execution_rows.step_rules) (auto intro: new_execution old_execution)
  have "tx_keeps R (flush_executions cfg previous rs)" for previous rs
    by (induction rs arbitrary: previous) (auto simp: Let_def intro!: rules row outcomes_kept)
  then show ?thesis
    unfolding execution_flush_def flush_execution_receipt_def
    by (intro rules outcomes_kept command_kept)
qed

lemma requests_kept: "tx_keeps R (request_flush cfg)"
  unfolding request_flush_def flush_request_def Let_def
  by (intro rules outcomes_kept command_kept)

end

locale checkpoint_order = flush_order cfg tb bk R
  for cfg :: "('z durable_host_scheme) runtime_config" and tb :: "'z \<Rightarrow> database_tables" and bk :: "'z \<Rightarrow> database_tables"
    and R :: "durable_host \<Rightarrow> database_tables \<Rightarrow> durable_host \<Rightarrow> database_tables \<Rightarrow> bool"
  + assumes new_workflow: "map_of (t_workflows D) w = None \<Longrightarrow> R M D M (D\<lparr>t_workflows := od_put w wrow (t_workflows D)\<rparr>)"
    and old_workflow: "map_of (t_workflows D) w = Some wrow \<Longrightarrow> R M D M (D\<lparr>t_workflows :=
      od_put w (wrow\<lparr>wfr_state := st, wfr_version := wfr_version wrow + 1, wfr_payload := p\<rparr>) (t_workflows D)\<rparr>)"
    and step: "R M D M (D\<lparr>t_steps := T\<rparr>)"
    and flushed: "R M D (M\<lparr>flushed_workflows := fw\<rparr>) D" "R M D (M\<lparr>flushed_receipts := fr\<rparr>) D"
begin

lemma workflows_kept: "tx_keeps R (workflow_flush cfg)"
proof -
  have row: "tx_keeps R (put_workflow_row (rn_db cfg) v n p)" for v n p
    unfolding put_workflow_row_def
    by (intro movesI runtime_rules) (auto intro: new_workflow old_workflow refl)
  have step: "tx_keeps R (tbl_upsert (db_steps (rn_db cfg)) r (\<lambda>_. True) f)" for r f
    by (intro movesI step_rows.step_rules step)
  have mark: "tx_keeps R (upd (\<lambda>s. s\<lparr>flushed_workflows := f (flushed_workflows s)\<rparr>))"
      "tx_keeps R (upd (\<lambda>s. s\<lparr>flushed_receipts := g (flushed_receipts s)\<rparr>))" for f g
    by (intro movesI upd_wp; force simp: truncate_flushed intro: flushed)+
  show ?thesis
    unfolding workflow_flush_def flush_workflow_def flush_workflow_receipt_def Let_def
    by (intro rules outcomes_kept command_kept row step mark)
qed

lemma participants_kept: "tx_keeps R (for_each pt_flush (durable_participants cfg))"
  unfolding durable_participants_def
  by (intro each) (auto intro: memory_kept workflows_kept executions_kept requests_kept decisions_kept)

end

end
