(* ===== verification/Durable_History.thy ===== *)
theory Durable_History
  imports Durable_Flush
begin

text \<open>
  What happens to the rows of the durable runtime along any run of its repositories, by any number of processes and
  with any failures of the database: outcomes, decision evidence and memory are written once, a Command keeps its
  intent and stays completed, and a Workflow row changes only with a higher version.
\<close>

section \<open>Histories of rows\<close>

definition grows :: "('r \<Rightarrow> 'r \<Rightarrow> bool) \<Rightarrow> ('k, 'r) odict \<Rightarrow> ('k, 'r) odict \<Rightarrow> bool" where
  "grows le T U \<longleftrightarrow> (\<forall>k r. map_of T k = Some r \<longrightarrow> (\<exists>q. map_of U k = Some q \<and> le r q))"

lemma grows_refl: "(\<And>r. le r r) \<Longrightarrow> grows le T T"
  by (auto simp: grows_def)

lemma grows_trans: "grows le T U \<Longrightarrow> grows le U V \<Longrightarrow> (\<And>p q r. le p q \<Longrightarrow> le q r \<Longrightarrow> le p r) \<Longrightarrow> grows le T V"
  unfolding grows_def by meson

lemma grows_put:
  "map_of T k = None \<Longrightarrow> (\<And>q. le q q) \<Longrightarrow> grows le T (od_put k r T)"
  "map_of T k = Some r \<Longrightarrow> (\<And>q. le q q) \<Longrightarrow> le r r' \<Longrightarrow> grows le T (od_put k r' T)"
  "(\<And>q. le q q) \<Longrightarrow> grows le T (od_setdefault k r T)"
  by (auto simp: grows_def split: option.splits)

definition command_le :: "CommandIdempotencyRow \<Rightarrow> CommandIdempotencyRow \<Rightarrow> bool" where
  "command_le r q \<longleftrightarrow> cir_command_hash q = cir_command_hash r \<and> cir_command_id q = cir_command_id r
     \<and> (cir_completed r \<longrightarrow> cir_completed q)"

definition workflow_le :: "WorkflowRow \<Rightarrow> WorkflowRow \<Rightarrow> bool" where
  "workflow_le r q \<longleftrightarrow> q = r \<or> wfr_version r < wfr_version q"

definition execution_le :: "ExecutionRow \<Rightarrow> ExecutionRow \<Rightarrow> bool" where
  "execution_le r q \<longleftrightarrow> exr_workflow_id q = exr_workflow_id r \<and> exr_workflow_step_id q = exr_workflow_step_id r
     \<and> exr_attempt_number q = exr_attempt_number r \<and> exr_previous_execution_id q = exr_previous_execution_id r
     \<and> exr_causation_id q = exr_causation_id r"

definition rows_le :: "database_tables \<Rightarrow> database_tables \<Rightarrow> bool" where
  "rows_le D E \<longleftrightarrow> grows (=) (t_outcomes D) (t_outcomes E) \<and> grows (=) (t_decisions D) (t_decisions E)
     \<and> grows (=) (t_memory D) (t_memory E) \<and> grows command_le (t_idempotency D) (t_idempotency E)
     \<and> grows workflow_le (t_workflows D) (t_workflows E) \<and> grows execution_le (t_executions D) (t_executions E)"

lemma row_refl [simp]: "command_le r r" "workflow_le w w" "execution_le e e"
  by (auto simp: command_le_def workflow_le_def execution_le_def)

lemma row_trans:
  "command_le r q \<Longrightarrow> command_le q q' \<Longrightarrow> command_le r q'"
  "workflow_le w w' \<Longrightarrow> workflow_le w' w'' \<Longrightarrow> workflow_le w w''"
  "execution_le e e' \<Longrightarrow> execution_le e' e'' \<Longrightarrow> execution_le e e''"
  by (auto simp: command_le_def workflow_le_def execution_le_def)

lemma rows_le_refl [simp]: "rows_le D D"
  by (simp add: rows_le_def grows_refl)

lemma rows_le_trans: "rows_le D E \<Longrightarrow> rows_le E F \<Longrightarrow> rows_le D F"
  unfolding rows_le_def
  by (elim conjE, intro conjI; erule (1) grows_trans; erule (1) row_trans HOL.trans)

text \<open>The tables the repositories write.\<close>

definition runtime_rows :: "database_tables \<Rightarrow> (scoped, WorkflowRow) odict \<times> (scoped, WorkflowStepRow) odict
    \<times> (scoped, ExecutionRow) odict \<times> (scoped_part, CommandIdempotencyRow) odict \<times> (scoped, OutcomeRow) odict
    \<times> (scoped, DecisionEvidenceRow) odict \<times> (scoped_number, MemoryRecordRow) odict" where
  "runtime_rows D = (t_workflows D, t_steps D, t_executions D, t_idempotency D, t_outcomes D, t_decisions D, t_memory D)"

lemma rows_le_same: "runtime_rows E = runtime_rows D \<Longrightarrow> rows_le D E"
  by (simp add: runtime_rows_def rows_le_def grows_refl)

lemma rows_le_writes:
  "rows_le D (D\<lparr>t_outcomes := od_setdefault k1 o1 (t_outcomes D)\<rparr>)"
  "rows_le D (D\<lparr>t_decisions := od_setdefault k2 o2 (t_decisions D)\<rparr>)"
  "rows_le D (D\<lparr>t_memory := od_setdefault k3 o3 (t_memory D)\<rparr>)"
  "rows_le D (D\<lparr>t_steps := T\<rparr>)"
  by (simp_all add: rows_le_def grows_refl grows_put)

lemma rows_le_puts:
  "map_of (t_idempotency D) k4 = None \<Longrightarrow> rows_le D (D\<lparr>t_idempotency := od_put k4 o4 (t_idempotency D)\<rparr>)"
  "map_of (t_idempotency D) k4 = Some p4 \<Longrightarrow> command_le p4 o4 \<Longrightarrow> rows_le D (D\<lparr>t_idempotency := od_put k4 o4 (t_idempotency D)\<rparr>)"
  "map_of (t_executions D) k5 = None \<Longrightarrow> rows_le D (D\<lparr>t_executions := od_put k5 o5 (t_executions D)\<rparr>)"
  "map_of (t_executions D) k5 = Some p5 \<Longrightarrow> execution_le p5 o5 \<Longrightarrow> rows_le D (D\<lparr>t_executions := od_put k5 o5 (t_executions D)\<rparr>)"
  "map_of (t_workflows D) k6 = None \<Longrightarrow> rows_le D (D\<lparr>t_workflows := od_put k6 o6 (t_workflows D)\<rparr>)"
  "map_of (t_workflows D) k6 = Some p6 \<Longrightarrow> workflow_le p6 o6 \<Longrightarrow> rows_le D (D\<lparr>t_workflows := od_put k6 o6 (t_workflows D)\<rparr>)"
  by (auto simp: rows_le_def grows_refl grows_put(1) intro: grows_put(2))

sublocale runtime_db \<subseteq> history: checkpoint_order cfg tb bk "\<lambda>_ D _ E. rows_le D E"
proof unfold_locales
  show "rows_le D E \<Longrightarrow> rows_le E F \<Longrightarrow> rows_le D F" for D E F by (rule rows_le_trans)
qed (auto simp: rows_le_writes command_le_def workflow_le_def execution_le_def intro: rows_le_puts)

section \<open>Operations\<close>

text \<open>What loads or asks does not write.\<close>

sublocale runtime_db \<subseteq> reading: wp_order durable_host.truncate "\<lambda>s. tb (durable_host.more s)"
    "\<lambda>s. bk (durable_host.more s)" "\<lambda>_ D _ E. E = D"
  by unfold_locales simp_all

sublocale runtime_db \<subseteq> same_tables: evolution "\<lambda>s t. tb (durable_host.more t) = tb (durable_host.more s)"
  by unfold_locales simp_all

context runtime_db
begin

abbreviation tx_reads where
  "tx_reads \<equiv> tx_keeps (\<lambda>_ D _ E. E = D)"

abbreviation no_write where
  "no_write m \<equiv> evolves (\<lambda>s t. tables_of t = tables_of s) m"

abbreviation keeps_rows where
  "keeps_rows m \<equiv> evolves (\<lambda>s t. rows_le (tables_of s) (tables_of t)) m"

lemma transaction_keeps:
  assumes "tx_keeps (\<lambda>_ D _ E. R D E) body" "\<And>D. R D D"
  shows "evolves (\<lambda>s t. R (tables_of s) (tables_of t)) (db_transaction (rn_db cfg) body)"
  unfolding evolves_def
proof
  fix s
  obtain r t where run: "db_transaction (rn_db cfg) body s = (r, t)" by (metis surj_pair)
  from transaction(2) [OF moves_wp [OF assms(1)] run] run assms(2)
  show "R (tables_of s) (tables_of (snd (db_transaction (rn_db cfg) body s)))" by auto
qed

lemma reads: "tx_reads body \<Longrightarrow> no_write (db_transaction (rn_db cfg) body)"
  by (rule transaction_keeps) simp_all

lemma memory_moves:
  assumes "\<And>s. durable_host.more (f s) = durable_host.more s"
  shows "tx_reads (upd f)" "no_write (upd f)"
  by (intro movesI upd_wp) (simp_all add: assms evolves_def effect_simps)

lemma read_moves: "tx_reads (receipts_of cfg target)" "tx_reads (stored_command cfg target c)"
  unfolding receipts_of_def stored_command_def by (intro movesI runtime_rules HOL.refl)+

lemma loads:
  "tx_reads (tbl_select (db_workflows (rn_db cfg)) p1)" "tx_reads (tbl_select (db_executions (rn_db cfg)) p2)"
  "tx_reads (tbl_select (db_decisions (rn_db cfg)) p3)" "tx_reads (tbl_get (db_workflows (rn_db cfg)) k)"
  "tx_reads (tbl_top (db_memory (rn_db cfg)) p4 g)"
  by (intro movesI runtime_rules HOL.refl)+

lemmas load_rules = same_tables.rules reading.rules reads read_moves loads memory_moves

lemma prepare_reads: "no_write (prepare_participants cfg)"
proof -
  have "no_write (workflow_prepare cfg)"
    unfolding workflow_prepare_def prepare_once_def load_workflows_def load_workflow_row_def cache_workflow_def
      load_workflow_receipt_def Let_def
    by (intro load_rules) simp_all
  moreover have "no_write (execution_prepare cfg)"
    unfolding execution_prepare_def prepare_once_def load_executions_def load_execution_row_def load_execution_receipt_def Let_def
    by (intro load_rules) simp_all
  moreover have "no_write (request_prepare cfg)"
    unfolding request_prepare_def prepare_once_def load_request_def
    by (intro load_rules) (simp_all add: remember_request_def Let_def)
  moreover have "no_write (for_each keep_pending ds)" for ds :: "(string, DecisionEvidence) odict"
    by (induction ds) (auto simp: keep_pending_def Let_def intro!: same_tables.rules memory_moves)
  then have "no_write (decision_prepare cfg)"
    unfolding decision_prepare_def prepare_once_def load_decisions_def load_decision_def
    by (intro load_rules) simp_all
  ultimately show ?thesis
    unfolding prepare_participants_def durable_participants_def
    by (simp add: same_tables.rules)
qed

lemma replays_read:
  "no_write (refresh_workflow cfg w)" "no_write (request_replay_command cfg c)" "no_write (durable_get cfg i t' ws)"
  unfolding refresh_workflow_def request_replay_command_def durable_get_def by (intro load_rules; simp)+

lemma authority_reads:
  "no_write (workflow_replay_command cfg c)" "no_write (durable_ai_admission cfg w k e)"
  "no_write (durable_owns_ai_dispatch cfg w' k e)"
  unfolding workflow_replay_command_def durable_ai_admission_def durable_owns_ai_dispatch_def Let_def
  by (intro load_rules replays_read; simp)+

end

section \<open>Runs\<close>

text \<open>
  One operation of one process or a switch to another one. \<open>Flush\<close> is the transaction of a checkpoint and that of
  \<^verbatim>\<open>BufferedPostgresOutbox.drain\<close>, which records its Events after the participants; \<open>Elsewhere\<close> is any work that
  leaves the repositories' tables alone: the handlers in memory, the outbox, the Gateway store.
\<close>

inductive durable_step ::
  "('z durable_host_scheme) runtime_config \<Rightarrow> ('z \<Rightarrow> database_tables) \<Rightarrow> ('z \<Rightarrow> database_tables)
   \<Rightarrow> 'z durable_host_scheme \<Rightarrow> 'z durable_host_scheme \<Rightarrow> bool"
  for cfg tb bk
where
  Prepare: "prepare_participants cfg s = (x1, t) \<Longrightarrow> durable_step cfg tb bk s t"
| Refresh: "refresh_workflow cfg w s = (x2, t) \<Longrightarrow> durable_step cfg tb bk s t"
| Replay_Request: "request_replay_command cfg c s = (x3, t) \<Longrightarrow> durable_step cfg tb bk s t"
| Replay_Workflow: "workflow_replay_command cfg c s = (x4, t) \<Longrightarrow> durable_step cfg tb bk s t"
| Admission: "durable_ai_admission cfg w k e s = (x5, t) \<Longrightarrow> durable_step cfg tb bk s t"
| Owns: "durable_owns_ai_dispatch cfg w' k e s = (x6, t) \<Longrightarrow> durable_step cfg tb bk s t"
| Get: "durable_get cfg i tenant workspace s = (x7, t) \<Longrightarrow> durable_step cfg tb bk s t"
| Flush: "moves durable_host.truncate (\<lambda>s. tb (durable_host.more s)) (\<lambda>s. bk (durable_host.more s))
       (\<lambda>_ D _ E. runtime_rows E = runtime_rows D) (events :: ('z durable_host_scheme, unit) eff) \<Longrightarrow>
    db_transaction (rn_db cfg) (bnd (for_each pt_flush (durable_participants cfg)) (\<lambda>_. events)) s = (x8, t) \<Longrightarrow>
    durable_step cfg tb bk s t"
| Elsewhere: "runtime_rows (tb (durable_host.more t)) = runtime_rows (tb (durable_host.more s)) \<Longrightarrow> durable_step cfg tb bk s t"

context runtime_db
begin

lemma flush_keeps:
  assumes "tx_keeps (\<lambda>_ D _ E. runtime_rows E = runtime_rows D) events"
  shows "keeps_rows (db_transaction (rn_db cfg) (bnd (for_each pt_flush (durable_participants cfg)) (\<lambda>_. events)))"
proof -
  have "tx_keeps (\<lambda>_ D _ E. rows_le D E) events"
    using assms unfolding moves_def by (blast intro: wp_mono rows_le_same)
  then show ?thesis by (intro transaction_keeps history.bind history.participants_kept rows_le_refl)
qed

lemma step_le: "durable_step cfg tb bk s t \<Longrightarrow> rows_le (tables_of s) (tables_of t)"
  by (induction rule: durable_step.induct)
    (auto dest: evolvesD [OF prepare_reads] evolvesD [OF replays_read(1)] evolvesD [OF replays_read(2)] evolvesD [OF replays_read(3)]
      evolvesD [OF authority_reads(1)] evolvesD [OF authority_reads(2)] evolvesD [OF authority_reads(3)]
      evolvesD [OF flush_keeps] rows_le_same)

lemma run_le: "(durable_step cfg tb bk)\<^sup>*\<^sup>* s t \<Longrightarrow> rows_le (tables_of s) (tables_of t)"
  by (induction rule: rtranclp_induct) (auto intro: rows_le_trans step_le)

text \<open>A checkpoint is such a run.\<close>

lemma checkpoint_run:
  assumes "durable_checkpoint cfg s = (x, t)"
  shows "(durable_step cfg tb bk)\<^sup>*\<^sup>* s t"
proof -
  let ?tx = "db_transaction (rn_db cfg) (for_each pt_flush (durable_participants cfg))"
  have unit: "bnd m ret = m" for m :: "('z durable_host_scheme, unit) eff"
    by (auto simp: bnd_def ret_def fun_eq_iff split: prod.splits sum.splits)
  obtain r u where u: "?tx s = (r, u)" by (metis surj_pair)
  have "durable_step cfg tb bk s u"
    by (rule Flush [where events = "ret ()"], (intro movesI wp_pure, simp), simp add: unit u)
  moreover have "runtime_rows (tables_of t) = runtime_rows (tables_of u)"
    using assms u by (cases r)
      (auto simp: durable_checkpoint_def checkpoint_with_def durable_participants_def optional_def
        workflow_checkpoint_completed_def effect_simps)
  then have "durable_step cfg tb bk u t" by (rule Elsewhere)
  ultimately show ?thesis by (meson rtranclp.rtrancl_refl rtranclp.rtrancl_into_rtrancl)
qed

end

text \<open>C16 (invariant). Along any run of the durable repositories by any number of processes, with any failures of the
  database, outcomes, decision evidence and memory records are never changed or removed; the row of a Command keeps its
  intent and CommandId and is never reopened once completed; and the row of a Workflow is only replaced by one with a
  higher version.\<close>

theorem durable_rows_final:
  assumes "runtime_db cfg tb bk" "(durable_step cfg tb bk)\<^sup>*\<^sup>* s t"
    and "D = tb (durable_host.more s)" "E = tb (durable_host.more t)"
  shows "(\<forall>k r. map_of (t_outcomes D) k = Some r \<longrightarrow> map_of (t_outcomes E) k = Some r)
    \<and> (\<forall>k r. map_of (t_decisions D) k = Some r \<longrightarrow> map_of (t_decisions E) k = Some r)
    \<and> (\<forall>k r. map_of (t_memory D) k = Some r \<longrightarrow> map_of (t_memory E) k = Some r)
    \<and> (\<forall>k r. map_of (t_idempotency D) k = Some r \<longrightarrow> (\<exists>q. map_of (t_idempotency E) k = Some q
         \<and> cir_command_hash q = cir_command_hash r \<and> cir_command_id q = cir_command_id r
         \<and> (cir_completed r \<longrightarrow> cir_completed q)))
    \<and> (\<forall>k r. map_of (t_workflows D) k = Some r \<longrightarrow> (\<exists>q. map_of (t_workflows E) k = Some q
         \<and> (q = r \<or> wfr_version r < wfr_version q)))"
  using runtime_db.run_le [OF assms(1,2)] assms(3,4)
  by (simp add: rows_le_def grows_def command_le_def workflow_le_def)

section \<open>A worker over a database in memory\<close>

type_synonym held_host = "(database_tables \<times> database_tables) durable_host_scheme"

abbreviation host_held :: "held_host database" where
  "host_held \<equiv> memory_database durable_host.more durable_host.more_update"

interpretation host_place: database_place durable_host.more durable_host.more_update durable_host.truncate
  by unfold_locales (simp_all add: durable_host.truncate_def)

text \<open>Codecs that tell apart what the examples below store.\<close>

definition sample_instance_at :: "int \<Rightarrow> WorkflowInstance" where
  "sample_instance_at n = sample_instance\<lparr>wf_attempt_number := n\<rparr>"

definition sample_runtime_codecs :: runtime_codecs where
  "sample_runtime_codecs =
     \<lparr>rc_dump_result = res_result_id, rc_dump_error = err_error_id,
      rc_dump_workflow = (\<lambda>v. [if wf_attempt_number v = 0 then CHR ''0'' else if wf_attempt_number v = 1 then CHR ''1'' else CHR ''n'']),
      rc_load_workflow = (\<lambda>p. if p = ''0'' then Inr (sample_instance_at 0) else if p = ''1'' then Inr (sample_instance_at 1)
         else Inl JSONDecodeError),
      rc_dump_workflow_receipt = cmd_command_id \<circ> wr_command, rc_load_workflow_receipt = (\<lambda>_. Inl JSONDecodeError),
      rc_dump_execution = er_execution_id, rc_load_execution = (\<lambda>_. Inl JSONDecodeError),
      rc_dump_execution_receipt = cmd_command_id \<circ> xr_command, rc_load_execution_receipt = (\<lambda>_. Inl JSONDecodeError),
      rc_dump_decision = dec_decision_id, rc_load_decision = (\<lambda>_. Inl JSONDecodeError)\<rparr>"

definition sample_config :: "'s database \<Rightarrow> 's runtime_config" where
  "sample_config db =
     \<lparr>rn_db = db, rn_text = sample_tx, rn_codecs = sample_runtime_codecs, rn_dump_manager = cmd_command_id \<circ> mgr_command,
      rn_load_manager = (\<lambda>_. Inl JSONDecodeError), rn_tenant = ''tenant'', rn_workspace = ''workspace''\<rparr>"

interpretation held_host: runtime_db "sample_config host_held" fst snd
  by (simp add: runtime_db_def sample_config_def host_place.memory_database_laws)

definition idle_host :: durable_host where
  "idle_host =
     host_state.extend
       (runtime_state.extend
         (engine_state.extend (gateway_state.extend (gateway_init (messaging_init int show_nat) (Dec 100 0) None)
            \<lparr>instances = [], command_receipts = [], dispatched = None\<rparr>)
          \<lparr>executions = [], execution_receipts = []\<rparr>)
        \<lparr>mock_failures_remaining = 0, mock_invocations = [], providers = [], request_results = [], request_errors = [],
         request_commands = [], workflow_commands = []\<rparr>)
      \<lparr>workflow_prepared = True, execution_prepared = True, request_prepared = True, decision_prepared = True,
       workflow_versions = [], workflow_baseline = [], receipt_baseline = [], flushed_workflows = [], flushed_receipts = [],
       pending_memory = [], held_workflow_locks = []\<rparr>"

text \<open>A worker with one Workflow in its memory, and the tables of a database that knows one outcome.\<close>

definition worker :: "database_tables \<Rightarrow> WorkflowInstance \<Rightarrow> held_host" where
  "worker D v = durable_host.extend (idle_host\<lparr>instances := [(wf_workflow_id v, v)]\<rparr>) (D, D)"

definition known_outcome :: OutcomeRow where
  "known_outcome = outcome_row sample_runtime_codecs sample_ack ''AI Gateway'' 0"

definition known_tables :: database_tables where
  "known_tables = empty_tables\<lparr>t_outcomes := [(outcome_key known_outcome, known_outcome)]\<rparr>"

definition first_checkpoint :: "(exn + unit) \<times> held_host" where
  "first_checkpoint = durable_checkpoint (sample_config host_held) (worker known_tables (sample_instance_at 0))"

lemma first_checkpoint_run:
  "fst first_checkpoint = Inr ()"
  "map wfr_version (rows (t_workflows (fst (durable_host.more (snd first_checkpoint))))) = [1]"
  "outcome_key known_outcome = Scoped ''t'' ''w'' ''r''"
  by code_simp+

theorem durable_rows_final_witness:
  "map_of (t_outcomes (fst (durable_host.more (snd first_checkpoint)))) (Scoped ''t'' ''w'' ''r'') = Some known_outcome
   \<and> map wfr_version (rows (t_workflows (fst (durable_host.more (snd first_checkpoint))))) = [1]"
proof -
  have run: "(durable_step (sample_config host_held) fst snd)\<^sup>*\<^sup>* (worker known_tables (sample_instance_at 0)) (snd first_checkpoint)"
    unfolding first_checkpoint_def by (rule held_host.checkpoint_run, rule prod.collapse [symmetric])
  have "map_of (t_outcomes (fst (durable_host.more (worker known_tables (sample_instance_at 0))))) (Scoped ''t'' ''w'' ''r'')
      = Some known_outcome"
    by (simp add: worker_def durable_host.extend_def known_tables_def first_checkpoint_run(3))
  with durable_rows_final [OF held_host.runtime_db_axioms run refl refl] first_checkpoint_run(2) show ?thesis by blast
qed

end
