(* ===== verification/Durable_Host.thy ===== *)
theory Durable_Host
  imports Durable_Repositories
begin

text \<open>
  \<^verbatim>\<open>apps/api/src/aieos_api/composition.py\<close> with a database: the branches of the facade \<^verbatim>\<open>ReferenceRuntime\<close>
  and \<^verbatim>\<open>DurableWorkflowEventConsumer\<close>. They put the component handlers between replay and checkpoint, under
  the locks of a Command and of a Workflow.

  \<open>dispatch\<close> and \<open>drained\<close> are the dispatcher and the durable outbox's drain, which are modelled with the components
  they belong to; \<open>locks\<close> is the connection of its own that \<^verbatim>\<open>command_lock\<close> holds.
  \<open>held_workflow_locks\<close> is the \<^verbatim>\<open>ContextVar\<close> of the consumer.
\<close>

section \<open>Commands\<close>

definition durable_run_prepared ::
  "('z durable_host_scheme) runtime_config \<Rightarrow> ('z durable_host_scheme) handler \<Rightarrow> ('z durable_host_scheme, nat) eff
   \<Rightarrow> CommandEnvelope \<Rightarrow> ('z durable_host_scheme, ResultEnvelope) eff"
where
  "durable_run_prepared cfg dispatch drained c =
     bnd (prepare_participants cfg) (\<lambda>_.
     bnd drained (\<lambda>_.
     bnd (dispatch c) (\<lambda>result.
     bnd (durable_checkpoint cfg) (\<lambda>_. ret result))))"

definition durable_run_command ::
  "('z durable_host_scheme) runtime_config \<Rightarrow> ('z durable_host_scheme) database \<Rightarrow> ('z durable_host_scheme) handler
   \<Rightarrow> ('z durable_host_scheme, nat) eff \<Rightarrow> CommandEnvelope \<Rightarrow> ('z durable_host_scheme, ResultEnvelope) eff"
where
  "durable_run_command cfg locks dispatch drained c =
     command_lock locks (scoped_idempotency_lock_key c)
       (bnd (prepare_participants cfg) (\<lambda>_.
        bnd (request_replay_command cfg c) (\<lambda>replay.
        case replay of
          None \<Rightarrow> durable_run_prepared cfg dispatch drained c
        | Some (stored, None) \<Rightarrow> durable_run_prepared cfg dispatch drained stored
        | Some (stored, Some result) \<Rightarrow> ret result)))"

definition durable_run_execution_command ::
  "('z durable_host_scheme) runtime_config \<Rightarrow> ('z durable_host_scheme) database \<Rightarrow> ('z durable_host_scheme) handler
   \<Rightarrow> CommandEnvelope \<Rightarrow> ('z durable_host_scheme, ResultEnvelope) eff"
where
  "durable_run_execution_command cfg locks dispatch c =
     (if cmd_target_component c \<noteq> runtime_name
      then raise (ValueError ''execution command must target Skill Runtime'')
      else command_lock locks (scoped_idempotency_lock_key c)
        (bnd (prepare_participants cfg) (\<lambda>_.
         bnd (asks (\<lambda>s. map_of (execution_receipts s) (cmd_command_id c))) (\<lambda>receipt.
         let fresh = bnd (dispatch c) (\<lambda>result. bnd (durable_checkpoint cfg) (\<lambda>_. ret result)) in
         case receipt of
           None \<Rightarrow> fresh
         | Some r \<Rightarrow>
             if \<not> xr_completed r then fresh
             else if \<not> command_eq (xr_command r) c
             then raise (ValueError ''CommandId cannot be reused with changed immutable content'')
             else ret (xr_acknowledgement r)))))"

definition durable_run_workflow_prepared ::
  "('z durable_host_scheme) runtime_config \<Rightarrow> ('z durable_host_scheme) handler \<Rightarrow> CommandEnvelope
   \<Rightarrow> ('z durable_host_scheme, ResultEnvelope) eff"
where
  "durable_run_workflow_prepared cfg dispatch c =
     bnd (prepare_participants cfg) (\<lambda>_.
     bnd (workflow_replay_command cfg c) (\<lambda>replay.
     let run = \<lambda>c. bnd (dispatch c) (\<lambda>result. bnd (durable_checkpoint cfg) (\<lambda>_. ret result)) in
     case replay of
       None \<Rightarrow> run c
     | Some (stored, None) \<Rightarrow> run stored
     | Some (stored, Some result) \<Rightarrow> ret result))"

definition durable_run_workflow_command ::
  "('z durable_host_scheme) runtime_config \<Rightarrow> ('z durable_host_scheme) database \<Rightarrow> ('z durable_host_scheme) handler
   \<Rightarrow> CommandEnvelope \<Rightarrow> ('z durable_host_scheme, ResultEnvelope) eff"
where
  "durable_run_workflow_command cfg locks dispatch c =
     (if cmd_target_component c \<noteq> engine_name
      then raise (ValueError ''workflow command must target Workflow Engine'')
      else command_lock locks (scoped_idempotency_lock_key c)
        (case scoped_workflow_lock_key c of
           None \<Rightarrow> durable_run_workflow_prepared cfg dispatch c
         | Some key \<Rightarrow> command_lock locks key (durable_run_workflow_prepared cfg dispatch c)))"

section \<open>Events\<close>

text \<open>The Workflow an Event is owed to: \<^verbatim>\<open>workflow_id or event.workflow_id\<close>.\<close>

definition authoritative_workflow :: "'z durable_host_scheme \<Rightarrow> EventEnvelope \<Rightarrow> string \<Rightarrow> string" where
  "authoritative_workflow s event own = (case pre_acceptance_rejection_workflow_id s event of
       None \<Rightarrow> own | Some w \<Rightarrow> if w = [] then own else w)"

definition consume_and_checkpoint ::
  "('z durable_host_scheme) runtime_config \<Rightarrow> ('z durable_host_scheme) engine_env \<Rightarrow> EventEnvelope
   \<Rightarrow> ('z durable_host_scheme, unit) eff"
where
  "consume_and_checkpoint cfg env event = bnd (engine_consume env event) (\<lambda>_. durable_checkpoint cfg)"

definition durable_consume ::
  "('z durable_host_scheme) runtime_config \<Rightarrow> ('z durable_host_scheme) database \<Rightarrow> ('z durable_host_scheme) engine_env
   \<Rightarrow> EventEnvelope \<Rightarrow> ('z durable_host_scheme, unit) eff"
where
  "durable_consume cfg locks env event = (case (evt_workflow_id event, evt_tenant_id event, evt_workspace_id event) of
       (Some own, Some tenant, Some workspace) \<Rightarrow>
         bnd (asks (\<lambda>s. authoritative_workflow s event own)) (\<lambda>w.
         bnd (asks held_workflow_locks) (\<lambda>held.
         let key = workflow_lock_key tenant workspace w in
         if key \<in> set held then consume_and_checkpoint cfg env event
         else command_lock locks key
           (bnd (upd (\<lambda>s. s\<lparr>held_workflow_locks := key # held\<rparr>)) (\<lambda>_.
            finally_do
              (bnd (refresh_workflow cfg w) (\<lambda>fresh.
               if fresh = None then raise (KeyError (''Workflow does not exist: '' @ w))
               else consume_and_checkpoint cfg env event))
              (upd (\<lambda>s. s\<lparr>held_workflow_locks := held\<rparr>))))))
     | _ \<Rightarrow> raise (ValueError ''durable Workflow Event requires exact scoped WorkflowId''))"

end
