(* ===== verification/Durable_Fences.thy ===== *)
theory Durable_Fences
  imports Durable_History Durable_Host Durable_Responsive
begin

text \<open>
  The version fence: a worker whose copy of a Workflow is stale cannot commit, and a worker whose copy is current
  leaves exactly that copy for the next worker to load.
\<close>

section \<open>What a checkpoint leaves alone\<close>

text \<open>Only the Workflow repository writes Workflow rows, and no participant touches what the worker holds of them.\<close>

definition same_workflows :: "durable_host \<Rightarrow> database_tables \<Rightarrow> durable_host \<Rightarrow> database_tables \<Rightarrow> bool" where
  "same_workflows M D N E \<longleftrightarrow> t_workflows E = t_workflows D \<and> instances N = instances M
     \<and> workflow_baseline N = workflow_baseline M \<and> workflow_versions N = workflow_versions M
     \<and> flushed_workflows N = flushed_workflows M"

sublocale runtime_db \<subseteq> workflow_frame: flush_order cfg tb bk same_workflows
  by unfold_locales (auto simp: same_workflows_def)

section \<open>The version fence of a Workflow\<close>

definition held_version :: "'z durable_host_scheme \<Rightarrow> string \<Rightarrow> int" where
  "held_version s w = (case map_of (workflow_versions s) w of None \<Rightarrow> 0 | Some n \<Rightarrow> n)"

definition workflow_row_key :: "WorkflowInstance \<Rightarrow> scoped" where
  "workflow_row_key v = Scoped (wf_tenant_id v) (wf_workspace_id v) (wf_workflow_id v)"

text \<open>A Workflow that was changed since the worker last read or wrote it.\<close>

definition changed_workflow :: "runtime_codecs \<Rightarrow> 'z durable_host_scheme \<Rightarrow> string \<Rightarrow> WorkflowInstance \<Rightarrow> bool" where
  "changed_workflow rc s w v \<longleftrightarrow> map_of (instances s) w = Some v \<and> wf_workflow_id v = w
     \<and> map_of (workflow_baseline s) w \<noteq> Some (rc_dump_workflow rc v)"

text \<open>Instances are held by their WorkflowId.\<close>

definition instances_keyed :: "'z durable_host_scheme \<Rightarrow> bool" where
  "instances_keyed s \<longleftrightarrow> keyed wf_workflow_id (instances s)"

lemma held_truncate [simp]:
  "held_version (durable_host.truncate s) w = held_version s w"
  "changed_workflow rc (durable_host.truncate s) w v = changed_workflow rc s w v"
  "instances_keyed (durable_host.truncate s) = instances_keyed s"
  by (simp_all add: held_version_def changed_workflow_def instances_keyed_def durable_host.truncate_def)

lemma keyed_instances:
  "keyed wf_workflow_id T \<Longrightarrow> v \<in> set (map snd T) \<Longrightarrow> v' \<in> set (map snd T) \<Longrightarrow> wf_workflow_id v = wf_workflow_id v' \<Longrightarrow> v = v'"
  by (metis keyed_row option.inject rows_def)

text \<open>\<^verbatim>\<open>dict.update\<close>\<close>

lemma map_of_put_all:
  "od_ok new \<Longrightarrow> map_of (put_all new d) k = (case map_of new k of None \<Rightarrow> map_of d k | Some x \<Rightarrow> Some x)"
proof (induction new arbitrary: d)
  case (Cons e new)
  obtain a b where e: "e = (a, b)" by (cases e)
  have new: "od_ok new" "map_of new a = None" using Cons.prems by (auto simp: e map_of_eq_None_iff)
  have "put_all (e # new) d = put_all new (od_put a b d)" by (simp add: put_all_def e)
  with Cons.IH [OF new(1), of "od_put a b d"] new(2) show ?case by (auto simp: e split: option.splits)
qed (simp add: put_all_def)

lemma map_of_project: "map_of (map (\<lambda>(w, n, _). (w, n)) T) k = map_option fst (map_of T k)"
    "map_of (map (\<lambda>(w, _, p). (w, p)) T) k = map_option snd (map_of T k)"
  by (induction T) auto

lemma od_ok_project: "od_ok (map (\<lambda>(w, n, _). (w, n)) T) = od_ok T" "od_ok (map (\<lambda>(w, _, p). (w, p)) T) = od_ok T"
  by (auto simp: comp_def split_beta)

context runtime_db
begin

lemma put_workflow_wp:
  assumes "\<And>r. wfr_version r = n + 1 \<Longrightarrow> wfr_payload r = p \<Longrightarrow>
      (\<forall>old. map_of (t_workflows D) (workflow_row_key v) = Some old \<longrightarrow> wfr_version old = n) \<Longrightarrow>
      Q () M (D\<lparr>t_workflows := od_put (workflow_row_key v) r (t_workflows D)\<rparr>)"
  shows "tx_wp (put_workflow_row (rn_db cfg) v n p) Q M D"
  unfolding put_workflow_row_def
  by (intro runtime_rules) (auto simp: workflow_key_def workflow_row_def intro!: assms [unfolded workflow_row_key_def])

text \<open>An instance that is not changed is skipped; a changed one gets the row of its next version, or no row at all.\<close>

lemma flush_workflow_wp:
  assumes "map_of (workflow_baseline M) (wf_workflow_id v) = Some (rc_dump_workflow (rn_codecs cfg) v) \<Longrightarrow> Q () M D"
    and "\<And>r N E. map_of (workflow_baseline M) (wf_workflow_id v) \<noteq> Some (rc_dump_workflow (rn_codecs cfg) v) \<Longrightarrow>
      wfr_version r = held_version M (wf_workflow_id v) + 1 \<Longrightarrow> wfr_payload r = rc_dump_workflow (rn_codecs cfg) v \<Longrightarrow>
      (\<forall>old. map_of (t_workflows D) (workflow_row_key v) = Some old \<longrightarrow> wfr_version old = held_version M (wf_workflow_id v)) \<Longrightarrow>
      same_workflows (M\<lparr>flushed_workflows := od_put (wf_workflow_id v) (wfr_version r, wfr_payload r) (flushed_workflows M)\<rparr>)
        (D\<lparr>t_workflows := od_put (workflow_row_key v) r (t_workflows D)\<rparr>) N E \<Longrightarrow> Q () N E"
  shows "tx_wp (flush_workflow cfg v) Q M D"
proof -
  have step: "tx_keeps same_workflows (tbl_upsert (db_steps (rn_db cfg)) r (\<lambda>_. True) f)" for r f
    by (intro movesI step_rows.step_rules) (simp_all add: same_workflows_def)
  have tail: "tx_wp (bnd (tbl_upsert (db_steps (rn_db cfg)) row (\<lambda>_. True) g) (\<lambda>_.
      bnd (optional (wf_outcome v) (\<lambda>r. immutable_outcome cfg r ''Workflow Engine'')) (\<lambda>_.
      bnd (optional (wf_error v) (\<lambda>e. immutable_error cfg e ''Workflow Engine'')) (\<lambda>_.
      upd (\<lambda>s. s\<lparr>flushed_workflows := od_put k x (flushed_workflows s)\<rparr>))))) Q M E"
    if fin: "\<And>N F. same_workflows (M\<lparr>flushed_workflows := od_put k x (flushed_workflows M)\<rparr>) E N F \<Longrightarrow> Q () N F" for row g k x E
  proof (rule wp_bnd, rule moves_wp [OF step, THEN wp_mono], rule wp_bnd,
      rule moves_wp [OF workflow_frame.given [OF workflow_frame.outcomes_kept(1)], THEN wp_mono], rule wp_bnd,
      rule moves_wp [OF workflow_frame.given [OF workflow_frame.outcomes_kept(2)], THEN wp_mono], rule upd_wp)
    fix M1 D1 M2 D2 M3 D3 and s :: "'z durable_host_scheme"
    assume "same_workflows M E M1 D1" "same_workflows M1 D1 M2 D2" "same_workflows M2 D2 M3 D3" "durable_host.truncate s = M3"
    then show "Q () (durable_host.truncate (s\<lparr>flushed_workflows := od_put k x (flushed_workflows s)\<rparr>)) D3"
      by (intro fin) (auto simp: same_workflows_def durable_host.truncate_def)
  qed simp
  show ?thesis
    unfolding flush_workflow_def Let_def
  proof (intro wp_bnd wp_asks wp_branch)
    fix s :: "'z durable_host_scheme"
    assume s: "durable_host.truncate s = M"
    let ?b = "map_of (workflow_baseline s) (wf_workflow_id v) = Some (rc_dump_workflow (rn_codecs cfg) v)"
    show "tx_wp (ret ()) Q M D" if ?b using assms(1) that s by (auto simp: durable_host.truncate_def intro: wp_pure)
    fix u :: "'z durable_host_scheme"
    assume "durable_host.truncate u = M" "\<not> ?b"
    then have held: "(case map_of (workflow_versions u) (wf_workflow_id v) of None \<Rightarrow> 0 | Some n \<Rightarrow> n) = held_version M (wf_workflow_id v)"
      "map_of (workflow_baseline M) (wf_workflow_id v) \<noteq> Some (rc_dump_workflow (rn_codecs cfg) v)"
      using s by (auto simp: held_version_def durable_host.truncate_def)
    show "tx_wp (put_workflow_row (rn_db cfg) v (case map_of (workflow_versions u) (wf_workflow_id v) of None \<Rightarrow> 0 | Some n \<Rightarrow> n)
        (rc_dump_workflow (rn_codecs cfg) v)) (\<lambda>x. tx_wp (bnd (tbl_upsert (db_steps (rn_db cfg))
          (workflow_step_row v (rc_dump_workflow (rn_codecs cfg) v)) (\<lambda>_. True)
             (\<lambda>old. old\<lparr>wsr_state := workflow_state_value (wf_state v), wsr_attempt_number := wf_attempt_number v,
                wsr_payload := rc_dump_workflow (rn_codecs cfg) v\<rparr>)) (\<lambda>_.
      bnd (optional (wf_outcome v) (\<lambda>r. immutable_outcome cfg r ''Workflow Engine'')) (\<lambda>_.
      bnd (optional (wf_error v) (\<lambda>e. immutable_error cfg e ''Workflow Engine'')) (\<lambda>_.
      upd (\<lambda>s. s\<lparr>flushed_workflows := od_put (wf_workflow_id v)
        ((case map_of (workflow_versions u) (wf_workflow_id v) of None \<Rightarrow> 0 | Some n \<Rightarrow> n) + 1,
          rc_dump_workflow (rn_codecs cfg) v) (flushed_workflows s)\<rparr>))))) Q) M D"
      unfolding held(1)
      by (rule put_workflow_wp, rule tail, rule assms(2) [OF held(2)], assumption+, elim ssubst, assumption)
  qed
qed

text \<open>What a loop over the instances leaves at the row of one of them.\<close>

abbreviation at_row ::
  "durable_host \<Rightarrow> WorkflowInstance \<Rightarrow> WorkflowRow option \<Rightarrow> durable_host \<Rightarrow> database_tables \<Rightarrow> bool" where
  "at_row M\<^sub>0 v row \<equiv> \<lambda>N E. instances N = instances M\<^sub>0 \<and> workflow_baseline N = workflow_baseline M\<^sub>0
     \<and> workflow_versions N = workflow_versions M\<^sub>0 \<and> map_of (t_workflows E) (workflow_row_key v) = row"

lemma flush_other:
  assumes "at_row M\<^sub>0 v row N E" "wf_workflow_id y \<noteq> wf_workflow_id v"
  shows "tx_wp (flush_workflow cfg y) (\<lambda>_. at_row M\<^sub>0 v row) N E"
  by (rule flush_workflow_wp) (use assms in \<open>auto simp: same_workflows_def workflow_row_key_def\<close>)

lemma flush_stale:
  assumes "at_row M\<^sub>0 v (Some row) N E" "changed_workflow (rn_codecs cfg) M\<^sub>0 (wf_workflow_id v) v"
    and "wfr_version row \<noteq> held_version M\<^sub>0 (wf_workflow_id v)"
  shows "tx_wp (flush_workflow cfg v) (\<lambda>_ _ _. False) N E"
  by (rule flush_workflow_wp) (use assms in \<open>auto simp: changed_workflow_def held_version_def\<close>)

lemma receipts_frame: "tx_keeps same_workflows (for_each (flush_workflow_receipt cfg) rs)"
proof -
  have mark: "tx_keeps same_workflows (upd (\<lambda>s. s\<lparr>flushed_receipts := f (flushed_receipts s)\<rparr>))" for f
    by (intro movesI upd_wp) (auto simp: same_workflows_def durable_host.truncate_def)
  show ?thesis
    unfolding flush_workflow_receipt_def Let_def
    by (intro workflow_frame.rules workflow_frame.command_kept workflow_frame.outcomes_kept mark)
qed

text \<open>The participants around the Workflow repository.\<close>

lemma participants_wp:
  assumes before: "\<And>N E. same_workflows M D N E \<Longrightarrow> tx_wp (bnd (asks (\<lambda>s. map snd (instances s))) (for_each (flush_workflow cfg))) (\<lambda>_. J) N E"
    and after: "\<And>M D N E. J M D \<Longrightarrow> same_workflows M D N E \<Longrightarrow> J N E"
  shows "tx_wp (for_each pt_flush (durable_participants cfg)) (\<lambda>_. J) M D"
proof -
  have frame: "tx_wp m (\<lambda>_. J) N E" if "tx_keeps same_workflows m" "J N E" for m :: "('z durable_host_scheme, unit) eff" and N E
    by (rule moves_wp [OF that(1), THEN wp_mono]) (use after that(2) in blast)
  have flush: "tx_wp (workflow_flush cfg) (\<lambda>_. J) N E" if "same_workflows M D N E" for N E
  proof -
    have eq: "workflow_flush cfg = bnd (bnd (asks (\<lambda>s. map snd (instances s))) (for_each (flush_workflow cfg)))
        (\<lambda>_. bnd (asks (\<lambda>s. map snd (command_receipts s))) (for_each (flush_workflow_receipt cfg)))"
      by (auto simp: workflow_flush_def bnd_def fun_eq_iff split: prod.splits sum.splits)
    show ?thesis
      unfolding eq by (rule wp_bnd, rule before [OF that, THEN wp_mono], rule wp_bnd, rule wp_asks, rule frame [OF receipts_frame])
  qed
  have chain: "tx_wp (bnd m f) (\<lambda>_. J) N E"
    if "tx_keeps same_workflows m" "J N E" "\<And>N E. J N E \<Longrightarrow> tx_wp (f ()) (\<lambda>_. J) N E"
    for m :: "('z durable_host_scheme, unit) eff" and f :: "unit \<Rightarrow> ('z durable_host_scheme, unit) eff" and N E
    by (rule wp_bnd, rule wp_mono [OF frame [OF that(1,2)]]) (simp add: that(3))
  have rest: "tx_wp (bnd (execution_flush cfg) (\<lambda>_. bnd (request_flush cfg) (\<lambda>_. bnd (decision_flush cfg) (\<lambda>_. ret ()))))
      (\<lambda>_. J) N E" if "J N E" for N E
    by (intro chain wp_pure workflow_frame.executions_kept workflow_frame.requests_kept workflow_frame.decisions_kept that)
  show ?thesis
    unfolding durable_participants_def for_each.simps TransactionParticipant.simps
    by (rule wp_bnd, rule moves_wp [OF workflow_frame.memory_kept, THEN wp_mono], rule wp_bnd, erule flush [THEN wp_mono], erule rest)
qed

lemma stale_refused:
  assumes "instances_keyed s" "changed_workflow (rn_codecs cfg) s w v"
    and "map_of (t_workflows (tables_of s)) (workflow_row_key v) = Some row" "wfr_version row \<noteq> held_version s w"
  shows "refused tables_of (durable_checkpoint cfg) s"
proof -
  let ?M = "durable_host.truncate s"
  have w: "wf_workflow_id v = w" "v \<in> set (map snd (instances ?M))"
    using assms(2) by (force simp: changed_workflow_def durable_host.truncate_def dest: map_of_SomeD)+
  have loop: "tx_wp (for_each (flush_workflow cfg) (map snd (instances ?M))) (\<lambda>_ _ _. False) N E"
    if "at_row ?M v (Some row) N E" for N E
  proof (rule wp_for_each_stops [where x = v and I = "at_row ?M v (Some row)"])
    fix y N E assume y: "y \<in> set (map snd (instances ?M))" "at_row ?M v (Some row) N E" "y \<noteq> v"
    have "wf_workflow_id y \<noteq> wf_workflow_id v"
      using keyed_instances [OF _ y(1) w(2)] assms(1) y(3) by (auto simp: instances_keyed_def durable_host.truncate_def)
    with y(2) show "tx_wp (flush_workflow cfg y) (\<lambda>_. at_row ?M v (Some row)) N E" by (rule flush_other)
  next
    fix N E assume "at_row ?M v (Some row) N E"
    then show "tx_wp (flush_workflow cfg v) (\<lambda>_ _ _. False) N E" by (rule flush_stale) (use assms w in simp_all)
  qed (use w(2) that in auto)
  have "tx_wp (for_each pt_flush (durable_participants cfg)) (\<lambda>_ _ _. False) ?M (tables_of s)"
    by (rule participants_wp, rule wp_bnd, rule wp_asks)
      (use loop assms(3) in \<open>auto simp: same_workflows_def durable_host.truncate_def\<close>)
  then show ?thesis
    unfolding durable_checkpoint_def checkpoint_with_def by (intro refused_bnd refused_transaction)
qed

text \<open>A changed Workflow gets the row of its next version, which the worker then holds.\<close>

lemma checkpoint_flushes:
  assumes s: "instances_keyed s" "changed_workflow (rn_codecs cfg) s w v" "od_ok (flushed_workflows s)"
    and run: "db_transaction (rn_db cfg) (for_each pt_flush (durable_participants cfg)) s = (Inr (), t)"
  shows "\<exists>row. map_of (t_workflows (tables_of t)) (workflow_row_key v) = Some row \<and> wfr_version row = held_version s w + 1
      \<and> wfr_payload row = rc_dump_workflow (rn_codecs cfg) v
      \<and> map_of (flushed_workflows t) w = Some (wfr_version row, wfr_payload row) \<and> od_ok (flushed_workflows t)"
    "instances t = instances s"
proof -
  let ?M = "durable_host.truncate s" and ?row = "map_of (t_workflows (tables_of s)) (workflow_row_key v)"
  have w: "wf_workflow_id v = w" "v \<in> set (map snd (instances ?M))"
    using s(2) by (force simp: changed_workflow_def durable_host.truncate_def dest: map_of_SomeD)+
  define J where "J = (\<lambda>N E. \<exists>row. at_row ?M v (Some row) N E \<and> wfr_version row = held_version s w + 1
     \<and> wfr_payload row = rc_dump_workflow (rn_codecs cfg) v
     \<and> map_of (flushed_workflows N) w = Some (wfr_version row, wfr_payload row) \<and> od_ok (flushed_workflows N))"
  let ?I = "\<lambda>N E. at_row ?M v ?row N E \<and> od_ok (flushed_workflows N)"
  have other: "wf_workflow_id y \<noteq> wf_workflow_id v" if "y \<in> set (map snd (instances ?M))" "y \<noteq> v" for y
    using keyed_instances [OF _ that(1) w(2)] s(1) that(2) by (auto simp: instances_keyed_def durable_host.truncate_def)
  have loop: "tx_wp (for_each (flush_workflow cfg) (map snd (instances ?M))) (\<lambda>_. J) N E" if "?I N E" for N E
  proof (rule wp_for_each_attains [where x = v and I = ?I])
    fix y N E assume y: "y \<in> set (map snd (instances ?M))" "?I N E" "y \<noteq> v"
    show "tx_wp (flush_workflow cfg y) (\<lambda>_. ?I) N E"
      by (rule flush_workflow_wp)
        (use y(2) other [OF y(1,3)] in \<open>auto simp: same_workflows_def workflow_row_key_def\<close>)
  next
    fix N E assume "?I N E"
    then show "tx_wp (flush_workflow cfg v) (\<lambda>_. J) N E"
      by (intro flush_workflow_wp)
        (use s(2) w(1) in \<open>auto simp: J_def same_workflows_def changed_workflow_def held_version_def durable_host.truncate_def\<close>)
  next
    fix y N E assume y: "y \<in> set (map snd (instances ?M))" and "J N E"
    then obtain row where row: "at_row ?M v (Some row) N E" "wfr_version row = held_version s w + 1"
      "wfr_payload row = rc_dump_workflow (rn_codecs cfg) v"
      "map_of (flushed_workflows N) w = Some (wfr_version row, wfr_payload row)" "od_ok (flushed_workflows N)"
      unfolding J_def by blast
    show "tx_wp (flush_workflow cfg y) (\<lambda>_. J) N E"
    proof (cases "y = v")
      case True
      have "tx_wp (flush_workflow cfg v) (\<lambda>_ _ _. False) N E"
        by (rule flush_stale [OF row(1)]) (use s(2) row(2) w(1) in simp_all)
      then show ?thesis unfolding True by (rule wp_mono) simp
    next
      case False
      show ?thesis
        by (rule flush_workflow_wp)
          (use row other [OF y False] w(1) in \<open>auto simp: J_def same_workflows_def workflow_row_key_def\<close>)
    qed
  qed (use w(2) that in auto)
  have "tx_wp (for_each pt_flush (durable_participants cfg)) (\<lambda>_. J) ?M (tables_of s)"
    by (rule participants_wp, rule wp_bnd, rule wp_asks)
      (use loop s(3) in \<open>auto simp: J_def same_workflows_def durable_host.truncate_def\<close>)
  from transaction(1) [OF this run refl] have "J (durable_host.truncate t) (tables_of t)" .
  then show "\<exists>row. map_of (t_workflows (tables_of t)) (workflow_row_key v) = Some row \<and> wfr_version row = held_version s w + 1
      \<and> wfr_payload row = rc_dump_workflow (rn_codecs cfg) v
      \<and> map_of (flushed_workflows t) w = Some (wfr_version row, wfr_payload row) \<and> od_ok (flushed_workflows t)"
    "instances t = instances s"
    unfolding J_def by (auto simp: durable_host.truncate_def)
qed

lemma checkpoint_split:
  assumes "durable_checkpoint cfg s = (Inr (), t)"
  obtains u where "db_transaction (rn_db cfg) (for_each pt_flush (durable_participants cfg)) s = (Inr (), u)"
    "t = snd (workflow_checkpoint_completed u)"
  using assms unfolding durable_checkpoint_def checkpoint_with_def
  by (elim bnd_InrE) (auto simp: durable_participants_def optional_def workflow_checkpoint_completed_def effect_simps)

lemma completed_view:
  fixes u :: "'z durable_host_scheme"
  defines "t \<equiv> snd (workflow_checkpoint_completed u)"
  shows "od_ok (flushed_workflows u) \<Longrightarrow> map_of (flushed_workflows u) w = Some (n, p) \<Longrightarrow>
      held_version t w = n \<and> map_of (workflow_baseline t) w = Some p"
    "tables_of t = tables_of u" "instances t = instances u"
proof -
  assume ok: "od_ok (flushed_workflows u)" and entry: "map_of (flushed_workflows u) w = Some (n, p)"
  have "map_of (put_all (map (\<lambda>(w, n, _). (w, n)) (flushed_workflows u)) (workflow_versions u)) w = Some n"
    "map_of (put_all (map (\<lambda>(w, _, p). (w, p)) (flushed_workflows u)) (workflow_baseline u)) w = Some p"
    by (subst map_of_put_all; simp only: od_ok_project ok map_of_project entry option.simps prod.sel)+
  then show "held_version t w = n \<and> map_of (workflow_baseline t) w = Some p"
    by (simp add: t_def workflow_checkpoint_completed_def effect_simps held_version_def)
qed (simp_all add: t_def workflow_checkpoint_completed_def effect_simps)

lemma checkpoint_current:
  assumes s: "instances_keyed s" "changed_workflow (rn_codecs cfg) s w v" "od_ok (flushed_workflows s)"
    and run: "durable_checkpoint cfg s = (Inr (), t)"
  shows "\<exists>row. map_of (t_workflows (tables_of t)) (workflow_row_key v) = Some row \<and> wfr_version row = held_version s w + 1
      \<and> wfr_payload row = rc_dump_workflow (rn_codecs cfg) v \<and> held_version t w = wfr_version row
      \<and> map_of (workflow_baseline t) w = Some (wfr_payload row)"
    "map_of (instances t) w = Some v"
proof -
  obtain u where u: "db_transaction (rn_db cfg) (for_each pt_flush (durable_participants cfg)) s = (Inr (), u)"
    and t: "t = snd (workflow_checkpoint_completed u)"
    using run by (rule checkpoint_split)
  from checkpoint_flushes [OF s u] s(2)
  show "\<exists>row. map_of (t_workflows (tables_of t)) (workflow_row_key v) = Some row \<and> wfr_version row = held_version s w + 1
      \<and> wfr_payload row = rc_dump_workflow (rn_codecs cfg) v \<and> held_version t w = wfr_version row
      \<and> map_of (workflow_baseline t) w = Some (wfr_payload row)" "map_of (instances t) w = Some v"
    using completed_view(1) [of u w] completed_view(2,3) [of u] unfolding t by (auto simp: changed_workflow_def)
qed

end

text \<open>C17 (safety). A worker that changed its copy of a Workflow which another worker has meanwhile committed cannot
  commit: its checkpoint raises and no row changes, whatever else it would have written.\<close>

theorem stale_snapshot_refused:
  assumes "runtime_db cfg tb bk" "instances_keyed s" "changed_workflow (rn_codecs cfg) s w v"
    and "map_of (t_workflows (tb (durable_host.more s))) (workflow_row_key v) = Some row"
    and "wfr_version row \<noteq> held_version s w"
  shows "refused (\<lambda>s. tb (durable_host.more s)) (durable_checkpoint cfg) s"
  by (rule runtime_db.stale_refused [OF assms])

text \<open>A worker that still holds version 0 of a Workflow another one has written.\<close>

definition stale_worker :: held_host where
  "stale_worker = worker (fst (durable_host.more (snd first_checkpoint))) (sample_instance_at 1)"

lemma sample_workers:
  "instances_keyed (worker D v)" "od_ok (flushed_workflows (worker D v))" "held_version (worker D v) w = 0"
  "wf_workflow_id v = w \<Longrightarrow> changed_workflow rc (worker D v) w v"
  by (simp_all add: worker_def durable_host.extend_def idle_host_def instances_keyed_def keyed_def held_version_def
      changed_workflow_def host_state.extend_def)

theorem stale_snapshot_refused_witness:
  "refused (\<lambda>s. fst (durable_host.more s)) (durable_checkpoint (sample_config host_held)) stale_worker"
proof -
  let ?key = "workflow_row_key (sample_instance_at 1)"
  have "map_option wfr_version (map_of (t_workflows (fst (durable_host.more (snd first_checkpoint)))) ?key) = Some 1"
    by code_simp
  then obtain row where "map_of (t_workflows (fst (durable_host.more stale_worker))) ?key = Some row" "wfr_version row = 1"
    by (auto simp: stale_worker_def worker_def durable_host.extend_def)
  then show ?thesis
    using stale_snapshot_refused [OF held_host.runtime_db_axioms, of stale_worker "''wf''" "sample_instance_at 1" row]
    by (simp add: stale_worker_def sample_workers sample_instance_at_def sample_instance_def)
qed

section \<open>What JSON makes of a Result\<close>

text \<open>
  pydantic writes a tuple in the free-form metadata of a Result as an array and reads an array back as a list; every
  other field of an envelope has a declared type and is restored as it was. \<open>json_result\<close> is what is left of a Result that
  went through JSON. The only tuple the Engine puts there is \<^verbatim>\<open>execution_ids\<close>: such a Result is \<open>restorable\<close>, and
  \<^verbatim>\<open>_normalize_result\<close> makes of its JSON form exactly the Result that was written.
\<close>

fun json_form :: "pyval \<Rightarrow> pyval" where
  "json_form (PDict d) = PDict (map (\<lambda>(k, v). (k, json_form v)) d)"
| "json_form (PTuple vs) = PList (map json_form vs)"
| "json_form (PList vs) = PList (map json_form vs)"
| "json_form v = v"

definition json_result :: "ResultEnvelope \<Rightarrow> ResultEnvelope" where
  "json_result r = r\<lparr>res_metadata := map (\<lambda>(k, v). (k, json_form v)) (res_metadata r)\<rparr>"

definition json_workflow :: "WorkflowInstance \<Rightarrow> WorkflowInstance" where
  "json_workflow v = v\<lparr>wf_outcome := map_option json_result (wf_outcome v)\<rparr>"

definition restorable :: "ResultEnvelope \<Rightarrow> bool" where
  "restorable r \<longleftrightarrow> od_ok (res_metadata r) \<and> (\<forall>(k, v) \<in> set (res_metadata r).
     if k = ''execution_ids'' then \<exists>ids. v = PTuple ids \<and> map json_form ids = ids else json_form v = v)"

lemma od_put_json:
  assumes "od_ok d" "\<And>j x. (j, x) \<in> set d \<Longrightarrow> j \<noteq> k \<Longrightarrow> f x = x" "map_of d k = Some v"
  shows "od_put k v (map (\<lambda>(k, x). (k, f x)) d) = d"
  using assms
proof (induction d)
  case (Cons e d)
  obtain j x where e: "e = (j, x)" by (cases e)
  show ?case
  proof (cases "j = k")
    case True
    have "map (\<lambda>(k, x). (k, f x)) d = d"
      using Cons.prems(1,2) by (intro map_idI) (force simp: e True)
    with Cons.prems(3) show ?thesis by (simp add: e True)
  next
    case False
    have "od_put k v (map (\<lambda>(k, x). (k, f x)) d) = d"
      using Cons.prems False by (intro Cons.IH) (auto simp: e)
    moreover have "f x = x" using Cons.prems(2) [of j x] False by (simp add: e)
    ultimately show ?thesis using False by (simp add: e)
  qed
qed simp

lemma normalize_json:
  assumes "restorable r"
  shows "normalize_result (json_result r) = r"
proof (cases "map_of (res_metadata r) ''execution_ids''")
  case None
  then have "map (\<lambda>(k, v). (k, json_form v)) (res_metadata r) = res_metadata r"
    using assms by (intro map_idI) (fastforce simp: restorable_def map_of_eq_None_iff image_iff)
  then have "json_result r = r" by (simp add: json_result_def)
  with None show ?thesis by (simp add: normalize_result_def)
next
  case (Some x)
  then obtain ids where x: "x = PTuple ids" "map json_form ids = ids"
    using assms map_of_SomeD [OF Some] by (force simp: restorable_def)
  have "map_of (map (\<lambda>(k, v). (k, json_form v)) (res_metadata r)) ''execution_ids'' = Some (PList ids)"
    using Some x by (simp add: map_of_map)
  moreover have "od_put ''execution_ids'' (PTuple ids) (map (\<lambda>(k, v). (k, json_form v)) (res_metadata r)) = res_metadata r"
    using assms Some x(1) by (intro od_put_json) (force simp: restorable_def)+
  ultimately show ?thesis by (simp add: normalize_result_def json_result_def)
qed

lemma restored_json:
  assumes "rc_load_workflow rc p = Inr (json_workflow v)" "\<forall>r. wf_outcome v = Some r \<longrightarrow> restorable r"
  shows "restored_workflow rc p = Inr v"
proof -
  have "map_option normalize_result (map_option json_result (wf_outcome v)) = wf_outcome v"
    using assms(2) by (cases "wf_outcome v") (simp_all add: normalize_json)
  with assms(1) show ?thesis by (simp add: restored_workflow_def ebind_def json_workflow_def)
qed

text \<open>A worker that refreshes a Workflow from a database that answers.\<close>

lemma refresh_returns:
  assumes "responsive_database (rn_db cfg) (\<lambda>s. tb (durable_host.more s)) (\<lambda>s. bk (durable_host.more s)) durable_host.truncate"
    and "map_of (t_workflows (tb (durable_host.more u))) (Scoped (rn_tenant cfg) (rn_workspace cfg) w) = Some row"
    and "restored_workflow (rn_codecs cfg) (wfr_payload row) = Inr v"
  shows "\<exists>u'. refresh_workflow cfg w u = (Inr (Some v), u') \<and> map_of (instances u') w = Some v
    \<and> held_version u' w = wfr_version row \<and> map_of (workflow_baseline u') w = Some (rc_dump_workflow (rn_codecs cfg) v)
    \<and> tb (durable_host.more u') = tb (durable_host.more u)"
proof -
  let ?tables = "\<lambda>s. tb (durable_host.more s)" and ?saved = "\<lambda>s. bk (durable_host.more s)"
  let ?get = "tbl_get (db_workflows (rn_db cfg)) (Scoped (rn_tenant cfg) (rn_workspace cfg) w)"
  note db = responsive_database.axioms(1) [OF assms(1)]
  note rows = durable_database.axioms(2) [OF db]
  have wp: "wp durable_host.truncate ?tables ?saved ?get (\<lambda>y N E. y = Some row \<and> N = durable_host.truncate u \<and> E = ?tables u)
      (durable_host.truncate u) (?tables u)"
    by (rule table_laws.statements(1) [OF rows]) (simp add: assms(2))
  have returns: "\<exists>y v. ?get t = (Inr y, v)" for t
    using responsive_database.workflow_read [OF assms(1)] by blast
  obtain t where "db_transaction (rn_db cfg) ?get u = (Inr (Some row), t)" "?tables t = ?tables u"
    using responsive_database.reading_transaction [OF assms(1) wp returns] by blast
  with assms(3) show ?thesis
    by (simp add: refresh_workflow_def effect_simps held_version_def)
qed

text \<open>C18 (roundtrip). A checkpoint that returns has written every changed Workflow as its next version. While that row
  stays, any worker that refreshes the Workflow from a database that answers gets exactly the instance that was written,
  the tuple of ExecutionIds in its outcome included, which JSON stores as a list; it holds that version and is not fenced by
  its own later write, and neither is the worker that wrote it. The serializer is pydantic's: it restores the instance up to
  the tuples in the metadata of its outcome.\<close>

theorem checkpoint_restores:
  assumes "responsive_database (rn_db cfg) (\<lambda>s. tb (durable_host.more s)) (\<lambda>s. bk (durable_host.more s)) durable_host.truncate"
    and "instances_keyed s" "od_ok (flushed_workflows s)"
    and "changed_workflow (rn_codecs cfg) s w v" "wf_tenant_id v = rn_tenant cfg" "wf_workspace_id v = rn_workspace cfg"
    and "rc_load_workflow (rn_codecs cfg) (rc_dump_workflow (rn_codecs cfg) v) = Inr (json_workflow v)"
    and "\<forall>r. wf_outcome v = Some r \<longrightarrow> restorable r"
    and "durable_checkpoint cfg s = (Inr (), t)"
    and "map_of (t_workflows (tb (durable_host.more u))) (workflow_row_key v)
       = map_of (t_workflows (tb (durable_host.more t))) (workflow_row_key v)"
  shows "\<exists>u'. refresh_workflow cfg w u = (Inr (Some v), u') \<and> map_of (instances u') w = Some v
    \<and> held_version u' w = held_version s w + 1 \<and> held_version t w = held_version s w + 1
    \<and> \<not> changed_workflow (rn_codecs cfg) u' w v \<and> \<not> changed_workflow (rn_codecs cfg) t w v"
proof -
  have rt: "runtime_db cfg tb bk"
    unfolding runtime_db_def by (rule responsive_database.axioms(1) [OF assms(1)])
  obtain row where row: "map_of (t_workflows (tb (durable_host.more t))) (workflow_row_key v) = Some row"
    "wfr_version row = held_version s w + 1" "wfr_payload row = rc_dump_workflow (rn_codecs cfg) v"
    "held_version t w = wfr_version row" "map_of (workflow_baseline t) w = Some (wfr_payload row)"
    using runtime_db.checkpoint_current [OF rt assms(2,4,3,9)] by blast
  have key: "workflow_row_key v = Scoped (rn_tenant cfg) (rn_workspace cfg) w"
    using assms(4-6) by (simp add: workflow_row_key_def changed_workflow_def)
  have restored: "restored_workflow (rn_codecs cfg) (wfr_payload row) = Inr v"
    unfolding row(3) by (rule restored_json [OF assms(7,8)])
  obtain u' where "refresh_workflow cfg w u = (Inr (Some v), u')" "map_of (instances u') w = Some v"
    "held_version u' w = wfr_version row" "map_of (workflow_baseline u') w = Some (rc_dump_workflow (rn_codecs cfg) v)"
    using refresh_returns [OF assms(1) _ restored] assms(10) row(1) unfolding key by metis
  with row show ?thesis by (intro exI [of _ u']) (auto simp: changed_workflow_def)
qed

text \<open>A worker whose Workflow has completed, with the metadata the Engine gives its outcome.\<close>

definition finished_outcome :: ResultEnvelope where
  "finished_outcome = sample_ack\<lparr>res_result_status := SUCCEEDED, res_completed_at := Some (Aware 7),
     res_metadata := [(''attempt_count'', PInt 1), (''execution_ids'', PTuple [PStr ''exec_1'']),
       (''audit_lineage'', PDict [(''command_id'', PStr ''c1'')])]\<rparr>"

definition finished_instance :: WorkflowInstance where
  "finished_instance = (sample_instance_at 0)\<lparr>wf_outcome := Some finished_outcome\<rparr>"

definition finished_config :: "held_host runtime_config" where
  "finished_config = (sample_config host_held)
     \<lparr>rn_codecs := sample_runtime_codecs\<lparr>rc_load_workflow := (\<lambda>_. Inr (json_workflow finished_instance))\<rparr>\<rparr>"

definition finished_checkpoint :: "(exn + unit) \<times> held_host" where
  "finished_checkpoint = durable_checkpoint finished_config (worker empty_tables finished_instance)"

lemma finished_checkpoint_runs: "fst finished_checkpoint = Inr ()"
  by code_simp

lemma finished_restorable: "restorable finished_outcome" "json_result finished_outcome \<noteq> finished_outcome"
  by (auto simp: restorable_def finished_outcome_def json_result_def sample_ack_def)

lemma responsive_host:
  "responsive_database (rn_db finished_config) (\<lambda>s. fst (durable_host.more s)) (\<lambda>s. snd (durable_host.more s)) durable_host.truncate"
  unfolding finished_config_def sample_config_def
  by (simp add: database_place.memory_responds [OF host_place.database_place_axioms])

theorem checkpoint_restores_witness:
  "\<exists>u'. refresh_workflow finished_config ''wf''
       (worker (fst (durable_host.more (snd finished_checkpoint))) (sample_instance_at 1)) = (Inr (Some finished_instance), u')
     \<and> held_version u' ''wf'' = 1 \<and> held_version (snd finished_checkpoint) ''wf'' = 1"
proof -
  have run: "durable_checkpoint finished_config (worker empty_tables finished_instance) = (Inr (), snd finished_checkpoint)"
    using finished_checkpoint_runs unfolding finished_checkpoint_def by (metis prod.collapse)
  have scope: "wf_workflow_id finished_instance = ''wf''" "wf_tenant_id finished_instance = rn_tenant finished_config"
    "wf_workspace_id finished_instance = rn_workspace finished_config"
    by (simp_all add: finished_instance_def finished_config_def sample_instance_at_def sample_instance_def sample_config_def)
  have codec: "rc_load_workflow (rn_codecs finished_config) (rc_dump_workflow (rn_codecs finished_config) finished_instance)
      = Inr (json_workflow finished_instance)"
    by (simp add: finished_config_def)
  have outcome: "\<forall>r. wf_outcome finished_instance = Some r \<longrightarrow> restorable r"
    by (simp add: finished_instance_def finished_restorable)
  have same: "fst (durable_host.more (worker D v)) = D" for D v by (simp add: worker_def durable_host.extend_def)
  show ?thesis
    using checkpoint_restores [OF responsive_host sample_workers(1,2) sample_workers(4) [OF scope(1)] scope(2,3) codec outcome
        run, of "worker (fst (durable_host.more (snd finished_checkpoint))) (sample_instance_at 1)"]
    by (auto simp: sample_workers same)
qed

end
