(* ===== verification/Durable_Replay.thy ===== *)
theory Durable_Replay
  imports Durable_Fences
begin

text \<open>
  Replay across workers: what a checkpoint leaves in the row of a request, and what any worker that is asked again with
  the same scope, idempotency key and intent answers from that row.
\<close>

section \<open>What a checkpoint leaves alone\<close>






section \<open>The row of a request\<close>


definition manager_receipt :: "'z durable_host_scheme \<Rightarrow> string \<Rightarrow> CommandEnvelope \<Rightarrow> ManagerReceipt" where
  "manager_receipt s k c = \<lparr>mgr_command = c, mgr_workflow_command = map_of (workflow_commands s) k,
     mgr_result = map_of (request_results s) k, mgr_error = map_of (request_errors s) k\<rparr>"



lemma manager_receipt_truncate [simp]: "manager_receipt (durable_host.truncate s) k c = manager_receipt s k c"
  by (simp add: manager_receipt_def durable_host.truncate_def)





section \<open>A request asked again\<close>



















end
