(* ===== verification/Durable_Conflict.thy ===== *)
theory Durable_Conflict
  imports Durable_History
begin

text \<open>
  The index \<^verbatim>\<open>uq_authoritative_terminal_outcome\<close>: one terminal outcome per subject and owner. The engine mints a
  terminal Result for every Command it rejects, and its subject is the Workflow the Command names; a second one, or
  the Workflow's own outcome after it, cannot be written, and the worker that holds it cannot commit anything else.
\<close>

section \<open>The index\<close>

definition outcome_slot :: "OutcomeRow \<Rightarrow> string \<times> string \<times> string \<times> string" where
  "outcome_slot r = (our_tenant_id r, our_workspace_id r, our_owner_component r, our_subject_id r)"

definition terminal_unique :: "(scoped, OutcomeRow) odict \<Rightarrow> bool" where
  "terminal_unique T \<longleftrightarrow> distinct (map outcome_slot (filter our_terminal (rows T)))"

lemma terminal_uniqueD:
  assumes "terminal_unique T" "map_of T k = Some p" "map_of T k' = Some q"
    and "our_terminal p" "our_terminal q" "outcome_slot p = outcome_slot q"
  shows "k = k'"
proof -
  have "k = k'" if "(k, p) \<in> set T" "(k', q) \<in> set T" "distinct (map outcome_slot (filter our_terminal (rows T)))" for T
    using that
  proof (induction T)
    case (Cons e T)
    have "outcome_slot r \<in> set (map outcome_slot (filter our_terminal (rows T)))" if "(i, r) \<in> set T" "our_terminal r" for i r
      using that by (force simp: rows_def)
    with this [of k p] this [of k' q] Cons assms(4-6) show ?case by (cases e) (auto simp: rows_def split: if_splits)
  qed simp
  from this [OF map_of_SomeD [OF assms(2)] map_of_SomeD [OF assms(3)]] assms(1) show ?thesis
    by (simp add: terminal_unique_def)
qed

locale indexed_db = runtime_db cfg tb bk
  for cfg :: "('z durable_host_scheme) runtime_config" and tb :: "'z \<Rightarrow> database_tables" and bk :: "'z \<Rightarrow> database_tables"
  + assumes indexed: "tbl_insert_missing (db_outcomes (rn_db cfg)) r s = (Inr x, t) \<Longrightarrow>
      terminal_unique (t_outcomes (tb (durable_host.more t)))"

text \<open>
  \<open>row\<close> is not in the table and \<open>q\<close>, which is, has its place. Neither changes as long as no other outcome comes
  under the key of \<open>row\<close>.
\<close>

definition taken :: "OutcomeRow \<Rightarrow> OutcomeRow \<Rightarrow> database_tables \<Rightarrow> bool" where
  "taken row q D \<longleftrightarrow> map_of (t_outcomes D) (outcome_key row) = None \<and> map_of (t_outcomes D) (outcome_key q) = Some q
     \<and> our_terminal row \<and> our_terminal q \<and> outcome_slot row = outcome_slot q"

definition stays_taken :: "OutcomeRow \<Rightarrow> OutcomeRow \<Rightarrow> durable_host \<Rightarrow> database_tables \<Rightarrow> durable_host \<Rightarrow> database_tables \<Rightarrow> bool" where
  "stays_taken row q M D N E \<longleftrightarrow> (taken row q D \<longrightarrow> taken row q E) \<and> instances N = instances M
     \<and> command_receipts N = command_receipts M \<and> receipt_baseline N = receipt_baseline M"

sublocale runtime_db \<subseteq> taking: wp_order durable_host.truncate "\<lambda>s. tb (durable_host.more s)" "\<lambda>s. bk (durable_host.more s)"
    "stays_taken row q" for row q
  by unfold_locales (auto simp: stays_taken_def)

text \<open>An outcome that comes under the key of \<open>row\<close> only if it has its place.\<close>

definition no_impostor :: "OutcomeRow \<Rightarrow> OutcomeRow \<Rightarrow> bool" where
  "no_impostor row p \<longleftrightarrow> (outcome_key p = outcome_key row \<longrightarrow> our_terminal p \<and> outcome_slot p = outcome_slot row)"

context indexed_db
begin

lemma insert_wp:
  assumes "terminal_unique (od_setdefault (outcome_key p) p (t_outcomes D)) \<Longrightarrow>
    Q () M (D\<lparr>t_outcomes := od_setdefault (outcome_key p) p (t_outcomes D)\<rparr>)"
  shows "tx_wp (tbl_insert_missing (db_outcomes (rn_db cfg)) p) Q M D"
proof (rule wp_acts)
  show "acts_on tables_of (\<lambda>s. (durable_host.truncate s, bk (durable_host.more s))) (tbl_insert_missing (db_outcomes (rn_db cfg)) p)
      (\<lambda>_ D E. E = D\<lparr>t_outcomes := od_setdefault (outcome_key p) p (t_outcomes D)\<rparr> \<and> terminal_unique (t_outcomes E))"
    using outcome_rows.inserted_missing [of p] indexed [of p] unfolding acts_on_def by blast
qed (use assms in auto)

lemma keep_taken:
  assumes "no_impostor row p"
  shows "tx_wp (keep_outcome (rn_db cfg) p msg) (\<lambda>_ N E. stays_taken row q M D N E \<and> (outcome_key p = outcome_key row \<longrightarrow> \<not> taken row q D)) M D"
  unfolding keep_outcome_def
proof (intro wp_bnd insert_wp outcome_rows.step_rules wp_pure)
  let ?E = "D\<lparr>t_outcomes := od_setdefault (outcome_key p) p (t_outcomes D)\<rparr>"
  assume unique: "terminal_unique (od_setdefault (outcome_key p) p (t_outcomes D))"
  have "\<not> taken row q D" if key: "outcome_key p = outcome_key row"
  proof
    assume taken: "taken row q D"
    with key assms have "map_of (t_outcomes ?E) (outcome_key row) = Some p" "map_of (t_outcomes ?E) (outcome_key q) = Some q"
      "our_terminal p" "outcome_slot p = outcome_slot q"
      by (auto simp: taken_def no_impostor_def)
    with terminal_uniqueD [OF unique, of "outcome_key row" p "outcome_key q" q] taken show False by (auto simp: taken_def)
  qed
  then show "stays_taken row q M D M ?E \<and> (outcome_key p = outcome_key row \<longrightarrow> \<not> taken row q D)"
    by (auto simp: stays_taken_def taken_def)
qed

end

section \<open>A worker that holds a second outcome\<close>

text \<open>What the Workflow repository would keep under a ResultId is the Result of that id.\<close>

definition same_id :: "ResultEnvelope \<Rightarrow> ResultEnvelope option \<Rightarrow> ErrorEnvelope option \<Rightarrow> bool" where
  "same_id x r e \<longleftrightarrow> (case r of None \<Rightarrow> True | Some r \<Rightarrow> res_result_id r = res_result_id x \<longrightarrow> r = x)
     \<and> (case e of None \<Rightarrow> True | Some e \<Rightarrow> err_error_id e \<noteq> res_result_id x)"

definition result_ids :: "'z durable_host_scheme \<Rightarrow> ResultEnvelope \<Rightarrow> bool" where
  "result_ids s x \<longleftrightarrow> (\<forall>v \<in> set (map snd (instances s)). same_id x (wf_outcome v) (wf_error v))
     \<and> (\<forall>c \<in> set (map snd (command_receipts s)). same_id x (Some (wr_result c)) (wr_error c))"

lemma same_idD:
  "same_id x r e \<Longrightarrow> \<forall>y. r = Some y \<and> res_result_id y = res_result_id x \<longrightarrow> y = x"
  "same_id x r e \<Longrightarrow> \<forall>y. e = Some y \<longrightarrow> err_error_id y \<noteq> res_result_id x"
  by (auto simp: same_id_def)

text \<open>A receipt that is still to be written, with a terminal Result whose subject already has one.\<close>

definition conflicting :: "runtime_codecs \<Rightarrow> 'z durable_host_scheme \<Rightarrow> database_tables \<Rightarrow> WorkflowCommandReceipt \<Rightarrow> OutcomeRow \<Rightarrow> bool"
where
  "conflicting rc s D c q \<longleftrightarrow> c \<in> set (map snd (command_receipts s))
     \<and> map_of (receipt_baseline s) (cmd_command_id (wr_command c)) \<noteq> Some (rc_dump_workflow_receipt rc c)
     \<and> result_ids s (wr_result c) \<and> taken (outcome_row rc (wr_result c) ''Workflow Engine'' 0) q D"

lemma taken_result: "taken (outcome_row rc x owner n) q D \<Longrightarrow> res_completed_at x \<noteq> None"
  by (auto simp: taken_def outcome_row_def)

lemma no_impostors:
  "(res_result_id r = res_result_id x \<longrightarrow> r = x) \<Longrightarrow> res_completed_at x \<noteq> None \<Longrightarrow>
     no_impostor (outcome_row rc x owner 0) (outcome_row rc r owner n)"
  "err_error_id e \<noteq> res_result_id x \<Longrightarrow> no_impostor (outcome_row rc x owner 0) (error_row rc e owner)"
  by (auto simp: no_impostor_def outcome_row_def error_row_def outcome_key_def outcome_slot_def)

lemma stays_taken_simps [simp]:
  "stays_taken row q M D M (D\<lparr>t_memory := T1\<rparr>)" "stays_taken row q M D M (D\<lparr>t_workflows := T2\<rparr>)"
  "stays_taken row q M D M (D\<lparr>t_steps := T3\<rparr>)" "stays_taken row q M D M (D\<lparr>t_idempotency := T4\<rparr>)"
  "stays_taken row q M D (M\<lparr>clock_reads := n\<rparr>) D" "stays_taken row q M D (M\<lparr>flushed_workflows := fw\<rparr>) D"
  "stays_taken row q M D (M\<lparr>flushed_receipts := fr\<rparr>) D" "stays_taken row q M D M D"
  by (simp_all add: stays_taken_def taken_def)

context indexed_db
begin

abbreviation engine_row where
  "engine_row x \<equiv> outcome_row (rn_codecs cfg) x ''Workflow Engine'' 0"

lemma outcomes_taking:
  assumes "res_completed_at x \<noteq> None"
  shows "(res_result_id r = res_result_id x \<longrightarrow> r = x) \<Longrightarrow>
      tx_keeps (stays_taken (engine_row x) q) (immutable_outcome cfg r ''Workflow Engine'')"
    "err_error_id e \<noteq> res_result_id x \<Longrightarrow> tx_keeps (stays_taken (engine_row x) q) (immutable_error cfg e ''Workflow Engine'')"
proof -
  have keep: "tx_keeps (stays_taken (engine_row x) q) (keep_outcome (rn_db cfg) p msg)" if "no_impostor (engine_row x) p" for p msg
    by (intro movesI keep_taken [OF that, where q = q, THEN wp_mono]) simp
  have clock: "tx_keeps (stays_taken (engine_row x) q) clock_now" by (intro movesI clock_wp) simp
  show "tx_keeps (stays_taken (engine_row x) q) (immutable_outcome cfg r ''Workflow Engine'')"
    if "res_result_id r = res_result_id x \<longrightarrow> r = x"
    unfolding immutable_outcome_def
    by (intro taking.bind keep no_impostors that assms) (auto split: prod.splits option.splits intro: taking.pure taking.bind clock)
  show "tx_keeps (stays_taken (engine_row x) q) (immutable_error cfg e ''Workflow Engine'')"
    if "err_error_id e \<noteq> res_result_id x"
    unfolding immutable_error_def by (intro keep no_impostors that)
qed

lemma outcome_blocked:
  assumes "taken (engine_row x) q D"
  shows "tx_wp (immutable_outcome cfg x ''Workflow Engine'') (\<lambda>_ _ _. False) M D"
proof -
  obtain time where x: "res_completed_at x = Some time" using taken_result [OF assms] by auto
  have "no_impostor (engine_row x) (outcome_row (rn_codecs cfg) x ''Workflow Engine'' n)" for n
    by (rule no_impostors) (simp_all add: x)
  note keep = keep_taken [OF this, where q = q and M = M and D = D, THEN wp_mono]
  have key: "outcome_key (outcome_row (rn_codecs cfg) x ''Workflow Engine'' n) = outcome_key (engine_row x)" for n
    by (simp add: outcome_key_def outcome_row_def)
  show ?thesis
    unfolding immutable_outcome_def x option.case prod.case
    by (intro wp_bnd wp_pure keep) (use assms key in simp)
qed

lemma flush_taking:
  assumes "res_completed_at x \<noteq> None"
  shows "\<forall>r. wf_outcome v = Some r \<and> res_result_id r = res_result_id x \<longrightarrow> r = x \<Longrightarrow>
      \<forall>e. wf_error v = Some e \<longrightarrow> err_error_id e \<noteq> res_result_id x \<Longrightarrow>
      tx_keeps (stays_taken (engine_row x) q) (flush_workflow cfg v)"
    "res_result_id (wr_result c) = res_result_id x \<longrightarrow> wr_result c = x \<Longrightarrow>
      \<forall>e. wr_error c = Some e \<longrightarrow> err_error_id e \<noteq> res_result_id x \<Longrightarrow>
      tx_keeps (stays_taken (engine_row x) q) (flush_workflow_receipt cfg c)"
    "tx_keeps (stays_taken (engine_row x) q) (memory_flush cfg)"
proof -
  let ?R = "stays_taken (engine_row x) q"
  have row: "tx_keeps ?R (put_workflow_row (rn_db cfg) v n p)" "tx_keeps ?R (tbl_upsert (db_steps (rn_db cfg)) r (\<lambda>_. True) f)"
      "tx_keeps ?R (flush_memory cfg m)" for n p r f m
    unfolding put_workflow_row_def flush_memory_def Let_def by (intro movesI runtime_rules; simp)+
  have command: "tx_keeps ?R (idempotency cfg target k b out p)" for target k b out p
    by (intro movesI idempotency_wp [OF _ _ _ HOL.refl]) simp_all
  have mark: "tx_keeps ?R (upd (\<lambda>s. s\<lparr>flushed_workflows := f (flushed_workflows s)\<rparr>))"
      "tx_keeps ?R (upd (\<lambda>s. s\<lparr>flushed_receipts := g (flushed_receipts s)\<rparr>))" for f g
    by (intro movesI upd_wp; force simp: truncate_flushed)+
  show "tx_keeps ?R (flush_workflow cfg v)"
    if "\<forall>r. wf_outcome v = Some r \<and> res_result_id r = res_result_id x \<longrightarrow> r = x"
      "\<forall>e. wf_error v = Some e \<longrightarrow> err_error_id e \<noteq> res_result_id x"
    unfolding flush_workflow_def Let_def
    by (intro taking.rules row mark outcomes_taking assms) (use that in auto)
  show "tx_keeps ?R (flush_workflow_receipt cfg c)"
    if "res_result_id (wr_result c) = res_result_id x \<longrightarrow> wr_result c = x"
      "\<forall>e. wr_error c = Some e \<longrightarrow> err_error_id e \<noteq> res_result_id x"
    unfolding flush_workflow_receipt_def Let_def
    by (intro taking.rules command mark outcomes_taking assms) (use that in auto)
  show "tx_keeps ?R (memory_flush cfg)" unfolding memory_flush_def by (intro taking.rules row)
qed

lemma receipt_blocked:
  assumes "taken (engine_row (wr_result c)) q D"
    and "map_of (receipt_baseline M) (cmd_command_id (wr_command c)) \<noteq> Some (rc_dump_workflow_receipt (rn_codecs cfg) c)"
  shows "tx_wp (flush_workflow_receipt cfg c) (\<lambda>_ _ _. False) M D"
proof -
  have taken: "taken (engine_row (wr_result c)) q (D\<lparr>t_idempotency := T\<rparr>)" for T using assms(1) by (simp add: taken_def)
  have stop: "tx_wp (bnd (immutable_outcome cfg (wr_result c) ''Workflow Engine'') f) (\<lambda>_ _ _. False) N E"
    if "taken (engine_row (wr_result c)) q E" for f :: "unit \<Rightarrow> ('z durable_host_scheme, unit) eff" and N E
    by (rule wp_bnd, rule outcome_blocked [OF that, THEN wp_mono]) simp
  show ?thesis
    unfolding flush_workflow_receipt_def Let_def
    by (intro wp_bnd wp_asks wp_branch idempotency_wp [OF _ _ _ HOL.refl] stop taken assms(1))
      (use assms(2) in \<open>auto simp: durable_host.truncate_def\<close>)
qed

lemma conflict_refused:
  assumes "conflicting (rn_codecs cfg) s (tables_of s) c q"
  shows "refused tables_of (durable_checkpoint cfg) s"
proof -
  let ?M = "durable_host.truncate s" and ?x = "wr_result c" and ?R = "stays_taken (engine_row (wr_result c)) q"
  note held = assms [unfolded conflicting_def]
  have x: "res_completed_at ?x \<noteq> None" using taken_result held by blast
  have ids: "result_ids s ?x" using held by blast
  have loop1: "tx_keeps ?R (for_each (flush_workflow cfg) (map snd (instances s)))"
    by (intro taking.each flush_taking(1) x) (use ids same_idD in \<open>unfold result_ids_def, blast+\<close>)
  have loop2: "tx_wp (for_each (flush_workflow_receipt cfg) (map snd (command_receipts s))) Q N E"
    if "?R ?M (tables_of s) N E" for N E and Q :: "unit \<Rightarrow> durable_host \<Rightarrow> database_tables \<Rightarrow> bool"
  proof (rule wp_for_each_stops [where x = c and I = "?R ?M (tables_of s)"])
    fix y N E assume y: "y \<in> set (map snd (command_receipts s))" and I: "?R ?M (tables_of s) N E"
    have "tx_keeps ?R (flush_workflow_receipt cfg y)"
      using ids y same_idD [of ?x "Some (wr_result y)" "wr_error y"]
      by (intro flush_taking(2) x) (auto simp: result_ids_def)
    then show "tx_wp (flush_workflow_receipt cfg y) (\<lambda>_. ?R ?M (tables_of s)) N E"
      by (intro moves_wp [THEN wp_mono]) (use I taking.trans in blast)+
  next
    fix N E assume "?R ?M (tables_of s) N E"
    then have "taken (engine_row ?x) q E" "receipt_baseline N = receipt_baseline s"
      using held by (auto simp: stays_taken_def durable_host.truncate_def)
    with held show "tx_wp (flush_workflow_receipt cfg c) (\<lambda>_ _ _. False) N E" by (intro receipt_blocked) auto
  qed (use held that in auto)
  have flush: "tx_wp (workflow_flush cfg) (\<lambda>_ _ _. False) N E" if "?R ?M (tables_of s) N E" for N E
    unfolding workflow_flush_def
  proof (intro wp_bnd wp_asks)
    fix u :: "'z durable_host_scheme"
    assume u: "durable_host.truncate u = N"
    with that have "instances u = instances s" by (auto simp: stays_taken_def durable_host.truncate_def)
    then show "tx_wp (for_each (flush_workflow cfg) (map snd (instances u)))
        (\<lambda>_. tx_wp (bnd (asks (\<lambda>s. map snd (command_receipts s))) (for_each (flush_workflow_receipt cfg))) (\<lambda>_ _ _. False)) N E"
    proof (simp only:, intro moves_wp [OF loop1, THEN wp_mono] wp_bnd wp_asks)
      fix N' E' and w :: "'z durable_host_scheme"
      assume step: "?R N E N' E'" and w: "durable_host.truncate w = N'"
      from taking.trans [OF that step] have R: "?R ?M (tables_of s) N' E'" .
      with w have "command_receipts w = command_receipts s" by (auto simp: stays_taken_def durable_host.truncate_def)
      with loop2 [OF R] show "tx_wp (for_each (flush_workflow_receipt cfg) (map snd (command_receipts w))) (\<lambda>_ _ _. False) N' E'"
        by simp
    qed
  qed
  have "tx_wp (for_each pt_flush (durable_participants cfg)) (\<lambda>_ _ _. False) ?M (tables_of s)"
    unfolding durable_participants_def for_each.simps TransactionParticipant.simps
    by (rule wp_bnd, rule moves_wp [OF flush_taking(3) [OF x], THEN wp_mono], rule wp_bnd, erule flush [THEN wp_mono]) simp
  then show ?thesis
    unfolding durable_checkpoint_def checkpoint_with_def by (intro refused_bnd refused_transaction)
qed

end

text \<open>A transaction writes nothing of the Workflow Engine's memory but what it is about to hold of the database.\<close>

definition same_engine :: "'z durable_host_scheme \<Rightarrow> 'z durable_host_scheme \<Rightarrow> bool" where
  "same_engine s t \<longleftrightarrow> instances t = instances s \<and> command_receipts t = command_receipts s \<and> receipt_baseline t = receipt_baseline s"

sublocale runtime_db \<subseteq> engine_memory: evolution "same_engine :: 'z durable_host_scheme \<Rightarrow> 'z durable_host_scheme \<Rightarrow> bool"
  by unfold_locales (auto simp: same_engine_def)

context runtime_db
begin

lemma same_engine_mem: "durable_host.truncate t = durable_host.truncate s \<Longrightarrow> same_engine s t"
  by (auto simp: same_engine_def durable_host.truncate_def)

lemma acts_same: "acts_on tables_of (\<lambda>s. (durable_host.truncate s, bk (durable_host.more s))) m P \<Longrightarrow> evolves same_engine m"
  unfolding evolves_def acts_on_def by (metis Pair_inject prod.collapse same_engine_mem)

lemmas statement_same =
  workflow_rows.upserted [THEN acts_same] step_rows.upserted [THEN acts_same] execution_rows.upserted [THEN acts_same]
  idempotency_rows.upserted [THEN acts_same] idempotency_rows.get [THEN acts_same]
  outcome_rows.inserted_missing [THEN acts_same] outcome_rows.get [THEN acts_same]
  decision_rows.inserted_missing [THEN acts_same] decision_rows.get [THEN acts_same]
  memory_rows.inserted_missing [THEN acts_same] memory_rows.get [THEN acts_same]

lemma engine_each: "(\<And>x. evolves same_engine (f x)) \<Longrightarrow> evolves same_engine (for_each f xs)"
  for f :: "'a \<Rightarrow> ('z durable_host_scheme, unit) eff"
  by (induction xs) (simp_all add: engine_memory.rules)

lemma engine_optional: "(\<And>y. evolves same_engine (f y)) \<Longrightarrow> evolves same_engine (optional x f)"
  for f :: "'a \<Rightarrow> ('z durable_host_scheme, unit) eff"
  by (simp add: optional_def engine_memory.rules split: option.split)

lemma engine_upd: "(\<And>s. same_engine s (f s)) \<Longrightarrow> evolves same_engine (upd f)"
  for f :: "'z durable_host_scheme \<Rightarrow> 'z durable_host_scheme"
  by (simp add: evolves_def effect_simps)

lemmas engine_rules = engine_each engine_optional engine_memory.rules statement_same

lemma flush_same: "evolves same_engine (for_each pt_flush (durable_participants cfg))"
proof -
  have clock: "evolves same_engine (clock_now :: ('z durable_host_scheme, int) eff)"
    by (auto simp: evolves_def effect_simps same_engine_def)
  have outcomes: "evolves same_engine (immutable_outcome cfg r owner)" "evolves same_engine (immutable_error cfg e owner)" for r e owner
    unfolding immutable_outcome_def immutable_error_def keep_outcome_def by (intro engine_rules clock; simp split: prod.split option.split add: clock engine_memory.rules)+
  have commands: "evolves same_engine (idempotency cfg target c b out p)" for target c b out p
    unfolding idempotency_def Let_def by (intro engine_rules)
  have marks: "evolves same_engine (upd (\<lambda>s :: 'z durable_host_scheme. s\<lparr>flushed_workflows := f (flushed_workflows s)\<rparr>))"
      "evolves same_engine (upd (\<lambda>s :: 'z durable_host_scheme. s\<lparr>flushed_receipts := g (flushed_receipts s)\<rparr>))" for f g
    by (intro engine_upd; simp add: same_engine_def)+
  have "evolves same_engine (flush_executions cfg previous rs)" for previous rs
    by (induction rs arbitrary: previous) (auto simp: Let_def intro!: engine_rules outcomes)
  then show ?thesis
    unfolding durable_participants_def for_each.simps TransactionParticipant.simps memory_flush_def flush_memory_def workflow_flush_def
      flush_workflow_def flush_workflow_receipt_def put_workflow_row_def execution_flush_def flush_execution_receipt_def
      request_flush_def flush_request_def decision_flush_def flush_decision_def Let_def
    by (intro engine_rules outcomes commands marks)
qed

lemma transaction_same:
  assumes "evolves same_engine body"
  shows "evolves same_engine (db_transaction (rn_db cfg) body)"
proof -
  have "evolves same_engine (db_begin (rn_db cfg))" "evolves same_engine (db_rollback (rn_db cfg))" "evolves same_engine (db_commit (rn_db cfg))"
    unfolding evolves_def by (metis begun rolled_back committed same_engine_mem prod.collapse)+
  with assms show ?thesis unfolding db_transaction_def by (intro engine_memory.rules)
qed

text \<open>A refused checkpoint does not get past its transaction.\<close>

lemma refused_same:
  assumes "refused tables_of (durable_checkpoint cfg) s"
  shows "same_engine s (snd (durable_checkpoint cfg s))"
proof -
  let ?tx = "db_transaction (rn_db cfg) (for_each pt_flush (durable_participants cfg))"
  obtain r t where run: "?tx s = (r, t)" by (metis surj_pair)
  have "r \<noteq> Inr ()"
    using assms run
    by (auto simp: refused_def durable_checkpoint_def checkpoint_with_def durable_participants_def optional_def
      workflow_checkpoint_completed_def effect_simps)
  then obtain e where "r = Inl e" by (cases r) auto
  with run have "snd (durable_checkpoint cfg s) = t" by (simp add: durable_checkpoint_def checkpoint_with_def bnd_def)
  with evolvesD [OF transaction_same [OF flush_same] run] show ?thesis by simp
qed

end

text \<open>C20 (error). A worker that holds the receipt of a rejected Command whose terminal Result names a subject that already
  has another terminal outcome cannot commit: the checkpoint raises, no row changes, and the receipt is still there, so
  that every later checkpoint of the worker raises too, whatever else it would have written.\<close>

theorem second_outcome_blocks_worker:
  assumes "indexed_db cfg tb bk" "conflicting (rn_codecs cfg) s (tb (durable_host.more s)) c q"
  shows "refused (\<lambda>s. tb (durable_host.more s)) (durable_checkpoint cfg) s
    \<and> conflicting (rn_codecs cfg) (snd (durable_checkpoint cfg s)) (tb (durable_host.more (snd (durable_checkpoint cfg s)))) c q"
proof
  show refused: "refused (\<lambda>s. tb (durable_host.more s)) (durable_checkpoint cfg) s"
    by (rule indexed_db.conflict_refused [OF assms])
  have "same_engine s (snd (durable_checkpoint cfg s))"
    using assms(1) refused by (intro runtime_db.refused_same) (auto simp: indexed_db_def)
  with refused assms(2)
  show "conflicting (rn_codecs cfg) (snd (durable_checkpoint cfg s)) (tb (durable_host.more (snd (durable_checkpoint cfg s)))) c q"
    by (simp add: refused_def same_engine_def conflicting_def result_ids_def)
qed

section \<open>Two denied cancellations\<close>

text \<open>A database in memory with the index.\<close>

definition indexed_database ::
  "('s \<Rightarrow> database_tables \<times> database_tables)
   \<Rightarrow> ((database_tables \<times> database_tables \<Rightarrow> database_tables \<times> database_tables) \<Rightarrow> 's \<Rightarrow> 's) \<Rightarrow> 's database"
where
  "indexed_database place store = (memory_database place store)
     \<lparr>db_outcomes := (db_outcomes (memory_database place store))
        \<lparr>tbl_insert_missing := (\<lambda>r.
           bnd (asks (\<lambda>s. od_setdefault (outcome_key r) r (t_outcomes (fst (place s))))) (\<lambda>T.
           bnd (guard (terminal_unique T) (RuntimeError ''IntegrityError'')) (\<lambda>_.
           upd (store (\<lambda>(D, B). (D\<lparr>t_outcomes := T\<rparr>, B))))))\<rparr>\<rparr>"

abbreviation host_indexed :: "held_host database" where
  "host_indexed \<equiv> indexed_database durable_host.more durable_host.more_update"

context database_place
begin

lemma indexed_table_laws:
  "table_laws mem (\<lambda>s. fst (held s)) (\<lambda>s. snd (held s)) t_outcomes (\<lambda>x. t_outcomes_update (\<lambda>_. x)) outcome_key
     (db_outcomes (indexed_database held hold))"
  by unfold_locales
    (auto simp: acts_on_def indexed_database_def memory_database_def memory_table_def effect_simps Let_def split_beta comp_def
       split: if_splits option.splits dest: greatest_Some)

lemma indexed_database_laws:
  "durable_database (indexed_database held hold) (\<lambda>s. fst (held s)) (\<lambda>s. snd (held s)) mem"
  using memory_database_laws indexed_table_laws
  unfolding durable_database_def session_frame_def by (simp add: indexed_database_def)

end

lemma indexed_runtime: "runtime_db (sample_config host_indexed) fst snd"
  unfolding runtime_db_def sample_config_def by (simp add: host_place.indexed_database_laws)

interpretation indexed_host: indexed_db "sample_config host_indexed" fst snd
  by (intro indexed_db.intro indexed_runtime indexed_db_axioms.intro)
    (auto simp: sample_config_def indexed_database_def effect_simps split_beta split: if_splits)

definition denied_cancel :: "string \<Rightarrow> CommandEnvelope" where
  "denied_cancel i = sample_command\<lparr>cmd_command_id := i, cmd_command_type := ''CancelWorkflow'', cmd_workflow_id := Some ''wf'',
     cmd_metadata := (cmd_metadata sample_command)\<lparr>cmeta_idempotency_key := i\<rparr>\<rparr>"

definition after_denial :: "(exn + unit) \<times> held_host" where
  "after_denial = bnd (engine_cancel (denied_cancel ''c1'')) (\<lambda>_. durable_checkpoint (sample_config host_indexed))
     (worker empty_tables (sample_instance_at 0))"

definition denied_twice :: held_host where
  "denied_twice = snd (engine_cancel (denied_cancel ''c2'') (snd after_denial))"

definition second_receipt :: WorkflowCommandReceipt where
  "second_receipt = snd (last (command_receipts denied_twice))"

definition first_outcome :: OutcomeRow where
  "first_outcome = hd (filter our_terminal (rows (t_outcomes (fst (durable_host.more denied_twice)))))"

theorem second_outcome_blocks_worker_witness:
  "fst after_denial = Inr () \<and> wr_command second_receipt = denied_cancel ''c2''
   \<and> refused (\<lambda>s. fst (durable_host.more s)) (durable_checkpoint (sample_config host_indexed)) denied_twice"
proof -
  have first: "\<not> isl (fst after_denial)" by code_simp
  have second: "wr_command second_receipt = denied_cancel ''c2''" by code_simp
  have "conflicting (rn_codecs (sample_config host_indexed)) denied_twice (fst (durable_host.more denied_twice))
      second_receipt first_outcome"
    by code_simp
  from second_outcome_blocks_worker [OF indexed_host.indexed_db_axioms this] first second show ?thesis
    by (cases "fst after_denial") simp_all
qed

end
