(* ===== verification/Http_Application.thy ===== *)
theory Http_Application
  imports Host_Composition Stream_Protocol
begin

text \<open>
  The application around the host: \<^verbatim>\<open>apps/api/src/aieos_api/settings.py\<close>, the reports of
  \<^verbatim>\<open>composition.py\<close> and \<^verbatim>\<open>database.py\<close> on readiness, and the handlers of \<^verbatim>\<open>main.py\<close>.

  A body that pydantic refuses never reaches a handler: its answer is \<open>Unprocessable\<close>. Routing and the server are the
  framework's.
\<close>

section \<open>Settings\<close>

datatype RuntimeAdapter = IN_MEMORY | POSTGRES

datatype MigrationMode = CHECK | UPGRADE

record HostSettings =
  hs_environment :: string
  hs_host_name :: string
  hs_tenant_id :: string
  hs_workspace_id :: string
  hs_secret_reference :: string
  hs_mock_ai_failures_before_success :: int
  hs_mock_ai_delay_seconds :: rat
  hs_reference_timeout_seconds :: rat
  hs_runtime_adapter :: RuntimeAdapter
  hs_database_url :: "string option"
  hs_database_pool_size :: int
  hs_database_pool_timeout_seconds :: rat
  hs_database_command_timeout_seconds :: rat
  hs_migration_mode :: MigrationMode
  hs_outbox_poll_interval_seconds :: rat
  hs_outbox_lease_seconds :: rat
  hs_outbox_batch_size :: int
  hs_delivery_backoff_seconds :: rat

definition default_settings :: HostSettings where
  "default_settings =
     \<lparr>hs_environment = ''local'', hs_host_name = ''aieos-local'', hs_tenant_id = ''local-tenant'',
      hs_workspace_id = ''local-workspace'', hs_secret_reference = ''env://AIEOS_LOCAL_SECRET'',
      hs_mock_ai_failures_before_success = 0, hs_mock_ai_delay_seconds = 0, hs_reference_timeout_seconds = 1,
      hs_runtime_adapter = IN_MEMORY, hs_database_url = None, hs_database_pool_size = 5,
      hs_database_pool_timeout_seconds = 10, hs_database_command_timeout_seconds = 30, hs_migration_mode = CHECK,
      hs_outbox_poll_interval_seconds = 1 / 4, hs_outbox_lease_seconds = 30, hs_outbox_batch_size = 50,
      hs_delivery_backoff_seconds = 1\<rparr>"

fun runtime_adapter_value :: "RuntimeAdapter \<Rightarrow> string" where
  "runtime_adapter_value IN_MEMORY = ''memory''"
| "runtime_adapter_value POSTGRES = ''postgres''"

fun migration_mode_value :: "MigrationMode \<Rightarrow> string" where
  "migration_mode_value CHECK = ''check''"
| "migration_mode_value UPGRADE = ''upgrade''"

text \<open>\<^verbatim>\<open>^[a-z]+://.+\<close>; the dot does not match a newline.\<close>

definition secret_reference_ok :: "string \<Rightarrow> bool" where
  "secret_reference_ok s =
     (let rest = dropWhile (\<lambda>c. CHR ''a'' \<le> c \<and> c \<le> CHR ''z'') s in
      rest \<noteq> s \<and> starts_with ''://'' rest \<and> 3 < length rest \<and> rest ! 3 \<noteq> CHR 0x0A)"

definition settings_fields_ok :: "HostSettings \<Rightarrow> bool" where
  "settings_fields_ok s \<longleftrightarrow> hs_environment s \<noteq> [] \<and> hs_host_name s \<noteq> [] \<and> hs_tenant_id s \<noteq> [] \<and> hs_workspace_id s \<noteq> []
     \<and> secret_reference_ok (hs_secret_reference s) \<and> 0 \<le> hs_mock_ai_failures_before_success s
     \<and> 0 \<le> hs_mock_ai_delay_seconds s \<and> 0 < hs_reference_timeout_seconds s
     \<and> 1 \<le> hs_database_pool_size s \<and> hs_database_pool_size s \<le> 50 \<and> 0 < hs_database_pool_timeout_seconds s
     \<and> 0 < hs_database_command_timeout_seconds s \<and> 0 < hs_outbox_poll_interval_seconds s
     \<and> 0 < hs_outbox_lease_seconds s \<and> 1 \<le> hs_outbox_batch_size s \<and> hs_outbox_batch_size s \<le> 1000
     \<and> 0 < hs_delivery_backoff_seconds s"

definition host_settings :: "HostSettings \<Rightarrow> exn + HostSettings" where
  "host_settings s =
     (if \<not> settings_fields_ok s then Inl (ValueError ''validation error for HostSettings'')
      else if hs_runtime_adapter s = POSTGRES \<and> hs_database_url s = None
        then Inl (ValueError ''database_url is required for PostgreSQL'')
      else if to_lower (hs_environment s) = ''production'' \<and> (hs_runtime_adapter s \<noteq> POSTGRES \<or> hs_database_url s = None)
        then Inl (ValueError ''production requires configured PostgreSQL'')
      else Inr s)"

definition safe_summary :: "HostSettings \<Rightarrow> pydict" where
  "safe_summary s =
     [(''environment'', PStr (hs_environment s)),
      (''runtime_adapter'', PStr (runtime_adapter_value (hs_runtime_adapter s))),
      (''database_configured'', PBool (hs_database_url s \<noteq> None)),
      (''migration_mode'', PStr (migration_mode_value (hs_migration_mode s)))]"

text \<open>\<^verbatim>\<open>PostgresDatabase.__init__\<close>: whether \<open>compose\<close> builds a database, and from which URL.\<close>

definition composed_database :: "HostSettings \<Rightarrow> exn + string option" where
  "composed_database s = (case hs_runtime_adapter s of
       IN_MEMORY \<Rightarrow> Inr None
     | POSTGRES \<Rightarrow> (case hs_database_url s of
           None \<Rightarrow> Inl AssertionError
         | Some url \<Rightarrow> if starts_with ''postgresql+asyncpg://'' url then Inr (Some url)
             else Inl (ValueError ''database URL must use postgresql+asyncpg'')))"

section \<open>Readiness\<close>

text \<open>What the query of \<^verbatim>\<open>migration_readiness\<close> comes to.\<close>

datatype revision_probe = Revision "string option" | Missing_Version_Table | Unreachable

definition EXPECTED_ALEMBIC_REVISION :: string where
  "EXPECTED_ALEMBIC_REVISION = ''20260811_0005''"

definition migration_readiness :: "revision_probe \<Rightarrow> pydict" where
  "migration_readiness probe = (case probe of
       Missing_Version_Table \<Rightarrow>
         [(''ready'', PBool False), (''status'', PStr ''version_table_missing''),
          (''expected_revision'', PStr EXPECTED_ALEMBIC_REVISION)]
     | Unreachable \<Rightarrow>
         [(''ready'', PBool False), (''status'', PStr ''database_unreachable''),
          (''expected_revision'', PStr EXPECTED_ALEMBIC_REVISION)]
     | Revision revision \<Rightarrow>
         (if revision = Some EXPECTED_ALEMBIC_REVISION
          then [(''ready'', PBool True), (''status'', PStr ''compatible''),
                (''expected_revision'', PStr EXPECTED_ALEMBIC_REVISION),
                (''deployed_revision'', PStr EXPECTED_ALEMBIC_REVISION)]
          else [(''ready'', PBool False),
                (''status'', PStr (case revision of
                   Some v \<Rightarrow> if v < EXPECTED_ALEMBIC_REVISION then ''behind_expected_head'' else ''ahead_or_diverged''
                 | None \<Rightarrow> ''ahead_or_diverged'')),
                (''expected_revision'', PStr EXPECTED_ALEMBIC_REVISION),
                (''deployed_revision'', PStr (case revision of None \<Rightarrow> ''None'' | Some v \<Rightarrow> v))]))"

text \<open>\<^verbatim>\<open>CompositionRoot.readiness\<close>; \<open>None\<close> is a composition without database.\<close>

definition readiness :: "revision_probe option \<Rightarrow> pydict" where
  "readiness probe =
     (let migration = (case probe of
            None \<Rightarrow> [(''ready'', PBool True), (''status'', PStr ''not_configured'')]
          | Some p \<Rightarrow> migration_readiness p);
          ready = (map_of migration ''ready'' = Some (PBool True)) in
      [(''status'', PStr (if ready then ''ready'' else ''not_ready'')),
       (''database'', case probe of None \<Rightarrow> PStr ''not_configured'' | Some _ \<Rightarrow> PBool ready),
       (''migration'', PDict migration)])"

definition FROZEN_RUNTIME_MODULES :: "string list" where
  "FROZEN_RUNTIME_MODULES =
     [''Authentication'', ''Workspace'', ''Manager'', ''Workflow Engine'', ''Skill Registry'', ''Skill Runtime'',
      ''AI Gateway'', ''Memory Service'', ''Capability Registry'', ''Scheduler'', ''Analytics'', ''Notification'',
      ''Logging'', ''Configuration'', ''Command Dispatcher'', ''Event Bus'']"

definition health :: pydict where
  "health = [(''status'', PStr ''ready''), (''module_count'', PInt (int (length FROZEN_RUNTIME_MODULES)))]"

section \<open>Handlers\<close>

datatype 'a http_answer = Unprocessable | Answer 'a

record HelloRequest =
  hq_message :: string
  hq_max_attempts :: int
  hq_timeout_seconds :: "rat option"
  hq_command_id :: "string option"
  hq_idempotency_key :: "string option"

definition hello_request_ok :: "HelloRequest \<Rightarrow> bool" where
  "hello_request_ok q \<longleftrightarrow> hq_message q \<noteq> [] \<and> 1 \<le> hq_max_attempts q
     \<and> (case hq_timeout_seconds q of None \<Rightarrow> True | Some x \<Rightarrow> 0 < x)
     \<and> hq_command_id q \<noteq> Some [] \<and> hq_idempotency_key q \<noteq> Some []"

fun outcome_category_value :: "OutcomeCategory \<Rightarrow> string" where
  "outcome_category_value ACKNOWLEDGEMENT_CATEGORY = ''Acknowledgement''"
| "outcome_category_value PROGRESS_CATEGORY = ''Progress''"
| "outcome_category_value SUCCESS_CATEGORY = ''Success''"
| "outcome_category_value PARTIAL_SUCCESS_CATEGORY = ''PartialSuccess''"
| "outcome_category_value REJECTION_CATEGORY = ''Rejection''"
| "outcome_category_value FAILURE_CATEGORY = ''Failure''"
| "outcome_category_value CANCELLATION_CATEGORY = ''Cancellation''"
| "outcome_category_value TIMEOUT_CATEGORY = ''Timeout''"

definition hello_answer :: "ResultEnvelope \<Rightarrow> pydict" where
  "hello_answer r =
     [(''result_id'', PStr (res_result_id r)), (''status'', PStr (result_status_value (res_result_status r))),
      (''outcome'', PStr (outcome_category_value (res_outcome_category r))),
      (''value'', opt_str (res_value_reference r)), (''error_id'', opt_str (res_error_id r)),
      (''metadata'', PDict (res_metadata r))]"

definition reference_hello :: "host_config \<Rightarrow> nat \<Rightarrow> HelloRequest \<Rightarrow> (host_state, pydict http_answer) eff" where
  "reference_hello cfg n q =
     (if \<not> hello_request_ok q then ret Unprocessable else
      bnd (run_message cfg n (hq_message q) (hq_command_id q) (hq_idempotency_key q) (hq_max_attempts q)
             (hq_timeout_seconds q)) (\<lambda>r.
      ret (Answer (hello_answer r))))"

record MockAIRequest =
  mq_prompt :: string
  mq_idempotency_key :: string
  mq_structured :: bool
  mq_stream :: bool
  mq_quality_tier :: int
  mq_max_output_tokens :: int

definition mock_ai_request_ok :: "MockAIRequest \<Rightarrow> bool" where
  "mock_ai_request_ok q \<longleftrightarrow> mq_prompt q \<noteq> [] \<and> mq_idempotency_key q \<noteq> [] \<and> 1 \<le> mq_quality_tier q \<and> mq_quality_tier q \<le> 3
     \<and> 1 \<le> mq_max_output_tokens q \<and> mq_max_output_tokens q \<le> 4096"

definition reference_invocation :: "host_config \<Rightarrow> MockAIRequest \<Rightarrow> (host_state, AIInvocationRequest) eff" where
  "reference_invocation cfg q =
     bnd (new_id ''execution'') (\<lambda>execution_id.
     bnd (new_id ''correlation'') (\<lambda>correlation_id.
     bnd (new_id ''decision'') (\<lambda>causation_id.
     bnd (new_id ''command'') (\<lambda>command_id.
     ret ((request_defaults execution_id ''text-generation-v1'' (mq_prompt q) (hc_tenant_id cfg) (hc_workspace_id cfg)
             correlation_id causation_id (reference_authorization (hc_tenant_id cfg) (hc_workspace_id cfg)) command_id
             (mq_idempotency_key q))
          \<lparr>rq_response_mode := if mq_structured q then STRUCTURED else TEXT,
           rq_output_schema_ref := if mq_structured q then Some ''reference-answer-v1'' else None,
           rq_quality_tier := mq_quality_tier q, rq_max_output_tokens := mq_max_output_tokens q\<rparr>)))))"

definition usage_document :: "AIUsage \<Rightarrow> pyval" where
  "usage_document u = PDict
     [(''input_tokens'', PInt (input_tokens u)), (''output_tokens'', PInt (output_tokens u)),
      (''estimated'', PBool (estimated u))]"

definition ai_answer :: "AIInvocationResponse \<Rightarrow> pydict" where
  "ai_answer r =
     [(''ai_invocation_id'', PStr (rsp_ai_invocation_id r)), (''result_id'', PStr (res_result_id (rsp_result r))),
      (''status'', PStr (result_status_value (res_result_status (rsp_result r)))),
      (''content'', opt_str (rsp_content r)), (''error_id'', opt_str (res_error_id (rsp_result r))),
      (''cache_hit'', PBool (rsp_cache_hit r)), (''route'', opt_str (map_option rt_model_key (rsp_route r))),
      (''usage'', case rsp_usage r of None \<Rightarrow> PNone | Some u \<Rightarrow> usage_document u)]"

definition reference_ai :: "host_config \<Rightarrow> MockAIRequest \<Rightarrow> (host_state, pydict http_answer) eff" where
  "reference_ai cfg q =
     (if \<not> mock_ai_request_ok q then ret Unprocessable else
      bnd (reference_invocation cfg q) (\<lambda>r.
      bnd (gateway_invoke (host_gateway cfg) r) (\<lambda>response.
      ret (Answer (ai_answer response)))))"

text \<open>One line of the stream: \<^verbatim>\<open>json.dumps(document, sort_keys=True) + "\n"\<close>.\<close>

definition chunk_document :: "StreamChunk \<Rightarrow> pydict" where
  "chunk_document c =
     [(''ai_invocation_id'', PStr (ch_ai_invocation_id c)), (''sequence'', PInt (ch_sequence c)), (''kind'', PStr (ch_kind c))]
     @ (case ch_content c of None \<Rightarrow> [] | Some x \<Rightarrow> [(''content'', PStr x)])
     @ (case ch_usage c of None \<Rightarrow> [] | Some u \<Rightarrow> [(''usage'', usage_document u)])
     @ (case ch_terminal c of None \<Rightarrow> [] | Some r \<Rightarrow> [(''terminal'', PDict
          [(''result_id'', PStr (res_result_id (rsp_result r))),
           (''status'', PStr (result_status_value (res_result_status (rsp_result r)))),
           (''error_id'', opt_str (res_error_id (rsp_result r)))])])"

definition newline :: char where
  "newline = CHR 0x0A"

definition chunk_line :: "text_services \<Rightarrow> StreamChunk \<Rightarrow> string" where
  "chunk_line tx c = json_dumps (json_sorted tx) (PDict (chunk_document c)) @ [newline]"

text \<open>The body that was sent, and the exception, if any, that ended it: \<open>st\<close> is the stream of the mock providers,
  \<open>gone\<close> tells when the connection is.\<close>

definition reference_ai_stream ::
  "host_config \<Rightarrow> host_state provider_stream \<Rightarrow> (host_state \<Rightarrow> bool) \<Rightarrow> MockAIRequest
   \<Rightarrow> (host_state, (string \<times> (exn + unit)) http_answer) eff"
where
  "reference_ai_stream cfg st gone q =
     (if \<not> mock_ai_request_ok q then ret Unprocessable else
      bnd (reference_invocation cfg q) (\<lambda>r s.
      case gateway_stream (http_env (host_gateway cfg) st gone) r (empty_frame, s) of
        (x, f, t) \<Rightarrow> (Inr (Answer (concat (map (chunk_line (hc_tx cfg)) (fr_yielded f)), x)), t)))"

section \<open>The framing of the stream\<close>

text \<open>What a reader has after splitting at newlines: the complete lines, and what follows the last one.\<close>

fun lines_of :: "string \<Rightarrow> string list \<times> string" where
  "lines_of [] = ([], [])"
| "lines_of (c # cs) = (case lines_of cs of (ls, rest) \<Rightarrow>
     if c = newline then ([] # ls, rest) else (case ls of [] \<Rightarrow> ([], c # rest) | l # ls \<Rightarrow> ((c # l) # ls, rest)))"

lemma lines_of_line:
  "newline \<notin> set l \<Longrightarrow> lines_of (l @ newline # cs) = (l # fst (lines_of cs), snd (lines_of cs))"
  by (induction l) (auto split: prod.splits)

definition plain :: "string \<Rightarrow> bool" where
  "plain s \<longleftrightarrow> newline \<notin> set s"

lemma plain_simps [simp]:
  "plain []" "plain (s @ t) \<longleftrightarrow> plain s \<and> plain t" "plain (c # s) \<longleftrightarrow> c \<noteq> newline \<and> plain s"
  by (auto simp: plain_def)

lemma plain_join: "plain sep \<Longrightarrow> \<forall>x \<in> set xs. plain x \<Longrightarrow> plain (join sep xs)"
  by (induction xs rule: induct_list012) auto

lemma hex_plain: "n < 16 \<Longrightarrow> hex_digit n \<noteq> newline"
proof -
  assume "n < 16"
  then have "hex_digit n \<in> set ''0123456789abcdef''" unfolding hex_digit_def by (intro nth_mem) simp
  then show ?thesis by (auto simp: newline_def)
qed

lemma json_char_plain: "plain (json_char c)"
proof -
  have "of_char c < (256 :: nat)" by simp
  then have "of_char c div 16 < (16 :: nat)" "of_char c mod 16 < (16 :: nat)" by (simp_all only: less_mult_imp_div_less)
  moreover have "c \<noteq> newline" if "of_char c \<noteq> (10 :: nat)" using that by (auto simp: newline_def)
  ultimately show ?thesis by (auto simp: json_char_def Let_def hex_plain) (simp_all add: newline_def)
qed

lemma json_string_plain: "plain (json_string s)"
proof -
  have "plain (concat (map json_char s))" by (induction s) (simp_all add: json_char_plain)
  then show ?thesis by (simp add: json_string_def newline_def)
qed

lemma digit_plain: "n < 10 \<Longrightarrow> digit_char n \<noteq> newline"
proof -
  assume "n < 10"
  then have "digit_char n \<in> set ''0123456789''" unfolding digit_char_def by (intro nth_mem) simp
  then show ?thesis by (auto simp: newline_def)
qed

lemma show_nat_plain: "plain (show_nat n)"
  by (induction n rule: show_nat.induct) (subst show_nat.simps, auto simp: digit_plain)

lemma json_atoms_plain:
  "plain (json_dumps st PNone)" "plain (json_dumps st (PBool b))" "plain (json_dumps st (PInt i))" "plain (json_dumps st (PStr x))"
  "plain (json_dumps st (opt_str y))"
  by (cases y; simp add: json_string_plain show_int_def show_nat_plain newline_def opt_str_def)+

lemma json_object_plain:
  "\<forall>v \<in> set (map snd d). plain (json_dumps (json_sorted tx) v) \<Longrightarrow> plain (json_dumps (json_sorted tx) (PDict d))"
  by (fastforce simp: json_object_def json_sorted_def newline_def json_string_plain intro!: plain_join)

lemma chunk_plain: "plain (json_dumps (json_sorted tx) (PDict (chunk_document c)))"
  by (rule json_object_plain)
    (auto simp: chunk_document_def usage_document_def json_atoms_plain split: option.splits simp del: json_dumps.simps
      intro!: json_object_plain)

lemma body_lines:
  "lines_of (concat (map (chunk_line tx) cs)) = (map (\<lambda>c. json_dumps (json_sorted tx) (PDict (chunk_document c))) cs, [])"
  using chunk_plain by (induction cs) (auto simp: chunk_line_def lines_of_line plain_def simp del: json_dumps.simps)

section \<open>Properties\<close>

text \<open>C29 (functional). The body of a streamed answer, cut at its newlines, is exactly one JSON document per chunk in the
  order of the stream, with nothing left over: no text of a model or of a request can break or forge a line. The
  documents are numbered from 0, and if the stream ended normally the last one is terminal.\<close>

theorem streamed_body_framed:
  assumes "reference_ai_stream cfg st gone q s = (Inr (Answer (body, x)), t)"
  shows "\<exists>cs. lines_of body = (map (\<lambda>c. json_dumps (json_sorted (hc_tx cfg)) (PDict (chunk_document c))) cs, [])
    \<and> map ch_sequence cs = map int [0..<length cs] \<and> (x = Inr () \<longrightarrow> cs \<noteq> [] \<and> ch_kind (last cs) = ''terminal'')"
proof -
  obtain r u f where "gateway_stream (http_env (host_gateway cfg) st gone) r (empty_frame, u) = (x, f, t)"
    and body: "body = concat (map (chunk_line (hc_tx cfg)) (fr_yielded f))"
    using assms by (auto simp: reference_ai_stream_def elim!: bnd_InrE split: if_splits prod.splits)
  with http.stream_finishes [of "host_gateway cfg" st gone r, unfolded runs_def, rule_format, OF HOL.refl, of u]
  have "numbered (fr_yielded f) \<and> (x = Inr () \<longrightarrow> finished (fr_yielded f))"
    by (cases x) (auto simp: protocol_def finished_def)
  then show ?thesis
    by (intro exI [of _ "fr_yielded f"]) (simp only: body body_lines, simp add: numbered_def finished_def)
qed

definition offline_config :: host_config where
  "offline_config =
     \<lparr>hc_tx = sample_tx, hc_str = (\<lambda>_. []), hc_repr_parameters = (\<lambda>_. []), hc_tenant_id = ''tenant'',
      hc_workspace_id = ''workspace'', hc_timeout_seconds = 1, hc_wait_for = (\<lambda>_ m. m),
      hc_provider_wait = (\<lambda>_ m. m), hc_wait = (\<lambda>_. ret ()), hc_lost = (\<lambda>_. False)\<rparr>"

definition two_lines :: "host_state provider_stream" where
  "two_lines = (\<lambda>adapter model prompt r timeout. ret
     [ret \<lparr>pe_kind = ''content_delta'', pe_content = Some [CHR ''a'', newline, CHR ''b''], pe_usage = None\<rparr>])"

definition offline_request :: MockAIRequest where
  "offline_request = \<lparr>mq_prompt = ''hi'', mq_idempotency_key = ''k'', mq_structured = False, mq_stream = True,
     mq_quality_tier = 1, mq_max_output_tokens = 128\<rparr>"

definition offline_stream :: "(exn + (string \<times> (exn + unit)) http_answer) \<times> host_state" where
  "offline_stream = reference_ai_stream offline_config two_lines (\<lambda>_. False) offline_request
     (host_init offline_config int show_nat 0)"

definition offline_answer :: "string \<times> (exn + unit)" where
  "offline_answer = (case fst offline_stream of Inr (Answer y) \<Rightarrow> y | _ \<Rightarrow> ([], Inl AssertionError))"

theorem streamed_body_framed_witness:
  "snd offline_answer = Inr () \<and> lines_of (fst offline_answer) = (fst (lines_of (fst offline_answer)), [])
   \<and> length (fst (lines_of (fst offline_answer))) = 4"
proof -
  have run: "(case fst offline_stream of Inr (Answer y) \<Rightarrow> (length (fst (lines_of (fst y))), snd y) | _ \<Rightarrow> (0, Inr ())) = (4, Inr ())"
    by code_simp
  then obtain body x where y: "fst offline_stream = Inr (Answer (body, x))"
    by (auto split: sum.splits http_answer.splits)
  then have "reference_ai_stream offline_config two_lines (\<lambda>_. False) offline_request (host_init offline_config int show_nat 0)
      = (Inr (Answer (body, x)), snd offline_stream)"
    unfolding offline_stream_def by (metis prod.collapse)
  from streamed_body_framed [OF this] run y show ?thesis by (auto simp: offline_answer_def)
qed

text \<open>Settings that pass validation can be composed: their adapter has the database it needs, unless its URL
  has another scheme, a production environment has PostgreSQL, and identities and bounds are in range.\<close>

theorem settings_governed:
  assumes "host_settings s = Inr t"
  shows "t = s \<and> composed_database t \<noteq> Inl AssertionError
    \<and> (to_lower (hs_environment t) = ''production'' \<longrightarrow> hs_runtime_adapter t = POSTGRES \<and> hs_database_url t \<noteq> None)
    \<and> hs_tenant_id t \<noteq> [] \<and> hs_workspace_id t \<noteq> [] \<and> 0 < hs_outbox_lease_seconds t
    \<and> 1 \<le> hs_outbox_batch_size t \<and> hs_database_pool_size t \<in> {1..50}"
  using assms
  by (auto simp: host_settings_def settings_fields_ok_def composed_database_def split: if_splits RuntimeAdapter.splits option.splits)

theorem settings_governed_witness:
  "composed_database (default_settings\<lparr>hs_environment := ''Production'', hs_runtime_adapter := POSTGRES, hs_database_url := Some ''x''\<rparr>)
     = Inl (ValueError ''database URL must use postgresql+asyncpg'')
   \<and> hs_database_url (default_settings\<lparr>hs_database_url := Some ''x''\<rparr>) \<noteq> None"
proof -
  let ?s = "default_settings\<lparr>hs_environment := ''Production'', hs_runtime_adapter := POSTGRES, hs_database_url := Some ''x''\<rparr>"
  have "host_settings ?s = Inr ?s" by code_simp
  from settings_governed [OF this] show ?thesis by (auto simp: composed_database_def)
qed

end
