(* ===== verification/Spec2Isabelle.thy ===== *)
theory Spec2Isabelle
  imports Gateway_Spending Host_Run Host_Refinement Provider_Streams Durable_Delivery Durable_Reservations Durable_Interleaving Durable_Replay Durable_Conflict Http_Application
begin

text \<open>
  \<^bold>\<open>AIEOS: a verification of the runtime, the AI Gateway and their composition.\<close>

  AIEOS accepts a request, turns it into a Workflow, runs the Workflow's step as an attempt of a Skill
  and, where the Skill needs a model, calls providers through one AI Gateway that owns prompts, routing,
  budgets and recovery. This development models that path from the Commands at the front to the HTTP
  responses of the providers, with the in-memory adapters of the reference host and with PostgreSQL.

  \<^bold>\<open>How the parts interact.\<close>
  The host (\<^verbatim>\<open>apps/api/.../composition.py\<close>) dispatches Commands by target component. The Manager
  answers a Request Command once and hands it to the Workflow Engine. The Engine creates an instance,
  publishes Events through the outbox, admits AI attempts against the budget of the Workflow and dispatches
  attempts to the Skill Runtime. The Runtime checks the Command, calls the Skill under a timeout and
  publishes a terminal Event; the relay of the outbox delivers it to the Engine, which completes, fails or
  retries. A Skill reaches the Gateway, which asks the Engine whether the admission it is shown is current.
  Engine, Runtime and relay re-enter each other through the dispatcher and the drain.

  \<^bold>\<open>How code becomes definitions.\<close>
  A coroutine is an effect \<open>('s, 'a) eff\<close>: a function from the state to a result or an exception and the
  next state (\<open>Effects\<close>). Exceptions are the datatype \<open>exn\<close>, with the classes of the \<^verbatim>\<open>except\<close> clauses
  as predicates. Dictionaries are association lists in insertion order (\<open>odict\<close>), JSON-like values
  are \<open>pyval\<close>, \<^verbatim>\<open>Decimal\<close> is coefficient and exponent, \<^verbatim>\<open>datetime\<close> is a naive or an aware
  instant. A dataclass is a record, its \<^verbatim>\<open>__post_init__\<close> a validating constructor. The state is one
  record, extended component by component: services, platform, messaging, Gateway store, Engine
  repository, Runtime repository, Memory and Manager; an operation is stated over the part it uses and any
  extension, so that composition needs no lifting.

  \<^bold>\<open>Theories and sources\<close> (below \<^verbatim>\<open>src/\<close>).
  \<^item> \<open>Prelude\<close>: dictionaries, strings, decimals in text, collections of simplification and preservation
    rules. \<open>Outcome_Kinds\<close>, \<open>Effects\<close>, \<open>Contracts\<close>: \<^verbatim>\<open>packages/contracts\<close> and
    \<^verbatim>\<open>packages/domain\<close> (statuses, Results, Errors, Commands, Events, clock, identifiers).
  \<^item> \<open>Platform\<close>: \<^verbatim>\<open>packages/security_support\<close>, \<^verbatim>\<open>packages/result_error_support\<close>, decision
    evidence and \<^verbatim>\<open>adapters/observability_default\<close>. \<open>Registries\<close>: the capability and Skill registries and
    the Command dispatcher. \<open>Memory_Service\<close>: \<^verbatim>\<open>packages/memory_service\<close> and its repository.
    \<open>Messaging\<close>: the event bus and outbox of \<^verbatim>\<open>adapters/event_bus_in_process\<close>. \<open>Json\<close>: \<^verbatim>\<open>json.dumps\<close>.
  \<^item> \<open>Governance\<close>: \<^verbatim>\<open>governance.py\<close> of the Engine (amounts, budget envelopes, admission bindings).
    \<open>Prompt_Pipeline\<close>: \<^verbatim>\<open>prompt_pipeline.py\<close> of the Gateway.
  \<^item> \<^verbatim>\<open>packages/ai_gateway/.../gateway.py\<close>: \<open>Gateway_Types\<close> (its data), \<open>Gateway_Store\<close>
    (\<^verbatim>\<open>ReferenceGatewayStore\<close>), \<open>Gateway_Claims\<close> and \<open>Gateway_Budget\<close> (runs of the store),
    \<open>Gateway_Assembly\<close>, \<open>Gateway_Routing\<close>, \<open>Gateway_Schema\<close>, \<open>Gateway_Admission\<close> (preflight and
    acceptance), \<open>Gateway_Execution\<close> (\<^verbatim>\<open>invoke\<close>, \<^verbatim>\<open>execute\<close>, attempts, repair, terminalization),
    \<open>Gateway_Spending\<close> (what execution guarantees), \<open>Gateway_Stream\<close> (\<^verbatim>\<open>stream\<close>),
    \<open>Stream_Protocol\<close> (what its reader can rely on) and \<open>Gateway_Frame\<close> (what it leaves alone).
  \<^item> \<^verbatim>\<open>packages/workflow_engine/.../engine.py\<close>: \<open>Workflow_Repository\<close>, \<open>Workflow_Engine\<close>, then
    \<open>Engine_Orders\<close>, \<open>Workflow_Outcomes\<close> and \<open>Workflow_Budget\<close> (what its handlers preserve).
  \<^item> \<open>Skill_Runtime\<close>: \<^verbatim>\<open>packages/skill_runtime/.../runtime.py\<close> and \<^verbatim>\<open>ports.py\<close>;
    \<open>Structured_Task\<close>: \<^verbatim>\<open>structured_task_kind.py\<close>; \<open>Reference_Components\<close>: the Manager, the
    reference Skill and the deterministic mock of \<^verbatim>\<open>adapters/ai_mock\<close>.
  \<^item> \<open>Host_Composition\<close>: \<^verbatim>\<open>compose\<close> and \<^verbatim>\<open>ReferenceRuntime\<close> without a database;
    \<open>Host_Invariants\<close>, \<open>Host_Records\<close>, \<open>Host_Properties\<close>, \<open>Host_Refinement\<close>, \<open>Host_Run\<close>: what holds
    along its runs.
  \<^item> \<open>Provider_Http\<close>, \<open>Provider_OpenAI\<close>, \<open>Provider_Gemini\<close>, \<open>Provider_Streams\<close>: the live adapters
    of \<^verbatim>\<open>adapters/ai_provider_openai\<close> and \<^verbatim>\<open>adapters/ai_provider_gemini\<close>, and the stream of the mock.
  \<^item> \<open>Http_Application\<close>: \<^verbatim>\<open>apps/api/.../main.py\<close> and \<^verbatim>\<open>settings.py\<close> (handlers, settings, readiness).
  \<^item> \<open>Durable_Outbox\<close>, \<open>Durable_Delivery\<close>: \<^verbatim>\<open>adapters/persistence_postgres/.../outbox.py\<close>, the outbox
    tables, their relay and the buffer in front of them.
  \<^item> \<open>Durable_Tables\<close>, \<open>Durable_Sessions\<close>: the rows of \<^verbatim>\<open>models.py\<close>, the statements and transactions of a
    session, what is relied on of them, and a database in memory that meets it. \<open>Durable_Responsive\<close>: a database
    that answers, on which totality rests.
  \<^item> \<open>Durable_Effects\<close> (codecs and \<^verbatim>\<open>PostgresProviderEffectBoundary\<close>), \<open>Durable_Gateway\<close>
    (\<^verbatim>\<open>PostgresAIGatewayStore\<close>), \<open>Durable_Boundary\<close>, \<open>Durable_Accounting\<close> (their runs), \<open>Durable_Reservations\<close> and
    \<open>Durable_Interleaving\<close> (reservations and accounting statement by statement): \<^verbatim>\<open>ai_gateway.py\<close>.
  \<^item> \<open>Durable_Runtime\<close> (intent, immutable rows, the Workflow repository) and \<open>Durable_Repositories\<close> (executions,
    requests, evidence, Memory, the checkpoint): \<^verbatim>\<open>runtime.py\<close> and \<^verbatim>\<open>memory.py\<close>. \<open>Durable_Host\<close>: the branches of
    \<^verbatim>\<open>composition.py\<close> with a database. \<open>Durable_Flush\<close>, \<open>Durable_History\<close>, \<open>Durable_Fences\<close>, \<open>Durable_Replay\<close>,
    \<open>Durable_Conflict\<close>: what a checkpoint and runs of them do to the rows.

  \<^bold>\<open>Interfaces.\<close>
  The contracts between components are locales, interpreted on the definitions of the model:
  \<open>keyed_catalog\<close> (registries and prompt catalog), \<open>memory_repository\<close>, \<open>admission_authority\<close> (the
  Engine as the Gateway sees it), \<open>event_consumers\<close> (what the relay asks of a consumer),
  \<open>gateway_ports\<close> (providers that leave the Workflow alone), \<open>evolution\<close> and \<open>engine_order\<close>
  (preorders that all handlers of the Engine respect if its ports do), \<open>outcome_ports\<close>,
  \<open>budget_ports\<close>, \<open>outbox_ports\<close>, \<open>record_ports\<close> (those ports for four such orders),
  \<open>host_order\<close> and \<open>core_order\<close> (the same for the composed host), \<open>stream_reader\<close> (code that iterates
  over a stream), \<open>metered_stream\<close> (providers whose usage reports never decrease), \<open>session_laws\<close>, \<open>durable_consumers\<close> and
  \<open>durable_buffer\<close> (the database, the consumers and the participants of the durable outbox), \<open>ordered_steps\<close> and
  \<open>simulation\<close> (runs); for the other tables \<open>table_laws\<close> and \<open>session_frame\<close>, collected in \<open>durable_database\<close> and used
  by \<open>gateway_db\<close>, \<open>runtime_db\<close> and \<open>indexed_db\<close> (with the unique index of outcomes); \<open>wp_order\<close>,
  \<open>immutable_order\<close>, \<open>flush_order\<close> and \<open>checkpoint_order\<close> (relations every participant of a checkpoint respects);
  \<open>responsive_database\<close> and \<open>responsive_effects\<close> (a database whose statements return), interpreted on the one in memory.
  Interleavings are step relations. \<open>store_step\<close> takes the operations of the Gateway store one at a time, each as a
  whole; \<open>ledger_step\<close> is its budget ledger, \<open>host_step\<close> the composed host, \<open>durable_step\<close> processes on the
  durable repositories. Where a property depends on how statements of two transactions interleave, the steps are
  statements under READ COMMITTED: \<open>reserve_step\<close> for reservations, \<open>usage_step\<close> for accounting and its fence. The
  fences of the other operations are reads or guards of their own as well: what is stated of them concerns operations
  that begin after a claim was granted.

  \<^bold>\<open>What is shown.\<close>
  \<^item> The host: outcomes of Workflows, executions and answered Commands are final and repeated Commands are
    answered from the record; no Event is lost and a drain that returns has delivered; committed
    AI exposure never exceeds the ceiling of a Workflow; all of it as a refinement of a write-once register.
    A reference request terminates with the documented Result.
  \<^item> The Gateway: spending and output stay within the limits of a request, hard budgets hold along every
    interleaving that settles in time, one idempotency key admits one invocation, claims fence their
    predecessors, recorded provider effects are final; routing takes a cheapest model that meets every hard
    constraint of the request and is not rate limited or cooling down, an ended cooldown included, context assembly keeps
    the mandatory part and cuts optimally, schema validation is exact; preflight demands the admission
    the Engine holds at that moment.
  \<^item> Streams: the numbering, order and ending of chunks for every provider, interleaving and point where
    the reader leaves; the content returned is the content delivered; a stream is opened once.
  \<^item> Providers: a call whose effect is unknown is never offered for repetition, an OpenAI stream succeeds on
    exactly one completed response, and no adapter of the repository trips the usage check.
  \<^item> The durable outbox: consistent tables and at-least-once delivery under any interleaving of workers.
  \<^item> The durable Gateway store: a provider effect runs at most once and its result answers every later caller; the
    fenced operations refuse a worker that was superseded before they began; however accounting transactions
    interleave, a usage event is charged once and the recorded amount never exceeds the ledger, and equals it where the
    transactions of an invocation do not overlap; reservations that interleave keep the limit of their workspace
    as long as none is settled after it expired.
  \<^item> The durable repositories: outcomes, evidence and Memory are written once, completed Commands stay completed,
    stale copies of a Workflow are refused and current ones restored exactly, answered requests are replayed by every
    worker without dispatching. What is restored or replayed is the JSON form of what was written, with the tuple of
    execution identifiers put back: the codec is assumed to return the JSON form, not the value.
  \<^item> The application: a streamed body is exactly one document per line; settings that validate can be composed.
  \<^item> Amounts round-trip between text and millionths, release evaluation and prompt release are exact.
  The divergences the model exposed (costs printed wrongly or not at all, a late settlement over the
  hard limit, a retryable timeout of OpenAI streams, an error body that is not normalized, a tenant limit that concurrent
  workspaces pass, concurrent charges of which one is not totalled and one lands after a takeover, a second terminal outcome that stops a worker from ever committing again) are theorems too.

  \<^bold>\<open>Bounds and parameters.\<close>
  Dispatcher and drain call each other through the components, so \<open>host_ports\<close> takes a recursion depth; at
  depth zero the call raises. Statements about runs hold for every depth, and the reference request needs
  six levels. Every other loop is structural or has a measure: the deliveries of a provider stream and the lines of
  a response are finite lists, attempts and repairs are bounded by the request.
  Parameters, because their code is not part of the repository: SHA-256, \<^verbatim>\<open>json.loads\<close>, the text of a
  float and \<^verbatim>\<open>str\<close> of other objects (\<open>text_services\<close>), \<^verbatim>\<open>asyncio.wait_for\<close> and the wait for a
  terminal event, the HTTP client, the database session and the codecs of pydantic. What other tasks do while a coroutine waits is part of these parameters and of the
  ports; hypotheses on them (\<open>cooperative\<close>, \<open>http_ok\<close>, \<open>stream_reader\<close>) are named and hold for
  concrete instances. The heartbeat task of the Gateway is represented by the event it sets, as a predicate of the state. A \<^verbatim>\<open>dict\<close>
  and a \<^verbatim>\<open>MappingProxyType\<close> are the same \<open>PDict\<close>: that a mapping cannot be assigned to is not represented.

  \<^bold>\<open>Not modelled.\<close>
  The durable host as one re-entrant system: its facade and its Event consumer are stated over any dispatcher, and the
  \<^verbatim>\<open>compose\<close> that wires them only builds objects. The framework around the handlers (routing, the server, the
  lifespan that builds and closes the composition) and the connection pool; migrations, whose tables are those of
  \<^verbatim>\<open>models.py\<close>, with amounts that fit their columns; foreign keys and the unique constraints other than primary keys
  and the index of outcomes; construction and closing of HTTP clients; the heartbeat as a task; placeholder packages
  without code; documentation and validation tooling (\<^verbatim>\<open>tooling\<close>), scripts and tests.
\<close>

end
